(* ===== verification/Prelude.thy ===== *)
theory Prelude
  imports Complex_Main "HOL-Library.Char_ord" "HOL-Library.List_Lexorder"
begin

text \<open>
  The vocabulary every component of the model shares: Python exceptions as values of a sum
  type, the JSON values that the program stores and exchanges, the Python operations on them
  (\<open>dict.get\<close>, subscription, iteration, truth value, \<open>==\<close>), the canonical form behind
  \<open>json.dumps(..., sort_keys=True)\<close>, and the string predicates the validators use.
  A Python string is a list of characters; the model covers the code points below 256.
\<close>

named_theorems res_simps "reading results of the error monad"
named_theorems facts_simps "unfolding of policy facts"

section \<open>Exceptions as values\<close>

text \<open>
  The exceptions the modelled code raises or catches. The carried text is the constant part of
  the source's message or its error code; interpolated values are left out.
\<close>

datatype exn =
    KeyError
  | TypeError
  | AttributeError
  | IndexError
  | PyValueError string
  | ValidationError
  | InvalidDiagnosisAssessment string
  | ProfileUnavailable string
  | InvalidRemediationPlan string
  | InvalidApprovalRequest string
  | InvalidApprovalDecision string
  | InvalidExecutionAuthorization string
  | LeaseLost string
  | UnsafeRetry string
  | ApprovalConflict
  | OutcomeUnknown string
  | ApiException int "string option"
  | TimeoutErr string
  | OperationalError
  | StopIteration
  | OtherError string
  | BudgetExceeded string
  | RunError
  | IdempotencyConflict
  | RoundConflict
  | RoundNotFound
  | StorageError
  | InvalidRunQuery
  | RunNotFound
  | MessageError string
  | MessageStorageError
  | UnsafeRemediationTarget string
  | RecheckUnavailable string
  | InvalidDiagnosisReference string
  | RuntimeErr string

text \<open>
  \<open>except ValueError\<close> also catches the subclasses: pydantic's \<open>ValidationError\<close> and the
  policy exceptions are declared as \<open>class X(ValueError)\<close>.
\<close>

fun is_value_error :: "exn \<Rightarrow> bool" where
  "is_value_error (PyValueError _) = True"
| "is_value_error ValidationError = True"
| "is_value_error (InvalidDiagnosisAssessment _) = True"
| "is_value_error (ProfileUnavailable _) = True"
| "is_value_error (InvalidRemediationPlan _) = True"
| "is_value_error (InvalidApprovalRequest _) = True"
| "is_value_error (InvalidApprovalDecision _) = True"
| "is_value_error (InvalidExecutionAuthorization _) = True"
| "is_value_error (MessageError _) = True"
| "is_value_error (UnsafeRemediationTarget _) = True"
| "is_value_error (RecheckUnavailable _) = True"
| "is_value_error (InvalidDiagnosisReference _) = True"
| "is_value_error _ = False"

text \<open>\<open>str(error)\<close>: the carried text, the class name where the source only interpolates.\<close>

fun exn_text :: "exn \<Rightarrow> string" where
  "exn_text (PyValueError s) = s"
| "exn_text (InvalidDiagnosisAssessment s) = s"
| "exn_text (ProfileUnavailable s) = s"
| "exn_text (InvalidRemediationPlan s) = s"
| "exn_text (InvalidApprovalRequest s) = s"
| "exn_text (InvalidApprovalDecision s) = s"
| "exn_text (InvalidExecutionAuthorization s) = s"
| "exn_text (LeaseLost s) = s"
| "exn_text (UnsafeRetry s) = s"
| "exn_text (OutcomeUnknown s) = s"
| "exn_text (BudgetExceeded s) = s"
| "exn_text (MessageError s) = s"
| "exn_text (UnsafeRemediationTarget s) = s"
| "exn_text (RecheckUnavailable s) = s"
| "exn_text (InvalidDiagnosisReference s) = s"
| "exn_text (RuntimeErr s) = s"
| "exn_text (TimeoutErr s) = s"
| "exn_text (OtherError s) = s"
| "exn_text KeyError = ''KeyError''"
| "exn_text TypeError = ''TypeError''"
| "exn_text AttributeError = ''AttributeError''"
| "exn_text IndexError = ''IndexError''"
| "exn_text ValidationError = ''ValidationError''"
| "exn_text _ = []"

fun is_profile_unavailable :: "exn \<Rightarrow> bool" where
  "is_profile_unavailable (ProfileUnavailable _) = True"
| "is_profile_unavailable _ = False"

type_synonym 'a res = "exn + 'a"

definition bindE :: "'a res \<Rightarrow> ('a \<Rightarrow> 'b res) \<Rightarrow> 'b res" where
  "bindE m f = (case m of Inl e \<Rightarrow> Inl e | Inr x \<Rightarrow> f x)"

definition require :: "bool \<Rightarrow> exn \<Rightarrow> unit res" where
  "require c e = (if c then Inr () else Inl e)"

lemma bindE_Inl [simp]: "bindE (Inl e) f = Inl e"
  by (simp add: bindE_def)

lemma bindE_Inr [simp]: "bindE (Inr x) f = f x"
  by (simp add: bindE_def)

lemma bindE_eq_Inr [res_simps]: "bindE m f = Inr y \<longleftrightarrow> (\<exists>x. m = Inr x \<and> f x = Inr y)"
  by (cases m) auto

lemma bindE_eq_Inl [res_simps]:
  "bindE m f = Inl e \<longleftrightarrow> m = Inl e \<or> (\<exists>x. m = Inr x \<and> f x = Inl e)"
  by (cases m) auto

lemma bindE_cong [fundef_cong]:
  "m = m' \<Longrightarrow> (\<And>x. m' = Inr x \<Longrightarrow> f x = g x) \<Longrightarrow> bindE m f = bindE m' g"
  by (cases m') auto

lemma require_eq_Inr [res_simps]: "require c e = Inr u \<longleftrightarrow> c"
  by (simp add: require_def)

lemma require_eq_Inl [res_simps]: "require c e = Inl e' \<longleftrightarrow> \<not> c \<and> e' = e"
  by (auto simp: require_def)

lemma require_True [simp]: "require True e = Inr ()"
  by (simp add: require_def)

lemma require_False [simp]: "require False e = Inl e"
  by (simp add: require_def)

text \<open>A sequence of \<open>require(condition, message)\<close> calls that raise one exception class.\<close>

fun require_all :: "(string \<Rightarrow> exn) \<Rightarrow> (bool \<times> string) list \<Rightarrow> unit res" where
  "require_all e [] = Inr ()"
| "require_all e ((c, m) # cs) = (if c then require_all e cs else Inl (e m))"

lemma require_all_eq_Inr [res_simps]: "require_all e cs = Inr u \<longleftrightarrow> list_all fst cs"
  by (induction cs) (auto split: if_splits)

lemma require_all_eq_Inl: "require_all e cs = Inl x \<Longrightarrow> \<exists>m. x = e m"
  by (induction cs) (auto split: if_splits)

lemma require_all_append [simp]:
  "require_all e (cs @ ds) = bindE (require_all e cs) (\<lambda>_. require_all e ds)"
  by (induction cs) auto

text \<open>\<open>try: ... except C: ...\<close>\<close>

definition catchE :: "'a res \<Rightarrow> (exn \<Rightarrow> bool) \<Rightarrow> (exn \<Rightarrow> 'a res) \<Rightarrow> 'a res" where
  "catchE m p h = (case m of Inl e \<Rightarrow> if p e then h e else Inl e | Inr x \<Rightarrow> Inr x)"

lemma catchE_simps [simp]:
  "catchE (Inr x) p h = Inr x"
  "p e \<Longrightarrow> catchE (Inl e) p h = h e"
  "\<not> p e \<Longrightarrow> catchE (Inl e) p h = Inl e"
  by (simp_all add: catchE_def)

lemma catchE_eq_Inr:
  "catchE m p h = Inr x \<longleftrightarrow> m = Inr x \<or> (\<exists>e. m = Inl e \<and> p e \<and> h e = Inr x)"
  by (cases m) (auto simp: catchE_def)

text \<open>A \<open>raise\<close>-free test on a result.\<close>

definition isOK :: "'a res \<Rightarrow> bool" where
  "isOK m = (case m of Inl _ \<Rightarrow> False | Inr _ \<Rightarrow> True)"

lemma isOK_simps [simp]: "isOK (Inr x)" "\<not> isOK (Inl e)"
  by (simp_all add: isOK_def)

lemma isOK_iff: "isOK m \<longleftrightarrow> (\<exists>x. m = Inr x)"
  by (cases m) auto

text \<open>A comprehension whose element expression may raise; \<open>any\<close>, \<open>all\<close> stop early as in Python.\<close>

fun mapE :: "('a \<Rightarrow> 'b res) \<Rightarrow> 'a list \<Rightarrow> 'b list res" where
  "mapE f [] = Inr []"
| "mapE f (x # xs) = bindE (f x) (\<lambda>y. bindE (mapE f xs) (\<lambda>ys. Inr (y # ys)))"

fun filterE :: "('a \<Rightarrow> bool res) \<Rightarrow> 'a list \<Rightarrow> 'a list res" where
  "filterE p [] = Inr []"
| "filterE p (x # xs) = bindE (p x) (\<lambda>b. bindE (filterE p xs) (\<lambda>ys. Inr (if b then x # ys else ys)))"

fun anyE :: "('a \<Rightarrow> bool res) \<Rightarrow> 'a list \<Rightarrow> bool res" where
  "anyE p [] = Inr False"
| "anyE p (x # xs) = bindE (p x) (\<lambda>b. if b then Inr True else anyE p xs)"

fun allE :: "('a \<Rightarrow> bool res) \<Rightarrow> 'a list \<Rightarrow> bool res" where
  "allE p [] = Inr True"
| "allE p (x # xs) = bindE (p x) (\<lambda>b. if b then allE p xs else Inr False)"

text \<open>\<open>next((x for x in xs if p(x)), None)\<close>.\<close>

fun findE :: "('a \<Rightarrow> bool res) \<Rightarrow> 'a list \<Rightarrow> 'a option res" where
  "findE p [] = Inr None"
| "findE p (x # xs) = bindE (p x) (\<lambda>b. if b then Inr (Some x) else findE p xs)"

text \<open>\<open>and\<close>/\<open>or\<close> whose second operand may raise.\<close>

definition andE :: "bool res \<Rightarrow> bool res \<Rightarrow> bool res" where
  "andE a b = bindE a (\<lambda>x. if x then b else Inr False)"

definition orE :: "bool res \<Rightarrow> bool res \<Rightarrow> bool res" where
  "orE a b = bindE a (\<lambda>x. if x then Inr True else b)"

lemma andE_eq_True [res_simps]: "andE a b = Inr True \<longleftrightarrow> a = Inr True \<and> b = Inr True"
  by (cases a) (auto simp: andE_def)

lemma andE_simps [simp]: "andE (Inr True) b = b" "andE (Inr False) b = Inr False" "andE (Inl e) b = Inl e"
  by (simp_all add: andE_def)

lemma orE_simps [simp]: "orE (Inr True) b = Inr True" "orE (Inr False) b = b" "orE (Inl e) b = Inl e"
  by (simp_all add: orE_def)

lemma orE_eq_False [res_simps]: "orE a b = Inr False \<longleftrightarrow> a = Inr False \<and> b = Inr False"
  by (cases a) (auto simp: orE_def)

lemma mapE_length: "mapE f xs = Inr ys \<Longrightarrow> length ys = length xs"
  by (induction xs arbitrary: ys) (auto simp: res_simps)

lemma mapE_set: "mapE f xs = Inr ys \<Longrightarrow> y \<in> set ys \<Longrightarrow> \<exists>x\<in>set xs. f x = Inr y"
  by (induction xs arbitrary: ys) (auto simp: res_simps)

lemma filterE_set: "filterE p xs = Inr ys \<Longrightarrow> set ys = {x \<in> set xs. p x = Inr True}"
  by (induction xs arbitrary: ys) (auto simp: res_simps split: if_splits)

lemma anyE_True: "anyE p xs = Inr True \<Longrightarrow> \<exists>x\<in>set xs. p x = Inr True"
  by (induction xs) (auto simp: res_simps split: if_splits)

lemma anyE_False: "anyE p xs = Inr False \<Longrightarrow> x \<in> set xs \<Longrightarrow> p x = Inr False"
  by (induction xs) (auto simp: res_simps split: if_splits)

lemma allE_True: "allE p xs = Inr True \<Longrightarrow> x \<in> set xs \<Longrightarrow> p x = Inr True"
  by (induction xs) (auto simp: res_simps split: if_splits)

lemma findE_Some: "findE p xs = Inr (Some x) \<Longrightarrow> x \<in> set xs \<and> p x = Inr True"
  by (induction xs) (auto simp: res_simps split: if_splits)

lemma mapE_Inr [simp]: "mapE (\<lambda>x. Inr (f x)) xs = Inr (map f xs)"
  by (induction xs) auto

section \<open>JSON values and the Python operations on them\<close>

text \<open>
  Dictionaries are association lists in insertion order; the code builds them with distinct
  keys. A finite float is an exact rational number.
\<close>

datatype json =
    JNull
  | JBool bool
  | JInt int
  | JFloat rat
  | JStr string
  | JArr "json list"
  | JObj "(string \<times> json) list"

type_synonym dict = "(string \<times> json) list"

text \<open>The numeric value of a number; Python's booleans are numbers.\<close>

fun num_of :: "json \<Rightarrow> rat option" where
  "num_of (JBool b) = Some (if b then 1 else 0)"
| "num_of (JInt i) = Some (of_int i)"
| "num_of (JFloat q) = Some q"
| "num_of _ = None"

fun truthy :: "json \<Rightarrow> bool" where
  "truthy JNull = False"
| "truthy (JBool b) = b"
| "truthy (JInt i) = (i \<noteq> 0)"
| "truthy (JFloat q) = (q \<noteq> 0)"
| "truthy (JStr s) = (s \<noteq> [])"
| "truthy (JArr xs) = (xs \<noteq> [])"
| "truthy (JObj kvs) = (kvs \<noteq> [])"

text \<open>\<open>==\<close>: numbers compare by value across types, dictionaries without regard to order.\<close>

function (sequential) py_eq :: "json \<Rightarrow> json \<Rightarrow> bool"
  and py_eqs :: "json list \<Rightarrow> json list \<Rightarrow> bool"
  and py_eqd :: "dict \<Rightarrow> dict \<Rightarrow> bool" where
  "py_eq JNull b = (b = JNull)"
| "py_eq (JStr s) b = (b = JStr s)"
| "py_eq (JArr xs) b = (case b of JArr ys \<Rightarrow> py_eqs xs ys | _ \<Rightarrow> False)"
| "py_eq (JObj xs) b = (case b of JObj ys \<Rightarrow> length xs = length ys \<and> py_eqd xs ys | _ \<Rightarrow> False)"
| "py_eq a b = (num_of b \<noteq> None \<and> num_of a = num_of b)"
| "py_eqs [] ys = (ys = [])"
| "py_eqs (x # xs) ys = (case ys of [] \<Rightarrow> False | y # ys' \<Rightarrow> py_eq x y \<and> py_eqs xs ys')"
| "py_eqd [] ys = True"
| "py_eqd ((k, v) # xs) ys =
     ((case map_of ys k of None \<Rightarrow> False | Some w \<Rightarrow> py_eq v w) \<and> py_eqd xs ys)"
  by pat_completeness auto
termination
  by (relation "measure (case_sum (\<lambda>(a, b). size a)
        (case_sum (\<lambda>(xs, ys). size_list size xs) (\<lambda>(xs, ys). size_list (size_prod (\<lambda>_. 0) size) xs)))")
     auto

definition py_eq_str :: "json \<Rightarrow> string \<Rightarrow> bool" where
  "py_eq_str v s = (v = JStr s)"

lemma py_eq_JStr [simp]: "py_eq v (JStr s) \<longleftrightarrow> v = JStr s"
  by (cases v) auto

lemma py_eqd_lookup: "py_eqd xs ys \<Longrightarrow> (k, v) \<in> set xs \<Longrightarrow> \<exists>w. map_of ys k = Some w \<and> py_eq v w"
  by (induction xs) (auto split: option.splits)

text \<open>\<open>d.get(k)\<close> and \<open>d.get(k, default)\<close> on a dictionary; a missing key reads as \<open>None\<close>.\<close>

definition dget :: "dict \<Rightarrow> string \<Rightarrow> json" where
  "dget d k = (case map_of d k of None \<Rightarrow> JNull | Some v \<Rightarrow> v)"

definition dget_or :: "dict \<Rightarrow> string \<Rightarrow> json \<Rightarrow> json" where
  "dget_or d k v0 = (case map_of d k of None \<Rightarrow> v0 | Some v \<Rightarrow> v)"

definition has_key :: "dict \<Rightarrow> string \<Rightarrow> bool" where
  "has_key d k = (map_of d k \<noteq> None)"

text \<open>The same on a value that may be no dictionary: only \<open>dict\<close> has \<open>get\<close>.\<close>

definition jget :: "json \<Rightarrow> string \<Rightarrow> json res" where
  "jget v k = (case v of JObj d \<Rightarrow> Inr (dget d k) | _ \<Rightarrow> Inl AttributeError)"

definition jget_or :: "json \<Rightarrow> string \<Rightarrow> json \<Rightarrow> json res" where
  "jget_or v k v0 = (case v of JObj d \<Rightarrow> Inr (dget_or d k v0) | _ \<Rightarrow> Inl AttributeError)"

text \<open>\<open>v[k]\<close> with a string key.\<close>

definition jindex :: "json \<Rightarrow> string \<Rightarrow> json res" where
  "jindex v k = (case v of JObj d \<Rightarrow> (case map_of d k of None \<Rightarrow> Inl KeyError | Some w \<Rightarrow> Inr w)
                 | _ \<Rightarrow> Inl TypeError)"

text \<open>\<open>for x in v\<close>: lists give their elements, dictionaries their keys, strings their characters.\<close>

fun jiter :: "json \<Rightarrow> json list res" where
  "jiter (JArr xs) = Inr xs"
| "jiter (JObj d) = Inr (map (\<lambda>kv. JStr (fst kv)) d)"
| "jiter (JStr s) = Inr (map (\<lambda>c. JStr [c]) s)"
| "jiter _ = Inl TypeError"

text \<open>\<open>v < n\<close> against an integer.\<close>

definition jless_int :: "json \<Rightarrow> int \<Rightarrow> bool res" where
  "jless_int v n = (case num_of v of None \<Rightarrow> Inl TypeError | Some q \<Rightarrow> Inr (q < of_int n))"

fun is_dict :: "json \<Rightarrow> bool" where
  "is_dict (JObj _) = True"
| "is_dict _ = False"

fun is_str :: "json \<Rightarrow> bool" where
  "is_str (JStr _) = True"
| "is_str _ = False"

text \<open>\<open>type(v) is int\<close> (a boolean has type \<open>bool\<close>).\<close>

fun is_int :: "json \<Rightarrow> bool" where
  "is_int (JInt _) = True"
| "is_int _ = False"

lemma jget_eq_Inr [res_simps]: "jget v k = Inr w \<longleftrightarrow> (\<exists>d. v = JObj d \<and> w = dget d k)"
  by (cases v) (auto simp: jget_def)

lemma jget_dict [simp]: "jget (JObj d) k = Inr (dget d k)"
  by (simp add: jget_def)

lemma dget_Cons [simp]: "dget ((k', v) # d) k = (if k' = k then v else dget d k)"
  by (simp add: dget_def)

lemma dget_Nil [simp]: "dget [] k = JNull"
  by (simp add: dget_def)

lemma dget_or_Cons [simp]: "dget_or ((k', v) # d) k v0 = (if k' = k then v else dget_or d k v0)"
  by (simp add: dget_or_def)

lemma dget_or_Nil [simp]: "dget_or [] k v0 = v0"
  by (simp add: dget_or_def)

section \<open>Canonical JSON\<close>

text \<open>
  \<open>json.dumps(v, sort_keys=True, ...)\<close> writes the members of every object in the order of
  their keys. Two values have the same text exactly when their canonical forms are equal; the
  digests of the program are taken of that text, so the model takes them of \<open>canon v\<close>.
\<close>

fun canon :: "json \<Rightarrow> json" where
  "canon (JArr xs) = JArr (map canon xs)"
| "canon (JObj d) = JObj (sort_key fst (map (\<lambda>kv. (fst kv, canon (snd kv))) d))"
| "canon v = v"

definition same_text :: "json \<Rightarrow> json \<Rightarrow> bool" where
  "same_text a b = (canon a = canon b)"

text \<open>
  The hash function \<open>sha256(text).hexdigest()\<close> is the parameter \<open>H\<close> of the model, on the
  canonical value. Nothing is assumed of it but, where a theorem says so, that two given values
  do not collide.
\<close>

definition digest :: "(json \<Rightarrow> string) \<Rightarrow> json \<Rightarrow> string" where
  "digest H v = H (canon v)"

definition no_collision :: "(json \<Rightarrow> string) \<Rightarrow> json \<Rightarrow> json \<Rightarrow> bool" where
  "no_collision H a b = (H (canon a) = H (canon b) \<longrightarrow> canon a = canon b)"

lemma digest_eqD: "no_collision H a b \<Longrightarrow> digest H a = digest H b \<Longrightarrow> canon a = canon b"
  by (simp add: no_collision_def digest_def)

section \<open>Strings\<close>

text \<open>\<open>str.isspace\<close> on one character (code points below 256).\<close>

definition is_space :: "char \<Rightarrow> bool" where
  "is_space c = (let n = of_char c :: int in
     (9 \<le> n \<and> n \<le> 13) \<or> (28 \<le> n \<and> n \<le> 32) \<or> n = 133 \<or> n = 160)"

definition strip :: "string \<Rightarrow> string" where
  "strip s = rev (dropWhile is_space (rev (dropWhile is_space s)))"

definition starts_with :: "string \<Rightarrow> string \<Rightarrow> bool" where
  "starts_with p s = (take (length p) s = p)"

definition is_lower_alnum :: "char \<Rightarrow> bool" where
  "is_lower_alnum c = (let n = of_char c :: int in (97 \<le> n \<and> n \<le> 122) \<or> (48 \<le> n \<and> n \<le> 57))"

definition is_lower_hex :: "char \<Rightarrow> bool" where
  "is_lower_hex c = (let n = of_char c :: int in (97 \<le> n \<and> n \<le> 102) \<or> (48 \<le> n \<and> n \<le> 57))"

definition len_between :: "nat \<Rightarrow> nat \<Rightarrow> 'a list \<Rightarrow> bool" where
  "len_between lo hi s = (lo \<le> length s \<and> length s \<le> hi)"

text \<open>
  The name patterns \<open>^[a-z0-9]([-a-z0-9]*[a-z0-9])?$\<close>: alphanumeric ends, and in between
  alphanumerics or one of the extra characters.
\<close>

definition name_pattern :: "char list \<Rightarrow> string \<Rightarrow> bool" where
  "name_pattern extra s = (s \<noteq> [] \<and> is_lower_alnum (hd s) \<and> is_lower_alnum (last s)
     \<and> list_all (\<lambda>c. is_lower_alnum c \<or> c \<in> set extra) s)"

lemma strip_idem: "strip (strip s) = strip s"
proof -
  have fix_drop: "dropWhile P (dropWhile P xs) = dropWhile P xs" for P and xs :: string
    by (induction xs) auto
  have keep: "dropWhile is_space (rev (dropWhile is_space (rev t))) = rev (dropWhile is_space (rev t))"
    if "dropWhile is_space t = t" for t
  proof (cases "rev (dropWhile is_space (rev t))")
    case (Cons c u)
    obtain w where "rev t = w @ dropWhile is_space (rev t)"
      by (metis takeWhile_dropWhile_id)
    with Cons have "t = c # u @ rev w"
      by (metis append_Cons rev_append rev_rev_ident)
    with that have "\<not> is_space c"
      by (metis dropWhile.simps(2) length_dropWhile_le length_Cons Suc_n_not_le_n)
    with Cons show ?thesis by simp
  next
    case Nil
    show ?thesis unfolding Nil by simp
  qed
  show ?thesis
    by (simp add: strip_def keep fix_drop)
qed

section \<open>Lists and sets\<close>

text \<open>\<open>list(dict.fromkeys(xs))\<close>: the first occurrence of every element, in order.\<close>

fun dedup :: "'a list \<Rightarrow> 'a list" where
  "dedup [] = []"
| "dedup (x # xs) = x # filter (\<lambda>y. y \<noteq> x) (dedup xs)"

lemma set_dedup [simp]: "set (dedup xs) = set xs"
  by (induction xs) auto

lemma distinct_dedup [simp]: "distinct (dedup xs)"
  by (induction xs) auto

definition subset_list :: "'a list \<Rightarrow> 'a list \<Rightarrow> bool" where
  "subset_list xs ys = list_all (\<lambda>x. x \<in> set ys) xs"

lemma subset_list_iff [simp]: "subset_list xs ys \<longleftrightarrow> set xs \<subseteq> set ys"
  by (auto simp: subset_list_def list_all_iff)

end
