(* ===== verification/Schemas.thy ===== *)
theory Schemas
  imports Prelude
begin

text \<open>
  The data contracts of \<open>backend/app/agent/schemas.py\<close>: literals as datatypes, pydantic models
  as records, and for every model the predicate that states its field constraints
  (\<open>min_length\<close>, \<open>max_length\<close>, \<open>pattern\<close>, ranges). \<open>Model.model_validate(v)\<close> on a value of the
  model's shape succeeds exactly when the predicate holds; the decoding of untyped JSON into that
  shape is pydantic's and is not modelled. \<open>model_dump(mode="json")\<close> is a function to \<open>json\<close>.
\<close>

section \<open>Literals\<close>

datatype fault_category =
    CrashLoopBackoff
  | ImagePullBackoff
  | OomKilled
  | ReadinessProbeError
  | ServiceSelectorMismatch
  | ApplicationError
  | DependencyError
  | NoFaultDetected
  | UnknownFault

fun fault_name :: "fault_category \<Rightarrow> string" where
  "fault_name CrashLoopBackoff = ''crash_loop_backoff''"
| "fault_name ImagePullBackoff = ''image_pull_backoff''"
| "fault_name OomKilled = ''oom_killed''"
| "fault_name ReadinessProbeError = ''readiness_probe_error''"
| "fault_name ServiceSelectorMismatch = ''service_selector_mismatch''"
| "fault_name ApplicationError = ''application_error''"
| "fault_name DependencyError = ''dependency_error''"
| "fault_name NoFaultDetected = ''no_fault_detected''"
| "fault_name UnknownFault = ''unknown''"

datatype problem_domain =
    DeploymentConfiguration | ApplicationRuntime | DependencyDomain | InsufficientEvidence | NoDomain

fun domain_name :: "problem_domain \<Rightarrow> string" where
  "domain_name DeploymentConfiguration = ''deployment_configuration''"
| "domain_name ApplicationRuntime = ''application_runtime''"
| "domain_name DependencyDomain = ''dependency''"
| "domain_name InsufficientEvidence = ''insufficient_evidence''"
| "domain_name NoDomain = ''none''"

datatype resource_status = Ready | NotReady | ResourceUnknown

fun resource_status_name :: "resource_status \<Rightarrow> string" where
  "resource_status_name Ready = ''ready''"
| "resource_status_name NotReady = ''not_ready''"
| "resource_status_name ResourceUnknown = ''unknown''"

datatype business_status = Passed | Failed | BusinessUnknown

fun business_status_name :: "business_status \<Rightarrow> string" where
  "business_status_name Passed = ''passed''"
| "business_status_name Failed = ''failed''"
| "business_status_name BusinessUnknown = ''unknown''"

datatype hypothesis_status = Suspected | Supported

fun hypothesis_status_name :: "hypothesis_status \<Rightarrow> string" where
  "hypothesis_status_name Suspected = ''suspected''"
| "hypothesis_status_name Supported = ''supported''"

datatype action_name = ManualInvestigation | PatchReadinessProbe | PatchServiceSelector

fun action_text :: "action_name \<Rightarrow> string" where
  "action_text ManualInvestigation = ''manual_investigation''"
| "action_text PatchReadinessProbe = ''patch_readiness_probe''"
| "action_text PatchServiceSelector = ''patch_service_selector''"

datatype resource_kind = KService | KDeployment | KPod

fun kind_name :: "resource_kind \<Rightarrow> string" where
  "kind_name KService = ''Service''"
| "kind_name KDeployment = ''Deployment''"
| "kind_name KPod = ''Pod''"

datatype risk_level = LowRisk | MediumRisk | HighRisk

fun risk_name :: "risk_level \<Rightarrow> string" where
  "risk_name LowRisk = ''low''"
| "risk_name MediumRisk = ''medium''"
| "risk_name HighRisk = ''high''"

datatype execution_status = Succeeded | AlreadyApplied | Conflict | ExecFailed

fun execution_status_name :: "execution_status \<Rightarrow> string" where
  "execution_status_name Succeeded = ''succeeded''"
| "execution_status_name AlreadyApplied = ''already_applied''"
| "execution_status_name Conflict = ''conflict''"
| "execution_status_name ExecFailed = ''failed''"

text \<open>A port is a number or a name (\<open>str | int\<close>).\<close>

datatype port = PortName string | PortNum int

section \<open>JSON of optional and list fields\<close>

definition opt_json :: "('a \<Rightarrow> json) \<Rightarrow> 'a option \<Rightarrow> json" where
  "opt_json f x = (case x of None \<Rightarrow> JNull | Some v \<Rightarrow> f v)"

definition strs_json :: "string list \<Rightarrow> json" where
  "strs_json xs = JArr (map JStr xs)"

fun port_json :: "port \<Rightarrow> json" where
  "port_json (PortName s) = JStr s"
| "port_json (PortNum n) = JInt n"

section \<open>Evidence, findings and diagnosis\<close>

record evidence =
  ev_id :: string
  ev_source :: string
  ev_type :: string
  ev_name :: string
  ev_collected_at :: string
  ev_data :: dict
  ev_error :: "string option"

text \<open>\<open>not e.get("error")\<close>\<close>

definition ev_ok :: "evidence \<Rightarrow> bool" where
  "ev_ok e = (case ev_error e of None \<Rightarrow> True | Some m \<Rightarrow> m = [])"

definition evidence_json :: "evidence \<Rightarrow> json" where
  "evidence_json e = JObj
     [(''evidence_id'', JStr (ev_id e)), (''source'', JStr (ev_source e)),
      (''resource_type'', JStr (ev_type e)), (''resource_name'', JStr (ev_name e)),
      (''collected_at'', JStr (ev_collected_at e)), (''data'', JObj (ev_data e)),
      (''error'', opt_json JStr (ev_error e))]"

record finding =
  f_summary :: string
  f_evidence_ids :: "string list"

record hypothesis = finding +
  h_status :: hypothesis_status

record assessment =
  a_problem_domain :: problem_domain
  a_symptoms :: "finding list"
  a_hypotheses :: "hypothesis list"
  a_missing_evidence :: "string list"
  a_next_investigation :: "string list"
  a_resource_status :: resource_status
  a_business_status :: business_status
  a_unverified_scope :: "string list"

record diagnosis =
  d_assessment :: "assessment option"
  d_fault_category :: fault_category
  d_root_cause :: string
  d_evidence_ids :: "string list"
  d_runbook_ids :: "string list"
  d_confidence :: rat
  d_reasoning_summary :: string

definition finding_schema :: "'a finding_scheme \<Rightarrow> bool" where
  "finding_schema f = (f_summary f \<noteq> [] \<and> f_evidence_ids f \<noteq> [])"

definition assessment_schema :: "assessment \<Rightarrow> bool" where
  "assessment_schema a = (list_all finding_schema (a_symptoms a)
     \<and> list_all finding_schema (a_hypotheses a) \<and> a_unverified_scope a \<noteq> [])"

definition diagnosis_schema :: "diagnosis \<Rightarrow> bool" where
  "diagnosis_schema d = ((case d_assessment d of None \<Rightarrow> True | Some a \<Rightarrow> assessment_schema a)
     \<and> d_root_cause d \<noteq> [] \<and> d_evidence_ids d \<noteq> []
     \<and> 0 \<le> d_confidence d \<and> d_confidence d \<le> 1 \<and> d_reasoning_summary d \<noteq> [])"

definition finding_json :: "finding \<Rightarrow> json" where
  "finding_json f = JObj
     [(''summary'', JStr (f_summary f)), (''evidence_ids'', strs_json (f_evidence_ids f))]"

definition hypothesis_json :: "hypothesis \<Rightarrow> json" where
  "hypothesis_json h = JObj
     [(''summary'', JStr (f_summary h)), (''evidence_ids'', strs_json (f_evidence_ids h)),
      (''status'', JStr (hypothesis_status_name (h_status h)))]"

definition assessment_json :: "assessment \<Rightarrow> json" where
  "assessment_json a = JObj
     [(''schema_version'', JStr ''v2''),
      (''problem_domain'', JStr (domain_name (a_problem_domain a))),
      (''symptoms'', JArr (map finding_json (a_symptoms a))),
      (''root_cause_hypotheses'', JArr (map hypothesis_json (a_hypotheses a))),
      (''missing_evidence'', strs_json (a_missing_evidence a)),
      (''next_investigation'', strs_json (a_next_investigation a)),
      (''resource_status'', JStr (resource_status_name (a_resource_status a))),
      (''business_status'', JStr (business_status_name (a_business_status a))),
      (''unverified_scope'', strs_json (a_unverified_scope a))]"

definition diagnosis_json :: "diagnosis \<Rightarrow> json" where
  "diagnosis_json d = JObj
     [(''assessment'', opt_json assessment_json (d_assessment d)),
      (''fault_category'', JStr (fault_name (d_fault_category d))),
      (''root_cause'', JStr (d_root_cause d)),
      (''evidence_ids'', strs_json (d_evidence_ids d)),
      (''runbook_ids'', strs_json (d_runbook_ids d)),
      (''confidence'', JFloat (d_confidence d)),
      (''reasoning_summary'', JStr (d_reasoning_summary d))]"

section \<open>Remediation plans\<close>

record label_pair =
  lp_key :: string
  lp_value :: string

record parameters =
  pa_namespace :: string
  pa_resource_kind :: resource_kind
  pa_resource_name :: string
  pa_container_name :: "string option"
  pa_current_probe_path :: "string option"
  pa_proposed_probe_path :: "string option"
  pa_current_probe_port :: "port option"
  pa_proposed_probe_port :: "port option"
  pa_current_selector :: "label_pair list"
  pa_proposed_selector :: "label_pair list"
  pa_investigation_steps :: "string list"

record plan =
  pl_target_uid :: "string option"
  pl_action :: action_name
  pl_parameters :: parameters
  pl_risk_level :: risk_level
  pl_summary :: string
  pl_expected_result :: string
  pl_rollback_plan :: string
  pl_evidence_ids :: "string list"
  pl_runbook_ids :: "string list"
  pl_requires_approval :: bool

definition kubernetes_name :: "string \<Rightarrow> bool" where
  "kubernetes_name = name_pattern ''-''"

definition label_pair_schema :: "label_pair \<Rightarrow> bool" where
  "label_pair_schema p = (len_between 1 63 (lp_key p) \<and> len_between 1 63 (lp_value p))"

definition parameters_schema :: "parameters \<Rightarrow> bool" where
  "parameters_schema p = (len_between 1 63 (pa_namespace p) \<and> kubernetes_name (pa_namespace p)
     \<and> len_between 1 253 (pa_resource_name p)
     \<and> list_all label_pair_schema (pa_current_selector p)
     \<and> list_all label_pair_schema (pa_proposed_selector p)
     \<and> length (pa_investigation_steps p) \<le> 5)"

definition plan_schema :: "plan \<Rightarrow> bool" where
  "plan_schema p = ((case pl_target_uid p of None \<Rightarrow> True | Some u \<Rightarrow> len_between 1 128 u)
     \<and> parameters_schema (pl_parameters p)
     \<and> pl_summary p \<noteq> [] \<and> pl_expected_result p \<noteq> [] \<and> pl_rollback_plan p \<noteq> []
     \<and> pl_evidence_ids p \<noteq> [])"

definition label_pair_json :: "label_pair \<Rightarrow> json" where
  "label_pair_json p = JObj [(''key'', JStr (lp_key p)), (''value'', JStr (lp_value p))]"

definition parameters_json :: "parameters \<Rightarrow> json" where
  "parameters_json p = JObj
     [(''namespace'', JStr (pa_namespace p)),
      (''resource_kind'', JStr (kind_name (pa_resource_kind p))),
      (''resource_name'', JStr (pa_resource_name p)),
      (''container_name'', opt_json JStr (pa_container_name p)),
      (''current_probe_path'', opt_json JStr (pa_current_probe_path p)),
      (''proposed_probe_path'', opt_json JStr (pa_proposed_probe_path p)),
      (''current_probe_port'', opt_json port_json (pa_current_probe_port p)),
      (''proposed_probe_port'', opt_json port_json (pa_proposed_probe_port p)),
      (''current_selector'', JArr (map label_pair_json (pa_current_selector p))),
      (''proposed_selector'', JArr (map label_pair_json (pa_proposed_selector p))),
      (''investigation_steps'', strs_json (pa_investigation_steps p))]"

definition plan_dump :: "plan \<Rightarrow> dict" where
  "plan_dump p =
     [(''target_uid'', opt_json JStr (pl_target_uid p)),
      (''action'', JStr (action_text (pl_action p))),
      (''parameters'', parameters_json (pl_parameters p)),
      (''risk_level'', JStr (risk_name (pl_risk_level p))),
      (''summary'', JStr (pl_summary p)),
      (''expected_result'', JStr (pl_expected_result p)),
      (''rollback_plan'', JStr (pl_rollback_plan p)),
      (''evidence_ids'', strs_json (pl_evidence_ids p)),
      (''runbook_ids'', strs_json (pl_runbook_ids p)),
      (''requires_approval'', JBool (pl_requires_approval p))]"

section \<open>Approval and execution records\<close>

record approval_request =
  ar_approval_id :: string
  ar_incident_id :: string
  ar_plan :: plan
  ar_plan_revision :: "string option"
  ar_approval_revision :: "string option"

record approval_decision =
  ad_approval_id :: string
  ad_approved :: bool
  ad_approver :: string
  ad_comment :: string

record approval_record =
  rc_approval_id :: string
  rc_incident_id :: string
  rc_action :: action_name
  rc_approved :: bool
  rc_approver :: string
  rc_comment :: string
  rc_decided_at :: string
  rc_plan_revision :: "string option"
  rc_approval_revision :: "string option"

record resource_snapshot =
  rs_uid :: "string option"
  rs_generation :: "int option"
  rs_namespace :: string
  rs_resource_kind :: resource_kind
  rs_resource_name :: string
  rs_resource_version :: string
  rs_configuration :: dict

record action_result =
  x_execution_id :: string
  x_approval_id :: string
  x_action :: action_name
  x_status :: execution_status
  x_namespace :: string
  x_resource_kind :: resource_kind
  x_resource_name :: string
  x_started_at :: string
  x_finished_at :: string
  x_before :: "resource_snapshot option"
  x_after :: "resource_snapshot option"
  x_applied_patch :: dict
  x_rollback_patch :: dict
  x_message :: string
  x_error_code :: "string option"
  x_error_message :: "string option"

text \<open>\<open>^apr-[0-9a-f]{16}$\<close>, \<open>^exec-[0-9a-f]{16}$\<close>, \<open>^[0-9a-f]{64}$\<close>\<close>

definition hex_id :: "string \<Rightarrow> nat \<Rightarrow> string \<Rightarrow> bool" where
  "hex_id prefix n s = (starts_with prefix s \<and> length s = length prefix + n
     \<and> list_all is_lower_hex (drop (length prefix) s))"

definition approval_id_pattern :: "string \<Rightarrow> bool" where
  "approval_id_pattern = hex_id ''apr-'' 16"

definition execution_id_pattern :: "string \<Rightarrow> bool" where
  "execution_id_pattern = hex_id ''exec-'' 16"

definition revision_pattern :: "string option \<Rightarrow> bool" where
  "revision_pattern r = (case r of None \<Rightarrow> True | Some s \<Rightarrow> hex_id [] 64 s)"

definition approval_request_schema :: "approval_request \<Rightarrow> bool" where
  "approval_request_schema r = (approval_id_pattern (ar_approval_id r) \<and> ar_incident_id r \<noteq> []
     \<and> plan_schema (ar_plan r)
     \<and> revision_pattern (ar_plan_revision r) \<and> revision_pattern (ar_approval_revision r))"

definition approval_record_schema :: "approval_record \<Rightarrow> bool" where
  "approval_record_schema r = (approval_id_pattern (rc_approval_id r) \<and> rc_incident_id r \<noteq> []
     \<and> len_between 1 100 (rc_approver r) \<and> length (rc_comment r) \<le> 1000
     \<and> rc_decided_at r \<noteq> []
     \<and> revision_pattern (rc_plan_revision r) \<and> revision_pattern (rc_approval_revision r))"

text \<open>
  \<open>ApprovalDecision\<close> checks the raw field lengths and then strips: the result carries the
  stripped approver, which must not be blank, and the stripped comment.
\<close>

definition approval_decision_validate :: "approval_decision \<Rightarrow> approval_decision res" where
  "approval_decision_validate d =
     (if approval_id_pattern (ad_approval_id d) \<and> len_between 1 100 (ad_approver d)
         \<and> strip (ad_approver d) \<noteq> [] \<and> length (ad_comment d) \<le> 1000
      then Inr (d\<lparr>ad_approver := strip (ad_approver d), ad_comment := strip (ad_comment d)\<rparr>)
      else Inl ValidationError)"

definition resource_snapshot_schema :: "resource_snapshot \<Rightarrow> bool" where
  "resource_snapshot_schema r = (len_between 1 63 (rs_namespace r) \<and> kubernetes_name (rs_namespace r)
     \<and> rs_resource_kind r \<in> {KService, KDeployment}
     \<and> len_between 1 253 (rs_resource_name r) \<and> rs_resource_version r \<noteq> [])"

definition action_result_schema :: "action_result \<Rightarrow> bool" where
  "action_result_schema x = (execution_id_pattern (x_execution_id x)
     \<and> approval_id_pattern (x_approval_id x)
     \<and> len_between 1 63 (x_namespace x) \<and> kubernetes_name (x_namespace x)
     \<and> x_resource_kind x \<in> {KService, KDeployment}
     \<and> len_between 1 253 (x_resource_name x)
     \<and> x_started_at x \<noteq> [] \<and> x_finished_at x \<noteq> [] \<and> x_message x \<noteq> []
     \<and> (case x_before x of None \<Rightarrow> True | Some r \<Rightarrow> resource_snapshot_schema r)
     \<and> (case x_after x of None \<Rightarrow> True | Some r \<Rightarrow> resource_snapshot_schema r))"

lemma approval_decision_validated:
  "approval_decision_validate d = Inr d' \<Longrightarrow>
     approval_id_pattern (ad_approval_id d') \<and> ad_approver d' \<noteq> [] \<and> strip (ad_approver d') = ad_approver d'
     \<and> ad_approval_id d' = ad_approval_id d \<and> ad_approved d' = ad_approved d"
  by (auto simp: approval_decision_validate_def strip_idem split: if_splits)

lemma fault_name_inject [simp]: "fault_name a = fault_name b \<longleftrightarrow> a = b"
  by (cases a; cases b) simp_all

lemma action_text_inject [simp]: "action_text a = action_text b \<longleftrightarrow> a = b"
  by (cases a; cases b) simp_all

end
