(* ===== verification/ProfileModels.thy ===== *)
theory ProfileModels
  imports Schemas
begin

text \<open>
  The registered service contract of \<open>backend/app/service_profiles/models.py\<close>: the models as
  records, their field constraints and validators as predicates, and \<open>model_dump\<close> as JSON.
\<close>

section \<open>Constraints\<close>

text \<open>\<open>Name\<close>, \<open>Text\<close> and \<open>Port\<close>.\<close>

definition name_ok :: "string \<Rightarrow> bool" where
  "name_ok s = (len_between 1 253 s \<and> name_pattern ''.-'' s)"

definition text_ok :: "string \<Rightarrow> bool" where
  "text_ok = len_between 1 300"

fun port_ok :: "port \<Rightarrow> bool" where
  "port_ok (PortNum n) = (1 \<le> n \<and> n \<le> 65535)"
| "port_ok (PortName s) = name_ok s"

text \<open>
  \<open>urlsplit\<close> on a text that starts with one slash: no scheme and no network location; the
  fragment is what follows the first \<open>#\<close>, the query what follows the first \<open>?\<close> before it.
\<close>

definition url_fragment :: "string \<Rightarrow> string" where
  "url_fragment s = drop 1 (dropWhile (\<lambda>c. c \<noteq> CHR ''#'') s)"

definition url_query :: "string \<Rightarrow> string" where
  "url_query s = drop 1 (dropWhile (\<lambda>c. c \<noteq> CHR ''?'') (takeWhile (\<lambda>c. c \<noteq> CHR ''#'') s))"

definition local_path :: "string \<Rightarrow> bool" where
  "local_path s = (starts_with ''/'' s \<and> \<not> starts_with ''//'' s
     \<and> url_query s = [] \<and> url_fragment s = []
     \<and> CHR 0x5C \<notin> set s
     \<and> list_all (\<lambda>c. \<not> is_space c \<and> (of_char c :: int) \<ge> 32) s)"

section \<open>Models\<close>

datatype scheme = HTTP | HTTPS

fun scheme_name :: "scheme \<Rightarrow> string" where
  "scheme_name HTTP = ''HTTP''"
| "scheme_name HTTPS = ''HTTPS''"

record http_probe =
  hp_path :: string
  hp_port :: port
  hp_scheme :: scheme

text \<open>The value of an expected JSON field: \<open>str | int | bool\<close>.\<close>

datatype field_value = FStr string | FInt int | FBool bool

fun field_json :: "field_value \<Rightarrow> json" where
  "field_json (FStr s) = JStr s"
| "field_json (FInt n) = JInt n"
| "field_json (FBool b) = JBool b"

record business_check = http_probe +
  bc_check_id :: string
  bc_expected_status :: int
  bc_expected_json_subset :: "(string \<times> field_value) list"
  bc_timeout_seconds :: int
  bc_max_response_bytes :: int

record owner =
  ow_team :: string
  ow_contact :: string

record application =
  ap_version :: string
  ap_images :: "(string \<times> string) list"

record profile =
  pr_profile_id :: string
  pr_revision :: string
  pr_namespace :: string
  pr_service_name :: string
  pr_deployment_name :: string
  pr_container_name :: string
  pr_owner :: owner
  pr_config_source :: string
  pr_application :: application
  pr_expected_selector :: "(string \<times> string) list"
  pr_expected_replicas :: "int option"
  pr_readiness_probe :: http_probe
  pr_liveness_probe :: http_probe
  pr_business_checks :: "business_check list"

text \<open>\<open>version_label\<close> has one legal value.\<close>

definition version_label :: string where
  "version_label = ''app.kubernetes.io/version''"

section \<open>Validation\<close>

definition http_probe_schema :: "'a http_probe_scheme \<Rightarrow> bool" where
  "http_probe_schema h = (text_ok (hp_path h) \<and> local_path (hp_path h) \<and> port_ok (hp_port h))"

definition business_check_schema :: "business_check \<Rightarrow> bool" where
  "business_check_schema c = (http_probe_schema c \<and> name_ok (bc_check_id c)
     \<and> 200 \<le> bc_expected_status c \<and> bc_expected_status c \<le> 299
     \<and> distinct (map fst (bc_expected_json_subset c))
     \<and> 1 \<le> bc_timeout_seconds c \<and> bc_timeout_seconds c \<le> 10
     \<and> 1 \<le> bc_max_response_bytes c \<and> bc_max_response_bytes c \<le> 65536)"

definition profile_schema :: "profile \<Rightarrow> bool" where
  "profile_schema p = (name_ok (pr_profile_id p) \<and> text_ok (pr_revision p)
     \<and> name_ok (pr_namespace p) \<and> name_ok (pr_service_name p)
     \<and> name_ok (pr_deployment_name p) \<and> name_ok (pr_container_name p)
     \<and> text_ok (ow_team (pr_owner p)) \<and> text_ok (ow_contact (pr_owner p))
     \<and> text_ok (pr_config_source p) \<and> text_ok (ap_version (pr_application p))
     \<and> ap_images (pr_application p) \<noteq> [] \<and> distinct (map fst (ap_images (pr_application p)))
     \<and> list_all (\<lambda>(n, i). name_ok n \<and> text_ok i) (ap_images (pr_application p))
     \<and> pr_expected_selector p \<noteq> [] \<and> distinct (map fst (pr_expected_selector p))
     \<and> list_all (\<lambda>(k, v). text_ok k \<and> text_ok v) (pr_expected_selector p)
     \<and> (case pr_expected_replicas p of None \<Rightarrow> True | Some n \<Rightarrow> 1 \<le> n)
     \<and> http_probe_schema (pr_readiness_probe p) \<and> http_probe_schema (pr_liveness_probe p)
     \<and> length (pr_business_checks p) \<le> 10
     \<and> list_all business_check_schema (pr_business_checks p)
     \<and> pr_container_name p \<in> set (map fst (ap_images (pr_application p)))
     \<and> distinct (map bc_check_id (pr_business_checks p)))"

section \<open>JSON\<close>

definition str_dict :: "(string \<times> string) list \<Rightarrow> dict" where
  "str_dict d = map (\<lambda>(k, v). (k, JStr v)) d"

definition probe_fields :: "'a http_probe_scheme \<Rightarrow> dict" where
  "probe_fields h = [(''path'', JStr (hp_path h)), (''port'', port_json (hp_port h)),
     (''scheme'', JStr (scheme_name (hp_scheme h)))]"

definition check_json :: "business_check \<Rightarrow> json" where
  "check_json c = JObj (probe_fields c @
     [(''check_id'', JStr (bc_check_id c)), (''method'', JStr ''GET''),
      (''expected_status'', JInt (bc_expected_status c)),
      (''expected_json_subset'', JObj (map (\<lambda>(k, v). (k, field_json v)) (bc_expected_json_subset c))),
      (''timeout_seconds'', JInt (bc_timeout_seconds c)),
      (''max_response_bytes'', JInt (bc_max_response_bytes c)),
      (''follow_redirects'', JBool False), (''read_only'', JBool True)])"

definition profile_dump :: "profile \<Rightarrow> dict" where
  "profile_dump p =
     [(''schema_version'', JStr ''v1''), (''profile_id'', JStr (pr_profile_id p)),
      (''revision'', JStr (pr_revision p)), (''namespace'', JStr (pr_namespace p)),
      (''service_name'', JStr (pr_service_name p)), (''deployment_name'', JStr (pr_deployment_name p)),
      (''container_name'', JStr (pr_container_name p)),
      (''owner'', JObj [(''team'', JStr (ow_team (pr_owner p))), (''contact'', JStr (ow_contact (pr_owner p)))]),
      (''config_source'', JStr (pr_config_source p)),
      (''application'', JObj [(''version'', JStr (ap_version (pr_application p))),
         (''version_label'', JStr version_label), (''images'', JObj (str_dict (ap_images (pr_application p))))]),
      (''expected_selector'', JObj (str_dict (pr_expected_selector p))),
      (''expected_replicas'', opt_json JInt (pr_expected_replicas p)),
      (''readiness_probe'', JObj (probe_fields (pr_readiness_probe p))),
      (''liveness_probe'', JObj (probe_fields (pr_liveness_probe p))),
      (''business_checks'', JArr (map check_json (pr_business_checks p)))]"

end
