(* ===== verification/State.thy ===== *)
theory State
  imports ProfileModels
begin

text \<open>
  The shared workflow state of \<open>backend/app/agent/state.py\<close> (the fields the modelled nodes read
  and write) and the registry snapshot it carries. A key that \<open>TypedDict(total=False)\<close> leaves out
  reads as \<open>None\<close>; lists default to the empty list, as at every use in the source.
\<close>

record snapshot =
  sn_status :: string
  sn_reasons :: "string list"
  sn_profile :: "profile option"
  sn_digest :: "string option"
  sn_deployment_uid :: "json option"
  sn_deployment_generation :: "json option"

record incident_state =
  st_incident_id :: "string option"
  st_run_id :: "string option"
  st_request :: "(string \<times> string) list option"
  st_phase :: "string option"
  st_evidence :: "evidence list"
  st_service_profile :: "snapshot option"
  st_retrieved_runbooks :: "dict list"
  st_diagnosis :: "diagnosis option"
  st_remediation_plan :: "plan option"
  st_requires_approval :: "bool option"
  st_approved :: "bool option"
  st_approval_status :: "string option"
  st_approval_request :: "approval_request option"
  st_approval_record :: "approval_record option"
  st_action_result :: "action_result option"

definition empty_state :: incident_state where
  "empty_state = \<lparr>st_incident_id = None, st_run_id = None, st_request = None, st_phase = None,
     st_evidence = [], st_service_profile = None, st_retrieved_runbooks = [], st_diagnosis = None,
     st_remediation_plan = None, st_requires_approval = None, st_approved = None,
     st_approval_status = None, st_approval_request = None, st_approval_record = None,
     st_action_result = None\<rparr>"

text \<open>\<open>(state.get("request") or {}).get(k)\<close>\<close>

definition req_get :: "incident_state \<Rightarrow> string \<Rightarrow> string option" where
  "req_get s k = (case st_request s of None \<Rightarrow> None | Some d \<Rightarrow> map_of d k)"

definition request_json :: "incident_state \<Rightarrow> json" where
  "request_json s = opt_json (\<lambda>d. JObj (str_dict d)) (st_request s)"

text \<open>Absent keys of a snapshot are left out of its JSON.\<close>

definition opt_entry :: "string \<Rightarrow> ('a \<Rightarrow> json) \<Rightarrow> 'a option \<Rightarrow> dict" where
  "opt_entry k f x = (case x of None \<Rightarrow> [] | Some v \<Rightarrow> [(k, f v)])"

definition snapshot_json :: "snapshot \<Rightarrow> json" where
  "snapshot_json n = JObj
     ([(''status'', JStr (sn_status n)), (''reasons'', strs_json (sn_reasons n))]
      @ opt_entry ''profile'' (\<lambda>p. JObj (profile_dump p)) (sn_profile n)
      @ opt_entry ''digest'' JStr (sn_digest n)
      @ opt_entry ''deployment_uid'' id (sn_deployment_uid n)
      @ opt_entry ''deployment_generation'' id (sn_deployment_generation n))"

text \<open>\<open>snapshot.get(k)\<close> for the two observed values.\<close>

definition opt_get :: "json option \<Rightarrow> json" where
  "opt_get x = (case x of None \<Rightarrow> JNull | Some v \<Rightarrow> v)"

definition evidence_list_json :: "incident_state \<Rightarrow> json" where
  "evidence_list_json s = JArr (map evidence_json (st_evidence s))"

end
