(* ===== verification/Registry.thy ===== *)
theory Registry
  imports State
begin

text \<open>
  \<open>backend/app/service_profiles/registry.py\<close>: loading the registered profiles, comparing a
  profile with a Deployment, the snapshot stored with an incident, the check that binds a state to
  its profile (\<open>matched_profile\<close>), the values a plan may write (\<open>validate_profile_action\<close>) and the
  repetition of these checks against the live cluster just before a write. The directory of
  profile files and the Kubernetes reads are parameters.
\<close>

section \<open>Dictionaries of strings\<close>

definition str_dict_eq :: "(string \<times> string) list \<Rightarrow> (string \<times> string) list \<Rightarrow> bool" where
  "str_dict_eq xs ys = (length xs = length ys \<and> list_all (\<lambda>(k, v). map_of ys k = Some v) xs)"

lemma str_dict_eq_map_of:
  assumes "distinct (map fst xs)" and "distinct (map fst ys)" and "str_dict_eq xs ys"
  shows "map_of xs = map_of ys"
proof -
  have sub: "set xs \<subseteq> set ys"
    using assms(3) by (auto simp: str_dict_eq_def list_all_iff dest: map_of_SomeD)
  have "card (set xs) = card (set ys)"
    using assms by (simp add: str_dict_eq_def distinct_card distinct_map)
  with sub have "set xs = set ys"
    by (simp add: card_subset_eq)
  then show ?thesis
    using assms(1,2) by (rule map_of_inject_set [THEN iffD2, rotated 2])
qed

section \<open>Digest and loading\<close>

text \<open>\<open>payload.pop("expected_replicas")\<close> when it is \<open>None\<close>, then the digest of the canonical text.\<close>

definition profile_digest :: "(json \<Rightarrow> string) \<Rightarrow> profile \<Rightarrow> string" where
  "profile_digest H p = digest H (JObj
     (if pr_expected_replicas p = None
      then filter (\<lambda>kv. fst kv \<noteq> ''expected_replicas'') (profile_dump p) else profile_dump p))"

text \<open>
  A profile file: its size and the profile it decodes to, \<open>None\<close> for text that is no JSON, has a
  duplicate key or does not have the shape of a profile.
\<close>

record profile_file =
  pf_size :: int
  pf_profile :: "profile option"

definition load_file :: "profile_file \<Rightarrow> profile res" where
  "load_file f =
     (if pf_size f > 65536 then Inl (ProfileUnavailable ''profile exceeds 64 KiB'')
      else case pf_profile f of
          None \<Rightarrow> Inl (ProfileUnavailable ''SERVICE_PROFILE_UNAVAILABLE'')
        | Some p \<Rightarrow> if profile_schema p then Inr p
                    else Inl (ProfileUnavailable ''SERVICE_PROFILE_UNAVAILABLE''))"

definition profile_key :: "profile \<Rightarrow> string \<times> string" where
  "profile_key p = (pr_namespace p, pr_service_name p)"

definition load_profile :: "profile_file list \<Rightarrow> string \<Rightarrow> string \<Rightarrow> profile res" where
  "load_profile files ns svc =
     (if files = [] then Inl (ProfileUnavailable ''profile directory is missing or empty'')
      else bindE (mapE load_file files) (\<lambda>profiles.
        if \<not> distinct (map profile_key profiles)
        then Inl (ProfileUnavailable ''duplicate namespace/service registration'')
        else case filter (\<lambda>p. profile_key p = (ns, svc)) profiles of
            [p] \<Rightarrow> Inr p
          | _ \<Rightarrow> Inl (ProfileUnavailable ''service is not registered'')))"

section \<open>Comparing a Deployment with a profile\<close>

text \<open>Storing into a dictionary whose keys are JSON scalars; lists and objects are not hashable.\<close>

fun hashable :: "json \<Rightarrow> bool" where
  "hashable (JArr _) = False"
| "hashable (JObj _) = False"
| "hashable _ = True"

fun kput :: "(json \<times> json) list \<Rightarrow> json \<Rightarrow> json \<Rightarrow> (json \<times> json) list" where
  "kput [] k v = [(k, v)]"
| "kput ((k', w) # d) k v = (if py_eq k' k then (k', v) # d else (k', w) # kput d k v)"

text \<open>\<open>{c.get("name"): c.get("image") for c in containers}\<close>\<close>

fun images_of :: "(json \<times> json) list \<Rightarrow> json list \<Rightarrow> (json \<times> json) list res" where
  "images_of d [] = Inr d"
| "images_of d (c # cs) =
     bindE (jget c ''name'') (\<lambda>n. bindE (jget c ''image'') (\<lambda>i.
       if hashable n then images_of (kput d n i) cs else Inl TypeError))"

definition images_match :: "(json \<times> json) list \<Rightarrow> (string \<times> string) list \<Rightarrow> bool" where
  "images_match d imgs = (length d = length imgs
     \<and> list_all (\<lambda>(k, v). case k of JStr s \<Rightarrow> (case map_of imgs s of None \<Rightarrow> False | Some i \<Rightarrow> v = JStr i)
                            | _ \<Rightarrow> False) d)"

text \<open>\<open>x or {}\<close>, \<open>x or []\<close>\<close>

definition or_else :: "json \<Rightarrow> json \<Rightarrow> json" where
  "or_else v d = (if truthy v then v else d)"

definition assess_profile :: "profile \<Rightarrow> dict \<Rightarrow> string list res" where
  "assess_profile p dep =
     (let r1 = (if dget dep ''namespace'' = JStr (pr_namespace p) \<and> dget dep ''name'' = JStr (pr_deployment_name p)
                then [] else [''DEPLOYMENT_ASSOCIATION_MISMATCH'']);
          r2 = (if \<not> truthy (dget dep ''uid'') \<or> dget dep ''generation'' = JNull
                then [''DEPLOYMENT_IDENTITY_MISSING''] else []);
          labels = or_else (dget dep ''template_labels'') (JObj [])
      in bindE (jget labels version_label) (\<lambda>v.
         bindE (jiter (or_else (dget dep ''containers'') (JArr []))) (\<lambda>containers.
         bindE (images_of [] containers) (\<lambda>images.
         bindE (allE (\<lambda>(k, w). bindE (jget labels k) (\<lambda>x. Inr (x = JStr w))) (pr_expected_selector p)) (\<lambda>sel.
           Inr (r1 @ r2
             @ (if v = JStr (ap_version (pr_application p)) then [] else [''APPLICATION_VERSION_MISMATCH''])
             @ (if \<not> images_match images (ap_images (pr_application p)) \<or> length images \<noteq> length containers
                then [''APPLICATION_IMAGES_MISMATCH''] else [])
             @ (if sel then [] else [''EXPECTED_SELECTOR_WORKLOAD_MISMATCH''])))))))"

definition make_snapshot :: "(json \<Rightarrow> string) \<Rightarrow> profile \<Rightarrow> dict \<Rightarrow> snapshot res" where
  "make_snapshot H p dep = bindE (assess_profile p dep) (\<lambda>reasons. Inr
     \<lparr>sn_status = (if reasons = [] then ''matched'' else ''mismatch''), sn_reasons = reasons,
      sn_profile = Some p, sn_digest = Some (profile_digest H p),
      sn_deployment_uid = Some (dget dep ''uid''),
      sn_deployment_generation = Some (dget dep ''generation'')\<rparr>)"

section \<open>Binding a state to its profile\<close>

text \<open>The evidence items of one resource type and name.\<close>

definition deployments_of :: "incident_state \<Rightarrow> string \<Rightarrow> dict list" where
  "deployments_of s n =
     map ev_data (filter (\<lambda>e. ev_type e = ''Deployment'' \<and> ev_name e = n) (st_evidence s))"

definition matched_profile :: "(json \<Rightarrow> string) \<Rightarrow> incident_state \<Rightarrow> profile res" where
  "matched_profile H s =
     (case st_service_profile s of
        None \<Rightarrow> Inl (ProfileUnavailable ''SERVICE_PROFILE_NOT_MATCHED'')
      | Some n \<Rightarrow>
         if sn_status n \<noteq> ''matched'' then Inl (ProfileUnavailable ''SERVICE_PROFILE_NOT_MATCHED'')
         else (case sn_profile n of
             None \<Rightarrow> Inl (ProfileUnavailable ''SERVICE_PROFILE_INVALID'')
           | Some p \<Rightarrow>
              if \<not> profile_schema p then Inl (ProfileUnavailable ''SERVICE_PROFILE_INVALID'')
              else if (Some (pr_namespace p), Some (pr_service_name p))
                      \<noteq> (req_get s ''namespace'', req_get s ''service_name'')
              then Inl (ProfileUnavailable ''SERVICE_PROFILE_TARGET_MISMATCH'')
              else if sn_digest n \<noteq> Some (profile_digest H p)
              then Inl (ProfileUnavailable ''SERVICE_PROFILE_DIGEST_MISMATCH'')
              else (case deployments_of s (pr_deployment_name p) of
                  [dep] \<Rightarrow> bindE (assess_profile p dep) (\<lambda>reasons.
                    if reasons \<noteq> [] then Inl (ProfileUnavailable ''SERVICE_PROFILE_EVIDENCE_MISMATCH'')
                    else if py_eq (opt_get (sn_deployment_uid n)) (dget dep ''uid'')
                          \<and> py_eq (opt_get (sn_deployment_generation n)) (dget dep ''generation'')
                    then Inr p
                    else Inl (ProfileUnavailable ''SERVICE_PROFILE_OBSERVATION_MISMATCH''))
                | _ \<Rightarrow> Inl (ProfileUnavailable ''SERVICE_PROFILE_EVIDENCE_MISMATCH''))))"

section \<open>What a plan may write\<close>

definition pairs :: "label_pair list \<Rightarrow> (string \<times> string) list" where
  "pairs ps = map (\<lambda>p. (lp_key p, lp_value p)) ps"

definition validate_profile_action :: "profile \<Rightarrow> plan \<Rightarrow> unit res" where
  "validate_profile_action pr pl =
     (let p = pl_parameters pl in
      if pa_namespace p \<noteq> pr_namespace pr then Inl (ProfileUnavailable ''SERVICE_PROFILE_TARGET_MISMATCH'')
      else case pl_action pl of
        PatchServiceSelector \<Rightarrow>
          if pa_resource_kind p \<noteq> KService \<or> pa_resource_name p \<noteq> pr_service_name pr
             \<or> \<not> distinct (map lp_key (pa_proposed_selector p))
             \<or> \<not> str_dict_eq (pairs (pa_proposed_selector p)) (pr_expected_selector pr)
          then Inl (ProfileUnavailable ''SELECTOR_NOT_REGISTERED'') else Inr ()
      | PatchReadinessProbe \<Rightarrow>
          if pa_resource_kind p \<noteq> KDeployment \<or> pa_resource_name p \<noteq> pr_deployment_name pr
             \<or> pa_container_name p \<noteq> Some (pr_container_name pr)
             \<or> pa_proposed_probe_path p \<noteq> Some (hp_path (pr_readiness_probe pr))
             \<or> pa_proposed_probe_port p \<noteq> Some (hp_port (pr_readiness_probe pr))
          then Inl (ProfileUnavailable ''READINESS_NOT_REGISTERED'') else Inr ()
      | ManualInvestigation \<Rightarrow> Inr ())"

section \<open>Checking the live cluster before a write\<close>

text \<open>
  The Kubernetes reads: the Deployment configuration and the Service of a namespace and name, as
  the JSON of \<open>DeploymentInfo\<close> and \<open>ServiceInfo\<close>, or the exception of the client.
\<close>

record cluster_reads =
  rd_deployment :: "string \<Rightarrow> string \<Rightarrow> dict res"
  rd_service :: "string \<Rightarrow> string \<Rightarrow> dict res"

definition service_data :: "incident_state \<Rightarrow> profile \<Rightarrow> dict list" where
  "service_data s pr = filter (\<lambda>d. dget d ''namespace'' = JStr (pr_namespace pr))
     (map ev_data (filter (\<lambda>e. ev_type e = ''Service'' \<and> ev_name e = pr_service_name pr) (st_evidence s)))"

definition check_live_service ::
  "cluster_reads \<Rightarrow> incident_state \<Rightarrow> profile \<Rightarrow> unit res" where
  "check_live_service rd s pr =
     (case service_data s pr of
        [d] \<Rightarrow>
          if \<not> truthy (dget d ''uid'') then Inl (ProfileUnavailable ''SERVICE_IDENTITY_MISSING'')
          else bindE (rd_service rd (pr_namespace pr) (pr_service_name pr)) (\<lambda>live.
            if py_eq (dget live ''uid'') (dget d ''uid'') \<and> py_eq (dget live ''selector'') (dget d ''selector'')
            then Inr () else Inl (ProfileUnavailable ''SERVICE_CHANGED_AFTER_APPROVAL''))
      | _ \<Rightarrow> Inl (ProfileUnavailable ''SERVICE_IDENTITY_MISSING''))"

definition revalidate_live_profile ::
  "(json \<Rightarrow> string) \<Rightarrow> profile_file list \<Rightarrow> cluster_reads \<Rightarrow> incident_state \<Rightarrow> plan \<Rightarrow> dict res" where
  "revalidate_live_profile H files rd s pl =
     bindE (matched_profile H s) (\<lambda>pr.
     bindE (load_profile files (pr_namespace pr) (pr_service_name pr)) (\<lambda>current.
     if Some (profile_digest H current) \<noteq> Option.bind (st_service_profile s) sn_digest
     then Inl (ProfileUnavailable ''SERVICE_PROFILE_CHANGED_AFTER_APPROVAL'')
     else bindE (validate_profile_action current pl) (\<lambda>_.
     bindE (if pl_target_uid pl \<noteq> None \<and> pl_target_uid pl \<noteq> Some []
            then check_live_service rd s current else Inr ()) (\<lambda>_.
     bindE (rd_deployment rd (pr_namespace current) (pr_deployment_name current)) (\<lambda>live.
     bindE (assess_profile current live) (\<lambda>reasons.
     if reasons \<noteq> [] then Inl (ProfileUnavailable ''APPLICATION_CHANGED_AFTER_APPROVAL'')
     else if \<not> (py_eq (dget live ''uid'') (opt_get (Option.bind (st_service_profile s) sn_deployment_uid))
              \<and> py_eq (dget live ''generation'')
                       (opt_get (Option.bind (st_service_profile s) sn_deployment_generation)))
     then Inl (ProfileUnavailable ''DEPLOYMENT_CHANGED_AFTER_APPROVAL'')
     else if \<not> truthy (dget live ''resource_version'')
     then Inl (ProfileUnavailable ''DEPLOYMENT_RESOURCE_VERSION_MISSING'')
     else Inr live))))))"

end
