(* ===== verification/BusinessTarget.thy ===== *)
theory BusinessTarget
  imports Registry
begin

text \<open>
  The request a business check may send: \<open>validate_target\<close> of
  \<open>backend/app/business_checks/protocol.py\<close> and \<open>build_target\<close> of
  \<open>backend/app/business_checks/collector.py\<close>. The address tests of Python's \<open>ipaddress\<close> module
  are written out for textual and numeric IPv4 and IPv6 addresses.
\<close>

section \<open>Addresses\<close>

datatype ip = IPv4 int | IPv6 int

fun split_on :: "char \<Rightarrow> string \<Rightarrow> string list" where
  "split_on d [] = [[]]"
| "split_on d (c # cs) = (if c = d then [] # split_on d cs
     else (case split_on d cs of [] \<Rightarrow> [[c]] | w # ws \<Rightarrow> (c # w) # ws))"

definition is_digit :: "char \<Rightarrow> bool" where
  "is_digit c = (let n = of_char c :: int in 48 \<le> n \<and> n \<le> 57)"

definition digit_val :: "char \<Rightarrow> int" where
  "digit_val c = (let n = of_char c :: int in
     if 48 \<le> n \<and> n \<le> 57 then n - 48 else if 97 \<le> n \<and> n \<le> 102 then n - 87 else n - 55)"

definition is_hex :: "char \<Rightarrow> bool" where
  "is_hex c = (is_lower_hex c \<or> (let n = of_char c :: int in 65 \<le> n \<and> n \<le> 70))"

definition num_val :: "int \<Rightarrow> string \<Rightarrow> int" where
  "num_val base s = foldl (\<lambda>a c. base * a + digit_val c) 0 s"

definition parse_octet :: "string \<Rightarrow> int option" where
  "parse_octet s = (if s \<noteq> [] \<and> list_all is_digit s \<and> length s \<le> 3
       \<and> \<not> (length s > 1 \<and> hd s = CHR ''0'') \<and> num_val 10 s \<le> 255
     then Some (num_val 10 s) else None)"

definition parse_ipv4 :: "string \<Rightarrow> int option" where
  "parse_ipv4 s = (case map parse_octet (split_on CHR ''.'' s) of
       [Some a, Some b, Some c, Some d] \<Rightarrow> Some (((a * 256 + b) * 256 + c) * 256 + d)
     | _ \<Rightarrow> None)"

definition parse_hextet :: "string \<Rightarrow> int option" where
  "parse_hextet s = (if s \<noteq> [] \<and> list_all is_hex s \<and> length s \<le> 4 then Some (num_val 16 s) else None)"

fun hextets :: "int \<Rightarrow> string list \<Rightarrow> int option" where
  "hextets a [] = Some a"
| "hextets a (p # ps) = (case parse_hextet p of None \<Rightarrow> None | Some h \<Rightarrow> hextets (65536 * a + h) ps)"

text \<open>The empty parts strictly inside: the position of the only \<open>::\<close>.\<close>

definition inner_gaps :: "string list \<Rightarrow> nat list" where
  "inner_gaps ps = filter (\<lambda>i. ps ! i = []) [1..<length ps - 1]"

definition ipv6_parts :: "string list \<Rightarrow> int option" where
  "ipv6_parts ps =
     (if length ps > 9 then None else
      case inner_gaps ps of
        [] \<Rightarrow> if length ps = 8 then hextets 0 ps else None
      | [i] \<Rightarrow>
          (let hi = take i ps; lo = drop (Suc i) ps in
           if (hd ps = [] \<and> i \<noteq> 1) \<or> (last ps = [] \<and> length lo \<noteq> 1) then None
           else (let hi' = (if hd ps = [] then [] else hi); lo' = (if last ps = [] then [] else lo) in
             if length hi' + length lo' \<ge> 8 then None
             else case hextets 0 hi' of None \<Rightarrow> None
               | Some h \<Rightarrow> hextets (h * 65536 ^ (8 - (length hi' + length lo'))) lo'))
      | _ \<Rightarrow> None)"

text \<open>A dotted tail stands for two hextets; it is read as its value below 2^32.\<close>

definition hex_digit :: "int \<Rightarrow> char" where
  "hex_digit n = char_of (if n < 10 then 48 + n else 87 + n)"

definition hextet_text :: "int \<Rightarrow> string" where
  "hextet_text n = map hex_digit [n div 4096 mod 16, n div 256 mod 16, n div 16 mod 16, n mod 16]"

definition parse_ipv6 :: "string \<Rightarrow> int option" where
  "parse_ipv6 s =
     (let body = takeWhile (\<lambda>c. c \<noteq> CHR ''%'') s; scope = drop 1 (dropWhile (\<lambda>c. c \<noteq> CHR ''%'') s);
          ps = split_on CHR '':'' body
      in if CHR ''%'' \<in> set s \<and> (scope = [] \<or> CHR ''%'' \<in> set scope) then None
         else if length ps < 3 then None
         else if CHR ''.'' \<in> set (last ps)
         then (case parse_ipv4 (last ps) of None \<Rightarrow> None
             | Some n \<Rightarrow> ipv6_parts (butlast ps @ [hextet_text (n div 65536), hextet_text (n mod 65536)]))
         else ipv6_parts ps)"

definition parse_ip_text :: "string \<Rightarrow> ip option" where
  "parse_ip_text s =
     (if CHR ''/'' \<in> set s then None
      else case parse_ipv4 s of Some n \<Rightarrow> Some (IPv4 n) | None \<Rightarrow> map_option IPv6 (parse_ipv6 s))"

definition parse_ip_num :: "int \<Rightarrow> ip option" where
  "parse_ip_num n = (if 0 \<le> n \<and> n < 2 ^ 32 then Some (IPv4 n)
     else if 0 \<le> n \<and> n < 2 ^ 128 then Some (IPv6 n) else None)"

text \<open>\<open>ipaddress.ip_address(v)\<close>; anything else is a \<open>ValueError\<close>.\<close>

fun ip_address :: "json \<Rightarrow> ip option" where
  "ip_address (JStr s) = parse_ip_text s"
| "ip_address (JInt n) = parse_ip_num n"
| "ip_address (JBool b) = parse_ip_num (if b then 1 else 0)"
| "ip_address _ = None"

fun is_loopback :: "ip \<Rightarrow> bool" where
  "is_loopback (IPv4 n) = (n div 2 ^ 24 = 127)"
| "is_loopback (IPv6 n) = (n = 1)"

fun is_link_local :: "ip \<Rightarrow> bool" where
  "is_link_local (IPv4 n) = (n div 2 ^ 16 = 169 * 256 + 254)"
| "is_link_local (IPv6 n) = (n div 2 ^ 118 = 1018)"

fun is_unspecified :: "ip \<Rightarrow> bool" where
  "is_unspecified (IPv4 n) = (n = 0)"
| "is_unspecified (IPv6 n) = (n = 0)"

fun is_multicast :: "ip \<Rightarrow> bool" where
  "is_multicast (IPv4 n) = (n div 2 ^ 28 = 14)"
| "is_multicast (IPv6 n) = (n div 2 ^ 120 = 255)"

definition unsafe_ip :: "ip \<Rightarrow> bool" where
  "unsafe_ip a = (is_loopback a \<or> is_link_local a \<or> is_unspecified a \<or> is_multicast a)"

section \<open>The wire contract\<close>

definition key_set :: "dict \<Rightarrow> string list \<Rightarrow> bool" where
  "key_set d ks = (set (map fst d) = set ks)"

definition need_str :: "json \<Rightarrow> string res" where
  "need_str v = (case v of JStr s \<Rightarrow> Inr s | _ \<Rightarrow> Inl TypeError)"

definition resource_name_pattern :: "string \<Rightarrow> bool" where
  "resource_name_pattern s = (name_pattern ''-'' s \<and> length s \<le> 63)"

definition check_id_pattern :: "string \<Rightarrow> bool" where
  "check_id_pattern s = (name_pattern ''.-'' s \<and> length s \<le> 253)"

definition invalid :: "string \<Rightarrow> exn" where
  "invalid = PyValueError"

definition request_path_ok :: "json \<Rightarrow> bool" where
  "request_path_ok v = (case v of JStr s \<Rightarrow>
       starts_with ''/'' s \<and> \<not> starts_with ''//'' s \<and> length s \<le> 300
       \<and> CHR 0x5C \<notin> set s \<and> CHR ''?'' \<notin> set s \<and> CHR ''#'' \<notin> set s
       \<and> list_all (\<lambda>c. \<not> is_space c \<and> (of_char c :: int) \<ge> 32) s
     | _ \<Rightarrow> False)"

definition int_between :: "int \<Rightarrow> int \<Rightarrow> json \<Rightarrow> bool" where
  "int_between lo hi v = (case v of JInt n \<Rightarrow> lo \<le> n \<and> n \<le> hi | _ \<Rightarrow> False)"

definition assertion_ok :: "string \<times> json \<Rightarrow> bool" where
  "assertion_ok kv = (length (fst kv) \<le> 100
     \<and> (case snd kv of JStr s \<Rightarrow> length s \<le> 300 | JInt _ \<Rightarrow> True | JBool _ \<Rightarrow> True | _ \<Rightarrow> False))"

definition assertions_ok :: "json \<Rightarrow> bool" where
  "assertions_ok v = (case v of JObj d \<Rightarrow> length d \<le> 20 \<and> list_all assertion_ok d | _ \<Rightarrow> False)"

definition target_keys :: "string list" where
  "target_keys = [''namespace'', ''service_name'', ''profile_digest'', ''cluster_ip'', ''port'', ''check'']"

definition check_keys :: "string list" where
  "check_keys = [''check_id'', ''path'', ''port'', ''scheme'', ''method'', ''expected_status'',
     ''expected_json_subset'', ''timeout_seconds'', ''max_response_bytes'', ''follow_redirects'', ''read_only'']"

definition validate_check :: "dict \<Rightarrow> unit res" where
  "validate_check c =
     bindE (need_str (dget c ''check_id'')) (\<lambda>cid.
       if \<not> check_id_pattern cid then Inl (invalid ''invalid check ID'')
       else if \<not> request_path_ok (dget c ''path'') then Inl (invalid ''invalid local request path'')
       else if dget c ''scheme'' \<noteq> JStr ''HTTP'' \<or> dget c ''method'' \<noteq> JStr ''GET''
       then Inl (invalid ''only HTTP GET is supported in stage 3'')
       else if dget c ''follow_redirects'' \<noteq> JBool False \<or> dget c ''read_only'' \<noteq> JBool True
       then Inl (invalid ''unsafe check settings'')
       else if \<not> (int_between 1 10 (dget c ''timeout_seconds'')
               \<and> int_between 1 65536 (dget c ''max_response_bytes'')
               \<and> int_between 200 299 (dget c ''expected_status''))
       then Inl (invalid ''invalid check bound'')
       else if \<not> assertions_ok (dget c ''expected_json_subset'')
       then Inl (invalid ''invalid JSON assertions'')
       else Inr ())"

definition validate_target :: "json \<Rightarrow> json res" where
  "validate_target v = (case v of JObj t \<Rightarrow>
       if \<not> key_set t target_keys then Inl (invalid ''invalid target fields'')
       else bindE (need_str (dget t ''namespace'')) (\<lambda>ns.
            if \<not> resource_name_pattern ns then Inl (invalid ''invalid resource name'')
            else bindE (need_str (dget t ''service_name'')) (\<lambda>svc.
            if \<not> resource_name_pattern svc then Inl (invalid ''invalid resource name'')
            else bindE (need_str (dget t ''profile_digest'')) (\<lambda>dg.
            if \<not> hex_id [] 64 dg then Inl (invalid ''invalid digest'')
            else (case ip_address (dget t ''cluster_ip'') of
                None \<Rightarrow> Inl (invalid ''not an IP address'')
              | Some a \<Rightarrow>
                 if unsafe_ip a then Inl (invalid ''unsafe Service address'')
                 else if \<not> int_between 1 65535 (dget t ''port'') then Inl (invalid ''invalid Service port'')
                 else (case dget t ''check'' of JObj c \<Rightarrow>
                     if \<not> key_set c check_keys then Inl (invalid ''invalid check fields'')
                     else bindE (validate_check c) (\<lambda>_. Inr v)
                   | _ \<Rightarrow> Inl (invalid ''invalid check fields''))))))
     | _ \<Rightarrow> Inl (invalid ''invalid target fields''))"

section \<open>Building a target from the profile and the observed Service\<close>

definition port_selected :: "port \<Rightarrow> json \<Rightarrow> bool res" where
  "port_selected want p = andE (bindE (jget_or p ''protocol'' (JStr ''TCP'')) (\<lambda>x. Inr (x = JStr ''TCP'')))
     (case want of PortNum n \<Rightarrow> bindE (jget p ''port'') (\<lambda>x. Inr (py_eq x (JInt n)))
                 | PortName s \<Rightarrow> bindE (jget p ''name'') (\<lambda>x. Inr (x = JStr s)))"

definition build_target :: "(json \<Rightarrow> string) \<Rightarrow> profile \<Rightarrow> business_check \<Rightarrow> dict \<Rightarrow> json res" where
  "build_target H p c service =
     (if dget service ''namespace'' \<noteq> JStr (pr_namespace p) \<or> dget service ''name'' \<noteq> JStr (pr_service_name p)
      then Inl (invalid ''SERVICE_ASSOCIATION_MISMATCH'')
      else if dget service ''service_type'' \<noteq> JStr ''ClusterIP'' \<or> \<not> truthy (dget service ''cluster_ip'')
      then Inl (invalid ''ONLY_NON_HEADLESS_CLUSTERIP_SUPPORTED'')
      else bindE (jiter (dget_or service ''ports'' (JArr []))) (\<lambda>ps.
           bindE (filterE (port_selected (hp_port c)) ps) (\<lambda>sel.
           case sel of
             [p0] \<Rightarrow> bindE (jindex p0 ''port'') (\<lambda>port.
               validate_target (JObj
                 [(''namespace'', JStr (pr_namespace p)), (''service_name'', JStr (pr_service_name p)),
                  (''profile_digest'', JStr (profile_digest H p)),
                  (''cluster_ip'', dget service ''cluster_ip''), (''port'', port), (''check'', check_json c)]))
           | _ \<Rightarrow> Inl (invalid ''REGISTERED_SERVICE_PORT_NOT_FOUND''))))"

end
