(* ===== verification/DiagnosisPolicy.thy ===== *)
theory DiagnosisPolicy
  imports BusinessTarget
begin

text \<open>
  \<open>backend/app/agent/diagnosis_policy.py\<close>: the facts computed from the evidence of an incident
  (\<open>diagnostic_facts\<close>) and the gate that compares a model's diagnosis with them
  (\<open>validate_diagnosis_assessment\<close>). Accesses to evidence that would raise in Python are
  values \<open>Inl\<close> of the result.
\<close>

section \<open>Categories and domains\<close>

fun diagnosis_domains :: "fault_category \<Rightarrow> problem_domain list" where
  "diagnosis_domains ServiceSelectorMismatch = [DeploymentConfiguration]"
| "diagnosis_domains ReadinessProbeError = [DeploymentConfiguration]"
| "diagnosis_domains ApplicationError = [ApplicationRuntime]"
| "diagnosis_domains DependencyError = [DependencyDomain]"
| "diagnosis_domains UnknownFault = [InsufficientEvidence]"
| "diagnosis_domains NoFaultDetected = [NoDomain]"
| "diagnosis_domains CrashLoopBackoff = [ApplicationRuntime]"
| "diagnosis_domains OomKilled = [ApplicationRuntime]"
| "diagnosis_domains ImagePullBackoff = [DeploymentConfiguration, DependencyDomain, InsufficientEvidence]"

definition configuration_categories :: "fault_category list" where
  "configuration_categories = [ServiceSelectorMismatch, ReadinessProbeError]"

section \<open>Readiness configuration\<close>

datatype readiness_status = ReadinessUnknown | ReadinessMatched | ReadinessDrift

record readiness_facts =
  rf_status :: readiness_status
  rf_drift :: bool
  rf_patch_supported :: bool

definition unknown_readiness :: readiness_facts where
  "unknown_readiness = \<lparr>rf_status = ReadinessUnknown, rf_drift = False, rf_patch_supported = False\<rparr>"

definition same_scheme :: "dict \<Rightarrow> http_probe \<Rightarrow> bool" where
  "same_scheme probe expected =
     (or_else (dget probe ''scheme'') (JStr ''HTTP'') = JStr (scheme_name (hp_scheme expected)))"

definition same_address :: "dict \<Rightarrow> http_probe \<Rightarrow> bool" where
  "same_address probe expected =
     (dget probe ''path'' = JStr (hp_path expected)
      \<and> py_eq (dget probe ''port'') (port_json (hp_port expected)))"

definition readiness_configuration_facts :: "dict \<Rightarrow> http_probe \<Rightarrow> readiness_facts" where
  "readiness_configuration_facts container expected =
     (case map_of container ''readiness_probe'' of
        None \<Rightarrow> unknown_readiness
      | Some JNull \<Rightarrow> unknown_readiness\<lparr>rf_status := ReadinessDrift, rf_drift := True\<rparr>
      | Some (JObj probe) \<Rightarrow>
          if \<not> truthy (dget probe ''path'') \<or> dget probe ''port'' = JNull then unknown_readiness
          else (let sch = same_scheme probe expected; addr = same_address probe expected;
                    drift = (\<not> (sch \<and> addr))
                in \<lparr>rf_status = (if drift then ReadinessDrift else ReadinessMatched),
                    rf_drift = drift, rf_patch_supported = (sch \<and> \<not> addr)\<rparr>)
      | Some _ \<Rightarrow> unknown_readiness)"

section \<open>Facts\<close>

record facts =
  fc_resource_status :: resource_status
  fc_business_status :: business_status
  fc_selector_drift :: bool
  fc_configuration_evidence_ids :: "string list"
  fc_business_evidence_ids :: "string list"
  fc_resource_evidence_ids :: "string list"
  fc_current_runtime_faults :: "fault_category list"
  fc_configuration_evidence_complete :: bool
  fc_current_log_evidence_ids :: "string list"
  fc_profile_matched :: bool
  fc_readiness :: readiness_facts
  fc_expected_replicas :: "int option"
  fc_observed_desired_replicas :: json
  fc_replica_count_matches :: "bool option"

definition no_facts :: facts where
  "no_facts = \<lparr>fc_resource_status = ResourceUnknown, fc_business_status = BusinessUnknown,
     fc_selector_drift = False, fc_configuration_evidence_ids = [], fc_business_evidence_ids = [],
     fc_resource_evidence_ids = [], fc_current_runtime_faults = [],
     fc_configuration_evidence_complete = False, fc_current_log_evidence_ids = [],
     fc_profile_matched = False, fc_readiness = unknown_readiness, fc_expected_replicas = None,
     fc_observed_desired_replicas = JNull, fc_replica_count_matches = None\<rparr>"

abbreviation readiness_drift :: "facts \<Rightarrow> bool" where
  "readiness_drift f \<equiv> rf_drift (fc_readiness f)"

text \<open>\<open>items(kind, name)\<close> over the evidence without errors.\<close>

definition items :: "incident_state \<Rightarrow> string \<Rightarrow> evidence list" where
  "items s k = filter (\<lambda>e. ev_type e = k) (filter ev_ok (st_evidence s))"

definition items_named :: "incident_state \<Rightarrow> string \<Rightarrow> string option \<Rightarrow> evidence list" where
  "items_named s k n = filter (\<lambda>e. n = None \<or> Some (ev_name e) = n) (items s k)"

subsection \<open>Service and Deployment configuration\<close>

definition opt_str :: "string option \<Rightarrow> json" where
  "opt_str = opt_json JStr"

definition service_valid :: "incident_state \<Rightarrow> dict \<Rightarrow> bool" where
  "service_valid s svc = (dget svc ''namespace'' = opt_str (req_get s ''namespace'')
     \<and> dget svc ''name'' = opt_str (req_get s ''service_name'') \<and> is_dict (dget svc ''selector''))"

definition selector_drifted :: "profile \<Rightarrow> dict \<Rightarrow> bool" where
  "selector_drifted p svc = (\<not> py_eq (dget svc ''selector'') (JObj (str_dict (pr_expected_selector p))))"

definition find_container :: "json \<Rightarrow> string \<Rightarrow> dict res" where
  "find_container containers n =
     bindE (jiter containers) (\<lambda>cs.
     bindE (findE (\<lambda>c. bindE (jget c ''name'') (\<lambda>x. Inr (x = JStr n))) cs) (\<lambda>r.
       Inr (case r of Some (JObj d) \<Rightarrow> d | _ \<Rightarrow> [])))"

definition configuration_complete :: "bool \<Rightarrow> dict \<Rightarrow> bool res" where
  "configuration_complete valid container =
     (if valid \<and> container \<noteq> []
      then (let probe = or_else (dget container ''readiness_probe'') (JObj []) in
        andE (bindE (jget probe ''path'') (\<lambda>x. Inr (truthy x)))
             (bindE (jget probe ''port'') (\<lambda>x. Inr (x \<noteq> JNull))))
      else Inr False)"

subsection \<open>Workload observations\<close>

definition owned_by :: "incident_state \<Rightarrow> profile \<Rightarrow> evidence \<Rightarrow> bool res" where
  "owned_by s p e =
     andE (bindE (jget (dget_or (ev_data e) ''owner_chain'' (JObj [])) ''deployment_name'')
             (\<lambda>x. Inr (x = JStr (pr_deployment_name p))))
          (bindE (jindex (JObj (ev_data e)) ''owner_chain'') (\<lambda>c.
           bindE (jget c ''namespace'') (\<lambda>x. Inr (x = opt_str (req_get s ''namespace'')))))"

definition owned_pods :: "incident_state \<Rightarrow> profile \<Rightarrow> string list res" where
  "owned_pods s p = bindE (filterE (owned_by s p) (items s ''OwnerChain'')) (\<lambda>es. Inr (map ev_name es))"

definition pod_items :: "incident_state \<Rightarrow> string list \<Rightarrow> evidence list" where
  "pod_items s owned = filter (\<lambda>e. ev_name e \<in> set owned
      \<and> dget (ev_data e) ''namespace'' = opt_str (req_get s ''namespace'')) (items s ''PodStatus'')"

definition endpoint_items :: "incident_state \<Rightarrow> evidence list" where
  "endpoint_items s = filter (\<lambda>e. dget (ev_data e) ''namespace'' = opt_str (req_get s ''namespace'')
      \<and> dget (ev_data e) ''service_name'' = opt_str (req_get s ''service_name'')) (items s ''EndpointSlice'')"

definition runtime_category :: "json \<Rightarrow> fault_category option res" where
  "runtime_category c =
     bindE (jget c ''state'') (\<lambda>st.
     bindE (if st = JStr ''waiting'' then jget c ''waiting_reason''
            else if st = JStr ''terminated'' then jget c ''terminated_reason'' else Inr JNull) (\<lambda>reason.
       if \<not> hashable reason then Inl TypeError
       else Inr (if reason = JStr ''CrashLoopBackOff'' then Some CrashLoopBackoff
                 else if reason = JStr ''ImagePullBackOff'' then Some ImagePullBackoff
                 else if reason = JStr ''ErrImagePull'' then Some ImagePullBackoff
                 else if reason = JStr ''OOMKilled'' then Some OomKilled else None)))"

definition pod_faults :: "evidence \<Rightarrow> fault_category list res" where
  "pod_faults e = bindE (jiter (dget_or (ev_data e) ''containers'' (JArr []))) (\<lambda>cs.
     bindE (mapE runtime_category cs) (\<lambda>fs. Inr (List.map_filter id fs)))"

definition runtime_faults :: "evidence list \<Rightarrow> fault_category list res" where
  "runtime_faults pods = bindE (mapE pod_faults pods) (\<lambda>fss. Inr (concat fss))"

definition log_ids :: "incident_state \<Rightarrow> string list \<Rightarrow> string list" where
  "log_ids s owned = map ev_id (filter (\<lambda>e. ev_name e \<in> set owned
      \<and> dget (ev_data e) ''previous'' = JBool False \<and> truthy (dget (ev_data e) ''content''))
     (items s ''PodLogs''))"

definition endpoint_ready :: "string list \<Rightarrow> json \<Rightarrow> bool res" where
  "endpoint_ready owned ep = andE (bindE (jget ep ''ready'') (\<lambda>x. Inr (x = JBool True)))
     (bindE (jget ep ''target_name'') (\<lambda>n.
        if hashable n then Inr (n \<in> set (map JStr owned)) else Inl TypeError))"

definition slice_ready :: "string list \<Rightarrow> evidence \<Rightarrow> bool res" where
  "slice_ready owned e = bindE (jiter (dget_or (ev_data e) ''endpoints'' (JArr []))) (anyE (endpoint_ready owned))"

subsection \<open>Resource status\<close>

definition replica_matches :: "profile \<Rightarrow> json \<Rightarrow> bool option" where
  "replica_matches p desired = (case (pr_expected_replicas p, desired) of
       (Some n, JInt d) \<Rightarrow> Some (d = n) | _ \<Rightarrow> None)"

definition resource_failing ::
  "dict \<Rightarrow> int \<Rightarrow> bool option \<Rightarrow> bool \<Rightarrow> bool \<Rightarrow> evidence list \<Rightarrow> bool res" where
  "resource_failing dep d matches sel_drift ready_drift pods =
     (if d = 0 \<or> matches = Some False then Inr True
      else orE (jless_int (dget_or dep ''ready_replicas'' (JInt 0)) d)
          (orE (jless_int (dget_or dep ''available_replicas'' (JInt 0)) d)
           (Inr (sel_drift \<or> ready_drift
                 \<or> list_ex (\<lambda>e. dget (ev_data e) ''ready'' = JBool False) pods))))"

definition resource_assessment ::
  "dict \<Rightarrow> bool option \<Rightarrow> bool \<Rightarrow> readiness_facts \<Rightarrow> bool \<Rightarrow> string list \<Rightarrow> evidence list \<Rightarrow> evidence list
   \<Rightarrow> resource_status res" where
  "resource_assessment dep matches sel_drift rf valid owned pods endpoints =
     (case dget dep ''desired_replicas'' of JInt d \<Rightarrow>
        if d < 0 then Inr ResourceUnknown
        else bindE (resource_failing dep d matches sel_drift (rf_drift rf) pods) (\<lambda>bad.
          if bad then Inr NotReady
          else if valid \<and> rf_status rf = ReadinessMatched \<and> int (length pods) \<ge> d
                  \<and> list_all (\<lambda>e. dget (ev_data e) ''ready'' = JBool True) pods
          then bindE (anyE (slice_ready owned) endpoints) (\<lambda>ok. Inr (if ok then Ready else ResourceUnknown))
          else Inr ResourceUnknown)
      | _ \<Rightarrow> Inr ResourceUnknown)"

subsection \<open>Business status\<close>

definition caught_by_check :: "exn \<Rightarrow> bool" where
  "caught_by_check e = (is_value_error e \<or> e = KeyError \<or> e = TypeError)"

definition check_valid :: "(json \<Rightarrow> string) \<Rightarrow> profile \<Rightarrow> dict \<Rightarrow> business_check \<Rightarrow> evidence \<Rightarrow> bool res" where
  "check_valid H p svc c e = catchE
     (bindE (build_target H p c svc) (\<lambda>target.
        Inr (dget (ev_data e) ''scope'' = JStr ''cluster_service_http''
             \<and> truthy (dget (ev_data e) ''request_id'')
             \<and> ev_source e = ''cluster_http_probe''
             \<and> same_text (dget (ev_data e) ''target'') target)))
     caught_by_check (\<lambda>_. Inr False)"

definition check_status :: "bool \<Rightarrow> business_check \<Rightarrow> dict \<Rightarrow> json" where
  "check_status valid c data =
     (let st = (if valid then dget data ''status'' else JStr ''unknown'') in
      if st = JStr ''passed'' \<and> \<not> (py_eq (dget data ''http_status'') (JInt (bc_expected_status c))
           \<and> dget data ''content_matches'' = JBool True \<and> dget data ''error_code'' = JNull)
      then JStr ''unknown'' else st)"

definition check_result ::
  "(json \<Rightarrow> string) \<Rightarrow> incident_state \<Rightarrow> profile \<Rightarrow> dict \<Rightarrow> business_check \<Rightarrow> (json \<times> string list) res" where
  "check_result H s p svc c =
     (case filter (\<lambda>e. dget (ev_data e) ''check_id'' = JStr (bc_check_id c)) (items s ''BusinessCheck'') of
        [e] \<Rightarrow> bindE (check_valid H p svc c e) (\<lambda>v. Inr (check_status v c (ev_data e), [ev_id e]))
      | _ \<Rightarrow> Inr (JStr ''unknown'', []))"

definition business_assessment :: "json list \<Rightarrow> business_status" where
  "business_assessment statuses =
     (if JStr ''failed'' \<in> set statuses then Failed
      else if statuses \<noteq> [] \<and> list_all (\<lambda>x. x = JStr ''passed'') statuses then Passed
      else BusinessUnknown)"

subsection \<open>All facts\<close>

definition observed_service :: "incident_state \<Rightarrow> evidence option" where
  "observed_service s = (case items_named s ''Service'' (req_get s ''service_name'') of
       [e] \<Rightarrow> Some e | _ \<Rightarrow> None)"

definition service_dict :: "incident_state \<Rightarrow> dict" where
  "service_dict s = (case observed_service s of None \<Rightarrow> [] | Some e \<Rightarrow> ev_data e)"

definition service_config_ids :: "incident_state \<Rightarrow> string list" where
  "service_config_ids s = (case observed_service s of
       None \<Rightarrow> [] | Some e \<Rightarrow> if service_valid s (ev_data e) then [ev_id e] else [])"

definition selector_drift_of :: "incident_state \<Rightarrow> profile \<Rightarrow> bool" where
  "selector_drift_of s p = (service_valid s (service_dict s) \<and> selector_drifted p (service_dict s))"

definition profile_facts :: "(json \<Rightarrow> string) \<Rightarrow> incident_state \<Rightarrow> profile \<Rightarrow> facts res" where
  "profile_facts H s p =
     (case items_named s ''Deployment'' (Some (pr_deployment_name p)) of
        [] \<Rightarrow> Inl IndexError
      | dep_e # _ \<Rightarrow>
         (let dep = ev_data dep_e;
              svc = service_dict s;
              valid = service_valid s svc;
              drift = selector_drift_of s p;
              desired = dget dep ''desired_replicas'';
              matches = replica_matches p desired
          in bindE (find_container (dget_or dep ''containers'' (JArr [])) (pr_container_name p)) (\<lambda>container.
             bindE (configuration_complete valid container) (\<lambda>complete.
             bindE (owned_pods s p) (\<lambda>owned.
             bindE (runtime_faults (pod_items s owned)) (\<lambda>faults.
             bindE (resource_assessment dep matches drift
                      (readiness_configuration_facts container (pr_readiness_probe p)) valid owned
                      (pod_items s owned) (endpoint_items s)) (\<lambda>rstatus.
             bindE (mapE (check_result H s p svc) (pr_business_checks p)) (\<lambda>results.
               Inr \<lparr>fc_resource_status = rstatus,
                    fc_business_status = business_assessment (map fst results),
                    fc_selector_drift = drift,
                    fc_configuration_evidence_ids = service_config_ids s @ [ev_id dep_e],
                    fc_business_evidence_ids = concat (map snd results),
                    fc_resource_evidence_ids =
                      map ev_id (dep_e # pod_items s owned @ endpoint_items s),
                    fc_current_runtime_faults = faults,
                    fc_configuration_evidence_complete = complete,
                    fc_current_log_evidence_ids = log_ids s owned,
                    fc_profile_matched = True,
                    fc_readiness = readiness_configuration_facts container (pr_readiness_probe p),
                    fc_expected_replicas = pr_expected_replicas p,
                    fc_observed_desired_replicas = desired,
                    fc_replica_count_matches = matches\<rparr>))))))))"

definition diagnostic_facts :: "(json \<Rightarrow> string) \<Rightarrow> incident_state \<Rightarrow> facts res" where
  "diagnostic_facts H s = (case matched_profile H s of
       Inl e \<Rightarrow> if is_profile_unavailable e then Inr no_facts else Inl e
     | Inr p \<Rightarrow> profile_facts H s p)"

section \<open>The diagnosis gate\<close>

text \<open>
  \<open>diagnosis_contract(facts)["blocked_configuration_categories"]\<close>: the configuration categories the
  prompt tells the model not to choose.
\<close>

definition config_drift :: "facts \<Rightarrow> fault_category \<Rightarrow> bool" where
  "config_drift f c = (case c of ServiceSelectorMismatch \<Rightarrow> fc_selector_drift f
     | ReadinessProbeError \<Rightarrow> readiness_drift f | _ \<Rightarrow> False)"

definition blocked_configuration_categories :: "facts \<Rightarrow> fault_category list" where
  "blocked_configuration_categories f = filter (\<lambda>c. \<not> config_drift f c) configuration_categories"

definition cites_configuration :: "facts \<Rightarrow> hypothesis \<Rightarrow> bool" where
  "cites_configuration f h = subset_list (fc_configuration_evidence_ids f) (f_evidence_ids h)"

definition grounded_configuration :: "facts \<Rightarrow> fault_category \<Rightarrow> assessment \<Rightarrow> bool" where
  "grounded_configuration f c a =
     (c \<in> set configuration_categories \<and> fc_configuration_evidence_complete f \<and> config_drift f c
      \<and> fc_business_status f \<noteq> Failed \<and> fc_current_runtime_faults f = []
      \<and> list_ex (\<lambda>h. h_status h = Supported \<and> cites_configuration f h) (a_hypotheses a))"

definition common_checks :: "facts \<Rightarrow> diagnosis \<Rightarrow> assessment \<Rightarrow> (bool \<times> string) list" where
  "common_checks f d a =
     [(a_resource_status a = fc_resource_status f, ''resource_status must equal policy_facts.resource_status''),
      (a_business_status a = fc_business_status f, ''business_status must equal policy_facts.business_status''),
      (list_all (\<lambda>g. subset_list (f_evidence_ids g) (d_evidence_ids d)) (a_symptoms a)
       \<and> list_all (\<lambda>g. subset_list (f_evidence_ids g) (d_evidence_ids d)) (a_hypotheses a),
       ''finding references must be declared in diagnosis.evidence_ids''),
      (subset_list (fc_business_evidence_ids f) (d_evidence_ids d),
       ''diagnosis must cite collected registered BusinessCheck results''),
      (a_problem_domain a \<in> set (diagnosis_domains (d_fault_category d)),
       ''problem_domain contradicts fault_category'')]"

definition configuration_checks :: "facts \<Rightarrow> diagnosis \<Rightarrow> assessment \<Rightarrow> (bool \<times> string) list" where
  "configuration_checks f d a =
     (if d_fault_category d \<in> set configuration_categories then
       [(config_drift f (d_fault_category d),
         ''configuration diagnosis requires version-matched registered configuration drift''),
        (subset_list (fc_configuration_evidence_ids f) (d_evidence_ids d),
         ''configuration diagnosis must cite Service and registered Deployment''),
        (list_all (\<lambda>h. h_status h = Supported \<longrightarrow> cites_configuration f h) (a_hypotheses a),
         ''SUPPORTED_CONFIGURATION_REFERENCES_INCOMPLETE'')]
      else [])"

definition conclusion_checks :: "facts \<Rightarrow> diagnosis \<Rightarrow> assessment \<Rightarrow> (bool \<times> string) list" where
  "conclusion_checks f d a =
     (if d_fault_category d = NoFaultDetected then
       [(fc_resource_status f = Ready \<and> fc_business_status f = Passed \<and> \<not> readiness_drift f
         \<and> fc_current_runtime_faults f = [],
         ''no_fault_detected requires ready resources and all registered business checks passed''),
        (subset_list (fc_resource_evidence_ids f) (d_evidence_ids d),
         ''no_fault_detected must cite current resource evidence''),
        (a_hypotheses a = [], ''no_fault_detected must not assert an active root cause'')]
      else
       [(grounded_configuration f (d_fault_category d) a
         \<or> a_missing_evidence a \<noteq> [] \<and> a_next_investigation a \<noteq> [],
         ''fault/unknown diagnosis must state missing evidence and next investigation'')])"

text \<open>The bound 0.6 is a double: a double is at most it exactly when it is at most 3/5.\<close>

definition category_checks :: "facts \<Rightarrow> diagnosis \<Rightarrow> assessment \<Rightarrow> (bool \<times> string) list" where
  "category_checks f d a =
     (if d_fault_category d = UnknownFault
      then [(d_confidence d \<le> 3 / 5, ''unknown confidence must be <= 0.6'')] else [])
   @ (if d_fault_category d = ApplicationError
      then [(fc_business_status f = Failed \<or> fc_current_runtime_faults f \<noteq> [],
             ''application_error needs a current observed failure, not connection error alone'')] else [])
   @ (if d_fault_category d \<in> {CrashLoopBackoff, ImagePullBackoff, OomKilled}
      then [(d_fault_category d \<in> set (fc_current_runtime_faults f),
             ''historical logs/events/restarts cannot establish a current runtime failure'')] else [])
   @ (if d_fault_category d = DependencyError
      then [(fc_resource_status f = NotReady \<or> fc_business_status f = Failed,
             ''dependency hypothesis needs current failure symptoms''),
            (list_ex (\<lambda>i. i \<in> set (d_evidence_ids d)) (fc_current_log_evidence_ids f),
             ''dependency hypothesis needs current workload log evidence''),
            (a_hypotheses a \<noteq> [],
             ''dependency_error is a suspected cause and requires explicit hypotheses'')] else [])
   @ (if d_fault_category d \<notin> set configuration_categories
      then [(list_all (\<lambda>h. h_status h = Suspected) (a_hypotheses a),
             ''underlying runtime/dependency causes remain suspected in this evidence scope'')] else [])"

definition assessment_checks :: "facts \<Rightarrow> diagnosis \<Rightarrow> assessment \<Rightarrow> (bool \<times> string) list" where
  "assessment_checks f d a =
     common_checks f d a @ configuration_checks f d a @ conclusion_checks f d a @ category_checks f d a"

definition validate_diagnosis_assessment ::
  "(json \<Rightarrow> string) \<Rightarrow> diagnosis \<Rightarrow> incident_state \<Rightarrow> unit res" where
  "validate_diagnosis_assessment H d s = (case d_assessment d of
       None \<Rightarrow> Inl (InvalidDiagnosisAssessment ''new diagnosis requires assessment schema_version=v2'')
     | Some a \<Rightarrow> bindE (diagnostic_facts H s) (\<lambda>f.
         require_all InvalidDiagnosisAssessment (assessment_checks f d a)))"

section \<open>The rule-generated report\<close>

definition can_report_insufficient_evidence :: "facts \<Rightarrow> bool" where
  "can_report_insufficient_evidence f =
     (fc_profile_matched f \<and> fc_configuration_evidence_complete f
      \<and> fc_resource_status f = NotReady \<and> fc_business_status f = BusinessUnknown
      \<and> \<not> fc_selector_drift f \<and> \<not> readiness_drift f \<and> fc_current_runtime_faults f = []
      \<and> fc_business_evidence_ids f \<noteq> [] \<and> fc_resource_evidence_ids f \<noteq> [])"

text \<open>The report's Chinese prose is replaced by a short ASCII text of the same meaning.\<close>

definition insufficient_report :: "facts \<Rightarrow> diagnosis" where
  "insufficient_report f =
     \<lparr>d_assessment = Some
        \<lparr>a_problem_domain = InsufficientEvidence,
         a_symptoms =
           [\<lparr>f_summary = ''registered workload not ready'', f_evidence_ids = fc_resource_evidence_ids f\<rparr>,
            \<lparr>f_summary = ''registered business checks unknown'', f_evidence_ids = fc_business_evidence_ids f\<rparr>],
         a_hypotheses = [],
         a_missing_evidence = [''application diagnostics'', ''independent downstream checks''],
         a_next_investigation = [''check readiness failure'', ''confirm dependencies'', ''recheck after manual work''],
         a_resource_status = NotReady, a_business_status = BusinessUnknown,
         a_unverified_scope = [''root cause'', ''unregistered interfaces and other replicas'']\<rparr>,
      d_fault_category = UnknownFault,
      d_root_cause = ''insufficient evidence'',
      d_evidence_ids = dedup (fc_resource_evidence_ids f @ fc_business_evidence_ids f),
      d_runbook_ids = [], d_confidence = 0,
      d_reasoning_summary = ''generated from structured evidence''\<rparr>"

definition insufficient_evidence_diagnosis ::
  "(json \<Rightarrow> string) \<Rightarrow> incident_state \<Rightarrow> diagnosis res" where
  "insufficient_evidence_diagnosis H s = bindE (diagnostic_facts H s) (\<lambda>f.
     if \<not> can_report_insufficient_evidence f
     then Inl (InvalidDiagnosisAssessment ''insufficient-evidence precheck is not applicable'')
     else if diagnosis_schema (insufficient_report f) then Inr (insufficient_report f)
     else Inl ValidationError)"

end
