(* ===== verification/DiagnosisFacts.thy ===== *)
theory DiagnosisFacts
  imports DiagnosisPolicy
begin

text \<open>
  What the computed facts mean: inversion rules for \<open>matched_profile\<close> and
  \<open>diagnostic_facts\<close>, the meaning of a ready resource status and of a passed business status,
  and what the diagnosis gate guarantees of an accepted diagnosis.
\<close>

section \<open>The matched profile\<close>

lemma matched_profileD:
  assumes "matched_profile H s = Inr p"
  obtains n dep where "st_service_profile s = Some n" and "sn_status n = ''matched''"
    and "sn_profile n = Some p" and "profile_schema p"
    and "req_get s ''namespace'' = Some (pr_namespace p)"
    and "req_get s ''service_name'' = Some (pr_service_name p)"
    and "sn_digest n = Some (profile_digest H p)"
    and "deployments_of s (pr_deployment_name p) = [dep]"
    and "assess_profile p dep = Inr []"
    and "py_eq (opt_get (sn_deployment_uid n)) (dget dep ''uid'')"
    and "py_eq (opt_get (sn_deployment_generation n)) (dget dep ''generation'')"
  using assms
  by (auto simp: matched_profile_def res_simps split: option.splits if_splits list.splits)

lemma matched_profile_replicas:
  assumes "matched_profile H s = Inr p" and "pr_expected_replicas p = Some n"
  shows "1 \<le> n"
  using assms(1)
proof (rule matched_profileD)
  assume "profile_schema p"
  with assms(2) show ?thesis by (simp add: profile_schema_def)
qed

text \<open>The laws the policies rely on, as the interface of a profile source.\<close>

locale profile_source =
  fixes lookup :: "incident_state \<Rightarrow> profile res"
  assumes lookup_request: "lookup s = Inr p \<Longrightarrow> req_get s ''namespace'' = Some (pr_namespace p)
      \<and> req_get s ''service_name'' = Some (pr_service_name p)"
    and lookup_schema: "lookup s = Inr p \<Longrightarrow> profile_schema p"
    and lookup_deployment: "lookup s = Inr p \<Longrightarrow> length (deployments_of s (pr_deployment_name p)) = 1"
begin

lemma lookup_same_target:
  assumes "lookup s = Inr p" and "lookup s = Inr q"
  shows "pr_namespace p = pr_namespace q \<and> pr_service_name p = pr_service_name q"
  using assms by simp

lemma deployment_item_unique:
  assumes "lookup s = Inr p"
    and "e \<in> set (st_evidence s)" "ev_type e = ''Deployment''" "ev_name e = pr_deployment_name p"
  shows "deployments_of s (pr_deployment_name p) = [ev_data e]"
proof -
  have "length (deployments_of s (pr_deployment_name p)) = 1"
    using assms(1) by (rule lookup_deployment)
  moreover have "ev_data e \<in> set (deployments_of s (pr_deployment_name p))"
    using assms(2-4) by (auto simp: deployments_of_def)
  ultimately show ?thesis by (auto simp: length_Suc_conv)
qed

end

interpretation registry: profile_source "matched_profile H" for H
proof unfold_locales
  fix s p assume m: "matched_profile H s = Inr p"
  show "req_get s ''namespace'' = Some (pr_namespace p) \<and> req_get s ''service_name'' = Some (pr_service_name p)"
    using m by (rule matched_profileD) blast
  show "profile_schema p"
    using m by (rule matched_profileD) blast
  show "length (deployments_of s (pr_deployment_name p)) = 1"
    using m by (rule matched_profileD) simp
qed

section \<open>Inversion of the facts\<close>

lemma diagnostic_facts_cases:
  assumes "diagnostic_facts H s = Inr f"
  obtains (unmatched) e where "matched_profile H s = Inl e" and "is_profile_unavailable e" and "f = no_facts"
    | (matched) p where "matched_profile H s = Inr p" and "profile_facts H s p = Inr f"
  using assms by (auto simp: diagnostic_facts_def split: sum.splits if_splits)

lemma diagnostic_facts_matched:
  assumes "diagnostic_facts H s = Inr f" and "fc_profile_matched f"
  obtains p where "matched_profile H s = Inr p" and "profile_facts H s p = Inr f"
  using assms(1)
proof (cases rule: diagnostic_facts_cases)
  case unmatched
  with assms(2) show ?thesis by (simp add: no_facts_def)
next
  case (matched p)
  then show ?thesis by (rule that)
qed

lemma profile_factsD:
  assumes "profile_facts H s p = Inr f"
  obtains dep_e rest container owned results where
    "items_named s ''Deployment'' (Some (pr_deployment_name p)) = dep_e # rest"
    and "find_container (dget_or (ev_data dep_e) ''containers'' (JArr [])) (pr_container_name p) = Inr container"
    and "configuration_complete (service_valid s (service_dict s)) container
           = Inr (fc_configuration_evidence_complete f)"
    and "owned_pods s p = Inr owned"
    and "runtime_faults (pod_items s owned) = Inr (fc_current_runtime_faults f)"
    and "resource_assessment (ev_data dep_e) (fc_replica_count_matches f) (fc_selector_drift f)
           (fc_readiness f) (service_valid s (service_dict s)) owned (pod_items s owned) (endpoint_items s)
         = Inr (fc_resource_status f)"
    and "mapE (check_result H s p (service_dict s)) (pr_business_checks p) = Inr results"
    and "fc_business_status f = business_assessment (map fst results)"
    and "fc_selector_drift f = selector_drift_of s p"
    and "fc_configuration_evidence_ids f = service_config_ids s @ [ev_id dep_e]"
    and "fc_business_evidence_ids f = concat (map snd results)"
    and "fc_resource_evidence_ids f = map ev_id (dep_e # pod_items s owned @ endpoint_items s)"
    and "fc_current_log_evidence_ids f = log_ids s owned"
    and "fc_profile_matched f"
    and "fc_readiness f = readiness_configuration_facts container (pr_readiness_probe p)"
    and "fc_replica_count_matches f = replica_matches p (dget (ev_data dep_e) ''desired_replicas'')"
  using assms
  by (force simp: profile_facts_def res_simps Let_def split: list.splits)

section \<open>Readiness configuration\<close>

lemma readiness_status_drift:
  "rf_drift (readiness_configuration_facts c e) \<longleftrightarrow> rf_status (readiness_configuration_facts c e) = ReadinessDrift"
  by (auto simp: readiness_configuration_facts_def unknown_readiness_def Let_def
      split: option.splits json.splits if_splits)

lemma readiness_matched_iff:
  "rf_status (readiness_configuration_facts c e) = ReadinessMatched \<longleftrightarrow>
     (\<exists>probe. map_of c ''readiness_probe'' = Some (JObj probe) \<and> truthy (dget probe ''path'')
        \<and> dget probe ''port'' \<noteq> JNull \<and> same_scheme probe e \<and> same_address probe e)"
  by (auto simp: readiness_configuration_facts_def unknown_readiness_def Let_def
      split: option.splits json.splits if_splits)

lemma readiness_patch_iff:
  "rf_patch_supported (readiness_configuration_facts c e) \<longleftrightarrow>
     (\<exists>probe. map_of c ''readiness_probe'' = Some (JObj probe) \<and> truthy (dget probe ''path'')
        \<and> dget probe ''port'' \<noteq> JNull \<and> same_scheme probe e \<and> \<not> same_address probe e)"
  by (auto simp: readiness_configuration_facts_def unknown_readiness_def Let_def
      split: option.splits json.splits if_splits)

lemma readiness_patch_is_drift:
  "rf_patch_supported (readiness_configuration_facts c e) \<Longrightarrow> rf_drift (readiness_configuration_facts c e)"
  by (auto simp: readiness_configuration_facts_def unknown_readiness_def Let_def
      split: option.splits json.splits if_splits)

section \<open>Ready resources\<close>

lemma resource_failing_False:
  assumes "resource_failing dep d m sd rd pods = Inr False"
  shows "d \<noteq> 0" and "m \<noteq> Some False" and "\<not> sd" and "\<not> rd"
    and "jless_int (dget_or dep ''ready_replicas'' (JInt 0)) d = Inr False"
    and "jless_int (dget_or dep ''available_replicas'' (JInt 0)) d = Inr False"
  using assms by (auto simp: resource_failing_def res_simps split: if_splits)

lemma resource_readyD:
  assumes "resource_assessment dep m sd rf valid owned pods eps = Inr Ready"
  obtains d where "dget dep ''desired_replicas'' = JInt d" and "0 < d"
    and "m \<noteq> Some False" and "\<not> sd" and "\<not> rf_drift rf" and "valid"
    and "rf_status rf = ReadinessMatched"
    and "jless_int (dget_or dep ''ready_replicas'' (JInt 0)) d = Inr False"
    and "jless_int (dget_or dep ''available_replicas'' (JInt 0)) d = Inr False"
    and "d \<le> int (length pods)" and "\<forall>e\<in>set pods. dget (ev_data e) ''ready'' = JBool True"
    and "\<exists>e\<in>set eps. slice_ready owned e = Inr True"
proof (cases "dget dep ''desired_replicas''")
  case (JInt d)
  from assms JInt have nonneg: "\<not> d < 0"
    by (auto simp: resource_assessment_def split: if_splits)
  with assms JInt have ok: "resource_failing dep d m sd (rf_drift rf) pods = Inr False"
    by (auto simp: resource_assessment_def res_simps split: if_splits)
  with assms JInt nonneg have rest: "valid \<and> rf_status rf = ReadinessMatched \<and> d \<le> int (length pods)
      \<and> list_all (\<lambda>e. dget (ev_data e) ''ready'' = JBool True) pods
      \<and> anyE (slice_ready owned) eps = Inr True"
    by (auto simp: resource_assessment_def res_simps split: if_splits)
  show ?thesis
    using resource_failing_False [OF ok] rest nonneg JInt
    by (intro that [of d]) (auto simp: list_all_iff dest: anyE_True)
qed (use assms in \<open>auto simp: resource_assessment_def\<close>)

lemma endpoint_readyD:
  assumes "endpoint_ready owned ep = Inr True"
  obtains d n where "ep = JObj d" and "dget d ''ready'' = JBool True"
    and "dget d ''target_name'' = JStr n" and "n \<in> set owned"
  using assms by (auto simp: endpoint_ready_def res_simps split: if_splits)

lemma slice_readyD:
  assumes "slice_ready owned e = Inr True"
  obtains eps ep where "jiter (dget_or (ev_data e) ''endpoints'' (JArr [])) = Inr eps"
    and "ep \<in> set eps" and "endpoint_ready owned ep = Inr True"
  using assms by (auto simp: slice_ready_def res_simps dest!: anyE_True)

section \<open>Passed business checks\<close>

lemma check_valid_True:
  assumes "check_valid H p svc c e = Inr True"
  obtains target where "build_target H p c svc = Inr target"
    and "dget (ev_data e) ''scope'' = JStr ''cluster_service_http''"
    and "ev_source e = ''cluster_http_probe''"
    and "same_text (dget (ev_data e) ''target'') target"
  using assms by (auto simp: check_valid_def catchE_eq_Inr res_simps)

lemma check_status_passed:
  assumes "check_status v c d = JStr ''passed''"
  shows "v" and "dget d ''status'' = JStr ''passed''"
    and "py_eq (dget d ''http_status'') (JInt (bc_expected_status c))"
    and "dget d ''content_matches'' = JBool True" and "dget d ''error_code'' = JNull"
  using assms by (auto simp: check_status_def Let_def split: if_splits)

lemma check_result_passed:
  assumes "check_result H s p svc c = Inr (JStr ''passed'', ids)"
  obtains e where "e \<in> set (items s ''BusinessCheck'')"
    and "filter (\<lambda>e. dget (ev_data e) ''check_id'' = JStr (bc_check_id c)) (items s ''BusinessCheck'') = [e]"
    and "ids = [ev_id e]" and "check_valid H p svc c e = Inr True"
    and "check_status True c (ev_data e) = JStr ''passed''"
proof -
  let ?es = "filter (\<lambda>e. dget (ev_data e) ''check_id'' = JStr (bc_check_id c)) (items s ''BusinessCheck'')"
  from assms obtain e v where one: "?es = [e]" and v: "check_valid H p svc c e = Inr v"
    and st: "check_status v c (ev_data e) = JStr ''passed''" and ids: "ids = [ev_id e]"
    by (auto simp: check_result_def res_simps split: list.splits)
  from check_status_passed(1) [OF st] have "v" .
  moreover have "e \<in> set ?es"
    unfolding one by simp
  then have "e \<in> set (items s ''BusinessCheck'')"
    by simp
  ultimately show ?thesis
    using one v st ids by (intro that [of e]) auto
qed

lemma check_result_passed_sound:
  assumes "check_result H s p svc c = Inr (JStr ''passed'', ids)"
  shows "\<exists>e target.
      filter (\<lambda>e. dget (ev_data e) ''check_id'' = JStr (bc_check_id c)) (items s ''BusinessCheck'') = [e]
      \<and> ev_source e = ''cluster_http_probe'' \<and> build_target H p c svc = Inr target
      \<and> same_text (dget (ev_data e) ''target'') target
      \<and> dget (ev_data e) ''status'' = JStr ''passed''
      \<and> py_eq (dget (ev_data e) ''http_status'') (JInt (bc_expected_status c))
      \<and> dget (ev_data e) ''content_matches'' = JBool True
      \<and> dget (ev_data e) ''error_code'' = JNull"
  using assms
proof (rule check_result_passed)
  fix e
  assume one: "filter (\<lambda>e. dget (ev_data e) ''check_id'' = JStr (bc_check_id c)) (items s ''BusinessCheck'') = [e]"
    and v: "check_valid H p svc c e = Inr True" and st: "check_status True c (ev_data e) = JStr ''passed''"
  from v obtain target where t: "build_target H p c svc = Inr target" "ev_source e = ''cluster_http_probe''"
    "same_text (dget (ev_data e) ''target'') target"
    by (rule check_valid_True)
  show ?thesis
    using one t check_status_passed(2-5) [OF st]
    by (intro exI [of _ e] exI [of _ target] conjI)
qed

lemma business_passedD:
  "business_assessment sts = Passed \<Longrightarrow> sts \<noteq> [] \<and> (\<forall>x\<in>set sts. x = JStr ''passed'')"
  by (auto simp: business_assessment_def list_all_iff split: if_splits)

lemma mapE_nth:
  "mapE f xs = Inr ys \<Longrightarrow> x \<in> set xs \<Longrightarrow> \<exists>y\<in>set ys. f x = Inr y"
  by (induction xs arbitrary: ys) (auto simp: res_simps)

section \<open>The gate\<close>

lemma validate_diagnosisD:
  assumes "validate_diagnosis_assessment H d s = Inr u"
  obtains a f where "d_assessment d = Some a" and "diagnostic_facts H s = Inr f"
    and "list_all fst (assessment_checks f d a)"
  using assms by (auto simp: validate_diagnosis_assessment_def res_simps split: option.splits)

lemma accepted_common:
  assumes "list_all fst (assessment_checks f d a)"
  shows "a_resource_status a = fc_resource_status f" and "a_business_status a = fc_business_status f"
    and "set (fc_business_evidence_ids f) \<subseteq> set (d_evidence_ids d)"
    and "a_problem_domain a \<in> set (diagnosis_domains (d_fault_category d))"
  using assms by (simp_all add: assessment_checks_def common_checks_def)

lemma accepted_configuration:
  assumes "list_all fst (assessment_checks f d a)"
    and "d_fault_category d \<in> {ServiceSelectorMismatch, ReadinessProbeError}"
  shows "config_drift f (d_fault_category d)"
    and "set (fc_configuration_evidence_ids f) \<subseteq> set (d_evidence_ids d)"
    and "h \<in> set (a_hypotheses a) \<Longrightarrow> h_status h = Supported \<Longrightarrow>
           set (fc_configuration_evidence_ids f) \<subseteq> set (f_evidence_ids h)"
  using assms
  by (auto simp: assessment_checks_def configuration_checks_def configuration_categories_def
      cites_configuration_def list_all_iff [where xs = "a_hypotheses a"])

lemma accepted_no_fault:
  assumes "list_all fst (assessment_checks f d a)" and "d_fault_category d = NoFaultDetected"
  shows "fc_resource_status f = Ready \<and> fc_business_status f = Passed \<and> \<not> readiness_drift f
      \<and> fc_current_runtime_faults f = [] \<and> a_hypotheses a = []"
  using assms by (simp add: assessment_checks_def conclusion_checks_def)

lemma accepted_runtime:
  assumes "list_all fst (assessment_checks f d a)"
    and "d_fault_category d \<in> {CrashLoopBackoff, ImagePullBackoff, OomKilled}"
  shows "d_fault_category d \<in> set (fc_current_runtime_faults f)"
  using assms by (auto simp: assessment_checks_def category_checks_def)

lemma accepted_application:
  assumes "list_all fst (assessment_checks f d a)" and "d_fault_category d = ApplicationError"
  shows "fc_business_status f = Failed \<or> fc_current_runtime_faults f \<noteq> []"
  using assms by (simp add: assessment_checks_def category_checks_def)

lemma accepted_dependency:
  assumes "list_all fst (assessment_checks f d a)" and "d_fault_category d = DependencyError"
  shows "(fc_resource_status f = NotReady \<or> fc_business_status f = Failed)
      \<and> (\<exists>i\<in>set (fc_current_log_evidence_ids f). i \<in> set (d_evidence_ids d)) \<and> a_hypotheses a \<noteq> []"
  using assms by (simp add: assessment_checks_def category_checks_def list_ex_iff)

lemma accepted_suspected:
  assumes "list_all fst (assessment_checks f d a)"
    and "d_fault_category d \<notin> {ServiceSelectorMismatch, ReadinessProbeError}"
    and "h \<in> set (a_hypotheses a)"
  shows "h_status h = Suspected"
proof -
  have "list_all (\<lambda>h. h_status h = Suspected) (a_hypotheses a)"
    using assms(1,2)
    by (simp add: assessment_checks_def category_checks_def configuration_categories_def)
  with assms(3) show ?thesis by (simp add: list_all_iff)
qed

end
