(* ===== verification/TargetIdentity.thy ===== *)
theory TargetIdentity
  imports DiagnosisFacts
begin

text \<open>
  \<open>backend/app/agent/target_identity.py\<close>: the payload and revision of a plan, the unique observed
  UID of its target, the rejection of contradictory UID links between the observed resources, and
  \<open>bind_target\<close>, which writes the observed UID into the plan.
\<close>

definition plan_payload :: "plan \<Rightarrow> json" where
  "plan_payload p = JObj (if pl_target_uid p = None
     then filter (\<lambda>kv. fst kv \<noteq> ''target_uid'') (plan_dump p) else plan_dump p)"

definition revision :: "(json \<Rightarrow> string) \<Rightarrow> json \<Rightarrow> string" where
  "revision H v = digest H v"

section \<open>The observed target\<close>

definition target_items :: "incident_state \<Rightarrow> plan \<Rightarrow> evidence list" where
  "target_items s pl = (let p = pl_parameters pl in
     filter (\<lambda>e. ev_type e = kind_name (pa_resource_kind p) \<and> ev_name e = pa_resource_name p
        \<and> dget (ev_data e) ''namespace'' = JStr (pa_namespace p) \<and> ev_ok e) (st_evidence s))"

definition observed_target_uid :: "incident_state \<Rightarrow> plan \<Rightarrow> string res" where
  "observed_target_uid s pl = (case map ev_data (target_items s pl) of
       [d] \<Rightarrow> (case dget d ''uid'' of
            JStr u \<Rightarrow> if len_between 1 128 u then Inr u
                      else Inl (PyValueError ''TARGET_IDENTITY_MISSING_OR_AMBIGUOUS'')
          | _ \<Rightarrow> Inl (PyValueError ''TARGET_IDENTITY_MISSING_OR_AMBIGUOUS''))
     | _ \<Rightarrow> Inl (PyValueError ''TARGET_IDENTITY_MISSING_OR_AMBIGUOUS''))"

section \<open>Relationships between observed resources\<close>

text \<open>The dictionary keyed by resource type and name; a later item replaces an earlier one.\<close>

type_synonym resources = "((string \<times> string) \<times> dict) list"

definition lookup_resource :: "resources \<Rightarrow> string \<Rightarrow> json \<Rightarrow> dict res" where
  "lookup_resource r k n =
     (if \<not> hashable n then Inl TypeError
      else Inr (case n of JStr s \<Rightarrow> (case map_of r (k, s) of None \<Rightarrow> [] | Some d \<Rightarrow> d) | _ \<Rightarrow> []))"

fun collect_resources :: "resources \<Rightarrow> evidence list \<Rightarrow> resources res" where
  "collect_resources r [] = Inr r"
| "collect_resources r (e # es) =
     (case map_of r (ev_type e, ev_name e) of
        Some d \<Rightarrow>
          if py_eq (dget d ''uid'') (dget (ev_data e) ''uid'')
             \<and> py_eq (dget d ''namespace'') (dget (ev_data e) ''namespace'')
          then collect_resources (((ev_type e, ev_name e), ev_data e) # r) es
          else Inl (PyValueError ''RESOURCE_IDENTITY_AMBIGUOUS'')
      | None \<Rightarrow> collect_resources (((ev_type e, ev_name e), ev_data e) # r) es)"

text \<open>\<open>saved and current and saved != current\<close>\<close>

definition conflicting :: "json \<Rightarrow> json \<Rightarrow> bool" where
  "conflicting saved current = (truthy saved \<and> truthy current \<and> \<not> py_eq saved current)"

definition check_owner :: "resources \<Rightarrow> evidence \<Rightarrow> unit res" where
  "check_owner r e =
     (let chain = dget_or (ev_data e) ''owner_chain'' (JObj []) in
      bindE (lookup_resource r ''PodStatus'' (JStr (ev_name e))) (\<lambda>pod.
      bindE (jget chain ''deployment_name'') (\<lambda>dn.
      bindE (lookup_resource r ''Deployment'' dn) (\<lambda>deployment.
      bindE (jget chain ''pod_uid'') (\<lambda>pu.
      bindE (jget chain ''deployment_uid'') (\<lambda>du.
        if truthy (dget pod ''uid'') \<and> truthy dn \<and> (\<not> truthy pu \<or> \<not> truthy du)
        then Inl (PyValueError ''OWNER_IDENTITY_INCOMPLETE'')
        else if conflicting pu (dget pod ''uid'') \<or> conflicting du (dget deployment ''uid'')
        then Inl (PyValueError ''OWNER_IDENTITY_CHANGED_DURING_COLLECTION'')
        else Inr ()))))))"

definition check_endpoint :: "resources \<Rightarrow> dict \<Rightarrow> json \<Rightarrow> unit res" where
  "check_endpoint r data ep =
     bindE (jget ep ''target_kind'') (\<lambda>kind.
     bindE (jget ep ''target_uid'') (\<lambda>tu.
       if truthy (dget data ''uid'') \<and> kind = JStr ''Pod'' \<and> \<not> truthy tu
       then Inl (PyValueError ''ENDPOINT_POD_IDENTITY_MISSING'')
       else bindE (jget ep ''target_name'') (\<lambda>tn.
            bindE (lookup_resource r ''PodStatus'' tn) (\<lambda>pod.
            bindE (jget ep ''target_namespace'') (\<lambda>ns.
              if kind = JStr ''Pod'' \<and> pod \<noteq> []
                 \<and> (conflicting tu (dget pod ''uid'')
                    \<or> truthy ns \<and> \<not> py_eq ns (dget pod ''namespace''))
              then Inl (PyValueError ''ENDPOINT_POD_IDENTITY_MISMATCH'') else Inr ())))))"

fun each_endpoint :: "resources \<Rightarrow> dict \<Rightarrow> json list \<Rightarrow> unit res" where
  "each_endpoint r data [] = Inr ()"
| "each_endpoint r data (ep # eps) = bindE (check_endpoint r data ep) (\<lambda>_. each_endpoint r data eps)"

definition check_slice :: "resources \<Rightarrow> evidence \<Rightarrow> unit res" where
  "check_slice r e = (let data = ev_data e; su = dget data ''service_uid'' in
     bindE (lookup_resource r ''Service'' (dget data ''service_name'')) (\<lambda>service.
       if truthy (dget data ''uid'') \<and> \<not> truthy su
       then Inl (PyValueError ''ENDPOINT_SERVICE_IDENTITY_MISSING'')
       else if conflicting su (dget service ''uid'')
       then Inl (PyValueError ''ENDPOINT_SERVICE_IDENTITY_MISMATCH'')
       else bindE (jiter (dget_or data ''endpoints'' (JArr []))) (each_endpoint r data)))"

fun check_links :: "resources \<Rightarrow> evidence list \<Rightarrow> unit res" where
  "check_links r [] = Inr ()"
| "check_links r (e # es) =
     bindE (if ev_type e = ''OwnerChain'' then check_owner r e
            else if ev_type e = ''EndpointSlice'' then check_slice r e else Inr ())
       (\<lambda>_. check_links r es)"

definition validate_relationships :: "incident_state \<Rightarrow> unit res" where
  "validate_relationships s =
     bindE (collect_resources [] (st_evidence s)) (\<lambda>r. check_links r (st_evidence s))"

section \<open>Binding\<close>

definition bind_target :: "plan \<Rightarrow> incident_state \<Rightarrow> plan res" where
  "bind_target pl s =
     bindE (observed_target_uid s pl) (\<lambda>uid.
       if pl_target_uid pl \<noteq> None \<and> pl_target_uid pl \<noteq> Some uid
       then Inl (PyValueError ''PLAN_TARGET_IDENTITY_MISMATCH'')
       else bindE (validate_relationships s) (\<lambda>_. Inr (pl\<lparr>pl_target_uid := Some uid\<rparr>)))"

section \<open>Laws\<close>

lemma observed_target_uid_Inr:
  "observed_target_uid s pl = Inr u \<longleftrightarrow>
     (\<exists>e. target_items s pl = [e] \<and> dget (ev_data e) ''uid'' = JStr u \<and> len_between 1 128 u)"
  by (auto simp: observed_target_uid_def map_eq_Cons_conv split: list.splits json.splits if_splits)

lemma target_items_uid [simp]:
  "target_items s (pl\<lparr>pl_target_uid := u\<rparr>) = target_items s pl"
  by (simp add: target_items_def)

lemma observed_target_uid_update [simp]:
  "observed_target_uid s (pl\<lparr>pl_target_uid := u\<rparr>) = observed_target_uid s pl"
  by (simp add: observed_target_uid_def)

lemma bind_target_Inr:
  "bind_target pl s = Inr pl' \<longleftrightarrow>
     (\<exists>u. observed_target_uid s pl = Inr u \<and> (pl_target_uid pl = None \<or> pl_target_uid pl = Some u)
        \<and> validate_relationships s = Inr () \<and> pl' = pl\<lparr>pl_target_uid := Some u\<rparr>)"
  by (auto simp: bind_target_def res_simps split: if_splits)

lemma bind_target_idem: "bind_target pl s = Inr pl' \<Longrightarrow> bind_target pl' s = Inr pl'"
  by (auto simp: bind_target_Inr)

lemma check_linksD:
  "check_links r es = Inr () \<Longrightarrow> e \<in> set es \<Longrightarrow> ev_type e = ''OwnerChain'' \<Longrightarrow> check_owner r e = Inr ()"
  "check_links r es = Inr () \<Longrightarrow> e \<in> set es \<Longrightarrow> ev_type e = ''EndpointSlice'' \<Longrightarrow> check_slice r e = Inr ()"
  by (induction es) (auto simp: res_simps split: if_splits)

text \<open>
  In the collected dictionary every key of the evidence has an entry, and a textual UID of any item
  of a key is the UID of the entry: otherwise the collection would have been rejected.
\<close>

lemma collect_resources_step:
  "collect_resources r (x # es) = Inr r' \<Longrightarrow>
     collect_resources (((ev_type x, ev_name x), ev_data x) # r) es = Inr r'"
  by (auto split: option.splits if_splits)

lemma collect_resources_same_uid:
  "collect_resources r (x # es) = Inr r' \<Longrightarrow> map_of r (ev_type x, ev_name x) = Some d \<Longrightarrow>
     dget d ''uid'' = JStr u \<Longrightarrow> dget (ev_data x) ''uid'' = JStr u"
  by (auto split: if_splits)

lemma collect_resources_keeps_uid:
  assumes "collect_resources r es = Inr r'" and "map_of r k = Some d" and "dget d ''uid'' = JStr u"
  shows "\<exists>d'. map_of r' k = Some d' \<and> dget d' ''uid'' = JStr u"
  using assms
proof (induction es arbitrary: r d)
  case (Cons x es)
  note step = collect_resources_step [OF Cons.prems(1)]
  show ?case
  proof (cases "k = (ev_type x, ev_name x)")
    case True
    have "dget (ev_data x) ''uid'' = JStr u"
      using collect_resources_same_uid [OF Cons.prems(1) _ Cons.prems(3)] Cons.prems(2) by (simp only: True)
    then show ?thesis
      by (intro Cons.IH [OF step, of "ev_data x"]) (simp_all add: True)
  next
    case False
    then show ?thesis
      by (intro Cons.IH [OF step, of d]) (simp_all add: Cons.prems)
  qed
qed simp

lemma collect_resources_uid:
  assumes "collect_resources r es = Inr r'" and "e \<in> set es" and "dget (ev_data e) ''uid'' = JStr u"
  shows "\<exists>d. map_of r' (ev_type e, ev_name e) = Some d \<and> dget d ''uid'' = JStr u"
  using assms
proof (induction es arbitrary: r)
  case (Cons x es)
  note step = collect_resources_step [OF Cons.prems(1)]
  show ?case
  proof (cases "e = x")
    case True
    with Cons.prems(3) show ?thesis
      by (intro collect_resources_keeps_uid [OF step, of _ "ev_data x"]) simp_all
  next
    case False
    then show ?thesis
      using Cons.prems(2,3) by (intro Cons.IH [OF step]) simp_all
  qed
qed simp

lemma lookup_resource_uid:
  assumes "collect_resources [] es = Inr r" and "p \<in> set es" and "ev_type p = k" and "ev_name p = n"
    and "dget (ev_data p) ''uid'' = JStr u" and "lookup_resource r k (JStr n) = Inr d"
  shows "dget d ''uid'' = JStr u"
  using collect_resources_uid [OF assms(1,2,5)] assms(3,4,6)
  by (auto simp: lookup_resource_def)

lemma conflicting_strings: "\<not> conflicting (JStr a) (JStr b) \<Longrightarrow> a \<noteq> [] \<Longrightarrow> b \<noteq> [] \<Longrightarrow> a = b"
  by (simp add: conflicting_def)


lemma owner_links:
  assumes "validate_relationships s = Inr ()" and "ow \<in> set (st_evidence s)" and "p \<in> set (st_evidence s)"
    and "ev_type ow = ''OwnerChain''" and "ev_type p = ''PodStatus''" and "ev_name p = ev_name ow"
    and "dget (ev_data ow) ''owner_chain'' = JObj c" and "dget c ''pod_uid'' = JStr a" and "a \<noteq> []"
    and "dget (ev_data p) ''uid'' = JStr b" and "b \<noteq> []"
  shows "a = b"
proof -
  obtain r where r: "collect_resources [] (st_evidence s) = Inr r" "check_links r (st_evidence s) = Inr ()"
    using assms(1) by (auto simp: validate_relationships_def res_simps)
  have "dget_or (ev_data ow) ''owner_chain'' (JObj []) = JObj c"
    using assms(7) by (auto simp: dget_def dget_or_def split: option.splits)
  then obtain pod where "lookup_resource r ''PodStatus'' (JStr (ev_name ow)) = Inr pod"
      "\<not> conflicting (JStr a) (dget pod ''uid'')"
    using check_linksD(1) [OF r(2) assms(2,4)] assms(8)
    by (auto simp: check_owner_def res_simps Let_def split: if_splits)
  then show ?thesis
    using lookup_resource_uid [OF r(1) assms(3,5,6,10)] conflicting_strings assms(9,11) by simp
qed

lemma slice_links:
  assumes "validate_relationships s = Inr ()" and "ow \<in> set (st_evidence s)" and "p \<in> set (st_evidence s)"
    and "ev_type ow = ''EndpointSlice''" and "ev_type p = ''Service''"
    and "dget (ev_data ow) ''service_name'' = JStr (ev_name p)"
    and "dget (ev_data ow) ''service_uid'' = JStr a" and "a \<noteq> []"
    and "dget (ev_data p) ''uid'' = JStr b" and "b \<noteq> []"
  shows "a = b"
proof -
  obtain r where r: "collect_resources [] (st_evidence s) = Inr r" "check_links r (st_evidence s) = Inr ()"
    using assms(1) by (auto simp: validate_relationships_def res_simps)
  obtain svc where "lookup_resource r ''Service'' (JStr (ev_name p)) = Inr svc"
      "\<not> conflicting (JStr a) (dget svc ''uid'')"
    using check_linksD(2) [OF r(2) assms(2,4)] assms(6,7)
    by (auto simp: check_slice_def res_simps Let_def split: if_splits)
  then show ?thesis
    using lookup_resource_uid [OF r(1) assms(3,5) refl assms(9)] conflicting_strings assms(8,10) by simp
qed

end
