(* ===== verification/RemediationPolicy.thy ===== *)
theory RemediationPolicy
  imports TargetIdentity
begin

text \<open>
  \<open>backend/app/agent/remediation_policy.py\<close>: the actions an incident's evidence allows
  (\<open>get_allowed_remediation_actions\<close>), the validation of a model's plan and its preparation
  (completing the configuration references and binding the observed target).
\<close>

section \<open>Allowed actions\<close>

definition safe_namespace :: string where
  "safe_namespace = ''agent-demo''"

definition executable_actions :: "action_name list" where
  "executable_actions = [PatchReadinessProbe, PatchServiceSelector]"

fun actions_by_category :: "fault_category \<Rightarrow> action_name list" where
  "actions_by_category ReadinessProbeError = [ManualInvestigation, PatchReadinessProbe]"
| "actions_by_category ServiceSelectorMismatch = [ManualInvestigation, PatchServiceSelector]"
| "actions_by_category NoFaultDetected = []"
| "actions_by_category UnknownFault = []"
| "actions_by_category _ = [ManualInvestigation]"

definition find_evidence :: "incident_state \<Rightarrow> string \<Rightarrow> string \<Rightarrow> evidence list" where
  "find_evidence s k n = filter (\<lambda>e. ev_type e = k \<and> ev_name e = n) (st_evidence s)"

definition grounded_readiness :: "(json \<Rightarrow> string) \<Rightarrow> incident_state \<Rightarrow> bool res" where
  "grounded_readiness H s = bindE (diagnostic_facts H s) (\<lambda>f. Inr (rf_patch_supported (fc_readiness f)))"

definition grounded_selector :: "(json \<Rightarrow> string) \<Rightarrow> incident_state \<Rightarrow> bool res" where
  "grounded_selector H s = (case matched_profile H s of
       Inl e \<Rightarrow> if is_profile_unavailable e then Inr False else Inl e
     | Inr p \<Rightarrow> (case find_evidence s ''Service'' (pr_service_name p) of
           [e] \<Rightarrow> Inr (is_dict (dget (ev_data e) ''selector'') \<and> selector_drifted p (ev_data e))
         | _ \<Rightarrow> Inr False))"

definition discard_unless :: "bool res \<Rightarrow> action_name \<Rightarrow> action_name list \<Rightarrow> action_name list res" where
  "discard_unless ok a as = bindE ok (\<lambda>b. Inr (if b then as else removeAll a as))"

definition supported_by_all_configuration :: "facts \<Rightarrow> diagnosis \<Rightarrow> bool" where
  "supported_by_all_configuration f d = (case d_assessment d of
       None \<Rightarrow> False
     | Some a \<Rightarrow> list_ex (\<lambda>h. h_status h = Supported \<and> cites_configuration f h) (a_hypotheses a))"

text \<open>
  The \<open>try/except ValueError/else\<close> block: whether a diagnosis still justifies a write. Exceptions
  that are no \<open>ValueError\<close> leave the function.
\<close>

definition write_justified :: "(json \<Rightarrow> string) \<Rightarrow> diagnosis \<Rightarrow> incident_state \<Rightarrow> bool res" where
  "write_justified H d s =
     (case (if diagnosis_schema d then validate_diagnosis_assessment H d s else Inl ValidationError) of
        Inl e \<Rightarrow> if is_value_error e then Inr False else Inl e
      | Inr _ \<Rightarrow> bindE (diagnostic_facts H s) (\<lambda>f.
          Inr (fc_configuration_evidence_complete f \<and> fc_business_status f \<noteq> Failed
               \<and> fc_current_runtime_faults f = [] \<and> supported_by_all_configuration f d)))"

text \<open>The actions of the category, less the writes whose candidate is not grounded in the evidence.\<close>

definition candidate_actions ::
  "(json \<Rightarrow> string) \<Rightarrow> incident_state \<Rightarrow> fault_category \<Rightarrow> action_name list res" where
  "candidate_actions H s c =
     (if c = ReadinessProbeError
      then discard_unless (grounded_readiness H s) PatchReadinessProbe (actions_by_category c)
      else if c = ServiceSelectorMismatch
      then discard_unless (grounded_selector H s) PatchServiceSelector (actions_by_category c)
      else Inr (actions_by_category c))"

definition get_allowed_remediation_actions ::
  "(json \<Rightarrow> string) \<Rightarrow> incident_state \<Rightarrow> action_name list res" where
  "get_allowed_remediation_actions H s = (case st_diagnosis s of
       None \<Rightarrow> Inr []
     | Some d \<Rightarrow> bindE (candidate_actions H s (d_fault_category d)) (\<lambda>as.
        if \<not> list_ex (\<lambda>a. a \<in> set executable_actions) as then Inr as
        else bindE (write_justified H d s) (\<lambda>ok.
          Inr (if ok then as else filter (\<lambda>a. a \<notin> set executable_actions) as))))"

section \<open>Validation of a plan\<close>

definition diagnosis_evidence_ids :: "incident_state \<Rightarrow> string list" where
  "diagnosis_evidence_ids s = (case st_diagnosis s of None \<Rightarrow> [] | Some d \<Rightarrow> d_evidence_ids d)"

definition diagnosis_runbook_ids :: "incident_state \<Rightarrow> string list" where
  "diagnosis_runbook_ids s = (case st_diagnosis s of None \<Rightarrow> [] | Some d \<Rightarrow> d_runbook_ids d)"

definition available_evidence_ids :: "incident_state \<Rightarrow> string list" where
  "available_evidence_ids s = filter (\<lambda>i. i \<noteq> []) (map ev_id (st_evidence s))"

definition available_runbook_ids :: "incident_state \<Rightarrow> json list res" where
  "available_runbook_ids s = (let ids = filter truthy (map (\<lambda>d. dget d ''runbook_id'') (st_retrieved_runbooks s))
     in if list_all hashable ids then Inr ids else Inl TypeError)"

definition validate_references :: "plan \<Rightarrow> incident_state \<Rightarrow> unit res" where
  "validate_references pl s =
     bindE (require_all InvalidRemediationPlan
        [(distinct (pl_evidence_ids pl), ''duplicate evidence IDs are not allowed''),
         (distinct (pl_runbook_ids pl), ''duplicate runbook IDs are not allowed'')]) (\<lambda>_.
     bindE (available_runbook_ids s) (\<lambda>rbs. require_all InvalidRemediationPlan
        [(subset_list (pl_evidence_ids pl) (available_evidence_ids s), ''unknown remediation evidence IDs''),
         (subset_list (map JStr (pl_runbook_ids pl)) rbs, ''unknown remediation runbook IDs''),
         (subset_list (pl_evidence_ids pl) (diagnosis_evidence_ids s),
          ''remediation evidence IDs were not declared by diagnosis''),
         (subset_list (pl_runbook_ids pl) (diagnosis_runbook_ids s),
          ''remediation runbook IDs were not declared by diagnosis'')]))"

fun evidence_type_of :: "resource_kind \<Rightarrow> string" where
  "evidence_type_of KService = ''Service''"
| "evidence_type_of KDeployment = ''Deployment''"
| "evidence_type_of KPod = ''PodStatus''"

definition validate_plan_target :: "plan \<Rightarrow> incident_state \<Rightarrow> unit res" where
  "validate_plan_target pl s = (let p = pl_parameters pl in require_all InvalidRemediationPlan
     [(pa_namespace p = safe_namespace, ''remediation namespace is not allowed''),
      (Some (pa_namespace p) = req_get s ''namespace'', ''remediation namespace does not match incident request''),
      (find_evidence s (evidence_type_of (pa_resource_kind p)) (pa_resource_name p) \<noteq> [],
       ''remediation target does not exist in collected evidence'')])"

subsection \<open>Command tokens in the texts\<close>

text \<open>
  \<open>FORBIDDEN_COMMAND_PATTERN.search\<close> with \<open>IGNORECASE | ASCII\<close>: three backquotes, \<open>$(\<close>, or one
  of the command names between ASCII word boundaries. The flag is whether the previous character
  is a word character.
\<close>

definition ascii_lower :: "char \<Rightarrow> char" where
  "ascii_lower c = (let n = of_char c :: int in if 65 \<le> n \<and> n \<le> 90 then char_of (n + 32) else c)"

definition is_word_char :: "char \<Rightarrow> bool" where
  "is_word_char c = (is_lower_alnum (ascii_lower c) \<or> c = CHR ''_'')"

definition command_names :: "string list" where
  "command_names = [''kubectl'', ''helm'', ''bash'', ''sh'', ''curl'', ''wget'', ''docker'']"

definition command_here :: "bool \<Rightarrow> string \<Rightarrow> bool" where
  "command_here after_word t =
     (starts_with (replicate 3 (CHR 0x60)) t \<or> starts_with ''$('' t
      \<or> \<not> after_word \<and> list_ex (\<lambda>w. starts_with w (map ascii_lower t)
           \<and> (case drop (length w) t of [] \<Rightarrow> True | c # _ \<Rightarrow> \<not> is_word_char c)) command_names)"

fun command_from :: "bool \<Rightarrow> string \<Rightarrow> bool" where
  "command_from p [] = False"
| "command_from p (c # t) = (command_here p (c # t) \<or> command_from (is_word_char c) t)"

definition has_command :: "string \<Rightarrow> bool" where
  "has_command t = command_from False t"

definition plan_texts :: "plan \<Rightarrow> string list" where
  "plan_texts pl = [pl_summary pl, pl_expected_result pl, pl_rollback_plan pl]
     @ pa_investigation_steps (pl_parameters pl)"

definition validate_text_has_no_commands :: "plan \<Rightarrow> unit res" where
  "validate_text_has_no_commands pl = require (list_all (\<lambda>t. \<not> has_command t) (plan_texts pl))
     (InvalidRemediationPlan ''remediation plan contains a forbidden shell command token'')"

subsection \<open>Action-specific checks\<close>

definition validate_action_metadata :: "plan \<Rightarrow> unit res" where
  "validate_action_metadata pl = require_all InvalidRemediationPlan
     (if pl_action pl \<in> set executable_actions then
        [(pl_requires_approval pl, ''executable remediation requires approval''),
         (pl_risk_level pl = MediumRisk, ''executable remediation must have medium risk'')]
      else
        [(\<not> pl_requires_approval pl, ''manual investigation must not request execution approval''),
         (pl_risk_level pl = LowRisk, ''manual investigation must have low risk'')])"

definition validate_manual_investigation :: "plan \<Rightarrow> unit res" where
  "validate_manual_investigation pl = (let p = pl_parameters pl in require_all InvalidRemediationPlan
     [(pa_investigation_steps p \<noteq> [], ''manual investigation requires steps''),
      (pa_proposed_probe_path p = None \<and> pa_proposed_probe_port p = None \<and> pa_proposed_selector p = [],
       ''manual investigation must not contain executable mutation parameters'')])"

text \<open>\<open>not value\<close> of an optional string\<close>

definition blank :: "string option \<Rightarrow> bool" where
  "blank x = (x = None \<or> x = Some [])"

definition probe_checks :: "dict \<Rightarrow> parameters \<Rightarrow> unit res" where
  "probe_checks container p = (case or_else (dget container ''readiness_probe'') (JObj []) of
       JObj probe \<Rightarrow> require_all InvalidRemediationPlan
         [(dget probe ''path'' = opt_str (pa_current_probe_path p), ''current probe path does not match evidence''),
          (py_eq (dget probe ''port'') (opt_json port_json (pa_current_probe_port p)),
           ''current probe port does not match evidence''),
          (\<not> (pa_current_probe_path p = pa_proposed_probe_path p
              \<and> pa_current_probe_port p = pa_proposed_probe_port p),
           ''proposed probe configuration does not change current configuration'')]
     | _ \<Rightarrow> Inl AttributeError)"

definition validate_readiness_patch :: "plan \<Rightarrow> incident_state \<Rightarrow> unit res" where
  "validate_readiness_patch pl s = (let p = pl_parameters pl in
     bindE (require_all InvalidRemediationPlan
       [(pa_resource_kind p = KDeployment, ''readiness patch target must be a Deployment''),
        (\<not> blank (pa_container_name p), ''readiness patch requires container_name''),
        (\<not> blank (pa_current_probe_path p), ''readiness patch requires current probe path''),
        (\<not> blank (pa_proposed_probe_path p), ''readiness patch requires proposed probe path''),
        (case pa_proposed_probe_path p of None \<Rightarrow> False | Some t \<Rightarrow> starts_with ''/'' t,
         ''proposed probe path must start with a slash''),
        (case pa_proposed_probe_path p of None \<Rightarrow> False | Some t \<Rightarrow> \<not> list_ex is_space t,
         ''proposed probe path must not contain whitespace'')]) (\<lambda>_.
     case find_evidence s ''Deployment'' (pa_resource_name p) of
        [] \<Rightarrow> Inl IndexError
      | e # _ \<Rightarrow>
         bindE (jiter (dget_or (ev_data e) ''containers'' (JArr []))) (\<lambda>cs.
         bindE (findE (\<lambda>c. bindE (jget c ''name'') (\<lambda>x. Inr (x = opt_str (pa_container_name p)))) cs) (\<lambda>r.
           case r of
             Some (JObj container) \<Rightarrow> probe_checks container p
           | _ \<Rightarrow> Inl (InvalidRemediationPlan ''container does not exist in Deployment evidence'')))))"

definition label_pairs_to_dict :: "label_pair list \<Rightarrow> (string \<times> string) list res" where
  "label_pairs_to_dict ps = (if distinct (map lp_key ps) then Inr (pairs ps)
     else Inl (InvalidRemediationPlan ''selector contains duplicate label keys''))"

definition validate_selector_patch :: "plan \<Rightarrow> incident_state \<Rightarrow> unit res" where
  "validate_selector_patch pl s = (let p = pl_parameters pl in
     bindE (require_all InvalidRemediationPlan
       [(pa_resource_kind p = KService, ''selector patch target must be a Service''),
        (Some (pa_resource_name p) = req_get s ''service_name'', ''selector patch must target requested service'')]) (\<lambda>_.
     bindE (label_pairs_to_dict (pa_current_selector p)) (\<lambda>current.
     bindE (label_pairs_to_dict (pa_proposed_selector p)) (\<lambda>proposed.
     if proposed = [] then Inl (InvalidRemediationPlan ''proposed selector must not be empty'')
     else case find_evidence s ''Service'' (pa_resource_name p) of
        [] \<Rightarrow> Inl IndexError
      | e # _ \<Rightarrow> require (py_eq (dget_or (ev_data e) ''selector'' (JObj [])) (JObj (str_dict current)))
          (InvalidRemediationPlan ''current selector does not match evidence'')))))"

subsection \<open>The whole validation\<close>

text \<open>\<open>except ValueError as exc: raise InvalidRemediationPlan(str(exc))\<close>\<close>

definition as_plan_error :: "(exn \<Rightarrow> bool) \<Rightarrow> 'a res \<Rightarrow> 'a res" where
  "as_plan_error p m = catchE m p (\<lambda>e. Inl (InvalidRemediationPlan (exn_text e)))"

definition registered_action :: "(json \<Rightarrow> string) \<Rightarrow> plan \<Rightarrow> incident_state \<Rightarrow> unit res" where
  "registered_action H pl s = as_plan_error is_profile_unavailable
     (bindE (matched_profile H s) (\<lambda>pr. validate_profile_action pr pl))"

definition validate_write_basis :: "(json \<Rightarrow> string) \<Rightarrow> plan \<Rightarrow> incident_state \<Rightarrow> unit res" where
  "validate_write_basis H pl s =
     (if pl_action pl \<in> set executable_actions then
        bindE (diagnostic_facts H s) (\<lambda>f.
        bindE (require_all InvalidRemediationPlan
          [(subset_list (fc_configuration_evidence_ids f) (pl_evidence_ids pl),
            ''write plan must cite Service and registered Deployment configuration''),
           (pl_runbook_ids pl \<noteq> [], ''write plan requires a retrieved runbook reference'')]) (\<lambda>_.
        registered_action H pl s))
      else Inr ())"

definition validate_action_parameters :: "plan \<Rightarrow> incident_state \<Rightarrow> unit res" where
  "validate_action_parameters pl s = (case pl_action pl of
       ManualInvestigation \<Rightarrow> validate_manual_investigation pl
     | PatchReadinessProbe \<Rightarrow> validate_readiness_patch pl s
     | PatchServiceSelector \<Rightarrow> validate_selector_patch pl s)"

definition validate_remediation_plan ::
  "(json \<Rightarrow> string) \<Rightarrow> plan \<Rightarrow> incident_state \<Rightarrow> plan res" where
  "validate_remediation_plan H pl s =
     bindE (get_allowed_remediation_actions H s) (\<lambda>allowed.
     bindE (require (pl_action pl \<in> set allowed)
       (InvalidRemediationPlan ''remediation action is not allowed or not grounded'')) (\<lambda>_.
     bindE (validate_references pl s) (\<lambda>_.
     bindE (validate_plan_target pl s) (\<lambda>_.
     bindE (if pl_target_uid pl = None then Inr pl else as_plan_error is_value_error (bind_target pl s)) (\<lambda>_.
     bindE (validate_text_has_no_commands pl) (\<lambda>_.
     bindE (validate_action_metadata pl) (\<lambda>_.
     bindE (validate_write_basis H pl s) (\<lambda>_.
     bindE (validate_action_parameters pl s) (\<lambda>_. Inr pl)))))))))"

section \<open>Preparation of a plan\<close>

definition citable_evidence_ids :: "incident_state \<Rightarrow> string list" where
  "citable_evidence_ids s = map ev_id (filter (\<lambda>e. ev_id e \<noteq> [] \<and> ev_ok e) (st_evidence s))"

definition missing_ids :: "facts \<Rightarrow> plan \<Rightarrow> string list" where
  "missing_ids f pl = filter (\<lambda>i. i \<notin> set (pl_evidence_ids pl)) (dedup (fc_configuration_evidence_ids f))"

definition complete_references ::
  "(json \<Rightarrow> string) \<Rightarrow> plan \<Rightarrow> incident_state \<Rightarrow> (plan \<times> string list) res" where
  "complete_references H pl s =
     bindE (get_allowed_remediation_actions H s) (\<lambda>allowed.
     bindE (require (pl_action pl \<in> set allowed)
       (InvalidRemediationPlan ''write action is not grounded or allowed'')) (\<lambda>_.
     bindE (registered_action H pl s) (\<lambda>_.
     bindE (diagnostic_facts H s) (\<lambda>f. let req = dedup (fc_configuration_evidence_ids f) in
     bindE (require_all InvalidRemediationPlan
       [(fc_configuration_evidence_complete f \<and> req \<noteq> [] \<and> subset_list req (citable_evidence_ids s)
          \<and> subset_list req (diagnosis_evidence_ids s),
         ''cannot attach incomplete or undeclared configuration evidence''),
        (list_ex (\<lambda>i. i \<in> set req) (pl_evidence_ids pl),
         ''write plan must already cite at least one configuration evidence'')]) (\<lambda>_.
     Inr (pl\<lparr>pl_evidence_ids := pl_evidence_ids pl @ missing_ids f pl\<rparr>, missing_ids f pl))))))"

definition prepare_remediation_plan ::
  "(json \<Rightarrow> string) \<Rightarrow> plan \<Rightarrow> incident_state \<Rightarrow> (plan \<times> string list) res" where
  "prepare_remediation_plan H pl s =
     bindE (validate_references pl s) (\<lambda>_.
     bindE (if pl_action pl \<in> set executable_actions then complete_references H pl s else Inr (pl, []))
       (\<lambda>(completed, added).
     bindE (if pl_action pl \<in> set executable_actions
            then as_plan_error is_value_error (bind_target completed s) else Inr completed) (\<lambda>bound.
     bindE (validate_remediation_plan H bound s) (\<lambda>validated. Inr (validated, added)))))"

end
