(* ===== verification/Approval.thy ===== *)
theory Approval
  imports RemediationPolicy
begin

text \<open>
  \<open>backend/app/agent/approval.py\<close>: the approval request whose identifier and revisions are
  digests of the plan and of the snapshot it was decided on, the validation of a human decision
  and the approval record. The clock is a parameter.
\<close>

section \<open>Building a request\<close>

text \<open>\<open>str(state.get("incident_id") or "").strip()\<close>\<close>

definition incident_of :: "incident_state \<Rightarrow> string" where
  "incident_of s = (case st_incident_id s of None \<Rightarrow> [] | Some i \<Rightarrow> strip i)"

definition has_uid :: "plan \<Rightarrow> bool" where
  "has_uid pl = (\<not> blank (pl_target_uid pl))"

definition has_assessment :: "incident_state \<Rightarrow> bool" where
  "has_assessment s = (case st_diagnosis s of None \<Rightarrow> False | Some d \<Rightarrow> d_assessment d \<noteq> None)"

text \<open>\<open>state["diagnosis"]\<close> raises when the state has none.\<close>

definition diagnosis_entries :: "incident_state \<Rightarrow> dict res" where
  "diagnosis_entries s = (case st_diagnosis s of
       None \<Rightarrow> Inl KeyError
     | Some d \<Rightarrow> Inr [(''diagnosis'', diagnosis_json d), (''evidence'', evidence_list_json s)])"

definition fingerprint_payload :: "incident_state \<Rightarrow> plan \<Rightarrow> dict res" where
  "fingerprint_payload s pl =
     bindE (if has_uid pl \<or> has_assessment s then diagnosis_entries s else Inr []) (\<lambda>observed. Inr
       ([(''incident_id'', JStr (incident_of s)), (''remediation_plan'', plan_payload pl)]
        @ (if blank (st_run_id s) then [] else [(''run_id'', opt_str (st_run_id s))])
        @ (case st_service_profile s of None \<Rightarrow> [] | Some n \<Rightarrow> [(''service_profile'', snapshot_json n)])
        @ (if has_uid pl then [(''request'', request_json s)] else [])
        @ observed))"

definition approvable :: "incident_state \<Rightarrow> plan \<Rightarrow> unit res" where
  "approvable s pl = require_all InvalidApprovalRequest
     [(st_requires_approval s = Some True, ''state does not require approval''),
      (pl_requires_approval pl, ''remediation plan does not require approval''),
      (pl_action pl \<noteq> ManualInvestigation, ''manual investigation must not require approval''),
      (pa_namespace (pl_parameters pl) = safe_namespace, ''approval target namespace must be agent-demo'')]"

definition request_of :: "(json \<Rightarrow> string) \<Rightarrow> string \<Rightarrow> plan \<Rightarrow> dict \<Rightarrow> approval_request" where
  "request_of H i pl payload =
     \<lparr>ar_approval_id = ''apr-'' @ take 16 (digest H (JObj payload)), ar_incident_id = i, ar_plan = pl,
      ar_plan_revision = (if has_uid pl then Some (revision H (plan_payload pl)) else None),
      ar_approval_revision = (if has_uid pl then Some (revision H (JObj payload)) else None)\<rparr>"

text \<open>Constructing the model validates it.\<close>

definition make_request :: "(json \<Rightarrow> string) \<Rightarrow> string \<Rightarrow> plan \<Rightarrow> dict \<Rightarrow> approval_request res" where
  "make_request H i pl payload =
     (if approval_request_schema (request_of H i pl payload) then Inr (request_of H i pl payload)
      else Inl ValidationError)"

definition build_approval_request :: "(json \<Rightarrow> string) \<Rightarrow> incident_state \<Rightarrow> approval_request res" where
  "build_approval_request H s =
     (if incident_of s = [] then Inl (InvalidApprovalRequest ''incident_id is required'')
      else case st_remediation_plan s of
        None \<Rightarrow> Inl (InvalidApprovalRequest ''remediation plan is required'')
      | Some pl \<Rightarrow>
         if \<not> plan_schema pl then Inl (InvalidApprovalRequest ''remediation plan is invalid'')
         else bindE (approvable s pl) (\<lambda>_.
              bindE (fingerprint_payload s pl) (make_request H (incident_of s) pl)))"

section \<open>Decisions and records\<close>

definition validate_approval_decision :: "approval_decision \<Rightarrow> approval_request \<Rightarrow> approval_decision res" where
  "validate_approval_decision v expected =
     (case approval_decision_validate v of
        Inl _ \<Rightarrow> Inl (InvalidApprovalDecision ''approval decision is invalid'')
      | Inr d \<Rightarrow>
         if ad_approval_id d \<noteq> ar_approval_id expected
         then Inl (InvalidApprovalDecision ''approval decision does not match the pending approval request'')
         else Inr d)"

definition create_approval_record :: "string \<Rightarrow> approval_request \<Rightarrow> approval_decision \<Rightarrow> approval_record res" where
  "create_approval_record now r d =
     (let rec = \<lparr>rc_approval_id = ar_approval_id r, rc_incident_id = ar_incident_id r,
                 rc_action = pl_action (ar_plan r), rc_approved = ad_approved d,
                 rc_approver = ad_approver d, rc_comment = ad_comment d, rc_decided_at = now,
                 rc_plan_revision = ar_plan_revision r, rc_approval_revision = ar_approval_revision r\<rparr>
      in if approval_record_schema rec then Inr rec else Inl ValidationError)"

definition load_existing_approval_record :: "incident_state \<Rightarrow> approval_record option res" where
  "load_existing_approval_record s = (case st_approval_record s of
       None \<Rightarrow> Inr None
     | Some r \<Rightarrow> if approval_record_schema r then Inr (Some r)
                 else Inl (InvalidApprovalDecision ''existing approval record is invalid''))"

section \<open>Laws of the request\<close>

lemma build_requestD:
  assumes "build_approval_request H s = Inr r"
  obtains pl payload where "st_remediation_plan s = Some pl" and "plan_schema pl" and "incident_of s \<noteq> []"
    and "approvable s pl = Inr ()" and "fingerprint_payload s pl = Inr payload"
    and "make_request H (incident_of s) pl payload = Inr r"
  using assms
  by (auto simp: build_approval_request_def res_simps split: if_splits option.splits)

lemma make_request_Inr:
  "make_request H i pl payload = Inr r \<longleftrightarrow> r = request_of H i pl payload \<and> approval_request_schema r"
  by (auto simp: make_request_def)

lemma make_requestD:
  assumes "make_request H i pl payload = Inr r"
  shows "ar_plan r = pl" and "ar_incident_id r = i" and "approval_request_schema r"
    and "ar_approval_id r = ''apr-'' @ take 16 (digest H (JObj payload))"
    and "ar_approval_revision r = (if has_uid pl then Some (digest H (JObj payload)) else None)"
    and "ar_plan_revision r = (if has_uid pl then Some (digest H (plan_payload pl)) else None)"
proof -
  have r: "r = request_of H i pl payload" and sch: "approval_request_schema r"
    using assms unfolding make_request_Inr by blast+
  show "approval_request_schema r"
    by (fact sch)
qed (use assms [unfolded make_request_Inr, THEN conjunct1] in \<open>simp_all add: request_of_def revision_def\<close>)

lemma approvableD:
  assumes "approvable s pl = Inr ()"
  shows "st_requires_approval s = Some True" and "pl_requires_approval pl"
    and "pl_action pl \<in> set executable_actions" and "pa_namespace (pl_parameters pl) = ''agent-demo''"
proof -
  have "pl_action pl \<noteq> ManualInvestigation"
    using assms by (auto simp: approvable_def split: if_splits)
  then show "pl_action pl \<in> set executable_actions"
    by (cases "pl_action pl") (auto simp: executable_actions_def)
qed (use assms in \<open>auto simp: approvable_def safe_namespace_def split: if_splits\<close>)

lemma fingerprintD:
  assumes "fingerprint_payload s pl = Inr payload" and "has_uid pl"
  obtains d where "st_diagnosis s = Some d"
    and "payload = [(''incident_id'', JStr (incident_of s)), (''remediation_plan'', plan_payload pl)]
        @ (if blank (st_run_id s) then [] else [(''run_id'', opt_str (st_run_id s))])
        @ (case st_service_profile s of None \<Rightarrow> [] | Some n \<Rightarrow> [(''service_profile'', snapshot_json n)])
        @ [(''request'', request_json s), (''diagnosis'', diagnosis_json d), (''evidence'', evidence_list_json s)]"
  using assms by (auto simp: fingerprint_payload_def res_simps diagnosis_entries_def split: option.splits)

section \<open>Canonical texts determine their members\<close>

lemma canon_obj_members:
  assumes "canon (JObj a) = canon (JObj b)" and "distinct (map fst a)" and "distinct (map fst b)"
  shows "map_option canon (map_of a k) = map_option canon (map_of b k)"
proof -
  let ?c = "map (\<lambda>kv. (fst kv, canon (snd kv)))"
  have "set (?c a) = set (?c b)"
  proof -
    have "sort_key fst (?c a) = sort_key fst (?c b)"
      using assms(1) by simp
    then have "set (sort_key fst (?c a)) = set (sort_key fst (?c b))"
      by (rule arg_cong)
    then show ?thesis
      by (simp only: set_sort)
  qed
  moreover have "distinct (map fst (?c a))" "distinct (map fst (?c b))"
    using assms(2,3) by (simp_all add: o_def)
  ultimately have "map_of (?c a) = map_of (?c b)"
    by (simp add: map_of_inject_set)
  moreover have "map_of (?c d) k = map_option canon (map_of d k)" for d
    by (induction d) auto
  ultimately show ?thesis
    by metis
qed

lemma canon_obj_dget:
  assumes "canon (JObj a) = canon (JObj b)" and "distinct (map fst a)" and "distinct (map fst b)"
  shows "canon (dget a k) = canon (dget b k)"
  using canon_obj_members [OF assms, of k] by (auto simp: dget_def split: option.splits)

end
