(* ===== verification/ExecutionPolicy.thy ===== *)
theory ExecutionPolicy
  imports Approval
begin

text \<open>
  \<open>backend/app/agent/execution_policy.py\<close>: the check just before a write that the state is approved,
  that the stored request and record belong to exactly this plan and snapshot (the request is
  rebuilt and compared), that the plan still validates, and that an earlier result is reused only
  for the same execution. The SHA-256 of a text is the parameter \<open>T\<close>.
\<close>

definition build_execution_id :: "(string \<Rightarrow> string) \<Rightarrow> string \<Rightarrow> string res" where
  "build_execution_id T i =
     (if approval_id_pattern (strip i) then Inr (''exec-'' @ take 16 (T (strip i)))
      else Inl (InvalidExecutionAuthorization ''approval_id has an invalid format''))"

definition completed_statuses :: "execution_status list" where
  "completed_statuses = [Succeeded, AlreadyApplied]"

record authorization =
  au_execution_id :: string
  au_approval_id :: string
  au_incident_id :: string
  au_plan :: plan
  au_approval_request :: approval_request
  au_approval_record :: approval_record
  au_previous_result :: "action_result option"
  au_already_executed :: bool

section \<open>Loading the stored values\<close>

definition load_stored :: "('a \<Rightarrow> bool) \<Rightarrow> string \<Rightarrow> string \<Rightarrow> 'a option \<Rightarrow> 'a res" where
  "load_stored ok absent bad v = (case v of
       None \<Rightarrow> Inl (InvalidExecutionAuthorization absent)
     | Some x \<Rightarrow> if ok x then Inr x else Inl (InvalidExecutionAuthorization bad))"

definition load_plan :: "incident_state \<Rightarrow> plan res" where
  "load_plan s = load_stored plan_schema ''remediation plan is required'' ''remediation plan is invalid''
     (st_remediation_plan s)"

definition load_approval_request :: "incident_state \<Rightarrow> approval_request res" where
  "load_approval_request s = load_stored approval_request_schema ''approval request is required''
     ''approval request is invalid'' (st_approval_request s)"

definition load_approval_record :: "incident_state \<Rightarrow> approval_record res" where
  "load_approval_record s = load_stored approval_record_schema ''approval record is required''
     ''approval record is invalid'' (st_approval_record s)"

definition load_previous_result :: "incident_state \<Rightarrow> action_result option res" where
  "load_previous_result s = (case st_action_result s of
       None \<Rightarrow> Inr None
     | Some x \<Rightarrow> if action_result_schema x then Inr (Some x)
                 else Inl (InvalidExecutionAuthorization ''existing action result is invalid''))"

section \<open>The checks\<close>

definition validate_approved_state :: "incident_state \<Rightarrow> unit res" where
  "validate_approved_state s = require_all InvalidExecutionAuthorization
     [(st_phase s = Some ''approval_approved'', ''workflow phase is not approval_approved''),
      (st_requires_approval s = Some True, ''write operation does not have an approval requirement''),
      (st_approval_status s = Some ''approved'', ''approval status is not approved''),
      (st_approved s = Some True, ''write operation was not approved'')]"

definition validate_action_is_executable :: "plan \<Rightarrow> unit res" where
  "validate_action_is_executable pl = require (pl_action pl \<in> set executable_actions)
     (InvalidExecutionAuthorization ''action is not executable'')"

fun is_invalid_approval_request :: "exn \<Rightarrow> bool" where
  "is_invalid_approval_request (InvalidApprovalRequest _) = True"
| "is_invalid_approval_request _ = False"

fun is_invalid_plan :: "exn \<Rightarrow> bool" where
  "is_invalid_plan (InvalidRemediationPlan _) = True"
| "is_invalid_plan _ = False"

definition binding_checks ::
  "incident_state \<Rightarrow> plan \<Rightarrow> approval_request \<Rightarrow> approval_record \<Rightarrow> (bool \<times> string) list" where
  "binding_checks s pl r rec =
     [(incident_of s \<noteq> [], ''incident_id is required''),
      (ar_incident_id r = incident_of s, ''approval request incident_id does not match workflow state''),
      (rc_incident_id rec = incident_of s, ''approval record incident_id does not match workflow state''),
      (ar_approval_id r = rc_approval_id rec, ''approval IDs do not match''),
      (rc_approved rec, ''approval record does not approve the write operation''),
      (ar_plan r = pl, ''remediation plan changed after approval''),
      ((ar_plan_revision r, ar_approval_revision r) = (rc_plan_revision rec, rc_approval_revision rec),
       ''approval revisions do not match''),
      (rc_action rec = pl_action pl, ''approval record action does not match the remediation plan'')]"

definition validate_approval_binding ::
  "(json \<Rightarrow> string) \<Rightarrow> incident_state \<Rightarrow> plan \<Rightarrow> approval_request \<Rightarrow> approval_record \<Rightarrow> unit res" where
  "validate_approval_binding H s pl r rec =
     bindE (require_all InvalidExecutionAuthorization (binding_checks s pl r rec)) (\<lambda>_.
     bindE (catchE (build_approval_request H s) is_invalid_approval_request
        (\<lambda>_. Inl (InvalidExecutionAuthorization ''approval request cannot be rebuilt from workflow state'')))
       (\<lambda>expected. require (expected = r)
          (InvalidExecutionAuthorization ''approval request does not match the approved remediation plan'')))"

definition revalidate_plan :: "(json \<Rightarrow> string) \<Rightarrow> incident_state \<Rightarrow> plan \<Rightarrow> unit res" where
  "revalidate_plan H s pl =
     bindE (catchE (validate_remediation_plan H pl s) is_invalid_plan
       (\<lambda>_. Inl (InvalidExecutionAuthorization ''remediation plan failed execution-time validation''))) (\<lambda>_. Inr ())"

definition validate_previous_result ::
  "action_result \<Rightarrow> string \<Rightarrow> approval_request \<Rightarrow> plan \<Rightarrow> bool res" where
  "validate_previous_result x eid r pl = (let p = pl_parameters pl in
     bindE (require_all InvalidExecutionAuthorization
       [(x_execution_id x = eid, ''existing action result belongs to another execution''),
        (x_approval_id x = ar_approval_id r, ''existing action result belongs to another approval''),
        (x_action x = pl_action pl, ''existing action result belongs to another remediation action''),
        (x_namespace x = pa_namespace p \<and> x_resource_kind x = pa_resource_kind p
         \<and> x_resource_name x = pa_resource_name p, ''existing action result belongs to another remediation target'')]) (\<lambda>_.
     if x_status x \<in> set completed_statuses then Inr True
     else Inl (InvalidExecutionAuthorization ''an execution attempt has already been recorded for this approval'')))"

definition validate_execution_authorization ::
  "(json \<Rightarrow> string) \<Rightarrow> (string \<Rightarrow> string) \<Rightarrow> incident_state \<Rightarrow> authorization res" where
  "validate_execution_authorization H T s =
     bindE (validate_approved_state s) (\<lambda>_.
     bindE (load_plan s) (\<lambda>pl.
     bindE (load_approval_request s) (\<lambda>r.
     bindE (load_approval_record s) (\<lambda>rec.
     bindE (validate_action_is_executable pl) (\<lambda>_.
     bindE (validate_approval_binding H s pl r rec) (\<lambda>_.
     bindE (revalidate_plan H s pl) (\<lambda>_.
     bindE (build_execution_id T (ar_approval_id r)) (\<lambda>eid.
     bindE (load_previous_result s) (\<lambda>prev.
     bindE (case prev of None \<Rightarrow> Inr False | Some x \<Rightarrow> validate_previous_result x eid r pl) (\<lambda>executed.
       Inr \<lparr>au_execution_id = eid, au_approval_id = ar_approval_id r, au_incident_id = ar_incident_id r,
            au_plan = pl, au_approval_request = r, au_approval_record = rec,
            au_previous_result = prev, au_already_executed = executed\<rparr>))))))))))"

lemma load_storedD: "load_stored ok m i v = Inr x \<longleftrightarrow> v = Some x \<and> ok x"
  by (auto simp: load_stored_def split: option.splits if_splits)

lemma revalidate_planD: "revalidate_plan H s pl = Inr () \<Longrightarrow> \<exists>pl'. validate_remediation_plan H pl s = Inr pl'"
  by (auto simp: revalidate_plan_def res_simps catchE_eq_Inr)

lemma approval_bindingD:
  assumes "validate_approval_binding H s pl r rec = Inr ()"
  shows "ar_incident_id r = incident_of s" and "rc_incident_id rec = incident_of s"
    and "ar_approval_id r = rc_approval_id rec" and "rc_approved rec" and "ar_plan r = pl"
    and "ar_plan_revision r = rc_plan_revision rec" and "ar_approval_revision r = rc_approval_revision rec"
    and "rc_action rec = pl_action pl" and "build_approval_request H s = Inr r"
proof -
  have c: "list_all fst (binding_checks s pl r rec)" and b: "build_approval_request H s = Inr r"
    using assms
    by (auto simp del: require_all.simps simp: validate_approval_binding_def res_simps catchE_eq_Inr)
  from b show "build_approval_request H s = Inr r" .
qed (use assms in \<open>auto simp: validate_approval_binding_def binding_checks_def res_simps split: if_splits\<close>)

lemma previous_resultD:
  assumes "validate_previous_result x eid r pl = Inr b"
  shows "b" and "x_execution_id x = eid" and "x_approval_id x = ar_approval_id r" and "x_action x = pl_action pl"
    and "x_resource_name x = pa_resource_name (pl_parameters pl)" and "x_status x \<in> {Succeeded, AlreadyApplied}"
  using assms by (auto simp: validate_previous_result_def Let_def completed_statuses_def split: if_splits)

end
