(* ===== verification/Scenario.thy ===== *)
theory Scenario
  imports DiagnosisFacts
begin

text \<open>
  A concrete incident on the registered demo service (\<open>config/service-profiles/\<close>): its profile,
  the evidence of a drifted Service selector, and of a healthy workload with a passed business
  check. The witnesses of the properties are evaluated on these values.
\<close>

definition demo_hash :: "json \<Rightarrow> string" where
  "demo_hash v = replicate 64 CHR ''a''"

definition demo_probe :: http_probe where
  "demo_probe = \<lparr>hp_path = ''/ready'', hp_port = PortName ''http'', hp_scheme = HTTP\<rparr>"

definition demo_check :: business_check where
  "demo_check = \<lparr>hp_path = ''/orders/check'', hp_port = PortNum 80, hp_scheme = HTTP,
     bc_check_id = ''orders'', bc_expected_status = 200,
     bc_expected_json_subset = [(''ok'', FBool True)], bc_timeout_seconds = 3,
     bc_max_response_bytes = 16384\<rparr>"

definition demo_profile :: profile where
  "demo_profile = \<lparr>pr_profile_id = ''order-service'', pr_revision = ''r1'',
     pr_namespace = ''agent-demo'', pr_service_name = ''order-service'',
     pr_deployment_name = ''order-service'', pr_container_name = ''app'',
     pr_owner = \<lparr>ow_team = ''demo'', ow_contact = ''ops''\<rparr>, pr_config_source = ''repo'',
     pr_application = \<lparr>ap_version = ''1.0'', ap_images = [(''app'', ''demo:1'')]\<rparr>,
     pr_expected_selector = [(''app'', ''order'')], pr_expected_replicas = Some 1,
     pr_readiness_probe = demo_probe, pr_liveness_probe = demo_probe,
     pr_business_checks = [demo_check]\<rparr>"

definition demo_request :: "(string \<times> string) list" where
  "demo_request = [(''namespace'', ''agent-demo''), (''service_name'', ''order-service''),
     (''description'', ''requests fail'')]"

text \<open>Evidence items, parametrised by what varies between the scenarios.\<close>

definition item :: "string \<Rightarrow> string \<Rightarrow> string \<Rightarrow> string \<Rightarrow> dict \<Rightarrow> evidence" where
  "item i src k n d = \<lparr>ev_id = i, ev_source = src, ev_type = k, ev_name = n,
     ev_collected_at = ''t0'', ev_data = d, ev_error = None\<rparr>"

definition demo_service :: "string \<Rightarrow> evidence" where
  "demo_service app = item ''ev-svc'' ''k8s'' ''Service'' ''order-service''
     [(''uid'', JStr ''svc-1''), (''namespace'', JStr ''agent-demo''), (''name'', JStr ''order-service''),
      (''service_type'', JStr ''ClusterIP''), (''cluster_ip'', JStr ''10.96.0.10''),
      (''selector'', JObj [(''app'', JStr app)]),
      (''ports'', JArr [JObj [(''name'', JStr ''web''), (''port'', JInt 80), (''protocol'', JStr ''TCP'')]])]"

definition demo_deployment :: "string \<Rightarrow> int \<Rightarrow> evidence" where
  "demo_deployment path ready = item ''ev-dep'' ''k8s'' ''Deployment'' ''order-service''
     [(''uid'', JStr ''dep-1''), (''generation'', JInt 4), (''resource_version'', JStr ''77''),
      (''namespace'', JStr ''agent-demo''), (''name'', JStr ''order-service''),
      (''desired_replicas'', JInt 1), (''ready_replicas'', JInt ready), (''available_replicas'', JInt ready),
      (''template_labels'', JObj [(''app'', JStr ''order''), (''app.kubernetes.io/version'', JStr ''1.0'')]),
      (''containers'', JArr [JObj [(''name'', JStr ''app''), (''image'', JStr ''demo:1''),
         (''readiness_probe'', JObj [(''path'', JStr path), (''port'', JStr ''http''), (''scheme'', JStr ''HTTP'')])]])]"

definition demo_owner :: evidence where
  "demo_owner = item ''ev-own'' ''k8s'' ''OwnerChain'' ''order-1''
     [(''owner_chain'', JObj [(''namespace'', JStr ''agent-demo''), (''deployment_name'', JStr ''order-service''),
        (''pod_uid'', JStr ''pod-1''), (''deployment_uid'', JStr ''dep-1'')])]"

definition demo_pod :: "bool \<Rightarrow> evidence" where
  "demo_pod ready = item ''ev-pod'' ''k8s'' ''PodStatus'' ''order-1''
     [(''uid'', JStr ''pod-1''), (''namespace'', JStr ''agent-demo''), (''ready'', JBool ready),
      (''containers'', JArr [JObj [(''name'', JStr ''app''), (''state'', JStr ''running'')]])]"

definition demo_slice :: evidence where
  "demo_slice = item ''ev-eps'' ''k8s'' ''EndpointSlice'' ''order-eps''
     [(''uid'', JStr ''eps-1''), (''service_uid'', JStr ''svc-1''), (''namespace'', JStr ''agent-demo''),
      (''service_name'', JStr ''order-service''),
      (''endpoints'', JArr [JObj [(''ready'', JBool True), (''target_kind'', JStr ''Pod''),
         (''target_name'', JStr ''order-1''), (''target_uid'', JStr ''pod-1''),
         (''target_namespace'', JStr ''agent-demo'')]])]"

definition demo_target :: json where
  "demo_target = JObj
     [(''namespace'', JStr ''agent-demo''), (''service_name'', JStr ''order-service''),
      (''profile_digest'', JStr (demo_hash JNull)), (''cluster_ip'', JStr ''10.96.0.10''),
      (''port'', JInt 80), (''check'', check_json demo_check)]"

definition demo_business :: "string \<Rightarrow> evidence" where
  "demo_business st = item ''ev-biz'' ''cluster_http_probe'' ''BusinessCheck'' ''orders''
     [(''check_id'', JStr ''orders''), (''scope'', JStr ''cluster_service_http''), (''request_id'', JStr ''n1''),
      (''target'', demo_target), (''status'', JStr st), (''http_status'', JInt 200),
      (''content_matches'', JBool True), (''error_code'', JNull)]"

definition demo_snapshot :: snapshot where
  "demo_snapshot = \<lparr>sn_status = ''matched'', sn_reasons = [], sn_profile = Some demo_profile,
     sn_digest = Some (demo_hash JNull), sn_deployment_uid = Some (JStr ''dep-1''),
     sn_deployment_generation = Some (JInt 4)\<rparr>"

definition demo_state :: "evidence list \<Rightarrow> incident_state" where
  "demo_state es = empty_state\<lparr>st_incident_id := Some ''inc-1'', st_request := Some demo_request,
     st_evidence := es, st_service_profile := Some demo_snapshot,
     st_retrieved_runbooks := [[(''runbook_id'', JStr ''rb-1'')]]\<rparr>"

definition healthy_state :: incident_state where
  "healthy_state = demo_state [demo_service ''order'', demo_deployment ''/ready'' 1, demo_owner,
     demo_pod True, demo_slice, demo_business ''passed'']"

definition drifted_state :: incident_state where
  "drifted_state = demo_state [demo_service ''wrong'', demo_deployment ''/ready'' 1, demo_owner,
     demo_pod True, demo_business ''unknown'']"

definition misprobed_state :: incident_state where
  "misprobed_state = demo_state [demo_service ''order'', demo_deployment ''/wrong'' 0, demo_owner,
     demo_pod False, demo_slice, demo_business ''unknown'']"

definition unready_state :: incident_state where
  "unready_state = demo_state [demo_service ''order'', demo_deployment ''/ready'' 0, demo_owner,
     demo_pod False, demo_slice, demo_business ''unknown'']"

lemma demo_matched: "matched_profile demo_hash healthy_state = Inr demo_profile"
  by code_simp

end
