(* ===== verification/DiagnosisProps.thy ===== *)
theory DiagnosisProps
  imports Scenario
begin

text \<open>
  The properties of the profile registry and the diagnosis gate: what a ready resource status, a
  passed business status and an accepted diagnosis establish, and that the report generated
  without a model passes the gate.
\<close>

text \<open>C35. When the facts report the resources ready, the profile of the request is matched, the one
  registered Deployment asks for a positive number of replicas that agrees with the registered
  count, enough of them are ready, there is no selector or probe drift, at least that many owned
  Pods are observed, all ready, and an endpoint of the Service that is ready points to one of them.\<close>

theorem ready_status_sound:
  assumes facts: "diagnostic_facts H s = Inr f"
    and ready: "fc_resource_status f = Ready"
  shows "\<exists>p dep_e owned d. matched_profile H s = Inr p
      \<and> dep_e \<in> set (items_named s ''Deployment'' (Some (pr_deployment_name p)))
      \<and> dget (ev_data dep_e) ''desired_replicas'' = JInt d \<and> 0 < d
      \<and> (pr_expected_replicas p = None \<or> pr_expected_replicas p = Some d)
      \<and> jless_int (dget_or (ev_data dep_e) ''ready_replicas'' (JInt 0)) d = Inr False
      \<and> \<not> fc_selector_drift f \<and> \<not> readiness_drift f
      \<and> rf_status (fc_readiness f) = ReadinessMatched
      \<and> owned_pods s p = Inr owned \<and> d \<le> int (length (pod_items s owned))
      \<and> (\<forall>e\<in>set (pod_items s owned). dget (ev_data e) ''ready'' = JBool True)
      \<and> (\<exists>e\<in>set (endpoint_items s). slice_ready owned e = Inr True)"
  using facts
proof (cases rule: diagnostic_facts_cases)
  case unmatched
  with ready show ?thesis by (simp add: no_facts_def)
next
  case (matched p)
  from matched(2) show ?thesis
  proof (rule profile_factsD)
    fix dep_e rest container owned results
    assume dep: "items_named s ''Deployment'' (Some (pr_deployment_name p)) = dep_e # rest"
      and owned: "owned_pods s p = Inr owned"
      and ra: "resource_assessment (ev_data dep_e) (fc_replica_count_matches f) (fc_selector_drift f)
           (fc_readiness f) (service_valid s (service_dict s)) owned (pod_items s owned) (endpoint_items s)
         = Inr (fc_resource_status f)"
      and m: "fc_replica_count_matches f = replica_matches p (dget (ev_data dep_e) ''desired_replicas'')"
    from ra ready show ?thesis
      by (simp, elim resource_readyD)
         (use matched(1) dep owned m in \<open>force simp: replica_matches_def split: option.splits\<close>)
  qed
qed

lemma ready_status_sound_witness:
  "\<exists>f. diagnostic_facts demo_hash healthy_state = Inr f \<and> fc_resource_status f = Ready
     \<and> (\<exists>p. matched_profile demo_hash healthy_state = Inr p)"
proof -
  have e: "map_sum id fc_resource_status (diagnostic_facts demo_hash healthy_state) = Inr Ready"
    by code_simp
  then obtain f where f: "diagnostic_facts demo_hash healthy_state = Inr f" "fc_resource_status f = Ready"
    by (cases "diagnostic_facts demo_hash healthy_state") auto
  from ready_status_sound [OF f] f show ?thesis by blast
qed

text \<open>The business status is passed only when the matched profile registers at least one check
  and every registered check has exactly one error-free result, produced by the in-cluster probe
  for exactly the target rebuilt from the profile and the observed Service, with the expected HTTP
  status, matching content and no error code.\<close>

theorem passed_status_sound:
  assumes facts: "diagnostic_facts H s = Inr f"
    and passed: "fc_business_status f = Passed"
  shows "\<exists>p. matched_profile H s = Inr p \<and> pr_business_checks p \<noteq> []
      \<and> (\<forall>c\<in>set (pr_business_checks p). \<exists>e target.
            filter (\<lambda>e. dget (ev_data e) ''check_id'' = JStr (bc_check_id c)) (items s ''BusinessCheck'') = [e]
          \<and> ev_source e = ''cluster_http_probe''
          \<and> build_target H p c (service_dict s) = Inr target
          \<and> same_text (dget (ev_data e) ''target'') target
          \<and> dget (ev_data e) ''status'' = JStr ''passed''
          \<and> py_eq (dget (ev_data e) ''http_status'') (JInt (bc_expected_status c))
          \<and> dget (ev_data e) ''content_matches'' = JBool True
          \<and> dget (ev_data e) ''error_code'' = JNull)"
  using facts
proof (cases rule: diagnostic_facts_cases)
  case unmatched
  with passed show ?thesis by (simp add: no_facts_def)
next
  case (matched p)
  from matched(2) obtain results
    where r: "mapE (check_result H s p (service_dict s)) (pr_business_checks p) = Inr results"
      and b: "fc_business_status f = business_assessment (map fst results)"
    by (rule profile_factsD)
  from b passed have ne: "results \<noteq> []" and all: "\<forall>x\<in>set results. fst x = JStr ''passed''"
    using business_passedD [of "map fst results"] by auto
  have "\<exists>ids. check_result H s p (service_dict s) c = Inr (JStr ''passed'', ids)"
    if "c \<in> set (pr_business_checks p)" for c
    using mapE_nth [OF r that] all by force
  note each = this
  have some: "pr_business_checks p \<noteq> []"
    using ne mapE_length [OF r] by auto
  show ?thesis
  proof (intro exI [of _ p] conjI ballI)
    fix c assume "c \<in> set (pr_business_checks p)"
    then obtain ids where "check_result H s p (service_dict s) c = Inr (JStr ''passed'', ids)"
      using each by blast
    then show "\<exists>e target.
            filter (\<lambda>e. dget (ev_data e) ''check_id'' = JStr (bc_check_id c)) (items s ''BusinessCheck'') = [e]
          \<and> ev_source e = ''cluster_http_probe''
          \<and> build_target H p c (service_dict s) = Inr target
          \<and> same_text (dget (ev_data e) ''target'') target
          \<and> dget (ev_data e) ''status'' = JStr ''passed''
          \<and> py_eq (dget (ev_data e) ''http_status'') (JInt (bc_expected_status c))
          \<and> dget (ev_data e) ''content_matches'' = JBool True
          \<and> dget (ev_data e) ''error_code'' = JNull"
      by (rule check_result_passed_sound)
  qed (rule matched(1), rule some)
qed

lemma passed_status_sound_witness:
  "\<exists>f. diagnostic_facts demo_hash healthy_state = Inr f \<and> fc_business_status f = Passed
     \<and> (\<exists>p. matched_profile demo_hash healthy_state = Inr p \<and> pr_business_checks p \<noteq> [])"
proof -
  have "map_sum id fc_business_status (diagnostic_facts demo_hash healthy_state) = Inr Passed"
    by code_simp
  then obtain f where f: "diagnostic_facts demo_hash healthy_state = Inr f" "fc_business_status f = Passed"
    by (cases "diagnostic_facts demo_hash healthy_state") auto
  from passed_status_sound [OF f] f show ?thesis by blast
qed

text \<open>C34. A diagnosis the gate accepts agrees with the recomputed facts. A configuration category
  needs verified drift of that configuration and cites the observed Service and Deployment; "no
  fault" needs ready resources, passed checks, no drift, no current fault and no hypothesis; a
  runtime category needs that fault in a current container state; an application or dependency error needs
  a currently observed failure; and outside the configuration categories every hypothesis
  stays suspected.\<close>

theorem accepted_diagnosis_sound:
  assumes ok: "validate_diagnosis_assessment H d s = Inr ()"
  shows "\<exists>a f. d_assessment d = Some a \<and> diagnostic_facts H s = Inr f
      \<and> a_resource_status a = fc_resource_status f \<and> a_business_status a = fc_business_status f
      \<and> set (fc_business_evidence_ids f) \<subseteq> set (d_evidence_ids d)
      \<and> (d_fault_category d = ServiceSelectorMismatch \<longrightarrow> fc_selector_drift f
           \<and> set (fc_configuration_evidence_ids f) \<subseteq> set (d_evidence_ids d))
      \<and> (d_fault_category d = ReadinessProbeError \<longrightarrow> readiness_drift f
           \<and> set (fc_configuration_evidence_ids f) \<subseteq> set (d_evidence_ids d))
      \<and> (d_fault_category d = NoFaultDetected \<longrightarrow> fc_resource_status f = Ready
           \<and> fc_business_status f = Passed \<and> \<not> readiness_drift f \<and> fc_current_runtime_faults f = []
           \<and> a_hypotheses a = [])
      \<and> (d_fault_category d \<in> {CrashLoopBackoff, ImagePullBackoff, OomKilled} \<longrightarrow>
           d_fault_category d \<in> set (fc_current_runtime_faults f))
      \<and> (d_fault_category d = ApplicationError \<longrightarrow>
           fc_business_status f = Failed \<or> fc_current_runtime_faults f \<noteq> [])
      \<and> (d_fault_category d = DependencyError \<longrightarrow>
           (fc_resource_status f = NotReady \<or> fc_business_status f = Failed)
           \<and> (\<exists>i\<in>set (fc_current_log_evidence_ids f). i \<in> set (d_evidence_ids d)))
      \<and> (d_fault_category d \<notin> {ServiceSelectorMismatch, ReadinessProbeError} \<longrightarrow>
           (\<forall>h\<in>set (a_hypotheses a). h_status h = Suspected))"
proof -
  from ok obtain a f where "d_assessment d = Some a" and "diagnostic_facts H s = Inr f"
    and "list_all fst (assessment_checks f d a)"
    by (rule validate_diagnosisD)
  note acc = this
  show ?thesis
    using acc(1,2) accepted_common(1-3) [OF acc(3)] accepted_configuration(1,2) [OF acc(3)]
      accepted_no_fault [OF acc(3)] accepted_runtime [OF acc(3)] accepted_application [OF acc(3)]
      accepted_dependency [OF acc(3)] accepted_suspected [OF acc(3)]
    by (intro exI [of _ a] exI [of _ f] conjI impI ballI) (simp_all add: config_drift_def)
qed

text \<open>The diagnosis of the drifted selector that the gate accepts.\<close>

definition selector_diagnosis :: diagnosis where
  "selector_diagnosis = \<lparr>d_assessment = Some
      \<lparr>a_problem_domain = DeploymentConfiguration,
       a_symptoms = [\<lparr>f_summary = ''no endpoints'', f_evidence_ids = [''ev-svc'']\<rparr>],
       a_hypotheses = [\<lparr>f_summary = ''selector'', f_evidence_ids = [''ev-svc'', ''ev-dep''], h_status = Supported\<rparr>],
       a_missing_evidence = [], a_next_investigation = [],
       a_resource_status = NotReady, a_business_status = BusinessUnknown,
       a_unverified_scope = [''other'']\<rparr>,
     d_fault_category = ServiceSelectorMismatch, d_root_cause = ''selector drift'',
     d_evidence_ids = [''ev-svc'', ''ev-dep'', ''ev-biz''], d_runbook_ids = [''rb-1''],
     d_confidence = 9 / 10, d_reasoning_summary = ''selector differs from registration''\<rparr>"

lemma selector_diagnosis_accepted:
  "validate_diagnosis_assessment demo_hash selector_diagnosis drifted_state = Inr ()"
  by code_simp

lemma accepted_diagnosis_sound_witness:
  "\<exists>f. diagnostic_facts demo_hash drifted_state = Inr f \<and> fc_selector_drift f"
  using accepted_diagnosis_sound [OF selector_diagnosis_accepted]
  by (auto simp: selector_diagnosis_def)

text \<open>In an accepted diagnosis a hypothesis marked as supported occurs only in a configuration
  category whose drift is verified, and it cites every piece of configuration evidence itself.\<close>

theorem supported_hypothesis_grounded:
  assumes ok: "validate_diagnosis_assessment H d s = Inr ()"
    and a: "d_assessment d = Some a" and h: "h \<in> set (a_hypotheses a)" "h_status h = Supported"
  shows "\<exists>f. diagnostic_facts H s = Inr f
      \<and> d_fault_category d \<in> {ServiceSelectorMismatch, ReadinessProbeError}
      \<and> config_drift f (d_fault_category d)
      \<and> set (fc_configuration_evidence_ids f) \<subseteq> set (f_evidence_ids h)"
proof -
  from ok a obtain f where "diagnostic_facts H s = Inr f" and "list_all fst (assessment_checks f d a)"
    by (auto elim: validate_diagnosisD)
  note acc = this
  have "d_fault_category d \<in> {ServiceSelectorMismatch, ReadinessProbeError}"
    using accepted_suspected [OF acc(2) _ h(1)] h(2) by auto
  with acc h show ?thesis
    using accepted_configuration [OF acc(2)] by blast
qed

lemma supported_hypothesis_grounded_witness:
  "\<exists>f. diagnostic_facts demo_hash drifted_state = Inr f \<and> config_drift f ServiceSelectorMismatch"
proof -
  let ?h = "\<lparr>f_summary = ''selector'', f_evidence_ids = [''ev-svc'', ''ev-dep''], h_status = Supported\<rparr>"
  have "?h \<in> set (a_hypotheses (the (d_assessment selector_diagnosis)))"
    by (simp add: selector_diagnosis_def)
  moreover have "d_assessment selector_diagnosis = Some (the (d_assessment selector_diagnosis))"
    by (simp add: selector_diagnosis_def)
  ultimately show ?thesis
    using supported_hypothesis_grounded [OF selector_diagnosis_accepted, of _ ?h]
    by (auto simp: selector_diagnosis_def)
qed

text \<open>The report the program writes without calling a model passes the same gate as a model's
  diagnosis, satisfies the schema, and concludes "unknown" with confidence 0 and no hypothesis.\<close>

theorem insufficient_report_passes_gate:
  assumes ok: "insufficient_evidence_diagnosis H s = Inr d"
  shows "validate_diagnosis_assessment H d s = Inr () \<and> diagnosis_schema d
      \<and> d_fault_category d = UnknownFault \<and> d_confidence d = 0
      \<and> (\<forall>a. d_assessment d = Some a \<longrightarrow> a_hypotheses a = [])"
proof -
  from ok obtain f where f: "diagnostic_facts H s = Inr f" and can: "can_report_insufficient_evidence f"
    and sch: "diagnosis_schema d" and d: "d = insufficient_report f"
    by (auto simp: insufficient_evidence_diagnosis_def res_simps split: if_splits)
  from can have "list_all fst (assessment_checks f d (the (d_assessment d)))"
    unfolding d
    by (simp add: can_report_insufficient_evidence_def assessment_checks_def common_checks_def
        configuration_checks_def conclusion_checks_def category_checks_def configuration_categories_def
        insufficient_report_def)
  then have "validate_diagnosis_assessment H d s = Inr ()"
    by (simp add: validate_diagnosis_assessment_def f d insufficient_report_def res_simps)
  with sch show ?thesis
    by (simp add: d insufficient_report_def)
qed

lemma insufficient_report_passes_gate_witness:
  "\<exists>d. insufficient_evidence_diagnosis demo_hash unready_state = Inr d
     \<and> validate_diagnosis_assessment demo_hash d unready_state = Inr ()"
proof -
  have "isOK (insufficient_evidence_diagnosis demo_hash unready_state)"
    by code_simp
  then obtain d where d: "insufficient_evidence_diagnosis demo_hash unready_state = Inr d"
    by (auto simp: isOK_iff)
  with insufficient_report_passes_gate [OF d] show ?thesis by blast
qed

text \<open>The probe facts are the declared three-way classification: matched exactly for an observed
  complete HTTP probe with the registered scheme, path and port; repairable by the path/port writer
  exactly for an observed complete probe with the registered scheme and another address; drift
  exactly when the status says so; and a repairable probe has always drifted.\<close>

theorem readiness_classification:
  "(rf_status (readiness_configuration_facts c e) = ReadinessMatched \<longleftrightarrow>
      (\<exists>probe. map_of c ''readiness_probe'' = Some (JObj probe) \<and> truthy (dget probe ''path'')
         \<and> dget probe ''port'' \<noteq> JNull \<and> same_scheme probe e \<and> same_address probe e))
   \<and> (rf_patch_supported (readiness_configuration_facts c e) \<longleftrightarrow>
      (\<exists>probe. map_of c ''readiness_probe'' = Some (JObj probe) \<and> truthy (dget probe ''path'')
         \<and> dget probe ''port'' \<noteq> JNull \<and> same_scheme probe e \<and> \<not> same_address probe e))
   \<and> (rf_drift (readiness_configuration_facts c e) =
      (rf_status (readiness_configuration_facts c e) = ReadinessDrift))
   \<and> (rf_patch_supported (readiness_configuration_facts c e) \<le> rf_drift (readiness_configuration_facts c e))"
  using readiness_matched_iff readiness_patch_iff readiness_status_drift readiness_patch_is_drift
  by (auto simp: le_bool_def)

end
