(* ===== verification/PlanProps.thy ===== *)
theory PlanProps
  imports RemediationPolicy DiagnosisProps
begin

text \<open>
  What the remediation policy guarantees: a write action is allowed only on a grounded
  configuration diagnosis; a validated write plan writes exactly the registered values, starting
  from the observed ones; preparation only completes references and binds the observed target.
\<close>

section \<open>Inversion of the allowed actions\<close>

lemma actions_by_category_write:
  "PatchReadinessProbe \<in> set (actions_by_category c) \<longleftrightarrow> c = ReadinessProbeError"
  "PatchServiceSelector \<in> set (actions_by_category c) \<longleftrightarrow> c = ServiceSelectorMismatch"
  by (cases c; simp)+

lemma write_justified_True:
  assumes "write_justified H d s = Inr True"
  obtains f where "diagnosis_schema d" and "validate_diagnosis_assessment H d s = Inr ()"
    and "diagnostic_facts H s = Inr f" and "fc_configuration_evidence_complete f"
    and "fc_business_status f \<noteq> Failed" and "fc_current_runtime_faults f = []"
    and "supported_by_all_configuration f d"
  using assms
  by (auto simp: write_justified_def res_simps split: sum.splits if_splits)

lemma grounded_selector_True:
  assumes "grounded_selector H s = Inr True"
  obtains p e where "matched_profile H s = Inr p"
    and "find_evidence s ''Service'' (pr_service_name p) = [e]"
    and "is_dict (dget (ev_data e) ''selector'')" and "selector_drifted p (ev_data e)"
  using assms
  by (auto simp: grounded_selector_def split: sum.splits if_splits list.splits)

lemma candidate_write:
  assumes "candidate_actions H s c = Inr as" and "a \<in> set as"
  shows "a = PatchReadinessProbe \<Longrightarrow> c = ReadinessProbeError \<and> grounded_readiness H s = Inr True"
    and "a = PatchServiceSelector \<Longrightarrow> c = ServiceSelectorMismatch \<and> grounded_selector H s = Inr True"
  using assms
  by (auto simp: candidate_actions_def discard_unless_def res_simps actions_by_category_write split: if_splits)

lemma allowed_write:
  assumes "get_allowed_remediation_actions H s = Inr as" and "a \<in> set as" and "a \<in> set executable_actions"
  shows "\<exists>d cs. st_diagnosis s = Some d \<and> write_justified H d s = Inr True
      \<and> candidate_actions H s (d_fault_category d) = Inr cs \<and> a \<in> set cs"
  using assms
  by (auto simp: get_allowed_remediation_actions_def res_simps list_ex_iff filter_id_conv split: option.splits if_splits)

lemma supported_by_all_configurationE:
  assumes "supported_by_all_configuration f d"
  obtains a h where "d_assessment d = Some a" and "h \<in> set (a_hypotheses a)" and "h_status h = Supported"
    and "set (fc_configuration_evidence_ids f) \<subseteq> set (f_evidence_ids h)"
  using assms
  by (auto simp: supported_by_all_configuration_def list_ex_iff cites_configuration_def split: option.splits)

text \<open>C16. A write action is allowed only when the stored diagnosis satisfies the schema and passes
  the gate again, the configuration evidence is complete, no business check failed, no container
  is in a current fault state, and a supported hypothesis of the diagnosis cites all configuration
  evidence. The readiness writer additionally needs a probe of the registered scheme at another
  address, the selector writer the single observed Service with a drifted selector.\<close>

theorem write_action_grounded:
  assumes allowed: "get_allowed_remediation_actions H s = Inr as"
    and a: "a \<in> set as" "a \<in> {PatchReadinessProbe, PatchServiceSelector}"
  shows "\<exists>d f asm h. st_diagnosis s = Some d \<and> diagnosis_schema d
      \<and> validate_diagnosis_assessment H d s = Inr () \<and> diagnostic_facts H s = Inr f
      \<and> fc_configuration_evidence_complete f \<and> fc_business_status f \<noteq> Failed
      \<and> fc_current_runtime_faults f = []
      \<and> d_assessment d = Some asm \<and> h \<in> set (a_hypotheses asm) \<and> h_status h = Supported
      \<and> set (fc_configuration_evidence_ids f) \<subseteq> set (f_evidence_ids h)
      \<and> (a = PatchReadinessProbe \<longrightarrow> d_fault_category d = ReadinessProbeError
            \<and> rf_patch_supported (fc_readiness f))
      \<and> (a = PatchServiceSelector \<longrightarrow> d_fault_category d = ServiceSelectorMismatch
            \<and> (\<exists>p e. matched_profile H s = Inr p \<and> find_evidence s ''Service'' (pr_service_name p) = [e]
                 \<and> selector_drifted p (ev_data e)))"
proof -
  have "a \<in> set executable_actions"
    using a(2) by (auto simp: executable_actions_def)
  with allowed a(1) obtain d cs where d: "st_diagnosis s = Some d" "write_justified H d s = Inr True"
    and c: "candidate_actions H s (d_fault_category d) = Inr cs" "a \<in> set cs"
    by (blast dest: allowed_write)
  note r = candidate_write(1) [OF c] and sl = candidate_write(2) [OF c]
  from d(2) obtain f where f: "diagnosis_schema d" "validate_diagnosis_assessment H d s = Inr ()"
    "diagnostic_facts H s = Inr f" "fc_configuration_evidence_complete f"
    "fc_business_status f \<noteq> Failed" "fc_current_runtime_faults f = []"
    and sup: "supported_by_all_configuration f d"
    by (rule write_justified_True)
  from sup obtain asm h where h: "d_assessment d = Some asm" "h \<in> set (a_hypotheses asm)"
    "h_status h = Supported" "set (fc_configuration_evidence_ids f) \<subseteq> set (f_evidence_ids h)"
    by (rule supported_by_all_configurationE)
  have rd: "rf_patch_supported (fc_readiness f)" if "a = PatchReadinessProbe"
    using r [OF that] f(3) by (simp add: grounded_readiness_def)
  have sd: "\<exists>p e. matched_profile H s = Inr p \<and> find_evidence s ''Service'' (pr_service_name p) = [e]
                 \<and> selector_drifted p (ev_data e)" if "a = PatchServiceSelector"
    using sl [OF that] by (blast elim: grounded_selector_True)
  show ?thesis
    using d(1) f h rd sd r sl
    by (intro exI [of _ d] exI [of _ f] exI [of _ asm] exI [of _ h]) simp
qed

text \<open>The incident of the drifted selector with the accepted diagnosis, and the plan that repairs it.\<close>

definition diagnosed_state :: incident_state where
  "diagnosed_state = drifted_state\<lparr>st_diagnosis := Some selector_diagnosis\<rparr>"

definition selector_plan :: plan where
  "selector_plan = \<lparr>pl_target_uid = None, pl_action = PatchServiceSelector,
     pl_parameters = \<lparr>pa_namespace = ''agent-demo'', pa_resource_kind = KService,
       pa_resource_name = ''order-service'', pa_container_name = None,
       pa_current_probe_path = None, pa_proposed_probe_path = None,
       pa_current_probe_port = None, pa_proposed_probe_port = None,
       pa_current_selector = [\<lparr>lp_key = ''app'', lp_value = ''wrong''\<rparr>],
       pa_proposed_selector = [\<lparr>lp_key = ''app'', lp_value = ''order''\<rparr>],
       pa_investigation_steps = []\<rparr>,
     pl_risk_level = MediumRisk, pl_summary = ''restore the selector'',
     pl_expected_result = ''endpoints return'', pl_rollback_plan = ''restore the old selector'',
     pl_evidence_ids = [''ev-svc''], pl_runbook_ids = [''rb-1''], pl_requires_approval = True\<rparr>"

definition bound_selector_plan :: plan where
  "bound_selector_plan = selector_plan\<lparr>pl_evidence_ids := [''ev-svc'', ''ev-dep''],
     pl_target_uid := Some ''svc-1''\<rparr>"

lemma diagnosed_allows:
  "get_allowed_remediation_actions demo_hash diagnosed_state = Inr [ManualInvestigation, PatchServiceSelector]"
  by code_simp

lemma selector_plan_valid:
  "validate_remediation_plan demo_hash bound_selector_plan diagnosed_state = Inr bound_selector_plan"
  by code_simp

lemma selector_plan_prepared:
  "prepare_remediation_plan demo_hash selector_plan diagnosed_state = Inr (bound_selector_plan, [''ev-dep''])"
  by code_simp

lemma write_action_grounded_witness:
  "\<exists>f. diagnostic_facts demo_hash diagnosed_state = Inr f \<and> fc_configuration_evidence_complete f"
  using write_action_grounded [OF diagnosed_allows, of PatchServiceSelector] by auto

section \<open>Validated plans\<close>

lemma as_plan_error_Inr: "as_plan_error q m = Inr x \<longleftrightarrow> m = Inr x"
  by (auto simp: as_plan_error_def catchE_eq_Inr)

lemma validate_planD:
  assumes "validate_remediation_plan H pl s = Inr pl'"
  obtains as where "pl' = pl" and "get_allowed_remediation_actions H s = Inr as" and "pl_action pl \<in> set as"
    and "validate_references pl s = Inr ()" and "validate_plan_target pl s = Inr ()"
    and "pl_target_uid pl \<noteq> None \<Longrightarrow> \<exists>b. bind_target pl s = Inr b"
    and "validate_text_has_no_commands pl = Inr ()" and "validate_action_metadata pl = Inr ()"
    and "validate_write_basis H pl s = Inr ()" and "validate_action_parameters pl s = Inr ()"
  using assms
  by (auto simp: validate_remediation_plan_def res_simps as_plan_error_Inr split: if_splits)

lemma write_basisD:
  assumes "validate_write_basis H pl s = Inr ()" and "pl_action pl \<in> set executable_actions"
  obtains f p where "diagnostic_facts H s = Inr f" and "matched_profile H s = Inr p"
    and "set (fc_configuration_evidence_ids f) \<subseteq> set (pl_evidence_ids pl)" and "pl_runbook_ids pl \<noteq> []"
    and "validate_profile_action p pl = Inr ()"
  using assms
  by (auto simp: validate_write_basis_def registered_action_def as_plan_error_Inr res_simps split: if_splits)

lemma profile_action_selector:
  assumes "validate_profile_action p pl = Inr ()" and "pl_action pl = PatchServiceSelector" and "profile_schema p"
  shows "pa_resource_kind (pl_parameters pl) = KService"
    and "pa_resource_name (pl_parameters pl) = pr_service_name p"
    and "distinct (map lp_key (pa_proposed_selector (pl_parameters pl)))"
    and "map_of (pairs (pa_proposed_selector (pl_parameters pl))) = map_of (pr_expected_selector p)"
proof -
  let ?sel = "pa_proposed_selector (pl_parameters pl)"
  have all: "pa_resource_kind (pl_parameters pl) = KService
      \<and> pa_resource_name (pl_parameters pl) = pr_service_name p \<and> distinct (map lp_key ?sel)
      \<and> str_dict_eq (pairs ?sel) (pr_expected_selector p)"
    using assms(1,2) by (simp add: validate_profile_action_def Let_def split: if_splits)
  moreover have "map fst (pairs ?sel) = map lp_key ?sel"
    by (simp add: pairs_def o_def)
  moreover have "distinct (map fst (pr_expected_selector p))"
    using assms(3) by (simp add: profile_schema_def)
  ultimately show "map_of (pairs ?sel) = map_of (pr_expected_selector p)"
    by (intro str_dict_eq_map_of) simp_all
  from all show "pa_resource_kind (pl_parameters pl) = KService"
    and "pa_resource_name (pl_parameters pl) = pr_service_name p" and "distinct (map lp_key ?sel)"
    by simp_all
qed

lemma profile_action_readiness:
  assumes "validate_profile_action p pl = Inr ()" and "pl_action pl = PatchReadinessProbe"
  shows "pa_resource_kind (pl_parameters pl) = KDeployment
      \<and> pa_resource_name (pl_parameters pl) = pr_deployment_name p
      \<and> pa_container_name (pl_parameters pl) = Some (pr_container_name p)
      \<and> pa_proposed_probe_path (pl_parameters pl) = Some (hp_path (pr_readiness_probe p))
      \<and> pa_proposed_probe_port (pl_parameters pl) = Some (hp_port (pr_readiness_probe p))"
  using assms by (simp add: validate_profile_action_def Let_def split: if_splits)

lemma selector_patchD:
  assumes "validate_selector_patch pl s = Inr ()"
  obtains e es where "find_evidence s ''Service'' (pa_resource_name (pl_parameters pl)) = e # es"
    and "Some (pa_resource_name (pl_parameters pl)) = req_get s ''service_name''"
    and "py_eq (dget_or (ev_data e) ''selector'' (JObj []))
           (JObj (str_dict (pairs (pa_current_selector (pl_parameters pl)))))"
    and "pa_proposed_selector (pl_parameters pl) \<noteq> []"
  using assms
  by (auto simp: validate_selector_patch_def Let_def res_simps label_pairs_to_dict_def pairs_def
      split: if_splits list.splits)

lemma probe_checksD:
  assumes "probe_checks container p = Inr ()"
  obtains probe where "or_else (dget container ''readiness_probe'') (JObj []) = JObj probe"
    and "dget probe ''path'' = opt_str (pa_current_probe_path p)"
    and "py_eq (dget probe ''port'') (opt_json port_json (pa_current_probe_port p))"
    and "(pa_current_probe_path p, pa_current_probe_port p) \<noteq> (pa_proposed_probe_path p, pa_proposed_probe_port p)"
  using assms by (auto simp: probe_checks_def res_simps split: json.splits if_splits)

lemma find_by_nameD:
  assumes "findE (\<lambda>c. bindE (jget c ''name'') (\<lambda>x. Inr (x = n))) cs = Inr (Some c)"
  shows "c \<in> set cs \<and> (\<exists>d. c = JObj d \<and> dget d ''name'' = n)"
  using findE_Some [OF assms] by (auto simp: res_simps)

lemma readiness_patchD:
  assumes "validate_readiness_patch pl s = Inr ()"
  obtains e es cs container where
      "find_evidence s ''Deployment'' (pa_resource_name (pl_parameters pl)) = e # es"
    and "jiter (dget_or (ev_data e) ''containers'' (JArr [])) = Inr cs" and "JObj container \<in> set cs"
    and "dget container ''name'' = opt_str (pa_container_name (pl_parameters pl))"
    and "probe_checks container (pl_parameters pl) = Inr ()"
proof -
  from assms obtain e es cs r where
      a: "find_evidence s ''Deployment'' (pa_resource_name (pl_parameters pl)) = e # es"
    "jiter (dget_or (ev_data e) ''containers'' (JArr [])) = Inr cs"
    and r: "findE (\<lambda>c. bindE (jget c ''name'') (\<lambda>x. Inr (x = opt_str (pa_container_name (pl_parameters pl))))) cs = Inr r"
    and c: "(case r of Some (JObj container) \<Rightarrow> probe_checks container (pl_parameters pl)
           | _ \<Rightarrow> Inl (InvalidRemediationPlan ''container does not exist in Deployment evidence'')) = Inr ()"
    by (auto simp only: validate_readiness_patch_def Let_def bindE_eq_Inr split: list.splits)
  from c obtain container where "r = Some (JObj container)" "probe_checks container (pl_parameters pl) = Inr ()"
    by (auto split: option.splits json.splits)
  with a r show ?thesis
    using find_by_nameD by (blast intro: that)
qed

lemma executable_actions_set: "set executable_actions = {PatchReadinessProbe, PatchServiceSelector}"
  by (simp add: executable_actions_def)

lemma referencesD:
  assumes "validate_references pl s = Inr ()"
  shows "distinct (pl_evidence_ids pl)" and "set (pl_evidence_ids pl) \<subseteq> set (available_evidence_ids s)"
    and "set (pl_evidence_ids pl) \<subseteq> set (diagnosis_evidence_ids s)"
    and "set (pl_runbook_ids pl) \<subseteq> set (diagnosis_runbook_ids s)"
  using assms by (auto simp: validate_references_def res_simps split: if_splits)

lemma plan_targetD:
  assumes "validate_plan_target pl s = Inr ()"
  shows "pa_namespace (pl_parameters pl) = ''agent-demo''"
    and "req_get s ''namespace'' = Some (pa_namespace (pl_parameters pl))"
    and "find_evidence s (evidence_type_of (pa_resource_kind (pl_parameters pl))) (pa_resource_name (pl_parameters pl)) \<noteq> []"
  using assms by (auto simp: validate_plan_target_def Let_def safe_namespace_def split: if_splits)

lemma action_metadataD:
  assumes "validate_action_metadata pl = Inr ()"
  shows "pl_requires_approval pl \<longleftrightarrow> pl_action pl \<in> {PatchReadinessProbe, PatchServiceSelector}"
    and "pl_risk_level pl = (if pl_requires_approval pl then MediumRisk else LowRisk)"
  using assms by (auto simp: validate_action_metadata_def executable_actions_set split: if_splits)

text \<open>A validated plan is returned unchanged; it targets the one permitted namespace, which is
  the requested one, a resource present in the evidence, and cites only evidence that exists and
  that the diagnosis declared; it asks for approval, at medium risk, exactly when its action
  writes; and none of its texts contains a command token.\<close>

theorem validated_plan_safe:
  assumes ok: "validate_remediation_plan H pl s = Inr pl'"
  shows "pl' = pl \<and> pa_namespace (pl_parameters pl) = ''agent-demo''
      \<and> req_get s ''namespace'' = Some ''agent-demo''
      \<and> (\<exists>e\<in>set (st_evidence s). ev_type e = evidence_type_of (pa_resource_kind (pl_parameters pl))
            \<and> ev_name e = pa_resource_name (pl_parameters pl))
      \<and> set (pl_evidence_ids pl) \<subseteq> ev_id ` set (st_evidence s)
      \<and> set (pl_evidence_ids pl) \<subseteq> set (diagnosis_evidence_ids s)
      \<and> set (pl_runbook_ids pl) \<subseteq> set (diagnosis_runbook_ids s)
      \<and> (pl_requires_approval pl = (pl_action pl \<in> {PatchReadinessProbe, PatchServiceSelector}))
      \<and> pl_risk_level pl = (if pl_requires_approval pl then MediumRisk else LowRisk)
      \<and> (\<forall>t\<in>set (plan_texts pl). \<not> has_command t)"
  using ok
proof (rule validate_planD)
  assume refs: "validate_references pl s = Inr ()" and tgt: "validate_plan_target pl s = Inr ()"
    and texts: "validate_text_has_no_commands pl = Inr ()" and meta: "validate_action_metadata pl = Inr ()"
    and same: "pl' = pl"
  have "available_evidence_ids s = filter (\<lambda>i. i \<noteq> []) (map ev_id (st_evidence s))"
    by (simp add: available_evidence_ids_def)
  then have "set (pl_evidence_ids pl) \<subseteq> ev_id ` set (st_evidence s)"
    using referencesD(2) [OF refs] by auto
  moreover have "\<exists>e\<in>set (st_evidence s). ev_type e = evidence_type_of (pa_resource_kind (pl_parameters pl))
            \<and> ev_name e = pa_resource_name (pl_parameters pl)"
    using plan_targetD(3) [OF tgt] by (auto simp: find_evidence_def filter_empty_conv)
  moreover have "\<forall>t\<in>set (plan_texts pl). \<not> has_command t"
    using texts by (simp add: validate_text_has_no_commands_def list_all_iff require_eq_Inr)
  ultimately show ?thesis
    using same referencesD(3,4) [OF refs] plan_targetD(1,2) [OF tgt] action_metadataD [OF meta] by simp
qed

lemma validated_plan_safe_witness:
  "pl_requires_approval bound_selector_plan \<and> \<not> has_command (pl_summary bound_selector_plan)"
  using validated_plan_safe [OF selector_plan_valid]
  by (auto simp: bound_selector_plan_def selector_plan_def plan_texts_def)

lemma selector_write_current:
  assumes par: "validate_action_parameters pl s = Inr ()" and a: "pl_action pl = PatchServiceSelector"
    and va: "validate_profile_action p pl = Inr ()" and sch: "profile_schema p"
  shows "\<exists>e\<in>set (st_evidence s). ev_type e = ''Service'' \<and> ev_name e = pr_service_name p
                \<and> py_eq (dget_or (ev_data e) ''selector'' (JObj []))
                     (JObj (str_dict (pairs (pa_current_selector (pl_parameters pl)))))"
proof -
  have "validate_selector_patch pl s = Inr ()"
    using par a by (simp add: validate_action_parameters_def)
  then obtain e es where e: "find_evidence s ''Service'' (pa_resource_name (pl_parameters pl)) = e # es"
    and q: "py_eq (dget_or (ev_data e) ''selector'' (JObj []))
         (JObj (str_dict (pairs (pa_current_selector (pl_parameters pl)))))"
    by (rule selector_patchD)
  from e have "e \<in> set (find_evidence s ''Service'' (pa_resource_name (pl_parameters pl)))"
    by simp
  with q profile_action_selector(2) [OF va a sch] show ?thesis
    by (auto simp: find_evidence_def)
qed

lemma readiness_write_current:
  assumes par: "validate_action_parameters pl s = Inr ()" and a: "pl_action pl = PatchReadinessProbe"
    and va: "validate_profile_action p pl = Inr ()"
  shows "(\<exists>container probe. dget container ''name'' = JStr (pr_container_name p)
              \<and> or_else (dget container ''readiness_probe'') (JObj []) = JObj probe
              \<and> dget probe ''path'' = opt_str (pa_current_probe_path (pl_parameters pl))
              \<and> py_eq (dget probe ''port'') (opt_json port_json (pa_current_probe_port (pl_parameters pl))))
    \<and> (pa_current_probe_path (pl_parameters pl), pa_current_probe_port (pl_parameters pl))
             \<noteq> (pa_proposed_probe_path (pl_parameters pl), pa_proposed_probe_port (pl_parameters pl))"
proof -
  have "validate_readiness_patch pl s = Inr ()"
    using par a by (simp add: validate_action_parameters_def)
  then obtain container where n: "dget container ''name'' = opt_str (pa_container_name (pl_parameters pl))"
    and c: "probe_checks container (pl_parameters pl) = Inr ()"
    by (rule readiness_patchD)
  have "opt_str (pa_container_name (pl_parameters pl)) = JStr (pr_container_name p)"
    using profile_action_readiness [OF va a] by (simp add: opt_str_def opt_json_def)
  with n c show ?thesis
    by (metis probe_checksD)
qed



end
