(* ===== verification/PlanPreparation.thy ===== *)
theory PlanPreparation
  imports PlanProps
begin

text \<open>
  The preparation of a plan, the binding to the observed target, and the search for command tokens.
\<close>

section \<open>Command tokens\<close>

lemma starts_with_iff: "starts_with w t \<longleftrightarrow> (\<exists>r. t = w @ r)"
  by (auto simp: starts_with_def) (metis append_take_drop_id)

lemma starts_with_lower:
  "starts_with w (map ascii_lower t) \<longleftrightarrow> (\<exists>tok post. t = tok @ post \<and> map ascii_lower tok = w)"
proof
  assume "starts_with w (map ascii_lower t)"
  then have "map ascii_lower (take (length w) t) = w"
    by (simp add: starts_with_def take_map)
  then show "\<exists>tok post. t = tok @ post \<and> map ascii_lower tok = w"
    by (metis append_take_drop_id)
qed (auto simp: starts_with_iff)

text \<open>A token at the start of a text, and what may follow it.\<close>

definition is_token :: "bool \<Rightarrow> string \<Rightarrow> string \<Rightarrow> bool" where
  "is_token after_word tok post = (tok = replicate 3 (CHR 0x60) \<or> tok = ''$(''
     \<or> \<not> after_word \<and> map ascii_lower tok \<in> set command_names
        \<and> (post = [] \<or> \<not> is_word_char (hd post)))"

lemma command_here_iff: "command_here b t \<longleftrightarrow> (\<exists>tok post. t = tok @ post \<and> is_token b tok post)"
proof -
  have name: "(case drop (length w) t of [] \<Rightarrow> True | c # _ \<Rightarrow> \<not> is_word_char c)
      \<longleftrightarrow> post = [] \<or> \<not> is_word_char (hd post)"
    if "t = tok @ post" "map ascii_lower tok = w" for w tok post
    using that by (auto split: list.splits)
  have "(\<exists>w\<in>set command_names. starts_with w (map ascii_lower t)
          \<and> (case drop (length w) t of [] \<Rightarrow> True | c # _ \<Rightarrow> \<not> is_word_char c))
      \<longleftrightarrow> (\<exists>tok post. t = tok @ post \<and> map ascii_lower tok \<in> set command_names
            \<and> (post = [] \<or> \<not> is_word_char (hd post)))"
    unfolding starts_with_lower using name by blast
  then show ?thesis
    unfolding command_here_def is_token_def list_ex_iff starts_with_iff by blast
qed

lemma command_from_iff:
  "command_from b t \<longleftrightarrow> (\<exists>pre tok post. t = pre @ tok @ post \<and> tok @ post \<noteq> []
     \<and> is_token (if pre = [] then b else is_word_char (last pre)) tok post)"
proof (induction b t rule: command_from.induct)
  case (2 b c t)
  have "(\<exists>pre tok post. c # t = pre @ tok @ post \<and> tok @ post \<noteq> []
        \<and> is_token (if pre = [] then b else is_word_char (last pre)) tok post)
     \<longleftrightarrow> (\<exists>tok post. c # t = tok @ post \<and> is_token b tok post)
       \<or> (\<exists>pre tok post. t = pre @ tok @ post \<and> tok @ post \<noteq> []
            \<and> is_token (if pre = [] then is_word_char c else is_word_char (last pre)) tok post)"
    (is "?l \<longleftrightarrow> ?r1 \<or> ?r2")
  proof
    assume ?l
    then obtain pre tok post where p: "c # t = pre @ tok @ post" "tok @ post \<noteq> []"
        "is_token (if pre = [] then b else is_word_char (last pre)) tok post"
      by blast
    show "?r1 \<or> ?r2"
    proof (cases pre)
      case (Cons x xs)
      with p show ?thesis
        by (intro disjI2 exI [of _ xs] exI [of _ tok] exI [of _ post]) (auto split: if_splits)
    qed (use p in auto)
  next
    assume "?r1 \<or> ?r2"
    then show ?l
    proof
      assume ?r1
      then obtain tok post where p: "c # t = tok @ post" "is_token b tok post"
        by blast
      have "tok @ post \<noteq> []"
        unfolding p(1) [symmetric] by simp
      with p show ?l
        by (intro exI [of _ "[]"] exI [of _ tok] exI [of _ post]) simp
    next
      assume ?r2
      then obtain pre tok post where "t = pre @ tok @ post" "tok @ post \<noteq> []"
        "is_token (if pre = [] then is_word_char c else is_word_char (last pre)) tok post"
        by blast
      then show ?l
        by (intro exI [of _ "c # pre"] exI [of _ tok] exI [of _ post]) auto
    qed
  qed
  then show ?case
    by (simp only: command_from.simps command_here_iff 2)
qed simp

text \<open>The search finds a command token exactly where the pattern describes one: three
  backquotes, a dollar with a parenthesis, or one of the command names in any letter case, between
  word boundaries.\<close>

theorem has_command_spec:
  "has_command t \<longleftrightarrow> (\<exists>pre tok post. t = pre @ tok @ post
     \<and> (tok = replicate 3 (CHR 0x60) \<or> tok = ''$(''
        \<or> map ascii_lower tok \<in> set command_names
          \<and> (pre = [] \<or> \<not> is_word_char (last pre)) \<and> (post = [] \<or> \<not> is_word_char (hd post))))"
proof -
  have "tok @ post \<noteq> []" if "is_token b tok post" for b tok post
    using that by (auto simp: is_token_def command_names_def)
  then have found: "has_command t \<longleftrightarrow> (\<exists>pre tok post. t = pre @ tok @ post
      \<and> is_token (if pre = [] then False else is_word_char (last pre)) tok post)"
    unfolding has_command_def command_from_iff by blast
  have token: "is_token (if pre = [] then False else is_word_char (last pre)) tok post
      \<longleftrightarrow> tok = replicate 3 (CHR 0x60) \<or> tok = ''$(''
        \<or> map ascii_lower tok \<in> set command_names
          \<and> (pre = [] \<or> \<not> is_word_char (last pre)) \<and> (post = [] \<or> \<not> is_word_char (hd post))"
    for pre tok post
    by (cases "pre = []") (simp_all only: is_token_def if_True if_False simp_thms conj_left_commute)
  show ?thesis
    unfolding found token ..
qed

lemma has_command_spec_witness: "has_command ''run KubeCtl now'' \<and> \<not> has_command ''run kubectl2''"
proof
  have "map ascii_lower ''KubeCtl'' \<in> set command_names" "\<not> is_word_char (CHR '' '')"
    by code_simp+
  then show "has_command ''run KubeCtl now''"
    unfolding has_command_spec
    by (intro exI [of _ "''run ''"] exI [of _ "''KubeCtl''"] exI [of _ "'' now''"]) simp
  show "\<not> has_command ''run kubectl2''"
    by code_simp
qed

section \<open>Preparation\<close>

lemma complete_referencesD:
  assumes "complete_references H pl s = Inr (pl', added)"
  obtains f as where "get_allowed_remediation_actions H s = Inr as" and "pl_action pl \<in> set as"
    and "registered_action H pl s = Inr ()" and "diagnostic_facts H s = Inr f"
    and "fc_configuration_evidence_complete f"
    and "set (fc_configuration_evidence_ids f) \<subseteq> set (citable_evidence_ids s)"
    and "set (fc_configuration_evidence_ids f) \<subseteq> set (diagnosis_evidence_ids s)"
    and "dedup (fc_configuration_evidence_ids f) \<noteq> []"
    and "list_ex (\<lambda>i. i \<in> set (fc_configuration_evidence_ids f)) (pl_evidence_ids pl)"
    and "added = missing_ids f pl" and "pl' = pl\<lparr>pl_evidence_ids := pl_evidence_ids pl @ added\<rparr>"
  using assms by (auto simp: complete_references_def Let_def res_simps split: if_splits)

lemma prepareD:
  assumes "prepare_remediation_plan H pl s = Inr (pl', added)"
  obtains (manual) "pl_action pl \<notin> set executable_actions" and "pl' = pl" and "added = []"
      and "validate_references pl s = Inr ()" and "validate_remediation_plan H pl s = Inr pl"
    | (executable) completed where "pl_action pl \<in> set executable_actions"
      and "validate_references pl s = Inr ()" and "complete_references H pl s = Inr (completed, added)"
      and "bind_target completed s = Inr pl'" and "validate_remediation_plan H pl' s = Inr pl'"
proof (cases "pl_action pl \<in> set executable_actions")
  case True
  with assms obtain completed b where "validate_references pl s = Inr ()"
    "complete_references H pl s = Inr (completed, added)" "bind_target completed s = Inr b"
    "validate_remediation_plan H b s = Inr pl'"
    by (auto simp: prepare_remediation_plan_def res_simps as_plan_error_Inr)
  moreover from this(4) have "b = pl'"
    by (rule validate_planD) simp
  ultimately show ?thesis
    using True by (intro executable) simp_all
next
  case False
  with assms have "validate_references pl s = Inr ()" "added = []" and v: "validate_remediation_plan H pl s = Inr pl'"
    by (auto simp: prepare_remediation_plan_def res_simps)
  moreover from v have "pl' = pl"
    by (rule validate_planD)
  ultimately show ?thesis
    using False by (intro manual) simp_all
qed

lemma missing_ids_completed:
  assumes "set (missing_ids f pl) \<subseteq> set (pl_evidence_ids pl')" and "set (pl_evidence_ids pl) \<subseteq> set (pl_evidence_ids pl')"
  shows "missing_ids f pl' = []"
  using assms by (auto simp: missing_ids_def filter_empty_conv)

text \<open>C17. Preparation keeps a manual plan as it is. Of a write plan it changes two fields only: it
  appends the configuration references the plan does not cite yet, which the diagnosis declared
  and error-free evidence carries, and it sets the target UID to the unique observed one; the
  result passes the full validation.\<close>

theorem preparation_only_completes:
  assumes ok: "prepare_remediation_plan H pl s = Inr (pl', added)"
  shows "validate_remediation_plan H pl' s = Inr pl'
      \<and> distinct (pl_evidence_ids pl') \<and> pl_evidence_ids pl' = pl_evidence_ids pl @ added
      \<and> set added \<subseteq> set (diagnosis_evidence_ids s) \<inter> set (citable_evidence_ids s)
      \<and> pl'\<lparr>pl_evidence_ids := pl_evidence_ids pl, pl_target_uid := pl_target_uid pl\<rparr> = pl
      \<and> (if pl_action pl = ManualInvestigation then pl' = pl
         else \<exists>e u. target_items s pl = [e] \<and> dget (ev_data e) ''uid'' = JStr u \<and> pl_target_uid pl' = Some u)"
  using ok
proof (cases rule: prepareD)
  case manual
  then have "pl_action pl = ManualInvestigation"
    by (cases "pl_action pl") (auto simp: executable_actions_set)
  with manual show ?thesis
    by (simp add: referencesD)
next
  case (executable completed)
  from executable(3) obtain f where
      c: "set (fc_configuration_evidence_ids f) \<subseteq> set (citable_evidence_ids s)"
      "set (fc_configuration_evidence_ids f) \<subseteq> set (diagnosis_evidence_ids s)"
    and a: "added = missing_ids f pl" and completed: "completed = pl\<lparr>pl_evidence_ids := pl_evidence_ids pl @ added\<rparr>"
    by (rule complete_referencesD)
  from executable(4) obtain u where u: "observed_target_uid s completed = Inr u"
    and pl': "pl' = completed\<lparr>pl_target_uid := Some u\<rparr>"
    by (auto simp: bind_target_Inr)
  have "target_items s completed = target_items s pl"
    by (simp add: completed target_items_def)
  then obtain e where e: "target_items s pl = [e]" "dget (ev_data e) ''uid'' = JStr u"
    using u by (auto simp: observed_target_uid_Inr)
  have "distinct (pl_evidence_ids pl)"
    using executable(2) by (rule referencesD)
  then have "distinct (pl_evidence_ids pl @ added)"
    by (auto simp: a missing_ids_def)
  moreover have "set added \<subseteq> set (diagnosis_evidence_ids s) \<inter> set (citable_evidence_ids s)"
    using c by (auto simp: a missing_ids_def)
  ultimately show ?thesis
    using executable(1,5) e by (auto simp: pl' completed executable_actions_set)
qed

lemma preparation_only_completes_witness:
  "validate_remediation_plan demo_hash bound_selector_plan diagnosed_state = Inr bound_selector_plan
     \<and> pl_evidence_ids bound_selector_plan = pl_evidence_ids selector_plan @ [''ev-dep'']"
  using preparation_only_completes [OF selector_plan_prepared] by simp

text \<open>Preparation is idempotent: a prepared plan prepares to itself, with nothing added.\<close>

theorem preparation_idempotent:
  assumes ok: "prepare_remediation_plan H pl s = Inr (pl', added)"
  shows "prepare_remediation_plan H pl' s = Inr (pl', [])"
  using ok
proof (cases rule: prepareD)
  case manual
  with ok show ?thesis by simp
next
  case (executable completed)
  from executable(3) obtain f as where
      c: "get_allowed_remediation_actions H s = Inr as" "pl_action pl \<in> set as"
      "registered_action H pl s = Inr ()" "diagnostic_facts H s = Inr f" "fc_configuration_evidence_complete f"
      "set (fc_configuration_evidence_ids f) \<subseteq> set (citable_evidence_ids s)"
      "set (fc_configuration_evidence_ids f) \<subseteq> set (diagnosis_evidence_ids s)"
      "dedup (fc_configuration_evidence_ids f) \<noteq> []"
      "list_ex (\<lambda>i. i \<in> set (fc_configuration_evidence_ids f)) (pl_evidence_ids pl)"
    and a: "added = missing_ids f pl" and completed: "completed = pl\<lparr>pl_evidence_ids := pl_evidence_ids pl @ added\<rparr>"
    by (rule complete_referencesD)
  from executable(4) obtain u where pl': "pl' = completed\<lparr>pl_target_uid := Some u\<rparr>"
    by (auto simp: bind_target_Inr)
  have none: "missing_ids f pl' = []"
    by (rule missing_ids_completed) (auto simp: pl' completed a)
  have reg: "registered_action H pl' s = registered_action H pl s"
    by (simp add: registered_action_def validate_profile_action_def pl' completed cong: if_cong)
  have act: "pl_action pl' = pl_action pl"
    by (simp add: pl' completed)
  have cites: "list_ex (\<lambda>i. i \<in> set (fc_configuration_evidence_ids f)) (pl_evidence_ids pl')"
    using c(9) by (simp add: pl' completed)
  have refs: "validate_references pl' s = Inr ()"
    using executable(5) by (rule validate_planD)
  have "complete_references H pl' s = Inr (pl', [])"
    unfolding complete_references_def Let_def c(1,4) reg c(3) act
    by (simp add: c(2,5-8) cites none require_def)
  then show ?thesis
    using executable(1,5) refs bind_target_idem [OF executable(4)]
    by (simp add: prepare_remediation_plan_def act as_plan_error_def)
qed

lemma preparation_idempotent_witness:
  "prepare_remediation_plan demo_hash bound_selector_plan diagnosed_state = Inr (bound_selector_plan, [])"
  by (rule preparation_idempotent [OF selector_plan_prepared])

text \<open>A plan is bound only to a target the evidence identifies: the bound UID is the textual UID
  of the only error-free evidence item of the plan's kind, name and namespace, and no recorded
  link contradicts the evidence: the Pod UID of an owner chain is that of the Pod's item, and
  the Service UID of an endpoint slice that of the Service's item.\<close>

theorem bound_target_consistent:
  assumes ok: "bind_target pl s = Inr pl'"
  shows "(\<exists>e u. target_items s pl = [e] \<and> dget (ev_data e) ''uid'' = JStr u
          \<and> (pl_target_uid pl = None \<or> pl_target_uid pl = Some u) \<and> pl' = pl\<lparr>pl_target_uid := Some u\<rparr>)
     \<and> (\<forall>ow\<in>set (st_evidence s). \<forall>p\<in>set (st_evidence s). \<forall>c a b.
          ev_type ow = ''OwnerChain'' \<and> ev_type p = ''PodStatus'' \<and> ev_name p = ev_name ow
          \<and> dget (ev_data ow) ''owner_chain'' = JObj c \<and> dget c ''pod_uid'' = JStr a
          \<and> dget (ev_data p) ''uid'' = JStr b \<and> a \<noteq> [] \<and> b \<noteq> [] \<longrightarrow> a = b)
     \<and> (\<forall>sl\<in>set (st_evidence s). \<forall>p\<in>set (st_evidence s). \<forall>a b.
          ev_type sl = ''EndpointSlice'' \<and> ev_type p = ''Service''
          \<and> dget (ev_data sl) ''service_name'' = JStr (ev_name p) \<and> dget (ev_data sl) ''service_uid'' = JStr a
          \<and> dget (ev_data p) ''uid'' = JStr b \<and> a \<noteq> [] \<and> b \<noteq> [] \<longrightarrow> a = b)"
proof -
  from ok have rel: "validate_relationships s = Inr ()"
    by (auto simp: bind_target_Inr)
  show ?thesis
  proof (intro conjI ballI allI impI)
    show "\<exists>e u. target_items s pl = [e] \<and> dget (ev_data e) ''uid'' = JStr u
          \<and> (pl_target_uid pl = None \<or> pl_target_uid pl = Some u) \<and> pl' = pl\<lparr>pl_target_uid := Some u\<rparr>"
      using ok by (auto simp: bind_target_Inr observed_target_uid_Inr)
  qed (elim conjE, (rule owner_links [OF rel] slice_links [OF rel]; assumption))+
qed

lemma bound_target_consistent_witness:
  "\<exists>e. target_items diagnosed_state selector_plan = [e] \<and> dget (ev_data e) ''uid'' = JStr ''svc-1''"
proof -
  have "bind_target selector_plan diagnosed_state = Inr (selector_plan\<lparr>pl_target_uid := Some ''svc-1''\<rparr>)"
    by code_simp
  from bound_target_consistent [OF this] show ?thesis
    by (auto simp: selector_plan_def)
qed

end
