(* ===== verification/ApprovalProps.thy ===== *)
theory ApprovalProps
  imports ExecutionPolicy PlanPreparation
begin

text \<open>
  What an approval binds: equal approval revisions mean equal plans and equal observed
  snapshots, as long as the hash does not collide on the two texts; an authorised write is the
  approved one; and what a human decision may change.
\<close>

section \<open>The canonical plan determines the plan\<close>

lemma canon_scalar_inject:
  "canon v = JStr x \<longleftrightarrow> v = JStr x" "canon v = JInt i \<longleftrightarrow> v = JInt i"
  "canon v = JBool b \<longleftrightarrow> v = JBool b" "canon v = JNull \<longleftrightarrow> v = JNull"
  by (cases v; simp)+

lemma canon_opt_str: "canon (opt_json JStr a) = canon (opt_json JStr b) \<Longrightarrow> a = b"
  by (cases a; cases b) (simp_all add: opt_json_def)

lemma canon_opt_port: "canon (opt_json port_json a) = canon (opt_json port_json b) \<Longrightarrow> a = b"
proof -
  have port: "canon (port_json p) = canon (port_json q) \<Longrightarrow> p = q" for p q
    by (cases p; cases q) simp_all
  have "canon (port_json p) \<noteq> JNull" for p
    by (cases p) simp_all
  note null = this this [symmetric]
  show "canon (opt_json port_json a) = canon (opt_json port_json b) \<Longrightarrow> a = b"
    by (cases a; cases b) (auto simp: opt_json_def null dest: port)
qed

lemma canon_strs: "canon (strs_json xs) = canon (strs_json ys) \<Longrightarrow> xs = ys"
  by (simp add: strs_json_def o_def inj_map_eq_map inj_def)

lemma canon_label_pair: "canon (label_pair_json p) = canon (label_pair_json q) \<Longrightarrow> p = q"
proof -
  assume eq: "canon (label_pair_json p) = canon (label_pair_json q)"
  have "lp_key p = lp_key q" "lp_value p = lp_value q"
    using canon_obj_dget [OF eq [unfolded label_pair_json_def], of "''key''"]
      canon_obj_dget [OF eq [unfolded label_pair_json_def], of "''value''"] by simp_all
  then show ?thesis by simp
qed

lemma canon_label_pairs:
  "canon (JArr (map label_pair_json ps)) = canon (JArr (map label_pair_json qs)) \<Longrightarrow> ps = qs"
proof (induction ps arbitrary: qs)
  case (Cons p ps)
  then show ?case
    by (cases qs) (auto dest: canon_label_pair)
qed simp

lemma kind_name_inject: "kind_name a = kind_name b \<Longrightarrow> a = b"
  by (cases a; cases b) simp_all

lemma risk_name_inject: "risk_name a = risk_name b \<Longrightarrow> a = b"
  by (cases a; cases b) simp_all

lemma canon_parameters:
  assumes "canon (parameters_json p) = canon (parameters_json q)"
  shows "p = q"
proof -
  note f = canon_obj_dget [OF assms [unfolded parameters_json_def]]
  have "pa_namespace p = pa_namespace q"
    using f [of "''namespace''"] by simp
  moreover have "pa_resource_kind p = pa_resource_kind q"
    by (rule kind_name_inject) (use f [of "''resource_kind''"] in simp)
  moreover have "pa_resource_name p = pa_resource_name q"
    using f [of "''resource_name''"] by simp
  moreover have "pa_container_name p = pa_container_name q"
    by (rule canon_opt_str) (use f [of "''container_name''"] in simp)
  moreover have "pa_current_probe_path p = pa_current_probe_path q"
    by (rule canon_opt_str) (use f [of "''current_probe_path''"] in simp)
  moreover have "pa_proposed_probe_path p = pa_proposed_probe_path q"
    by (rule canon_opt_str) (use f [of "''proposed_probe_path''"] in simp)
  moreover have "pa_current_probe_port p = pa_current_probe_port q"
    by (rule canon_opt_port) (use f [of "''current_probe_port''"] in simp)
  moreover have "pa_proposed_probe_port p = pa_proposed_probe_port q"
    by (rule canon_opt_port) (use f [of "''proposed_probe_port''"] in simp)
  moreover have "pa_current_selector p = pa_current_selector q"
    by (rule canon_label_pairs) (use f [of "''current_selector''"] in simp)
  moreover have "pa_proposed_selector p = pa_proposed_selector q"
    by (rule canon_label_pairs) (use f [of "''proposed_selector''"] in simp)
  moreover have "pa_investigation_steps p = pa_investigation_steps q"
    by (rule canon_strs) (use f [of "''investigation_steps''"] in simp)
  ultimately show ?thesis
    by simp
qed

lemma canon_plan_dump:
  assumes "canon (JObj (plan_dump p)) = canon (JObj (plan_dump q))"
  shows "p = q"
proof -
  note f = canon_obj_dget [OF assms [unfolded plan_dump_def]]
  have "pl_target_uid p = pl_target_uid q"
    by (rule canon_opt_str) (use f [of "''target_uid''"] in simp)
  moreover have "pl_action p = pl_action q"
    using f [of "''action''"] by simp
  moreover have "pl_parameters p = pl_parameters q"
    by (rule canon_parameters) (use f [of "''parameters''"] in simp)
  moreover have "pl_risk_level p = pl_risk_level q"
    by (rule risk_name_inject) (use f [of "''risk_level''"] in simp)
  moreover have "pl_summary p = pl_summary q" "pl_expected_result p = pl_expected_result q"
    "pl_rollback_plan p = pl_rollback_plan q"
    using f [of "''summary''"] f [of "''expected_result''"] f [of "''rollback_plan''"] by simp_all
  moreover have "pl_evidence_ids p = pl_evidence_ids q"
    by (rule canon_strs) (use f [of "''evidence_ids''"] in simp)
  moreover have "pl_runbook_ids p = pl_runbook_ids q"
    by (rule canon_strs) (use f [of "''runbook_ids''"] in simp)
  moreover have "pl_requires_approval p = pl_requires_approval q"
    using f [of "''requires_approval''"] by simp
  ultimately show ?thesis
    by simp
qed

lemma has_uid_payload: "has_uid p \<Longrightarrow> plan_payload p = JObj (plan_dump p)"
  by (auto simp: has_uid_def blank_def plan_payload_def)

section \<open>The binding of an approval\<close>

lemma fingerprint_keys:
  assumes "fingerprint_payload s pl = Inr payload" and "has_uid pl"
  shows "distinct (map fst payload)"
  using assms by (rule fingerprintD) (auto split: option.splits)

lemma fingerprint_members:
  assumes "fingerprint_payload s pl = Inr payload" and "has_uid pl"
  shows "map_of payload ''incident_id'' = Some (JStr (incident_of s))"
    and "map_of payload ''remediation_plan'' = Some (JObj (plan_dump pl))"
    and "map_of payload ''run_id'' = (if blank (st_run_id s) then None else Some (opt_str (st_run_id s)))"
    and "map_of payload ''service_profile'' = map_option snapshot_json (st_service_profile s)"
    and "map_of payload ''request'' = Some (request_json s)"
    and "map_of payload ''diagnosis'' = map_option diagnosis_json (st_diagnosis s)"
    and "map_of payload ''evidence'' = Some (evidence_list_json s)"
  using assms
  by - (erule (1) fingerprintD; auto simp: has_uid_payload split: option.splits)+

lemma bound_request:
  assumes "build_approval_request H s = Inr r" and "ar_approval_revision r \<noteq> None"
    and "fingerprint_payload s (ar_plan r) = Inr payload"
  shows "has_uid (ar_plan r)" and "ar_incident_id r = incident_of s"
    and "ar_approval_revision r = Some (digest H (JObj payload))"
proof -
  from assms(1) obtain pl q where f: "fingerprint_payload s pl = Inr q"
    and m: "make_request H (incident_of s) pl q = Inr r"
    by (rule build_requestD)
  note d = make_requestD [OF m]
  have "has_uid pl"
    using assms(2) d(5) by (simp split: if_splits)
  with d(1) show "has_uid (ar_plan r)" by simp
  show "ar_incident_id r = incident_of s" by (rule d(2))
  have "q = payload"
    using f assms(3) d(1) by simp
  with d(5) \<open>has_uid pl\<close> show "ar_approval_revision r = Some (digest H (JObj payload))"
    by simp
qed

text \<open>C2. Two approval requests with the same approval revision, whose texts the hash does not
  confuse, are requests for the same plan of the same incident and run, on the same request,
  registered profile snapshot, diagnosis and evidence (up to the order of dictionary members). So an approval cannot be
  carried over to another plan, nor kept after the evidence changed.\<close>

theorem approval_revision_binds:
  assumes r1: "build_approval_request H s1 = Inr r1" and r2: "build_approval_request H s2 = Inr r2"
    and same: "ar_approval_revision r1 = ar_approval_revision r2" "ar_approval_revision r1 \<noteq> None"
    and p1: "fingerprint_payload s1 (ar_plan r1) = Inr p1" and p2: "fingerprint_payload s2 (ar_plan r2) = Inr p2"
    and hash: "no_collision H (JObj p1) (JObj p2)"
  shows "ar_plan r1 = ar_plan r2 \<and> ar_incident_id r1 = ar_incident_id r2
      \<and> (blank (st_run_id s1) \<and> blank (st_run_id s2) \<or> st_run_id s1 = st_run_id s2)
      \<and> canon (request_json s1) = canon (request_json s2)
      \<and> map_option (canon \<circ> snapshot_json) (st_service_profile s1)
          = map_option (canon \<circ> snapshot_json) (st_service_profile s2)
      \<and> map_option (canon \<circ> diagnosis_json) (st_diagnosis s1) = map_option (canon \<circ> diagnosis_json) (st_diagnosis s2)
      \<and> canon (evidence_list_json s1) = canon (evidence_list_json s2)"
proof -
  have u1: "has_uid (ar_plan r1)" and i1: "ar_incident_id r1 = incident_of s1"
    and h1: "ar_approval_revision r1 = Some (digest H (JObj p1))"
    by (rule bound_request [OF r1 same(2) p1])+
  have some: "ar_approval_revision r2 \<noteq> None"
    using same by simp
  have u2: "has_uid (ar_plan r2)" and i2: "ar_incident_id r2 = incident_of s2"
    and h2: "ar_approval_revision r2 = Some (digest H (JObj p2))"
    by (rule bound_request [OF r2 some p2])+
  have eq: "canon (JObj p1) = canon (JObj p2)"
    using digest_eqD [OF hash] h1 h2 same(1) by simp
  note m1 = fingerprint_members [OF p1 u1] and m2 = fingerprint_members [OF p2 u2]
  note mem = canon_obj_members [OF eq fingerprint_keys [OF p1 u1] fingerprint_keys [OF p2 u2]]
  have "ar_plan r1 = ar_plan r2"
    using mem [of "''remediation_plan''"] m1(2) m2(2) by (intro canon_plan_dump) (simp only: option.map option.inject)
  moreover have "incident_of s1 = incident_of s2"
    using mem [of "''incident_id''"] m1(1) m2(1) by simp
  moreover have "blank (st_run_id s1) \<and> blank (st_run_id s2) \<or> st_run_id s1 = st_run_id s2"
    using mem [of "''run_id''"] m1(3) m2(3) by (auto simp: opt_str_def dest: canon_opt_str split: if_splits)
  moreover have "canon (request_json s1) = canon (request_json s2)"
    using mem [of "''request''"] m1(5) m2(5) by (simp only: option.map option.inject)
  moreover have "map_option (canon \<circ> snapshot_json) (st_service_profile s1)
          = map_option (canon \<circ> snapshot_json) (st_service_profile s2)"
    using mem [of "''service_profile''"] m1(4) m2(4) by (simp only: option.map_comp)
  moreover have "map_option (canon \<circ> diagnosis_json) (st_diagnosis s1)
          = map_option (canon \<circ> diagnosis_json) (st_diagnosis s2)"
    using mem [of "''diagnosis''"] m1(6) m2(6) by (simp only: option.map_comp)
  moreover have "canon (evidence_list_json s1) = canon (evidence_list_json s2)"
    using mem [of "''evidence''"] m1(7) m2(7) by (simp only: option.map option.inject)
  ultimately show ?thesis
    by (simp only: i1 i2 simp_thms)
qed

text \<open>The approved incident: the prepared plan, its request and the record of the decision.\<close>

definition demo_approval :: approval_request where
  "demo_approval = \<lparr>ar_approval_id = ''apr-aaaaaaaaaaaaaaaa'', ar_incident_id = ''inc-1'',
     ar_plan = bound_selector_plan, ar_plan_revision = Some (replicate 64 CHR ''a''),
     ar_approval_revision = Some (replicate 64 CHR ''a'')\<rparr>"

definition demo_decision :: approval_decision where
  "demo_decision = \<lparr>ad_approval_id = ''apr-aaaaaaaaaaaaaaaa'', ad_approved = True,
     ad_approver = '' alice '', ad_comment = ''checked''\<rparr>"

definition demo_record :: approval_record where
  "demo_record = \<lparr>rc_approval_id = ''apr-aaaaaaaaaaaaaaaa'', rc_incident_id = ''inc-1'',
     rc_action = PatchServiceSelector, rc_approved = True, rc_approver = ''alice'', rc_comment = ''checked'',
     rc_decided_at = ''t1'', rc_plan_revision = Some (replicate 64 CHR ''a''),
     rc_approval_revision = Some (replicate 64 CHR ''a'')\<rparr>"

definition pending_state :: incident_state where
  "pending_state = diagnosed_state\<lparr>st_phase := Some ''awaiting_approval'',
     st_remediation_plan := Some bound_selector_plan, st_requires_approval := Some True\<rparr>"

definition approved_state :: incident_state where
  "approved_state = pending_state\<lparr>st_phase := Some ''approval_approved'', st_approved := Some True,
     st_approval_status := Some ''approved'', st_approval_request := Some demo_approval,
     st_approval_record := Some demo_record\<rparr>"

definition demo_text_hash :: "string \<Rightarrow> string" where
  "demo_text_hash t = replicate 64 CHR ''b''"

lemma pending_request: "build_approval_request demo_hash pending_state = Inr demo_approval"
  by code_simp

lemma approved_request: "build_approval_request demo_hash approved_state = Inr demo_approval"
  by code_simp

lemma approval_revision_binds_witness:
  "canon (evidence_list_json pending_state) = canon (evidence_list_json approved_state)"
proof -
  have same: "fingerprint_payload pending_state bound_selector_plan = fingerprint_payload approved_state bound_selector_plan"
    by code_simp
  have "isOK (fingerprint_payload approved_state bound_selector_plan)"
    by code_simp
  then obtain p where p: "fingerprint_payload approved_state (ar_plan demo_approval) = Inr p"
    by (auto simp: isOK_iff demo_approval_def)
  then have q: "fingerprint_payload pending_state (ar_plan demo_approval) = Inr p"
    using same by (simp add: demo_approval_def)
  have "ar_approval_revision demo_approval \<noteq> None"
    by (simp add: demo_approval_def)
  moreover have "no_collision demo_hash (JObj p) (JObj p)"
    by (simp add: no_collision_def)
  ultimately show ?thesis
    using approval_revision_binds [OF pending_request approved_request refl _ q p] by simp
qed

section \<open>Decisions\<close>

text \<open>An accepted decision names the pending approval and its approver is a stripped, non-blank
  name. The record made from it belongs to the same approval and incident, records the action of
  the approved plan and the request's revisions, and approves exactly when the human did.\<close>

theorem recorded_decision_faithful:
  assumes v: "validate_approval_decision v r = Inr d" and c: "create_approval_record now r d = Inr rec"
  shows "ad_approval_id v = ar_approval_id r \<and> rc_approval_id rec = ad_approval_id v
      \<and> rc_incident_id rec = ar_incident_id r \<and> rc_action rec = pl_action (ar_plan r)
      \<and> rc_approved rec = ad_approved v
      \<and> rc_approver rec = strip (ad_approver v) \<and> rc_approver rec \<noteq> []
      \<and> rc_plan_revision rec = ar_plan_revision r \<and> rc_approval_revision rec = ar_approval_revision r
      \<and> approval_record_schema rec"
proof -
  from v have d: "approval_decision_validate v = Inr d" and i: "ad_approval_id d = ar_approval_id r"
    by (auto simp: validate_approval_decision_def split: sum.splits if_splits)
  from d have "ad_approver d = strip (ad_approver v)"
    by (auto simp: approval_decision_validate_def split: if_splits)
  with approval_decision_validated [OF d] i c show ?thesis
    by (auto simp: create_approval_record_def Let_def split: if_splits)
qed

lemma recorded_decision_faithful_witness:
  "rc_approved demo_record \<and> rc_approver demo_record = strip (ad_approver demo_decision)"
proof -
  have "validate_approval_decision demo_decision demo_approval = Inr (demo_decision\<lparr>ad_approver := ''alice''\<rparr>)"
    by code_simp
  moreover have "create_approval_record ''t1'' demo_approval (demo_decision\<lparr>ad_approver := ''alice''\<rparr>) = Inr demo_record"
    by code_simp
  ultimately show ?thesis
    using recorded_decision_faithful by (simp add: demo_decision_def)
qed

section \<open>Authorised execution\<close>

lemma authorizationD:
  assumes "validate_execution_authorization H T s = Inr au"
  obtains pl r rec eid prev executed where "validate_approved_state s = Inr ()" and "load_plan s = Inr pl"
    and "load_approval_request s = Inr r" and "load_approval_record s = Inr rec"
    and "validate_action_is_executable pl = Inr ()" and "validate_approval_binding H s pl r rec = Inr ()"
    and "revalidate_plan H s pl = Inr ()" and "build_execution_id T (ar_approval_id r) = Inr eid"
    and "load_previous_result s = Inr prev"
    and "(case prev of None \<Rightarrow> Inr False | Some x \<Rightarrow> validate_previous_result x eid r pl) = Inr executed"
    and "\<lparr>au_execution_id = eid, au_approval_id = ar_approval_id r, au_incident_id = ar_incident_id r,
            au_plan = pl, au_approval_request = r, au_approval_record = rec,
            au_previous_result = prev, au_already_executed = executed\<rparr> = au"
  using assms unfolding validate_execution_authorization_def bindE_eq_Inr
  by (elim exE conjE) (rule that; simp)

text \<open>C1. An authorised execution runs the stored plan, which is the plan of the stored request, and
  that request is exactly what the current state yields when it is rebuilt; a human record of the same
  approval, incident, action and revisions approves it; the plan's action is a write and the plan validates
  now. An earlier result counts as executed only when it completed for this approval, execution and target.\<close>

theorem authorized_execution_sound:
  assumes ok: "validate_execution_authorization H T s = Inr au"
  shows "st_phase s = Some ''approval_approved'' \<and> st_approved s = Some True
      \<and> st_remediation_plan s = Some (au_plan au) \<and> ar_plan (au_approval_request au) = au_plan au
      \<and> build_approval_request H s = Inr (au_approval_request au)
      \<and> st_approval_record s = Some (au_approval_record au) \<and> rc_approved (au_approval_record au)
      \<and> rc_approval_id (au_approval_record au) = au_approval_id au
      \<and> rc_action (au_approval_record au) = pl_action (au_plan au)
      \<and> rc_approval_revision (au_approval_record au) = ar_approval_revision (au_approval_request au)
      \<and> pl_action (au_plan au) \<in> {PatchReadinessProbe, PatchServiceSelector}
      \<and> (\<exists>pl'. validate_remediation_plan H (au_plan au) s = Inr pl')
      \<and> au_already_executed au = (st_action_result s \<noteq> None)
      \<and> (\<forall>x. st_action_result s = Some x \<longrightarrow> x_execution_id x = au_execution_id au
            \<and> x_approval_id x = au_approval_id au \<and> x_action x = pl_action (au_plan au)
            \<and> x_resource_name x = pa_resource_name (pl_parameters (au_plan au))
            \<and> x_status x \<in> {Succeeded, AlreadyApplied})"
  using ok
proof (rule authorizationD)
  fix pl r rec eid prev executed
  assume st: "validate_approved_state s = Inr ()" and pl: "load_plan s = Inr pl"
    and rec: "load_approval_record s = Inr rec"
    and act: "validate_action_is_executable pl = Inr ()" and b: "validate_approval_binding H s pl r rec = Inr ()"
    and rv: "revalidate_plan H s pl = Inr ()" and prev: "load_previous_result s = Inr prev"
    and ex: "(case prev of None \<Rightarrow> Inr False | Some x \<Rightarrow> validate_previous_result x eid r pl) = Inr executed"
    and au: "\<lparr>au_execution_id = eid, au_approval_id = ar_approval_id r, au_incident_id = ar_incident_id r,
            au_plan = pl, au_approval_request = r, au_approval_record = rec,
            au_previous_result = prev, au_already_executed = executed\<rparr> = au"
  have prev': "prev = st_action_result s"
    using prev by (auto simp: load_previous_result_def split: option.splits if_splits)
  have "executed = (st_action_result s \<noteq> None)"
    using ex previous_resultD(1) by (auto simp: prev' split: option.splits)
  moreover have "x_execution_id x = eid \<and> x_approval_id x = ar_approval_id r \<and> x_action x = pl_action pl
            \<and> x_resource_name x = pa_resource_name (pl_parameters pl)
            \<and> x_status x \<in> {Succeeded, AlreadyApplied}" if "st_action_result s = Some x" for x
    using ex that previous_resultD [of x eid r pl executed] by (simp add: prev')
  moreover have "st_phase s = Some ''approval_approved''" "st_approved s = Some True"
    using st by (auto simp: validate_approved_state_def split: if_splits)
  moreover have "pl_action pl \<in> {PatchReadinessProbe, PatchServiceSelector}"
    using act by (simp add: validate_action_is_executable_def require_eq_Inr executable_actions_set)
  ultimately show ?thesis
    using pl rec revalidate_planD [OF rv] approval_bindingD [OF b]
    by (simp add: au [symmetric] load_plan_def load_approval_record_def load_storedD)
qed

text \<open>The authorization of the approved demo plan, on which the witnesses of both executors are evaluated.\<close>

definition demo_authorization :: authorization where
  "demo_authorization = \<lparr>au_execution_id = ''exec-bbbbbbbbbbbbbbbb'', au_approval_id = ''apr-aaaaaaaaaaaaaaaa'',
     au_incident_id = ''inc-1'', au_plan = bound_selector_plan, au_approval_request = demo_approval,
     au_approval_record = demo_record, au_previous_result = None, au_already_executed = False\<rparr>"

lemma demo_authorized:
  "validate_execution_authorization demo_hash demo_text_hash approved_state = Inr demo_authorization"
  by code_simp

lemma approved_authorization: "isOK (validate_execution_authorization demo_hash demo_text_hash approved_state)"
  by (simp add: demo_authorized isOK_def)

lemma authorized_execution_sound_witness:
  "\<exists>au. validate_execution_authorization demo_hash demo_text_hash approved_state = Inr au
      \<and> \<not> au_already_executed au \<and> au_plan au = bound_selector_plan"
proof -
  from approved_authorization obtain au
    where au: "validate_execution_authorization demo_hash demo_text_hash approved_state = Inr au"
    by (auto simp: isOK_iff)
  have "st_action_result approved_state = None" "st_remediation_plan approved_state = Some bound_selector_plan"
    by (simp_all add: approved_state_def pending_state_def diagnosed_state_def
        drifted_state_def demo_state_def empty_state_def)
  with authorized_execution_sound [OF au] au show ?thesis
    by (intro exI [of _ au]) (elim conjE, simp)
qed

end
