(* ===== verification/Effects.thy ===== *)
theory Effects
  imports Prelude
begin

text \<open>
  Code that talks to its surroundings: a computation takes the world, which the other parties may
  change in every call, to a result or an exception and the world after it. Contracts of such
  computations have one postcondition for the return and one for the exception.
\<close>

type_synonym ('w, 'a) io = "'w \<Rightarrow> 'a res \<times> 'w"

definition returnW :: "'a \<Rightarrow> ('w, 'a) io" where
  "returnW x w = (Inr x, w)"

definition raiseW :: "exn \<Rightarrow> ('w, 'a) io" where
  "raiseW e w = (Inl e, w)"

definition liftW :: "'a res \<Rightarrow> ('w, 'a) io" where
  "liftW r w = (r, w)"

definition bindW :: "('w, 'a) io \<Rightarrow> ('a \<Rightarrow> ('w, 'b) io) \<Rightarrow> ('w, 'b) io" where
  "bindW m f w = (case m w of (Inl e, w') \<Rightarrow> (Inl e, w') | (Inr x, w') \<Rightarrow> f x w')"

text \<open>\<open>try: ... except Exception\<close>: the exception becomes a value.\<close>

definition tryW :: "('w, 'a) io \<Rightarrow> ('w, 'a res) io" where
  "tryW m w = (case m w of (r, w') \<Rightarrow> (Inr r, w'))"

section \<open>Inversion\<close>

named_theorems io_simps "inverting the steps of a computation"

lemma bindW_eq [io_simps]:
  "bindW m f w = (r, w') \<longleftrightarrow> (\<exists>e. m w = (Inl e, w') \<and> r = Inl e)
     \<or> (\<exists>x w1. m w = (Inr x, w1) \<and> f x w1 = (r, w'))"
  by (auto simp: bindW_def split: prod.splits sum.splits)

lemma returnW_eq [io_simps]: "returnW x w = (r, w') \<longleftrightarrow> r = Inr x \<and> w' = w"
  by (auto simp: returnW_def)

lemma raiseW_eq [io_simps]: "raiseW e w = (r, w') \<longleftrightarrow> r = Inl e \<and> w' = w"
  by (auto simp: raiseW_def)

lemma liftW_eq [io_simps]: "liftW x w = (r, w') \<longleftrightarrow> x = r \<and> w' = w"
  by (auto simp: liftW_def)

lemma tryW_eq [io_simps]: "tryW m w = (r, w') \<longleftrightarrow> (\<exists>x. m w = (x, w') \<and> r = Inr x)"
  by (auto simp: tryW_def split: prod.splits)

lemma bindW_lift [simp]:
  "bindW (liftW (Inl e)) f = raiseW e" "bindW (liftW (Inr x)) f = f x"
  by (simp_all add: bindW_def liftW_def raiseW_def fun_eq_iff)

section \<open>Contracts\<close>

definition triple :: "('w \<Rightarrow> bool) \<Rightarrow> ('w, 'a) io \<Rightarrow> ('a \<Rightarrow> 'w \<Rightarrow> bool) \<Rightarrow> (exn \<Rightarrow> 'w \<Rightarrow> bool) \<Rightarrow> bool" where
  "triple P m Q E = (\<forall>w. P w \<longrightarrow> (case m w of (Inr x, w') \<Rightarrow> Q x w' | (Inl e, w') \<Rightarrow> E e w'))"

named_theorems contracts "contracts of the calls"

lemma tripleI:
  assumes "\<And>w x w'. P w \<Longrightarrow> m w = (Inr x, w') \<Longrightarrow> Q x w'"
    and "\<And>w e w'. P w \<Longrightarrow> m w = (Inl e, w') \<Longrightarrow> E e w'"
  shows "triple P m Q E"
  using assms by (auto simp: triple_def split: prod.splits sum.splits)

lemma tripleD:
  assumes "triple P m Q E" and "P w"
  shows "m w = (Inr x, w') \<Longrightarrow> Q x w'" and "m w = (Inl e, w') \<Longrightarrow> E e w'"
  using assms by (auto simp: triple_def split: prod.splits sum.splits)

lemma triple_weaken:
  assumes "triple P' m Q' E'" and "\<And>w. P w \<Longrightarrow> P' w"
    and "\<And>x w. Q' x w \<Longrightarrow> Q x w" and "\<And>e w. E' e w \<Longrightarrow> E e w"
  shows "triple P m Q E"
  using assms by (fastforce simp: triple_def split: prod.splits sum.splits)

lemma triple_post:
  "triple P m Q' E \<Longrightarrow> (\<And>x w. Q' x w \<Longrightarrow> Q x w) \<Longrightarrow> triple P m Q E"
  by (rule triple_weaken)

lemma triple_pre:
  "triple P' m Q E \<Longrightarrow> (\<And>w. P w \<Longrightarrow> P' w) \<Longrightarrow> triple P m Q E"
  by (rule triple_weaken)

lemma triple_bind:
  assumes "triple P m Q E" and "\<And>x. triple (Q x) (f x) R E"
  shows "triple P (bindW m f) R E"
  using assms by (fastforce simp: triple_def bindW_def split: prod.splits sum.splits)

lemma triple_return: "(\<And>w. P w \<Longrightarrow> Q x w) \<Longrightarrow> triple P (returnW x) Q E"
  by (simp add: triple_def returnW_def)

lemma triple_raise: "(\<And>w. P w \<Longrightarrow> E e w) \<Longrightarrow> triple P (raiseW e) Q E"
  by (simp add: triple_def raiseW_def)

lemma triple_lift:
  assumes "\<And>w x. P w \<Longrightarrow> r = Inr x \<Longrightarrow> Q x w" and "\<And>w e. P w \<Longrightarrow> r = Inl e \<Longrightarrow> E e w"
  shows "triple P (liftW r) Q E"
  using assms by (auto simp: triple_def liftW_def split: sum.splits)

lemma triple_try:
  assumes "triple P m (\<lambda>x. Q (Inr x)) (\<lambda>e. Q (Inl e))"
  shows "triple P (tryW m) Q E"
  unfolding triple_def
proof (intro allI impI)
  fix w assume "P w"
  with assms show "case tryW m w of (Inr x, w') \<Rightarrow> Q x w' | (Inl e, w') \<Rightarrow> E e w'"
    by (cases "m w"; cases "fst (m w)") (auto simp: triple_def tryW_def split: prod.splits sum.splits)
qed

lemma triple_if:
  "(b \<Longrightarrow> triple P m Q E) \<Longrightarrow> (\<not> b \<Longrightarrow> triple P m' Q E) \<Longrightarrow> triple P (if b then m else m') Q E"
  by simp

lemma triple_sum:
  assumes "\<And>e. r = Inl e \<Longrightarrow> triple P (f e) Q E" and "\<And>x. r = Inr x \<Longrightarrow> triple P (g x) Q E"
  shows "triple P (case r of Inl e \<Rightarrow> f e | Inr x \<Rightarrow> g x) Q E"
  using assms by (simp split: sum.splits)

lemma triple_option:
  assumes "r = None \<Longrightarrow> triple P f Q E" and "\<And>x. r = Some x \<Longrightarrow> triple P (g x) Q E"
  shows "triple P (case r of None \<Rightarrow> f | Some x \<Rightarrow> g x) Q E"
  using assms by (simp split: option.splits)

text \<open>A fact that does not speak of the world moves into the context.\<close>

lemma triple_fact: "(A \<Longrightarrow> triple P m Q E) \<Longrightarrow> triple (\<lambda>w. A \<and> P w) m Q E"
  by (auto simp: triple_def)

section \<open>Logging\<close>

text \<open>The calls a computation makes, in order: a world extended with the list of them.\<close>

definition noting :: "'c \<Rightarrow> ('w, 'a) io \<Rightarrow> ('w \<times> 'c list, 'a) io" where
  "noting c m = (\<lambda>(w, tr). case m w of (r, w') \<Rightarrow> (r, (w', tr @ [c])))"

lemma noting_eq [io_simps]: "noting c m w = (r, w') \<longleftrightarrow> (\<exists>v. m (fst w) = (r, v) \<and> w' = (v, snd w @ [c]))"
  by (auto simp: noting_def split: prod.splits)

lemma triple_noting:
  "triple (\<lambda>w. w = (u, tr)) (noting c m)
     (\<lambda>x w. \<exists>u'. m u = (Inr x, u') \<and> w = (u', tr @ [c])) (\<lambda>e w. \<exists>u'. m u = (Inl e, u') \<and> w = (u', tr @ [c]))"
  by (auto simp: triple_def noting_def split: prod.splits sum.splits)

end
