(* ===== verification/LogText.thy ===== *)
theory LogText
  imports Effects "HOL-Library.Sublist"
begin

text \<open>
  \<open>backend/app/tools/log_text.py\<close>: the text of a container log, from the response of the API server to
  the most recent part that is kept. A byte is one of the 256 values of \<open>char\<close>.
\<close>

type_synonym bytes = "char list"

definition log_lines :: nat where
  "log_lines = 1000"

definition log_bytes :: nat where
  "log_bytes = 256 * 1024"

section \<open>Lines\<close>

text \<open>The characters at which \<open>str.splitlines\<close> ends a line; a line feed after a carriage return belongs to it.\<close>

definition ends_line :: "char \<Rightarrow> bool" where
  "ends_line c = (let n = of_char c :: int in (10 \<le> n \<and> n \<le> 13) \<or> (28 \<le> n \<and> n \<le> 30) \<or> n = 133)"

fun lines_from :: "string \<Rightarrow> string \<Rightarrow> string list" where
  "lines_from line [] = (if line = [] then [] else [line])"
| "lines_from line (c # cs) =
     (if c = CHR 0x0D \<and> cs \<noteq> [] \<and> hd cs = CHR 0x0A then (line @ [c, CHR 0x0A]) # lines_from [] (tl cs)
      else if ends_line c then (line @ [c]) # lines_from [] cs
      else lines_from (line @ [c]) cs)"

text \<open>\<open>content.splitlines(keepends=True)\<close>\<close>

definition splitlines :: "string \<Rightarrow> string list" where
  "splitlines s = lines_from [] s"

text \<open>\<open>xs[-n:]\<close> for a positive \<open>n\<close>\<close>

definition last_items :: "nat \<Rightarrow> 'a list \<Rightarrow> 'a list" where
  "last_items n xs = drop (length xs - n) xs"

section \<open>UTF-8\<close>

definition utf8_char :: "char \<Rightarrow> bytes" where
  "utf8_char c = (let n = of_char c :: nat in
     if n < 128 then [c] else [char_of (192 + n div 64), char_of (128 + n mod 64)])"

definition utf8 :: "string \<Rightarrow> bytes" where
  "utf8 s = concat (map utf8_char s)"

text \<open>
  The encodings of the code points from 128 to 255 start with one of two bytes. Longer encodings
  stand for code points outside the modelled strings.
\<close>

definition two_bytes :: "char \<Rightarrow> char \<Rightarrow> char option" where
  "two_bytes b d = (let m = of_char b :: nat; n = of_char d :: nat in
     if (m = 194 \<or> m = 195) \<and> 128 \<le> n \<and> n < 192 then Some (char_of ((m - 192) * 64 + (n - 128))) else None)"

fun utf8_decode :: "bytes \<Rightarrow> string res" where
  "utf8_decode [] = Inr []"
| "utf8_decode (b # bs) =
     (if (of_char b :: nat) < 128 then bindE (utf8_decode bs) (\<lambda>s. Inr (b # s))
      else case bs of [] \<Rightarrow> Inl (PyValueError ''UnicodeDecodeError'')
        | d # ds \<Rightarrow> (case two_bytes b d of None \<Rightarrow> Inl (PyValueError ''UnicodeDecodeError'')
            | Some c \<Rightarrow> bindE (utf8_decode ds) (\<lambda>s. Inr (c # s))))"

text \<open>\<open>errors="ignore"\<close>: a byte that starts no encoding is left out.\<close>

fun utf8_decode_ignore :: "bytes \<Rightarrow> string" where
  "utf8_decode_ignore [] = []"
| "utf8_decode_ignore (b # bs) =
     (if (of_char b :: nat) < 128 then b # utf8_decode_ignore bs
      else case bs of [] \<Rightarrow> []
        | d # ds \<Rightarrow> (case two_bytes b d of None \<Rightarrow> utf8_decode_ignore (d # ds)
            | Some c \<Rightarrow> c # utf8_decode_ignore ds))"

section \<open>The sample\<close>

definition sample_log_text :: "string \<Rightarrow> string \<times> bool" where
  "sample_log_text content =
     (let lines = splitlines content; sampled = concat (last_items log_lines lines); encoded = utf8 sampled
      in (if length encoded > log_bytes then utf8_decode_ignore (last_items log_bytes encoded) else sampled,
          length lines \<ge> log_lines \<or> length encoded \<ge> log_bytes))"

datatype log_body = TextBody string | BytesBody bytes | OtherBody

definition decode_log_content :: "log_body \<Rightarrow> string res" where
  "decode_log_content v = (case v of BytesBody b \<Rightarrow> utf8_decode b | TextBody s \<Rightarrow> Inr s | OtherBody \<Rightarrow> Inl TypeError)"

text \<open>An HTTP response that is still to be read, with its \<open>read\<close>, \<open>close\<close> and \<open>release_conn\<close>\<close>

record 'w log_stream =
  ls_read :: "('w, log_body) io"
  ls_close :: "('w, unit) io"
  ls_release :: "('w, unit) io"

datatype 'w log_response = LogBody log_body | LogStream "'w log_stream"

text \<open>\<open>try: m finally: c\<close>: an exception of \<open>c\<close> replaces what \<open>m\<close> returned or raised.\<close>

definition finallyW :: "('w, 'a) io \<Rightarrow> ('w, unit) io \<Rightarrow> ('w, 'a) io" where
  "finallyW m c w = (case m w of (r, w1) \<Rightarrow> (case c w1 of (Inl e, w2) \<Rightarrow> (Inl e, w2) | (Inr _, w2) \<Rightarrow> (r, w2)))"

definition read_log_response :: "'w log_response \<Rightarrow> ('w, string) io" where
  "read_log_response v = (case v of
       LogBody b \<Rightarrow> liftW (decode_log_content b)
     | LogStream s \<Rightarrow> finallyW (bindW (ls_read s) (\<lambda>b. liftW (decode_log_content b)))
                       (finallyW (ls_close s) (ls_release s)))"

section \<open>Laws of the lines\<close>

lemma concat_lines [simp]: "concat (lines_from line s) = line @ s"
proof (induction line s rule: lines_from.induct)
  case (2 line c cs)
  then show ?case by (cases cs) auto
qed simp

lemma concat_splitlines: "concat (splitlines s) = s"
  by (simp add: splitlines_def)

lemma lines_tail: "lines_from line s = l # ls \<Longrightarrow> splitlines (concat ls) = ls"
proof (induction line s arbitrary: l ls rule: lines_from.induct)
  case (2 line c cs)
  then show ?case by (auto simp: splitlines_def split: if_splits)
qed (auto simp: splitlines_def split: if_splits)

lemma lines_drop: "splitlines (concat (drop n (splitlines s))) = drop n (splitlines s)"
proof (induction n)
  case (Suc n)
  show ?case
  proof (cases "drop n (splitlines s)")
    case (Cons l ls)
    with Suc have "splitlines (concat ls) = ls"
      by (intro lines_tail [of "[]" "concat (l # ls)" l]) (simp add: splitlines_def)
    moreover from Cons have "drop (Suc n) (splitlines s) = ls"
      by (metis drop_Suc tl_drop list.sel(3))
    ultimately show ?thesis by simp
  qed (simp add: splitlines_def drop_Suc tl_drop)
qed (simp add: concat_splitlines)

lemma ends_line_feeds [simp]: "ends_line CHR 0x0A" "ends_line CHR 0x0D"
  by (simp_all add: ends_line_def)

lemma lines_count: "line \<noteq> [] \<Longrightarrow> line' \<noteq> [] \<Longrightarrow> length (lines_from line s) = length (lines_from line' s)"
proof (induction line s arbitrary: line' rule: lines_from.induct)
  case (2 line c cs)
  have "length (lines_from (line @ [c]) cs) = length (lines_from (line' @ [c]) cs)"
    if "\<not> (c = CHR 0x0D \<and> cs \<noteq> [] \<and> hd cs = CHR 0x0A)" "\<not> ends_line c"
    by (rule 2(3)) (use that in simp_all)
  then show ?case by simp
qed simp

lemma lines_from_more: "length (lines_from [] s) \<le> length (lines_from line s)"
proof (cases s)
  case (Cons c cs)
  have "length (lines_from [c] cs) = length (lines_from (line @ [c]) cs)"
    by (rule lines_count) simp_all
  with Cons show ?thesis by simp
qed simp

lemma lines_Cons: "length (splitlines s) \<le> length (splitlines (c # s))"
proof (cases s)
  case (Cons d ds)
  have "length (lines_from [c, d] ds) = length (lines_from [d] ds)"
    by (rule lines_count) simp_all
  moreover have "length (lines_from [] ds) \<le> length (lines_from [c, d] ds)"
    by (rule lines_from_more)
  ultimately show ?thesis using Cons by (simp add: splitlines_def)
qed (simp add: splitlines_def)

lemma lines_suffix: "suffix t s \<Longrightarrow> length (splitlines t) \<le> length (splitlines s)"
proof (induction s)
  case (Cons c s)
  then show ?case using lines_Cons [of s c] by (auto simp: suffix_Cons)
qed (simp add: splitlines_def)

section \<open>Laws of the encoding\<close>

lemma utf8_simps [simp]: "utf8 [] = []" "utf8 (c # s) = utf8_char c @ utf8 s" "utf8 (s @ t) = utf8 s @ utf8 t"
  by (simp_all add: utf8_def)

lemma char_value: "(of_char c :: nat) < 256"
  using of_char_of [of "of_char c :: nat"] by (metis nat_of_char_less_256)

lemma utf8_char_cases:
  obtains "(of_char c :: nat) < 128" "utf8_char c = [c]"
  | b d where "utf8_char c = [b, d]" "two_bytes b d = Some c" "(of_char b :: nat) \<ge> 192"
      "128 \<le> (of_char d :: nat)" "(of_char d :: nat) < 192"
proof (cases "(of_char c :: nat) < 128")
  case False
  define b where "b = (char_of (192 + (of_char c :: nat) div 64) :: char)"
  define d where "d = (char_of (128 + (of_char c :: nat) mod 64) :: char)"
  have c: "(of_char c :: nat) < 256" by (rule char_value)
  then have "(of_char c :: nat) div 64 < 4" by (intro less_mult_imp_div_less) simp
  moreover have "2 \<le> (of_char c :: nat) div 64" using False by simp
  ultimately have q: "(of_char c :: nat) div 64 = 2 \<or> (of_char c :: nat) div 64 = 3" by linarith
  have m: "(of_char c :: nat) mod 64 < 64" by simp
  have b: "(of_char b :: nat) = 192 + of_char c div 64"
    unfolding b_def of_char_of using q by auto
  have d: "(of_char d :: nat) = 128 + of_char c mod 64"
    unfolding d_def of_char_of using m by simp
  have "((192 + (of_char c :: nat) div 64) - 192) * 64 + ((128 + of_char c mod 64) - 128) = of_char c"
    using div_mult_mod_eq [of "of_char c :: nat" 64] by simp
  then have "two_bytes b d = Some c"
    unfolding two_bytes_def Let_def b d using q m by auto
  moreover have "utf8_char c = [b, d]"
    using False by (simp add: utf8_char_def Let_def b_def d_def)
  ultimately show ?thesis using that(2) b d m by simp
qed (use that(1) in \<open>simp add: utf8_char_def Let_def\<close>)

lemma decode_ignore_utf8: "utf8_decode_ignore (utf8 s @ bs) = s @ utf8_decode_ignore bs"
proof (induction s)
  case (Cons c s)
  show ?case by (cases c rule: utf8_char_cases) (use Cons in simp_all)
qed simp

lemma decode_utf8: "utf8_decode (utf8 s) = Inr s"
proof (induction s)
  case (Cons c s)
  show ?case by (cases c rule: utf8_char_cases) (use Cons in simp_all)
qed simp

text \<open>The bytes cut out of an encoding may start in the middle of a character, which is then left out.\<close>

definition longest_within :: "nat \<Rightarrow> string \<Rightarrow> string \<Rightarrow> bool" where
  "longest_within n s t = (suffix t s \<and> length (utf8 t) \<le> n \<and> (\<forall>u. suffix u s \<longrightarrow> length (utf8 u) \<le> n \<longrightarrow> suffix u t))"

lemma utf8_suffix: "suffix t s \<Longrightarrow> length (utf8 t) \<le> length (utf8 s)"
  by (auto simp: suffix_def)

lemma longest_whole: "length (utf8 s) \<le> n \<Longrightarrow> longest_within n s s"
  by (simp add: longest_within_def)

lemma longest_Cons: "n < length (utf8 (c # s)) \<Longrightarrow> longest_within n s t \<Longrightarrow> longest_within n (c # s) t"
  unfolding longest_within_def by (metis suffix_ConsI suffix_Cons linorder_not_le)

lemma cut_bytes: "k \<le> length (utf8 s) \<Longrightarrow> longest_within (length (utf8 s) - k) s (utf8_decode_ignore (drop k (utf8 s)))"
proof (induction s arbitrary: k)
  case (Cons c s)
  show ?case
  proof (cases "k = 0")
    case True
    then show ?thesis using decode_ignore_utf8 [of "c # s" "[]"] longest_whole by simp
  next
    case positive: False
    show ?thesis
    proof (cases "k < length (utf8_char c)")
      case False
      then have "longest_within (length (utf8 s) - (k - length (utf8_char c))) s
          (utf8_decode_ignore (drop (k - length (utf8_char c)) (utf8 s)))"
        using Cons by (intro Cons.IH) simp
      with False positive Cons.prems show ?thesis
        by (intro longest_Cons) (auto simp: utf8_char_def Let_def)
    next
      case True
      then show ?thesis
      proof (cases c rule: utf8_char_cases)
        case (2 b d)
        with True positive have k: "k = 1" by simp
        have "\<And>e. two_bytes d e = None"
          using 2 by (auto simp: two_bytes_def Let_def)
        then have "utf8_decode_ignore (d # utf8 s) = utf8_decode_ignore (utf8 s)"
          using 2 by (cases "utf8 s") auto
        moreover have "utf8_decode_ignore (utf8 s) = s"
          using decode_ignore_utf8 [of s "[]"] by simp
        moreover have "longest_within (Suc (length (utf8 s))) (c # s) s"
          using 2 by (intro longest_Cons) (simp_all add: longest_within_def utf8_suffix le_SucI)
        ultimately show ?thesis using 2 k by simp
      qed (use positive in simp)
    qed
  qed
qed (simp add: longest_whole)

section \<open>What a sample keeps\<close>

text \<open>C40.
  The sample of a log is its end: of the last \<open>LOG_LINES\<close> lines of the text it is the longest end whose
  encoding takes at most \<open>LOG_BYTES\<close> bytes. It has at most \<open>LOG_LINES\<close> lines, and unless it is marked as
  limited it is the whole text. No character is cut in two: a text that was encoded decodes to itself.
\<close>

theorem log_sample_bounded:
  "longest_within log_bytes (concat (last_items log_lines (splitlines s))) (fst (sample_log_text s))
    \<and> suffix (fst (sample_log_text s)) s \<and> length (splitlines (fst (sample_log_text s))) \<le> log_lines
    \<and> (snd (sample_log_text s) \<or> fst (sample_log_text s) = s) \<and> decode_log_content (BytesBody (utf8 s)) = Inr s"
proof -
  define u where "u = concat (last_items log_lines (splitlines s))"
  have kept: "longest_within log_bytes u (fst (sample_log_text s))"
    using cut_bytes [of "length (utf8 u) - log_bytes" u] longest_whole [of u log_bytes]
    by (auto simp: sample_log_text_def Let_def last_items_def u_def not_less)
  have "suffix u s"
    unfolding u_def last_items_def suffix_def
    by (metis append_take_drop_id concat_append concat_splitlines)
  moreover have "length (splitlines u) \<le> log_lines"
    by (simp add: u_def last_items_def lines_drop)
  moreover have "snd (sample_log_text s) \<or> fst (sample_log_text s) = s"
    by (auto simp: sample_log_text_def Let_def last_items_def concat_splitlines)
  ultimately show ?thesis
    using kept lines_suffix [of "fst (sample_log_text s)" u] suffix_order.trans
    by (fastforce simp: u_def [symmetric] longest_within_def decode_log_content_def decode_utf8)
qed

end
