(* ===== verification/Cluster.thy ===== *)
theory Cluster
  imports Effects ProfileModels
begin

text \<open>
  The Kubernetes objects the write path reads (\<open>V1Service\<close>, \<open>V1Deployment\<close>: the attributes the
  code follows, each of which may be \<open>None\<close>), the snapshots taken of them by
  \<open>backend/app/tools/remediation_tools.py\<close>, and the client (\<open>backend/app/tools/client.py\<close>) as a record
  of calls that are parameters of the model.
\<close>

section \<open>Objects\<close>

record object_meta =
  om_uid :: "string option"
  om_resource_version :: "string option"
  om_generation :: "int option"

record service_object =
  so_metadata :: "object_meta option"
  so_spec :: "(string \<times> string) list option option"

record http_get_action =
  hg_path :: "string option"
  hg_port :: "port option"

record container =
  cn_name :: string
  cn_readiness_probe :: "http_get_action option option"

text \<open>\<open>spec\<close>, \<open>spec.template\<close>, \<open>spec.template.spec\<close> and \<open>spec.template.spec.containers\<close>.\<close>

record deployment_object =
  do_metadata :: "object_meta option"
  do_spec :: "container list option option option option"

section \<open>The client\<close>

text \<open>The three bodies the code sends: merge, strategic merge and JSON patch.\<close>

datatype patch_body = MergePatch dict | StrategicMergePatch dict | JsonPatch "json list"

record 'w clients =
  cl_read_service :: "string \<Rightarrow> string \<Rightarrow> ('w, service_object) io"
  cl_read_deployment :: "string \<Rightarrow> string \<Rightarrow> ('w, deployment_object) io"
  cl_patch_service :: "string \<Rightarrow> string \<Rightarrow> patch_body \<Rightarrow> ('w, service_object) io"
  cl_patch_deployment :: "string \<Rightarrow> string \<Rightarrow> patch_body \<Rightarrow> ('w, deployment_object) io"

datatype cluster_call =
    ReadCall resource_kind string string
  | PatchCall resource_kind string string patch_body

fun is_patch :: "cluster_call \<Rightarrow> bool" where
  "is_patch (PatchCall _ _ _ _) = True"
| "is_patch (ReadCall _ _ _) = False"

definition logged :: "'w clients \<Rightarrow> ('w \<times> cluster_call list) clients" where
  "logged cl = \<lparr>cl_read_service = (\<lambda>ns n. noting (ReadCall KService ns n) (cl_read_service cl ns n)),
     cl_read_deployment = (\<lambda>ns n. noting (ReadCall KDeployment ns n) (cl_read_deployment cl ns n)),
     cl_patch_service = (\<lambda>ns n b. noting (PatchCall KService ns n b) (cl_patch_service cl ns n b)),
     cl_patch_deployment = (\<lambda>ns n b. noting (PatchCall KDeployment ns n b) (cl_patch_deployment cl ns n b))\<rparr>"

section \<open>Reading an object\<close>

text \<open>\<open>getattr(x, "field", None)\<close> along a chain.\<close>

definition meta_uid :: "object_meta option \<Rightarrow> string option" where
  "meta_uid m = Option.bind m om_uid"

definition meta_generation :: "object_meta option \<Rightarrow> int option" where
  "meta_generation m = Option.bind m om_generation"

definition resource_version :: "object_meta option \<Rightarrow> string res" where
  "resource_version m = (case Option.bind m om_resource_version of
       None \<Rightarrow> Inl (PyValueError ''Kubernetes resource does not contain metadata.resourceVersion'')
     | Some v \<Rightarrow> if v = [] then Inl (PyValueError ''Kubernetes resource does not contain metadata.resourceVersion'')
                 else Inr v)"

definition service_selector :: "service_object \<Rightarrow> (string \<times> string) list" where
  "service_selector s = (case Option.bind (so_spec s) id of None \<Rightarrow> [] | Some d \<Rightarrow> d)"

definition deployment_containers :: "deployment_object \<Rightarrow> container list" where
  "deployment_containers d =
     (case Option.bind (Option.bind (Option.bind (do_spec d) id) id) id of None \<Rightarrow> [] | Some cs \<Rightarrow> cs)"

definition container_named :: "deployment_object \<Rightarrow> string \<Rightarrow> container option" where
  "container_named d n = find (\<lambda>c. cn_name c = n) (deployment_containers d)"

definition readiness_probe_values :: "container \<Rightarrow> string option \<times> port option" where
  "readiness_probe_values c = (case Option.bind (cn_readiness_probe c) id of
       None \<Rightarrow> (None, None) | Some h \<Rightarrow> (hg_path h, hg_port h))"

section \<open>Snapshots\<close>

definition snapshot_validate :: "resource_snapshot \<Rightarrow> resource_snapshot res" where
  "snapshot_validate r = (if resource_snapshot_schema r then Inr r else Inl ValidationError)"

definition selector_configuration :: "(string \<times> string) list \<Rightarrow> dict" where
  "selector_configuration sel = [(''selector'', JObj (str_dict sel))]"

definition probe_configuration :: "string \<Rightarrow> string option \<Rightarrow> port option \<Rightarrow> dict" where
  "probe_configuration c path p = [(''container_name'', JStr c),
     (''readiness_probe'', JObj [(''path'', opt_json JStr path), (''port'', opt_json port_json p)])]"

definition service_snapshot :: "string \<Rightarrow> string \<Rightarrow> service_object \<Rightarrow> resource_snapshot res" where
  "service_snapshot ns n s = bindE (resource_version (so_metadata s)) (\<lambda>rv.
     snapshot_validate \<lparr>rs_uid = meta_uid (so_metadata s), rs_generation = None, rs_namespace = ns,
       rs_resource_kind = KService, rs_resource_name = n, rs_resource_version = rv,
       rs_configuration = selector_configuration (service_selector s)\<rparr>)"

definition deployment_snapshot ::
  "string \<Rightarrow> string \<Rightarrow> deployment_object \<Rightarrow> string \<Rightarrow> resource_snapshot res" where
  "deployment_snapshot ns n d c = (case container_named d c of
       None \<Rightarrow> Inl (PyValueError ''container does not exist in Deployment'')
     | Some x \<Rightarrow> (case readiness_probe_values x of (path, p) \<Rightarrow>
         bindE (resource_version (do_metadata d)) (\<lambda>rv.
         snapshot_validate \<lparr>rs_uid = meta_uid (do_metadata d), rs_generation = meta_generation (do_metadata d),
           rs_namespace = ns, rs_resource_kind = KDeployment, rs_resource_name = n,
           rs_resource_version = rv, rs_configuration = probe_configuration c path p\<rparr>)))"

text \<open>\<open>model_dump(mode="json")\<close> of a snapshot\<close>

definition snapshot_dump :: "resource_snapshot \<Rightarrow> dict" where
  "snapshot_dump r = [(''uid'', opt_json JStr (rs_uid r)), (''generation'', opt_json JInt (rs_generation r)),
     (''namespace'', JStr (rs_namespace r)), (''resource_kind'', JStr (kind_name (rs_resource_kind r))),
     (''resource_name'', JStr (rs_resource_name r)), (''resource_version'', JStr (rs_resource_version r)),
     (''configuration'', JObj (rs_configuration r))]"

section \<open>Laws\<close>

lemma resource_version_Inr:
  "resource_version m = Inr v \<longleftrightarrow> (\<exists>x. m = Some x \<and> om_resource_version x = Some v \<and> v \<noteq> [])"
  by (auto simp: resource_version_def split: option.splits Option.bind_splits if_splits)

lemma service_snapshot_Inr:
  "service_snapshot ns n s = Inr b \<longleftrightarrow> (\<exists>rv. resource_version (so_metadata s) = Inr rv
     \<and> b = \<lparr>rs_uid = meta_uid (so_metadata s), rs_generation = None, rs_namespace = ns,
       rs_resource_kind = KService, rs_resource_name = n, rs_resource_version = rv,
       rs_configuration = selector_configuration (service_selector s)\<rparr> \<and> resource_snapshot_schema b)"
  by (auto simp: service_snapshot_def snapshot_validate_def res_simps)

lemma deployment_snapshot_Inr:
  "deployment_snapshot ns n d c = Inr b \<longleftrightarrow> (\<exists>x rv. container_named d c = Some x
     \<and> resource_version (do_metadata d) = Inr rv
     \<and> b = \<lparr>rs_uid = meta_uid (do_metadata d), rs_generation = meta_generation (do_metadata d),
           rs_namespace = ns, rs_resource_kind = KDeployment, rs_resource_name = n,
           rs_resource_version = rv,
           rs_configuration = probe_configuration c (fst (readiness_probe_values x)) (snd (readiness_probe_values x))\<rparr>
     \<and> resource_snapshot_schema b)"
  by (auto simp: deployment_snapshot_def snapshot_validate_def res_simps split: option.splits prod.splits)

end
