(* ===== verification/RemediationTools.thy ===== *)
theory RemediationTools
  imports Cluster RemediationPolicy
begin

text \<open>
  \<open>backend/app/tools/remediation_tools.py\<close>: the two writes on the cluster. Each validates its
  arguments, reads the resource, refuses one that is not in the approved state, and sends one
  patch bound to the resource version it read; every failure of the client becomes a result.
\<close>

section \<open>Arguments\<close>

definition unsafe :: "string \<Rightarrow> string \<Rightarrow> 'a res" where
  "unsafe field msg = Inl (UnsafeRemediationTarget (field @ '' '' @ msg))"

definition validate_resource_name :: "string \<Rightarrow> string \<Rightarrow> string res" where
  "validate_resource_name field v = (if kubernetes_name (strip v) then Inr (strip v)
     else unsafe field ''is not a valid Kubernetes resource name'')"

definition validate_namespace :: "string \<Rightarrow> string res" where
  "validate_namespace ns = (if strip ns \<noteq> safe_namespace
     then Inl (UnsafeRemediationTarget ''write operations are restricted to namespace'') else Inr (strip ns))"

text \<open>\<open>d[k] = v\<close> on a dictionary with string keys.\<close>

fun put :: "(string \<times> 'a) list \<Rightarrow> string \<Rightarrow> 'a \<Rightarrow> (string \<times> 'a) list" where
  "put [] k v = [(k, v)]"
| "put ((k', w) # d) k v = (if k' = k then (k', v) # d else (k', w) # put d k v)"

lemma map_of_put [simp]: "map_of (put d k v) = (map_of d)(k \<mapsto> v)"
  by (induction d) auto

lemma dget_put: "dget (put d k v) j = (if j = k then v else dget d j)"
  by (simp add: dget_def)

lemma keys_put: "fst ` set (put d k v) = insert k (fst ` set d)"
  by (induction d k v rule: put.induct) (simp_all add: insert_commute)

lemma put_distinct: "distinct (map fst d) \<Longrightarrow> distinct (map fst (put d k v))"
  by (induction d k v rule: put.induct) (auto simp: keys_put)

text \<open>The loop over the items; a stripped key may meet an earlier one and replaces its value.\<close>

fun normalize_pairs :: "string \<Rightarrow> (string \<times> string) list \<Rightarrow> (string \<times> string) list \<Rightarrow> (string \<times> string) list res" where
  "normalize_pairs field acc [] = Inr acc"
| "normalize_pairs field acc ((k, v) # kvs) =
     (if strip k = [] then unsafe field ''contains an empty key''
      else if strip v = [] then unsafe field ''contains an empty value''
      else normalize_pairs field (put acc (strip k) (strip v)) kvs)"

definition validate_selector :: "string \<Rightarrow> bool \<Rightarrow> (string \<times> string) list \<Rightarrow> (string \<times> string) list res" where
  "validate_selector field allow_empty sel = bindE (normalize_pairs field [] sel) (\<lambda>d.
     if \<not> allow_empty \<and> d = [] then unsafe field ''must not be empty'' else Inr d)"

definition validate_probe_path :: "string \<Rightarrow> string \<Rightarrow> string res" where
  "validate_probe_path field v =
     (if \<not> starts_with ''/'' (strip v) then unsafe field (''must start with '' @ [CHR 0x27, CHR ''/'', CHR 0x27])
      else if list_ex is_space (strip v) then unsafe field ''must not contain whitespace''
      else Inr (strip v))"

fun validate_probe_port :: "string \<Rightarrow> port \<Rightarrow> port res" where
  "validate_probe_port field (PortNum n) = (if n \<le> 0 \<or> n > 65535
     then unsafe field ''integer is outside the valid port range'' else Inr (PortNum n))"
| "validate_probe_port field (PortName s) = (if strip s = []
     then unsafe field ''must not be empty'' else Inr (PortName (strip s)))"

section \<open>Results\<close>

record mutation_result =
  mr_status :: execution_status
  mr_before :: "resource_snapshot option"
  mr_after :: "resource_snapshot option"
  mr_applied :: dict
  mr_rollback :: dict
  mr_message :: string
  mr_error_code :: "string option"
  mr_error_message :: "string option"

definition failed_result :: "string \<Rightarrow> string \<Rightarrow> resource_snapshot option \<Rightarrow> dict \<Rightarrow> mutation_result" where
  "failed_result code msg before applied = \<lparr>mr_status = ExecFailed, mr_before = before, mr_after = None,
     mr_applied = applied, mr_rollback = [], mr_message = ''Kubernetes remediation failed.'',
     mr_error_code = Some code, mr_error_message = Some msg\<rparr>"

definition conflict_result :: "string \<Rightarrow> string \<Rightarrow> resource_snapshot option \<Rightarrow> dict \<Rightarrow> mutation_result" where
  "conflict_result code msg before applied = \<lparr>mr_status = Conflict, mr_before = before, mr_after = None,
     mr_applied = applied, mr_rollback = [],
     mr_message = ''Kubernetes resource changed after the remediation plan was approved.'',
     mr_error_code = Some code, mr_error_message = Some msg\<rparr>"

definition already_applied_result :: "string \<Rightarrow> resource_snapshot \<Rightarrow> mutation_result" where
  "already_applied_result msg before = \<lparr>mr_status = AlreadyApplied, mr_before = Some before,
     mr_after = Some before, mr_applied = [], mr_rollback = [], mr_message = msg,
     mr_error_code = None, mr_error_message = None\<rparr>"

definition api_error_code :: "int \<Rightarrow> string" where
  "api_error_code status = (if status = 403 then ''KUBERNETES_FORBIDDEN''
     else if status = 404 then ''RESOURCE_NOT_FOUND'' else ''KUBERNETES_API_ERROR'')"

definition api_error_result ::
  "int \<Rightarrow> string option \<Rightarrow> resource_snapshot option \<Rightarrow> dict \<Rightarrow> mutation_result" where
  "api_error_result status reason before applied =
     (if status = 409 then conflict_result ''RESOURCE_VERSION_CONFLICT''
        ''Kubernetes rejected the patch because resourceVersion changed.'' before applied
      else failed_result (api_error_code status)
        (case reason of Some r \<Rightarrow> if r = [] then ''Kubernetes API request failed.'' else r
                      | None \<Rightarrow> ''Kubernetes API request failed.'') before applied)"

fun unexpected_error_code :: "exn \<Rightarrow> string" where
  "unexpected_error_code (TimeoutErr _) = ''KUBERNETES_TIMEOUT''"
| "unexpected_error_code _ = ''KUBERNETES_API_ERROR''"

definition unexpected_error_result :: "exn \<Rightarrow> resource_snapshot option \<Rightarrow> dict \<Rightarrow> mutation_result" where
  "unexpected_error_result e before applied =
     failed_result (unexpected_error_code e) (exn_text e) before applied"

text \<open>\<open>except ApiException ... except Exception ...\<close> around a call of the client.\<close>

definition client_error_result :: "exn \<Rightarrow> resource_snapshot option \<Rightarrow> dict \<Rightarrow> mutation_result" where
  "client_error_result e before applied = (case e of
       ApiException status reason \<Rightarrow> api_error_result status reason before applied
     | _ \<Rightarrow> unexpected_error_result e before applied)"

definition invalid_response :: "exn \<Rightarrow> resource_snapshot option \<Rightarrow> dict \<Rightarrow> mutation_result" where
  "invalid_response e = failed_result ''INVALID_KUBERNETES_RESPONSE'' (exn_text e)"

section \<open>The Service selector\<close>

text \<open>What the resource read before the write decides: a result, or the snapshot to patch from.\<close>

definition selector_gate :: "string \<Rightarrow> string \<Rightarrow> service_object \<Rightarrow> (string \<times> string) list
    \<Rightarrow> (string \<times> string) list \<Rightarrow> string option \<Rightarrow> mutation_result + resource_snapshot" where
  "selector_gate ns n service expected proposed uid =
     (case service_snapshot ns n service of
        Inl e \<Rightarrow> Inl (invalid_response e None [])
      | Inr before \<Rightarrow>
          if uid \<noteq> None \<and> rs_uid before \<noteq> uid
          then Inl (conflict_result ''TARGET_UID_CHANGED'' ''Service was recreated after approval.'' (Some before) [])
          else if str_dict_eq (service_selector service) proposed
          then Inl (already_applied_result ''Service selector already matches the approved target.'' before)
          else if \<not> str_dict_eq (service_selector service) expected
          then Inl (conflict_result ''CURRENT_CONFIGURATION_CONFLICT''
                 ''Current Service selector does not match the approved previous value.'' (Some before) [])
          else Inr before)"

text \<open>\<open>{**{key: None for key in old if key not in new}, **new}\<close>\<close>

definition selector_change :: "(string \<times> string) list \<Rightarrow> (string \<times> string) list \<Rightarrow> dict" where
  "selector_change old new =
     map (\<lambda>kv. (fst kv, JNull)) (filter (\<lambda>kv. map_of new (fst kv) = None) old) @ str_dict new"

definition selector_patch :: "string option \<Rightarrow> string \<Rightarrow> (string \<times> string) list \<Rightarrow> (string \<times> string) list \<Rightarrow> dict" where
  "selector_patch uid rv current proposed =
     [(''metadata'', JObj (opt_entry ''uid'' JStr uid @ [(''resourceVersion'', JStr rv)])),
      (''spec'', JObj [(''selector'', JObj (selector_change current proposed))])]"

definition selector_rollback :: "string \<Rightarrow> (string \<times> string) list \<Rightarrow> (string \<times> string) list \<Rightarrow> dict" where
  "selector_rollback rv current proposed =
     [(''metadata'', JObj [(''resourceVersion'', JStr rv)]),
      (''spec'', JObj [(''selector'', JObj (selector_change proposed current))])]"

definition selector_outcome :: "string \<Rightarrow> string \<Rightarrow> (string \<times> string) list \<Rightarrow> (string \<times> string) list
    \<Rightarrow> resource_snapshot \<Rightarrow> dict \<Rightarrow> service_object res \<Rightarrow> mutation_result" where
  "selector_outcome ns n current proposed before body response = (case response of
       Inl e \<Rightarrow> client_error_result e (Some before) body
     | Inr service \<Rightarrow> (case service_snapshot ns n service of
           Inl e \<Rightarrow> invalid_response e (Some before) body
         | Inr after \<Rightarrow> \<lparr>mr_status = Succeeded, mr_before = Some before, mr_after = Some after,
             mr_applied = body, mr_rollback = selector_rollback (rs_resource_version after) current proposed,
             mr_message = ''Service selector was patched successfully.'',
             mr_error_code = None, mr_error_message = None\<rparr>))"

text \<open>From the read to the result, on validated arguments.\<close>

definition apply_selector :: "'w clients \<Rightarrow> string \<Rightarrow> string \<Rightarrow> (string \<times> string) list
    \<Rightarrow> (string \<times> string) list \<Rightarrow> string option \<Rightarrow> ('w, mutation_result) io" where
  "apply_selector cl ns n expected proposed uid =
     bindW (tryW (cl_read_service cl ns n)) (\<lambda>found. case found of
       Inl e \<Rightarrow> returnW (client_error_result e None [])
     | Inr service \<Rightarrow> (case selector_gate ns n service expected proposed uid of
         Inl result \<Rightarrow> returnW result
       | Inr before \<Rightarrow>
          (let current = service_selector service;
               body = selector_patch uid (rs_resource_version before) current proposed
           in bindW (tryW (cl_patch_service cl ns n (MergePatch body))) (\<lambda>response.
              returnW (selector_outcome ns n current proposed before body response)))))"

definition patch_service_selector :: "'w clients \<Rightarrow> string \<Rightarrow> string \<Rightarrow> (string \<times> string) list
    \<Rightarrow> (string \<times> string) list \<Rightarrow> string option \<Rightarrow> ('w, mutation_result) io" where
  "patch_service_selector cl ns n expected proposed uid =
     bindW (liftW (validate_namespace ns)) (\<lambda>ns.
     bindW (liftW (validate_resource_name ''service_name'' n)) (\<lambda>n.
     bindW (liftW (validate_selector ''expected_selector'' True expected)) (\<lambda>expected.
     bindW (liftW (validate_selector ''proposed_selector'' False proposed)) (\<lambda>proposed.
       apply_selector cl ns n expected proposed uid))))"

section \<open>The readiness probe\<close>

text \<open>The checks before the container is looked for; only this part may raise.\<close>

definition probe_identity :: "deployment_object \<Rightarrow> string option \<Rightarrow> string option \<Rightarrow> mutation_result option res" where
  "probe_identity d rv uid =
     bindE (case rv of None \<Rightarrow> Inr False
            | Some v \<Rightarrow> bindE (resource_version (do_metadata d)) (\<lambda>x. Inr (x \<noteq> v))) (\<lambda>moved.
     Inr (if moved then Some (conflict_result ''PROFILE_RESOURCE_VERSION_CONFLICT''
            ''Deployment changed since service profile validation.'' None [])
          else if uid \<noteq> None \<and> meta_uid (do_metadata d) \<noteq> uid
          then Some (conflict_result ''TARGET_UID_CHANGED'' ''Deployment was recreated after approval.'' None [])
          else None))"

definition probe_gate :: "string \<Rightarrow> string \<Rightarrow> deployment_object \<Rightarrow> string \<Rightarrow> string \<Rightarrow> string \<Rightarrow> port \<Rightarrow> port
    \<Rightarrow> mutation_result + resource_snapshot \<times> string \<times> port" where
  "probe_gate ns n d c old_path new_path old_port new_port =
     (case container_named d c of
        None \<Rightarrow> Inl (failed_result ''CONTAINER_NOT_FOUND'' ''Container does not exist in the current Deployment.'' None [])
      | Some x \<Rightarrow> (case readiness_probe_values x of
          (Some path, Some p) \<Rightarrow>
            (case deployment_snapshot ns n d c of
               Inl e \<Rightarrow> Inl (invalid_response e None [])
             | Inr before \<Rightarrow>
                 if path = new_path \<and> p = new_port
                 then Inl (already_applied_result ''Readiness probe already matches the approved target.'' before)
                 else if path \<noteq> old_path \<or> p \<noteq> old_port
                 then Inl (conflict_result ''CURRENT_CONFIGURATION_CONFLICT''
                        ''Current readiness probe does not match the approved previous value.'' (Some before) [])
                 else Inr (before, path, p))
        | _ \<Rightarrow> Inl (failed_result ''READINESS_HTTP_PROBE_NOT_FOUND''
                 ''Container does not have an HTTP readiness probe.'' None [])))"

definition probe_change :: "string \<Rightarrow> string \<Rightarrow> port \<Rightarrow> json" where
  "probe_change c path p = JObj [(''template'', JObj [(''spec'', JObj [(''containers'', JArr
     [JObj [(''name'', JStr c), (''readinessProbe'', JObj [(''httpGet'',
        JObj [(''path'', JStr path), (''port'', port_json p)])])]])])])]"

definition probe_patch :: "string option \<Rightarrow> string \<Rightarrow> string \<Rightarrow> string \<Rightarrow> port \<Rightarrow> dict" where
  "probe_patch uid rv c path p =
     [(''metadata'', JObj ((''resourceVersion'', JStr rv) # opt_entry ''uid'' JStr uid)),
      (''spec'', probe_change c path p)]"

definition probe_outcome :: "string \<Rightarrow> string \<Rightarrow> string \<Rightarrow> string \<Rightarrow> port
    \<Rightarrow> resource_snapshot \<Rightarrow> dict \<Rightarrow> deployment_object res \<Rightarrow> mutation_result" where
  "probe_outcome ns n c path p before body response = (case response of
       Inl e \<Rightarrow> client_error_result e (Some before) body
     | Inr d \<Rightarrow> (case deployment_snapshot ns n d c of
           Inl e \<Rightarrow> invalid_response e (Some before) body
         | Inr after \<Rightarrow> \<lparr>mr_status = Succeeded, mr_before = Some before, mr_after = Some after,
             mr_applied = body,
             mr_rollback = [(''metadata'', JObj [(''resourceVersion'', JStr (rs_resource_version after))]),
                            (''spec'', probe_change c path p)],
             mr_message = ''Deployment readiness probe was patched successfully.'',
             mr_error_code = None, mr_error_message = None\<rparr>))"

definition apply_probe :: "'w clients \<Rightarrow> string \<Rightarrow> string \<Rightarrow> string \<Rightarrow> string \<Rightarrow> string
    \<Rightarrow> port \<Rightarrow> port \<Rightarrow> string option \<Rightarrow> string option \<Rightarrow> ('w, mutation_result) io" where
  "apply_probe cl ns n c old_path new_path old_port new_port rv uid =
     bindW (tryW (cl_read_deployment cl ns n)) (\<lambda>found. case found of
       Inl e \<Rightarrow> returnW (client_error_result e None [])
     | Inr d \<Rightarrow> bindW (liftW (probe_identity d rv uid)) (\<lambda>refused. case refused of
         Some result \<Rightarrow> returnW result
       | None \<Rightarrow> (case probe_gate ns n d c old_path new_path old_port new_port of
           Inl result \<Rightarrow> returnW result
         | Inr (before, path, p) \<Rightarrow>
            (let body = probe_patch uid (rs_resource_version before) c new_path new_port
             in bindW (tryW (cl_patch_deployment cl ns n (StrategicMergePatch body))) (\<lambda>response.
                returnW (probe_outcome ns n c path p before body response))))))"

definition patch_readiness_probe :: "'w clients \<Rightarrow> string \<Rightarrow> string \<Rightarrow> string \<Rightarrow> string \<Rightarrow> string
    \<Rightarrow> port \<Rightarrow> port \<Rightarrow> string option \<Rightarrow> string option \<Rightarrow> ('w, mutation_result) io" where
  "patch_readiness_probe cl ns n c old_path new_path old_port new_port rv uid =
     bindW (liftW (validate_namespace ns)) (\<lambda>ns.
     bindW (liftW (validate_resource_name ''deployment_name'' n)) (\<lambda>n.
     bindW (liftW (validate_resource_name ''container_name'' c)) (\<lambda>c.
     bindW (liftW (validate_probe_path ''expected_path'' old_path)) (\<lambda>old_path.
     bindW (liftW (validate_probe_path ''proposed_path'' new_path)) (\<lambda>new_path.
     bindW (liftW (validate_probe_port ''expected_port'' old_port)) (\<lambda>old_port.
     bindW (liftW (validate_probe_port ''proposed_port'' new_port)) (\<lambda>new_port.
       apply_probe cl ns n c old_path new_path old_port new_port rv uid)))))))"

end
