(* ===== verification/Traces.thy ===== *)
theory Traces
  imports Effects
begin

text \<open>
  Reasoning about the calls of a computation: what a computation adds to the list of calls of its
  world, composed along the steps of the computation.
\<close>

section \<open>Additions to a trace\<close>

definition adds :: "('a res \<Rightarrow> 'c list \<Rightarrow> bool) \<Rightarrow> ('w \<times> 'c list, 'a) io \<Rightarrow> bool" where
  "adds A m = (\<forall>w r w'. m w = (r, w') \<longrightarrow> (\<exists>tr. snd w' = snd w @ tr \<and> A r tr))"

abbreviation quiet_call :: "('w \<times> 'c list, 'a) io \<Rightarrow> bool" where
  "quiet_call m \<equiv> adds (\<lambda>_ tr. tr = []) m"

text \<open>A call that is not noted.\<close>

definition silent :: "('w, 'a) io \<Rightarrow> ('w \<times> 'c list, 'a) io" where
  "silent m = (\<lambda>(w, tr). case m w of (r, w') \<Rightarrow> (r, (w', tr)))"

lemma silent_eq [io_simps]: "silent m w = (r, w') \<longleftrightarrow> (\<exists>v. m (fst w) = (r, v) \<and> w' = (v, snd w))"
  by (auto simp: silent_def split: prod.splits)

lemma addsI: "(\<And>w r w'. m w = (r, w') \<Longrightarrow> \<exists>tr. snd w' = snd w @ tr \<and> A r tr) \<Longrightarrow> adds A m"
  by (simp add: adds_def)

lemma addsD: "adds A m \<Longrightarrow> m w = (r, w') \<Longrightarrow> \<exists>tr. snd w' = snd w @ tr \<and> A r tr"
  unfolding adds_def by blast

named_theorems adds_intros "what the calls add"

lemma adds_weaken: "adds A m \<Longrightarrow> (\<And>r tr. A r tr \<Longrightarrow> B r tr) \<Longrightarrow> adds B m"
  unfolding adds_def by blast

lemma adds_bind:
  assumes "adds A m" and "\<And>x. adds (B x) (f x)"
    and "\<And>e tr. A (Inl e) tr \<Longrightarrow> C (Inl e) tr"
    and "\<And>x tr1 r tr2. A (Inr x) tr1 \<Longrightarrow> B x r tr2 \<Longrightarrow> C r (tr1 @ tr2)"
  shows "adds C (bindW m f)"
proof (rule addsI)
  fix w r w' assume "bindW m f w = (r, w')"
  then consider e where "m w = (Inl e, w')" "r = Inl e"
    | x w1 where "m w = (Inr x, w1)" "f x w1 = (r, w')"
    unfolding bindW_eq by blast
  then show "\<exists>tr. snd w' = snd w @ tr \<and> C r tr"
  proof cases
    case 1
    then show ?thesis
      using addsD [OF assms(1)] assms(3) by blast
  next
    case 2
    obtain tr1 where 3: "snd w1 = snd w @ tr1" "A (Inr x) tr1"
      using addsD [OF assms(1) 2(1)] by blast
    obtain tr2 where 4: "snd w' = snd w1 @ tr2" "B x r tr2"
      using addsD [OF assms(2) 2(2)] by blast
    show ?thesis
      using assms(4) [OF 3(2) 4(2)] 3(1) 4(1) by auto
  qed
qed

text \<open>A step that adds nothing leaves the rest to the continuation, under what is known of its result.\<close>

lemma adds_bind_quiet:
  assumes "adds (\<lambda>r tr. tr = [] \<and> (\<forall>x. r = Inr x \<longrightarrow> P x)) m" and "\<And>x. P x \<Longrightarrow> adds C (f x)" and "\<And>e. C (Inl e) []"
  shows "adds C (bindW m f)"
proof (rule addsI)
  fix w r w' assume "bindW m f w = (r, w')"
  then consider e where "m w = (Inl e, w')" "r = Inl e"
    | x w1 where "m w = (Inr x, w1)" "f x w1 = (r, w')"
    unfolding bindW_eq by blast
  then show "\<exists>tr. snd w' = snd w @ tr \<and> C r tr"
  proof cases
    case 1
    then show ?thesis
      using addsD [OF assms(1)] assms(3) by fastforce
  next
    case 2
    then show ?thesis
      using addsD [OF assms(1) 2(1)] addsD [OF assms(2) 2(2)] by fastforce
  qed
qed

lemma adds_quiet:
  assumes "quiet_call m" and "\<And>x. adds C (f x)" and "\<And>e. C (Inl e) []"
  shows "adds C (bindW m f)"
  by (rule adds_bind_quiet [where P = "\<lambda>_. True"]) (use assms in auto)

text \<open>A noted call is followed by what the continuation adds.\<close>

lemma adds_noting_bind:
  assumes "\<And>x. adds (\<lambda>r tr. C r (c # tr)) (f x)" and "\<And>e. C (Inl e) [c]"
  shows "adds C (bindW (noting c m) f)"
  by (rule adds_bind [where A = "\<lambda>_ tr. tr = [c]" and B = "\<lambda>_ r tr. C r (c # tr)"])
    (use assms in \<open>auto simp: adds_def noting_eq\<close>)

lemma adds_noting: "(\<And>r. A r [c]) \<Longrightarrow> adds A (noting c m)"
  by (auto simp: adds_def noting_eq)

lemma adds_silent [adds_intros]: "quiet_call (silent m)"
  by (auto simp: adds_def silent_eq)

lemma adds_return: "A (Inr x) [] \<Longrightarrow> adds A (returnW x)"
  by (auto simp: adds_def returnW_eq)

lemma adds_raise: "A (Inl e) [] \<Longrightarrow> adds A (raiseW e)"
  by (auto simp: adds_def raiseW_eq)

lemma adds_lift: "A r [] \<Longrightarrow> adds A (liftW r)"
  by (auto simp: adds_def liftW_eq)

lemma adds_if: "(b \<Longrightarrow> adds A m) \<Longrightarrow> (\<not> b \<Longrightarrow> adds A m') \<Longrightarrow> adds A (if b then m else m')"
  by simp

lemma adds_option:
  "(r = None \<Longrightarrow> adds A m) \<Longrightarrow> (\<And>x. r = Some x \<Longrightarrow> adds A (f x))
    \<Longrightarrow> adds A (case r of None \<Rightarrow> m | Some x \<Rightarrow> f x)"
  by (cases r) auto

lemma adds_try: "adds (\<lambda>r. A (Inr r)) m \<Longrightarrow> adds A (tryW m)"
  unfolding adds_def tryW_eq by (metis (mono_tags))

end
