(* ===== verification/Decimals.thy ===== *)
theory Decimals
  imports Prelude
begin

text \<open>
  Numbers as text: the decimal form that the source writes with \<open>f"{n}"\<close> and \<open>f"{n:03d}"\<close>, its
  reading, and that different numbers have different texts.
\<close>

text \<open>\<open>f"{index}"\<close>\<close>

definition digit_char :: "nat \<Rightarrow> char" where
  "digit_char k = ''0123456789'' ! k"

fun decimal :: "nat \<Rightarrow> string" where
  "decimal n = (if n < 10 then [digit_char n] else decimal (n div 10) @ [digit_char (n mod 10)])"

declare decimal.simps [simp del]

text \<open>\<open>str(n)\<close> of an \<open>int\<close>\<close>

definition int_text :: "int \<Rightarrow> string" where
  "int_text n = (if n < 0 then CHR ''-'' # decimal (nat (- n)) else decimal (nat n))"

text \<open>\<open>sep.join(xs)\<close>\<close>

fun join_with :: "string \<Rightarrow> string list \<Rightarrow> string" where
  "join_with sep [] = []"
| "join_with sep [x] = x"
| "join_with sep (x # y # xs) = x @ sep @ join_with sep (y # xs)"

definition digit_of :: "char \<Rightarrow> nat option" where
  "digit_of c = (let n = of_char c :: int in if 48 \<le> n \<and> n \<le> 57 then Some (nat (n - 48)) else None)"

fun parse_digits :: "nat \<Rightarrow> string \<Rightarrow> nat option" where
  "parse_digits acc [] = Some acc"
| "parse_digits acc (c # cs) = (case digit_of c of None \<Rightarrow> None | Some k \<Rightarrow> parse_digits (acc * 10 + k) cs)"

lemma digit_cases: "k < 10 \<Longrightarrow> k = 0 \<or> k = 1 \<or> k = 2 \<or> k = 3 \<or> k = 4 \<or> k = 5 \<or> k = 6 \<or> k = 7 \<or> k = 8 \<or> k = (9::nat)"
  by arith

lemma digit_nth: "k < 10 \<Longrightarrow> digit_of (digit_char k) = Some k"
  by (drule digit_cases) (auto simp: digit_of_def digit_char_def)

lemma decimal_chars: "c \<in> set (decimal n) \<Longrightarrow> digit_of c \<noteq> None"
proof (induction n rule: decimal.induct)
  case (1 n)
  from 1(2) show ?case
    by (subst (asm) decimal.simps) (use 1(1) in \<open>auto simp: digit_nth split: if_splits\<close>)
qed

lemma parse_decimal: "parse_digits a (decimal n) = Some (a * 10 ^ length (decimal n) + n)"
proof -
  have step: "parse_digits a (s @ [digit_char k]) = map_option (\<lambda>x. x * 10 + k) (parse_digits a s)" if "k < 10" for a s k
    using that by (induction s arbitrary: a) (auto simp: digit_nth split: option.splits)
  show ?thesis
  proof (induction n arbitrary: a rule: decimal.induct)
    case (1 n)
    show ?case
    proof (cases "n < 10")
      case True
      then show ?thesis
        by (subst (1 2) decimal.simps) (simp add: digit_nth)
    next
      case False
      have "parse_digits a (decimal n) = map_option (\<lambda>x. x * 10 + n mod 10) (parse_digits a (decimal (n div 10)))"
        using False by (subst decimal.simps) (simp add: step)
      moreover have "length (decimal n) = Suc (length (decimal (n div 10)))"
        using False by (subst decimal.simps) simp
      ultimately show ?thesis
        using 1 [OF False] by (simp add: algebra_simps)
    qed
  qed
qed

lemma decimal_inject: "decimal m = decimal n \<longleftrightarrow> m = n"
proof
  assume "decimal m = decimal n"
  then have "parse_digits 0 (decimal m) = parse_digits 0 (decimal n)"
    by (rule arg_cong)
  then show "m = n"
    by (simp add: parse_decimal)
qed simp

text \<open>\<open>f"{n:03d}"\<close>\<close>

definition padded :: "nat \<Rightarrow> nat \<Rightarrow> string" where
  "padded k n = replicate (k - length (decimal n)) CHR ''0'' @ decimal n"

lemma parse_zeros: "parse_digits 0 (replicate m CHR ''0'' @ s) = parse_digits 0 s"
  by (induction m) (auto simp: digit_of_def)

lemma padded_inject: "padded k m = padded k n \<longleftrightarrow> m = n"
proof
  assume "padded k m = padded k n"
  then have "parse_digits 0 (padded k m) = parse_digits 0 (padded k n)"
    by (rule arg_cong)
  then show "m = n"
    by (simp add: padded_def parse_zeros parse_decimal)
qed simp

end
