(* ===== verification/Verification.thy ===== *)
theory Verification
  imports RemediationTools Traces Decimals
begin

text \<open>
  \<open>backend/app/agent/verification.py\<close>: the resource check after a remediation. It polls the cluster
  until the approved change is in place and served, or a timeout is over. The loop has no bound of
  its own: it ends because the monotonic clock advances, so a run that never ends is the value
  \<open>None\<close> of the model.
\<close>

section \<open>Results\<close>

datatype verification_status = VerifySucceeded | VerifyFailed | VerifyTimeout | VerifySkipped

fun verification_status_name :: "verification_status \<Rightarrow> string" where
  "verification_status_name VerifySucceeded = ''succeeded''"
| "verification_status_name VerifyFailed = ''failed''"
| "verification_status_name VerifyTimeout = ''timeout''"
| "verification_status_name VerifySkipped = ''skipped''"

datatype verification_scope = ResourceOnly | ResourcesAndBusiness

datatype checked_business = BusinessSkipped | BusinessChecked business_status

record verification_check =
  vc_name :: string
  vc_passed :: bool
  vc_observed :: json
  vc_expected :: json
  vc_message :: string

record recovery_result =
  rr_execution_id :: string
  rr_action :: action_name
  rr_status :: verification_status
  rr_started_at :: string
  rr_finished_at :: string
  rr_attempts :: nat
  rr_checks :: "verification_check list"
  rr_desired_replicas :: "int option"
  rr_available_replicas :: "int option"
  rr_ready_pods :: "int option"
  rr_ready_endpoints :: "int option"
  rr_message :: string
  rr_error_code :: "string option"
  rr_error_message :: "string option"
  rr_scope :: verification_scope
  rr_resource_verification :: "verification_status option"
  rr_resource_status :: resource_status
  rr_business_status :: checked_business
  rr_evidence :: "evidence list"
  rr_profile :: "snapshot option"
  rr_collection_errors :: "json list"
  rr_unverified :: "string list"
  rr_observation :: json

definition recovery_schema :: "recovery_result \<Rightarrow> bool" where
  "recovery_schema r = (execution_id_pattern (rr_execution_id r) \<and> rr_started_at r \<noteq> [] \<and> rr_finished_at r \<noteq> []
     \<and> rr_message r \<noteq> [] \<and> list_all (\<lambda>c. vc_name c \<noteq> [] \<and> vc_message c \<noteq> []) (rr_checks r))"

text \<open>\<open>RecoveryVerificationResult(...)\<close>: constructing the model validates it.\<close>

definition recovery_validate :: "recovery_result \<Rightarrow> recovery_result res" where
  "recovery_validate r = (if recovery_schema r then Inr r else Inl ValidationError)"

section \<open>What is read\<close>

text \<open>
  The attributes of a Deployment at the end of each \<open>getattr\<close> chain, \<open>None\<close> where the chain breaks;
  a Pod as the pairs (type, status) of its conditions; an endpoint as its \<open>conditions.ready\<close>.
\<close>

record deployment_view = deployment_object +
  dv_replicas :: "int option"
  dv_observed_generation :: "int option"
  dv_updated_replicas :: "int option"
  dv_available_replicas :: "int option"
  dv_match_labels :: "(string \<times> string) list option"

type_synonym pod_view = "(string \<times> string) list option"
type_synonym endpoint_view = "bool option option"
type_synonym slice_view = "endpoint_view list option"

record 'w verifier =
  ve_read_service :: "string \<Rightarrow> string \<Rightarrow> ('w, service_object) io"
  ve_read_deployment :: "string \<Rightarrow> string \<Rightarrow> ('w, deployment_view) io"
  ve_list_pods :: "string \<Rightarrow> string \<Rightarrow> ('w, pod_view list option) io"
  ve_list_slices :: "string \<Rightarrow> string \<Rightarrow> ('w, slice_view list option) io"
  ve_monotonic :: "('w, rat) io"
  ve_sleep :: "rat \<Rightarrow> ('w, unit) io"
  ve_now :: "('w, string) io"
  ve_timeout :: rat
  ve_interval :: rat

text \<open>\<open>x or []\<close>, \<open>x or 0\<close> of an optional list and number\<close>

definition or_nil :: "'a list option \<Rightarrow> 'a list" where
  "or_nil x = (case x of None \<Rightarrow> [] | Some xs \<Rightarrow> xs)"

definition or_zero :: "int option \<Rightarrow> int" where
  "or_zero x = (case x of None \<Rightarrow> 0 | Some n \<Rightarrow> n)"

definition ready_endpoint_count :: "slice_view list option \<Rightarrow> int" where
  "ready_endpoint_count slices =
     int (length (filter (\<lambda>e. e = Some (Some True)) (concat (map or_nil (or_nil slices)))))"

definition pod_is_ready :: "pod_view \<Rightarrow> bool" where
  "pod_is_ready p = list_ex (\<lambda>c. c = (''Ready'', ''True'')) (or_nil p)"

definition label_pairs_dict :: "label_pair list \<Rightarrow> (string \<times> string) list" where
  "label_pairs_dict ps = fold (\<lambda>p d. put d (lp_key p) (lp_value p)) ps []"

definition deployment_probe :: "'a deployment_object_scheme \<Rightarrow> string \<Rightarrow> string option \<times> port option" where
  "deployment_probe d c = (case find (\<lambda>x. cn_name x = c)
       (or_nil (Option.bind (Option.bind (Option.bind (do_spec d) id) id) id)) of
     None \<Rightarrow> (None, None) | Some x \<Rightarrow> readiness_probe_values x)"

text \<open>\<open>selector_to_string\<close>: the sorted items of the dictionary, joined by commas\<close>

definition selector_to_string :: "(string \<times> string) list \<Rightarrow> string" where
  "selector_to_string d = join_with '','' (map (\<lambda>(k, v). k @ ''='' @ v) (sort_key fst d))"

definition service_label :: "string \<Rightarrow> string" where
  "service_label n = ''kubernetes.io/service-name='' @ n"

section \<open>Observations\<close>

record verification_observation =
  vo_checks :: "verification_check list"
  vo_desired_replicas :: "int option"
  vo_available_replicas :: "int option"
  vo_ready_pods :: "int option"
  vo_ready_endpoints :: "int option"

definition observation_succeeded :: "verification_observation \<Rightarrow> bool" where
  "observation_succeeded v = (vo_checks v \<noteq> [] \<and> list_all vc_passed (vo_checks v))"

definition make_check :: "string \<Rightarrow> bool \<Rightarrow> json \<Rightarrow> json \<Rightarrow> string \<Rightarrow> string \<Rightarrow> verification_check" where
  "make_check n passed observed expected yes no = \<lparr>vc_name = n, vc_passed = passed, vc_observed = observed,
     vc_expected = expected, vc_message = (if passed then yes else no)\<rparr>"

definition endpoints_check :: "int \<Rightarrow> verification_check" where
  "endpoints_check n = make_check ''ready_endpoints'' (n > 0) (JInt n) (JStr ''at least 1'')
     ''EndpointSlice contains a Ready endpoint.'' ''EndpointSlice does not contain a Ready endpoint.''"

definition requested_service :: "incident_state \<Rightarrow> string res" where
  "requested_service s = (case req_get s ''service_name'' of
       Some n \<Rightarrow> if n \<noteq> [] then Inr n else Inl (PyValueError ''incident request does not contain service_name'')
     | None \<Rightarrow> Inl (PyValueError ''incident request does not contain service_name''))"

definition count_endpoints :: "'w verifier \<Rightarrow> incident_state \<Rightarrow> string \<Rightarrow> ('w, int) io" where
  "count_endpoints ve s ns =
     bindW (liftW (requested_service s)) (\<lambda>n.
     bindW (ve_list_slices ve ns (service_label n)) (\<lambda>slices. returnW (ready_endpoint_count slices)))"

definition selector_checks :: "(string \<times> string) list \<Rightarrow> (string \<times> string) list \<Rightarrow> int \<Rightarrow> verification_check list" where
  "selector_checks current proposed n =
     [make_check ''service_selector'' (str_dict_eq current proposed)
        (JObj (str_dict current)) (JObj (str_dict proposed))
        ''Service selector matches the approved target.'' ''Service selector has not reached the approved target.'',
      endpoints_check n]"

definition observe_selector :: "'w verifier \<Rightarrow> incident_state \<Rightarrow> plan \<Rightarrow> ('w, verification_observation) io" where
  "observe_selector ve s pl = (let p = pl_parameters pl in
     bindW (ve_read_service ve (pa_namespace p) (pa_resource_name p)) (\<lambda>service.
     bindW (count_endpoints ve s (pa_namespace p)) (\<lambda>n. returnW
       \<lparr>vo_checks = selector_checks (service_selector service) (label_pairs_dict (pa_proposed_selector p)) n,
        vo_desired_replicas = None, vo_available_replicas = None, vo_ready_pods = None,
        vo_ready_endpoints = Some n\<rparr>)))"

definition probe_json :: "string option \<Rightarrow> port option \<Rightarrow> json" where
  "probe_json path p = JObj [(''path'', opt_json JStr path), (''port'', opt_json port_json p)]"

definition replica_check :: "string \<Rightarrow> int \<Rightarrow> int \<Rightarrow> string \<Rightarrow> string \<Rightarrow> verification_check" where
  "replica_check name desired n = make_check name (desired > 0 \<and> n \<ge> desired) (JInt n) (JInt desired)"

definition readiness_checks ::
  "string option \<times> port option \<Rightarrow> parameters \<Rightarrow> deployment_view \<Rightarrow> int \<Rightarrow> int \<Rightarrow> verification_check list" where
  "readiness_checks observed p d pods n =
     (let generation = or_zero (meta_generation (do_metadata d)); seen = or_zero (dv_observed_generation d);
          desired = or_zero (dv_replicas d)
      in [make_check ''readiness_probe'' (observed = (pa_proposed_probe_path p, pa_proposed_probe_port p))
            (probe_json (fst observed) (snd observed)) (probe_json (pa_proposed_probe_path p) (pa_proposed_probe_port p))
            ''Deployment readiness probe matches the approved target.''
            ''Deployment readiness probe does not match the target.'',
          make_check ''deployment_observed_generation'' (seen \<ge> generation) (JInt seen)
            (JStr (''at least '' @ int_text generation))
            ''Deployment controller observed the latest generation.''
            ''Deployment controller has not observed the latest generation.'',
          replica_check ''updated_replicas'' desired (or_zero (dv_updated_replicas d))
            ''All desired replicas were updated.'' ''Deployment update is incomplete.'',
          replica_check ''available_replicas'' desired (or_zero (dv_available_replicas d))
            ''All desired replicas are available.'' ''Deployment replicas are not fully available.'',
          replica_check ''ready_pods'' desired pods
            ''All desired Pods are Ready.'' ''Not all desired Pods are Ready.'',
          endpoints_check n])"

definition count_pods :: "'w verifier \<Rightarrow> string \<Rightarrow> (string \<times> string) list \<Rightarrow> ('w, int) io" where
  "count_pods ve ns labels = (if labels = [] then returnW 0 else
     bindW (ve_list_pods ve ns (selector_to_string labels)) (\<lambda>pods.
       returnW (int (length (filter pod_is_ready (or_nil pods))))))"

definition demanded :: "string \<Rightarrow> 'a option \<Rightarrow> 'a res" where
  "demanded field x = (case x of
     None \<Rightarrow> Inl (PyValueError (''readiness verification requires '' @ field)) | Some v \<Rightarrow> Inr v)"

definition observe_readiness :: "'w verifier \<Rightarrow> incident_state \<Rightarrow> plan \<Rightarrow> ('w, verification_observation) io" where
  "observe_readiness ve s pl = (let p = pl_parameters pl in
     bindW (liftW (demanded ''container_name'' (pa_container_name p))) (\<lambda>c.
     bindW (liftW (demanded ''proposed_probe_path'' (pa_proposed_probe_path p))) (\<lambda>_.
     bindW (liftW (demanded ''proposed_probe_port'' (pa_proposed_probe_port p))) (\<lambda>_.
     bindW (ve_read_deployment ve (pa_namespace p) (pa_resource_name p)) (\<lambda>d.
     bindW (count_pods ve (pa_namespace p) (or_nil (dv_match_labels d))) (\<lambda>pods.
     bindW (count_endpoints ve s (pa_namespace p)) (\<lambda>n. returnW
       \<lparr>vo_checks = readiness_checks (deployment_probe d c) p d pods n,
        vo_desired_replicas = Some (or_zero (dv_replicas d)),
        vo_available_replicas = Some (or_zero (dv_available_replicas d)),
        vo_ready_pods = Some pods, vo_ready_endpoints = Some n\<rparr>)))))))"

definition observe_target :: "'w verifier \<Rightarrow> incident_state \<Rightarrow> plan \<Rightarrow> ('w, verification_observation) io" where
  "observe_target ve s pl = (case pl_action pl of
       PatchServiceSelector \<Rightarrow> observe_selector ve s pl
     | PatchReadinessProbe \<Rightarrow> observe_readiness ve s pl
     | ManualInvestigation \<Rightarrow> raiseW (PyValueError ''action cannot be recovery-verified''))"

section \<open>Polling\<close>

text \<open>What the loop leaves: the attempts, the last observation and how it ended.\<close>

datatype poll_end = Reached | TimedOut | Raised exn

record poll_state =
  ps_attempts :: nat
  ps_last :: "verification_observation option"
  ps_end :: poll_end

partial_function (option) poll ::
  "'w verifier \<Rightarrow> incident_state \<Rightarrow> plan \<Rightarrow> rat \<Rightarrow> nat \<Rightarrow> verification_observation option \<Rightarrow> 'w \<Rightarrow> (poll_state \<times> 'w) option" where
  "poll ve s pl deadline n previous w =
     (let stop = (\<lambda>last e w. Some (\<lparr>ps_attempts = n + 1, ps_last = last, ps_end = e\<rparr>, w)) in
     case observe_target ve s pl w of
       (Inl e, w1) \<Rightarrow> stop previous (Raised e) w1
     | (Inr v, w1) \<Rightarrow>
         if observation_succeeded v then stop (Some v) Reached w1
         else (case ve_monotonic ve w1 of
             (Inl e, w2) \<Rightarrow> stop (Some v) (Raised e) w2
           | (Inr t, w2) \<Rightarrow>
               if t \<ge> deadline then stop (Some v) TimedOut w2
               else (case ve_sleep ve (ve_interval ve) w2 of
                   (Inl e, w3) \<Rightarrow> stop (Some v) (Raised e) w3
                 | (Inr _, w3) \<Rightarrow> poll ve s pl deadline (n + 1) (Some v) w3)))"

declare poll.simps [code]

section \<open>The verification\<close>

definition base_result :: "string \<Rightarrow> action_name \<Rightarrow> verification_status \<Rightarrow> string \<Rightarrow> string \<Rightarrow> nat \<Rightarrow> recovery_result" where
  "base_result i a st started finished n = \<lparr>rr_execution_id = i, rr_action = a, rr_status = st,
     rr_started_at = started, rr_finished_at = finished, rr_attempts = n, rr_checks = [],
     rr_desired_replicas = None, rr_available_replicas = None, rr_ready_pods = None,
     rr_ready_endpoints = None, rr_message = [], rr_error_code = None, rr_error_message = None,
     rr_scope = ResourceOnly, rr_resource_verification = None, rr_resource_status = ResourceUnknown,
     rr_business_status = BusinessSkipped, rr_evidence = [], rr_profile = None, rr_collection_errors = [],
     rr_unverified = [''business recovery not verified''], rr_observation = JNull\<rparr>"

definition invalid_state :: "string \<Rightarrow> action_name \<Rightarrow> string \<Rightarrow> string \<Rightarrow> string \<Rightarrow> string \<Rightarrow> recovery_result" where
  "invalid_state i a started finished msg err = (base_result i a VerifyFailed started finished 0)
     \<lparr>rr_message := msg, rr_error_code := Some ''INVALID_VERIFICATION_STATE'', rr_error_message := Some err\<rparr>"

definition observed_result :: "verification_observation \<Rightarrow> recovery_result \<Rightarrow> recovery_result" where
  "observed_result v r = r\<lparr>rr_checks := vo_checks v, rr_desired_replicas := vo_desired_replicas v,
     rr_available_replicas := vo_available_replicas v, rr_ready_pods := vo_ready_pods v,
     rr_ready_endpoints := vo_ready_endpoints v\<rparr>"

definition reached_result :: "recovery_result \<Rightarrow> recovery_result" where
  "reached_result r = r\<lparr>rr_status := VerifySucceeded, rr_message := ''Kubernetes recovery verification succeeded.''\<rparr>"

definition timeout_result :: "recovery_result \<Rightarrow> recovery_result" where
  "timeout_result r = r\<lparr>rr_status := VerifyTimeout, rr_message := ''Kubernetes recovery verification timed out.'',
     rr_error_code := Some ''RECOVERY_VERIFICATION_TIMEOUT'',
     rr_error_message := Some ''The approved resource change did not recover before the timeout.''\<rparr>"

text \<open>The two \<open>except\<close> clauses; \<open>error.reason\<close> or the text of the error.\<close>

definition raised_result :: "exn \<Rightarrow> recovery_result \<Rightarrow> recovery_result" where
  "raised_result e r = (case e of
       ApiException code reason \<Rightarrow> r\<lparr>rr_message := ''Kubernetes API recovery verification failed.'',
         rr_error_code := Some ''KUBERNETES_VERIFICATION_ERROR'',
         rr_error_message := Some (case reason of Some m \<Rightarrow> if m \<noteq> [] then m else exn_text e | None \<Rightarrow> exn_text e)\<rparr>
     | _ \<Rightarrow> r\<lparr>rr_message := ''Recovery verification raised an unexpected exception.'',
         rr_error_code := Some ''RECOVERY_VERIFICATION_ERROR'', rr_error_message := Some (exn_text e)\<rparr>)"

definition last_checks :: "verification_observation option \<Rightarrow> verification_check list" where
  "last_checks v = (case v of None \<Rightarrow> [] | Some x \<Rightarrow> vo_checks x)"

text \<open>Building the result reads the clock again and may fail; inside the \<open>try\<close> that counts as an exception.\<close>

definition failure_result :: "'w verifier \<Rightarrow> action_result \<Rightarrow> string \<Rightarrow> poll_state \<Rightarrow> exn \<Rightarrow> ('w, recovery_result) io" where
  "failure_result ve x started st e = bindW (ve_now ve) (\<lambda>finished. liftW (recovery_validate
     (raised_result e ((base_result (x_execution_id x) (x_action x) VerifyFailed started finished (ps_attempts st))
        \<lparr>rr_checks := last_checks (ps_last st)\<rparr>))))"

definition poll_base :: "action_result \<Rightarrow> string \<Rightarrow> poll_state \<Rightarrow> string \<Rightarrow> recovery_result" where
  "poll_base x started st finished =
     (let r = base_result (x_execution_id x) (x_action x) VerifyFailed started finished (ps_attempts st)
      in case ps_last st of None \<Rightarrow> r | Some v \<Rightarrow> observed_result v r)"

definition concluded_result ::
  "'w verifier \<Rightarrow> action_result \<Rightarrow> string \<Rightarrow> poll_state \<Rightarrow> (recovery_result \<Rightarrow> recovery_result) \<Rightarrow> ('w, recovery_result) io" where
  "concluded_result ve x started st f =
     bindW (tryW (bindW (ve_now ve) (\<lambda>finished. liftW (recovery_validate (f (poll_base x started st finished)))))) (\<lambda>r.
       case r of Inr y \<Rightarrow> returnW y | Inl e \<Rightarrow> failure_result ve x started st e)"

definition polled_result :: "'w verifier \<Rightarrow> action_result \<Rightarrow> string \<Rightarrow> poll_state \<Rightarrow> ('w, recovery_result) io" where
  "polled_result ve x started st = (case ps_end st of
       Reached \<Rightarrow> concluded_result ve x started st reached_result
     | TimedOut \<Rightarrow> concluded_result ve x started st timeout_result
     | Raised e \<Rightarrow> failure_result ve x started st e)"

text \<open>The checks before the loop: a result and a plan that validate, of one action, and completed.\<close>

definition verification_input :: "incident_state \<Rightarrow> (action_result \<times> plan) res" where
  "verification_input s =
     (case st_action_result s of None \<Rightarrow> Inl (PyValueError ''action_result is required'')
      | Some x \<Rightarrow> (case st_remediation_plan s of None \<Rightarrow> Inl (PyValueError ''remediation_plan is required'')
      | Some pl \<Rightarrow> if action_result_schema x \<and> plan_schema pl then Inr (x, pl) else Inl ValidationError))"

definition completed_status :: "execution_status \<Rightarrow> bool" where
  "completed_status st = (st \<in> {Succeeded, AlreadyApplied})"

text \<open>Either a result that needs no poll, once its end time is known, or what to poll for.\<close>

definition admitted :: "string \<Rightarrow> incident_state \<Rightarrow> (string \<Rightarrow> recovery_result) + action_result \<times> plan" where
  "admitted started s = (case verification_input s of
       Inl e \<Rightarrow> Inl (\<lambda>finished. invalid_state ''exec-0000000000000000'' ManualInvestigation started finished
         ''Recovery verification state is invalid.'' (exn_text e))
     | Inr (x, pl) \<Rightarrow>
         if x_action x \<noteq> pl_action pl
         then Inl (\<lambda>finished. invalid_state (x_execution_id x) (x_action x) started finished
           ''Execution result does not match the remediation plan.''
           ''action_result.action does not match remediation_plan.action'')
         else if \<not> completed_status (x_status x)
         then Inl (\<lambda>finished. (base_result (x_execution_id x) (x_action x) VerifySkipped started finished 0)
           \<lparr>rr_message := ''Recovery verification was skipped because execution did not complete.''\<rparr>)
         else Inr (x, pl))"

definition verify_polling ::
  "'w verifier \<Rightarrow> incident_state \<Rightarrow> action_result \<Rightarrow> plan \<Rightarrow> string \<Rightarrow> 'w \<Rightarrow> (recovery_result res \<times> 'w) option" where
  "verify_polling ve s x pl started w = (case ve_monotonic ve w of
       (Inl e, w1) \<Rightarrow> Some (Inl e, w1)
     | (Inr t, w1) \<Rightarrow> map_option (\<lambda>(st, w2). polled_result ve x started st w2)
         (poll ve s pl (t + ve_timeout ve) 0 None w1))"

definition verify_resources :: "'w verifier \<Rightarrow> incident_state \<Rightarrow> 'w \<Rightarrow> (recovery_result res \<times> 'w) option" where
  "verify_resources ve s w = (case ve_now ve w of
       (Inl e, w1) \<Rightarrow> Some (Inl e, w1)
     | (Inr started, w1) \<Rightarrow> (case admitted started s of
           Inl f \<Rightarrow> Some (bindW (ve_now ve) (\<lambda>finished. liftW (recovery_validate (f finished))) w1)
         | Inr (x, pl) \<Rightarrow> verify_polling ve s x pl started w1))"

text \<open>\<open>__init__\<close> refuses a negative timeout and an interval that is not positive.\<close>

definition verifier_valid :: "'w verifier \<Rightarrow> unit res" where
  "verifier_valid ve = require_all PyValueError
     [(ve_timeout ve \<ge> 0, ''timeout_seconds must not be negative''),
      (ve_interval ve > 0, ''poll_interval_seconds must be positive'')]"

section \<open>The loop ends\<close>

text \<open>
  \<open>time.monotonic\<close> never goes back, \<open>time.sleep(s)\<close> that returns lets at least \<open>s\<close> pass, and no
  other call turns the clock back.
\<close>

definition keeps_time :: "('w \<Rightarrow> rat) \<Rightarrow> ('w, 'a) io \<Rightarrow> bool" where
  "keeps_time now m = (\<forall>w. now w \<le> now (snd (m w)))"

definition steady_clock :: "'w verifier \<Rightarrow> ('w \<Rightarrow> rat) \<Rightarrow> bool" where
  "steady_clock ve now = ((\<forall>ns n. keeps_time now (ve_read_service ve ns n))
     \<and> (\<forall>ns n. keeps_time now (ve_read_deployment ve ns n))
     \<and> (\<forall>ns l. keeps_time now (ve_list_pods ve ns l)) \<and> (\<forall>ns l. keeps_time now (ve_list_slices ve ns l))
     \<and> keeps_time now (ve_now ve)
     \<and> keeps_time now (ve_monotonic ve) \<and> (\<forall>s. keeps_time now (ve_sleep ve s))
     \<and> (\<forall>w t w'. ve_monotonic ve w = (Inr t, w') \<longrightarrow> now w \<le> t \<and> t \<le> now w')
     \<and> (\<forall>s w w'. ve_sleep ve s w = (Inr (), w') \<longrightarrow> now w + s \<le> now w'))"

lemma keeps_timeD: "keeps_time now m \<Longrightarrow> m w = (r, w') \<Longrightarrow> now w \<le> now w'"
  unfolding keeps_time_def by (metis snd_conv)

lemma keeps_time_return [simp]: "keeps_time now (returnW x)"
  by (simp add: keeps_time_def returnW_def)

lemma keeps_time_raise [simp]: "keeps_time now (raiseW e)"
  by (simp add: keeps_time_def raiseW_def)

lemma keeps_time_lift [simp]: "keeps_time now (liftW r)"
  by (simp add: keeps_time_def liftW_def)

lemma keeps_time_bind: "keeps_time now m \<Longrightarrow> (\<And>x. keeps_time now (f x)) \<Longrightarrow> keeps_time now (bindW m f)"
  unfolding keeps_time_def
proof
  fix w assume m: "\<forall>w. now w \<le> now (snd (m w))" and f: "\<And>x. \<forall>w. now w \<le> now (snd (f x w))"
  obtain r w1 where r: "m w = (r, w1)"
    by fastforce
  have 1: "now w \<le> now w1"
    using m [THEN spec, of w] by (simp add: r)
  show "now w \<le> now (snd (bindW m f w))"
  proof (cases r)
    case (Inr x)
    then show ?thesis
      using order_trans [OF 1 f [THEN spec, of w1 x]] by (simp add: bindW_def r)
  qed (use 1 in \<open>simp add: bindW_def r\<close>)
qed

lemma observe_target_time:
  assumes "steady_clock ve now"
  shows "keeps_time now (observe_target ve s pl)"
proof -
  have "keeps_time now (count_endpoints ve s ns)" and "keeps_time now (count_pods ve ns labels)" for ns labels
    using assms by (auto simp: count_endpoints_def count_pods_def steady_clock_def intro!: keeps_time_bind)
  then show ?thesis
    using assms
    by (auto simp: observe_target_def observe_selector_def observe_readiness_def steady_clock_def Let_def
        intro!: keeps_time_bind split: action_name.splits)
qed

definition polls_left :: "rat \<Rightarrow> rat \<Rightarrow> nat" where
  "polls_left d step = nat \<lceil>d / step\<rceil>"

lemma polls_left_mono: "a \<le> b \<Longrightarrow> 0 < step \<Longrightarrow> polls_left a step \<le> polls_left b step"
  by (auto simp: polls_left_def intro!: nat_mono ceiling_mono divide_right_mono)

lemma polls_left_step:
  assumes "0 < d" and "0 < step"
  shows "polls_left (d - step) step < polls_left d step"
proof -
  have "0 < d / step"
    using assms by simp
  then have "0 < \<lceil>d / step\<rceil>"
    by simp
  moreover have "\<lceil>(d - step) / step\<rceil> = \<lceil>d / step\<rceil> - 1"
    using assms by (simp add: diff_divide_distrib ceiling_diff_one)
  ultimately show ?thesis
    by (simp add: polls_left_def)
qed

lemma poll_returns:
  assumes clock: "steady_clock ve now" and step: "0 < ve_interval ve"
  shows "\<exists>st w'. poll ve s pl deadline n previous w = Some (st, w')
    \<and> ps_attempts st \<le> n + 1 + polls_left (deadline - now w) (ve_interval ve)"
proof (induction "polls_left (deadline - now w) (ve_interval ve)" arbitrary: n previous w rule: less_induct)
  case less
  obtain r w1 where r: "observe_target ve s pl w = (r, w1)"
    by fastforce
  have now1: "now w \<le> now w1"
    by (rule keeps_timeD [OF observe_target_time [OF clock] r])
  show ?case
  proof (cases r)
    case (Inl e)
    then show ?thesis
      by (subst poll.simps) (simp add: r Let_def)
  next
    case (Inr v)
    obtain m w2 where m: "ve_monotonic ve w1 = (m, w2)"
      by fastforce
    then have now2: "now w1 \<le> now w2" "\<And>t. m = Inr t \<Longrightarrow> now w1 \<le> t \<and> t \<le> now w2"
      using clock by (auto simp: steady_clock_def dest: keeps_timeD)
    show ?thesis
    proof (cases "observation_succeeded v \<or> (\<exists>e. m = Inl e) \<or> (\<exists>t. m = Inr t \<and> t \<ge> deadline)")
      case True
      then show ?thesis
        by (subst poll.simps) (auto simp: r Inr m Let_def)
    next
      case False
      then obtain t where t: "m = Inr t" "t < deadline"
        by (cases m) auto
      obtain z w3 where z: "ve_sleep ve (ve_interval ve) w2 = (z, w3)"
        by fastforce
      show ?thesis
      proof (cases z)
        case (Inl e)
        then show ?thesis
          using False t z by (subst poll.simps) (simp add: r Inr m Let_def)
      next
        case (Inr u)
        have now3: "now w2 + ve_interval ve \<le> now w3"
          using clock z Inr by (auto simp: steady_clock_def)
        have "deadline - now w3 \<le> (deadline - now w) - ve_interval ve" and "0 < deadline - now w"
          using now1 now2 now3 t by (auto simp: order.strict_trans1)
        then have fewer: "polls_left (deadline - now w3) (ve_interval ve) < polls_left (deadline - now w) (ve_interval ve)"
          using polls_left_mono [OF _ step] polls_left_step [OF _ step] by (meson le_less_trans)
        have "poll ve s pl deadline n previous w = poll ve s pl deadline (n + 1) (Some v) w3"
          using False t z Inr \<open>r = Inr v\<close> by (subst poll.simps) (simp add: r m Let_def)
        then show ?thesis
          using less [OF fewer, of "n + 1" "Some v"] fewer by fastforce
      qed
    qed
  qed
qed

end
