(* ===== verification/Readings.thy ===== *)
theory Readings
  imports LogText Verification
begin

text \<open>
  \<open>backend/app/schemas/kubernetes.py\<close> and the reads of the cluster (\<open>backend/app/tools/service_tools.py\<close>,
  \<open>pod_tools.py\<close>, \<open>workload_tools.py\<close>, \<open>node_tools.py\<close>): each calls the client and rebuilds what it answers
  as a record of its own.
\<close>

section \<open>The records of the program\<close>

record service_port_info =
  sp_name :: "string option"
  sp_port :: int
  sp_target_port :: "port option"
  sp_protocol :: string

record service_info =
  sv_uid :: "string option"
  sv_resource_version :: "string option"
  sv_namespace :: string
  sv_name :: string
  sv_type :: string
  sv_cluster_ip :: "string option"
  sv_selector :: "(string \<times> string) list"
  sv_ports :: "service_port_info list"

record endpoint_info =
  ep_target_uid :: "string option"
  ep_target_namespace :: "string option"
  ep_addresses :: "string list"
  ep_ready :: "bool option"
  ep_serving :: "bool option"
  ep_terminating :: "bool option"
  ep_node_name :: "string option"
  ep_target_kind :: "string option"
  ep_target_name :: "string option"

record endpoint_slice_info =
  es_uid :: "string option"
  es_resource_version :: "string option"
  es_service_uid :: "string option"
  es_namespace :: string
  es_name :: string
  es_service_name :: string
  es_address_type :: string
  es_endpoints :: "endpoint_info list"

record container_status_info =
  cs_name :: string
  cs_ready :: bool
  cs_restart_count :: int
  cs_image :: string
  cs_state :: string
  cs_waiting_reason :: "string option"
  cs_waiting_message :: "string option"
  cs_terminated_reason :: "string option"
  cs_terminated_exit_code :: "int option"
  cs_last_terminated_reason :: "string option"
  cs_last_terminated_exit_code :: "int option"

record pod_info =
  pi_uid :: "string option"
  pi_resource_version :: "string option"
  pi_namespace :: string
  pi_name :: string
  pi_phase :: string
  pi_ready :: bool
  pi_node_name :: "string option"
  pi_pod_ip :: "string option"
  pi_labels :: "(string \<times> string) list"
  pi_containers :: "container_status_info list"

record event_info =
  ei_namespace :: string
  ei_resource_name :: string
  ei_event_type :: "string option"
  ei_reason :: "string option"
  ei_message :: "string option"
  ei_count :: "int option"
  ei_first_seen :: "string option"
  ei_last_seen :: "string option"

record pod_log_info =
  lg_namespace :: string
  lg_pod_name :: string
  lg_container_name :: "string option"
  lg_previous :: bool
  lg_truncated :: bool
  lg_content :: string

record http_probe_info =
  hb_path :: "string option"
  hb_port :: "port option"
  hb_scheme :: "string option"

record container_config_info =
  cc_name :: string
  cc_image :: string
  cc_command :: "string list"
  cc_args :: "string list"
  cc_requests :: "(string \<times> string) list"
  cc_limits :: "(string \<times> string) list"
  cc_readiness_probe :: "http_probe_info option"
  cc_liveness_probe :: "http_probe_info option"

record deployment_info =
  di_uid :: "string option"
  di_generation :: "int option"
  di_resource_version :: "string option"
  di_namespace :: string
  di_name :: string
  di_desired_replicas :: int
  di_ready_replicas :: int
  di_available_replicas :: int
  di_unavailable_replicas :: int
  di_selector :: "(string \<times> string) list"
  di_template_labels :: "(string \<times> string) list"
  di_containers :: "container_config_info list"

record owner_chain_info =
  oc_pod_uid :: "string option"
  oc_direct_owner_uid :: "string option"
  oc_replica_set_uid :: "string option"
  oc_deployment_uid :: "string option"
  oc_namespace :: string
  oc_pod_name :: string
  oc_direct_owner_kind :: "string option"
  oc_direct_owner_name :: "string option"
  oc_replica_set_name :: "string option"
  oc_deployment_name :: "string option"

record node_condition_info =
  nc_type :: string
  nc_status :: string
  nc_reason :: "string option"
  nc_message :: "string option"

record node_info =
  ni_name :: string
  ni_ready :: bool
  ni_capacity :: "(string \<times> string) list"
  ni_allocatable :: "(string \<times> string) list"
  ni_conditions :: "node_condition_info list"

section \<open>The objects of the client\<close>

text \<open>
  The attributes the code follows. What the client library itself requires of an object is not
  optional; a datetime is its \<open>isoformat\<close> text; of a listed Pod only the name is read, which the API server always sets.
\<close>

record owner_reference =
  on_kind :: string
  on_name :: string
  on_uid :: "string option"
  on_controller :: "bool option"

record named_meta = object_meta +
  nm_name :: "string option"
  nm_labels :: "(string \<times> string) list option"
  nm_owners :: "owner_reference list option"

record raw_service_port =
  rp_name :: "string option"
  rp_port :: int
  rp_target_port :: "port option"
  rp_protocol :: "string option"

record raw_service_spec =
  rx_type :: "string option"
  rx_cluster_ip :: "string option"
  rx_selector :: "(string \<times> string) list option"
  rx_ports :: "raw_service_port list option"

record raw_service =
  rz_metadata :: "named_meta option"
  rz_spec :: "raw_service_spec option"

record target_reference =
  tr_kind :: "string option"
  tr_name :: "string option"
  tr_uid :: "string option"
  tr_namespace :: "string option"

record endpoint_conditions =
  en_ready :: "bool option"
  en_serving :: "bool option"
  en_terminating :: "bool option"

record raw_endpoint =
  re_addresses :: "string list option"
  re_conditions :: "endpoint_conditions option"
  re_target :: "target_reference option"
  re_node_name :: "string option"

record raw_slice =
  rl_metadata :: "named_meta option"
  rl_address_type :: string
  rl_endpoints :: "raw_endpoint list option"

text \<open>A container state: \<open>running\<close>, \<open>waiting\<close> (reason, message) and \<open>terminated\<close> (reason, exit code)\<close>

record container_state =
  ct_running :: bool
  ct_waiting :: "(string option \<times> string option) option"
  ct_terminated :: "(string option \<times> int) option"

record raw_container_status =
  rc_name :: string
  rc_ready :: bool
  rc_restart_count :: int
  rc_image :: string
  rc_state :: "container_state option"
  rc_last_state :: "container_state option"

record raw_pod_status =
  ry_phase :: "string option"
  ry_pod_ip :: "string option"
  ry_conditions :: "(string \<times> string) list option"
  ry_containers :: "raw_container_status list option"

record raw_pod =
  ro_metadata :: "named_meta option"
  ro_node_name :: "string option option"
  ro_status :: "raw_pod_status option"

record raw_event =
  rt_type :: "string option"
  rt_reason :: "string option"
  rt_message :: "string option"
  rt_count :: "int option"
  rt_first :: "string option"
  rt_last :: "string option"
  rt_time :: "string option"
  rt_created :: "string option"

record raw_http_get =
  rg_path :: "string option"
  rg_port :: "port option"
  rg_scheme :: "string option"

record raw_container =
  rn_name :: string
  rn_image :: "string option"
  rn_command :: "string list option"
  rn_args :: "string list option"
  rn_resources :: "((string \<times> string) list option \<times> (string \<times> string) list option) option"
  rn_readiness_probe :: "raw_http_get option option"
  rn_liveness_probe :: "raw_http_get option option"

text \<open>\<open>spec.template.spec.containers\<close> and \<open>spec.template.metadata.labels\<close>, broken off where an object is missing\<close>

record raw_deployment_spec =
  rd_replicas :: "int option"
  rd_match_labels :: "(string \<times> string) list option"
  rd_template_labels :: "(string \<times> string) list option option"
  rd_template_containers :: "raw_container list option option"

record raw_deployment_status =
  rs_ready :: "int option"
  rs_available :: "int option"
  rs_unavailable :: "int option"

record raw_deployment =
  rw_metadata :: "named_meta option"
  rw_spec :: "raw_deployment_spec option"
  rw_status :: "raw_deployment_status option"

record raw_node_status =
  ra_capacity :: "(string \<times> string) list option"
  ra_allocatable :: "(string \<times> string) list option"
  ra_conditions :: "node_condition_info list option"

record raw_node =
  rk_metadata :: "named_meta option"
  rk_status :: "raw_node_status option"

text \<open>The calls of the client that the reads make, each with the namespace first\<close>

record 'w readers =
  kr_read_service :: "string \<Rightarrow> string \<Rightarrow> ('w, raw_service) io"
  kr_list_pods :: "string \<Rightarrow> string option \<Rightarrow> ('w, string list) io"
  kr_list_slices :: "string \<Rightarrow> string \<Rightarrow> ('w, raw_slice list) io"
  kr_read_pod :: "string \<Rightarrow> string \<Rightarrow> ('w, raw_pod) io"
  kr_list_events :: "string \<Rightarrow> string \<Rightarrow> ('w, raw_event list) io"
  kr_read_log :: "string \<Rightarrow> string \<Rightarrow> string option \<Rightarrow> bool \<Rightarrow> ('w, 'w log_response) io"
  kr_read_replica_set :: "string \<Rightarrow> string \<Rightarrow> ('w, named_meta option) io"
  kr_read_deployment :: "string \<Rightarrow> string \<Rightarrow> ('w, raw_deployment) io"
  kr_read_node :: "string \<Rightarrow> ('w, raw_node) io"

section \<open>Attributes\<close>

text \<open>\<open>x.attribute\<close> on an \<open>x\<close> that may be \<open>None\<close>, and a value given to a field declared as \<open>str\<close>\<close>

definition attribute :: "'a option \<Rightarrow> 'a res" where
  "attribute x = (case x of None \<Rightarrow> Inl AttributeError | Some v \<Rightarrow> Inr v)"

definition declared :: "'a option \<Rightarrow> 'a res" where
  "declared x = (case x of None \<Rightarrow> Inl ValidationError | Some v \<Rightarrow> Inr v)"

text \<open>\<open>x or default\<close> on texts\<close>

definition or_default :: "string \<Rightarrow> string option \<Rightarrow> string" where
  "or_default d x = (case x of None \<Rightarrow> d | Some s \<Rightarrow> if s = [] then d else s)"

definition or_next :: "string option \<Rightarrow> string option \<Rightarrow> string option" where
  "or_next x y = (case x of None \<Rightarrow> y | Some s \<Rightarrow> Some s)"

section \<open>Services, Pods by name, endpoint slices\<close>

definition port_info :: "raw_service_port \<Rightarrow> service_port_info" where
  "port_info p = \<lparr>sp_name = rp_name p, sp_port = rp_port p, sp_target_port = rp_target_port p,
     sp_protocol = or_default ''TCP'' (rp_protocol p)\<rparr>"

definition service_info_of :: "string \<Rightarrow> raw_service \<Rightarrow> service_info res" where
  "service_info_of ns s =
     bindE (attribute (rz_spec s)) (\<lambda>spec.
     bindE (attribute (rz_metadata s)) (\<lambda>m.
     bindE (declared (nm_name m)) (\<lambda>name.
     bindE (declared (rx_type spec)) (\<lambda>kind. Inr
       \<lparr>sv_uid = om_uid m, sv_resource_version = om_resource_version m, sv_namespace = ns, sv_name = name,
        sv_type = kind, sv_cluster_ip = rx_cluster_ip spec, sv_selector = or_nil (rx_selector spec),
        sv_ports = map port_info (or_nil (rx_ports spec))\<rparr>))))"

definition get_service :: "'w readers \<Rightarrow> string \<Rightarrow> string \<Rightarrow> ('w, service_info) io" where
  "get_service k ns n = bindW (kr_read_service k ns n) (\<lambda>s. liftW (service_info_of ns s))"

definition list_service_pod_names :: "'w readers \<Rightarrow> string \<Rightarrow> string \<Rightarrow> ('w, string list) io" where
  "list_service_pod_names k ns n = bindW (get_service k ns n) (\<lambda>s.
     if sv_selector s = [] then returnW []
     else bindW (kr_list_pods k ns (Some (selector_to_string (sv_selector s)))) (\<lambda>pods. returnW (sort pods)))"

definition list_namespace_pod_names :: "'w readers \<Rightarrow> string \<Rightarrow> ('w, string list) io" where
  "list_namespace_pod_names k ns = bindW (kr_list_pods k ns None) (\<lambda>pods. returnW (sort pods))"

definition endpoint_info_of :: "raw_endpoint \<Rightarrow> endpoint_info" where
  "endpoint_info_of e = (let target = re_target e; conditions = re_conditions e in
     \<lparr>ep_target_uid = Option.bind target tr_uid, ep_target_namespace = Option.bind target tr_namespace,
      ep_addresses = or_nil (re_addresses e), ep_ready = Option.bind conditions en_ready,
      ep_serving = Option.bind conditions en_serving, ep_terminating = Option.bind conditions en_terminating,
      ep_node_name = re_node_name e, ep_target_kind = Option.bind target tr_kind,
      ep_target_name = Option.bind target tr_name\<rparr>)"

definition service_owner_uid :: "string \<Rightarrow> named_meta \<Rightarrow> string option" where
  "service_owner_uid svc m = Option.bind
     (find (\<lambda>r. on_kind r = ''Service'' \<and> on_name r = svc) (or_nil (nm_owners m))) on_uid"

definition slice_info_of :: "string \<Rightarrow> string \<Rightarrow> raw_slice \<Rightarrow> endpoint_slice_info res" where
  "slice_info_of ns svc s =
     bindE (attribute (rl_metadata s)) (\<lambda>m.
     bindE (declared (nm_name m)) (\<lambda>name. Inr
       \<lparr>es_uid = om_uid m, es_resource_version = om_resource_version m,
        es_service_uid = service_owner_uid svc m, es_namespace = ns, es_name = name, es_service_name = svc,
        es_address_type = rl_address_type s, es_endpoints = map endpoint_info_of (or_nil (rl_endpoints s))\<rparr>))"

definition get_service_endpoint_slices ::
  "'w readers \<Rightarrow> string \<Rightarrow> string \<Rightarrow> ('w, endpoint_slice_info list) io" where
  "get_service_endpoint_slices k ns n =
     bindW (kr_list_slices k ns (service_label n)) (\<lambda>ss. liftW (mapE (slice_info_of ns n) ss))"

section \<open>One Pod\<close>

definition container_state_values ::
  "container_state option \<Rightarrow> string \<times> string option \<times> string option \<times> string option \<times> int option" where
  "container_state_values s = (case s of
       None \<Rightarrow> (''unknown'', None, None, None, None)
     | Some c \<Rightarrow> if ct_running c then (''running'', None, None, None, None)
         else (case ct_waiting c of Some (reason, message) \<Rightarrow> (''waiting'', reason, message, None, None)
         | None \<Rightarrow> (case ct_terminated c of Some (reason, code) \<Rightarrow> (''terminated'', None, None, reason, Some code)
         | None \<Rightarrow> (''unknown'', None, None, None, None))))"

text \<open>The first condition of type \<open>Ready\<close> decides.\<close>

definition ready_condition :: "(string \<times> string) list \<Rightarrow> bool" where
  "ready_condition cs = (case find (\<lambda>c. fst c = ''Ready'') cs of None \<Rightarrow> False | Some c \<Rightarrow> snd c = ''True'')"

definition container_status_of :: "raw_container_status \<Rightarrow> container_status_info" where
  "container_status_of c =
     (case container_state_values (rc_state c) of (state, wait_reason, wait_message, end_reason, end_code) \<Rightarrow>
      let last = Option.bind (rc_last_state c) ct_terminated in
      \<lparr>cs_name = rc_name c, cs_ready = rc_ready c, cs_restart_count = rc_restart_count c, cs_image = rc_image c,
       cs_state = state, cs_waiting_reason = wait_reason, cs_waiting_message = wait_message,
       cs_terminated_reason = end_reason, cs_terminated_exit_code = end_code,
       cs_last_terminated_reason = Option.bind last fst, cs_last_terminated_exit_code = map_option snd last\<rparr>)"

definition pod_info_of :: "string \<Rightarrow> raw_pod \<Rightarrow> pod_info res" where
  "pod_info_of ns p =
     bindE (attribute (ro_status p)) (\<lambda>st.
     bindE (attribute (ro_metadata p)) (\<lambda>m.
     bindE (attribute (ro_node_name p)) (\<lambda>node.
     bindE (declared (nm_name m)) (\<lambda>name. Inr
       \<lparr>pi_uid = om_uid m, pi_resource_version = om_resource_version m, pi_namespace = ns, pi_name = name,
        pi_phase = or_default ''Unknown'' (ry_phase st), pi_ready = ready_condition (or_nil (ry_conditions st)),
        pi_node_name = node, pi_pod_ip = ry_pod_ip st, pi_labels = or_nil (nm_labels m),
        pi_containers = map container_status_of (or_nil (ry_containers st))\<rparr>))))"

definition get_pod_status :: "'w readers \<Rightarrow> string \<Rightarrow> string \<Rightarrow> ('w, pod_info) io" where
  "get_pod_status k ns n = bindW (kr_read_pod k ns n) (\<lambda>p. liftW (pod_info_of ns p))"

definition event_info_of :: "string \<Rightarrow> string \<Rightarrow> raw_event \<Rightarrow> event_info" where
  "event_info_of ns n e =
     \<lparr>ei_namespace = ns, ei_resource_name = n, ei_event_type = rt_type e, ei_reason = rt_reason e,
      ei_message = rt_message e, ei_count = rt_count e, ei_first_seen = or_next (rt_first e) (rt_created e),
      ei_last_seen = or_next (rt_last e) (or_next (rt_time e) (rt_created e))\<rparr>"

definition event_field :: "string \<Rightarrow> string" where
  "event_field n = ''involvedObject.kind=Pod,involvedObject.name='' @ n"

definition get_pod_events :: "'w readers \<Rightarrow> string \<Rightarrow> string \<Rightarrow> ('w, event_info list) io" where
  "get_pod_events k ns n = bindW (kr_list_events k ns (event_field n)) (\<lambda>es.
     returnW (sort_key (\<lambda>e. or_default [] (ei_last_seen e)) (map (event_info_of ns n) es)))"

definition get_pod_logs ::
  "'w readers \<Rightarrow> string \<Rightarrow> string \<Rightarrow> string option \<Rightarrow> bool \<Rightarrow> ('w, pod_log_info) io" where
  "get_pod_logs k ns n container previous =
     bindW (kr_read_log k ns n container previous) (\<lambda>response.
     bindW (read_log_response response) (\<lambda>text. (case sample_log_text text of (content, truncated) \<Rightarrow> returnW
       \<lparr>lg_namespace = ns, lg_pod_name = n, lg_container_name = container, lg_previous = previous,
        lg_truncated = truncated, lg_content = content\<rparr>)))"

section \<open>Owners, Deployments, nodes\<close>

definition controller_owner :: "owner_reference list option \<Rightarrow> owner_reference option" where
  "controller_owner refs = (let rs = or_nil refs in
     case find (\<lambda>r. on_controller r = Some True) rs of
       Some r \<Rightarrow> Some r
     | None \<Rightarrow> (case rs of [] \<Rightarrow> None | r # _ \<Rightarrow> Some r))"

definition unowned_chain :: "string \<Rightarrow> string \<Rightarrow> named_meta \<Rightarrow> owner_chain_info" where
  "unowned_chain ns n m = \<lparr>oc_pod_uid = om_uid m, oc_direct_owner_uid = None, oc_replica_set_uid = None,
     oc_deployment_uid = None, oc_namespace = ns, oc_pod_name = n, oc_direct_owner_kind = None,
     oc_direct_owner_name = None, oc_replica_set_name = None, oc_deployment_name = None\<rparr>"

definition directly_owned :: "owner_reference \<Rightarrow> owner_chain_info \<Rightarrow> owner_chain_info" where
  "directly_owned r c = c\<lparr>oc_direct_owner_kind := Some (on_kind r), oc_direct_owner_name := Some (on_name r),
     oc_direct_owner_uid := on_uid r\<rparr>"

definition owned_by_deployment :: "owner_reference \<Rightarrow> owner_chain_info \<Rightarrow> owner_chain_info" where
  "owned_by_deployment r c = c\<lparr>oc_deployment_name := Some (on_name r), oc_deployment_uid := on_uid r\<rparr>"

text \<open>\<open>x and y and x != y\<close> on texts\<close>

definition both_differ :: "string option \<Rightarrow> string option \<Rightarrow> bool" where
  "both_differ x y = (or_default [] x \<noteq> [] \<and> or_default [] y \<noteq> [] \<and> x \<noteq> y)"

definition replica_set_chain :: "owner_reference \<Rightarrow> named_meta \<Rightarrow> owner_chain_info \<Rightarrow> owner_chain_info res" where
  "replica_set_chain r m c =
     (if both_differ (on_uid r) (om_uid m) then Inl (PyValueError ''REPLICASET_RECREATED_DURING_COLLECTION'')
      else let c' = c\<lparr>oc_replica_set_name := Some (on_name r), oc_replica_set_uid := om_uid m\<rparr> in
        Inr (case controller_owner (nm_owners m) of
            Some d \<Rightarrow> if on_kind d = ''Deployment'' then owned_by_deployment d c' else c'
          | None \<Rightarrow> c'))"

definition resolve_pod_owner :: "'w readers \<Rightarrow> string \<Rightarrow> string \<Rightarrow> ('w, owner_chain_info) io" where
  "resolve_pod_owner k ns n =
     bindW (kr_read_pod k ns n) (\<lambda>p.
     bindW (liftW (attribute (ro_metadata p))) (\<lambda>m.
     (case controller_owner (nm_owners m) of
        None \<Rightarrow> returnW (unowned_chain ns n m)
      | Some r \<Rightarrow> (let c = directly_owned r (unowned_chain ns n m) in
          if on_kind r = ''Deployment'' then returnW (owned_by_deployment r c)
          else if on_kind r \<noteq> ''ReplicaSet'' then returnW c
          else bindW (kr_read_replica_set k ns (on_name r)) (\<lambda>meta.
               bindW (liftW (attribute meta)) (\<lambda>m'. liftW (replica_set_chain r m' c)))))))"

text \<open>\<open>{str(key): str(value) for ...}\<close>: quantities are texts already.\<close>

definition resource_values :: "(string \<times> string) list option \<Rightarrow> (string \<times> string) list" where
  "resource_values d = or_nil d"

definition http_probe_of :: "raw_http_get option option \<Rightarrow> http_probe_info option" where
  "http_probe_of p = map_option (\<lambda>h. \<lparr>hb_path = rg_path h, hb_port = rg_port h, hb_scheme = rg_scheme h\<rparr>) (Option.bind p id)"

definition container_config_of :: "raw_container \<Rightarrow> container_config_info res" where
  "container_config_of c = bindE (declared (rn_image c)) (\<lambda>image. Inr
     \<lparr>cc_name = rn_name c, cc_image = image, cc_command = or_nil (rn_command c), cc_args = or_nil (rn_args c),
      cc_requests = resource_values (Option.bind (rn_resources c) fst),
      cc_limits = resource_values (Option.bind (rn_resources c) snd),
      cc_readiness_probe = http_probe_of (rn_readiness_probe c), cc_liveness_probe = http_probe_of (rn_liveness_probe c)\<rparr>)"

definition deployment_info_of :: "string \<Rightarrow> raw_deployment \<Rightarrow> deployment_info res" where
  "deployment_info_of ns d =
     bindE (attribute (rw_spec d)) (\<lambda>spec.
     bindE (attribute (rd_template_containers spec)) (\<lambda>containers.
     bindE (mapE container_config_of (or_nil containers)) (\<lambda>configs.
     bindE (attribute (rw_metadata d)) (\<lambda>m.
     bindE (attribute (rw_status d)) (\<lambda>st.
     bindE (attribute (rd_template_labels spec)) (\<lambda>labels.
     bindE (declared (nm_name m)) (\<lambda>name. Inr
       \<lparr>di_uid = om_uid m, di_generation = om_generation m, di_resource_version = om_resource_version m,
        di_namespace = ns, di_name = name, di_desired_replicas = or_zero (rd_replicas spec),
        di_ready_replicas = or_zero (rs_ready st), di_available_replicas = or_zero (rs_available st),
        di_unavailable_replicas = or_zero (rs_unavailable st), di_selector = or_nil (rd_match_labels spec),
        di_template_labels = or_nil labels, di_containers = configs\<rparr>)))))))"

definition get_deployment_config :: "'w readers \<Rightarrow> string \<Rightarrow> string \<Rightarrow> ('w, deployment_info) io" where
  "get_deployment_config k ns n = bindW (kr_read_deployment k ns n) (\<lambda>d. liftW (deployment_info_of ns d))"

definition node_info_of :: "raw_node \<Rightarrow> node_info res" where
  "node_info_of n =
     bindE (attribute (rk_status n)) (\<lambda>st.
     bindE (attribute (rk_metadata n)) (\<lambda>m.
     bindE (declared (nm_name m)) (\<lambda>name. Inr
       \<lparr>ni_name = name,
        ni_ready = list_ex (\<lambda>c. nc_type c = ''Ready'' \<and> nc_status c = ''True'') (or_nil (ra_conditions st)),
        ni_capacity = resource_values (ra_capacity st), ni_allocatable = resource_values (ra_allocatable st),
        ni_conditions = or_nil (ra_conditions st)\<rparr>)))"

definition get_node_status :: "'w readers \<Rightarrow> string \<Rightarrow> ('w, node_info) io" where
  "get_node_status k n = bindW (kr_read_node k n) (\<lambda>v. liftW (node_info_of v))"

end
