(* ===== verification/EvidenceCollector.thy ===== *)
theory EvidenceCollector
  imports Readings
begin

text \<open>
  \<open>backend/app/tools/evidence_collector.py\<close>: all readings about one service in a bundle. A read that
  fails is noted in the bundle and the collection goes on. The text of an exception is a parameter.
\<close>

section \<open>The bundle\<close>

record collection_error_info =
  ce_operation :: string
  ce_resource_kind :: string
  ce_resource_name :: string
  ce_message :: string
  ce_status_code :: "int option"

record evidence_bundle =
  eb_namespace :: string
  eb_service_name :: string
  eb_service :: "service_info option"
  eb_service_pods :: "string list"
  eb_namespace_pods :: "string list"
  eb_slices :: "endpoint_slice_info list"
  eb_statuses :: "(string \<times> pod_info) list"
  eb_events :: "(string \<times> event_info list) list"
  eb_logs :: "pod_log_info list"
  eb_owners :: "(string \<times> owner_chain_info) list"
  eb_deployments :: "(string \<times> deployment_info) list"
  eb_nodes :: "(string \<times> node_info) list"
  eb_errors :: "collection_error_info list"

definition empty_bundle :: "string \<Rightarrow> string \<Rightarrow> evidence_bundle" where
  "empty_bundle ns svc = \<lparr>eb_namespace = ns, eb_service_name = svc, eb_service = None, eb_service_pods = [],
     eb_namespace_pods = [], eb_slices = [], eb_statuses = [], eb_events = [], eb_logs = [], eb_owners = [],
     eb_deployments = [], eb_nodes = [], eb_errors = []\<rparr>"

text \<open>\<open>error.status\<close> of an \<open>ApiException\<close>\<close>

fun api_status :: "exn \<Rightarrow> int option" where
  "api_status (ApiException n _) = Some n"
| "api_status _ = None"

definition record_error ::
  "(exn \<Rightarrow> string) \<Rightarrow> string \<Rightarrow> string \<Rightarrow> string \<Rightarrow> exn \<Rightarrow> evidence_bundle \<Rightarrow> evidence_bundle" where
  "record_error et op kind name e b = b\<lparr>eb_errors := eb_errors b @
     [\<lparr>ce_operation = op, ce_resource_kind = kind, ce_resource_name = name, ce_message = et e,
       ce_status_code = api_status e\<rparr>]\<rparr>"

definition restarted :: "pod_info \<Rightarrow> bool" where
  "restarted p = list_ex (\<lambda>c. cs_restart_count c > 0) (pi_containers p)"

definition pod_may_have_logs :: "pod_info \<Rightarrow> bool" where
  "pod_may_have_logs p = list_ex (\<lambda>c. cs_state c = ''running'' \<or> cs_state c = ''terminated'' \<or> cs_restart_count c > 0)
     (pi_containers p)"

definition pod_is_abnormal :: "pod_info \<Rightarrow> bool" where
  "pod_is_abnormal p = (pi_phase p \<noteq> ''Running'' \<or> \<not> pi_ready p \<or> restarted p)"

section \<open>One read\<close>

text \<open>\<open>try: keep(read()) except Exception: _record_error(...)\<close>; what was read is returned as well.\<close>

definition attempt ::
  "(exn \<Rightarrow> string) \<Rightarrow> string \<Rightarrow> string \<Rightarrow> string \<Rightarrow> ('w, 'a) io \<Rightarrow> ('a \<Rightarrow> evidence_bundle \<Rightarrow> evidence_bundle)
    \<Rightarrow> evidence_bundle \<Rightarrow> ('w, 'a option \<times> evidence_bundle) io" where
  "attempt et op kind name m keep b = bindW (tryW m) (\<lambda>r. returnW (case r of
       Inl e \<Rightarrow> (None, record_error et op kind name e b)
     | Inr x \<Rightarrow> (Some x, keep x b)))"

definition skip_read :: "evidence_bundle \<Rightarrow> ('w, 'a option \<times> evidence_bundle) io" where
  "skip_read b = returnW (None, b)"

section \<open>The service\<close>

definition collect_namespace_pods ::
  "(exn \<Rightarrow> string) \<Rightarrow> 'w readers \<Rightarrow> string \<Rightarrow> evidence_bundle \<Rightarrow> ('w, string list option \<times> evidence_bundle) io" where
  "collect_namespace_pods et k ns = attempt et ''list_namespace_pods'' ''Namespace'' ns
     (list_namespace_pod_names k ns) (\<lambda>x b. b\<lparr>eb_namespace_pods := x\<rparr>)"

definition collect_service ::
  "(exn \<Rightarrow> string) \<Rightarrow> 'w readers \<Rightarrow> string \<Rightarrow> string \<Rightarrow> evidence_bundle \<Rightarrow> ('w, service_info option \<times> evidence_bundle) io" where
  "collect_service et k ns svc = attempt et ''get_service'' ''Service'' svc
     (get_service k ns svc) (\<lambda>x b. b\<lparr>eb_service := Some x\<rparr>)"

definition collect_service_pods ::
  "(exn \<Rightarrow> string) \<Rightarrow> 'w readers \<Rightarrow> string \<Rightarrow> string \<Rightarrow> evidence_bundle \<Rightarrow> ('w, string list option \<times> evidence_bundle) io" where
  "collect_service_pods et k ns svc b = (if eb_service b = None then skip_read b
     else attempt et ''list_service_pods'' ''Service'' svc
       (list_service_pod_names k ns svc) (\<lambda>x b. b\<lparr>eb_service_pods := x\<rparr>) b)"

definition collect_slices ::
  "(exn \<Rightarrow> string) \<Rightarrow> 'w readers \<Rightarrow> string \<Rightarrow> string \<Rightarrow> evidence_bundle
    \<Rightarrow> ('w, endpoint_slice_info list option \<times> evidence_bundle) io" where
  "collect_slices et k ns svc b = (if eb_service b = None then skip_read b
     else attempt et ''get_endpoint_slices'' ''Service'' svc
       (get_service_endpoint_slices k ns svc) (\<lambda>x b. b\<lparr>eb_slices := x\<rparr>) b)"

section \<open>One Pod\<close>

definition collect_status ::
  "(exn \<Rightarrow> string) \<Rightarrow> 'w readers \<Rightarrow> string \<Rightarrow> string \<Rightarrow> evidence_bundle \<Rightarrow> ('w, pod_info option \<times> evidence_bundle) io" where
  "collect_status et k ns n = attempt et ''get_pod_status'' ''Pod'' n
     (get_pod_status k ns n) (\<lambda>x b. b\<lparr>eb_statuses := put (eb_statuses b) n x\<rparr>)"

definition collect_events ::
  "(exn \<Rightarrow> string) \<Rightarrow> 'w readers \<Rightarrow> string \<Rightarrow> bool \<Rightarrow> string \<Rightarrow> evidence_bundle
    \<Rightarrow> ('w, event_info list option \<times> evidence_bundle) io" where
  "collect_events et k ns details n b = (if \<not> details then skip_read b
     else attempt et ''get_pod_events'' ''Pod'' n
       (get_pod_events k ns n) (\<lambda>x b. b\<lparr>eb_events := put (eb_events b) n x\<rparr>) b)"

definition collect_log ::
  "(exn \<Rightarrow> string) \<Rightarrow> 'w readers \<Rightarrow> string \<Rightarrow> string \<Rightarrow> string \<Rightarrow> bool \<Rightarrow> evidence_bundle
    \<Rightarrow> ('w, pod_log_info option \<times> evidence_bundle) io" where
  "collect_log et k ns op n previous = attempt et op ''Pod'' n
     (get_pod_logs k ns n None previous) (\<lambda>x b. b\<lparr>eb_logs := eb_logs b @ [x]\<rparr>)"

definition wants_logs :: "bool \<Rightarrow> pod_info option \<Rightarrow> bool" where
  "wants_logs details status = (case status of None \<Rightarrow> False
     | Some p \<Rightarrow> details \<and> pod_is_abnormal p \<and> pod_may_have_logs p)"

definition wants_previous :: "bool \<Rightarrow> pod_info option \<Rightarrow> bool" where
  "wants_previous details status = (wants_logs details status \<and> (case status of None \<Rightarrow> False | Some p \<Rightarrow> restarted p))"

definition collect_logs ::
  "(exn \<Rightarrow> string) \<Rightarrow> 'w readers \<Rightarrow> string \<Rightarrow> bool \<Rightarrow> string \<Rightarrow> pod_info option \<Rightarrow> evidence_bundle
    \<Rightarrow> ('w, pod_log_info option \<times> evidence_bundle) io" where
  "collect_logs et k ns details n status b =
     bindW (if wants_logs details status then collect_log et k ns ''get_current_logs'' n False b else skip_read b) (\<lambda>x.
     if wants_previous details status then collect_log et k ns ''get_previous_logs'' n True (snd x) else skip_read (snd x))"

definition collect_owner ::
  "(exn \<Rightarrow> string) \<Rightarrow> 'w readers \<Rightarrow> string \<Rightarrow> string \<Rightarrow> evidence_bundle
    \<Rightarrow> ('w, owner_chain_info option \<times> evidence_bundle) io" where
  "collect_owner et k ns n = attempt et ''resolve_pod_owner'' ''Pod'' n
     (resolve_pod_owner k ns n) (\<lambda>x b. b\<lparr>eb_owners := put (eb_owners b) n x\<rparr>)"

definition collect_deployment ::
  "(exn \<Rightarrow> string) \<Rightarrow> 'w readers \<Rightarrow> string \<Rightarrow> owner_chain_info option \<Rightarrow> evidence_bundle
    \<Rightarrow> ('w, deployment_info option \<times> evidence_bundle) io" where
  "collect_deployment et k ns chain b = (case Option.bind chain oc_deployment_name of
       None \<Rightarrow> skip_read b
     | Some d \<Rightarrow> if d \<in> fst ` set (eb_deployments b) then skip_read b
         else attempt et ''get_deployment_config'' ''Deployment'' d
           (get_deployment_config k ns d) (\<lambda>x b. b\<lparr>eb_deployments := put (eb_deployments b) d x\<rparr>) b)"

definition collect_node ::
  "(exn \<Rightarrow> string) \<Rightarrow> 'w readers \<Rightarrow> pod_info option \<Rightarrow> evidence_bundle \<Rightarrow> ('w, node_info option \<times> evidence_bundle) io" where
  "collect_node et k status b = (case Option.bind status pi_node_name of
       None \<Rightarrow> skip_read b
     | Some n \<Rightarrow> if n \<in> fst ` set (eb_nodes b) then skip_read b
         else attempt et ''get_node_status'' ''Node'' n
           (get_node_status k n) (\<lambda>x b. b\<lparr>eb_nodes := put (eb_nodes b) n x\<rparr>) b)"

definition collect_pod ::
  "(exn \<Rightarrow> string) \<Rightarrow> 'w readers \<Rightarrow> string \<Rightarrow> bool \<Rightarrow> string \<Rightarrow> evidence_bundle \<Rightarrow> ('w, evidence_bundle) io" where
  "collect_pod et k ns details n b =
     bindW (collect_status et k ns n b) (\<lambda>status.
     bindW (collect_events et k ns details n (snd status)) (\<lambda>events.
     bindW (collect_logs et k ns details n (fst status) (snd events)) (\<lambda>logs.
     bindW (collect_owner et k ns n (snd logs)) (\<lambda>chain.
     bindW (collect_deployment et k ns (fst chain) (snd chain)) (\<lambda>deployment.
     bindW (collect_node et k (fst status) (snd deployment)) (\<lambda>node. returnW (snd node)))))))"

fun collect_pods ::
  "(exn \<Rightarrow> string) \<Rightarrow> 'w readers \<Rightarrow> string \<Rightarrow> bool \<Rightarrow> string list \<Rightarrow> evidence_bundle \<Rightarrow> ('w, evidence_bundle) io" where
  "collect_pods et k ns details [] b = returnW b"
| "collect_pods et k ns details (n # rest) b = bindW (collect_pod et k ns details n b) (collect_pods et k ns details rest)"

definition pods_examined :: "evidence_bundle \<Rightarrow> string list" where
  "pods_examined b = (if eb_service_pods b \<noteq> [] then eb_service_pods b else eb_namespace_pods b)"

definition collect_service_evidence ::
  "(exn \<Rightarrow> string) \<Rightarrow> 'w readers \<Rightarrow> string \<Rightarrow> string \<Rightarrow> bool \<Rightarrow> ('w, evidence_bundle) io" where
  "collect_service_evidence et k ns svc details =
     bindW (collect_namespace_pods et k ns (empty_bundle ns svc)) (\<lambda>listed.
     bindW (collect_service et k ns svc (snd listed)) (\<lambda>service.
     bindW (collect_service_pods et k ns svc (snd service)) (\<lambda>chosen.
     bindW (collect_slices et k ns svc (snd chosen)) (\<lambda>slices.
     collect_pods et k ns details (pods_examined (snd slices)) (snd slices)))))"

section \<open>Computations that do not raise\<close>

definition sure :: "('w, 'a) io \<Rightarrow> ('a \<Rightarrow> bool) \<Rightarrow> bool" where
  "sure m Q = (\<forall>w. \<exists>x w'. m w = (Inr x, w') \<and> Q x)"

lemma sureD: "sure m Q \<Longrightarrow> m w = (r, w') \<Longrightarrow> \<exists>x. r = Inr x \<and> Q x"
  unfolding sure_def by (metis prod.inject)

lemma sure_weaken: "sure m Q \<Longrightarrow> (\<And>x. Q x \<Longrightarrow> R x) \<Longrightarrow> sure m R"
  unfolding sure_def by metis

lemma sure_return: "Q x \<Longrightarrow> sure (returnW x) Q"
  by (simp add: sure_def returnW_def)

lemma sure_bind: "sure m Q \<Longrightarrow> (\<And>x. Q x \<Longrightarrow> sure (f x) R) \<Longrightarrow> sure (bindW m f) R"
  unfolding sure_def bindW_def by (metis (mono_tags, lifting) case_prod_conv sum.case(2))

lemma sure_attempt:
  assumes "\<And>x. Q (Some x, keep x b)" and "\<And>e. Q (None, record_error et op kind name e b)"
  shows "sure (attempt et op kind name m keep b) Q"
  using assms by (auto simp: sure_def attempt_def bindW_def tryW_def returnW_def split: prod.splits sum.splits)

lemma sure_skip: "Q (None, b) \<Longrightarrow> sure (skip_read b) Q"
  by (simp add: skip_read_def sure_return)

section \<open>The shape of a bundle\<close>

text \<open>Every name of the first list was read or has an error of this operation.\<close>

definition read_or_noted :: "string \<Rightarrow> string list \<Rightarrow> string list \<Rightarrow> evidence_bundle \<Rightarrow> bool" where
  "read_or_noted op names keys b = list_all (\<lambda>n. n \<in> set keys
     \<or> list_ex (\<lambda>e. ce_operation e = op \<and> ce_resource_name e = n) (eb_errors b)) names"

definition keys_within :: "(string \<times> 'a) list \<Rightarrow> string list \<Rightarrow> bool" where
  "keys_within d names = (distinct (map fst d) \<and> set (map fst d) \<subseteq> set names)"

definition statuses_collected :: "string list \<Rightarrow> evidence_bundle \<Rightarrow> bool" where
  "statuses_collected names b = (keys_within (eb_statuses b) names
     \<and> read_or_noted ''get_pod_status'' names (map fst (eb_statuses b)) b)"

definition owners_collected :: "string list \<Rightarrow> evidence_bundle \<Rightarrow> bool" where
  "owners_collected names b = (keys_within (eb_owners b) names
     \<and> read_or_noted ''resolve_pod_owner'' names (map fst (eb_owners b)) b)"

definition events_collected :: "string list \<Rightarrow> evidence_bundle \<Rightarrow> bool" where
  "events_collected names b = (keys_within (eb_events b) names
     \<and> read_or_noted ''get_pod_events'' names (map fst (eb_events b)) b)"

text \<open>A log was read for its Pod, a previous one after a restart only.\<close>

definition log_wanted :: "bool \<Rightarrow> evidence_bundle \<Rightarrow> pod_log_info \<Rightarrow> bool" where
  "log_wanted details b l = list_ex (\<lambda>(n, p). n = lg_pod_name l
     \<and> (if lg_previous l then wants_previous details (Some p) else wants_logs details (Some p))) (eb_statuses b)"

definition logs_collected :: "bool \<Rightarrow> evidence_bundle \<Rightarrow> bool" where
  "logs_collected details b = list_all (log_wanted details b) (eb_logs b)"

definition deployments_collected :: "evidence_bundle \<Rightarrow> bool" where
  "deployments_collected b = (distinct (map fst (eb_deployments b))
     \<and> list_all (\<lambda>d. list_ex (\<lambda>x. oc_deployment_name (snd x) = Some d) (eb_owners b)) (map fst (eb_deployments b)))"

definition nodes_collected :: "evidence_bundle \<Rightarrow> bool" where
  "nodes_collected b = (distinct (map fst (eb_nodes b))
     \<and> list_all (\<lambda>n. list_ex (\<lambda>x. pi_node_name (snd x) = Some n) (eb_statuses b)) (map fst (eb_nodes b)))"

definition service_collected :: "evidence_bundle \<Rightarrow> bool" where
  "service_collected b = (eb_service b = None \<longrightarrow> eb_service_pods b = [] \<and> eb_slices b = [])"

text \<open>The bundle after the statuses, the events and the owners of the named Pods have been read.\<close>

definition collected_so_far ::
  "bool \<Rightarrow> string list \<Rightarrow> string list \<Rightarrow> string list \<Rightarrow> evidence_bundle \<Rightarrow> bool" where
  "collected_so_far details statuses events owners b =
     (statuses_collected statuses b \<and> events_collected (if details then events else []) b \<and> owners_collected owners b
      \<and> logs_collected details b \<and> deployments_collected b \<and> nodes_collected b \<and> service_collected b)"

definition well_collected :: "bool \<Rightarrow> evidence_bundle \<Rightarrow> bool" where
  "well_collected details b =
     collected_so_far details (pods_examined b) (pods_examined b) (pods_examined b) b"

lemma put_fresh: "n \<notin> fst ` set d \<Longrightarrow> put d n v = d @ [(n, v)]"
  by (induction d) auto

lemma record_error_simps [simp]:
  "eb_statuses (record_error et op kind name e b) = eb_statuses b"
  "eb_events (record_error et op kind name e b) = eb_events b"
  "eb_logs (record_error et op kind name e b) = eb_logs b"
  "eb_owners (record_error et op kind name e b) = eb_owners b"
  "eb_deployments (record_error et op kind name e b) = eb_deployments b"
  "eb_nodes (record_error et op kind name e b) = eb_nodes b"
  "eb_service (record_error et op kind name e b) = eb_service b"
  "eb_service_pods (record_error et op kind name e b) = eb_service_pods b"
  "eb_namespace_pods (record_error et op kind name e b) = eb_namespace_pods b"
  "eb_slices (record_error et op kind name e b) = eb_slices b"
  by (simp_all add: record_error_def)

lemma read_or_noted_Cons:
  "read_or_noted op (n # ns) keys b = ((n \<in> set keys
     \<or> list_ex (\<lambda>e. ce_operation e = op \<and> ce_resource_name e = n) (eb_errors b)) \<and> read_or_noted op ns keys b)"
  by (simp add: read_or_noted_def)

end
