(* ===== verification/RuleDiagnosis.thy ===== *)
theory RuleDiagnosis
  imports EvidenceCollector
begin

text \<open>
  \<open>backend/app/diagnosis/rules.py\<close>, \<open>engine.py\<close> and \<open>backend/app/schemas/diagnosis.py\<close>: the diagnosis by rules
  over a collected bundle, without a model. The text \<open>repr\<close> gives a string is a parameter.
\<close>

section \<open>The result\<close>

datatype rule_category = Healthy | ServiceNotFound | SelectorMismatch | ImagePullError | OomKilled | CrashLoop
  | ReadinessProbeError | UnknownFault

datatype diagnosis_status = StatusHealthy | StatusUnhealthy | StatusUnknown

datatype evidence_source = FromService | FromPod | FromEvent | FromDeployment | FromSlice | FromCollector

record evidence_reference =
  xr_evidence_id :: string
  xr_source :: evidence_source
  xr_resource_name :: string
  xr_summary :: string

record diagnosis_result =
  xd_namespace :: string
  xd_service_name :: string
  xd_status :: diagnosis_status
  xd_category :: rule_category
  xd_root_cause :: string
  xd_confidence :: rat
  xd_evidence :: "evidence_reference list"
  xd_action :: "string option"
  xd_requires_approval :: bool

text \<open>The constraint of \<open>DiagnosisResult\<close>\<close>

definition result_valid :: "diagnosis_result \<Rightarrow> bool" where
  "result_valid r = (0 \<le> xd_confidence r \<and> xd_confidence r \<le> 1)"

definition make_result ::
  "evidence_bundle \<Rightarrow> diagnosis_status \<Rightarrow> rule_category \<Rightarrow> string \<Rightarrow> rat \<Rightarrow> evidence_reference list
    \<Rightarrow> string option \<Rightarrow> bool \<Rightarrow> diagnosis_result" where
  "make_result b status category cause confidence evidence action approval =
     \<lparr>xd_namespace = eb_namespace b, xd_service_name = eb_service_name b, xd_status = status, xd_category = category,
      xd_root_cause = cause, xd_confidence = confidence, xd_evidence = evidence, xd_action = action,
      xd_requires_approval = approval\<rparr>"

definition pod_reference :: "pod_info \<Rightarrow> string \<Rightarrow> evidence_reference" where
  "pod_reference p text = \<lparr>xr_evidence_id = ''pod_status:'' @ pi_name p, xr_source = FromPod,
     xr_resource_name = pi_name p, xr_summary = text\<rparr>"

section \<open>Texts\<close>

text \<open>\<open>f"{x}"\<close> of an optional text or number and of a dictionary of texts\<close>

definition shown :: "string option \<Rightarrow> string" where
  "shown x = (case x of None \<Rightarrow> ''None'' | Some s \<Rightarrow> s)"

definition shown_int :: "int option \<Rightarrow> string" where
  "shown_int x = (case x of None \<Rightarrow> ''None'' | Some n \<Rightarrow> int_text n)"

definition shown_dict :: "(string \<Rightarrow> string) \<Rightarrow> (string \<times> string) list \<Rightarrow> string" where
  "shown_dict rp d = ''{'' @ join_with '', '' (map (\<lambda>(k, v). rp k @ '': '' @ rp v) d) @ ''}''"

definition shown_repr :: "(string \<Rightarrow> string) \<Rightarrow> string option \<Rightarrow> string" where
  "shown_repr rp x = (case x of None \<Rightarrow> ''None'' | Some s \<Rightarrow> rp s)"

section \<open>The rules\<close>

definition ready_addresses :: "evidence_bundle \<Rightarrow> nat" where
  "ready_addresses b = sum_list (map (\<lambda>e. if ep_ready e = Some True then max (length (ep_addresses e)) 1 else 0)
     (concat (map es_endpoints (eb_slices b))))"

definition service_not_found_rule :: "(string \<Rightarrow> string) \<Rightarrow> evidence_bundle \<Rightarrow> diagnosis_result option" where
  "service_not_found_rule rp b =
     (case find (\<lambda>e. ce_operation e = ''get_service'' \<and> ce_status_code e = Some 404) (eb_errors b) of
        None \<Rightarrow> None
      | Some _ \<Rightarrow> Some (make_result b StatusUnhealthy ServiceNotFound
          (''Service '' @ rp (eb_service_name b) @ '' does not exist in namespace '' @ rp (eb_namespace b) @ ''.'') 1
          [\<lparr>xr_evidence_id = ''collector:get_service'', xr_source = FromCollector,
            xr_resource_name = eb_service_name b, xr_summary = ''Kubernetes API returned HTTP 404.''\<rparr>]
          (Some ''verify_service_name'') False))"

definition selector_evidence :: "(string \<Rightarrow> string) \<Rightarrow> evidence_bundle \<Rightarrow> service_info \<Rightarrow> evidence_reference list" where
  "selector_evidence rp b s =
     [\<lparr>xr_evidence_id = ''service:'' @ sv_name s, xr_source = FromService, xr_resource_name = sv_name s,
       xr_summary = ''selector='' @ shown_dict rp (sv_selector s) @ ''; matched_pods=0''\<rparr>,
      \<lparr>xr_evidence_id = ''namespace:pods'', xr_source = FromPod, xr_resource_name = eb_namespace b,
       xr_summary = join_with ''; '' (map (\<lambda>(_, p). pi_name p @ '' labels='' @ shown_dict rp (pi_labels p)) (eb_statuses b))\<rparr>,
      \<lparr>xr_evidence_id = ''endpoint_slice:ready_count'', xr_source = FromSlice, xr_resource_name = sv_name s,
       xr_summary = ''ready_endpoint_count=0''\<rparr>]"

definition selector_mismatch_rule :: "(string \<Rightarrow> string) \<Rightarrow> evidence_bundle \<Rightarrow> diagnosis_result option" where
  "selector_mismatch_rule rp b = (case eb_service b of None \<Rightarrow> None | Some s \<Rightarrow>
     if sv_selector s = [] then None
     else if eb_service_pods b \<noteq> [] then None
     else if eb_namespace_pods b = [] then None
     else if ready_addresses b > 0 then None
     else Some (make_result b StatusUnhealthy SelectorMismatch
       (''Service selector '' @ shown_dict rp (sv_selector s) @ '' matches no Pods, although Pods exist in the namespace.'')
       (98/100) (selector_evidence rp b s) (Some ''patch_service_selector'') True))"

text \<open>All containers with their Pods, in the order of the two loops\<close>

definition all_containers :: "evidence_bundle \<Rightarrow> (pod_info \<times> container_status_info) list" where
  "all_containers b = concat (map (\<lambda>(_, p). map (Pair p) (pi_containers p)) (eb_statuses b))"

definition first_container ::
  "(container_status_info \<Rightarrow> bool) \<Rightarrow> evidence_bundle \<Rightarrow> (pod_info \<times> container_status_info) option" where
  "first_container P b = find (\<lambda>x. P (snd x)) (all_containers b)"

text \<open>\<open>last_terminated_reason or terminated_reason\<close>\<close>

definition end_reason :: "container_status_info \<Rightarrow> string option" where
  "end_reason c = (if or_default [] (cs_last_terminated_reason c) \<noteq> [] then cs_last_terminated_reason c
     else cs_terminated_reason c)"

definition oom_exit_code :: "container_status_info \<Rightarrow> int option" where
  "oom_exit_code c = (if cs_last_terminated_reason c = Some ''OOMKilled'' then cs_last_terminated_exit_code c
     else cs_terminated_exit_code c)"

definition oom_killed_rule :: "(string \<Rightarrow> string) \<Rightarrow> evidence_bundle \<Rightarrow> diagnosis_result option" where
  "oom_killed_rule rp b = (case first_container (\<lambda>c. end_reason c = Some ''OOMKilled'') b of
       None \<Rightarrow> None
     | Some (p, c) \<Rightarrow> Some (make_result b StatusUnhealthy OomKilled
         (''Container '' @ rp (cs_name c) @ '' in Pod '' @ rp (pi_name p)
           @ '' was terminated because it exceeded its memory limit.'') (99/100)
         [pod_reference p (''container='' @ cs_name c @ ''; reason=OOMKilled; exit_code='' @ shown_int (oom_exit_code c)
           @ ''; restart_count='' @ int_text (cs_restart_count c))]
         (Some ''review_memory_limit'') False))"

definition pull_reasons :: "string list" where
  "pull_reasons = [''ErrImagePull'', ''ImagePullBackOff'', ''InvalidImageName'', ''RegistryUnavailable'']"

definition image_pull_rule :: "(string \<Rightarrow> string) \<Rightarrow> evidence_bundle \<Rightarrow> diagnosis_result option" where
  "image_pull_rule rp b = (case first_container (\<lambda>c. cs_waiting_reason c \<in> Some ` set pull_reasons) b of
       None \<Rightarrow> None
     | Some (p, c) \<Rightarrow> Some (make_result b StatusUnhealthy ImagePullError
         (''Container '' @ rp (cs_name c) @ '' in Pod '' @ rp (pi_name p) @ '' cannot pull image '' @ rp (cs_image c) @ ''.'')
         (99/100)
         [pod_reference p (''container='' @ cs_name c @ ''; image='' @ cs_image c @ ''; waiting_reason=''
           @ shown (cs_waiting_reason c) @ ''; message='' @ shown (cs_waiting_message c))]
         (Some ''verify_image_reference_and_registry'') False))"

definition crash_loop_rule :: "(string \<Rightarrow> string) \<Rightarrow> evidence_bundle \<Rightarrow> diagnosis_result option" where
  "crash_loop_rule rp b = (case first_container (\<lambda>c. cs_waiting_reason c = Some ''CrashLoopBackOff'') b of
       None \<Rightarrow> None
     | Some (p, c) \<Rightarrow> Some (make_result b StatusUnhealthy CrashLoop
         (''Container '' @ rp (cs_name c) @ '' in Pod '' @ rp (pi_name p) @ '' repeatedly exits and is being restarted.'')
         (97/100)
         [pod_reference p (''container='' @ cs_name c @ ''; waiting_reason=CrashLoopBackOff; restart_count=''
           @ int_text (cs_restart_count c))]
         (Some ''inspect_previous_logs'') False))"

section \<open>The readiness rule\<close>

text \<open>\<open>text in message\<close>\<close>

fun contains_text :: "string \<Rightarrow> string \<Rightarrow> bool" where
  "contains_text t [] = (t = [])"
| "contains_text t (c # s) = (starts_with t (c # s) \<or> contains_text t s)"

definition probe_failure :: "event_info \<Rightarrow> bool" where
  "probe_failure e = (ei_reason e = Some ''Unhealthy''
     \<and> contains_text ''readiness probe failed'' (map ascii_lower (or_default [] (ei_message e))))"

text \<open>The last such event of the Pod: the loop keeps overwriting its variable.\<close>

definition probe_event :: "evidence_bundle \<Rightarrow> string \<Rightarrow> event_info option" where
  "probe_event b n = (case map_of (eb_events b) n of None \<Rightarrow> None | Some es \<Rightarrow> find probe_failure (rev es))"

definition not_ready_pod :: "evidence_bundle \<Rightarrow> string \<times> pod_info \<Rightarrow> bool" where
  "not_ready_pod b x = (pi_phase (snd x) = ''Running'' \<and> \<not> pi_ready (snd x) \<and> probe_event b (fst x) \<noteq> None)"

definition owning_deployment :: "evidence_bundle \<Rightarrow> string \<Rightarrow> string option" where
  "owning_deployment b n = Option.bind (map_of (eb_owners b) n) oc_deployment_name"

definition failing_probe_path :: "evidence_bundle \<Rightarrow> string option \<Rightarrow> string option" where
  "failing_probe_path b d = (case Option.bind d (map_of (eb_deployments b)) of
       None \<Rightarrow> None
     | Some x \<Rightarrow> (case find (\<lambda>c. cc_readiness_probe c \<noteq> None) (di_containers x) of
           None \<Rightarrow> None | Some c \<Rightarrow> Option.bind (cc_readiness_probe c) hb_path))"

definition readiness_evidence :: "evidence_bundle \<Rightarrow> pod_info \<Rightarrow> event_info \<Rightarrow> string option \<Rightarrow> evidence_reference list" where
  "readiness_evidence b p e d =
     [pod_reference p (''phase=Running; ready=False; ready_endpoint_count='' @ decimal (ready_addresses b)),
      \<lparr>xr_evidence_id = ''event:'' @ pi_name p @ '':readiness'', xr_source = FromEvent,
       xr_resource_name = pi_name p, xr_summary = or_default [] (ei_message e)\<rparr>]
     @ (case d of None \<Rightarrow> [] | Some n \<Rightarrow>
         [\<lparr>xr_evidence_id = ''deployment:'' @ n @ '':probe'', xr_source = FromDeployment, xr_resource_name = n,
           xr_summary = ''readiness_probe_path='' @ shown (failing_probe_path b d)\<rparr>])"

definition readiness_probe_rule :: "(string \<Rightarrow> string) \<Rightarrow> evidence_bundle \<Rightarrow> diagnosis_result option" where
  "readiness_probe_rule rp b = (case find (not_ready_pod b) (eb_statuses b) of
       None \<Rightarrow> None
     | Some (n, p) \<Rightarrow> (case probe_event b n of
         None \<Rightarrow> None
       | Some e \<Rightarrow> (let d = owning_deployment b n in Some (make_result b StatusUnhealthy ReadinessProbeError
           (''Pod '' @ rp (pi_name p) @ '' is running but its readiness probe at '' @ shown_repr rp (failing_probe_path b d)
             @ '' is failing.'') (98/100)
           (readiness_evidence b p e d) (Some ''patch_readiness_probe'') True))))"

section \<open>Health, and the engine\<close>

definition known_pods :: "evidence_bundle \<Rightarrow> pod_info list" where
  "known_pods b = List.map_filter (map_of (eb_statuses b)) (eb_service_pods b)"

definition healthy_rule :: "(string \<Rightarrow> string) \<Rightarrow> evidence_bundle \<Rightarrow> diagnosis_result option" where
  "healthy_rule rp b = (case eb_service b of None \<Rightarrow> None | Some s \<Rightarrow>
     if eb_service_pods b = [] then None
     else if known_pods b = [] then None
     else if \<not> list_all (\<lambda>p. pi_phase p = ''Running'' \<and> pi_ready p) (known_pods b) then None
     else if ready_addresses b = 0 then None
     else Some (make_result b StatusHealthy Healthy
       ''Service has running and ready Pods and at least one ready EndpointSlice address.'' 1
       [\<lparr>xr_evidence_id = ''service:'' @ sv_name s @ '':healthy'', xr_source = FromService, xr_resource_name = sv_name s,
         xr_summary = ''ready_pods='' @ decimal (length (known_pods b)) @ ''; ready_endpoints='' @ decimal (ready_addresses b)\<rparr>]
       None False))"

definition unknown_rule :: "evidence_bundle \<Rightarrow> diagnosis_result" where
  "unknown_rule b =
     (let errors = join_with ''; '' (map (\<lambda>e. ce_operation e @ '': '' @ ce_message e) (take 3 (eb_errors b)));
          cause = ''The collected evidence does not match a supported diagnostic rule.''
      in make_result b StatusUnknown UnknownFault
           (if errors = [] then cause else cause @ '' Evidence collection errors: '' @ errors) 0 []
           (Some ''manual_investigation'') False)"

definition diagnosis_rules :: "((string \<Rightarrow> string) \<Rightarrow> evidence_bundle \<Rightarrow> diagnosis_result option) list" where
  "diagnosis_rules = [service_not_found_rule, selector_mismatch_rule, oom_killed_rule, image_pull_rule,
     crash_loop_rule, readiness_probe_rule, healthy_rule]"

fun first_result :: "(evidence_bundle \<Rightarrow> diagnosis_result option) list \<Rightarrow> evidence_bundle \<Rightarrow> diagnosis_result option" where
  "first_result [] b = None"
| "first_result (r # rs) b = (case r b of None \<Rightarrow> first_result rs b | Some x \<Rightarrow> Some x)"

definition diagnose_evidence :: "(string \<Rightarrow> string) \<Rightarrow> evidence_bundle \<Rightarrow> diagnosis_result" where
  "diagnose_evidence rp b = (case first_result (map (\<lambda>r. r rp) diagnosis_rules) b of
       None \<Rightarrow> unknown_rule b | Some x \<Rightarrow> x)"

definition diagnosed_namespaces :: "string list" where
  "diagnosed_namespaces = [''agent-demo'']"

definition diagnose_service ::
  "(exn \<Rightarrow> string) \<Rightarrow> (string \<Rightarrow> string) \<Rightarrow> 'w readers \<Rightarrow> string \<Rightarrow> string \<Rightarrow> ('w, diagnosis_result) io" where
  "diagnose_service et rp k ns svc =
     (if ns \<notin> set diagnosed_namespaces then raiseW (PyValueError ''Namespace is not allowed'')
      else bindW (collect_service_evidence et k ns svc True) (\<lambda>b. returnW (diagnose_evidence rp b)))"

end
