(* ===== verification/CollectorProps.thy ===== *)
theory CollectorProps
  imports EvidenceCollector
begin

text \<open>
  The collection of evidence ends with a well-formed bundle whatever the cluster answers: every examined
  Pod was read or has its error, and everything else in the bundle is reached from those Pods.
\<close>

section \<open>What a later bundle keeps\<close>

lemma untouched [simp]:
  "pods_examined (b\<lparr>eb_statuses := xs\<rparr>) = pods_examined b"
  "service_collected (b\<lparr>eb_statuses := xs\<rparr>) = service_collected b"
  "pods_examined (b\<lparr>eb_events := xe\<rparr>) = pods_examined b"
  "service_collected (b\<lparr>eb_events := xe\<rparr>) = service_collected b"
  "pods_examined (b\<lparr>eb_logs := xl\<rparr>) = pods_examined b"
  "service_collected (b\<lparr>eb_logs := xl\<rparr>) = service_collected b"
  "pods_examined (b\<lparr>eb_owners := xo\<rparr>) = pods_examined b"
  "service_collected (b\<lparr>eb_owners := xo\<rparr>) = service_collected b"
  "pods_examined (b\<lparr>eb_deployments := xd\<rparr>) = pods_examined b"
  "service_collected (b\<lparr>eb_deployments := xd\<rparr>) = service_collected b"
  "pods_examined (b\<lparr>eb_nodes := xn\<rparr>) = pods_examined b"
  "service_collected (b\<lparr>eb_nodes := xn\<rparr>) = service_collected b"
  "pods_examined (record_error et op kind n e b) = pods_examined b"
  "service_collected (record_error et op kind n e b) = service_collected b"
  by (simp_all add: pods_examined_def service_collected_def)

text \<open>Nothing that was read or noted is lost, and the Pods to examine stay the same.\<close>

definition extends :: "evidence_bundle \<Rightarrow> evidence_bundle \<Rightarrow> bool" where
  "extends b b' = (set (eb_statuses b) \<subseteq> set (eb_statuses b') \<and> set (eb_owners b) \<subseteq> set (eb_owners b')
     \<and> set (eb_errors b) \<subseteq> set (eb_errors b') \<and> pods_examined b' = pods_examined b)"

lemma extendsD:
  assumes "extends b b'"
  shows "set (eb_statuses b) \<subseteq> set (eb_statuses b')" and "set (eb_owners b) \<subseteq> set (eb_owners b')"
    and "set (eb_errors b) \<subseteq> set (eb_errors b')"
  using assms by (simp_all add: extends_def)

lemma read_or_noted_mono:
  assumes "read_or_noted op ns keys b" and "set keys \<subseteq> set keys'" and "set (eb_errors b) \<subseteq> set (eb_errors b')"
  shows "read_or_noted op ns keys' b'"
  using assms unfolding read_or_noted_def list_all_iff list_ex_iff by blast

lemma list_ex_mono: "list_ex P xs \<Longrightarrow> set xs \<subseteq> set ys \<Longrightarrow> list_ex P ys"
  unfolding list_ex_iff by blast

lemma list_all_mono: "list_all P xs \<Longrightarrow> (\<And>x. P x \<Longrightarrow> Q x) \<Longrightarrow> list_all Q xs"
  by (simp add: list_all_iff)

lemma statuses_kept:
  assumes "statuses_collected ns b" and "extends b b'" and "eb_statuses b' = eb_statuses b"
  shows "statuses_collected ns b'"
  using assms(1) read_or_noted_mono [OF _ subset_refl extendsD(3) [OF assms(2)]]
  by (simp add: statuses_collected_def assms(3))

lemma owners_kept:
  assumes "owners_collected ns b" and "extends b b'" and "eb_owners b' = eb_owners b"
  shows "owners_collected ns b'"
  using assms(1) read_or_noted_mono [OF _ subset_refl extendsD(3) [OF assms(2)]]
  by (simp add: owners_collected_def assms(3))

lemma events_kept:
  assumes "events_collected ns b" and "extends b b'" and "eb_events b' = eb_events b"
  shows "events_collected ns b'"
  using assms(1) read_or_noted_mono [OF _ subset_refl extendsD(3) [OF assms(2)]]
  by (simp add: events_collected_def assms(3))

lemma wanted_kept: "log_wanted details b l \<Longrightarrow> extends b b' \<Longrightarrow> log_wanted details b' l"
  unfolding log_wanted_def by (rule list_ex_mono [OF _ extendsD(1)])

lemma logs_kept:
  assumes "logs_collected details b" and "extends b b'" and "eb_logs b' = eb_logs b"
  shows "logs_collected details b'"
  using assms(1,3) unfolding logs_collected_def
  by (auto elim!: list_all_mono wanted_kept [OF _ assms(2)])

lemma deployments_kept:
  assumes "deployments_collected b" and "extends b b'" and "eb_deployments b' = eb_deployments b"
  shows "deployments_collected b'"
  using assms(1,3) unfolding deployments_collected_def
  by (auto elim!: list_all_mono list_ex_mono [OF _ extendsD(2) [OF assms(2)]])

lemma nodes_kept:
  assumes "nodes_collected b" and "extends b b'" and "eb_nodes b' = eb_nodes b"
  shows "nodes_collected b'"
  using assms(1,3) unfolding nodes_collected_def
  by (auto elim!: list_all_mono list_ex_mono [OF _ extendsD(1) [OF assms(2)]])

lemmas kept_parts = statuses_kept owners_kept events_kept logs_kept deployments_kept nodes_kept

section \<open>Errors and new entries\<close>

lemma extends_error: "extends b (record_error et op kind n e b)"
  using untouched(13) by (auto simp: extends_def) (simp add: record_error_def)

lemma collected_error:
  assumes "collected_so_far details ss es os b"
  shows "collected_so_far details ss es os (record_error et op kind n e b)"
  using assms by (simp add: collected_so_far_def kept_parts [OF _ extends_error] service_collected_def)

lemma keys_within_put: "keys_within d ns \<Longrightarrow> n \<notin> set ns \<Longrightarrow> keys_within (put d n v) (n # ns)"
  by (subst put_fresh) (auto simp: keys_within_def)

lemma keys_within_more: "keys_within d ns \<Longrightarrow> keys_within d (n # ns)"
  by (auto simp: keys_within_def)

lemma put_within: "keys_within d ns \<Longrightarrow> n \<notin> set ns \<Longrightarrow> put d n v = d @ [(n, v)]"
  by (rule put_fresh) (auto simp: keys_within_def)

lemma noted [simp]:
  "list_ex (\<lambda>e. ce_operation e = op \<and> ce_resource_name e = n) (eb_errors (record_error et op kind n e b))"
  by (simp add: record_error_def)

lemma read_put:
  assumes "read_or_noted op ns (map fst d) b" and "keys_within d ns" and "n \<notin> set ns" and "eb_errors b' = eb_errors b"
  shows "read_or_noted op (n # ns) (map fst (put d n v)) b'"
  unfolding put_within [OF assms(2,3)] read_or_noted_Cons
  using read_or_noted_mono [OF assms(1), of "map fst (d @ [(n, v)])" b'] assms(4) by auto

lemma read_error:
  "read_or_noted op ns keys b \<Longrightarrow> read_or_noted op (n # ns) keys (record_error et op kind n e b)"
  unfolding read_or_noted_Cons by (simp add: read_or_noted_mono [OF _ subset_refl extendsD(3) [OF extends_error]])

lemma statuses_more:
  assumes "statuses_collected ss b" and "n \<notin> set ss"
  shows "statuses_collected (n # ss) (b\<lparr>eb_statuses := put (eb_statuses b) n p\<rparr>)"
    and "statuses_collected (n # ss) (record_error et ''get_pod_status'' kind n e b)"
  using assms by (auto simp: statuses_collected_def keys_within_more read_error intro: keys_within_put read_put)

lemma events_more:
  assumes "events_collected es b" and "n \<notin> set es"
  shows "events_collected (n # es) (b\<lparr>eb_events := put (eb_events b) n p\<rparr>)"
    and "events_collected (n # es) (record_error et ''get_pod_events'' kind n e b)"
  using assms by (auto simp: events_collected_def keys_within_more read_error intro: keys_within_put read_put)

lemma owners_more:
  assumes "owners_collected os b" and "n \<notin> set os"
  shows "owners_collected (n # os) (b\<lparr>eb_owners := put (eb_owners b) n p\<rparr>)"
    and "owners_collected (n # os) (record_error et ''resolve_pod_owner'' kind n e b)"
  using assms by (auto simp: owners_collected_def keys_within_more read_error intro: keys_within_put read_put)

section \<open>The steps of one Pod\<close>

text \<open>The bundle is as far as these lists, and the Pods to examine are known.\<close>

definition collection_progress ::
  "bool \<Rightarrow> string list \<Rightarrow> string list \<Rightarrow> string list \<Rightarrow> string list \<Rightarrow> evidence_bundle \<Rightarrow> bool" where
  "collection_progress details names ss es os b = (collected_so_far details ss es os b \<and> pods_examined b = names)"

definition read_as :: "string \<Rightarrow> 'a option \<Rightarrow> (string \<times> 'a) list \<Rightarrow> bool" where
  "read_as n x d = (case x of None \<Rightarrow> True | Some v \<Rightarrow> (n, v) \<in> set d)"

lemma read_as_simps [simp]: "read_as n None d" "read_as n (Some v) d = ((n, v) \<in> set d)"
  by (simp_all add: read_as_def)

lemma collection_progress_error:
  "collection_progress details names ss es os b \<Longrightarrow> collection_progress details names ss es os (record_error et op kind n e b)"
  by (simp add: collection_progress_def collected_error)

lemma collection_progressD:
  assumes "collection_progress details names ss es os b"
  shows "statuses_collected ss b" and "events_collected (if details then es else []) b" and "owners_collected os b"
    and "logs_collected details b" and "deployments_collected b" and "nodes_collected b" and "service_collected b"
    and "pods_examined b = names"
  using assms by (simp_all add: collection_progress_def collected_so_far_def)

lemma status_step:
  assumes "collection_progress details names ss es os b" and "n \<notin> set ss"
  shows "sure (collect_status et k ns n b)
    (\<lambda>x. collection_progress details names (n # ss) es os (snd x) \<and> read_as n (fst x) (eb_statuses (snd x)))"
  unfolding collect_status_def
proof (rule sure_attempt)
  fix p
  let ?b = "b\<lparr>eb_statuses := put (eb_statuses b) n p\<rparr>"
  have new: "put (eb_statuses b) n p = eb_statuses b @ [(n, p)]"
    using collection_progressD(1) [OF assms(1)] assms(2) by (auto simp: statuses_collected_def intro: put_within)
  have ext: "extends b ?b"
    by (auto simp: extends_def new)
  have put_in: "(n, p) \<in> set (put (eb_statuses b) n p)"
    by (simp add: new)
  show "collection_progress details names (n # ss) es os (snd (Some p, ?b)) \<and> read_as n (fst (Some p, ?b)) (eb_statuses (snd (Some p, ?b)))"
    using assms(1) statuses_more(1) [OF collection_progressD(1) [OF assms(1)] assms(2)]
    by (simp add: collection_progress_def collected_so_far_def kept_parts(2-) [OF _ ext] put_in)
next
  fix e
  show "collection_progress details names (n # ss) es os (snd (None, record_error et ''get_pod_status'' ''Pod'' n e b))
    \<and> read_as n (fst (None, record_error et ''get_pod_status'' ''Pod'' n e b))
        (eb_statuses (snd (None, record_error et ''get_pod_status'' ''Pod'' n e b)))"
    using collection_progress_error [OF assms(1)] statuses_more(2) [OF collection_progressD(1) [OF assms(1)] assms(2)]
    by (simp add: collection_progress_def collected_so_far_def)
qed

lemma events_step:
  assumes "collection_progress details names ss es os b" and "n \<notin> set es" and "read_as n p (eb_statuses b)"
  shows "sure (collect_events et k ns details n b)
    (\<lambda>x. collection_progress details names ss (n # es) os (snd x) \<and> read_as n p (eb_statuses (snd x)))"
proof (cases details)
  case True
  have "sure (attempt et ''get_pod_events'' ''Pod'' n (get_pod_events k ns n) (\<lambda>x b. b\<lparr>eb_events := put (eb_events b) n x\<rparr>) b)
    (\<lambda>x. collection_progress details names ss (n # es) os (snd x) \<and> read_as n p (eb_statuses (snd x)))"
  proof (rule sure_attempt)
    fix v
    let ?b = "b\<lparr>eb_events := put (eb_events b) n v\<rparr>"
    have ext: "extends b ?b"
      by (auto simp: extends_def)
    have "events_collected es b"
      using collection_progressD(2) [OF assms(1)] True by simp
    then have "events_collected (n # es) ?b"
      by (rule events_more(1) [OF _ assms(2)])
    then show "collection_progress details names ss (n # es) os (snd (Some v, ?b)) \<and> read_as n p (eb_statuses (snd (Some v, ?b)))"
      using assms True
      by (simp add: collection_progress_def collected_so_far_def kept_parts(1-2,4-) [OF _ ext])
  next
    fix e
    have "events_collected es b"
      using collection_progressD(2) [OF assms(1)] True by simp
    then show "collection_progress details names ss (n # es) os (snd (None, record_error et ''get_pod_events'' ''Pod'' n e b))
      \<and> read_as n p (eb_statuses (snd (None, record_error et ''get_pod_events'' ''Pod'' n e b)))"
      using collection_progress_error [OF assms(1)] assms(3) events_more(2) [of es b n, OF _ assms(2)] True
      by (simp add: collection_progress_def collected_so_far_def)
  qed
  with True show ?thesis by (simp add: collect_events_def)
next
  case False
  then show ?thesis
    using assms by (auto simp: collect_events_def collection_progress_def collected_so_far_def intro: sure_skip)
qed

lemma log_step:
  assumes "collection_progress details names ss es os b" and "(n, p) \<in> set (eb_statuses b)"
    and "if previous then wants_previous details (Some p) else wants_logs details (Some p)"
  shows "sure (collect_log et k ns op n previous b)
    (\<lambda>x. collection_progress details names ss es os (snd x) \<and> eb_statuses (snd x) = eb_statuses b)"
proof -
  have "sure (bindW (tryW (get_pod_logs k ns n None previous)) (\<lambda>r. returnW (case r of
       Inl e \<Rightarrow> (None, record_error et op ''Pod'' n e b) | Inr x \<Rightarrow> (Some x, b\<lparr>eb_logs := eb_logs b @ [x]\<rparr>))))
    (\<lambda>x. collection_progress details names ss es os (snd x) \<and> eb_statuses (snd x) = eb_statuses b)"
  proof (rule sure_bind)
    show "sure (tryW (get_pod_logs k ns n None previous))
      (\<lambda>r. case r of Inl e \<Rightarrow> True | Inr l \<Rightarrow> lg_pod_name l = n \<and> lg_previous l = previous)"
      by (auto simp: sure_def tryW_def get_pod_logs_def bindW_def returnW_def split: prod.splits sum.splits)
  next
    fix r :: "exn + pod_log_info"
    assume read: "case r of Inl e \<Rightarrow> True | Inr l \<Rightarrow> lg_pod_name l = n \<and> lg_previous l = previous"
    show "sure (returnW (case r of
       Inl e \<Rightarrow> (None, record_error et op ''Pod'' n e b) | Inr x \<Rightarrow> (Some x, b\<lparr>eb_logs := eb_logs b @ [x]\<rparr>)))
      (\<lambda>x. collection_progress details names ss es os (snd x) \<and> eb_statuses (snd x) = eb_statuses b)"
    proof (cases r)
      case (Inl e)
      then show ?thesis using collection_progress_error [OF assms(1)] by (simp add: sure_return)
    next
      case (Inr l)
      let ?b = "b\<lparr>eb_logs := eb_logs b @ [l]\<rparr>"
      have ext: "extends b ?b"
        by (auto simp: extends_def)
      have old: "list_all (log_wanted details ?b) (eb_logs b)"
        using collection_progressD(4) [OF assms(1)] unfolding logs_collected_def
        by (rule list_all_mono) (rule wanted_kept [OF _ ext])
      have "log_wanted details ?b l"
        using read Inr assms(2,3) unfolding log_wanted_def list_ex_iff by (intro bexI [of _ "(n, p)"]) auto
      with old have "logs_collected details ?b"
        by (simp add: logs_collected_def)
      then show ?thesis
        using assms(1) Inr
        by (intro sure_return)
          (simp add: collection_progress_def collected_so_far_def kept_parts(1-3,5-) [OF _ ext])
    qed
  qed
  then show ?thesis by (simp add: collect_log_def attempt_def)
qed

lemma wants_previousD: "wants_previous details status \<Longrightarrow> wants_logs details status"
  by (simp add: wants_previous_def)

lemma logs_step:
  assumes "collection_progress details names ss es os b" and "read_as n p (eb_statuses b)"
  shows "sure (collect_logs et k ns details n p b)
    (\<lambda>x. collection_progress details names ss es os (snd x) \<and> read_as n p (eb_statuses (snd x)))"
proof (cases "wants_logs details p")
  case True
  then obtain q where p: "p = Some q"
    by (cases p) (simp_all add: wants_logs_def)
  then have held: "(n, q) \<in> set (eb_statuses b)"
    using assms(2) by simp
  have first: "sure (collect_log et k ns ''get_current_logs'' n False b)
      (\<lambda>x. collection_progress details names ss es os (snd x) \<and> eb_statuses (snd x) = eb_statuses b)"
    by (rule log_step [OF assms(1) held]) (use True p in simp)
  show ?thesis
    unfolding collect_logs_def if_P [OF True]
  proof (rule sure_bind [OF first])
    fix x :: "pod_log_info option \<times> evidence_bundle"
    assume x: "collection_progress details names ss es os (snd x) \<and> eb_statuses (snd x) = eb_statuses b"
    from x held have held': "(n, q) \<in> set (eb_statuses (snd x))" by simp
    show "sure (if wants_previous details p then collect_log et k ns ''get_previous_logs'' n True (snd x) else skip_read (snd x))
        (\<lambda>y. collection_progress details names ss es os (snd y) \<and> read_as n p (eb_statuses (snd y)))"
    proof (cases "wants_previous details p")
      case True
      then have again: "sure (collect_log et k ns ''get_previous_logs'' n True (snd x))
          (\<lambda>y. collection_progress details names ss es os (snd y) \<and> eb_statuses (snd y) = eb_statuses (snd x))"
        using log_step [OF conjunct1 [OF x] held', where previous = True and op = "''get_previous_logs''" and et = et and k = k and ns = ns] p by simp
      show ?thesis
        unfolding if_P [OF True] by (rule sure_weaken [OF again]) (simp add: p held')
    next
      case False
      show ?thesis
        unfolding if_not_P [OF False] by (rule sure_skip) (use conjunct1 [OF x] held' p in simp)
    qed
  qed
next
  case False
  then have "\<not> wants_previous details p"
    using wants_previousD by blast
  with False assms show ?thesis
    unfolding collect_logs_def
    by (intro sure_bind [where Q = "\<lambda>x. snd x = b"]) (simp_all add: sure_skip)
qed

lemma owner_step:
  assumes "collection_progress details names ss es os b" and "n \<notin> set os" and "read_as n p (eb_statuses b)"
  shows "sure (collect_owner et k ns n b) (\<lambda>x. collection_progress details names ss es (n # os) (snd x)
    \<and> read_as n p (eb_statuses (snd x)) \<and> read_as n (fst x) (eb_owners (snd x)))"
  unfolding collect_owner_def
proof (rule sure_attempt)
  fix c
  let ?b = "b\<lparr>eb_owners := put (eb_owners b) n c\<rparr>"
  have new: "put (eb_owners b) n c = eb_owners b @ [(n, c)]"
    using collection_progressD(3) [OF assms(1)] assms(2) by (auto simp: owners_collected_def intro: put_within)
  have ext: "extends b ?b"
    by (auto simp: extends_def new)
  have put_in: "(n, c) \<in> set (put (eb_owners b) n c)"
    by (simp add: new)
  show "collection_progress details names ss es (n # os) (snd (Some c, ?b)) \<and> read_as n p (eb_statuses (snd (Some c, ?b)))
    \<and> read_as n (fst (Some c, ?b)) (eb_owners (snd (Some c, ?b)))"
    using assms(1,3) owners_more(1) [OF collection_progressD(3) [OF assms(1)] assms(2)]
    by (simp add: collection_progress_def collected_so_far_def kept_parts(1,3-) [OF _ ext] put_in)
next
  fix e
  show "collection_progress details names ss es (n # os) (snd (None, record_error et ''resolve_pod_owner'' ''Pod'' n e b))
    \<and> read_as n p (eb_statuses (snd (None, record_error et ''resolve_pod_owner'' ''Pod'' n e b)))
    \<and> read_as n (fst (None, record_error et ''resolve_pod_owner'' ''Pod'' n e b))
        (eb_owners (snd (None, record_error et ''resolve_pod_owner'' ''Pod'' n e b)))"
    using collection_progress_error [OF assms(1)] assms(3) owners_more(2) [OF collection_progressD(3) [OF assms(1)] assms(2)]
    by (simp add: collection_progress_def collected_so_far_def)
qed

lemma deployment_step:
  assumes "collection_progress details names ss es os b" and "read_as n p (eb_statuses b)" and "read_as n c (eb_owners b)"
  shows "sure (collect_deployment et k ns c b)
    (\<lambda>x. collection_progress details names ss es os (snd x) \<and> read_as n p (eb_statuses (snd x)))"
proof (cases "Option.bind c oc_deployment_name")
  case None
  with assms show ?thesis by (simp add: collect_deployment_def sure_skip)
next
  case (Some d)
  then obtain v where c: "c = Some v" "oc_deployment_name v = Some d"
    by (cases c) auto
  have "sure (attempt et ''get_deployment_config'' ''Deployment'' d (get_deployment_config k ns d)
      (\<lambda>x b. b\<lparr>eb_deployments := put (eb_deployments b) d x\<rparr>) b)
    (\<lambda>x. collection_progress details names ss es os (snd x) \<and> read_as n p (eb_statuses (snd x)))"
    if fresh: "d \<notin> fst ` set (eb_deployments b)"
  proof (rule sure_attempt)
    fix x
    let ?b = "b\<lparr>eb_deployments := put (eb_deployments b) d x\<rparr>"
    have ext: "extends b ?b"
      by (auto simp: extends_def)
    have owned: "list_ex (\<lambda>y. oc_deployment_name (snd y) = Some d) (eb_owners b)"
      unfolding list_ex_iff using assms(3) c by (intro bexI [of _ "(n, v)"]) simp_all
    have "deployments_collected ?b"
      using collection_progressD(5) [OF assms(1)] fresh owned
      by (simp add: deployments_collected_def put_fresh)
    then show "collection_progress details names ss es os (snd (Some x, ?b)) \<and> read_as n p (eb_statuses (snd (Some x, ?b)))"
      using assms(1,2) by (simp add: collection_progress_def collected_so_far_def kept_parts(1-4,6) [OF _ ext])
  qed (use collection_progress_error [OF assms(1)] assms(2) in simp)
  then show ?thesis
    using Some assms by (auto simp: collect_deployment_def intro: sure_skip)
qed

lemma node_step:
  assumes "collection_progress details names ss es os b" and "read_as n p (eb_statuses b)"
  shows "sure (collect_node et k p b) (\<lambda>x. collection_progress details names ss es os (snd x))"
proof (cases "Option.bind p pi_node_name")
  case None
  with assms show ?thesis by (simp add: collect_node_def sure_skip)
next
  case (Some d)
  then obtain v where p: "p = Some v" "pi_node_name v = Some d"
    by (cases p) auto
  have "sure (attempt et ''get_node_status'' ''Node'' d (get_node_status k d)
      (\<lambda>x b. b\<lparr>eb_nodes := put (eb_nodes b) d x\<rparr>) b) (\<lambda>x. collection_progress details names ss es os (snd x))"
    if fresh: "d \<notin> fst ` set (eb_nodes b)"
  proof (rule sure_attempt)
    fix x
    let ?b = "b\<lparr>eb_nodes := put (eb_nodes b) d x\<rparr>"
    have ext: "extends b ?b"
      by (auto simp: extends_def)
    have placed: "list_ex (\<lambda>y. pi_node_name (snd y) = Some d) (eb_statuses b)"
      unfolding list_ex_iff using assms(2) p by (intro bexI [of _ "(n, v)"]) simp_all
    have "nodes_collected ?b"
      using collection_progressD(6) [OF assms(1)] fresh placed by (simp add: nodes_collected_def put_fresh)
    then show "collection_progress details names ss es os (snd (Some x, ?b))"
      using assms(1) by (simp add: collection_progress_def collected_so_far_def kept_parts(1-5) [OF _ ext])
  qed (use collection_progress_error [OF assms(1)] in simp)
  then show ?thesis
    using Some assms by (auto simp: collect_node_def intro: sure_skip)
qed

lemma pod_step:
  assumes "collection_progress details names ns ns ns b" and "n \<notin> set ns"
  shows "sure (collect_pod et k space details n b) (collection_progress details names (n # ns) (n # ns) (n # ns))"
  unfolding collect_pod_def
  by (rule sure_bind [OF status_step [OF assms]], elim conjE,
      rule sure_bind [OF events_step [OF _ assms(2)]], assumption, assumption, elim conjE,
      rule sure_bind [OF logs_step], assumption, assumption, elim conjE,
      rule sure_bind [OF owner_step [OF _ assms(2)]], assumption, assumption, elim conjE,
      rule sure_bind [OF deployment_step], assumption, assumption, assumption, elim conjE,
      rule sure_bind [OF node_step], assumption, assumption, rule sure_return)

lemma pods_step:
  assumes "collection_progress details names ns ns ns b" and "distinct rest" and "set rest \<inter> set ns = {}"
  shows "sure (collect_pods et k space details rest b) (collection_progress details names (rev rest @ ns) (rev rest @ ns) (rev rest @ ns))"
  using assms
proof (induction rest arbitrary: ns b)
  case (Cons n rest)
  have "sure (collect_pod et k space details n b) (collection_progress details names (n # ns) (n # ns) (n # ns))"
    by (rule pod_step) (use Cons.prems in auto)
  moreover have "sure (collect_pods et k space details rest b')
      (collection_progress details names (rev (n # rest) @ ns) (rev (n # rest) @ ns) (rev (n # rest) @ ns))"
    if "collection_progress details names (n # ns) (n # ns) (n # ns) b'" for b'
    using Cons.IH [OF that] Cons.prems(2,3) by auto
  ultimately show ?case by (auto intro: sure_bind)
qed (simp add: sure_return)

lemma any_order:
  "set xs = set ys \<Longrightarrow> collected_so_far details xs xs xs b = collected_so_far details ys ys ys b"
  by (simp add: collected_so_far_def statuses_collected_def events_collected_def owners_collected_def
    keys_within_def read_or_noted_def list_all_iff)

section \<open>The whole collection\<close>

text \<open>What no new entry and no noted error can undo holds after all Pods.\<close>

definition undisturbed :: "(exn \<Rightarrow> string) \<Rightarrow> (evidence_bundle \<Rightarrow> bool) \<Rightarrow> bool" where
  "undisturbed et I = (\<forall>b. I b \<longrightarrow> (\<forall>op kind n e. I (record_error et op kind n e b))
     \<and> (\<forall>x. I (b\<lparr>eb_statuses := x\<rparr>)) \<and> (\<forall>x. I (b\<lparr>eb_events := x\<rparr>)) \<and> (\<forall>x. I (b\<lparr>eb_logs := x\<rparr>))
     \<and> (\<forall>x. I (b\<lparr>eb_owners := x\<rparr>)) \<and> (\<forall>x. I (b\<lparr>eb_deployments := x\<rparr>)) \<and> (\<forall>x. I (b\<lparr>eb_nodes := x\<rparr>)))"

lemma undisturbedD:
  assumes "undisturbed et I" and "I b"
  shows "I (record_error et op kind n e b)" and "I (b\<lparr>eb_statuses := x1\<rparr>)" and "I (b\<lparr>eb_events := x2\<rparr>)"
    and "I (b\<lparr>eb_logs := x3\<rparr>)" and "I (b\<lparr>eb_owners := x4\<rparr>)" and "I (b\<lparr>eb_deployments := x5\<rparr>)"
    and "I (b\<lparr>eb_nodes := x6\<rparr>)"
  using assms by (simp_all add: undisturbed_def)

lemma attempt_keeps:
  assumes "undisturbed et I" and "\<And>x b. I b \<Longrightarrow> I (keep x b)" and "I b"
  shows "sure (attempt et op kind n m keep b) (\<lambda>x. I (snd x))"
  by (rule sure_attempt) (simp_all add: assms(2,3) undisturbedD(1) [OF assms(1)])

lemma pods_keep:
  assumes "undisturbed et I"
  shows "I b \<Longrightarrow> sure (collect_pods et k space details rest b) I"
proof (induction rest arbitrary: b)
  case (Cons n rest)
  note keep = attempt_keeps [OF assms] undisturbedD [OF assms] sure_skip
  have status: "sure (collect_status et k space n b) (\<lambda>x. I (snd x))" if "I b" for b
    by (simp add: collect_status_def keep that)
  have events: "sure (collect_events et k space details n b) (\<lambda>x. I (snd x))" if "I b" for b
    by (simp add: collect_events_def keep that)
  have log: "sure (collect_log et k space op n previous b) (\<lambda>x. I (snd x))" if "I b" for op previous b
    by (simp add: collect_log_def keep that)
  have logs: "sure (collect_logs et k space details n p b) (\<lambda>x. I (snd x))" if "I b" for p b
    unfolding collect_logs_def
    by (rule sure_bind [where Q = "\<lambda>x. I (snd x)"]) (simp_all add: log that sure_skip)
  have owner: "sure (collect_owner et k space n b) (\<lambda>x. I (snd x))" if "I b" for b
    by (simp add: collect_owner_def keep that)
  have deployment: "sure (collect_deployment et k space c b) (\<lambda>x. I (snd x))" if "I b" for c b
    by (simp add: collect_deployment_def keep that split: option.split)
  have node: "sure (collect_node et k p b) (\<lambda>x. I (snd x))" if "I b" for p b
    by (simp add: collect_node_def keep that split: option.split)
  have "sure (collect_pod et k space details n b) I"
    unfolding collect_pod_def
    by (rule sure_bind [OF status [OF Cons.prems]], erule sure_bind [OF events], erule sure_bind [OF logs],
        erule sure_bind [OF owner], erule sure_bind [OF deployment], erule sure_bind [OF node], erule sure_return)
  then show ?case
    unfolding collect_pods.simps by (rule sure_bind) (rule Cons.IH)
qed (simp add: sure_return)

lemma pods_same:
  "pods_examined b = names \<Longrightarrow> sure (collect_pods et k space details rest b) (\<lambda>b'. pods_examined b' = names)"
  by (rule pods_keep) (simp add: undisturbed_def)

text \<open>The bundle before the first Pod.\<close>

definition only_service :: "evidence_bundle \<Rightarrow> bool" where
  "only_service b = (eb_statuses b = [] \<and> eb_events b = [] \<and> eb_logs b = [] \<and> eb_owners b = []
     \<and> eb_deployments b = [] \<and> eb_nodes b = [] \<and> service_collected b)"

lemma only_service_collected: "only_service b \<Longrightarrow> collected_so_far details [] [] [] b"
  by (simp add: only_service_def collected_so_far_def statuses_collected_def events_collected_def
    owners_collected_def keys_within_def read_or_noted_def logs_collected_def deployments_collected_def nodes_collected_def)

lemma only_service_error [simp]: "only_service (record_error et op kind n e b) = only_service b"
  by (simp add: only_service_def)

lemma collection_shape:
  "sure (collect_service_evidence et k ns svc details)
    (\<lambda>b. distinct (pods_examined b) \<longrightarrow> well_collected details b)"
proof -
  have listed: "sure (collect_namespace_pods et k ns (empty_bundle ns svc))
      (\<lambda>x. only_service (snd x) \<and> eb_service (snd x) = None \<and> eb_service_pods (snd x) = [] \<and> eb_slices (snd x) = [])"
    unfolding collect_namespace_pods_def
    by (rule sure_attempt) (simp_all add: empty_bundle_def only_service_def service_collected_def)
  have service: "sure (collect_service et k ns svc b) (\<lambda>x. only_service (snd x))"
    if "only_service b \<and> eb_service b = None \<and> eb_service_pods b = [] \<and> eb_slices b = []" for b
    unfolding collect_service_def
    by (rule sure_attempt) (use that in \<open>simp_all add: only_service_def service_collected_def\<close>)
  have chosen: "sure (collect_service_pods et k ns svc b) (\<lambda>x. only_service (snd x))" if "only_service b" for b
    unfolding collect_service_pods_def
    using that by (auto intro!: sure_skip sure_attempt simp: only_service_def service_collected_def)
  have slices: "sure (collect_slices et k ns svc b) (\<lambda>x. only_service (snd x))" if "only_service b" for b
    unfolding collect_slices_def
    using that by (auto intro!: sure_skip sure_attempt simp: only_service_def service_collected_def)
  have pods: "sure (collect_pods et k ns details (pods_examined b) b)
      (\<lambda>b'. distinct (pods_examined b') \<longrightarrow> well_collected details b')" if "only_service b" for b
  proof (cases "distinct (pods_examined b)")
    case True
    have "collection_progress details (pods_examined b) [] [] [] b"
      using only_service_collected [OF that] by (simp add: collection_progress_def)
    then have "sure (collect_pods et k ns details (pods_examined b) b) (collection_progress details (pods_examined b)
        (rev (pods_examined b) @ []) (rev (pods_examined b) @ []) (rev (pods_examined b) @ []))"
      by (rule pods_step [OF _ True]) simp
    then show ?thesis
    proof (rule sure_weaken)
      fix b'
      assume "collection_progress details (pods_examined b) (rev (pods_examined b) @ []) (rev (pods_examined b) @ [])
        (rev (pods_examined b) @ []) b'"
      then have "collected_so_far details (rev (pods_examined b')) (rev (pods_examined b')) (rev (pods_examined b')) b'"
        by (simp add: collection_progress_def)
      then show "distinct (pods_examined b') \<longrightarrow> well_collected details b'"
        using any_order [of "rev (pods_examined b')" "pods_examined b'" details b'] by (simp add: well_collected_def)
    qed
  next
    case False
    show ?thesis by (rule sure_weaken [OF pods_same [OF refl]]) (simp add: False)
  qed
  show ?thesis
    unfolding collect_service_evidence_def
    by (rule sure_bind [OF listed], rule sure_bind [OF service], assumption, rule sure_bind [OF chosen], assumption,
        rule sure_bind [OF slices], assumption, rule pods, assumption)
qed

section \<open>A cluster\<close>

text \<open>A Service with one crashing Pod of a Deployment; the events cannot be read.\<close>

definition bench_meta :: "string \<Rightarrow> owner_reference list \<Rightarrow> named_meta option" where
  "bench_meta n owners = Some \<lparr>om_uid = Some (''uid-'' @ n), om_resource_version = Some ''7'', om_generation = Some 2,
     nm_name = Some n, nm_labels = Some [(''app'', ''web'')], nm_owners = Some owners\<rparr>"

definition bench_owner :: "string \<Rightarrow> string \<Rightarrow> owner_reference" where
  "bench_owner kind n = \<lparr>on_kind = kind, on_name = n, on_uid = Some (''uid-'' @ n), on_controller = Some True\<rparr>"

definition bench_service :: raw_service where
  "bench_service = \<lparr>rz_metadata = bench_meta ''web'' [], rz_spec = Some \<lparr>rx_type = Some ''ClusterIP'',
     rx_cluster_ip = None, rx_selector = Some [(''app'', ''web'')], rx_ports = None\<rparr>\<rparr>"

definition bench_container :: raw_container_status where
  "bench_container = \<lparr>rc_name = ''web'', rc_ready = False, rc_restart_count = 3, rc_image = ''web:1'',
     rc_state = Some \<lparr>ct_running = False, ct_waiting = Some (Some ''CrashLoopBackOff'', None), ct_terminated = None\<rparr>,
     rc_last_state = None\<rparr>"

definition bench_pod :: raw_pod where
  "bench_pod = \<lparr>ro_metadata = bench_meta ''web-1'' [bench_owner ''ReplicaSet'' ''web-rs''], ro_node_name = Some (Some ''node''),
     ro_status = Some \<lparr>ry_phase = Some ''Running'', ry_pod_ip = None, ry_conditions = Some [(''Ready'', ''False'')],
       ry_containers = Some [bench_container]\<rparr>\<rparr>"

definition bench_deployment :: raw_deployment where
  "bench_deployment = \<lparr>rw_metadata = bench_meta ''web'' [], rw_spec = Some \<lparr>rd_replicas = Some 1, rd_match_labels = None,
     rd_template_labels = Some None, rd_template_containers = Some None\<rparr>,
     rw_status = Some \<lparr>rs_ready = None, rs_available = None, rs_unavailable = Some 1\<rparr>\<rparr>"

definition bench_readers :: "unit readers" where
  "bench_readers = \<lparr>kr_read_service = (\<lambda>_ n. if n = ''web'' then returnW bench_service else raiseW (ApiException 404 None)),
     kr_list_pods = (\<lambda>_ _. returnW [''web-1'']), kr_list_slices = (\<lambda>_ _. returnW []),
     kr_read_pod = (\<lambda>_ _. returnW bench_pod), kr_list_events = (\<lambda>_ _. raiseW (ApiException 403 None)),
     kr_read_log = (\<lambda>_ _ _ _. returnW (LogBody (TextBody ''boot''))),
     kr_read_replica_set = (\<lambda>_ n. returnW (bench_meta n [bench_owner ''Deployment'' ''web''])),
     kr_read_deployment = (\<lambda>_ _. returnW bench_deployment),
     kr_read_node = (\<lambda>n. returnW \<lparr>rk_metadata = bench_meta n [], rk_status = Some \<lparr>ra_capacity = None,
       ra_allocatable = None, ra_conditions = None\<rparr>\<rparr>)\<rparr>"

definition bench_reading :: "evidence_bundle res \<times> unit" where
  "bench_reading = collect_service_evidence exn_text bench_readers ''agent-demo'' ''web'' True ()"

lemmas collector_defs = collect_service_evidence_def collect_namespace_pods_def collect_service_def collect_service_pods_def
  collect_slices_def collect_pod_def collect_status_def collect_events_def collect_log_def collect_logs_def collect_owner_def
  collect_deployment_def collect_node_def attempt_def skip_read_def pods_examined_def wants_logs_def wants_previous_def
  pod_is_abnormal_def pod_may_have_logs_def restarted_def record_error_def empty_bundle_def bindW_def tryW_def returnW_def
  raiseW_def liftW_def

lemmas read_defs = get_service_def service_info_of_def list_service_pod_names_def list_namespace_pod_names_def
  get_service_endpoint_slices_def get_pod_status_def pod_info_of_def container_status_of_def container_state_values_def
  ready_condition_def get_pod_events_def get_pod_logs_def read_log_response_def decode_log_content_def resolve_pod_owner_def
  controller_owner_def unowned_chain_def directly_owned_def owned_by_deployment_def replica_set_chain_def both_differ_def
  get_deployment_config_def deployment_info_of_def get_node_status_def node_info_of_def resource_values_def
  attribute_def declared_def or_default_def or_nil_def or_zero_def

lemmas bench_defs = bench_reading_def bench_readers_def bench_service_def bench_pod_def bench_container_def
  bench_deployment_def bench_meta_def bench_owner_def

lemma bench_log: "sample_log_text ''boot'' = (''boot'', False)"
  by (simp add: sample_log_text_def splitlines_def ends_line_def last_items_def log_lines_def log_bytes_def utf8_char_def)

lemma bench_pods: "case fst bench_reading of Inl e \<Rightarrow> False
    | Inr b \<Rightarrow> pods_examined b = [''web-1''] \<and> length (eb_logs b) = 2 \<and> map fst (eb_deployments b) = [''web'']
        \<and> map ce_operation (eb_errors b) = [''get_pod_events'']"
  by (simp add: bench_defs collector_defs read_defs bench_log sorted_sort_id)



end
