(* ===== verification/RuleProps.thy ===== *)
theory RuleProps
  imports RuleDiagnosis CollectorProps
begin

text \<open>
  The diagnosis by rules: its category is the first cause, in a fixed order, that the bundle shows; its
  result is well-formed and cites what was collected; and it is given for every cluster.
\<close>

section \<open>Causes\<close>

definition serves :: "evidence_bundle \<Rightarrow> bool" where
  "serves b = (\<exists>s\<in>set (eb_slices b). \<exists>e\<in>set (es_endpoints s). ep_ready e = Some True)"

definition some_container :: "evidence_bundle \<Rightarrow> (container_status_info \<Rightarrow> bool) \<Rightarrow> bool" where
  "some_container b P = (\<exists>(n, p)\<in>set (eb_statuses b). \<exists>c\<in>set (pi_containers p). P c)"

definition out_of_memory :: "container_status_info \<Rightarrow> bool" where
  "out_of_memory c = (cs_last_terminated_reason c = Some ''OOMKilled''
     \<or> (cs_last_terminated_reason c = None \<or> cs_last_terminated_reason c = Some '''')
       \<and> cs_terminated_reason c = Some ''OOMKilled'')"

fun cause_shown :: "evidence_bundle \<Rightarrow> rule_category \<Rightarrow> bool" where
  "cause_shown b ServiceNotFound =
     (\<exists>e\<in>set (eb_errors b). ce_operation e = ''get_service'' \<and> ce_status_code e = Some 404)"
| "cause_shown b SelectorMismatch = (case eb_service b of None \<Rightarrow> False
     | Some s \<Rightarrow> sv_selector s \<noteq> [] \<and> eb_service_pods b = [] \<and> eb_namespace_pods b \<noteq> [] \<and> \<not> serves b)"
| "cause_shown b OomKilled = some_container b out_of_memory"
| "cause_shown b ImagePullError = some_container b (\<lambda>c. cs_waiting_reason c \<in> {Some ''ErrImagePull'',
     Some ''ImagePullBackOff'', Some ''InvalidImageName'', Some ''RegistryUnavailable''})"
| "cause_shown b CrashLoop = some_container b (\<lambda>c. cs_waiting_reason c = Some ''CrashLoopBackOff'')"
| "cause_shown b ReadinessProbeError = (\<exists>(n, p)\<in>set (eb_statuses b). pi_phase p = ''Running'' \<and> \<not> pi_ready p
     \<and> (case map_of (eb_events b) n of None \<Rightarrow> False | Some es \<Rightarrow> \<exists>e\<in>set es. probe_failure e))"
| "cause_shown b Healthy = (eb_service b \<noteq> None \<and> (\<exists>n\<in>set (eb_service_pods b). map_of (eb_statuses b) n \<noteq> None)
     \<and> (\<forall>n\<in>set (eb_service_pods b). case map_of (eb_statuses b) n of None \<Rightarrow> True
          | Some p \<Rightarrow> pi_phase p = ''Running'' \<and> pi_ready p)
     \<and> serves b)"
| "cause_shown b UnknownFault = True"

definition rule_order :: "rule_category list" where
  "rule_order = [ServiceNotFound, SelectorMismatch, OomKilled, ImagePullError, CrashLoop, ReadinessProbeError,
     Healthy, UnknownFault]"

section \<open>Each rule finds its cause\<close>

lemma find_holds: "find P xs = Some x \<Longrightarrow> P x \<and> x \<in> set xs"
  by (induction xs) (auto split: if_splits)

lemma sum_is_zero: "(sum_list (map f xs) = (0 :: nat)) = (\<forall>x\<in>set xs. f x = 0)"
  by (induction xs) auto

lemma ready_addresses_pos: "(ready_addresses b = 0) = (\<not> serves b)"
proof -
  have "(ready_addresses b = 0) = (\<forall>e\<in>set (concat (map es_endpoints (eb_slices b))). ep_ready e \<noteq> Some True)"
    unfolding ready_addresses_def sum_is_zero by (intro ball_cong) (auto simp: max_def)
  then show ?thesis by (auto simp: serves_def)
qed

lemma first_container_None: "(first_container P b = None) = (\<not> some_container b P)"
  by (fastforce simp: first_container_def find_None_iff all_containers_def some_container_def)

lemma first_container_Some:
  "first_container P b = Some (p, c) \<Longrightarrow> P c \<and> c \<in> set (pi_containers p) \<and> p \<in> snd ` set (eb_statuses b)"
  by (force simp: first_container_def find_Some_iff all_containers_def dest: nth_mem)

lemma end_reason_oom: "(end_reason c = Some ''OOMKilled'') = out_of_memory c"
  by (auto simp: end_reason_def out_of_memory_def or_default_def split: option.splits if_splits)

lemma known_pods_set: "set (known_pods b) = {p. \<exists>n\<in>set (eb_service_pods b). map_of (eb_statuses b) n = Some p}"
  by (force simp: known_pods_def map_filter_def)

lemma probe_event_None:
  "(probe_event b n = None) = (case map_of (eb_events b) n of None \<Rightarrow> True | Some es \<Rightarrow> \<not> (\<exists>e\<in>set es. probe_failure e))"
  by (auto simp: probe_event_def find_None_iff split: option.split)

lemma readiness_None:
  "(readiness_probe_rule rp b = None) = (\<not> cause_shown b ReadinessProbeError)"
proof -
  have "(find (not_ready_pod b) (eb_statuses b) = None) = (\<not> cause_shown b ReadinessProbeError)"
    unfolding find_None_iff not_ready_pod_def probe_event_None cause_shown.simps
    by (auto split: option.splits) fastforce+
  moreover have "probe_event b n \<noteq> None" if "find (not_ready_pod b) (eb_statuses b) = Some (n, p)" for n p
    using find_holds [OF that] by (simp add: not_ready_pod_def)
  ultimately show ?thesis
    by (auto simp: readiness_probe_rule_def Let_def split: option.split)
qed

lemma rules_None:
  "(service_not_found_rule rp b = None) = (\<not> cause_shown b ServiceNotFound)"
  "(selector_mismatch_rule rp b = None) = (\<not> cause_shown b SelectorMismatch)"
  "(oom_killed_rule rp b = None) = (\<not> cause_shown b OomKilled)"
  "(image_pull_rule rp b = None) = (\<not> cause_shown b ImagePullError)"
  "(crash_loop_rule rp b = None) = (\<not> cause_shown b CrashLoop)"
  "(healthy_rule rp b = None) = (\<not> cause_shown b Healthy)"
proof -
  show "(service_not_found_rule rp b = None) = (\<not> cause_shown b ServiceNotFound)"
    by (auto simp: service_not_found_rule_def find_None_iff split: option.split)
       (auto simp: find_Some_iff)
  show "(selector_mismatch_rule rp b = None) = (\<not> cause_shown b SelectorMismatch)"
    using ready_addresses_pos [of b] by (auto simp: selector_mismatch_rule_def split: option.split)
  show "(oom_killed_rule rp b = None) = (\<not> cause_shown b OomKilled)"
    using first_container_None [of out_of_memory b] by (auto simp: oom_killed_rule_def end_reason_oom split: option.split)
  show "(image_pull_rule rp b = None) = (\<not> cause_shown b ImagePullError)"
    using first_container_None [of "\<lambda>c. cs_waiting_reason c \<in> Some ` set pull_reasons" b]
    by (auto simp: image_pull_rule_def pull_reasons_def split: option.split)
  show "(crash_loop_rule rp b = None) = (\<not> cause_shown b CrashLoop)"
    using first_container_None [of "\<lambda>c. cs_waiting_reason c = Some ''CrashLoopBackOff''" b]
    by (auto simp: crash_loop_rule_def split: option.split)
  have "known_pods b \<noteq> [] \<longleftrightarrow> (\<exists>n\<in>set (eb_service_pods b). map_of (eb_statuses b) n \<noteq> None)"
    unfolding set_empty [symmetric] known_pods_set by auto
  moreover have "list_all P (known_pods b) \<longleftrightarrow>
      (\<forall>n\<in>set (eb_service_pods b). case map_of (eb_statuses b) n of None \<Rightarrow> True | Some p \<Rightarrow> P p)" for P
    unfolding list_all_iff known_pods_set by (auto split: option.splits)
  ultimately show "(healthy_rule rp b = None) = (\<not> cause_shown b Healthy)"
    using ready_addresses_pos [of b] by (auto simp: healthy_rule_def split: option.split)
qed

lemma rules_category:
  "service_not_found_rule rp b = Some r \<Longrightarrow> xd_category r = ServiceNotFound"
  "selector_mismatch_rule rp b = Some r \<Longrightarrow> xd_category r = SelectorMismatch"
  "oom_killed_rule rp b = Some r \<Longrightarrow> xd_category r = OomKilled"
  "image_pull_rule rp b = Some r \<Longrightarrow> xd_category r = ImagePullError"
  "crash_loop_rule rp b = Some r \<Longrightarrow> xd_category r = CrashLoop"
  "readiness_probe_rule rp b = Some r \<Longrightarrow> xd_category r = ReadinessProbeError"
  "healthy_rule rp b = Some r \<Longrightarrow> xd_category r = Healthy"
  by (auto simp: service_not_found_rule_def selector_mismatch_rule_def oom_killed_rule_def image_pull_rule_def
    crash_loop_rule_def readiness_probe_rule_def healthy_rule_def make_result_def Let_def split: option.splits if_splits)

lemma unknown_category [simp]: "xd_category (unknown_rule b) = UnknownFault"
  by (simp add: unknown_rule_def make_result_def Let_def)

text \<open>C25.
  The rules name the first cause that the bundle shows: a missing Service, a selector without Pods, a container out
  of memory, one whose image cannot be pulled, one in a crash loop, a Pod that fails its readiness probe, health, and
  unknown when nothing else applies. Each cause is read off the bundle directly, without the loops of the rules.
\<close>

theorem rule_verdict_cause:
  "find (cause_shown b) rule_order = Some (xd_category (diagnose_evidence rp b))"
proof -
  let ?rest = "\<lambda>rs. case first_result rs b of None \<Rightarrow> unknown_rule b | Some x \<Rightarrow> x"
  have step: "find (cause_shown b) (c # cs) = Some (xd_category (?rest (r # rs)))"
    if "(r b = None) = (\<not> cause_shown b c)" "\<And>x. r b = Some x \<Longrightarrow> xd_category x = c"
      "find (cause_shown b) cs = Some (xd_category (?rest rs))" for r rs c cs
    using that by (cases "r b") auto
  show ?thesis
    unfolding diagnose_evidence_def diagnosis_rules_def rule_order_def list.map
    by (intro step rules_None rules_category readiness_None) simp_all
qed

section \<open>The result\<close>

text \<open>A reference names something of the bundle.\<close>

definition reference_grounded :: "evidence_bundle \<Rightarrow> evidence_reference \<Rightarrow> bool" where
  "reference_grounded b x = (case xr_source x of
       FromService \<Rightarrow> (case eb_service b of None \<Rightarrow> False | Some s \<Rightarrow> xr_resource_name x = sv_name s)
     | FromSlice \<Rightarrow> (case eb_service b of None \<Rightarrow> False | Some s \<Rightarrow> xr_resource_name x = sv_name s)
     | FromPod \<Rightarrow> xr_resource_name x \<in> insert (eb_namespace b) ((\<lambda>y. pi_name (snd y)) ` set (eb_statuses b))
     | FromEvent \<Rightarrow> (\<exists>y\<in>set (eb_events b). \<exists>e\<in>set (snd y). xr_summary x = or_default [] (ei_message e))
     | FromDeployment \<Rightarrow> Some (xr_resource_name x) \<in> (\<lambda>y. oc_deployment_name (snd y)) ` set (eb_owners b)
     | FromCollector \<Rightarrow> (\<exists>e\<in>set (eb_errors b). ce_operation e = ''get_service'' \<and> ce_status_code e = Some 404))"

definition is_write_action :: "string option \<Rightarrow> bool" where
  "is_write_action a = (a = Some ''patch_service_selector'' \<or> a = Some ''patch_readiness_probe'')"

definition verdict_formed :: "evidence_bundle \<Rightarrow> diagnosis_result \<Rightarrow> bool" where
  "verdict_formed b r = (result_valid r \<and> xd_namespace r = eb_namespace b \<and> xd_service_name r = eb_service_name b
     \<and> (xd_status r = StatusHealthy) = (xd_category r = Healthy)
     \<and> (xd_status r = StatusUnknown) = (xd_category r = UnknownFault)
     \<and> (xd_evidence r = []) = (xd_category r = UnknownFault)
     \<and> (xd_confidence r = 0) = (xd_category r = UnknownFault)
     \<and> xd_requires_approval r = is_write_action (xd_action r)
     \<and> (xd_action r = None) = (xd_category r = Healthy)
     \<and> list_all (reference_grounded b) (xd_evidence r))"

lemmas verdict_defs = verdict_formed_def result_valid_def make_result_def is_write_action_def

lemma pod_reference_grounded: "p \<in> snd ` set (eb_statuses b) \<Longrightarrow> reference_grounded b (pod_reference p t)"
  by (auto simp: reference_grounded_def pod_reference_def)

lemma container_verdict:
  assumes "first_container P b = Some (p, c)" and "0 < q" and "q \<le> 1"
    and "category \<noteq> Healthy" and "category \<noteq> UnknownFault" and "\<not> is_write_action (Some a)"
  shows "verdict_formed b (make_result b StatusUnhealthy category cause q [pod_reference p t] (Some a) False)"
  using assms(2-) pod_reference_grounded first_container_Some [OF assms(1)]
  by (simp add: verdict_formed_def result_valid_def make_result_def)

lemma container_rules_formed:
  "oom_killed_rule rp b = Some r \<Longrightarrow> verdict_formed b r"
  "image_pull_rule rp b = Some r \<Longrightarrow> verdict_formed b r"
  "crash_loop_rule rp b = Some r \<Longrightarrow> verdict_formed b r"
  unfolding oom_killed_rule_def image_pull_rule_def crash_loop_rule_def
  by (auto simp: is_write_action_def intro!: container_verdict split: option.splits)

lemma service_rules_formed:
  "service_not_found_rule rp b = Some r \<Longrightarrow> verdict_formed b r"
  "selector_mismatch_rule rp b = Some r \<Longrightarrow> verdict_formed b r"
  "healthy_rule rp b = Some r \<Longrightarrow> verdict_formed b r"
  by (auto simp: service_not_found_rule_def selector_mismatch_rule_def healthy_rule_def verdict_defs
    selector_evidence_def reference_grounded_def dest!: find_holds split: option.splits if_splits)

lemma probe_event_held:
  assumes "probe_event b n = Some e"
  shows "\<exists>y\<in>set (eb_events b). e \<in> set (snd y)"
proof -
  from assms obtain es where "map_of (eb_events b) n = Some es" and "find probe_failure (rev es) = Some e"
    by (auto simp: probe_event_def split: option.splits)
  then show ?thesis
    using find_holds [of probe_failure "rev es" e] by (intro bexI [of _ "(n, es)"]) (auto dest: map_of_SomeD)
qed

lemma readiness_evidence_grounded:
  assumes "(n, p) \<in> set (eb_statuses b)" and "probe_event b n = Some e"
  shows "list_all (reference_grounded b) (readiness_evidence b p e (owning_deployment b n))"
proof -
  have "p \<in> snd ` set (eb_statuses b)"
    using assms(1) by force
  moreover have "Some d \<in> (\<lambda>y. oc_deployment_name (snd y)) ` set (eb_owners b)"
    if "owning_deployment b n = Some d" for d
    using that by (force simp: owning_deployment_def dest: map_of_SomeD split: Option.bind_splits)
  ultimately show ?thesis
    using probe_event_held [OF assms(2)]
    by (auto simp: readiness_evidence_def reference_grounded_def pod_reference_def split: option.split)
qed

lemma readiness_rule_formed:
  assumes "readiness_probe_rule rp b = Some r"
  shows "verdict_formed b r"
proof -
  from assms obtain n p e where found: "find (not_ready_pod b) (eb_statuses b) = Some (n, p)"
      and e: "probe_event b n = Some e"
      and r: "r = make_result b StatusUnhealthy ReadinessProbeError (xd_root_cause r) (98/100)
        (readiness_evidence b p e (owning_deployment b n)) (Some ''patch_readiness_probe'') True"
    by (auto simp: readiness_probe_rule_def Let_def make_result_def split: option.splits prod.splits)
  have "readiness_evidence b p e (owning_deployment b n) \<noteq> []"
    by (simp add: readiness_evidence_def)
  with find_holds [OF found] readiness_evidence_grounded [OF _ e, of p] show ?thesis
    by (subst r) (simp add: verdict_defs)
qed

lemma verdict_formed_all: "verdict_formed b (diagnose_evidence rp b)"
proof -
  have "verdict_formed b (unknown_rule b)"
    by (simp add: unknown_rule_def verdict_defs Let_def)
  then show ?thesis
    unfolding diagnose_evidence_def diagnosis_rules_def
    by (auto simp: service_rules_formed container_rules_formed readiness_rule_formed split: option.split)
qed

section \<open>The diagnosis of a service\<close>

definition missing_noted :: "evidence_bundle \<Rightarrow> bool" where
  "missing_noted b = (\<exists>e\<in>set (eb_errors b). ce_operation e = ''get_service'' \<and> ce_status_code e = Some 404)"

lemma missing_stays: "undisturbed et missing_noted"
  by (auto simp: undisturbed_def missing_noted_def record_error_def)

lemma missing_service_noted:
  assumes "\<And>v. \<exists>v' m. kr_read_service k ns svc v = (Inl (ApiException 404 m), v')"
  shows "sure (collect_service_evidence et k ns svc details) missing_noted"
proof -
  have listed: "sure (collect_namespace_pods et k ns b) (\<lambda>x. True)" for b
    unfolding collect_namespace_pods_def by (rule sure_attempt) simp_all
  have service: "sure (collect_service et k ns svc b) (\<lambda>x. missing_noted (snd x))" for b
    unfolding sure_def
  proof
    fix v
    from assms [of v] obtain v' m where "kr_read_service k ns svc v = (Inl (ApiException 404 m), v')"
      by blast
    then show "\<exists>x w'. collect_service et k ns svc b v = (Inr x, w') \<and> missing_noted (snd x)"
      by (simp add: collect_service_def attempt_def get_service_def bindW_def tryW_def returnW_def
        missing_noted_def record_error_def)
  qed
  have same: "missing_noted (b\<lparr>eb_service_pods := x\<rparr>) = missing_noted b"
      "missing_noted (b\<lparr>eb_slices := y\<rparr>) = missing_noted b" for b x y
    by (simp_all add: missing_noted_def)
  have chosen: "sure (collect_service_pods et k ns svc b) (\<lambda>x. missing_noted (snd x))" if "missing_noted b" for b
    unfolding collect_service_pods_def using that undisturbedD(1) [OF missing_stays that]
    by (simp add: sure_skip sure_attempt same)
  have slices: "sure (collect_slices et k ns svc b) (\<lambda>x. missing_noted (snd x))" if "missing_noted b" for b
    unfolding collect_slices_def using that undisturbedD(1) [OF missing_stays that]
    by (simp add: sure_skip sure_attempt same)
  show ?thesis
    unfolding collect_service_evidence_def
    by (rule sure_bind [OF listed], rule sure_bind [OF service], rule sure_bind [OF chosen], assumption,
        rule sure_bind [OF slices], assumption, rule pods_keep [OF missing_stays], assumption)
qed

text \<open>C26.
  The diagnosis of a service by rules answers for every cluster. Outside the permitted namespace it raises
  before any call; inside it returns a well-formed verdict over one collected bundle: its confidence is a probability,
  approval is asked for exactly when the recommended action writes, it is healthy, unknown or unhealthy as its
  category says, and everything it cites is in the bundle. When the cluster has no such Service, the verdict says so.
\<close>

theorem service_diagnosis_total:
  assumes "diagnose_service et rp k ns svc w = (r, w')"
  shows "if ns = ''agent-demo''
    then \<exists>b. r = Inr (diagnose_evidence rp b) \<and> verdict_formed b (diagnose_evidence rp b)
      \<and> ((\<forall>v. \<exists>v' m. kr_read_service k ns svc v = (Inl (ApiException 404 m), v'))
          \<longrightarrow> xd_category (diagnose_evidence rp b) = ServiceNotFound)
    else r = Inl (PyValueError ''Namespace is not allowed'') \<and> w' = w"
proof (cases "ns = ''agent-demo''")
  case True
  obtain c w1 where run: "collect_service_evidence et k ns svc True w = (c, w1)"
    by (metis surj_pair)
  obtain b where b: "c = Inr b"
    using sureD [OF collection_shape run] by blast
  with assms True run have r: "r = Inr (diagnose_evidence rp b)"
    by (simp add: diagnose_service_def diagnosed_namespaces_def bindW_def returnW_def)
  have "xd_category (diagnose_evidence rp b) = ServiceNotFound"
    if "\<forall>v. \<exists>v' m. kr_read_service k ns svc v = (Inl (ApiException 404 m), v')"
  proof -
    have "missing_noted b"
      using sureD [OF missing_service_noted run] that b by auto
    then obtain x where "service_not_found_rule rp b = Some x"
      using rules_None(1) [of rp b] by (auto simp: missing_noted_def)
    then show ?thesis
      using rules_category(1) by (simp add: diagnose_evidence_def diagnosis_rules_def)
  qed
  with r verdict_formed_all True show ?thesis by auto
next
  case False
  with assms show ?thesis
    by (simp add: diagnose_service_def diagnosed_namespaces_def raiseW_def)
qed

definition bench_verdict :: "diagnosis_result res \<times> unit" where
  "bench_verdict = diagnose_service exn_text id bench_readers ''agent-demo'' ''shop'' ()"

lemma service_diagnosis_total_witness:
  "\<exists>x. fst bench_verdict = Inr x \<and> xd_category x = ServiceNotFound \<and> xd_status x \<noteq> StatusHealthy"
proof -
  obtain r where run: "bench_verdict = (r, ())"
    by (cases bench_verdict) simp
  have missing: "\<forall>v. \<exists>v' m. kr_read_service bench_readers ''agent-demo'' ''shop'' v = (Inl (ApiException 404 m), v')"
    by (simp add: bench_readers_def raiseW_def)
  from service_diagnosis_total [of exn_text id bench_readers "''agent-demo''" "''shop''" "()" r "()"] run missing
  obtain b where r: "r = Inr (diagnose_evidence id b)" and formed: "verdict_formed b (diagnose_evidence id b)"
      and category: "xd_category (diagnose_evidence id b) = ServiceNotFound"
    unfolding bench_verdict_def by auto
  have "fst bench_verdict = Inr (diagnose_evidence id b)"
    unfolding run r by simp
  then show ?thesis
    using formed category by (intro exI [of _ "diagnose_evidence id b"]) (simp add: verdict_formed_def)
qed

end
