(* ===== verification/Store.thy ===== *)
theory Store
  imports ExecutionPolicy
begin

text \<open>
  The PostgreSQL tables of \<open>backend/app/persistence/migrations.py\<close> as lists of row records, and a
  transaction as a function from the database to a result and the new database: an exception
  leaves no new database, as a rolled-back transaction does. A repository method takes a row lock
  on the incident or the run before it reads, so methods on one incident run one after the
  other; each is one transaction of the model. Time is a number of microseconds, and every value of
  \<open>clock_timestamp()\<close> a method reads is an argument.
\<close>

section \<open>Rows\<close>

datatype run_status =
    Queued | Running | WaitingUser | WaitingApproval | RetryScheduled | Reconciling
  | RunSucceeded | RunFailed | RunCancelled

datatype run_kind = DiagnosisRun | InteractionRun

text \<open>\<open>TERMINAL\<close>: the statuses outside the partial index of active runs.\<close>

definition terminal :: "run_status \<Rightarrow> bool" where
  "terminal s = (s \<in> {RunSucceeded, RunFailed, RunCancelled})"

record run_row =
  r_run_id :: string
  r_incident_id :: string
  r_thread_id :: string
  r_run_kind :: run_kind
  r_parent_run_id :: "string option"
  r_input_revision :: int
  r_input_payload :: json
  r_input_sha256 :: string
  r_workflow_version :: string
  r_idempotency :: "(string \<times> string) option"
  r_request_sha256 :: string
  r_status :: run_status
  r_created_at :: int
  r_updated_at :: int
  r_finished_at :: "int option"
  r_last_error :: "string option"
  r_attempt :: int
  r_attempt_base :: int
  r_lease_owner :: "string option"
  r_lease_epoch :: int
  r_lease_expires_at :: "int option"
  r_heartbeat_at :: "int option"
  r_next_retry_at :: "int option"
  r_checkpoint_started :: bool
  r_approval_payload :: "json option"
  r_source_message_id :: "string option"
  r_input_message_sequence :: "int option"
  r_context_snapshot :: "json option"
  r_context_sha256 :: "string option"
  r_output_snapshot :: "json option"
  r_event_revision :: int
  r_stop_requested :: bool
  r_invalidated_at :: "int option"
  r_question_payload :: "json option"
  r_answer_payload :: "json option"
  r_adopted_message_ids :: json
  r_interaction_progress :: json

datatype op_state =
    Prepared | Dispatching | OpSucceeded | Rejected | UnknownOutcome | Reconciled | ManualRequired

datatype attribution = Confirmed | NotEstablished

record op_row =
  o_operation_id :: string
  o_run_id :: string
  o_incident_id :: string
  o_approval_id :: string
  o_plan_revision :: string
  o_plan :: json
  o_approval :: json
  o_action :: string
  o_state :: op_state
  o_lease_epoch :: int
  o_before :: json
  o_target :: json
  o_patch :: json
  o_response :: "json option"
  o_observed :: "json option"
  o_result :: "json option"
  o_attribution :: attribution
  o_error_code :: "string option"
  o_created_at :: int
  o_dispatched_at :: "int option"
  o_responded_at :: "int option"
  o_reconciled_at :: "int option"
  o_updated_at :: int

record incident_row =
  i_incident_id :: string
  i_thread_id :: string
  i_namespace :: string
  i_service_name :: string
  i_description :: string
  i_phase :: string
  i_created_at :: int
  i_updated_at :: int
  i_event_revision :: int

datatype message_role = UserRole | AssistantRole | ToolRole

fun role_source :: "message_role \<Rightarrow> string" where
  "role_source UserRole = ''user_supplied''"
| "role_source AssistantRole = ''model_generated''"
| "role_source ToolRole = ''tool_observed''"

record message_row =
  m_message_id :: string
  m_incident_id :: string
  m_sequence :: int
  m_client_message_id :: string
  m_role :: message_role
  m_content :: string
  m_related_run_id :: "string option"
  m_evidence_refs :: "string list"
  m_created_at :: int

datatype control_status = Saved | Pending | Started | Superseded

record control_row =
  k_control_id :: string
  k_incident_id :: string
  k_client_message_id :: string
  k_request_sha256 :: string
  k_request :: json
  k_message_id :: string
  k_parent_run_id :: "string option"
  k_snapshot :: json
  k_status :: control_status
  k_result :: dict
  k_created_at :: int

record recheck_row =
  h_recheck_id :: string
  h_incident_id :: string
  h_result :: json
  h_run_id :: "string option"

record window_row =
  w_key :: string
  w_incident_id :: string
  w_run_id :: "string option"
  w_owner_token :: string
  w_payload :: json

datatype delayed_status =
    DelayedPending | DelayedRunning | DelayedPassed | Relapsed | DelayedUnknown | Invalidated | Expired

record delayed_row =
  d_sequence :: int
  d_delayed_id :: string
  d_observation_key :: string
  d_policy_version :: string
  d_incident_id :: string
  d_source_run_id :: "string option"
  d_basis_run_id :: "string option"
  d_event_revision :: int
  d_target :: json
  d_snapshot :: json
  d_initial_result :: json
  d_status :: delayed_status
  d_due_at :: int
  d_expires_at :: int
  d_next_attempt_at :: int
  d_run_id :: "string option"
  d_result :: "json option"
  d_reason :: "string option"
  d_finished_at :: "int option"

record db =
  db_incidents :: "incident_row list"
  db_runs :: "run_row list"
  db_operations :: "op_row list"
  db_messages :: "message_row list"
  db_controls :: "control_row list"
  db_workers :: "(string \<times> int) list"
  db_rechecks :: "recheck_row list"
  db_windows :: "window_row list"
  db_delayed :: "delayed_row list"

definition empty_db :: db where
  "empty_db = \<lparr>db_incidents = [], db_runs = [], db_operations = [], db_messages = [],
     db_controls = [], db_workers = [], db_rechecks = [], db_windows = [], db_delayed = []\<rparr>"

section \<open>Transactions\<close>

type_synonym 'a txn = "db \<Rightarrow> ('a \<times> db) res"

definition returnT :: "'a \<Rightarrow> 'a txn" where
  "returnT x d = Inr (x, d)"

definition raiseT :: "exn \<Rightarrow> 'a txn" where
  "raiseT e d = Inl e"

definition bindT :: "'a txn \<Rightarrow> ('a \<Rightarrow> 'b txn) \<Rightarrow> 'b txn" where
  "bindT m f d = bindE (m d) (\<lambda>(x, d'). f x d')"

definition requireT :: "bool \<Rightarrow> exn \<Rightarrow> unit txn" where
  "requireT c e d = (if c then Inr ((), d) else Inl e)"

definition askT :: "(db \<Rightarrow> 'a) \<Rightarrow> 'a txn" where
  "askT f d = Inr (f d, d)"

definition modifyT :: "(db \<Rightarrow> db) \<Rightarrow> unit txn" where
  "modifyT f d = Inr ((), f d)"

named_theorems txn_simps "reading results of transactions"

lemma txn_defs [txn_simps]:
  "returnT x d = Inr (x, d)"
  "raiseT e d = Inl e"
  "askT g d = Inr (g d, d)"
  "modifyT h d = Inr ((), h d)"
  by (simp_all add: returnT_def raiseT_def askT_def modifyT_def)

lemma bindT_Inr [txn_simps]:
  "bindT m f d = Inr (y, d') \<longleftrightarrow> (\<exists>x d1. m d = Inr (x, d1) \<and> f x d1 = Inr (y, d'))"
  by (auto simp: bindT_def res_simps)

lemma requireT_Inr [txn_simps]: "requireT c e d = Inr (u, d') \<longleftrightarrow> c \<and> d' = d"
  by (auto simp: requireT_def)

section \<open>Statements\<close>

text \<open>\<open>SELECT ... fetchone()\<close> on a key, \<open>UPDATE ... WHERE\<close>.\<close>

definition update_where :: "('a \<Rightarrow> bool) \<Rightarrow> ('a \<Rightarrow> 'a) \<Rightarrow> 'a list \<Rightarrow> 'a list" where
  "update_where p f = map (\<lambda>r. if p r then f r else r)"

definition find_run :: "string \<Rightarrow> db \<Rightarrow> run_row option" where
  "find_run i d = find (\<lambda>r. r_run_id r = i) (db_runs d)"

definition find_incident :: "string \<Rightarrow> db \<Rightarrow> incident_row option" where
  "find_incident i d = find (\<lambda>r. i_incident_id r = i) (db_incidents d)"

definition find_op :: "string \<Rightarrow> db \<Rightarrow> op_row option" where
  "find_op i d = find (\<lambda>r. o_run_id r = i) (db_operations d)"

definition set_run :: "string \<Rightarrow> (run_row \<Rightarrow> run_row) \<Rightarrow> unit txn" where
  "set_run i f = modifyT (\<lambda>d. d\<lparr>db_runs := update_where (\<lambda>r. r_run_id r = i) f (db_runs d)\<rparr>)"

definition set_incident :: "string \<Rightarrow> (incident_row \<Rightarrow> incident_row) \<Rightarrow> unit txn" where
  "set_incident i f =
     modifyT (\<lambda>d. d\<lparr>db_incidents := update_where (\<lambda>r. i_incident_id r = i) f (db_incidents d)\<rparr>)"

definition set_op :: "string \<Rightarrow> (op_row \<Rightarrow> op_row) \<Rightarrow> unit txn" where
  "set_op i f =
     modifyT (\<lambda>d. d\<lparr>db_operations := update_where (\<lambda>r. o_run_id r = i) f (db_operations d)\<rparr>)"

text \<open>The operation states that block other work of the incident.\<close>

definition unsettled :: "op_state \<Rightarrow> bool" where
  "unsettled s = (s \<in> {Prepared, Dispatching, UnknownOutcome, ManualRequired})"

definition uncertain :: "op_state \<Rightarrow> bool" where
  "uncertain s = (s \<in> {Dispatching, UnknownOutcome, ManualRequired})"

text \<open>\<open>ORDER BY created_at, run_id\<close>\<close>

definition ordered_runs :: "run_row list \<Rightarrow> run_row list" where
  "ordered_runs rs = sort_key r_created_at (sort_key r_run_id rs)"

text \<open>\<open>ORDER BY created_at DESC, run_id DESC LIMIT 1\<close> over the diagnosis runs of an incident\<close>

definition latest_diagnosis :: "string \<Rightarrow> db \<Rightarrow> run_row option" where
  "latest_diagnosis i d =
     (case rev (ordered_runs (filter (\<lambda>r. r_incident_id r = i \<and> r_run_kind r = DiagnosisRun) (db_runs d))) of
        [] \<Rightarrow> None | r # _ \<Rightarrow> Some r)"

section \<open>Inserting a run\<close>

text \<open>
  The constraints of the table: the incident exists; run and thread identifiers, the idempotency
  pair and the source message are unique; and the partial index \<open>runs_one_active_per_incident\<close>.
\<close>

definition run_insertable :: "run_row \<Rightarrow> db \<Rightarrow> bool" where
  "run_insertable n d = (list_all (\<lambda>r. r_run_id r \<noteq> r_run_id n \<and> r_thread_id r \<noteq> r_thread_id n
      \<and> (r_idempotency n = None \<or> r_idempotency r \<noteq> r_idempotency n)
      \<and> (r_source_message_id n = None \<or> r_source_message_id r \<noteq> r_source_message_id n)
      \<and> \<not> (r_incident_id r = r_incident_id n \<and> r_run_kind r = r_run_kind n
           \<and> \<not> terminal (r_status r) \<and> \<not> terminal (r_status n))) (db_runs d)
      \<and> list_ex (\<lambda>i. i_incident_id i = r_incident_id n) (db_incidents d))"

definition insert_run :: "run_row \<Rightarrow> run_row txn" where
  "insert_run n = bindT (askT (run_insertable n)) (\<lambda>ok.
     bindT (requireT ok StorageError) (\<lambda>_.
     bindT (modifyT (\<lambda>d. d\<lparr>db_runs := db_runs d @ [n]\<rparr>)) (\<lambda>_. returnT n)))"

text \<open>The column defaults of a new row.\<close>

definition new_run :: "string \<Rightarrow> string \<Rightarrow> string \<Rightarrow> run_kind \<Rightarrow> json \<Rightarrow> string \<Rightarrow> int \<Rightarrow> run_row" where
  "new_run rid iid tid k payload sha t = \<lparr>r_run_id = rid, r_incident_id = iid, r_thread_id = tid,
     r_run_kind = k, r_parent_run_id = None, r_input_revision = 1, r_input_payload = payload,
     r_input_sha256 = sha, r_workflow_version = ''incident-v1'', r_idempotency = None,
     r_request_sha256 = sha, r_status = Queued, r_created_at = t, r_updated_at = t,
     r_finished_at = None, r_last_error = None, r_attempt = 0, r_attempt_base = 0,
     r_lease_owner = None, r_lease_epoch = 0, r_lease_expires_at = None, r_heartbeat_at = None,
     r_next_retry_at = None, r_checkpoint_started = False, r_approval_payload = None,
     r_source_message_id = None, r_input_message_sequence = None, r_context_snapshot = None,
     r_context_sha256 = None, r_output_snapshot = None, r_event_revision = 0,
     r_stop_requested = False, r_invalidated_at = None, r_question_payload = None,
     r_answer_payload = None, r_adopted_message_ids = JArr [],
     r_interaction_progress = JObj []\<rparr>"

section \<open>Laws\<close>

lemma update_where_set: "r \<in> set (update_where p f rs) \<longleftrightarrow> (\<exists>q\<in>set rs. r = (if p q then f q else q))"
  by (auto simp: update_where_def)

lemma map_update_where:
  "(\<And>r. g (f r) = g r) \<Longrightarrow> map g (update_where p f rs) = map g rs"
  by (induction rs) (auto simp: update_where_def)

lemma find_update_where:
  assumes "\<And>r. g (f r) = g r"
  shows "find (\<lambda>r. g r = i) (update_where (\<lambda>r. g r = j) f rs)
       = map_option (\<lambda>r. if g r = j then f r else r) (find (\<lambda>r. g r = i) rs)"
  using assms by (induction rs) (auto simp: update_where_def)

lemma find_unique:
  assumes "distinct (map g rs)" and "r \<in> set rs"
  shows "find (\<lambda>q. g q = g r) rs = Some r"
  using assms by (induction rs) (auto simp: rev_image_eqI)

lemma find_mem: "find (\<lambda>q. g q = i) rs = Some r \<Longrightarrow> r \<in> set rs \<and> g r = i"
  by (induction rs) (auto split: if_splits)

end
