(* ===== verification/Leases.thy ===== *)
theory Leases
  imports Store
begin

text \<open>
  \<open>backend/app/persistence/leases.py\<close>: worker presence, claiming the next run, and the fence
  every later write of a worker passes: the run must still be owned by the lease's owner
  and epoch, be running, and not have expired.
\<close>

section \<open>Worker presence\<close>

definition announce :: "string \<Rightarrow> int \<Rightarrow> int \<Rightarrow> unit txn" where
  "announce owner secs t = modifyT (\<lambda>d. d\<lparr>db_workers :=
     (if owner \<in> fst ` set (db_workers d)
      then update_where (\<lambda>w. fst w = owner) (\<lambda>w. (owner, t + secs)) (db_workers d)
      else db_workers d @ [(owner, t + secs)])\<rparr>)"

definition withdraw :: "string \<Rightarrow> unit txn" where
  "withdraw owner = modifyT (\<lambda>d. d\<lparr>db_workers := filter (\<lambda>w. fst w \<noteq> owner) (db_workers d)\<rparr>)"

definition worker_available :: "int \<Rightarrow> db \<Rightarrow> bool" where
  "worker_available t d = list_ex (\<lambda>w. snd w > t) (db_workers d)"

section \<open>Claiming\<close>

text \<open>\<open>WHERE\<close> of the claim; a comparison with \<open>NULL\<close> is not true.\<close>

definition due :: "int \<Rightarrow> int option \<Rightarrow> bool" where
  "due t x = (case x of None \<Rightarrow> False | Some e \<Rightarrow> e \<le> t)"

definition claimable :: "int \<Rightarrow> run_row \<Rightarrow> bool" where
  "claimable t r = (r_status r = Queued
     \<or> r_status r = RetryScheduled \<and> due t (r_next_retry_at r)
     \<or> r_status r = Running \<and> due t (r_lease_expires_at r))"

text \<open>
  \<open>SKIP LOCKED\<close>: the identifiers of the rows other transactions hold are the argument \<open>locked\<close>.
\<close>

definition candidate :: "string list \<Rightarrow> int \<Rightarrow> db \<Rightarrow> run_row option" where
  "candidate locked t d =
     (case ordered_runs (filter (\<lambda>r. claimable t r \<and> r_run_id r \<notin> set locked) (db_runs d)) of
        [] \<Rightarrow> None | r # _ \<Rightarrow> Some r)"

definition exhausted :: "int \<Rightarrow> run_row \<Rightarrow> bool" where
  "exhausted max_attempts r = (r_attempt r - r_attempt_base r \<ge> max_attempts)"

definition claimed :: "string \<Rightarrow> int \<Rightarrow> int \<Rightarrow> int \<Rightarrow> run_row \<Rightarrow> run_row" where
  "claimed owner secs max_attempts t r =
     r\<lparr>r_status := Running, r_lease_owner := Some owner, r_lease_epoch := r_lease_epoch r + 1,
       r_attempt := r_attempt r + (if exhausted max_attempts r then 0 else 1),
       r_heartbeat_at := Some t, r_lease_expires_at := Some (t + secs),
       r_updated_at := t, r_next_retry_at := None\<rparr>"

text \<open>The lease a worker holds: the claimed row and whether it may only project saved results.\<close>

record lease =
  le_run :: run_row
  le_recovery_only :: bool

definition claim :: "string list \<Rightarrow> string \<Rightarrow> int \<Rightarrow> int \<Rightarrow> int \<Rightarrow> lease option txn" where
  "claim locked owner secs max_attempts t =
     bindT (askT (candidate locked t)) (\<lambda>c. case c of
       None \<Rightarrow> returnT None
     | Some r \<Rightarrow> bindT (set_run (r_run_id r) (claimed owner secs max_attempts t)) (\<lambda>_.
         returnT (Some \<lparr>le_run = claimed owner secs max_attempts t r,
                        le_recovery_only = exhausted max_attempts r\<rparr>)))"

section \<open>The fence\<close>

definition owns :: "int \<Rightarrow> lease \<Rightarrow> run_row \<Rightarrow> bool" where
  "owns t l r = (r_run_id r = r_run_id (le_run l)
     \<and> r_lease_owner (le_run l) \<noteq> None \<and> r_lease_owner r = r_lease_owner (le_run l)
     \<and> r_lease_epoch r = r_lease_epoch (le_run l) \<and> r_status r = Running
     \<and> (case r_lease_expires_at r of None \<Rightarrow> False | Some e \<Rightarrow> e > t))"

text \<open>
  The row is looked up at \<open>t0\<close>, and once its lock is held its expiry is compared with the clock
  again, at \<open>t1\<close>; the body runs in the same transaction.
\<close>

definition fence :: "int \<Rightarrow> int \<Rightarrow> lease \<Rightarrow> 'a txn \<Rightarrow> 'a txn" where
  "fence t0 t1 l body =
     bindT (askT (\<lambda>d. list_ex (owns t0 l) (db_runs d))) (\<lambda>found.
     bindT (requireT found (LeaseLost ''run lease is no longer owned'')) (\<lambda>_.
     bindT (askT (\<lambda>d. list_ex (owns t1 l) (db_runs d))) (\<lambda>valid.
     bindT (requireT valid (LeaseLost ''run lease expired while waiting for its lock'')) (\<lambda>_. body))))"

definition assert_owned :: "int \<Rightarrow> int \<Rightarrow> lease \<Rightarrow> unit txn" where
  "assert_owned t0 t1 l = fence t0 t1 l (returnT ())"

definition mark_checkpoint_started :: "int \<Rightarrow> int \<Rightarrow> lease \<Rightarrow> unit txn" where
  "mark_checkpoint_started t0 t1 l =
     fence t0 t1 l (set_run (r_run_id (le_run l)) (\<lambda>r. r\<lparr>r_checkpoint_started := True\<rparr>))"

definition heartbeat :: "int \<Rightarrow> int \<Rightarrow> int \<Rightarrow> lease \<Rightarrow> unit txn" where
  "heartbeat secs t0 t1 l = fence t0 t1 l
     (set_run (r_run_id (le_run l)) (\<lambda>r. r\<lparr>r_heartbeat_at := Some t1, r_lease_expires_at := Some (t1 + secs)\<rparr>))"

section \<open>Finishing\<close>

record outcome =
  out_status :: run_status
  out_phase :: "string option"
  out_error :: "string option"
  out_retry :: "int option"
  out_snapshot :: "json option"
  out_question :: "json option"
  out_adopted :: "json option"

definition worker_result :: "run_status \<Rightarrow> bool" where
  "worker_result s = (s \<in> {RunSucceeded, RunFailed, WaitingApproval, WaitingUser, RetryScheduled, Reconciling, RunCancelled})"

text \<open>
  A run whose stop was requested while it worked does not publish its result: it is cancelled, or
  left for reconciliation when a write of it may have reached the cluster.
\<close>

definition effective :: "bool \<Rightarrow> op_row option \<Rightarrow> outcome \<Rightarrow> outcome" where
  "effective stop op out =
     (if stop \<and> out_status out \<in> {RunSucceeded, RunFailed, WaitingUser, WaitingApproval}
      then (let rec = (case op of None \<Rightarrow> False | Some p \<Rightarrow> uncertain (o_state p)) in
            out\<lparr>out_status := (if rec then Reconciling else RunCancelled),
                out_phase := Some (if rec then ''reconciling'' else ''cancelled''),
                out_error := Some (if rec then ''CONTROL_PENDING_RECONCILIATION'' else ''INPUT_SUPERSEDED'')\<rparr>)
      else out)"

definition question_update :: "outcome \<Rightarrow> run_row \<Rightarrow> run_row" where
  "question_update out r =
     (if out_status out = WaitingUser \<and> (case out_question out of None \<Rightarrow> False | Some q \<Rightarrow> truthy q)
      then r\<lparr>r_question_payload := out_question out, r_answer_payload := None\<rparr>
      else if terminal (out_status out) then r\<lparr>r_question_payload := None\<rparr> else r)"

definition adopted_update :: "outcome \<Rightarrow> run_row \<Rightarrow> run_row" where
  "adopted_update out r = (case out_adopted out of None \<Rightarrow> r | Some v \<Rightarrow> r\<lparr>r_adopted_message_ids := v\<rparr>)"

definition status_update :: "outcome \<Rightarrow> int \<Rightarrow> run_row \<Rightarrow> run_row" where
  "status_update out t r = r\<lparr>r_status := out_status out,
     r_last_error := (if blank (out_error out) then None else out_error out), r_updated_at := t,
     r_finished_at := (if terminal (out_status out) then Some t else None),
     r_next_retry_at := (case out_retry out of None \<Rightarrow> None | Some s \<Rightarrow> Some (t + s)),
     r_lease_owner := None, r_lease_expires_at := None\<rparr>"

definition output_update :: "outcome \<Rightarrow> run_row \<Rightarrow> run_row" where
  "output_update out r = (if terminal (out_status out) \<and> r_output_snapshot r = None
     then r\<lparr>r_output_snapshot := out_snapshot out\<rparr> else r)"

definition unsafe_retry :: "op_row option \<Rightarrow> outcome \<Rightarrow> bool" where
  "unsafe_retry op out = (out_status out = RetryScheduled
     \<and> (case op of None \<Rightarrow> False | Some p \<Rightarrow> o_state p \<notin> {Prepared, Rejected}))"

definition publish :: "int \<Rightarrow> lease \<Rightarrow> outcome \<Rightarrow> run_status txn" where
  "publish t l out =
     bindT (set_run (r_run_id (le_run l)) (question_update out)) (\<lambda>_.
     bindT (set_run (r_run_id (le_run l)) (adopted_update out)) (\<lambda>_.
     bindT (askT (find_op (r_run_id (le_run l)))) (\<lambda>op.
     bindT (requireT (\<not> unsafe_retry op out) (UnsafeRetry ''external operation requires reconciliation'')) (\<lambda>_.
     bindT (set_run (r_run_id (le_run l)) (status_update out t)) (\<lambda>_.
     bindT (case out_phase out of None \<Rightarrow> returnT ()
            | Some p \<Rightarrow> set_incident (r_incident_id (le_run l)) (\<lambda>i. i\<lparr>i_phase := p, i_updated_at := t\<rparr>)) (\<lambda>_.
     bindT (set_run (r_run_id (le_run l)) (output_update out)) (\<lambda>_.
     returnT (out_status out))))))))"

definition finish :: "int \<Rightarrow> int \<Rightarrow> lease \<Rightarrow> outcome \<Rightarrow> run_status txn" where
  "finish t0 t1 l out =
     (if \<not> worker_result (out_status out) then raiseT (PyValueError ''invalid worker result status'')
      else if (out_status out = RetryScheduled) \<noteq> (out_retry out \<noteq> None)
      then raiseT (PyValueError ''retry delay is required only for retry_scheduled'')
      else fence t0 t1 l
        (bindT (askT (find_run (r_run_id (le_run l)))) (\<lambda>row.
         bindT (askT (find_op (r_run_id (le_run l)))) (\<lambda>op.
           publish t1 l (effective (case row of None \<Rightarrow> False | Some r \<Rightarrow> r_stop_requested r) op out)))))"

section \<open>Laws\<close>

lemma fence_Inr [txn_simps]:
  "fence t0 t1 l body d = Inr (x, d') \<longleftrightarrow>
     list_ex (owns t0 l) (db_runs d) \<and> list_ex (owns t1 l) (db_runs d) \<and> body d = Inr (x, d')"
  by (auto simp: fence_def txn_simps)

lemma fence_lost:
  "\<not> list_ex (owns t0 l) (db_runs d) \<Longrightarrow> fence t0 t1 l body d = Inl (LeaseLost ''run lease is no longer owned'')"
  by (simp add: fence_def bindT_def askT_def requireT_def)

end
