(* ===== verification/Operations.thy ===== *)
theory Operations
  imports Leases
begin

text \<open>
  \<open>backend/app/persistence/operations.py\<close>: the journal of cluster writes. One operation per run,
  bound to the approved plan, moved through its states only by the owner of the run's lease, and
  the human decision queued onto a waiting run.
\<close>

section \<open>The binding of a decision\<close>

text \<open>\<open>approval_binding\<close>: the digest of what the decision was made on.\<close>

definition approval_binding :: "(json \<Rightarrow> string) \<Rightarrow> incident_state \<Rightarrow> string" where
  "approval_binding H s = digest H (JObj
     ([(''request'', request_json s),
       (''remediation_plan'', opt_json (\<lambda>p. JObj (plan_dump p)) (st_remediation_plan s)),
       (''service_profile'', opt_json snapshot_json (st_service_profile s)),
       (''diagnosis'', opt_json diagnosis_json (st_diagnosis s)),
       (''evidence'', evidence_list_json s)]
      @ (if blank (st_run_id s) then [] else [(''run_id'', opt_str (st_run_id s))])))"

text \<open>
  \<open>assert_revision\<close>: the run was accepted at the incident's current event revision and no stop
  was requested since.
\<close>

definition current_revision :: "string \<Rightarrow> db \<Rightarrow> bool" where
  "current_revision rid d = (case find_run rid d of
       None \<Rightarrow> False
     | Some r \<Rightarrow> (case find_incident (r_incident_id r) d of
           None \<Rightarrow> False
         | Some i \<Rightarrow> \<not> r_stop_requested r \<and> r_event_revision r = i_event_revision i))"

definition assert_revision :: "string \<Rightarrow> unit txn" where
  "assert_revision rid = bindT (askT (current_revision rid)) (\<lambda>ok. requireT ok ApprovalConflict)"

section \<open>Queueing a decision\<close>

definition unsettled_in :: "string \<Rightarrow> db \<Rightarrow> bool" where
  "unsettled_in iid d = list_ex (\<lambda>p. o_incident_id p = iid \<and> unsettled (o_state p)) (db_operations d)"

definition decision_payload :: "json \<Rightarrow> string \<Rightarrow> json" where
  "decision_payload decision binding = JObj [(''decision'', decision), (''binding'', JStr binding)]"

definition queue_approval :: "string \<Rightarrow> json \<Rightarrow> string \<Rightarrow> int \<Rightarrow> unit txn" where
  "queue_approval rid decision binding t = (let payload = decision_payload decision binding in
     bindT (askT (find_run rid)) (\<lambda>found. case found of
       None \<Rightarrow> raiseT ApprovalConflict
     | Some row \<Rightarrow>
        bindT (assert_revision rid) (\<lambda>_.
        case r_approval_payload row of
          Some saved \<Rightarrow> requireT (py_eq saved payload) ApprovalConflict
        | None \<Rightarrow>
           bindT (requireT (r_status row = WaitingApproval) ApprovalConflict) (\<lambda>_.
           bindT (askT (unsettled_in (r_incident_id row))) (\<lambda>busy.
           bindT (requireT (\<not> busy) ApprovalConflict) (\<lambda>_.
           set_run rid (\<lambda>r. r\<lparr>r_approval_payload := Some payload, r_status := Queued,
             r_attempt_base := r_attempt r, r_updated_at := t\<rparr>)))))))"

section \<open>The journal\<close>

definition operation_id :: "(json \<Rightarrow> string) \<Rightarrow> string \<Rightarrow> string \<Rightarrow> string \<Rightarrow> string" where
  "operation_id H rid revn aid = ''op-'' @ digest H (JObj
     [(''run'', JStr rid), (''plan'', JStr revn), (''approval'', JStr aid), (''sequence'', JInt 0)])"

record op_request =
  rq_approval_id :: string
  rq_plan_revision :: string
  rq_plan :: json
  rq_action :: string
  rq_before :: json
  rq_target :: json
  rq_patch :: json

definition new_op :: "(json \<Rightarrow> string) \<Rightarrow> lease \<Rightarrow> op_request \<Rightarrow> int \<Rightarrow> op_row" where
  "new_op H l q t = (let r = le_run l in
     \<lparr>o_operation_id = operation_id H (r_run_id r) (rq_plan_revision q) (rq_approval_id q),
      o_run_id = r_run_id r, o_incident_id = r_incident_id r, o_approval_id = rq_approval_id q,
      o_plan_revision = rq_plan_revision q, o_plan = rq_plan q,
      o_approval = opt_get (r_approval_payload r), o_action = rq_action q, o_state = Prepared,
      o_lease_epoch = r_lease_epoch r, o_before = rq_before q, o_target = rq_target q,
      o_patch = rq_patch q, o_response = None, o_observed = None, o_result = None,
      o_attribution = NotEstablished, o_error_code = None, o_created_at = t, o_dispatched_at = None,
      o_responded_at = None, o_reconciled_at = None, o_updated_at = t\<rparr>)"

definition insert_op :: "op_row \<Rightarrow> op_row txn" where
  "insert_op p =
     bindT (askT (\<lambda>d. list_all (\<lambda>q. o_operation_id q \<noteq> o_operation_id p \<and> o_run_id q \<noteq> o_run_id p) (db_operations d))) (\<lambda>ok.
     bindT (requireT ok StorageError) (\<lambda>_.
     bindT (modifyT (\<lambda>d. d\<lparr>db_operations := db_operations d @ [p]\<rparr>)) (\<lambda>_. returnT p)))"

definition prepare :: "(json \<Rightarrow> string) \<Rightarrow> int \<Rightarrow> int \<Rightarrow> lease \<Rightarrow> op_request \<Rightarrow> op_row txn" where
  "prepare H t0 t1 l q = fence t0 t1 l
     (bindT (askT (\<lambda>d. list_ex (\<lambda>p. o_incident_id p = r_incident_id (le_run l)
          \<and> o_run_id p \<noteq> r_run_id (le_run l) \<and> unsettled (o_state p)) (db_operations d))) (\<lambda>busy.
      bindT (requireT (\<not> busy) ApprovalConflict) (\<lambda>_.
      bindT (assert_revision (r_run_id (le_run l))) (\<lambda>_.
      bindT (askT (find_op (r_run_id (le_run l)))) (\<lambda>existing. case existing of
        Some p \<Rightarrow> bindT (requireT (o_operation_id p = o_operation_id (new_op H l q t1)) ApprovalConflict)
                     (\<lambda>_. returnT p)
      | None \<Rightarrow> insert_op (new_op H l q t1))))))"

definition dispatchable :: "lease \<Rightarrow> string \<Rightarrow> op_row \<Rightarrow> bool" where
  "dispatchable l oid p = (o_operation_id p = oid \<and> o_run_id p = r_run_id (le_run l) \<and> o_state p = Prepared)"

definition dispatch :: "int \<Rightarrow> int \<Rightarrow> lease \<Rightarrow> string \<Rightarrow> unit txn" where
  "dispatch t0 t1 l oid = fence t0 t1 l
     (bindT (assert_revision (r_run_id (le_run l))) (\<lambda>_.
      bindT (askT (\<lambda>d. list_ex (dispatchable l oid) (db_operations d))) (\<lambda>found.
      bindT (requireT found (LeaseLost ''operation has already been dispatched'')) (\<lambda>_.
      modifyT (\<lambda>d. d\<lparr>db_operations := update_where (dispatchable l oid)
        (\<lambda>p. p\<lparr>o_state := Dispatching, o_lease_epoch := r_lease_epoch (le_run l),
               o_dispatched_at := Some t1, o_updated_at := t1\<rparr>) (db_operations d)\<rparr>)))))"

text \<open>The states an outcome may be recorded from.\<close>

fun recordable_from :: "op_state \<Rightarrow> op_state list" where
  "recordable_from OpSucceeded = [Dispatching]"
| "recordable_from Rejected = [Prepared, Dispatching]"
| "recordable_from UnknownOutcome = [Dispatching]"
| "recordable_from Reconciled = [OpSucceeded, Reconciled]"
| "recordable_from ManualRequired = [Dispatching, UnknownOutcome, OpSucceeded, Reconciled, ManualRequired]"
| "recordable_from Prepared = []"
| "recordable_from Dispatching = []"

record op_report =
  rp_response :: "json option"
  rp_observed :: "json option"
  rp_result :: "json option"
  rp_code :: "string option"
  rp_attribution :: attribution

definition no_report :: op_report where
  "no_report = \<lparr>rp_response = None, rp_observed = None, rp_result = None, rp_code = None,
     rp_attribution = NotEstablished\<rparr>"

text \<open>\<open>COALESCE(new, old)\<close>\<close>

definition coalesce :: "'a option \<Rightarrow> 'a option \<Rightarrow> 'a option" where
  "coalesce a b = (case a of None \<Rightarrow> b | Some x \<Rightarrow> Some x)"

definition recorded :: "op_state \<Rightarrow> op_report \<Rightarrow> int \<Rightarrow> op_row \<Rightarrow> op_row" where
  "recorded st rp t p = p\<lparr>o_state := st, o_error_code := rp_code rp,
     o_response := coalesce (rp_response rp) (o_response p),
     o_observed := coalesce (rp_observed rp) (o_observed p),
     o_result := coalesce (rp_result rp) (o_result p), o_attribution := rp_attribution rp,
     o_updated_at := t,
     o_responded_at := (if rp_response rp = None then o_responded_at p else Some t),
     o_reconciled_at := (if st \<in> {Reconciled, ManualRequired} then Some t else o_reconciled_at p)\<rparr>"

definition record_outcome :: "int \<Rightarrow> int \<Rightarrow> lease \<Rightarrow> op_state \<Rightarrow> op_report \<Rightarrow> unit txn" where
  "record_outcome t0 t1 l st rp =
     (if st \<notin> {OpSucceeded, Rejected, UnknownOutcome, Reconciled, ManualRequired}
      then raiseT (PyValueError ''invalid operation outcome'')
      else fence t0 t1 l
        (bindT (askT (find_op (r_run_id (le_run l)))) (\<lambda>found. case found of
           None \<Rightarrow> raiseT (PyValueError ''invalid operation transition'')
         | Some p \<Rightarrow>
            bindT (requireT (o_state p \<in> set (recordable_from st)) (PyValueError ''invalid operation transition'')) (\<lambda>_.
            bindT (requireT (\<not> (rp_response rp \<noteq> None \<and> o_response p \<noteq> None
                               \<or> rp_result rp \<noteq> None \<and> o_result p \<noteq> None))
                     (PyValueError ''operation response is immutable'')) (\<lambda>_.
            set_op (r_run_id (le_run l)) (recorded st rp t1))))))"

end
