(* ===== verification/Runs.thy ===== *)
theory Runs
  imports Store
begin

text \<open>
  \<open>backend/app/persistence/runs.py\<close>: durable acceptance of an incident request under an
  idempotency key. The first lookup, the insertion and the lookup after a lost race are three
  transactions; each is given the database it sees.
\<close>

definition scope :: string where
  "scope = ''single-operator:create-incident:v1''"

text \<open>\<open>^[A-Za-z0-9._:-]{1,128}$\<close>\<close>

definition key_char :: "char \<Rightarrow> bool" where
  "key_char c = (is_lower_alnum (ascii_lower c) \<or> c \<in> set ''._:-'')"

definition validate_key :: "string option \<Rightarrow> unit res" where
  "validate_key k = (case k of
       None \<Rightarrow> Inr ()
     | Some s \<Rightarrow> if len_between 1 128 s \<and> list_all key_char s then Inr () else Inl InvalidRunQuery)"

definition request_digest :: "(json \<Rightarrow> string) \<Rightarrow> json \<Rightarrow> string" where
  "request_digest H v = digest H v"

definition by_key :: "string \<Rightarrow> db \<Rightarrow> run_row option" where
  "by_key k d = find (\<lambda>r. r_idempotency r = Some (scope, k)) (db_runs d)"

definition replay :: "run_row \<Rightarrow> string \<Rightarrow> run_row res" where
  "replay row dig = (if r_request_sha256 row \<noteq> dig then Inl IdempotencyConflict else Inr row)"

definition latest :: "string \<Rightarrow> db \<Rightarrow> run_row option" where
  "latest iid d = latest_diagnosis iid d"

section \<open>The selected workflow\<close>

record api_settings =
  as_investigation_enabled :: bool
  as_queued :: bool

definition selected_workflow :: "api_settings \<Rightarrow> string res" where
  "selected_workflow c =
     (if as_investigation_enabled c
      then if as_queued c then Inr ''incident-investigation-v1''
           else Inl (PyValueError ''INVESTIGATION_REQUIRES_QUEUED'')
      else Inr ''incident-dialogue-v1'')"

section \<open>Accepting a request\<close>

record create_request =
  cr_namespace :: string
  cr_service_name :: string
  cr_description :: string

definition request_payload :: "create_request \<Rightarrow> json" where
  "request_payload q = JObj [(''namespace'', JStr (cr_namespace q)),
     (''service_name'', JStr (cr_service_name q)), (''description'', JStr (cr_description q))]"

text \<open>\<open>btrim\<close> removes spaces only.\<close>

definition btrim :: "string \<Rightarrow> string" where
  "btrim s = rev (dropWhile (\<lambda>c. c = CHR '' '') (rev (dropWhile (\<lambda>c. c = CHR '' '') s)))"

definition incident_insertable :: "incident_row \<Rightarrow> db \<Rightarrow> bool" where
  "incident_insertable n d = (list_all (\<lambda>i. i_incident_id i \<noteq> i_incident_id n \<and> i_thread_id i \<noteq> i_thread_id n)
       (db_incidents d)
     \<and> list_all (\<lambda>s. btrim s \<noteq> []) [i_incident_id n, i_thread_id n, i_namespace n, i_service_name n, i_description n]
     \<and> length (i_namespace n) \<le> 63 \<and> length (i_service_name n) \<le> 63)"

definition insert_incident :: "incident_row \<Rightarrow> unit txn" where
  "insert_incident n = bindT (askT (incident_insertable n)) (\<lambda>ok.
     bindT (requireT ok StorageError) (\<lambda>_.
     modifyT (\<lambda>d. d\<lparr>db_incidents := db_incidents d @ [n]\<rparr>)))"

record accept_args =
  ac_incident_id :: string
  ac_run_id :: string
  ac_thread_id :: string
  ac_request :: create_request
  ac_key :: "string option"
  ac_dialogue :: bool
  ac_time :: int

definition accepted_incident :: "accept_args \<Rightarrow> incident_row" where
  "accepted_incident a = \<lparr>i_incident_id = ac_incident_id a, i_thread_id = ac_thread_id a,
     i_namespace = cr_namespace (ac_request a), i_service_name = cr_service_name (ac_request a),
     i_description = cr_description (ac_request a), i_phase = ''created'', i_created_at = ac_time a,
     i_updated_at = ac_time a, i_event_revision = 0\<rparr>"

definition accepted_run :: "(json \<Rightarrow> string) \<Rightarrow> accept_args \<Rightarrow> run_row" where
  "accepted_run H a = (let p = request_payload (ac_request a) in
     (new_run (ac_run_id a) (ac_incident_id a) (ac_thread_id a) DiagnosisRun p (request_digest H p) (ac_time a))
       \<lparr>r_idempotency := (case ac_key a of None \<Rightarrow> None | Some k \<Rightarrow> Some (scope, k))\<rparr>)"

definition accept_insert :: "(json \<Rightarrow> string) \<Rightarrow> api_settings \<Rightarrow> accept_args \<Rightarrow> run_row txn" where
  "accept_insert H c a =
     bindT (insert_incident (accepted_incident a)) (\<lambda>_.
     bindT (insert_run (accepted_run H a)) (\<lambda>row.
     if ac_dialogue a then
       (case selected_workflow c of
          Inl e \<Rightarrow> raiseT e
        | Inr w \<Rightarrow> (let f = (\<lambda>r. r\<lparr>r_workflow_version := w, r_context_snapshot := Some (JObj []),
                              r_context_sha256 := Some (request_digest H (JObj []))\<rparr>)
                    in bindT (set_run (ac_run_id a) f) (\<lambda>_. returnT (f row))))
     else returnT row))"

text \<open>
  A \<open>UniqueViolation\<close> of the idempotency constraint means another request with the same key won the
  race: its row, read in \<open>d2\<close>, is replayed. Every other storage error is \<open>RunError\<close>.
\<close>

definition lost_key_race :: "(json \<Rightarrow> string) \<Rightarrow> accept_args \<Rightarrow> db \<Rightarrow> bool" where
  "lost_key_race H a d = (incident_insertable (accepted_incident a) d
     \<and> (case ac_key a of None \<Rightarrow> False | Some k \<Rightarrow> by_key k d \<noteq> None)
     \<and> list_all (\<lambda>r. r_run_id r \<noteq> ac_run_id a \<and> r_thread_id r \<noteq> ac_thread_id a
          \<and> r_incident_id r \<noteq> ac_incident_id a) (db_runs d))"

definition accept :: "(json \<Rightarrow> string) \<Rightarrow> api_settings \<Rightarrow> accept_args \<Rightarrow> db \<Rightarrow> db \<Rightarrow> db \<Rightarrow> (run_row \<times> db) res" where
  "accept H c a d0 d1 d2 =
     (let dig = request_digest H (request_payload (ac_request a)) in
      bindE (validate_key (ac_key a)) (\<lambda>_.
      case Option.bind (ac_key a) (\<lambda>k. by_key k d0) of
        Some existing \<Rightarrow> bindE (replay existing dig) (\<lambda>r. Inr (r, d1))
      | None \<Rightarrow> (case accept_insert H c a d1 of
            Inr (row, d') \<Rightarrow> Inr (row, d')
          | Inl e \<Rightarrow>
              if e \<noteq> StorageError then Inl e
              else if lost_key_race H a d1
              then (case Option.bind (ac_key a) (\<lambda>k. by_key k d2) of
                      Some winner \<Rightarrow> bindE (replay winner dig) (\<lambda>r. Inr (r, d1))
                    | None \<Rightarrow> Inl RunError)
              else Inl RunError)))"

end
