(* ===== verification/Controls.thy ===== *)
theory Controls
  imports Operations Runs
begin

text \<open>
  \<open>backend/app/persistence/controls.py\<close>: a user's stop, supplement or re-investigation request
  against the newest diagnosis run of an incident. It raises the event revision of the incident,
  which invalidates every decision and every write prepared before, cancels the active run when
  no write can have reached the cluster, and otherwise only asks it to stop.
\<close>

section \<open>Messages\<close>

definition message_insertable :: "message_row \<Rightarrow> db \<Rightarrow> bool" where
  "message_insertable n d = (list_all (\<lambda>m. m_message_id m \<noteq> m_message_id n
       \<and> (m_incident_id m, m_sequence m) \<noteq> (m_incident_id n, m_sequence n)
       \<and> (m_incident_id m, m_role m, m_client_message_id m)
           \<noteq> (m_incident_id n, m_role n, m_client_message_id n)) (db_messages d)
     \<and> 1 \<le> m_sequence n \<and> length (m_client_message_id n) \<le> 128
     \<and> len_between 1 16000 (btrim (m_content n)))"

text \<open>\<open>COALESCE(MAX(sequence),0)+1\<close>\<close>

definition next_sequence :: "string \<Rightarrow> db \<Rightarrow> int" where
  "next_sequence iid d = foldr max
     (map m_sequence (filter (\<lambda>m. m_incident_id m = iid) (db_messages d))) 0 + 1"

definition user_message :: "string \<Rightarrow> string \<Rightarrow> db \<Rightarrow> message_row option" where
  "user_message iid key d = find (\<lambda>m. m_incident_id m = iid \<and> m_role m = UserRole
     \<and> m_client_message_id m = key) (db_messages d)"

definition insert_message :: "message_row \<Rightarrow> message_row txn" where
  "insert_message n = bindT (askT (message_insertable n)) (\<lambda>ok.
     bindT (requireT ok StorageError) (\<lambda>_.
     bindT (modifyT (\<lambda>d. d\<lparr>db_messages := db_messages d @ [n]\<rparr>)) (\<lambda>_. returnT n)))"

definition message_in_transaction :: "string \<Rightarrow> string \<Rightarrow> string \<Rightarrow> string \<Rightarrow> int \<Rightarrow> message_row txn" where
  "message_in_transaction mid iid key content t =
     bindT (askT (user_message iid key)) (\<lambda>found. case found of
       Some m \<Rightarrow> if m_content m \<noteq> content then raiseT IdempotencyConflict else returnT m
     | None \<Rightarrow> bindT (askT (next_sequence iid)) (\<lambda>n. insert_message
         \<lparr>m_message_id = mid, m_incident_id = iid, m_sequence = n, m_client_message_id = key,
          m_role = UserRole, m_content = content, m_related_run_id = None, m_evidence_refs = [],
          m_created_at = t\<rparr>))"

section \<open>Control requests\<close>

datatype control_action = StopAction | SupplementAction | InvestigateAction

fun control_text :: "control_action \<Rightarrow> string" where
  "control_text StopAction = ''stop''"
| "control_text SupplementAction = ''supplement''"
| "control_text InvestigateAction = ''investigate''"

record control_body =
  cb_action :: control_action
  cb_key :: string
  cb_content :: string

definition control_payload :: "control_body \<Rightarrow> json" where
  "control_payload b = JObj [(''client_message_id'', JStr (cb_key b)), (''content'', JStr (cb_content b)),
     (''action'', JStr (control_text (cb_action b)))]"

definition find_control :: "string \<Rightarrow> string \<Rightarrow> db \<Rightarrow> control_row option" where
  "find_control iid key d = find (\<lambda>k. k_incident_id k = iid \<and> k_client_message_id k = key) (db_controls d)"

definition dispatched :: "op_row option \<Rightarrow> bool" where
  "dispatched op = (case op of None \<Rightarrow> False | Some p \<Rightarrow> o_state p \<notin> {Prepared, Rejected})"

definition superseded_op :: "int \<Rightarrow> op_row \<Rightarrow> op_row" where
  "superseded_op t p = (if o_state p = Prepared
     then p\<lparr>o_state := Rejected, o_error_code := Some ''INPUT_SUPERSEDED'', o_updated_at := t\<rparr> else p)"

definition stopped_run :: "int \<Rightarrow> run_row \<Rightarrow> run_row" where
  "stopped_run t r = r\<lparr>r_stop_requested := True, r_invalidated_at := Some t\<rparr>"

definition cancelled_run :: "json \<Rightarrow> int \<Rightarrow> run_row \<Rightarrow> run_row" where
  "cancelled_run snap t r = r\<lparr>r_status := RunCancelled, r_finished_at := Some t, r_updated_at := t,
     r_lease_owner := None, r_lease_expires_at := None, r_question_payload := None,
     r_output_snapshot := coalesce (r_output_snapshot r) (Some snap), r_last_error := Some ''INPUT_SUPERSEDED''\<rparr>"

definition cancelled_interaction :: "int \<Rightarrow> run_row \<Rightarrow> run_row" where
  "cancelled_interaction t r = r\<lparr>r_status := RunCancelled, r_stop_requested := True, r_invalidated_at := Some t,
     r_finished_at := Some t, r_lease_owner := None, r_lease_expires_at := None,
     r_last_error := Some ''INPUT_SUPERSEDED''\<rparr>"

definition stop_active :: "json \<Rightarrow> int \<Rightarrow> run_row \<Rightarrow> op_row option \<Rightarrow> unit txn" where
  "stop_active snap t latest_run op =
     bindT (set_run (r_run_id latest_run) (stopped_run t)) (\<lambda>_.
     if dispatched op then returnT ()
     else bindT (set_op (r_run_id latest_run) (superseded_op t)) (\<lambda>_.
          bindT (set_run (r_run_id latest_run) (cancelled_run snap t)) (\<lambda>_.
          set_incident (r_incident_id latest_run) (\<lambda>i. i\<lparr>i_phase := ''cancelled'', i_updated_at := t\<rparr>))))"

definition cancel_interactions :: "string \<Rightarrow> int \<Rightarrow> unit txn" where
  "cancel_interactions iid t = modifyT (\<lambda>d. d\<lparr>db_runs := update_where
     (\<lambda>r. r_incident_id r = iid \<and> r_run_kind r = InteractionRun \<and> \<not> terminal (r_status r))
     (cancelled_interaction t) (db_runs d)\<rparr>)"

definition supersede_pending :: "string \<Rightarrow> unit txn" where
  "supersede_pending iid = modifyT (\<lambda>d. d\<lparr>db_controls := update_where
     (\<lambda>k. k_incident_id k = iid \<and> k_status k = Pending) (\<lambda>k. k\<lparr>k_status := Superseded\<rparr>) (db_controls d)\<rparr>)"

definition deferred :: "run_row \<Rightarrow> op_row option \<Rightarrow> bool" where
  "deferred latest_run op = (dispatched op
     \<and> (\<not> terminal (r_status latest_run) \<or> (case op of None \<Rightarrow> False | Some p \<Rightarrow> uncertain (o_state p))))"

definition new_control ::
  "(json \<Rightarrow> string) \<Rightarrow> string \<Rightarrow> string \<Rightarrow> control_body \<Rightarrow> json \<Rightarrow> message_row \<Rightarrow> run_row \<Rightarrow> op_row option \<Rightarrow> int
   \<Rightarrow> control_row" where
  "new_control H cid iid b snap m latest_run op t = \<lparr>k_control_id = cid, k_incident_id = iid,
     k_client_message_id = cb_key b, k_request_sha256 = request_digest H (control_payload b),
     k_request = control_payload b, k_message_id = m_message_id m,
     k_parent_run_id = Some (r_run_id latest_run), k_snapshot = snap,
     k_status = (if cb_action b = InvestigateAction then Pending else Saved),
     k_result = [(''action'', JStr (control_text (cb_action b))), (''parent_run_id'', JStr (r_run_id latest_run)),
       (''deferred_until_write_checked'', JBool (deferred latest_run op)),
       (''note_source'', JStr ''user_supplied_unverified''),
       (''model_called'', JBool False), (''cluster_writes_executed'', JBool False)],
     k_created_at = t\<rparr>"

definition insert_control :: "control_row \<Rightarrow> control_row txn" where
  "insert_control n =
     bindT (askT (\<lambda>d. list_all (\<lambda>k. k_control_id k \<noteq> k_control_id n
        \<and> (k_incident_id k, k_client_message_id k) \<noteq> (k_incident_id n, k_client_message_id n)) (db_controls d))) (\<lambda>ok.
     bindT (requireT ok StorageError) (\<lambda>_.
     bindT (modifyT (\<lambda>d. d\<lparr>db_controls := db_controls d @ [n]\<rparr>)) (\<lambda>_. returnT n)))"

text \<open>\<open>@storage_errors\<close>\<close>

definition storage_errors :: "'a txn \<Rightarrow> 'a txn" where
  "storage_errors m d = catchE (m d) (\<lambda>e. e = StorageError) (\<lambda>_. Inl RunError)"

text \<open>The identifiers \<open>uuid4()\<close> yields are arguments: \<open>mid\<close> of the message, \<open>cid\<close> of the control.\<close>

definition apply_control ::
  "(json \<Rightarrow> string) \<Rightarrow> string \<Rightarrow> string \<Rightarrow> string \<Rightarrow> control_body \<Rightarrow> json \<Rightarrow> int \<Rightarrow> run_row \<Rightarrow> control_row txn" where
  "apply_control H mid cid iid b snap t latest_run =
     bindT (message_in_transaction mid iid (cb_key b) (cb_content b) t) (\<lambda>m.
     bindT (askT (\<lambda>d. list_ex (\<lambda>r. r_source_message_id r = Some (m_message_id m)) (db_runs d))) (\<lambda>used.
     bindT (requireT (\<not> (m_sequence m \<le> (case r_input_message_sequence latest_run of None \<Rightarrow> 0 | Some n \<Rightarrow> n) \<or> used))
              IdempotencyConflict) (\<lambda>_.
     bindT (askT (find_op (r_run_id latest_run))) (\<lambda>op.
     bindT (set_incident iid (\<lambda>i. i\<lparr>i_event_revision := i_event_revision i + 1\<rparr>)) (\<lambda>_.
     bindT (if terminal (r_status latest_run) then returnT () else stop_active snap t latest_run op) (\<lambda>_.
     bindT (cancel_interactions iid t) (\<lambda>_.
     bindT (if cb_action b = SupplementAction then returnT () else supersede_pending iid) (\<lambda>_.
     insert_control (new_control H cid iid b snap m latest_run op t)))))))))"

definition control ::
  "(json \<Rightarrow> string) \<Rightarrow> string \<Rightarrow> string \<Rightarrow> string \<Rightarrow> control_body \<Rightarrow> string option \<Rightarrow> json \<Rightarrow> int
   \<Rightarrow> control_row txn" where
  "control H mid cid iid b expected_parent snap t = storage_errors
     (bindT (askT (find_incident iid)) (\<lambda>i. if i = None then raiseT RoundNotFound else
      bindT (askT (find_control iid (cb_key b))) (\<lambda>old. case old of
        Some k \<Rightarrow> if k_request_sha256 k \<noteq> request_digest H (control_payload b)
                   then raiseT IdempotencyConflict else returnT k
      | None \<Rightarrow>
         bindT (askT (latest_diagnosis iid)) (\<lambda>l.
         if map_option r_run_id l \<noteq> expected_parent then raiseT RoundConflict
         else case l of
             None \<Rightarrow> raiseT RoundConflict
           | Some latest_run \<Rightarrow> apply_control H mid cid iid b snap t latest_run))))"

end
