(* ===== verification/Rounds.thy ===== *)
theory Rounds
  imports Controls
begin

text \<open>
  \<open>backend/app/persistence/messages.py\<close> and \<open>backend/app/persistence/rounds.py\<close>: appending a
  message to an incident, and opening a new diagnosis round on it. The text assembled by
  \<open>build_round_context\<close> is a parameter \<open>cx\<close>.
\<close>

definition liftT :: "'a res \<Rightarrow> 'a txn" where
  "liftT r d = (case r of Inl e \<Rightarrow> Inl e | Inr x \<Rightarrow> Inr (x, d))"

lemma liftT_Inr [txn_simps]: "liftT r d = Inr (x, e) \<longleftrightarrow> r = Inr x \<and> e = d"
  by (cases r) (auto simp: liftT_def)

section \<open>Messages\<close>

record message_draft =
  md_key :: string
  md_content :: string
  md_role :: message_role
  md_related_run_id :: "string option"
  md_evidence_refs :: "string list"

definition existing_message :: "string \<Rightarrow> message_draft \<Rightarrow> db \<Rightarrow> message_row option" where
  "existing_message iid m d = find (\<lambda>x. m_incident_id x = iid \<and> m_role x = md_role m
     \<and> m_client_message_id x = md_key m) (db_messages d)"

definition same_message :: "message_row \<Rightarrow> message_draft \<Rightarrow> bool" where
  "same_message x m = (m_content x = md_content m \<and> m_related_run_id x = md_related_run_id m
     \<and> m_evidence_refs x = md_evidence_refs m)"

definition workflow_busy :: "incident_row \<Rightarrow> db \<Rightarrow> bool" where
  "workflow_busy inc d = (list_ex (\<lambda>r. r_incident_id r = i_incident_id inc \<and> \<not> terminal (r_status r)) (db_runs d)
     \<or> unsettled_in (i_incident_id inc) d
     \<or> i_phase inc \<in> {''awaiting_approval'', ''approved'', ''approval_approved'', ''executing_remediation''})"

definition related_run_known :: "string \<Rightarrow> message_draft \<Rightarrow> db \<Rightarrow> bool" where
  "related_run_known iid m d = (case md_related_run_id m of None \<Rightarrow> True
     | Some rid \<Rightarrow> list_ex (\<lambda>r. r_run_id r = rid \<and> r_incident_id r = iid) (db_runs d))"

text \<open>The receipt: the stored row, and whether it is new. Storage errors are \<open>MessageStorageError\<close>.\<close>

definition append_message :: "string \<Rightarrow> string \<Rightarrow> message_draft \<Rightarrow> int \<Rightarrow> (message_row \<times> bool) txn" where
  "append_message mid iid m t d = catchE
     (bindT (askT (find_incident iid)) (\<lambda>i. case i of
        None \<Rightarrow> raiseT (MessageError ''INCIDENT_NOT_FOUND'')
      | Some inc \<Rightarrow>
        bindT (askT (existing_message iid m)) (\<lambda>old. case old of
          Some x \<Rightarrow> if same_message x m then returnT (x, False) else raiseT (MessageError ''MESSAGE_ID_CONFLICT'')
        | None \<Rightarrow>
          bindT (askT (workflow_busy inc)) (\<lambda>busy.
          bindT (requireT (\<not> (md_role m = UserRole \<and> busy)) (MessageError ''MESSAGE_WORKFLOW_BUSY'')) (\<lambda>_.
          bindT (askT (related_run_known iid m)) (\<lambda>known.
          bindT (requireT known (MessageError ''MESSAGE_RUN_MISMATCH'')) (\<lambda>_.
          bindT (askT (next_sequence iid)) (\<lambda>n.
          bindT (insert_message \<lparr>m_message_id = mid, m_incident_id = iid, m_sequence = n,
             m_client_message_id = md_key m, m_role = md_role m, m_content = md_content m,
             m_related_run_id = md_related_run_id m, m_evidence_refs = md_evidence_refs m, m_created_at = t\<rparr>) (\<lambda>row.
          returnT (row, True))))))))) d)
     (\<lambda>e. e = StorageError) (\<lambda>_. Inl MessageStorageError)"

text \<open>A page of the history, newest first, with the cursor of the next page.\<close>

definition list_messages :: "string \<Rightarrow> int \<Rightarrow> int option \<Rightarrow> db \<Rightarrow> (message_row list \<times> int option) res" where
  "list_messages iid limit before d =
     (if \<not> (1 \<le> limit \<and> limit \<le> 50) \<or> (case before of None \<Rightarrow> False | Some b \<Rightarrow> b < 1)
      then Inl (PyValueError ''Invalid message pagination'')
      else if find_incident iid d = None then Inl (MessageError ''INCIDENT_NOT_FOUND'')
      else (let rows = take (nat limit + 1) (rev (sort_key m_sequence
                (filter (\<lambda>m. m_incident_id m = iid \<and> (case before of None \<Rightarrow> True | Some b \<Rightarrow> m_sequence m < b)) (db_messages d))));
                page = take (nat limit) rows
            in Inr (page, if length rows > nat limit then Some (m_sequence (last page)) else None)))"

section \<open>Rounds\<close>

definition round_scope :: "string \<Rightarrow> string" where
  "round_scope iid = ''incident-round:'' @ iid"

definition by_scope :: "string \<Rightarrow> string \<Rightarrow> db \<Rightarrow> run_row option" where
  "by_scope sc k d = find (\<lambda>r. r_idempotency r = Some (sc, k)) (db_runs d)"

definition by_round_key :: "string \<Rightarrow> string \<Rightarrow> db \<Rightarrow> run_row option res" where
  "by_round_key iid k d = bindE (validate_key (Some k)) (\<lambda>_. Inr (by_scope (round_scope iid) k d))"

definition get_round :: "string \<Rightarrow> string \<Rightarrow> db \<Rightarrow> run_row res" where
  "get_round iid rid d = (case find (\<lambda>r. r_incident_id r = iid \<and> r_run_id r = rid) (db_runs d) of
     None \<Rightarrow> Inl RoundNotFound | Some r \<Rightarrow> Inr r)"

definition active_interaction :: "string \<Rightarrow> db \<Rightarrow> bool" where
  "active_interaction iid d = list_ex (\<lambda>r. r_incident_id r = iid \<and> r_run_kind r = InteractionRun
     \<and> \<not> terminal (r_status r)) (db_runs d)"

text \<open>\<open>str(v or "")\<close>, as far as the tests on it can tell: no other value prints as a phase.\<close>

definition phase_text :: "json \<Rightarrow> string" where
  "phase_text v = (case v of JStr s \<Rightarrow> s | _ \<Rightarrow> [])"

definition ends_with :: "string \<Rightarrow> string \<Rightarrow> bool" where
  "ends_with p s = (drop (length s - length p) s = p)"

text \<open>A finished incident of the time before runs were journaled.\<close>

definition legacy_finished :: "dict \<Rightarrow> bool" where
  "legacy_finished previous = (let phase = phase_text (dget previous ''phase'') in
     phase \<in> {''failed'', ''remediation_skipped'', ''approval_rejected'', ''verification_succeeded''}
     \<or> ends_with ''_failed'' phase
     \<or> phase = ''remediation_planned'' \<and> \<not> truthy (dget previous ''requires_approval''))"

definition previous_open :: "run_row option \<Rightarrow> dict \<Rightarrow> bool" where
  "previous_open l previous = (case l of
       None \<Rightarrow> dget previous ''phase'' = JStr ''awaiting_approval'' \<or> dget previous ''approval_status'' = JStr ''pending''
         \<or> truthy (dget previous ''approved'') \<and> dget previous ''phase'' \<noteq> JStr ''verification_succeeded''
         \<or> \<not> legacy_finished previous
     | Some r \<Rightarrow> \<not> terminal (r_status r)
         \<or> \<not> (r_status r = RunCancelled \<and> r_invalidated_at r \<noteq> None)
           \<and> (dget previous ''phase'' = JStr ''awaiting_approval'' \<or> dget previous ''approval_status'' = JStr ''pending''))"

definition round_blocked :: "string \<Rightarrow> run_row option \<Rightarrow> string option \<Rightarrow> dict \<Rightarrow> db \<Rightarrow> bool" where
  "round_blocked iid l parent previous d = (map_option r_run_id l \<noteq> parent \<or> active_interaction iid d
     \<or> previous_open l previous \<or> unsettled_in iid d)"

definition user_message_by_id :: "string \<Rightarrow> string \<Rightarrow> db \<Rightarrow> message_row option" where
  "user_message_by_id iid mid d = find (\<lambda>m. m_incident_id m = iid \<and> m_message_id m = mid \<and> m_role m = UserRole) (db_messages d)"

text \<open>\<open>ORDER BY sequence DESC LIMIT 11\<close> unless the full history is asked for.\<close>

definition round_messages :: "string \<Rightarrow> message_row \<Rightarrow> bool \<Rightarrow> db \<Rightarrow> message_row list" where
  "round_messages iid m full d = (let ms = rev (sort_key m_sequence (filter (\<lambda>x. m_incident_id x = iid
       \<and> m_sequence x \<le> m_sequence m \<and> m_role x = UserRole) (db_messages d)))
     in if full then ms else take 11 ms)"

type_synonym round_context_fn = "message_row list \<Rightarrow> dict \<Rightarrow> string option \<Rightarrow> string \<Rightarrow> bool \<Rightarrow> json"

record round_ids =
  ro_run_id :: string
  ro_thread_id :: string
  ro_time :: int

definition round_run ::
  "(json \<Rightarrow> string) \<Rightarrow> incident_row \<Rightarrow> message_row \<Rightarrow> string \<Rightarrow> run_row option \<Rightarrow> json \<Rightarrow> string \<Rightarrow> round_ids \<Rightarrow> run_row" where
  "round_run H inc m key l context w ids =
     (let payload = JObj [(''namespace'', JStr (i_namespace inc)), (''service_name'', JStr (i_service_name inc)),
                          (''description'', JStr (i_description inc))]
      in (new_run (ro_run_id ids) (i_incident_id inc) (ro_thread_id ids) DiagnosisRun payload (request_digest H payload) (ro_time ids))
        \<lparr>r_parent_run_id := map_option r_run_id l,
         r_input_revision := (case l of None \<Rightarrow> 1 | Some r \<Rightarrow> r_input_revision r + 1),
         r_workflow_version := w, r_idempotency := Some (round_scope (i_incident_id inc), key),
         r_request_sha256 := request_digest H (JObj [(''message_id'', JStr (m_message_id m))]),
         r_source_message_id := Some (m_message_id m), r_input_message_sequence := Some (m_sequence m),
         r_context_snapshot := Some context, r_context_sha256 := Some (request_digest H context),
         r_event_revision := i_event_revision inc\<rparr>)"

definition message_used :: "string \<Rightarrow> db \<Rightarrow> bool" where
  "message_used mid d = list_ex (\<lambda>r. r_source_message_id r = Some mid) (db_runs d)"

definition open_round ::
  "(json \<Rightarrow> string) \<Rightarrow> round_context_fn \<Rightarrow> api_settings \<Rightarrow> round_ids \<Rightarrow> incident_row \<Rightarrow> string \<Rightarrow> string \<Rightarrow> dict \<Rightarrow> run_row option
   \<Rightarrow> run_row txn" where
  "open_round H cx c ids inc mid key previous l = (let iid = i_incident_id inc in
     bindT (askT (user_message_by_id iid mid)) (\<lambda>found. case found of None \<Rightarrow> raiseT RoundNotFound
     | Some m \<Rightarrow>
        bindT (requireT (\<not> (case l of None \<Rightarrow> False
           | Some r \<Rightarrow> m_sequence m \<le> (case r_input_message_sequence r of None \<Rightarrow> 0 | Some n \<Rightarrow> n))) RoundConflict) (\<lambda>_.
        bindT (askT (message_used mid)) (\<lambda>used.
        bindT (requireT (\<not> used) RoundConflict) (\<lambda>_.
        bindT (liftT (selected_workflow c)) (\<lambda>w.
        bindT (askT (round_messages iid m (w = ''incident-investigation-v1''))) (\<lambda>ms.
        bindT (insert_run (round_run H inc m key l
           (cx ms previous (map_option r_run_id l) (i_thread_id inc) (w = ''incident-investigation-v1'')) w ids)) (\<lambda>row.
        bindT (case l of None \<Rightarrow> returnT ()
           | Some r \<Rightarrow> if r_output_snapshot r = None
               then set_run (r_run_id r) (\<lambda>q. q\<lparr>r_output_snapshot := Some (JObj previous)\<rparr>) else returnT ()) (\<lambda>_.
        bindT (set_incident iid (\<lambda>i. i\<lparr>i_phase := ''created'', i_updated_at := ro_time ids\<rparr>)) (\<lambda>_.
        returnT row))))))))))"

definition accept_round ::
  "(json \<Rightarrow> string) \<Rightarrow> round_context_fn \<Rightarrow> api_settings \<Rightarrow> round_ids \<Rightarrow> string \<Rightarrow> string \<Rightarrow> string \<Rightarrow> string option \<Rightarrow> dict
   \<Rightarrow> run_row txn" where
  "accept_round H cx c ids iid mid key parent previous =
     bindT (liftT (validate_key (Some key))) (\<lambda>_. storage_errors
       (bindT (askT (find_incident iid)) (\<lambda>i. case i of None \<Rightarrow> raiseT RoundNotFound
        | Some inc \<Rightarrow>
          bindT (askT (by_scope (round_scope iid) key)) (\<lambda>old. case old of
            Some r \<Rightarrow> liftT (replay r (request_digest H (JObj [(''message_id'', JStr mid)])))
          | None \<Rightarrow>
            bindT (askT (latest_diagnosis iid)) (\<lambda>l.
            bindT (askT (round_blocked iid l parent previous)) (\<lambda>blocked.
            bindT (requireT (\<not> blocked) RoundConflict) (\<lambda>_.
            open_round H cx c ids inc mid key previous l)))))))"

end
