(* ===== verification/Dialogue.thy ===== *)
theory Dialogue
  imports Rounds
begin

text \<open>
  \<open>backend/app/persistence/interactions.py\<close> and the rest of \<open>controls.py\<close>: questions about an
  incident run in their own lane, an answer puts a waiting run back into the queue at a new
  revision, and a saved re-investigation request starts its round when nothing blocks it.
\<close>

definition dset :: "dict \<Rightarrow> string \<Rightarrow> json \<Rightarrow> dict" where
  "dset d k v = (if has_key d k then map (\<lambda>kv. if fst kv = k then (k, v) else kv) d else d @ [(k, v)])"

lemma dget_dset: "dget (dset d k v) k' = (if k' = k then v else dget d k')"
proof (cases "has_key d k")
  case False
  then have "map_of d k = None"
    by (simp add: has_key_def)
  then have "map_of (d @ [(k, v)]) k' = (if k' = k then Some v else map_of d k')"
    by (auto simp: map_add_def map_of_append split: option.splits)
  with False show ?thesis
    by (simp add: dset_def dget_def)
next
  case True
  have "map_of (map (\<lambda>kv. if fst kv = k then (k, v) else kv) d) k'
      = (if k' = k then map_option (\<lambda>_. v) (map_of d k) else map_of d k')"
    by (induction d) auto
  with True show ?thesis
    by (auto simp: dset_def dget_def has_key_def)
qed

section \<open>Interactions\<close>

definition interaction_scope :: "string \<Rightarrow> string" where
  "interaction_scope iid = ''interaction:'' @ iid"

definition by_interaction_key :: "string \<Rightarrow> string \<Rightarrow> db \<Rightarrow> run_row option" where
  "by_interaction_key iid k d = by_scope (interaction_scope iid) k d"

record interaction_body =
  ib_key :: string
  ib_content :: string
  ib_intent :: string
  ib_reference_run_id :: "string option"
  ib_compare_run_id :: "string option"

definition opt_text :: "string option \<Rightarrow> json" where
  "opt_text x = (case x of None \<Rightarrow> JNull | Some s \<Rightarrow> JStr s)"

definition interaction_payload :: "interaction_body \<Rightarrow> json" where
  "interaction_payload b = JObj [(''client_message_id'', JStr (ib_key b)), (''content'', JStr (ib_content b)),
     (''intent'', JStr (ib_intent b)), (''reference_run_id'', opt_text (ib_reference_run_id b)),
     (''compare_run_id'', opt_text (ib_compare_run_id b))]"

definition terminal_phases :: "string list" where
  "terminal_phases = [''diagnosis_failed'', ''remediation_failed'', ''remediation_skipped'', ''approval_rejected'',
     ''approval_failed'', ''remediation_execution_failed'', ''remediation_execution_conflict'',
     ''verification_failed'', ''verification_succeeded'', ''verification_skipped'', ''failed'']"

definition in_phases :: "json \<Rightarrow> string list \<Rightarrow> bool" where
  "in_phases v ps = (case v of JStr s \<Rightarrow> s \<in> set ps | _ \<Rightarrow> False)"

definition historical :: "interaction_body \<Rightarrow> bool" where
  "historical b = (ib_intent b \<in> {''explain'', ''compare''})"

text \<open>\<open>references[0]["state"]\<close> and the state's fields\<close>

definition reference_state :: "dict list \<Rightarrow> dict res" where
  "reference_state refs = (case refs of [] \<Rightarrow> Inl IndexError
     | r # _ \<Rightarrow> bindE (jindex (JObj r) ''state'') (\<lambda>v. case v of JObj s \<Rightarrow> Inr s | _ \<Rightarrow> Inl AttributeError))"

definition state_open :: "run_row option \<Rightarrow> dict \<Rightarrow> bool" where
  "state_open l st =
     (let manual = dget st ''phase'' = JStr ''remediation_planned'' \<and> \<not> truthy (dget st ''requires_approval'') in
      \<not> in_phases (dget st ''phase'') terminal_phases \<and> \<not> manual
      \<or> dget st ''approval_status'' = JStr ''pending''
      \<or> l = None \<and> truthy (dget st ''approved'') \<and> dget st ''phase'' \<noteq> JStr ''verification_succeeded'')"

definition lane_blocked :: "interaction_body \<Rightarrow> run_row option \<Rightarrow> string option \<Rightarrow> string \<Rightarrow> db \<Rightarrow> bool" where
  "lane_blocked b l parent iid d = (map_option r_run_id l \<noteq> parent
     \<or> (case l of None \<Rightarrow> False | Some r \<Rightarrow> \<not> terminal (r_status r)
          \<and> \<not> (historical b \<and> r_status r \<in> {WaitingApproval, WaitingUser}))
     \<or> active_interaction iid d)"

definition interaction_open :: "interaction_body \<Rightarrow> incident_row \<Rightarrow> run_row option \<Rightarrow> dict list \<Rightarrow> unit txn" where
  "interaction_open b inc l refs =
     (if \<not> historical b then
        bindT (liftT (reference_state refs)) (\<lambda>st.
        bindT (requireT (\<not> state_open l st) RoundConflict) (\<lambda>_.
        bindT (askT (unsettled_in (i_incident_id inc))) (\<lambda>busy. requireT (\<not> busy) RoundConflict)))
      else requireT (\<not> (l = None \<and> i_phase inc \<notin> set (terminal_phases @ [''awaiting_approval'', ''remediation_planned''])))
             RoundConflict)"

text \<open>The user's message of the interaction: the stored one, which must be the same, or a new one.\<close>

definition interaction_message :: "string \<Rightarrow> string \<Rightarrow> interaction_body \<Rightarrow> int \<Rightarrow> message_row txn" where
  "interaction_message mid iid b t =
     bindT (askT (user_message iid (ib_key b))) (\<lambda>found. case found of
       Some m \<Rightarrow> if m_content m \<noteq> ib_content b \<or> m_related_run_id m \<noteq> None
                  then raiseT IdempotencyConflict else returnT m
     | None \<Rightarrow> message_in_transaction mid iid (ib_key b) (ib_content b) t)"

definition interaction_run ::
  "(json \<Rightarrow> string) \<Rightarrow> string \<Rightarrow> interaction_body \<Rightarrow> string option \<Rightarrow> json \<Rightarrow> round_ids \<Rightarrow> run_row" where
  "interaction_run H iid b parent context ids = (let payload = interaction_payload b in
     (new_run (ro_run_id ids) iid (ro_thread_id ids) InteractionRun payload (request_digest H payload) (ro_time ids))
       \<lparr>r_parent_run_id := parent, r_workflow_version := ''interaction-v1'',
        r_idempotency := Some (interaction_scope iid, ib_key b),
        r_context_snapshot := Some context, r_context_sha256 := Some (request_digest H context)\<rparr>)"

definition accept_interaction ::
  "(json \<Rightarrow> string) \<Rightarrow> string \<Rightarrow> round_ids \<Rightarrow> string \<Rightarrow> interaction_body \<Rightarrow> string option \<Rightarrow> dict list \<Rightarrow> run_row txn" where
  "accept_interaction H mid ids iid b parent refs = storage_errors
     (bindT (askT (find_incident iid)) (\<lambda>i. case i of None \<Rightarrow> raiseT RoundNotFound
      | Some inc \<Rightarrow>
        bindT (askT (by_interaction_key iid (ib_key b))) (\<lambda>old. case old of
          Some r \<Rightarrow> liftT (replay r (request_digest H (interaction_payload b)))
        | None \<Rightarrow>
          bindT (askT (latest_diagnosis iid)) (\<lambda>l.
          bindT (askT (lane_blocked b l parent iid)) (\<lambda>blocked.
          bindT (requireT (\<not> blocked) RoundConflict) (\<lambda>_.
          bindT (interaction_open b inc l refs) (\<lambda>_.
          bindT (interaction_message mid iid b (ro_time ids)) (\<lambda>m.
          insert_run (interaction_run H iid b parent
            (JObj [(''message_id'', JStr (m_message_id m)), (''references'', JArr (map JObj refs))]) ids)))))))))"

definition save_progress :: "int \<Rightarrow> int \<Rightarrow> lease \<Rightarrow> json \<Rightarrow> unit txn" where
  "save_progress t0 t1 l p = fence t0 t1 l (set_run (r_run_id (le_run l)) (\<lambda>r. r\<lparr>r_interaction_progress := p\<rparr>))"

definition saved_recheck :: "lease \<Rightarrow> db \<Rightarrow> json option" where
  "saved_recheck l d = map_option h_result (find (\<lambda>h. h_run_id h = Some (r_run_id (le_run l))) (db_rechecks d))"

text \<open>\<open>ON CONFLICT (run_id) DO NOTHING\<close>; the recheck identifier is unique.\<close>

definition save_recheck :: "int \<Rightarrow> int \<Rightarrow> lease \<Rightarrow> string \<Rightarrow> json \<Rightarrow> unit txn" where
  "save_recheck t0 t1 l hid result = fence t0 t1 l
     (bindT (askT (saved_recheck l)) (\<lambda>old. if old \<noteq> None then returnT () else
      bindT (askT (\<lambda>d. list_all (\<lambda>h. h_recheck_id h \<noteq> hid) (db_rechecks d))) (\<lambda>ok.
      bindT (requireT ok StorageError) (\<lambda>_.
      modifyT (\<lambda>d. d\<lparr>db_rechecks := db_rechecks d @ [\<lparr>h_recheck_id = hid, h_incident_id = r_incident_id (le_run l),
        h_result = result, h_run_id = Some (r_run_id (le_run l))\<rparr>]\<rparr>)))))"

text \<open>
  Publication of an interaction: its own lane is released, then the child round, if one is asked for,
  is accepted and the assistant's reply appended, all in the transaction of the fence.
\<close>

definition released :: "int \<Rightarrow> run_row \<Rightarrow> run_row" where
  "released t r = r\<lparr>r_status := RunSucceeded, r_finished_at := Some t, r_updated_at := t, r_lease_owner := None,
     r_lease_expires_at := None, r_last_error := None\<rparr>"

definition context_message :: "run_row \<Rightarrow> string res" where
  "context_message r = (case r_context_snapshot r of None \<Rightarrow> Inl TypeError
     | Some c \<Rightarrow> bindE (jindex c ''message_id'') (\<lambda>v. case v of JStr s \<Rightarrow> Inr s | _ \<Rightarrow> Inl StorageError))"

definition context_state :: "run_row \<Rightarrow> dict res" where
  "context_state r = (case r_context_snapshot r of None \<Rightarrow> Inl TypeError
     | Some c \<Rightarrow> bindE (jindex c ''references'') (\<lambda>v. case v of
         JArr (JObj x # _) \<Rightarrow> reference_state [x] | JArr [] \<Rightarrow> Inl IndexError | _ \<Rightarrow> Inl TypeError))"

definition child_round ::
  "(json \<Rightarrow> string) \<Rightarrow> round_context_fn \<Rightarrow> api_settings \<Rightarrow> round_ids \<Rightarrow> run_row \<Rightarrow> dict \<Rightarrow> dict txn" where
  "child_round H cx c ids r output =
     bindT (liftT (context_message r)) (\<lambda>mid.
     bindT (liftT (context_state r)) (\<lambda>st.
     bindT (accept_round H cx c ids (r_incident_id r) mid (''interaction-'' @ r_run_id r) (r_parent_run_id r) st) (\<lambda>child.
     returnT (dset output ''diagnosis_run_id'' (JStr (r_run_id child))))))"

definition assistant_reply :: "string \<Rightarrow> run_row \<Rightarrow> string \<Rightarrow> string list \<Rightarrow> int \<Rightarrow> unit txn" where
  "assistant_reply mid r text refs t =
     bindT (append_message mid (r_incident_id r) \<lparr>md_key = ''reply:'' @ r_run_id r, md_content = text, md_role = AssistantRole,
       md_related_run_id = Some (r_run_id r), md_evidence_refs = refs\<rparr> t) (\<lambda>_. returnT ())"

definition complete ::
  "(json \<Rightarrow> string) \<Rightarrow> round_context_fn \<Rightarrow> api_settings \<Rightarrow> round_ids \<Rightarrow> string \<Rightarrow> int \<Rightarrow> int \<Rightarrow> lease \<Rightarrow> dict
   \<Rightarrow> (string \<times> string list) option \<Rightarrow> bool \<Rightarrow> unit txn" where
  "complete H cx c ids mid t0 t1 l output assistant investigate = (let r = le_run l in fence t0 t1 l
     (bindT (set_run (r_run_id r) (released t1)) (\<lambda>_.
      bindT (if investigate then child_round H cx c ids r output else returnT output) (\<lambda>out.
      bindT (case assistant of None \<Rightarrow> returnT ()
             | Some (text, refs) \<Rightarrow> if text = [] then returnT () else assistant_reply mid r text refs t1) (\<lambda>_.
      set_run (r_run_id r) (\<lambda>q. q\<lparr>r_output_snapshot := Some (JObj out)\<rparr>))))))"

section \<open>Answers\<close>

record answer_body =
  ab_key :: string
  ab_content :: string
  ab_question_id :: string
  ab_version :: int
  ab_answers :: "(string \<times> string) list"
  ab_skip :: bool
  ab_changed :: "string list"

definition answers_json :: "answer_body \<Rightarrow> json" where
  "answers_json b = JObj (map (\<lambda>(k, v). (k, JStr v)) (ab_answers b))"

definition changed_field :: "answer_body \<Rightarrow> dict" where
  "changed_field b = (if ab_changed b = [] then [] else [(''changed_resource_refs'', JArr (map JStr (ab_changed b)))])"

definition answer_payload :: "string \<Rightarrow> answer_body \<Rightarrow> json" where
  "answer_payload rid b = JObj ([(''action'', JStr ''answer''), (''run_id'', JStr rid),
     (''client_message_id'', JStr (ab_key b)), (''content'', JStr (ab_content b)),
     (''question_id'', JStr (ab_question_id b)), (''version'', JInt (ab_version b)),
     (''answers'', answers_json b), (''skip'', JBool (ab_skip b))] @ changed_field b)"

text \<open>\<open>row["question_payload"] or {}\<close>\<close>

definition question_of :: "run_row \<Rightarrow> dict" where
  "question_of r = (case r_question_payload r of Some (JObj q) \<Rightarrow> q | _ \<Rightarrow> [])"

definition slots :: "dict \<Rightarrow> json list res" where
  "slots q = bindE (jindex (JObj q) ''questions'') (\<lambda>qs. bindE (jiter qs) (mapE (\<lambda>x. jindex x ''slot'')))"

definition candidate_refs :: "dict \<Rightarrow> json list res" where
  "candidate_refs q = bindE (jiter (dget_or q ''change_candidates'' (JArr []))) (mapE (\<lambda>x. jindex x ''resource_ref''))"

definition answer_fits :: "run_row \<Rightarrow> answer_body \<Rightarrow> unit res" where
  "answer_fits r b = (let q = question_of r in
     bindE (require (r_status r = WaitingUser \<and> \<not> r_stop_requested r \<and> dget q ''question_id'' = JStr (ab_question_id b)
              \<and> py_eq (dget q ''version'') (JInt (ab_version b))) RoundConflict) (\<lambda>_.
     bindE (if ab_skip b then Inr () else bindE (slots q) (\<lambda>ss.
              require (set (map JStr (map fst (ab_answers b))) = set ss) RoundConflict)) (\<lambda>_.
     if ab_changed b = [] then Inr ()
     else if r_workflow_version r \<noteq> ''incident-investigation-v1'' then Inl RoundConflict
     else bindE (candidate_refs q) (\<lambda>cs. require (set (map JStr (ab_changed b)) \<subseteq> set cs) RoundConflict))))"

definition answer_record :: "(int \<Rightarrow> string) \<Rightarrow> run_row \<Rightarrow> answer_body \<Rightarrow> message_row \<Rightarrow> json res" where
  "answer_record isofmt r b m = (let q = question_of r in
     bindE (jindex (JObj q) ''questions'') (\<lambda>qs. Inr (JObj (
     [(''question_id'', JStr (ab_question_id b)), (''version'', JInt (ab_version b)), (''answers'', answers_json b),
      (''skip'', JBool (ab_skip b)), (''message_id'', JStr (m_message_id m)), (''sequence'', JInt (m_sequence m)),
      (''evidence_revision'', dget q ''evidence_revision''), (''accepted_at'', JStr (isofmt (m_created_at m))),
      (''questions'', qs), (''question_source'', dget_or q ''source'' (JStr ''policy_generated'')),
      (''source'', JStr ''user_supplied_unverified'')]
     @ (if r_workflow_version r = ''incident-investigation-v1''
        then [(''changed_resource_refs'', JArr (map JStr (ab_changed b)))] else [])))))"

definition answered :: "json \<Rightarrow> int \<Rightarrow> int \<Rightarrow> run_row \<Rightarrow> run_row" where
  "answered a newrev t r = r\<lparr>r_answer_payload := Some a, r_status := Queued, r_event_revision := newrev,
     r_attempt_base := r_attempt r, r_updated_at := t\<rparr>"

definition answer_control ::
  "(json \<Rightarrow> string) \<Rightarrow> string \<Rightarrow> string \<Rightarrow> string \<Rightarrow> answer_body \<Rightarrow> message_row \<Rightarrow> run_row \<Rightarrow> int \<Rightarrow> control_row" where
  "answer_control H cid iid rid b m r t = \<lparr>k_control_id = cid, k_incident_id = iid, k_client_message_id = ab_key b,
     k_request_sha256 = request_digest H (answer_payload rid b), k_request = answer_payload rid b,
     k_message_id = m_message_id m, k_parent_run_id = Some rid, k_snapshot = JObj [], k_status = Saved,
     k_result = [(''run_id'', JStr rid), (''thread_id'', JStr (r_thread_id r)), (''question_id'', JStr (ab_question_id b)),
       (''version'', JInt (ab_version b)), (''processing'', JStr ''queued''),
       (''note_source'', JStr ''user_supplied_unverified'')],
     k_created_at = t\<rparr>"

text \<open>
  \<open>J\<close> is \<open>json.dumps(..., ensure_ascii=False)\<close>, \<open>isofmt\<close> is \<open>isoformat\<close>; the row found is the run of the
  incident with the given identifier.
\<close>

definition give_answer ::
  "(json \<Rightarrow> string) \<Rightarrow> (json \<Rightarrow> string) \<Rightarrow> (int \<Rightarrow> string) \<Rightarrow> string \<Rightarrow> string \<Rightarrow> string \<Rightarrow> answer_body \<Rightarrow> int \<Rightarrow> run_row
   \<Rightarrow> control_row txn" where
  "give_answer H J isofmt mid cid iid b t row =
     bindT (liftT (answer_fits row b)) (\<lambda>_.
     bindT (message_in_transaction mid iid (ab_key b) (ab_content b @ [CHR 0x0A] @
        J (JObj ([(''answers'', answers_json b), (''skip'', JBool (ab_skip b))] @ changed_field b))) t) (\<lambda>m.
     bindT (set_incident iid (\<lambda>i. i\<lparr>i_event_revision := i_event_revision i + 1\<rparr>)) (\<lambda>_.
     bindT (askT (\<lambda>d. case find_incident iid d of None \<Rightarrow> 0 | Some i \<Rightarrow> i_event_revision i)) (\<lambda>newrev.
     bindT (liftT (answer_record isofmt row b m)) (\<lambda>a.
     bindT (set_run (r_run_id row) (answered a newrev t)) (\<lambda>_.
     insert_control (answer_control H cid iid (r_run_id row) b m row t)))))))"

definition answer ::
  "(json \<Rightarrow> string) \<Rightarrow> (json \<Rightarrow> string) \<Rightarrow> (int \<Rightarrow> string) \<Rightarrow> string \<Rightarrow> string \<Rightarrow> string \<Rightarrow> string \<Rightarrow> answer_body \<Rightarrow> int
   \<Rightarrow> control_row txn" where
  "answer H J isofmt mid cid iid rid b t = storage_errors
     (bindT (askT (find_incident iid)) (\<lambda>i. if i = None then raiseT RoundNotFound else
      bindT (askT (find_control iid (ab_key b))) (\<lambda>old. case old of
        Some k \<Rightarrow> if k_request_sha256 k \<noteq> request_digest H (answer_payload rid b)
                   then raiseT IdempotencyConflict else returnT k
      | None \<Rightarrow>
         bindT (askT (get_round iid rid)) (\<lambda>found. case found of
           Inl e \<Rightarrow> raiseT e
         | Inr row \<Rightarrow> give_answer H J isofmt mid cid iid b t row))))"

section \<open>Pending re-investigations\<close>

definition pending_ready :: "control_row \<Rightarrow> db \<Rightarrow> bool" where
  "pending_ready k d = (k_status k = Pending
     \<and> (case k_parent_run_id k of None \<Rightarrow> False
        | Some p \<Rightarrow> list_ex (\<lambda>r. r_run_id r = p \<and> terminal (r_status r)) (db_runs d))
     \<and> \<not> unsettled_in (k_incident_id k) d)"

definition pending_candidates :: "db \<Rightarrow> string list" where
  "pending_candidates d = map k_control_id (take 20 (sort_key k_created_at (filter (\<lambda>k. pending_ready k d) (db_controls d))))"

definition set_control :: "string \<Rightarrow> (control_row \<Rightarrow> control_row) \<Rightarrow> unit txn" where
  "set_control cid f = modifyT (\<lambda>d. d\<lparr>db_controls := update_where (\<lambda>k. k_control_id k = cid) f (db_controls d)\<rparr>)"

definition last_user_message :: "string \<Rightarrow> db \<Rightarrow> message_row option" where
  "last_user_message iid d = (case rev (sort_key m_sequence (filter (\<lambda>m. m_incident_id m = iid \<and> m_role m = UserRole)
     (db_messages d))) of [] \<Rightarrow> None | m # _ \<Rightarrow> Some m)"

definition started_control :: "run_row \<Rightarrow> control_row \<Rightarrow> control_row" where
  "started_control child k = k\<lparr>k_status := Started, k_result := dset (dset (k_result k) ''diagnosis_run_id''
     (JStr (r_run_id child))) ''deferred_until_write_checked'' (JBool False)\<rparr>"

text \<open>The snapshots are the objects the API stored; the empty object stands for any other value.\<close>

definition previous_output :: "run_row \<Rightarrow> control_row \<Rightarrow> dict" where
  "previous_output l k = (let v = (case r_output_snapshot l of Some x \<Rightarrow> if truthy x then x else k_snapshot k | None \<Rightarrow> k_snapshot k)
     in case v of JObj x \<Rightarrow> x | _ \<Rightarrow> [])"

definition start_pending ::
  "(json \<Rightarrow> string) \<Rightarrow> round_context_fn \<Rightarrow> api_settings \<Rightarrow> round_ids \<Rightarrow> control_row \<Rightarrow> run_row \<Rightarrow> unit txn" where
  "start_pending H cx c ids k l = (let iid = k_incident_id k in
     bindT (askT (unsettled_in iid)) (\<lambda>unsafe.
     bindT (askT (active_interaction iid)) (\<lambda>busy.
     if unsafe \<or> busy then returnT () else
     bindT (askT (last_user_message iid)) (\<lambda>found. case found of None \<Rightarrow> raiseT TypeError
     | Some m \<Rightarrow>
        bindT (accept_round H cx c ids iid (m_message_id m) (''control-'' @ k_control_id k) (Some (r_run_id l))
                 (previous_output l k)) (\<lambda>child.
        set_control (k_control_id k) (started_control child))))))"

text \<open>One iteration of \<open>activate_pending\<close>: one candidate, one transaction.\<close>

definition activate_one ::
  "(json \<Rightarrow> string) \<Rightarrow> round_context_fn \<Rightarrow> api_settings \<Rightarrow> round_ids \<Rightarrow> string \<Rightarrow> unit txn" where
  "activate_one H cx c ids cid = storage_errors
     (bindT (askT (\<lambda>d. find (\<lambda>k. k_control_id k = cid) (db_controls d))) (\<lambda>found. case found of None \<Rightarrow> raiseT TypeError
      | Some k \<Rightarrow> if k_status k \<noteq> Pending then returnT () else
        bindT (askT (latest_diagnosis (k_incident_id k))) (\<lambda>latest. case latest of None \<Rightarrow> raiseT TypeError
        | Some l \<Rightarrow> if Some (r_run_id l) \<noteq> k_parent_run_id k then set_control cid (\<lambda>k. k\<lparr>k_status := Superseded\<rparr>)
            else if \<not> terminal (r_status l) then returnT ()
            else start_pending H cx c ids k l)))"

text \<open>The loop: what a candidate raises ends it, and what was committed before stays.\<close>

fun activate_each ::
  "(json \<Rightarrow> string) \<Rightarrow> round_context_fn \<Rightarrow> api_settings \<Rightarrow> (string \<times> round_ids) list \<Rightarrow> db \<Rightarrow> exn option \<times> db" where
  "activate_each H cx c [] d = (None, d)"
| "activate_each H cx c ((cid, ids) # ks) d = (case activate_one H cx c ids cid d of
     Inl e \<Rightarrow> (Some e, d) | Inr (_, d') \<Rightarrow> activate_each H cx c ks d')"

definition activate_pending ::
  "(json \<Rightarrow> string) \<Rightarrow> round_context_fn \<Rightarrow> api_settings \<Rightarrow> round_ids list \<Rightarrow> db \<Rightarrow> exn option \<times> db" where
  "activate_pending H cx c idss d = activate_each H cx c (zip (pending_candidates d) idss) d"

end
