(* ===== verification/StoreInvariants.thy ===== *)
theory StoreInvariants
  imports Controls
begin

text \<open>
  How a transaction may change the database: existing rows stay and evolve along the allowed
  directions (epochs and revisions grow, terminal runs and settled journal entries stay as they are, the
  identity and the approved content of a row never change), and the uniqueness constraints of the
  schema hold again afterwards.
\<close>

section \<open>Directions of change\<close>

text \<open>\<open>later s\<close>: the states the journal can reach from \<open>s\<close>.\<close>

fun later :: "op_state \<Rightarrow> op_state list" where
  "later Prepared = [Prepared, Dispatching, OpSucceeded, Rejected, UnknownOutcome, Reconciled, ManualRequired]"
| "later Dispatching = [Dispatching, OpSucceeded, Rejected, UnknownOutcome, Reconciled, ManualRequired]"
| "later OpSucceeded = [OpSucceeded, Reconciled, ManualRequired]"
| "later Rejected = [Rejected]"
| "later UnknownOutcome = [UnknownOutcome, ManualRequired]"
| "later Reconciled = [Reconciled, ManualRequired]"
| "later ManualRequired = [ManualRequired]"

definition op_identity :: "op_row \<Rightarrow> (string \<times> string \<times> string \<times> string \<times> string) \<times> json \<times> json \<times> string \<times> json \<times> json \<times> json" where
  "op_identity p = ((o_operation_id p, o_run_id p, o_incident_id p, o_approval_id p, o_plan_revision p),
     o_plan p, o_approval p, o_action p, o_before p, o_target p, o_patch p)"

definition op_evolves :: "op_row \<Rightarrow> op_row \<Rightarrow> bool" where
  "op_evolves p q = (op_identity q = op_identity p \<and> o_state q \<in> set (later (o_state p))
     \<and> (o_response p \<noteq> None \<longrightarrow> o_response q = o_response p)
     \<and> (o_result p \<noteq> None \<longrightarrow> o_result q = o_result p))"

definition run_identity ::
  "run_row \<Rightarrow> (string \<times> string \<times> run_kind) \<times> json \<times> string \<times> (string \<times> string) option \<times> string \<times> int" where
  "run_identity r = ((r_run_id r, r_incident_id r, r_run_kind r), r_input_payload r, r_input_sha256 r,
     r_idempotency r, r_request_sha256 r, r_event_revision r)"

text \<open>The owner of an epoch stays, or leaves.\<close>

definition lease_evolves :: "run_row \<Rightarrow> run_row \<Rightarrow> bool" where
  "lease_evolves r q = (r_lease_epoch r < r_lease_epoch q
     \<or> r_lease_epoch q = r_lease_epoch r \<and> (r_lease_owner q = None \<or> r_lease_owner q = r_lease_owner r))"

definition run_evolves :: "run_row \<Rightarrow> run_row \<Rightarrow> bool" where
  "run_evolves r q = (run_identity q = run_identity r \<and> lease_evolves r q
     \<and> (terminal (r_status r) \<longrightarrow> r_status q = r_status r)
     \<and> (r_stop_requested r \<longrightarrow> r_stop_requested q)
     \<and> (r_approval_payload r \<noteq> None \<longrightarrow> r_approval_payload q = r_approval_payload r))"

text \<open>
  An answer of the user moves a waiting run to a later revision: over several transactions the
  revision of a run that has not ended and was not stopped may grow.
\<close>

definition run_follows :: "run_row \<Rightarrow> run_row \<Rightarrow> bool" where
  "run_follows r q = (run_identity (q\<lparr>r_event_revision := 0\<rparr>) = run_identity (r\<lparr>r_event_revision := 0\<rparr>)
     \<and> lease_evolves r q \<and> (terminal (r_status r) \<longrightarrow> r_status q = r_status r)
     \<and> (r_stop_requested r \<longrightarrow> r_stop_requested q)
     \<and> (r_approval_payload r \<noteq> None \<longrightarrow> r_approval_payload q = r_approval_payload r)
     \<and> r_event_revision r \<le> r_event_revision q
     \<and> (terminal (r_status r) \<or> r_stop_requested r \<longrightarrow> r_event_revision q = r_event_revision r))"

definition incident_evolves :: "incident_row \<Rightarrow> incident_row \<Rightarrow> bool" where
  "incident_evolves i j = (i_incident_id j = i_incident_id i \<and> i_thread_id j = i_thread_id i
     \<and> i_namespace j = i_namespace i \<and> i_service_name j = i_service_name i
     \<and> i_description j = i_description i \<and> i_event_revision i \<le> i_event_revision j)"

text \<open>Rows evolve one by one and new rows are appended.\<close>

definition rows_evolve :: "('a \<Rightarrow> 'a \<Rightarrow> bool) \<Rightarrow> 'a list \<Rightarrow> 'a list \<Rightarrow> bool" where
  "rows_evolve R xs ys = (\<exists>zs new. ys = zs @ new \<and> list_all2 R xs zs)"

definition evolves :: "db \<Rightarrow> db \<Rightarrow> bool" where
  "evolves d e = (rows_evolve run_follows (db_runs d) (db_runs e)
     \<and> rows_evolve op_evolves (db_operations d) (db_operations e)
     \<and> rows_evolve incident_evolves (db_incidents d) (db_incidents e))"

definition one_active :: "run_row list \<Rightarrow> bool" where
  "one_active rs = (\<forall>r\<in>set rs. \<forall>q\<in>set rs. r_incident_id r = r_incident_id q \<and> r_run_kind r = r_run_kind q
     \<and> \<not> terminal (r_status r) \<and> \<not> terminal (r_status q) \<longrightarrow> r_run_id r = r_run_id q)"

definition keys_unique :: "db \<Rightarrow> bool" where
  "keys_unique d = (distinct (map r_run_id (db_runs d)) \<and> distinct (map o_run_id (db_operations d))
     \<and> distinct (map o_operation_id (db_operations d)) \<and> distinct (map i_incident_id (db_incidents d)))"

text \<open>A run belongs to an incident, and is accepted at a revision the incident has reached.\<close>

definition revisions_bounded :: "db \<Rightarrow> bool" where
  "revisions_bounded d = ((\<forall>i\<in>set (db_incidents d). 0 \<le> i_event_revision i)
     \<and> (\<forall>r\<in>set (db_runs d). \<exists>i\<in>set (db_incidents d).
          i_incident_id i = r_incident_id r \<and> r_event_revision r \<le> i_event_revision i))"

definition consistent :: "db \<Rightarrow> bool" where
  "consistent d = (keys_unique d \<and> one_active (db_runs d) \<and> revisions_bounded d)"

section \<open>Order laws\<close>

lemma later_refl [simp]: "s \<in> set (later s)"
  by (cases s) simp_all

lemma later_trans: "t \<in> set (later s) \<Longrightarrow> u \<in> set (later t) \<Longrightarrow> u \<in> set (later s)"
  by (cases s; cases t; cases u) simp_all

lemma op_evolves_refl [simp]: "op_evolves p p"
  by (simp add: op_evolves_def)

lemma lease_evolves_refl [simp]: "lease_evolves r r"
  by (simp add: lease_evolves_def)

lemma run_evolves_refl [simp]: "run_evolves r r"
  by (simp add: run_evolves_def)

lemma incident_evolves_refl [simp]: "incident_evolves i i"
  by (simp add: incident_evolves_def)

lemma run_identityD:
  assumes "run_identity q = run_identity r"
  shows "r_run_id q = r_run_id r" and "r_incident_id q = r_incident_id r" and "r_run_kind q = r_run_kind r"
    and "r_event_revision q = r_event_revision r"
  using assms by (simp_all add: run_identity_def)

lemma run_evolvesD:
  assumes "run_evolves r q"
  shows "r_run_id q = r_run_id r" and "r_incident_id q = r_incident_id r" and "r_run_kind q = r_run_kind r"
    and "r_event_revision q = r_event_revision r" and "r_lease_epoch r \<le> r_lease_epoch q"
    and "terminal (r_status r) \<Longrightarrow> r_status q = r_status r"
proof -
  have i: "run_identity q = run_identity r"
    using assms by (simp add: run_evolves_def)
  show "r_run_id q = r_run_id r" and "r_incident_id q = r_incident_id r" and "r_run_kind q = r_run_kind r"
    and "r_event_revision q = r_event_revision r"
    by (rule run_identityD [OF i])+
  have "lease_evolves r q"
    using assms by (simp add: run_evolves_def)
  then show "r_lease_epoch r \<le> r_lease_epoch q"
    by (auto simp: lease_evolves_def)
  show "r_status q = r_status r" if "terminal (r_status r)"
    using assms that by (simp add: run_evolves_def)
qed

lemma run_evolves_follows: "run_evolves r q \<Longrightarrow> run_follows r q"
  by (simp add: run_evolves_def run_follows_def run_identity_def)

lemma run_follows_refl [simp]: "run_follows r r"
  by (simp add: run_evolves_follows)

lemma run_followsD:
  assumes "run_follows r q"
  shows "r_run_id q = r_run_id r" and "r_incident_id q = r_incident_id r" and "r_run_kind q = r_run_kind r"
    and "r_lease_epoch r \<le> r_lease_epoch q" and "r_event_revision r \<le> r_event_revision q"
    and "terminal (r_status r) \<Longrightarrow> r_status q = r_status r"
    and "r_stop_requested r \<Longrightarrow> r_stop_requested q"
    and "terminal (r_status r) \<Longrightarrow> r_event_revision q = r_event_revision r"
    and "r_idempotency q = r_idempotency r" and "r_request_sha256 q = r_request_sha256 r"
    and "r_approval_payload r \<noteq> None \<Longrightarrow> r_approval_payload q = r_approval_payload r"
proof -
  have f: "run_identity (q\<lparr>r_event_revision := 0\<rparr>) = run_identity (r\<lparr>r_event_revision := 0\<rparr>)"
    and l: "lease_evolves r q"
    using assms by (simp_all only: run_follows_def)
  show "r_run_id q = r_run_id r" and "r_incident_id q = r_incident_id r" and "r_run_kind q = r_run_kind r"
    and "r_idempotency q = r_idempotency r" and "r_request_sha256 q = r_request_sha256 r"
    using f by (simp_all add: run_identity_def)
  show "r_lease_epoch r \<le> r_lease_epoch q"
    using l by (auto simp: lease_evolves_def)
  show "r_event_revision r \<le> r_event_revision q"
    and "terminal (r_status r) \<Longrightarrow> r_status q = r_status r"
    and "r_stop_requested r \<Longrightarrow> r_stop_requested q"
    and "terminal (r_status r) \<Longrightarrow> r_event_revision q = r_event_revision r"
    and "r_approval_payload r \<noteq> None \<Longrightarrow> r_approval_payload q = r_approval_payload r"
    using assms unfolding run_follows_def by (elim conjE, blast)+
qed

lemma op_evolvesD:
  assumes "op_evolves p q"
  shows "o_operation_id q = o_operation_id p" and "o_run_id q = o_run_id p" and "o_incident_id q = o_incident_id p"
    and "o_state q \<in> set (later (o_state p))" and "o_patch q = o_patch p" and "o_approval q = o_approval p"
  using assms by (simp_all add: op_evolves_def op_identity_def)

lemma op_evolves_trans:
  assumes "op_evolves p q" and "op_evolves q r"
  shows "op_evolves p r"
proof -
  have "o_state r \<in> set (later (o_state p))"
    using assms unfolding op_evolves_def by (blast intro: later_trans)
  with assms show ?thesis
    by (simp add: op_evolves_def)
qed

lemma lease_evolves_trans: "lease_evolves p q \<Longrightarrow> lease_evolves q r \<Longrightarrow> lease_evolves p r"
  unfolding lease_evolves_def by auto

lemma run_evolves_trans:
  assumes "run_evolves p q" and "run_evolves q r"
  shows "run_evolves p r"
proof -
  have "lease_evolves p r"
    using assms unfolding run_evolves_def by (blast intro: lease_evolves_trans)
  with assms show ?thesis
    by (simp add: run_evolves_def)
qed

lemma run_follows_trans:
  assumes "run_follows p q" and "run_follows q r"
  shows "run_follows p r"
proof -
  have l: "lease_evolves p r"
    using assms unfolding run_follows_def by (blast intro: lease_evolves_trans)
  have i: "run_identity (r\<lparr>r_event_revision := 0\<rparr>) = run_identity (p\<lparr>r_event_revision := 0\<rparr>)"
    using assms unfolding run_follows_def by (elim conjE) (rule trans)
  have t: "terminal (r_status p) \<longrightarrow> terminal (r_status q)"
    using run_followsD(6) [OF assms(1)] by simp
  have s: "r_stop_requested p \<longrightarrow> r_stop_requested q"
    using run_followsD(7) [OF assms(1)] by simp
  have e: "r_event_revision p \<le> r_event_revision r"
    using run_followsD(5) [OF assms(1)] run_followsD(5) [OF assms(2)] by simp
  show ?thesis
    unfolding run_follows_def
  proof (intro conjI impI i l e)
    show "r_status r = r_status p" if "terminal (r_status p)"
      using that t run_followsD(6) [OF assms(1)] run_followsD(6) [OF assms(2)] by simp
    show "r_stop_requested r" if "r_stop_requested p"
      using that s run_followsD(7) [OF assms(2)] by simp
    show "r_approval_payload r = r_approval_payload p" if "r_approval_payload p \<noteq> None"
      using that run_followsD(11) [OF assms(1)] run_followsD(11) [OF assms(2)] by simp
    show "r_event_revision r = r_event_revision p" if "terminal (r_status p) \<or> r_stop_requested p"
    proof -
      have "r_event_revision q = r_event_revision p" "r_event_revision r = r_event_revision q"
        using assms that t s unfolding run_follows_def by blast+
      then show ?thesis by simp
    qed
  qed
qed

lemma incident_evolves_trans: "incident_evolves p q \<Longrightarrow> incident_evolves q r \<Longrightarrow> incident_evolves p r"
  by (auto simp: incident_evolves_def)

lemma rows_evolve_refl: "(\<And>x. R x x) \<Longrightarrow> rows_evolve R xs xs"
  unfolding rows_evolve_def by (intro exI [of _ xs] exI [of _ "[]"]) (simp add: list_all2_refl)

lemma rows_evolve_trans:
  assumes tr: "\<And>x y z. R x y \<Longrightarrow> R y z \<Longrightarrow> R x z"
    and "rows_evolve R xs ys" and "rows_evolve R ys zs"
  shows "rows_evolve R xs zs"
proof -
  from assms(2) obtain as n where as: "ys = as @ n" "list_all2 R xs as"
    by (auto simp: rows_evolve_def)
  from assms(3) obtain bs m where bs: "zs = bs @ m" "list_all2 R (as @ n) bs"
    by (auto simp: rows_evolve_def as)
  from bs(2) obtain b1 b2 where "bs = b1 @ b2" "list_all2 R as b1"
    by (auto simp: list_all2_append1)
  moreover have "list_all2 R xs b1"
    using list_all2_trans [OF tr as(2) calculation(2)] .
  ultimately show ?thesis
    unfolding rows_evolve_def by (intro exI [of _ b1] exI [of _ "b2 @ m"]) (simp add: bs(1))
qed

lemma rows_evolve_append: "(\<And>x. R x x) \<Longrightarrow> rows_evolve R xs (xs @ ys)"
  unfolding rows_evolve_def by (intro exI [of _ xs] exI [of _ ys]) (simp add: list_all2_refl)

lemma rows_evolve_update:
  assumes "\<And>x. R x x" and "\<And>x. x \<in> set xs \<Longrightarrow> p x \<Longrightarrow> R x (f x)"
  shows "rows_evolve R xs (update_where p f xs)"
proof -
  have "list_all2 R xs (update_where p f xs)"
    using assms by (auto simp: update_where_def list_all2_conv_all_nth)
  then show ?thesis
    unfolding rows_evolve_def by (intro exI [of _ "update_where p f xs"] exI [of _ "[]"]) simp
qed

lemma rows_evolve_mem:
  assumes "rows_evolve R xs ys" and "x \<in> set xs"
  shows "\<exists>y\<in>set ys. R x y"
proof -
  from assms(1) obtain zs n where "ys = zs @ n" "list_all2 R xs zs"
    by (auto simp: rows_evolve_def)
  moreover from assms(2) obtain i where "i < length xs" "x = xs ! i"
    by (auto simp: in_set_conv_nth)
  ultimately show ?thesis
    by (intro bexI [of _ "zs ! i"]) (auto simp: list_all2_conv_all_nth)
qed

lemma evolves_refl [simp]: "evolves d d"
  by (simp add: evolves_def rows_evolve_refl)

lemma evolves_trans:
  assumes "evolves a b" and "evolves b c"
  shows "evolves a c"
proof -
  note tr = rows_evolve_trans [of run_follows "db_runs a" "db_runs b" "db_runs c"]
    rows_evolve_trans [of op_evolves "db_operations a" "db_operations b" "db_operations c"]
    rows_evolve_trans [of incident_evolves "db_incidents a" "db_incidents b" "db_incidents c"]
  show ?thesis
    using assms tr(1) [OF run_follows_trans] tr(2) [OF op_evolves_trans] tr(3) [OF incident_evolves_trans]
    by (simp only: evolves_def simp_thms)
qed

lemma evolves_run: "evolves d e \<Longrightarrow> r \<in> set (db_runs d) \<Longrightarrow> \<exists>q\<in>set (db_runs e). run_follows r q"
  unfolding evolves_def by (blast dest: rows_evolve_mem)

lemma evolves_op: "evolves d e \<Longrightarrow> p \<in> set (db_operations d) \<Longrightarrow> \<exists>q\<in>set (db_operations e). op_evolves p q"
  unfolding evolves_def by (blast dest: rows_evolve_mem)

lemma evolves_incident:
  "evolves d e \<Longrightarrow> i \<in> set (db_incidents d) \<Longrightarrow> \<exists>j\<in>set (db_incidents e). incident_evolves i j"
  unfolding evolves_def by (blast dest: rows_evolve_mem)

section \<open>Transactions that are safe for the store\<close>

text \<open>
  A transaction is safe from a database when it keeps the constraints and only evolves rows. Safety
  composes along the statements of a method.
\<close>

definition safe :: "db \<Rightarrow> 'a txn \<Rightarrow> bool" where
  "safe d m = (\<forall>x e. consistent d \<longrightarrow> m d = Inr (x, e) \<longrightarrow> consistent e \<and> evolves d e)"

lemma safeD: "safe d m \<Longrightarrow> consistent d \<Longrightarrow> m d = Inr (x, e) \<Longrightarrow> consistent e \<and> evolves d e"
  by (simp add: safe_def)

lemma safe_bind:
  assumes "safe d m" and "\<And>x e. consistent d \<Longrightarrow> m d = Inr (x, e) \<Longrightarrow> consistent e \<Longrightarrow> safe e (f x)"
  shows "safe d (bindT m f)"
  unfolding safe_def
proof (intro allI impI)
  fix y e'
  assume c: "consistent d" and "bindT m f d = Inr (y, e')"
  then obtain x e where m: "m d = Inr (x, e)" and f: "f x e = Inr (y, e')"
    by (auto simp: txn_simps)
  from safeD [OF assms(1) c m] have e: "consistent e" "evolves d e"
    by simp_all
  from safeD [OF assms(2) [OF c m e(1)] e(1) f] e(2) show "consistent e' \<and> evolves d e'"
    by (blast intro: evolves_trans)
qed

lemma safe_pure [simp]:
  "safe d (returnT x)" "safe d (raiseT e)" "safe d (askT g)" "safe d (requireT c e)"
  by (auto simp: safe_def txn_simps)

lemma safe_ask: "safe d (f (g d)) \<Longrightarrow> safe d (bindT (askT g) f)"
  by (auto simp: safe_def txn_simps)

lemma safe_require: "(c \<Longrightarrow> safe d (f ())) \<Longrightarrow> safe d (bindT (requireT c e) f)"
  by (auto simp: safe_def txn_simps)

lemma safe_fence:
  assumes "list_ex (owns t1 l) (db_runs d) \<Longrightarrow> safe d body"
  shows "safe d (fence t0 t1 l body)"
  using assms by (auto simp: safe_def txn_simps)

subsection \<open>Statements\<close>

lemma find_run_member:
  assumes "consistent d" and "find_run i d = Some r" and "q \<in> set (db_runs d)" and "r_run_id q = i"
  shows "q = r"
  using assms find_unique [of r_run_id "db_runs d" q]
  by (simp add: consistent_def keys_unique_def find_run_def)

lemma find_op_member:
  assumes "consistent d" and "find_op i d = Some p" and "q \<in> set (db_operations d)" and "o_run_id q = i"
  shows "q = p"
  using assms find_unique [of o_run_id "db_operations d" q]
  by (simp add: consistent_def keys_unique_def find_op_def)

lemma update_origin:
  assumes "y \<in> set (update_where p f xs)" and "\<And>x. R x x" and "\<And>x. x \<in> set xs \<Longrightarrow> p x \<Longrightarrow> R x (f x)"
  shows "\<exists>x\<in>set xs. R x y"
  using assms by (auto simp: update_where_def)

lemma run_evolves_active: "run_evolves r q \<Longrightarrow> \<not> terminal (r_status q) \<Longrightarrow> \<not> terminal (r_status r)"
  using run_evolvesD(6) by metis

lemma one_active_update:
  assumes one: "one_active rs" and ev: "\<And>r. r \<in> set rs \<Longrightarrow> p r \<Longrightarrow> run_evolves r (f r)"
  shows "one_active (update_where p f rs)"
  unfolding one_active_def
proof (intro ballI impI, elim conjE)
  fix r q
  assume r: "r \<in> set (update_where p f rs)" and q: "q \<in> set (update_where p f rs)"
    and same: "r_incident_id r = r_incident_id q" "r_run_kind r = r_run_kind q"
    and act: "\<not> terminal (r_status r)" "\<not> terminal (r_status q)"
  obtain r0 where r0: "r0 \<in> set rs" "run_evolves r0 r"
    using update_origin [OF r, of run_evolves] ev by auto
  obtain q0 where q0: "q0 \<in> set rs" "run_evolves q0 q"
    using update_origin [OF q, of run_evolves] ev by auto
  have "r_incident_id r0 = r_incident_id q0"
    using same(1) unfolding run_evolvesD(2) [OF r0(2)] run_evolvesD(2) [OF q0(2)] .
  moreover have "r_run_kind r0 = r_run_kind q0"
    using same(2) unfolding run_evolvesD(3) [OF r0(2)] run_evolvesD(3) [OF q0(2)] .
  moreover have "\<not> terminal (r_status r0)" "\<not> terminal (r_status q0)"
    by (rule run_evolves_active [OF r0(2) act(1)], rule run_evolves_active [OF q0(2) act(2)])
  ultimately have "r_run_id r0 = r_run_id q0"
    using one r0(1) q0(1) unfolding one_active_def by blast
  then show "r_run_id r = r_run_id q"
    unfolding run_evolvesD(1) [OF r0(2)] run_evolvesD(1) [OF q0(2)] .
qed

lemma revisions_bounded_update:
  assumes b: "revisions_bounded d"
    and runs: "\<And>q. q \<in> set (db_runs e) \<Longrightarrow> \<exists>r\<in>set (db_runs d). run_evolves r q"
    and incidents: "\<And>i. i \<in> set (db_incidents d) \<Longrightarrow> \<exists>j\<in>set (db_incidents e). incident_evolves i j"
    and origin: "\<And>j. j \<in> set (db_incidents e) \<Longrightarrow> \<exists>i\<in>set (db_incidents d). incident_evolves i j"
  shows "revisions_bounded e"
  unfolding revisions_bounded_def
proof (intro conjI ballI)
  fix j assume "j \<in> set (db_incidents e)"
  with origin obtain i where "i \<in> set (db_incidents d)" "incident_evolves i j"
    by blast
  with b show "0 \<le> i_event_revision j"
    by (force simp: revisions_bounded_def incident_evolves_def)
next
  fix q assume "q \<in> set (db_runs e)"
  with runs obtain r where r: "r \<in> set (db_runs d)" "run_evolves r q"
    by blast
  with b obtain i where i: "i \<in> set (db_incidents d)" "i_incident_id i = r_incident_id r"
      "r_event_revision r \<le> i_event_revision i"
    by (auto simp: revisions_bounded_def)
  obtain j where j: "j \<in> set (db_incidents e)" "incident_evolves i j"
    using incidents [OF i(1)] by blast
  have "i_incident_id j = r_incident_id q"
    using j(2) i(2) by (simp add: incident_evolves_def run_evolvesD(2) [OF r(2)])
  moreover have "r_event_revision q \<le> i_event_revision j"
    using j(2) i(3) by (simp add: incident_evolves_def run_evolvesD(4) [OF r(2)])
  ultimately show "\<exists>j\<in>set (db_incidents e). i_incident_id j = r_incident_id q \<and> r_event_revision q \<le> i_event_revision j"
    using j(1) by blast
qed

lemma safe_update_runs:
  assumes ev: "\<And>r. consistent d \<Longrightarrow> r \<in> set (db_runs d) \<Longrightarrow> p r \<Longrightarrow> run_evolves r (f r)"
  shows "safe d (modifyT (\<lambda>d. d\<lparr>db_runs := update_where p f (db_runs d)\<rparr>))"
  unfolding safe_def
proof (intro allI impI)
  fix x e
  assume c: "consistent d" and m: "modifyT (\<lambda>d. d\<lparr>db_runs := update_where p f (db_runs d)\<rparr>) d = Inr (x, e)"
  note ev = ev [OF c]
  let ?rs = "update_where p f (db_runs d)"
  have e: "e = d\<lparr>db_runs := ?rs\<rparr>"
    using m by (simp add: txn_simps)
  have ids: "map r_run_id ?rs = map r_run_id (db_runs d)"
    using ev run_evolvesD(1) by (simp add: update_where_def)
  have "one_active ?rs"
    using c ev by (intro one_active_update) (auto simp: consistent_def)
  moreover have "revisions_bounded e"
  proof (rule revisions_bounded_update)
    show "revisions_bounded d" using c by (simp add: consistent_def)
    show "\<exists>r\<in>set (db_runs d). run_evolves r q" if "q \<in> set (db_runs e)" for q
      using that ev by (intro update_origin [where p = p and f = f]) (auto simp: e)
    show "\<exists>i\<in>set (db_incidents d). incident_evolves i j" if "j \<in> set (db_incidents e)" for j
      using that by (intro bexI [of _ j]) (auto simp: e)
    show "\<exists>j\<in>set (db_incidents e). incident_evolves i j" if "i \<in> set (db_incidents d)" for i
      using that by (intro bexI [of _ i]) (auto simp: e)
  qed
  moreover have "rows_evolve run_follows (db_runs d) ?rs"
    using ev by (intro rows_evolve_update) (auto intro: run_evolves_follows)
  ultimately show "consistent e \<and> evolves d e"
    using c ids by (simp add: e consistent_def keys_unique_def evolves_def rows_evolve_refl)
qed

lemma safe_set_run:
  "(\<And>r. consistent d \<Longrightarrow> r \<in> set (db_runs d) \<Longrightarrow> r_run_id r = i \<Longrightarrow> run_evolves r (f r)) \<Longrightarrow> safe d (set_run i f)"
  unfolding set_run_def by (rule safe_update_runs)

lemma safe_update_ops:
  assumes ev: "\<And>p. consistent d \<Longrightarrow> p \<in> set (db_operations d) \<Longrightarrow> P p \<Longrightarrow> op_evolves p (f p)"
  shows "safe d (modifyT (\<lambda>d. d\<lparr>db_operations := update_where P f (db_operations d)\<rparr>))"
  unfolding safe_def
proof (intro allI impI)
  fix x e
  assume c: "consistent d"
    and m: "modifyT (\<lambda>d. d\<lparr>db_operations := update_where P f (db_operations d)\<rparr>) d = Inr (x, e)"
  note ev = ev [OF c]
  let ?ps = "update_where P f (db_operations d)"
  have e: "e = d\<lparr>db_operations := ?ps\<rparr>"
    using m by (simp add: txn_simps)
  have "map o_run_id ?ps = map o_run_id (db_operations d)"
      "map o_operation_id ?ps = map o_operation_id (db_operations d)"
    using ev op_evolvesD(1,2) by (simp_all add: update_where_def)
  moreover have "rows_evolve op_evolves (db_operations d) ?ps"
    using ev by (intro rows_evolve_update) auto
  ultimately show "consistent e \<and> evolves d e"
    using c by (simp add: e consistent_def keys_unique_def evolves_def rows_evolve_refl revisions_bounded_def)
qed

lemma safe_set_op:
  "(\<And>p. consistent d \<Longrightarrow> p \<in> set (db_operations d) \<Longrightarrow> o_run_id p = i \<Longrightarrow> op_evolves p (f p)) \<Longrightarrow> safe d (set_op i f)"
  unfolding set_op_def by (rule safe_update_ops)

lemma safe_set_incident:
  assumes ev: "\<And>i. incident_evolves i (f i)"
  shows "safe d (set_incident iid f)"
  unfolding safe_def
proof (intro allI impI)
  fix x e
  assume c: "consistent d" and m: "set_incident iid f d = Inr (x, e)"
  let ?is = "update_where (\<lambda>i. i_incident_id i = iid) f (db_incidents d)"
  have e: "e = d\<lparr>db_incidents := ?is\<rparr>"
    using m by (simp add: set_incident_def txn_simps)
  have "map i_incident_id ?is = map i_incident_id (db_incidents d)"
    using ev by (auto simp: update_where_def incident_evolves_def)
  moreover have "revisions_bounded e"
  proof (rule revisions_bounded_update)
    show "revisions_bounded d" using c by (simp add: consistent_def)
    show "\<exists>r\<in>set (db_runs d). run_evolves r q" if "q \<in> set (db_runs e)" for q
      using that by (intro bexI [of _ q]) (auto simp: e)
    show "\<exists>i\<in>set (db_incidents d). incident_evolves i j" if "j \<in> set (db_incidents e)" for j
      using that ev by (intro update_origin [where p = "\<lambda>i. i_incident_id i = iid" and f = f]) (auto simp: e)
    show "\<exists>j\<in>set (db_incidents e). incident_evolves i j" if "i \<in> set (db_incidents d)" for i
      using that ev
      by (intro bexI [of _ "if i_incident_id i = iid then f i else i"]) (auto simp: e update_where_def)
  qed
  moreover have "rows_evolve incident_evolves (db_incidents d) ?is"
    using ev by (intro rows_evolve_update) auto
  ultimately show "consistent e \<and> evolves d e"
    using c by (simp add: e consistent_def keys_unique_def evolves_def rows_evolve_refl)
qed

end
