(* ===== verification/StoreSafety.thy ===== *)
theory StoreSafety
  imports StoreInvariants
begin

text \<open>
  Every method of the repositories keeps the constraints of the store and evolves its rows: the
  lemmas \<open>safe_claim\<close>, \<open>safe_finish\<close>, and so on, one per method.
\<close>

lemma safe_if: "(c \<Longrightarrow> safe d a) \<Longrightarrow> (\<not> c \<Longrightarrow> safe d b) \<Longrightarrow> safe d (if c then a else b)"
  by (cases c) simp_all

lemma safe_option:
  "(x = None \<Longrightarrow> safe d a) \<Longrightarrow> (\<And>y. x = Some y \<Longrightarrow> safe d (f y)) \<Longrightarrow> safe d (case x of None \<Rightarrow> a | Some y \<Rightarrow> f y)"
  by (cases x) simp_all

lemma safe_sum:
  "(\<And>e. x = Inl e \<Longrightarrow> safe d (g e)) \<Longrightarrow> (\<And>y. x = Inr y \<Longrightarrow> safe d (f y))
    \<Longrightarrow> safe d (case x of Inl e \<Rightarrow> g e | Inr y \<Rightarrow> f y)"
  by (cases x) simp_all

lemmas safe_intros = safe_pure safe_ask safe_require safe_if safe_option safe_sum

section \<open>Leases\<close>

lemma owned_running:
  assumes "consistent d" and "list_ex (owns t l) (db_runs d)" and "r \<in> set (db_runs d)"
    and "r_run_id r = r_run_id (le_run l)"
  shows "owns t l r"
proof -
  from assms(2) obtain q where q: "q \<in> set (db_runs d)" "owns t l q"
    by (auto simp: list_ex_iff)
  then have "r_run_id q = r_run_id r"
    using assms(4) by (simp add: owns_def)
  moreover have "inj_on r_run_id (set (db_runs d))"
    using assms(1) by (simp add: consistent_def keys_unique_def distinct_map)
  ultimately have "q = r"
    using q(1) assms(3) by (auto dest: inj_onD)
  with q(2) show ?thesis by simp
qed

lemma owns_active: "owns t l r \<Longrightarrow> \<not> terminal (r_status r)"
  by (simp add: owns_def terminal_def)

text \<open>An update of the leased run, inside the fence, that changes no identity and keeps the epoch.\<close>

lemma safe_leased_update:
  assumes own: "list_ex (owns t l) (db_runs d)"
    and ev: "\<And>r. \<not> terminal (r_status r) \<Longrightarrow> run_evolves r (f r)"
  shows "safe d (set_run (r_run_id (le_run l)) f)"
proof (rule safe_set_run)
  fix r assume "consistent d" "r \<in> set (db_runs d)" "r_run_id r = r_run_id (le_run l)"
  then have "owns t l r"
    by (intro owned_running [OF _ own])
  then show "run_evolves r (f r)"
    by (intro ev owns_active)
qed

lemma claimable_active: "claimable t r \<Longrightarrow> \<not> terminal (r_status r)"
  by (auto simp: claimable_def terminal_def)

lemma candidateD:
  assumes "candidate locked t d = Some r"
  shows "r \<in> set (db_runs d)" and "claimable t r" and "r_run_id r \<notin> set locked"
proof -
  have "r \<in> set (ordered_runs (filter (\<lambda>r. claimable t r \<and> r_run_id r \<notin> set locked) (db_runs d)))"
    using assms by (auto simp: candidate_def split: list.splits)
  then have "r \<in> set (filter (\<lambda>r. claimable t r \<and> r_run_id r \<notin> set locked) (db_runs d))"
    by (simp add: ordered_runs_def)
  then show "r \<in> set (db_runs d)" and "claimable t r" and "r_run_id r \<notin> set locked"
    by simp_all
qed

lemma claimed_evolves: "\<not> terminal (r_status r) \<Longrightarrow> run_evolves r (claimed owner secs n t r)"
  by (simp add: run_evolves_def run_identity_def lease_evolves_def claimed_def)

lemma run_id_inj: "consistent d \<Longrightarrow> r \<in> set (db_runs d) \<Longrightarrow> q \<in> set (db_runs d) \<Longrightarrow> r_run_id r = r_run_id q \<Longrightarrow> r = q"
  by (simp add: consistent_def keys_unique_def distinct_map inj_on_def)

lemma safe_claim: "safe d (claim locked owner secs n t)"
  unfolding claim_def
proof (rule safe_ask, cases "candidate locked t d")
  case (Some r)
  have "safe d (set_run (r_run_id r) (claimed owner secs n t))"
  proof (rule safe_set_run)
    fix q assume "consistent d" "q \<in> set (db_runs d)" "r_run_id q = r_run_id r"
    with candidateD [OF Some] have "q = r"
      by (intro run_id_inj)
    with candidateD(2) [OF Some] show "run_evolves q (claimed owner secs n t q)"
      by (simp add: claimed_evolves claimable_active)
  qed
  with Some show "safe d (case candidate locked t d of None \<Rightarrow> returnT None
      | Some r \<Rightarrow> bindT (set_run (r_run_id r) (claimed owner secs n t)) (\<lambda>_.
         returnT (Some \<lparr>le_run = claimed owner secs n t r, le_recovery_only = exhausted n r\<rparr>)))"
    by (auto intro!: safe_bind)
qed simp

lemma safe_heartbeat: "safe d (heartbeat secs t0 t1 l)"
  unfolding heartbeat_def
  by (rule safe_fence, erule safe_leased_update) (simp add: run_evolves_def run_identity_def lease_evolves_def)

lemma safe_mark_checkpoint_started: "safe d (mark_checkpoint_started t0 t1 l)"
  unfolding mark_checkpoint_started_def
  by (rule safe_fence, erule safe_leased_update) (simp add: run_evolves_def run_identity_def lease_evolves_def)

section \<open>Finishing\<close>

text \<open>
  The five updates of \<open>finish\<close> run one after the other on the leased row: each keeps the
  identity, and all but the status update keep the status.
\<close>

lemma set_run_member:
  assumes "set_run i f d = Inr (u, e)"
  shows "db_runs e = update_where (\<lambda>r. r_run_id r = i) f (db_runs d)"
    and "db_operations e = db_operations d" and "db_incidents e = db_incidents d"
    and "db_controls e = db_controls d" and "db_messages e = db_messages d"
  using assms by (auto simp: set_run_def txn_simps)

lemma active_after_set_run:
  assumes "set_run i f d = Inr (u, e)" and "\<And>r. r_run_id (f r) = r_run_id r" and "\<And>r. r_status (f r) = r_status r"
    and "\<forall>r\<in>set (db_runs d). r_run_id r = i \<longrightarrow> \<not> terminal (r_status r)"
  shows "\<forall>r\<in>set (db_runs e). r_run_id r = i \<longrightarrow> \<not> terminal (r_status r)"
proof (intro ballI impI)
  fix r assume r: "r \<in> set (db_runs e)" "r_run_id r = i"
  then obtain q where q: "q \<in> set (db_runs d)" "r = (if r_run_id q = i then f q else q)"
    unfolding set_run_member(1) [OF assms(1)] update_where_set by blast
  then have "r_run_id q = i"
    using r(2) by (cases "r_run_id q = i") simp_all
  with q assms(3,4) show "\<not> terminal (r_status r)"
    by simp
qed

lemma safe_active_update:
  assumes act: "\<forall>r\<in>set (db_runs d). r_run_id r = i \<longrightarrow> \<not> terminal (r_status r)"
    and ev: "\<And>r. \<not> terminal (r_status r) \<Longrightarrow> run_evolves r (f r)"
  shows "safe d (set_run i f)"
  by (rule safe_set_run) (use act ev in blast)

lemma question_update_evolves: "run_evolves r (question_update out r)"
  by (simp add: question_update_def run_evolves_def run_identity_def lease_evolves_def)

lemma adopted_update_evolves: "run_evolves r (adopted_update out r)"
  by (simp add: adopted_update_def run_evolves_def run_identity_def lease_evolves_def split: option.split)

lemma output_update_evolves: "run_evolves r (output_update out r)"
  by (simp add: output_update_def run_evolves_def run_identity_def lease_evolves_def)

lemma status_update_evolves: "\<not> terminal (r_status r) \<Longrightarrow> run_evolves r (status_update out t r)"
  by (simp add: status_update_def run_evolves_def run_identity_def lease_evolves_def)

lemma question_update_keeps [simp]:
  "r_run_id (question_update out r) = r_run_id r" "r_status (question_update out r) = r_status r"
  by (simp_all add: question_update_def)

lemma adopted_update_keeps [simp]:
  "r_run_id (adopted_update out r) = r_run_id r" "r_status (adopted_update out r) = r_status r"
  by (simp_all add: adopted_update_def split: option.split)

lemma leased_rows_active:
  assumes "consistent d" and "list_ex (owns t l) (db_runs d)"
  shows "\<forall>r\<in>set (db_runs d). r_run_id r = r_run_id (le_run l) \<longrightarrow> \<not> terminal (r_status r)"
  using owned_running [OF assms] owns_active by blast

lemma safe_publish:
  assumes act: "\<forall>r\<in>set (db_runs d). r_run_id r = r_run_id (le_run l) \<longrightarrow> \<not> terminal (r_status r)"
  shows "safe d (publish t l out)"
  unfolding publish_def
proof (rule safe_bind)
  let ?i = "r_run_id (le_run l)"
  show "safe d (set_run ?i (question_update out))"
    by (rule safe_active_update [OF act question_update_evolves])
  fix u d1 assume q: "set_run ?i (question_update out) d = Inr (u, d1)"
  note act1 = active_after_set_run [OF q _ _ act, simplified]
  show "safe d1 (bindT (set_run ?i (adopted_update out)) (\<lambda>_.
     bindT (askT (find_op ?i)) (\<lambda>op.
     bindT (requireT (\<not> unsafe_retry op out) (UnsafeRetry ''external operation requires reconciliation'')) (\<lambda>_.
     bindT (set_run ?i (status_update out t)) (\<lambda>_.
     bindT (case out_phase out of None \<Rightarrow> returnT ()
            | Some p \<Rightarrow> set_incident (r_incident_id (le_run l)) (\<lambda>i. i\<lparr>i_phase := p, i_updated_at := t\<rparr>)) (\<lambda>_.
     bindT (set_run ?i (output_update out)) (\<lambda>_. returnT (out_status out))))))))"
  proof (rule safe_bind)
    show "safe d1 (set_run ?i (adopted_update out))"
      by (rule safe_active_update [OF act1 adopted_update_evolves])
    fix u d2 assume a: "set_run ?i (adopted_update out) d1 = Inr (u, d2)"
    note act2 = active_after_set_run [OF a _ _ act1, simplified]
    show "safe d2 (bindT (askT (find_op ?i)) (\<lambda>op.
     bindT (requireT (\<not> unsafe_retry op out) (UnsafeRetry ''external operation requires reconciliation'')) (\<lambda>_.
     bindT (set_run ?i (status_update out t)) (\<lambda>_.
     bindT (case out_phase out of None \<Rightarrow> returnT ()
            | Some p \<Rightarrow> set_incident (r_incident_id (le_run l)) (\<lambda>i. i\<lparr>i_phase := p, i_updated_at := t\<rparr>)) (\<lambda>_.
     bindT (set_run ?i (output_update out)) (\<lambda>_. returnT (out_status out)))))))"
      by (intro safe_ask safe_require safe_bind safe_active_update [OF act2 status_update_evolves]
          safe_set_run output_update_evolves safe_pure)
        (auto split: option.split intro!: safe_set_incident simp: incident_evolves_def)
  qed
qed

lemma safe_finish: "safe d (finish t0 t1 l out)"
proof -
  have "safe d (fence t0 t1 l (bindT (askT (find_run (r_run_id (le_run l)))) (\<lambda>row.
         bindT (askT (find_op (r_run_id (le_run l)))) (\<lambda>op.
           publish t1 l (effective (case row of None \<Rightarrow> False | Some r \<Rightarrow> r_stop_requested r) op out)))))"
  proof (cases "consistent d")
    case True
    then show ?thesis
      by (intro safe_fence safe_ask safe_publish leased_rows_active)
  qed (simp add: safe_def)
  then show ?thesis
    by (simp add: finish_def)
qed

section \<open>The journal\<close>

lemma safe_assert_revision [simp]: "safe d (assert_revision i)"
  by (simp add: assert_revision_def safe_ask)

lemma assert_revision_Inr [txn_simps]: "assert_revision i d = Inr (u, e) \<longleftrightarrow> current_revision i d \<and> e = d"
  by (auto simp: assert_revision_def txn_simps)

lemma safe_after_pure:
  assumes "\<And>x e. m d = Inr (x, e) \<Longrightarrow> e = d" and "\<And>x. m d = Inr (x, d) \<Longrightarrow> safe d (f x)"
  shows "safe d (bindT m f)"
  unfolding safe_def
proof (intro allI impI)
  fix y e assume c: "consistent d" and "bindT m f d = Inr (y, e)"
  then obtain x d1 where m: "m d = Inr (x, d1)" and f: "f x d1 = Inr (y, e)"
    by (auto simp: txn_simps)
  from assms(1) [OF m] have "d1 = d" .
  with m f assms(2) [of x] c show "consistent e \<and> evolves d e"
    by (simp add: safe_def)
qed

lemma find_run_mem: "find_run i d = Some r \<Longrightarrow> r \<in> set (db_runs d) \<and> r_run_id r = i"
  unfolding find_run_def by (rule find_mem)

lemma find_op_mem: "find_op i d = Some p \<Longrightarrow> p \<in> set (db_operations d) \<and> o_run_id p = i"
  unfolding find_op_def by (rule find_mem)

lemma safe_queue_approval: "safe d (queue_approval i decision binding t)"
  unfolding queue_approval_def Let_def
proof (rule safe_ask, cases "find_run i d")
  case (Some row)
  have upd: "safe d (set_run i (\<lambda>r. r\<lparr>r_approval_payload := Some p, r_status := Queued,
             r_attempt_base := r_attempt r, r_updated_at := t\<rparr>))"
    if "r_approval_payload row = None" "r_status row = WaitingApproval" for p
  proof (rule safe_set_run)
    fix r assume "consistent d" "r \<in> set (db_runs d)" "r_run_id r = i"
    then have "r = row"
      by (rule find_run_member [OF _ Some])
    with that show "run_evolves r (r\<lparr>r_approval_payload := Some p, r_status := Queued,
             r_attempt_base := r_attempt r, r_updated_at := t\<rparr>)"
      by (simp add: run_evolves_def run_identity_def lease_evolves_def terminal_def)
  qed
  show "safe d (case find_run i d of
       None \<Rightarrow> raiseT ApprovalConflict
     | Some row \<Rightarrow>
        bindT (assert_revision i) (\<lambda>_.
        case r_approval_payload row of
          Some saved \<Rightarrow> requireT (py_eq saved (decision_payload decision binding)) ApprovalConflict
        | None \<Rightarrow>
           bindT (requireT (r_status row = WaitingApproval) ApprovalConflict) (\<lambda>_.
           bindT (askT (unsettled_in (r_incident_id row))) (\<lambda>busy.
           bindT (requireT (\<not> busy) ApprovalConflict) (\<lambda>_.
           set_run i (\<lambda>r. r\<lparr>r_approval_payload := Some (decision_payload decision binding), r_status := Queued,
             r_attempt_base := r_attempt r, r_updated_at := t\<rparr>))))))"
    by (auto simp: Some txn_simps split: option.split
        intro!: safe_after_pure [where m = "assert_revision i"] safe_require safe_ask upd)
qed simp

lemma safe_insert_op: "safe d (insert_op p)"
  unfolding safe_def insert_op_def
  by (auto simp: txn_simps consistent_def keys_unique_def revisions_bounded_def evolves_def list_all_iff
      rows_evolve_refl intro!: rows_evolve_append)

lemma safe_prepare: "safe d (prepare H t0 t1 l q)"
  unfolding prepare_def
  by (auto simp: txn_simps split: option.split
      intro!: safe_fence safe_ask safe_require safe_after_pure [where m = "assert_revision _"] safe_insert_op)

lemma safe_dispatch: "safe d (dispatch t0 t1 l oid)"
  unfolding dispatch_def
  by (auto simp: txn_simps dispatchable_def op_evolves_def op_identity_def
      intro!: safe_fence safe_ask safe_require safe_after_pure [where m = "assert_revision _"] safe_update_ops)

lemma recordable_later: "s \<in> set (recordable_from t) \<Longrightarrow> t \<in> set (later s)"
  by (cases s; cases t) simp_all

lemma safe_record_outcome: "safe d (record_outcome t0 t1 l st rp)"
proof -
  have upd: "safe d (set_op i (recorded st rp t))"
    if "find_op i d = Some p" "o_state p \<in> set (recordable_from st)"
      "\<not> (rp_response rp \<noteq> None \<and> o_response p \<noteq> None \<or> rp_result rp \<noteq> None \<and> o_result p \<noteq> None)"
    for i p t
  proof (rule safe_set_op)
    fix q assume "consistent d" "q \<in> set (db_operations d)" "o_run_id q = i"
    then have q: "q = p"
      by (rule find_op_member [OF _ that(1)])
    show "op_evolves q (recorded st rp t q)"
      using that(2,3) recordable_later
      by (auto simp: q op_evolves_def op_identity_def recorded_def coalesce_def split: option.split)
  qed
  show ?thesis
  proof (cases "st \<in> {OpSucceeded, Rejected, UnknownOutcome, Reconciled, ManualRequired}")
    case True
    let ?i = "r_run_id (le_run l)"
    have "safe d (case find_op ?i d of None \<Rightarrow> raiseT (PyValueError ''invalid operation transition'')
         | Some p \<Rightarrow>
            bindT (requireT (o_state p \<in> set (recordable_from st)) (PyValueError ''invalid operation transition'')) (\<lambda>_.
            bindT (requireT (\<not> (rp_response rp \<noteq> None \<and> o_response p \<noteq> None
                               \<or> rp_result rp \<noteq> None \<and> o_result p \<noteq> None))
                     (PyValueError ''operation response is immutable'')) (\<lambda>_.
            set_op ?i (recorded st rp t1))))"
    proof (cases "find_op ?i d")
      case (Some p)
      show ?thesis
        unfolding Some option.case by (intro safe_require upd [OF Some]; assumption)
    qed simp
    then have "safe d (fence t0 t1 l
        (bindT (askT (find_op ?i)) (\<lambda>found. case found of
           None \<Rightarrow> raiseT (PyValueError ''invalid operation transition'')
         | Some p \<Rightarrow>
            bindT (requireT (o_state p \<in> set (recordable_from st)) (PyValueError ''invalid operation transition'')) (\<lambda>_.
            bindT (requireT (\<not> (rp_response rp \<noteq> None \<and> o_response p \<noteq> None
                               \<or> rp_result rp \<noteq> None \<and> o_result p \<noteq> None))
                     (PyValueError ''operation response is immutable'')) (\<lambda>_.
            set_op ?i (recorded st rp t1))))))"
      by (intro safe_fence safe_ask)
    with True show ?thesis
      by (simp only: record_outcome_def simp_thms if_False not_not)
  next
    case False
    then have "record_outcome t0 t1 l st rp = raiseT (PyValueError ''invalid operation outcome'')"
      by (simp only: record_outcome_def simp_thms if_True)
    then show ?thesis
      by simp
  qed
qed

section \<open>Controls\<close>

text \<open>Statements on the tables of messages and controls.\<close>

definition same_rows :: "db \<Rightarrow> db \<Rightarrow> bool" where
  "same_rows d e = (db_runs e = db_runs d \<and> db_operations e = db_operations d \<and> db_incidents e = db_incidents d)"

lemma same_rows_safe:
  assumes "\<And>x e. m d = Inr (x, e) \<Longrightarrow> same_rows d e"
  shows "safe d m"
  unfolding safe_def
proof (intro allI impI)
  fix x e assume c: "consistent d" and "m d = Inr (x, e)"
  then have e: "same_rows d e"
    by (intro assms)
  with c show "consistent e \<and> evolves d e"
    by (simp add: same_rows_def consistent_def keys_unique_def revisions_bounded_def evolves_def rows_evolve_refl)
qed

lemma message_in_transaction_rows:
  "message_in_transaction mid iid key content t d = Inr (m, e) \<Longrightarrow> same_rows d e"
  by (auto simp: message_in_transaction_def insert_message_def same_rows_def txn_simps split: option.splits if_splits)

lemma insert_control_rows: "insert_control n d = Inr (k, e) \<Longrightarrow> same_rows d e"
  by (auto simp: insert_control_def same_rows_def txn_simps)

lemma supersede_pending_rows: "supersede_pending iid d = Inr (k, e) \<Longrightarrow> same_rows d e"
  by (auto simp: supersede_pending_def same_rows_def txn_simps)

lemma safe_message: "safe d (message_in_transaction mid iid key content t)"
  by (rule same_rows_safe) (rule message_in_transaction_rows)

lemma safe_insert_control: "safe d (insert_control n)"
  by (rule same_rows_safe) (rule insert_control_rows)

lemma safe_supersede_pending: "safe d (supersede_pending iid)"
  by (rule same_rows_safe) (rule supersede_pending_rows)

lemma safe_cancel_interactions: "safe d (cancel_interactions iid t)"
  unfolding cancel_interactions_def
  by (rule safe_update_runs)
    (simp add: cancelled_interaction_def run_evolves_def run_identity_def lease_evolves_def)

lemma stopped_run_evolves: "run_evolves r (stopped_run t r)"
  by (simp add: stopped_run_def run_evolves_def run_identity_def lease_evolves_def)

lemma cancelled_run_evolves: "\<not> terminal (r_status r) \<Longrightarrow> run_evolves r (cancelled_run snap t r)"
  by (simp add: cancelled_run_def run_evolves_def run_identity_def lease_evolves_def)

lemma stopped_run_keeps [simp]: "r_run_id (stopped_run t r) = r_run_id r" "r_status (stopped_run t r) = r_status r"
  by (simp_all add: stopped_run_def)

lemma superseded_op_evolves: "op_evolves p (superseded_op t p)"
  by (simp add: superseded_op_def op_evolves_def op_identity_def)

lemma set_op_runs: "set_op i f d = Inr (u, e) \<Longrightarrow> db_runs e = db_runs d \<and> db_incidents e = db_incidents d"
  by (auto simp: set_op_def txn_simps)

lemma set_incident_runs: "set_incident i f d = Inr (u, e) \<Longrightarrow> db_runs e = db_runs d \<and> db_operations e = db_operations d"
  by (auto simp: set_incident_def txn_simps)

lemma safe_phase: "safe d (set_incident iid (\<lambda>i. i\<lparr>i_phase := p, i_updated_at := t\<rparr>))"
  by (rule safe_set_incident) (simp add: incident_evolves_def)

lemma safe_stop_active:
  assumes act: "\<forall>r\<in>set (db_runs d). r_run_id r = r_run_id l \<longrightarrow> \<not> terminal (r_status r)"
  shows "safe d (stop_active snap t l op)"
  unfolding stop_active_def
proof (rule safe_bind)
  show "safe d (set_run (r_run_id l) (stopped_run t))"
    by (rule safe_active_update [OF act stopped_run_evolves])
  fix u d1 assume s: "set_run (r_run_id l) (stopped_run t) d = Inr (u, d1)"
  have act1: "\<forall>r\<in>set (db_runs d1). r_run_id r = r_run_id l \<longrightarrow> \<not> terminal (r_status r)"
    by (rule active_after_set_run [OF s _ _ act]) simp_all
  have "safe d1 (bindT (set_op (r_run_id l) (superseded_op t)) (\<lambda>_.
          bindT (set_run (r_run_id l) (cancelled_run snap t)) (\<lambda>_.
          set_incident (r_incident_id l) (\<lambda>i. i\<lparr>i_phase := ''cancelled'', i_updated_at := t\<rparr>))))"
  proof (rule safe_bind)
    show "safe d1 (set_op (r_run_id l) (superseded_op t))"
      by (rule safe_set_op) (rule superseded_op_evolves)
    fix u d2 assume "set_op (r_run_id l) (superseded_op t) d1 = Inr (u, d2)"
    then have "db_runs d2 = db_runs d1"
      using set_op_runs by blast
    with act1 have act2: "\<forall>r\<in>set (db_runs d2). r_run_id r = r_run_id l \<longrightarrow> \<not> terminal (r_status r)"
      by simp
    show "safe d2 (bindT (set_run (r_run_id l) (cancelled_run snap t)) (\<lambda>_.
          set_incident (r_incident_id l) (\<lambda>i. i\<lparr>i_phase := ''cancelled'', i_updated_at := t\<rparr>)))"
      by (intro safe_bind safe_active_update [OF act2 cancelled_run_evolves] safe_phase)
  qed
  then show "safe d1 (if dispatched op then returnT ()
     else bindT (set_op (r_run_id l) (superseded_op t)) (\<lambda>_.
          bindT (set_run (r_run_id l) (cancelled_run snap t)) (\<lambda>_.
          set_incident (r_incident_id l) (\<lambda>i. i\<lparr>i_phase := ''cancelled'', i_updated_at := t\<rparr>))))"
    by (cases "dispatched op") simp_all
qed

lemma unique_active:
  assumes "consistent d" and "l \<in> set (db_runs d)" and "\<not> terminal (r_status l)"
  shows "\<forall>r\<in>set (db_runs d). r_run_id r = r_run_id l \<longrightarrow> \<not> terminal (r_status r)"
proof (intro ballI impI)
  fix r assume "r \<in> set (db_runs d)" "r_run_id r = r_run_id l"
  then have "r = l"
    by (intro run_id_inj [OF assms(1) _ assms(2)])
  with assms(3) show "\<not> terminal (r_status r)"
    by simp
qed

lemma safe_apply_control:
  assumes l: "l \<in> set (db_runs d)"
  shows "safe d (apply_control H mid cid iid b snap t l)"
  unfolding apply_control_def
proof (rule safe_bind [OF safe_message])
  fix m d1 assume c: "consistent d"
    and "message_in_transaction mid iid (cb_key b) (cb_content b) t d = Inr (m, d1)"
  then have runs: "db_runs d1 = db_runs d"
    using message_in_transaction_rows by (simp add: same_rows_def)
  have act: "safe d2 (if terminal (r_status l) then returnT () else stop_active snap t l op)"
    if "db_runs d2 = db_runs d1" for d2 op
  proof (cases "terminal (r_status l)")
    case False
    then show ?thesis
      using unique_active [OF c l] by (simp add: safe_stop_active that runs)
  qed simp
  show "safe d1 (bindT (askT (\<lambda>d. list_ex (\<lambda>r. r_source_message_id r = Some (m_message_id m)) (db_runs d))) (\<lambda>used.
     bindT (requireT (\<not> (m_sequence m \<le> (case r_input_message_sequence l of None \<Rightarrow> 0 | Some n \<Rightarrow> n) \<or> used))
              IdempotencyConflict) (\<lambda>_.
     bindT (askT (find_op (r_run_id l))) (\<lambda>op.
     bindT (set_incident iid (\<lambda>i. i\<lparr>i_event_revision := i_event_revision i + 1\<rparr>)) (\<lambda>_.
     bindT (if terminal (r_status l) then returnT () else stop_active snap t l op) (\<lambda>_.
     bindT (cancel_interactions iid t) (\<lambda>_.
     bindT (if cb_action b = SupplementAction then returnT () else supersede_pending iid) (\<lambda>_.
     insert_control (new_control H cid iid b snap m l op t)))))))))"
  proof (intro safe_ask safe_require, rule safe_bind)
    show "safe d1 (set_incident iid (\<lambda>i. i\<lparr>i_event_revision := i_event_revision i + 1\<rparr>))"
      by (rule safe_set_incident) (simp add: incident_evolves_def)
    fix u d2 assume "set_incident iid (\<lambda>i. i\<lparr>i_event_revision := i_event_revision i + 1\<rparr>) d1 = Inr (u, d2)"
    then have runs2: "db_runs d2 = db_runs d1"
      using set_incident_runs by blast
    have sup: "safe d3 (if cb_action b = SupplementAction then returnT () else supersede_pending iid)" for d3
      by (cases "cb_action b = SupplementAction") (simp_all add: safe_supersede_pending)
    show "safe d2 (bindT (if terminal (r_status l) then returnT () else stop_active snap t l (find_op (r_run_id l) d1)) (\<lambda>_.
     bindT (cancel_interactions iid t) (\<lambda>_.
     bindT (if cb_action b = SupplementAction then returnT () else supersede_pending iid) (\<lambda>_.
     insert_control (new_control H cid iid b snap m l (find_op (r_run_id l) d1) t)))))"
      by (intro safe_bind act [OF runs2] safe_cancel_interactions sup safe_insert_control)
  qed
qed

lemma storage_errors_Inr [txn_simps]: "storage_errors m d = Inr (x, e) \<longleftrightarrow> m d = Inr (x, e)"
  by (cases "m d") (auto simp: storage_errors_def catchE_def)

lemma safe_storage_errors: "safe d m \<Longrightarrow> safe d (storage_errors m)"
  by (simp add: safe_def txn_simps)

lemma newest_mem:
  assumes "(case rev xs of [] \<Rightarrow> None | r # _ \<Rightarrow> Some r) = Some l"
  shows "l \<in> set xs"
proof -
  have "l \<in> set (rev xs)"
    using assms by (cases "rev xs") simp_all
  then show ?thesis by simp
qed

lemma latest_diagnosis_mem:
  assumes "latest_diagnosis i d = Some l"
  shows "l \<in> set (db_runs d)" and "r_incident_id l = i" and "r_run_kind l = DiagnosisRun"
proof -
  have "l \<in> set (ordered_runs (filter (\<lambda>r. r_incident_id r = i \<and> r_run_kind r = DiagnosisRun) (db_runs d)))"
    using assms unfolding latest_diagnosis_def
    by (rule newest_mem)
  then show "l \<in> set (db_runs d)" and "r_incident_id l = i" and "r_run_kind l = DiagnosisRun"
    by (simp_all add: ordered_runs_def)
qed

lemma safe_control: "safe d (control H mid cid iid b expected snap t)"
  unfolding control_def
  by (intro safe_storage_errors safe_intros safe_apply_control) (simp_all add: latest_diagnosis_mem(1))

section \<open>Acceptance\<close>

lemma safe_insert_incident: "0 \<le> i_event_revision n \<Longrightarrow> safe d (insert_incident n)"
  unfolding safe_def
proof (intro allI impI)
  fix x e assume n: "0 \<le> i_event_revision n" and c: "consistent d" and "insert_incident n d = Inr (x, e)"
  then have ok: "incident_insertable n d" and e: "e = d\<lparr>db_incidents := db_incidents d @ [n]\<rparr>"
    by (simp_all add: insert_incident_def txn_simps)
  have "\<forall>i\<in>set (db_incidents d). i_incident_id i \<noteq> i_incident_id n"
    using ok by (simp add: incident_insertable_def list_all_iff)
  then have "distinct (map i_incident_id (db_incidents d @ [n]))"
    using c by (auto simp: consistent_def keys_unique_def)
  moreover have "revisions_bounded e"
    using c n by (auto simp: revisions_bounded_def consistent_def e)
  ultimately show "consistent e \<and> evolves d e"
    using c by (simp add: e consistent_def keys_unique_def evolves_def rows_evolve_refl rows_evolve_append)
qed

lemma one_active_append:
  assumes "one_active rs" and "\<forall>r\<in>set rs. \<not> (r_incident_id r = r_incident_id n \<and> r_run_kind r = r_run_kind n
           \<and> \<not> terminal (r_status r) \<and> \<not> terminal (r_status n))"
  shows "one_active (rs @ [n])"
  unfolding one_active_def
proof (intro ballI impI, elim conjE)
  fix r q
  assume m: "r \<in> set (rs @ [n])" "q \<in> set (rs @ [n])"
    and s: "r_incident_id r = r_incident_id q" "r_run_kind r = r_run_kind q"
    and a: "\<not> terminal (r_status r)" "\<not> terminal (r_status q)"
  show "r_run_id r = r_run_id q"
  proof (cases "r = n \<or> q = n")
    case True
    then have "r = q"
      using m s a assms(2) by (metis UnE empty_iff empty_set list.set_intros(1) set_ConsD set_append)
    then show ?thesis by simp
  next
    case False
    with m have "r \<in> set rs" "q \<in> set rs"
      by simp_all
    with s a show ?thesis
      using assms(1) unfolding one_active_def by blast
  qed
qed

lemma safe_insert_run:
  assumes "r_event_revision n \<le> 0"
  shows "safe d (insert_run n)"
  unfolding safe_def
proof (intro allI impI)
  fix x e assume c: "consistent d" and "insert_run n d = Inr (x, e)"
  then have ok: "run_insertable n d" and e: "e = d\<lparr>db_runs := db_runs d @ [n]\<rparr>"
    by (auto simp: insert_run_def txn_simps)
  have "one_active (db_runs d @ [n])"
    using c ok by (intro one_active_append) (auto simp: consistent_def run_insertable_def list_all_iff)
  moreover have "distinct (map r_run_id (db_runs d @ [n]))"
    using c ok by (auto simp: consistent_def keys_unique_def run_insertable_def list_all_iff)
  moreover have "revisions_bounded e"
    using c ok assms unfolding revisions_bounded_def consistent_def e run_insertable_def list_ex_iff
    by (auto intro: order_trans)
  ultimately show "consistent e \<and> evolves d e"
    using c by (simp add: e consistent_def keys_unique_def evolves_def rows_evolve_refl rows_evolve_append)
qed

lemma safe_accept_insert: "safe d (accept_insert H c a)"
proof -
  have fin: "safe e (if ac_dialogue a then
       (case selected_workflow c of Inl x \<Rightarrow> raiseT x
        | Inr w \<Rightarrow> (let f = (\<lambda>r. r\<lparr>r_workflow_version := w, r_context_snapshot := Some (JObj []),
                              r_context_sha256 := Some (request_digest H (JObj []))\<rparr>)
                    in bindT (set_run (ac_run_id a) f) (\<lambda>_. returnT (f row))))
     else returnT row)" for e row
    unfolding Let_def
    by (intro safe_intros safe_bind safe_set_run) (simp_all add: run_evolves_def run_identity_def lease_evolves_def)
  show ?thesis
    unfolding accept_insert_def
    by (intro safe_bind safe_insert_incident safe_insert_run fin)
      (simp_all add: accepted_incident_def accepted_run_def new_run_def Let_def)
qed

end
