(* ===== verification/DialogueSafety.thy ===== *)
theory DialogueSafety
  imports Dialogue StoreSafety
begin

text \<open>
  The methods of the dialogue keep the constraints of the store and evolve its rows. An answer is
  the one statement that moves a run to a later revision.
\<close>

lemma safe_lift [simp]: "safe d (liftT r)"
  by (cases r) (auto simp: safe_def liftT_def)

lemma safe_lift_bind: "(\<And>x. r = Inr x \<Longrightarrow> safe d (f x)) \<Longrightarrow> safe d (bindT (liftT r) f)"
  by (rule safe_after_pure) (auto simp: txn_simps)

lemma safe_catch: "safe d m \<Longrightarrow> (\<And>e. h e = Inl x) \<Longrightarrow> safe d (\<lambda>d. catchE (m d) p h)"
  by (auto simp: safe_def catchE_def split: sum.splits if_splits)

lemma insert_message_rows: "insert_message m d = Inr (x, e) \<Longrightarrow> same_rows d e"
  by (auto simp: insert_message_def same_rows_def txn_simps)

lemma safe_insert_message: "safe d (insert_message m)"
  by (rule same_rows_safe) (rule insert_message_rows)

lemma safe_append_message: "safe d (append_message mid iid m t)"
  unfolding append_message_def
  by (rule safe_catch) (intro safe_intros safe_bind safe_insert_message, simp)

lemma incident_inj:
  "consistent d \<Longrightarrow> i \<in> set (db_incidents d) \<Longrightarrow> j \<in> set (db_incidents d) \<Longrightarrow> i_incident_id i = i_incident_id j \<Longrightarrow> i = j"
  by (simp add: consistent_def keys_unique_def distinct_map inj_on_def)

section \<open>Rounds\<close>

definition revision_current :: "run_row \<Rightarrow> db \<Rightarrow> bool" where
  "revision_current n d = (\<forall>i\<in>set (db_incidents d). i_incident_id i = r_incident_id n \<longrightarrow> r_event_revision n \<le> i_event_revision i)"

lemma safe_insert_run_at:
  assumes rev: "revision_current n d"
  shows "safe d (insert_run n)"
  unfolding safe_def
proof (intro allI impI)
  fix x e assume c: "consistent d" and "insert_run n d = Inr (x, e)"
  then have ok: "run_insertable n d" and e: "e = d\<lparr>db_runs := db_runs d @ [n]\<rparr>"
    by (auto simp: insert_run_def txn_simps)
  have "one_active (db_runs d @ [n])"
    using c ok by (intro one_active_append) (auto simp: consistent_def run_insertable_def list_all_iff)
  moreover have "distinct (map r_run_id (db_runs d @ [n]))"
    using c ok by (auto simp: consistent_def keys_unique_def run_insertable_def list_all_iff)
  moreover obtain i where "i \<in> set (db_incidents d)" "i_incident_id i = r_incident_id n" "r_event_revision n \<le> i_event_revision i"
    using ok rev by (auto simp: run_insertable_def list_ex_iff revision_current_def)
  then have "revisions_bounded e"
    using c by (auto simp: revisions_bounded_def consistent_def e)
  ultimately show "consistent e \<and> evolves d e"
    using c by (simp add: e consistent_def keys_unique_def evolves_def rows_evolve_refl rows_evolve_append)
qed

lemma revision_current_zero: "consistent d \<Longrightarrow> r_event_revision n \<le> 0 \<Longrightarrow> revision_current n d"
  by (auto simp: revision_current_def consistent_def revisions_bounded_def)

lemma round_run_simps [simp]:
  "r_event_revision (round_run H inc m key l cx w ids) = i_event_revision inc"
  "r_incident_id (round_run H inc m key l cx w ids) = i_incident_id inc"
  by (simp_all add: round_run_def Let_def new_run_def)

lemma round_run_current:
  assumes "consistent d" and "find_incident iid d = Some inc"
  shows "revision_current (round_run H inc m key l cx w ids) d"
proof -
  have inc: "inc \<in> set (db_incidents d)"
    using assms(2) unfolding find_incident_def by (blast dest: find_mem)
  then have "i = inc" if "i \<in> set (db_incidents d)" "i_incident_id i = i_incident_id inc" for i
    using incident_inj [OF assms(1) that(1) _ that(2)] by blast
  then show ?thesis
    by (auto simp: revision_current_def)
qed

lemma output_frozen_evolves: "run_evolves r (r\<lparr>r_output_snapshot := x\<rparr>)"
  by (simp add: run_evolves_def run_identity_def lease_evolves_def)

lemma safe_if_consistent: "(consistent d \<Longrightarrow> safe d m) \<Longrightarrow> safe d m"
  by (auto simp: safe_def)

lemma safe_open_round:
  assumes "find_incident iid d = Some inc"
  shows "safe d (open_round H cx c ids inc mid key previous l)"
proof (rule safe_if_consistent)
  assume con: "consistent d"
  show ?thesis
    unfolding open_round_def Let_def
    by (intro safe_intros safe_lift_bind safe_bind safe_insert_run_at round_run_current [OF con assms]
        safe_set_run output_frozen_evolves safe_phase)
qed

lemma safe_accept_round: "safe d (accept_round H cx c ids iid mid key parent previous)"
  unfolding accept_round_def
  by (intro safe_lift_bind safe_storage_errors safe_intros safe_lift safe_open_round)

section \<open>Interactions\<close>

lemma safe_interaction_open: "safe d (interaction_open b inc l refs)"
  unfolding interaction_open_def by (intro safe_intros safe_lift_bind)

lemma safe_interaction_message: "safe d (interaction_message mid iid b t)"
  unfolding interaction_message_def by (intro safe_intros safe_message)

lemma safe_interaction_run: "safe d (insert_run (interaction_run H iid b parent context ids))"
  by (rule safe_insert_run) (simp add: interaction_run_def Let_def new_run_def)

lemma safe_accept_interaction: "safe d (accept_interaction H mid ids iid b parent refs)"
  unfolding accept_interaction_def
  by (intro safe_storage_errors safe_intros safe_lift safe_bind safe_interaction_open safe_interaction_message
      safe_interaction_run)

lemma safe_save_progress: "safe d (save_progress t0 t1 l p)"
  unfolding save_progress_def
  by (rule safe_fence, erule safe_leased_update) (simp add: run_evolves_def run_identity_def lease_evolves_def)

lemma safe_save_recheck: "safe d (save_recheck t0 t1 l hid result)"
proof -
  have "safe d (bindT (askT (saved_recheck l)) (\<lambda>old. if old \<noteq> None then returnT () else
      bindT (askT (\<lambda>d. list_all (\<lambda>h. h_recheck_id h \<noteq> hid) (db_rechecks d))) (\<lambda>ok.
      bindT (requireT ok StorageError) (\<lambda>_.
      modifyT (\<lambda>d. d\<lparr>db_rechecks := db_rechecks d @ [\<lparr>h_recheck_id = hid, h_incident_id = r_incident_id (le_run l),
        h_result = result, h_run_id = Some (r_run_id (le_run l))\<rparr>]\<rparr>)))))" for d
    by (intro safe_intros, rule same_rows_safe) (auto simp: same_rows_def txn_simps)
  then show ?thesis
    unfolding save_recheck_def by (intro safe_fence)
qed

lemma released_evolves: "\<not> terminal (r_status r) \<Longrightarrow> run_evolves r (released t r)"
  by (simp add: released_def run_evolves_def run_identity_def lease_evolves_def)

lemma safe_child_round: "safe d (child_round H cx c ids r output)"
  unfolding child_round_def by (intro safe_intros safe_lift_bind safe_bind safe_accept_round)

lemma safe_reply: "safe d (assistant_reply mid r text refs t)"
  unfolding assistant_reply_def by (intro safe_intros safe_bind safe_append_message)

lemma safe_complete: "safe d (complete H cx c ids mid t0 t1 l output assistant investigate)"
  unfolding complete_def Let_def
proof (rule safe_fence, rule safe_bind)
  assume "list_ex (owns t1 l) (db_runs d)"
  then show "safe d (set_run (r_run_id (le_run l)) (released t1))"
    by (rule safe_leased_update) (rule released_evolves)
next
  fix u d1
  have "safe d (case assistant of None \<Rightarrow> returnT ()
             | Some (text, refs) \<Rightarrow> if text = [] then returnT () else assistant_reply mid (le_run l) text refs t1)" for d
    by (cases assistant) (auto intro: safe_intros safe_reply)
  then show "safe d1 (bindT (if investigate then child_round H cx c ids (le_run l) output else returnT output) (\<lambda>out.
      bindT (case assistant of None \<Rightarrow> returnT ()
             | Some (text, refs) \<Rightarrow> if text = [] then returnT () else assistant_reply mid (le_run l) text refs t1) (\<lambda>_.
      set_run (r_run_id (le_run l)) (\<lambda>q. q\<lparr>r_output_snapshot := Some (JObj out)\<rparr>))))"
    by (intro safe_bind safe_if safe_pure safe_child_round safe_set_run output_frozen_evolves)
qed

section \<open>Answers\<close>

text \<open>
  The two statements of an answer together: the incident's revision grows by one, and the waiting,
  unstopped run moves to it.
\<close>

lemma answered_follows:
  assumes "\<not> terminal (r_status r)" and "\<not> r_stop_requested r" and "r_event_revision r \<le> n"
  shows "run_follows r (answered a n t r)"
  using assms by (simp add: run_follows_def run_identity_def lease_evolves_def answered_def)

lemma answered_simps [simp]:
  "r_run_id (answered a n t r) = r_run_id r" "r_incident_id (answered a n t r) = r_incident_id r"
  "r_run_kind (answered a n t r) = r_run_kind r" "r_event_revision (answered a n t r) = n"
  "r_status (answered a n t r) = Queued"
  by (simp_all add: answered_def)

lemma safe_answered:
  assumes row: "row \<in> set (db_runs d)" "\<not> terminal (r_status row)" "\<not> r_stop_requested row"
    and inc: "inc \<in> set (db_incidents d)" "i_incident_id inc = r_incident_id row" "n = i_event_revision inc"
  shows "safe d (set_run (r_run_id row) (answered a n t))"
  unfolding safe_def
proof (intro allI impI)
  let ?f = "answered a n t" and ?p = "\<lambda>r. r_run_id r = r_run_id row"
  let ?rs = "update_where ?p ?f (db_runs d)"
  fix x e assume c: "consistent d" and "set_run (r_run_id row) ?f d = Inr (x, e)"
  then have e: "e = d\<lparr>db_runs := ?rs\<rparr>"
    by (simp add: set_run_def txn_simps)
  have only: "r = row" if "r \<in> set (db_runs d)" "?p r" for r
    using run_id_inj [OF c that(1) row(1) that(2)] .
  have bound: "r_event_revision row \<le> n"
  proof -
    from c row(1) obtain i where i: "i \<in> set (db_incidents d)" "i_incident_id i = r_incident_id row" "r_event_revision row \<le> i_event_revision i"
      by (auto simp: consistent_def revisions_bounded_def)
    have "i = inc"
      by (rule incident_inj [OF c i(1) inc(1)]) (simp only: i(2) inc(2))
    with i(3) inc(3) show ?thesis by simp
  qed
  have fol: "run_follows r (?f r)" if "r \<in> set (db_runs d)" "?p r" for r
    using only [OF that] row(2,3) bound by (simp add: answered_follows)
  have mem: "\<exists>r\<in>set (db_runs d). q = (if ?p r then ?f r else r)" if "q \<in> set ?rs" for q
    using that by (simp add: update_where_set)
  have keep: "r_run_id q = r_run_id r \<and> r_incident_id q = r_incident_id r \<and> r_run_kind q = r_run_kind r
      \<and> (\<not> terminal (r_status q) \<longrightarrow> \<not> terminal (r_status r))"
    if "r \<in> set (db_runs d)" "q = (if ?p r then ?f r else r)" for q r
    using that only row(2) by (cases "?p r") auto
  have "one_active ?rs"
    unfolding one_active_def
  proof (intro ballI impI, elim conjE)
    fix p q assume p: "p \<in> set ?rs" and q: "q \<in> set ?rs"
      and s: "r_incident_id p = r_incident_id q" "r_run_kind p = r_run_kind q"
      and a: "\<not> terminal (r_status p)" "\<not> terminal (r_status q)"
    from mem [OF p] obtain p0 where p0: "p0 \<in> set (db_runs d)" "p = (if ?p p0 then ?f p0 else p0)" by blast
    from mem [OF q] obtain q0 where q0: "q0 \<in> set (db_runs d)" "q = (if ?p q0 then ?f q0 else q0)" by blast
    note k = keep [OF p0] keep [OF q0]
    have "r_run_id p0 = r_run_id q0"
    proof -
      have "r_incident_id p0 = r_incident_id q0" "r_run_kind p0 = r_run_kind q0"
          "\<not> terminal (r_status p0)" "\<not> terminal (r_status q0)"
        using k s a by metis+
      then show ?thesis
        using c p0(1) q0(1) unfolding consistent_def one_active_def by blast
    qed
    with k show "r_run_id p = r_run_id q" by metis
  qed
  moreover have "map r_run_id ?rs = map r_run_id (db_runs d)"
    by (rule map_update_where) simp
  moreover have "revisions_bounded e"
    unfolding revisions_bounded_def
  proof (intro conjI ballI)
    show "0 \<le> i_event_revision i" if "i \<in> set (db_incidents e)" for i
      using c that by (simp add: e consistent_def revisions_bounded_def)
    fix q assume "q \<in> set (db_runs e)"
    then have "q \<in> set ?rs"
      by (simp add: e)
    from mem [OF this] obtain r where r: "r \<in> set (db_runs d)" "q = (if ?p r then ?f r else r)" by blast
    show "\<exists>i\<in>set (db_incidents e). i_incident_id i = r_incident_id q \<and> r_event_revision q \<le> i_event_revision i"
    proof (cases "?p r")
      case True
      then have "r = row" "q = ?f row"
        using only [OF r(1)] r(2) by simp_all
      then show ?thesis
        using inc by (intro bexI [of _ inc]) (simp_all add: e)
    next
      case False
      then have "q = r"
        using r(2) by simp
      then show ?thesis
        using c r(1) by (simp add: e consistent_def revisions_bounded_def)
    qed
  qed
  moreover have "rows_evolve run_follows (db_runs d) ?rs"
    by (rule rows_evolve_update) (simp_all add: fol)
  ultimately show "consistent e \<and> evolves d e"
    using c by (simp add: e consistent_def keys_unique_def evolves_def rows_evolve_refl)
qed

lemma answer_fits_active: "answer_fits row b = Inr u \<Longrightarrow> \<not> terminal (r_status row) \<and> \<not> r_stop_requested row"
  by (auto simp: answer_fits_def Let_def res_simps terminal_def)

lemma get_round_mem: "get_round iid rid d = Inr row \<Longrightarrow> row \<in> set (db_runs d) \<and> r_incident_id row = iid \<and> r_run_id row = rid"
  unfolding get_round_def by (auto split: option.splits simp: find_Some_iff)

lemma set_incident_find:
  assumes "set_incident iid f d = Inr (u, e)" and "find_incident iid d = Some i" and "\<And>i. i_incident_id (f i) = i_incident_id i"
  shows "find_incident iid e = Some (f i)"
proof -
  have "i_incident_id i = iid"
    using assms(2) unfolding find_incident_def by (blast dest: find_mem)
  moreover have "db_incidents e = update_where (\<lambda>r. i_incident_id r = iid) f (db_incidents d)"
    using assms(1) by (auto simp: set_incident_def txn_simps)
  moreover have "find (\<lambda>r. i_incident_id r = iid) (update_where (\<lambda>r. i_incident_id r = iid) f (db_incidents d))
      = map_option (\<lambda>r. if i_incident_id r = iid then f r else r) (find (\<lambda>r. i_incident_id r = iid) (db_incidents d))"
    by (rule find_update_where) (simp add: assms(3))
  ultimately show ?thesis
    using assms(2) by (simp add: find_incident_def)
qed

lemma safe_bump: "safe d (set_incident iid (\<lambda>i. i\<lparr>i_event_revision := i_event_revision i + 1\<rparr>))"
  by (rule safe_set_incident) (simp add: incident_evolves_def)

lemma safe_give_answer:
  assumes row: "row \<in> set (db_runs d)" "r_incident_id row = iid" and inc: "find_incident iid d = Some inc"
  shows "safe d (give_answer H J isofmt mid cid iid b t row)"
  unfolding give_answer_def
proof (rule safe_lift_bind, rule safe_bind [OF safe_message])
  fix u m d1
  assume fits: "answer_fits row b = Inr u"
    and d1: "message_in_transaction mid iid (ab_key b) (ab_content b @ [CHR 0x0A] @
        J (JObj ([(''answers'', answers_json b), (''skip'', JBool (ab_skip b))] @ changed_field b))) t d = Inr (m, d1)"
  note same = message_in_transaction_rows [OF d1]
  let ?bump = "\<lambda>i. i\<lparr>i_event_revision := i_event_revision i + 1\<rparr>"
  show "safe d1 (bindT (set_incident iid ?bump) (\<lambda>_.
     bindT (askT (\<lambda>d. case find_incident iid d of None \<Rightarrow> 0 | Some i \<Rightarrow> i_event_revision i)) (\<lambda>newrev.
     bindT (liftT (answer_record isofmt row b m)) (\<lambda>a.
     bindT (set_run (r_run_id row) (answered a newrev t)) (\<lambda>_.
     insert_control (answer_control H cid iid (r_run_id row) b m row t))))))"
  proof (rule safe_bind [OF safe_bump])
    fix v d2 assume d2: "set_incident iid ?bump d1 = Inr (v, d2)"
    have "find_incident iid d1 = Some inc"
      using inc same by (simp add: find_incident_def same_rows_def)
    then have i2: "find_incident iid d2 = Some (?bump inc)"
      by (intro set_incident_find [OF d2]) simp_all
    have r2: "row \<in> set (db_runs d2)"
      using row(1) same set_incident_runs [OF d2] by (simp add: same_rows_def)
    have act: "\<not> terminal (r_status row)" "\<not> r_stop_requested row"
      using answer_fits_active [OF fits] by simp_all
    have m2: "?bump inc \<in> set (db_incidents d2)" "i_incident_id (?bump inc) = r_incident_id row"
      using i2 row(2) unfolding find_incident_def by (blast dest: find_mem)+
    have "safe d2 (set_run (r_run_id row) (answered a (i_event_revision (?bump inc)) t))" for a
      by (rule safe_answered [OF r2 act m2 refl])
    then show "safe d2 (bindT (askT (\<lambda>d. case find_incident iid d of None \<Rightarrow> 0 | Some i \<Rightarrow> i_event_revision i)) (\<lambda>newrev.
     bindT (liftT (answer_record isofmt row b m)) (\<lambda>a.
     bindT (set_run (r_run_id row) (answered a newrev t)) (\<lambda>_.
     insert_control (answer_control H cid iid (r_run_id row) b m row t)))))"
      by (intro safe_ask safe_lift_bind safe_bind safe_insert_control) (simp add: i2)
  qed
qed

lemma safe_answer: "safe d (answer H J isofmt mid cid iid rid b t)"
proof -
  have g: "safe d (give_answer H J isofmt mid cid iid b t row)"
    if "find_incident iid d \<noteq> None" "get_round iid rid d = Inr row" for row
  proof -
    from that(1) obtain inc where "find_incident iid d = Some inc" by auto
    with get_round_mem [OF that(2)] show ?thesis
      by (auto intro: safe_give_answer)
  qed
  show ?thesis
    unfolding answer_def by (intro safe_storage_errors safe_intros g)
qed

section \<open>Pending re-investigations\<close>

lemma safe_set_control: "safe d (set_control cid f)"
  by (rule same_rows_safe) (auto simp: set_control_def same_rows_def txn_simps)

lemma safe_activate_one: "safe d (activate_one H cx c ids cid)"
  unfolding activate_one_def start_pending_def Let_def
  by (intro safe_storage_errors safe_intros safe_bind safe_set_control safe_accept_round)

lemma safe_activate_each:
  assumes "consistent d" and "activate_each H cx c ks d = (x, e)"
  shows "consistent e \<and> evolves d e"
  using assms
proof (induction H cx c ks d rule: activate_each.induct)
  case (2 H cx c cid ids ks d)
  show ?case
  proof (cases "activate_one H cx c ids cid d")
    case (Inl a)
    with 2 show ?thesis by simp
  next
    case (Inr y)
    obtain u d' where y: "y = (u, d')"
      by (cases y)
    have d': "consistent d'" "evolves d d'"
      using safeD [OF safe_activate_one "2.prems"(1) Inr [unfolded y]] by simp_all
    have "activate_each H cx c ks d' = (x, e)"
      using "2.prems"(2) by (simp add: Inr y)
    with "2.IH" [OF Inr y [symmetric] d'(1)] d'(2) show ?thesis
      by (blast intro: evolves_trans)
  qed
qed simp

end
