(* ===== verification/DelayedRechecks.thy ===== *)
theory DelayedRechecks
  imports DialogueSafety
begin

text \<open>
  \<open>backend/app/persistence/observations.py\<close> and \<open>delayed_rechecks.py\<close>: the window of one
  automatic verification, owned by a token, and the later recheck a passed window schedules. A due
  recheck is dropped when its basis changed or it expired, and otherwise opens an interaction run.
\<close>

section \<open>Observation windows\<close>

definition find_window :: "string \<Rightarrow> db \<Rightarrow> window_row option" where
  "find_window key d = find (\<lambda>w. w_key w = key) (db_windows d)"

record window_store =
  ws_key :: string
  ws_incident_id :: string
  ws_lease :: "lease option"
  ws_token :: string

text \<open>\<open>ObservationStore.transaction\<close>: fenced by the lease where there is one.\<close>

definition window_txn :: "window_store \<Rightarrow> int \<Rightarrow> int \<Rightarrow> 'a txn \<Rightarrow> 'a txn" where
  "window_txn ws t0 t1 body = (case ws_lease ws of None \<Rightarrow> body | Some l \<Rightarrow> fence t0 t1 l body)"

definition open_window :: "window_store \<Rightarrow> int \<Rightarrow> int \<Rightarrow> json \<Rightarrow> json txn" where
  "open_window ws t0 t1 initial = window_txn ws t0 t1
     (bindT (askT (find_window (ws_key ws))) (\<lambda>old.
      bindT (if old \<noteq> None then returnT () else modifyT (\<lambda>d. d\<lparr>db_windows := db_windows d @
         [\<lparr>w_key = ws_key ws, w_incident_id = ws_incident_id ws,
           w_run_id = map_option (\<lambda>l. r_run_id (le_run l)) (ws_lease ws), w_owner_token = ws_token ws, w_payload = initial\<rparr>]\<rparr>)) (\<lambda>_.
      bindT (modifyT (\<lambda>d. d\<lparr>db_windows := update_where (\<lambda>w. w_key w = ws_key ws)
         (\<lambda>w. w\<lparr>w_owner_token := ws_token ws\<rparr>) (db_windows d)\<rparr>)) (\<lambda>_.
      bindT (askT (find_window (ws_key ws))) (\<lambda>w. case w of None \<Rightarrow> raiseT TypeError | Some w \<Rightarrow> returnT (w_payload w))))))"

section \<open>Scheduling\<close>

definition seconds :: "int \<Rightarrow> int" where
  "seconds n = n * 1000000"

definition latest_diagnosis_id :: "string \<Rightarrow> db \<Rightarrow> string option" where
  "latest_diagnosis_id iid d = map_option r_run_id (latest_diagnosis iid d)"

definition schedulable :: "dict \<Rightarrow> bool" where
  "schedulable w = (dget w ''status'' = JStr ''passed'' \<and> truthy (dget w ''target'') \<and> truthy (dget w ''finished_at''))"

definition recheck_snapshot :: "string \<Rightarrow> incident_row \<Rightarrow> dict \<Rightarrow> json" where
  "recheck_snapshot iid inc result = JObj [(''incident_id'', JStr iid), (''phase'', JStr ''verification_succeeded''),
     (''request'', JObj [(''namespace'', JStr (i_namespace inc)), (''service_name'', JStr (i_service_name inc)),
        (''description'', JStr (i_description inc))]),
     (''service_profile'', or_else (dget result ''service_profile'') (or_else (dget result ''post_repair_profile'') (JObj [])))]"

definition initial_result :: "dict \<Rightarrow> json res" where
  "initial_result w = bindE (jindex (JObj w) ''consecutive'') (\<lambda>n. bindE (jindex (JObj w) ''policy'') (\<lambda>p.
     Inr (JObj [(''status'', JStr ''passed''), (''finished_at'', dget w ''finished_at''), (''consecutive'', n), (''policy'', p)])))"

definition policy_version :: "dict \<Rightarrow> string res" where
  "policy_version w = bindE (jindex (JObj w) ''policy'') (\<lambda>p. bindE (jindex p ''version'') (\<lambda>v.
     case v of JStr s \<Rightarrow> Inr s | _ \<Rightarrow> Inl StorageError))"

definition last_result :: "dict \<Rightarrow> dict res" where
  "last_result w = bindE (jindex (JObj w) ''last_result'') (\<lambda>v. case or_else v (JObj []) of JObj x \<Rightarrow> Inr x | _ \<Rightarrow> Inl AttributeError)"

definition new_delayed ::
  "string \<Rightarrow> string \<Rightarrow> string \<Rightarrow> incident_row \<Rightarrow> lease option \<Rightarrow> dict \<Rightarrow> json \<Rightarrow> json \<Rightarrow> int \<Rightarrow> db \<Rightarrow> delayed_row" where
  "new_delayed did key ver inc l w snap initial t d = \<lparr>
     d_sequence = foldr max (map d_sequence (db_delayed d)) 0 + 1, d_delayed_id = did, d_observation_key = key,
     d_policy_version = ver, d_incident_id = i_incident_id inc,
     d_source_run_id = map_option (\<lambda>l. r_run_id (le_run l)) l,
     d_basis_run_id = latest_diagnosis_id (i_incident_id inc) d, d_event_revision = i_event_revision inc,
     d_target = dget w ''target'', d_snapshot = snap, d_initial_result = initial, d_status = DelayedPending,
     d_due_at = t + seconds 30, d_expires_at = t + seconds 330, d_next_attempt_at = t + seconds 30,
     d_run_id = None, d_result = None, d_reason = None, d_finished_at = None\<rparr>"

definition schedule :: "string \<Rightarrow> string \<Rightarrow> string \<Rightarrow> lease option \<Rightarrow> dict \<Rightarrow> int \<Rightarrow> unit txn" where
  "schedule did key iid l w t =
     (if \<not> schedulable w then returnT () else
      bindT (askT (find_incident iid)) (\<lambda>i.
      bindT (liftT (last_result w)) (\<lambda>result. case i of None \<Rightarrow> raiseT TypeError
      | Some inc \<Rightarrow>
        bindT (liftT (initial_result w)) (\<lambda>initial.
        bindT (liftT (policy_version w)) (\<lambda>ver.
        modifyT (\<lambda>d. if list_ex (\<lambda>x. d_observation_key x = key \<and> d_policy_version x = ver) (db_delayed d) then d
          else d\<lparr>db_delayed := db_delayed d @ [new_delayed did key ver inc l w (recheck_snapshot iid inc result) initial t d]\<rparr>))))))"

definition save_window :: "window_store \<Rightarrow> string \<Rightarrow> int \<Rightarrow> int \<Rightarrow> dict \<Rightarrow> unit txn" where
  "save_window ws did t0 t1 payload = window_txn ws t0 t1
     (bindT (askT (\<lambda>d. list_ex (\<lambda>w. w_key w = ws_key ws \<and> w_owner_token w = ws_token ws) (db_windows d))) (\<lambda>owned.
      bindT (requireT owned (LeaseLost ''observation ownership changed'')) (\<lambda>_.
      bindT (modifyT (\<lambda>d. d\<lparr>db_windows := update_where (\<lambda>w. w_key w = ws_key ws \<and> w_owner_token w = ws_token ws)
         (\<lambda>w. w\<lparr>w_payload := JObj payload\<rparr>) (db_windows d)\<rparr>)) (\<lambda>_.
      if dget payload ''status'' = JStr ''passed''
      then schedule did (ws_key ws) (ws_incident_id ws) (ws_lease ws) payload t1 else returnT ()))))"

section \<open>Activation\<close>

definition stale :: "delayed_row \<Rightarrow> incident_row \<Rightarrow> db \<Rightarrow> bool" where
  "stale x inc d = (i_event_revision inc \<noteq> d_event_revision x
     \<or> latest_diagnosis_id (d_incident_id x) d \<noteq> d_basis_run_id x
     \<or> (case d_source_run_id x of None \<Rightarrow> False
        | Some rid \<Rightarrow> (case find_run rid d of None \<Rightarrow> False
            | Some s \<Rightarrow> r_invalidated_at s \<noteq> None \<or> r_status s = RunCancelled)))"

definition set_delayed :: "string \<Rightarrow> (delayed_row \<Rightarrow> delayed_row) \<Rightarrow> unit txn" where
  "set_delayed did f = modifyT (\<lambda>d. d\<lparr>db_delayed := update_where (\<lambda>x. d_delayed_id x = did) f (db_delayed d)\<rparr>)"

definition delayed_terminal :: "delayed_row \<Rightarrow> delayed_status \<Rightarrow> string \<Rightarrow> json option \<Rightarrow> int \<Rightarrow> unit txn" where
  "delayed_terminal x st reason result t = set_delayed (d_delayed_id x) (\<lambda>x. x\<lparr>d_status := st, d_reason := Some reason,
     d_result := (case result of None \<Rightarrow> None | Some v \<Rightarrow> if truthy v then Some v else None), d_finished_at := Some t\<rparr>)"

definition due_delayed :: "int \<Rightarrow> db \<Rightarrow> string list" where
  "due_delayed t d = map d_delayed_id (take 20 (sort_key d_next_attempt_at (sort_key d_sequence
     (filter (\<lambda>x. d_status x \<in> {DelayedPending, DelayedRunning} \<and> d_next_attempt_at x \<le> t) (db_delayed d)))))"

definition dropped_run :: "int \<Rightarrow> run_row \<Rightarrow> run_row" where
  "dropped_run t r = r\<lparr>r_status := RunCancelled, r_finished_at := Some t, r_lease_owner := None, r_lease_expires_at := None\<rparr>"

definition drop_delayed :: "delayed_row \<Rightarrow> bool \<Rightarrow> int \<Rightarrow> unit txn" where
  "drop_delayed x bad t =
     bindT (delayed_terminal x (if bad then Invalidated else Expired)
        (if bad then ''BASIS_CHANGED'' else ''DELAYED_RECHECK_EXPIRED'') None t) (\<lambda>_.
     case d_run_id x of None \<Rightarrow> returnT ()
     | Some rid \<Rightarrow> modifyT (\<lambda>d. d\<lparr>db_runs := update_where (\<lambda>r. r_run_id r = rid \<and> \<not> terminal (r_status r))
         (dropped_run t) (db_runs d)\<rparr>))"

definition watch_delayed :: "delayed_row \<Rightarrow> int \<Rightarrow> unit txn" where
  "watch_delayed x t = (case d_run_id x of None \<Rightarrow> raiseT TypeError
     | Some rid \<Rightarrow> bindT (askT (find_run rid)) (\<lambda>r. case r of None \<Rightarrow> raiseT TypeError
         | Some run \<Rightarrow> if terminal (r_status run)
             then delayed_terminal x DelayedUnknown ''DELAYED_TASK_ENDED_WITHOUT_RESULT'' None t
             else set_delayed (d_delayed_id x) (\<lambda>x. x\<lparr>d_next_attempt_at := t + seconds 5\<rparr>)))"

definition event_busy :: "incident_row \<Rightarrow> db \<Rightarrow> bool" where
  "event_busy inc d = (list_ex (\<lambda>r. r_incident_id r = i_incident_id inc \<and> \<not> terminal (r_status r)) (db_runs d)
     \<or> unsettled_in (i_incident_id inc) d
     \<or> i_phase inc \<in> {''created'', ''awaiting_approval'', ''executing_remediation''})"

definition delayed_run :: "(json \<Rightarrow> string) \<Rightarrow> delayed_row \<Rightarrow> incident_row \<Rightarrow> round_ids \<Rightarrow> run_row" where
  "delayed_run H x inc ids =
     (let payload = JObj [(''intent'', JStr ''delayed_recheck''), (''delayed_id'', JStr (d_delayed_id x))];
          context = JObj [(''message_id'', JNull), (''snapshot'', d_snapshot x)]
      in (new_run (ro_run_id ids) (i_incident_id inc) (ro_thread_id ids) InteractionRun payload (request_digest H payload) (ro_time ids))
        \<lparr>r_workflow_version := ''delayed-recheck-v1'', r_context_snapshot := Some context,
         r_context_sha256 := Some (request_digest H context), r_event_revision := i_event_revision inc\<rparr>)"

definition launch_delayed :: "(json \<Rightarrow> string) \<Rightarrow> delayed_row \<Rightarrow> incident_row \<Rightarrow> round_ids \<Rightarrow> unit txn" where
  "launch_delayed H x inc ids = (let t = ro_time ids in
     bindT (askT (event_busy inc)) (\<lambda>busy.
     if busy then set_delayed (d_delayed_id x) (\<lambda>x. x\<lparr>d_reason := Some ''EVENT_BUSY'', d_next_attempt_at := t + seconds 5\<rparr>)
     else bindT (insert_run (delayed_run H x inc ids)) (\<lambda>row.
       set_delayed (d_delayed_id x) (\<lambda>x. x\<lparr>d_status := DelayedRunning, d_run_id := Some (r_run_id row), d_reason := None,
         d_next_attempt_at := t + seconds 5\<rparr>))))"

text \<open>One iteration of \<open>activate_due\<close>.\<close>

definition activate_due_one :: "(json \<Rightarrow> string) \<Rightarrow> round_ids \<Rightarrow> string \<Rightarrow> unit txn" where
  "activate_due_one H ids did = (let t = ro_time ids in
     bindT (askT (\<lambda>d. find (\<lambda>x. d_delayed_id x = did) (db_delayed d))) (\<lambda>found. case found of None \<Rightarrow> raiseT TypeError
     | Some x \<Rightarrow>
        bindT (askT (find_incident (d_incident_id x))) (\<lambda>i. case i of None \<Rightarrow> raiseT TypeError
        | Some inc \<Rightarrow>
           if d_status x \<notin> {DelayedPending, DelayedRunning} then returnT () else
           bindT (askT (stale x inc)) (\<lambda>bad.
           if bad \<or> d_expires_at x \<le> t then drop_delayed x bad t
           else if d_status x = DelayedRunning then watch_delayed x t
           else launch_delayed H x inc ids))))"

fun activate_due :: "(json \<Rightarrow> string) \<Rightarrow> (string \<times> round_ids) list \<Rightarrow> db \<Rightarrow> exn option \<times> db" where
  "activate_due H [] d = (None, d)"
| "activate_due H ((did, ids) # xs) d = (case activate_due_one H ids did d of
     Inl e \<Rightarrow> (Some e, d) | Inr (_, d') \<Rightarrow> activate_due H xs d')"

section \<open>Safety for the store\<close>

lemma safe_modify_rows: "(\<And>d. same_rows d (f d)) \<Longrightarrow> safe d (modifyT f)"
  by (rule same_rows_safe) (auto simp: txn_simps)

lemma safe_window_txn: "(\<And>d. safe d body) \<Longrightarrow> safe d (window_txn ws t0 t1 body)"
  unfolding window_txn_def by (intro safe_option safe_fence)

lemma safe_open_window: "safe d (open_window ws t0 t1 initial)"
  unfolding open_window_def
  by (intro safe_window_txn safe_intros safe_bind safe_modify_rows) (simp_all add: same_rows_def)

lemma safe_schedule: "safe d (schedule did key iid l w t)"
  unfolding schedule_def
  by (intro safe_intros safe_lift_bind safe_modify_rows) (simp add: same_rows_def)

lemma safe_save_window: "safe d (save_window ws did t0 t1 payload)"
  unfolding save_window_def
  by (intro safe_window_txn safe_intros safe_bind safe_modify_rows safe_schedule) (simp_all add: same_rows_def)

lemma safe_set_delayed: "safe d (set_delayed did f)"
  unfolding set_delayed_def by (rule safe_modify_rows) (simp add: same_rows_def)

lemma dropped_run_evolves: "\<not> terminal (r_status r) \<Longrightarrow> run_evolves r (dropped_run t r)"
  by (simp add: dropped_run_def run_evolves_def run_identity_def lease_evolves_def)

lemma safe_drop_delayed: "safe d (drop_delayed x bad t)"
  unfolding drop_delayed_def delayed_terminal_def
  by (intro safe_bind safe_set_delayed safe_option safe_pure safe_update_runs dropped_run_evolves) simp

lemma safe_watch_delayed: "safe d (watch_delayed x t)"
  unfolding watch_delayed_def delayed_terminal_def by (intro safe_intros safe_set_delayed)

lemma safe_launch_delayed:
  assumes "find_incident iid d = Some inc"
  shows "safe d (launch_delayed H x inc ids)"
proof (rule safe_if_consistent)
  assume con: "consistent d"
  have inc: "inc \<in> set (db_incidents d)"
    using assms unfolding find_incident_def by (blast dest: find_mem)
  have "revision_current (delayed_run H x inc ids) d"
    using incident_inj [OF con _ inc]
    by (auto simp: revision_current_def delayed_run_def Let_def new_run_def)
  then show ?thesis
    unfolding launch_delayed_def Let_def
    by (intro safe_intros safe_bind safe_set_delayed safe_insert_run_at)
qed

lemma safe_activate_due_one: "safe d (activate_due_one H ids did)"
  unfolding activate_due_one_def Let_def
  by (intro safe_intros safe_drop_delayed safe_watch_delayed) (rule safe_launch_delayed)

end
