(* ===== verification/System.thy ===== *)
theory System
  imports DelayedRechecks
begin

text \<open>
  The runtime as a whole: the API, the workers and the users call methods of the repositories in
  any order, each call one transaction, with the clock of the database never going back. A
  crashed worker is one whose calls stop. Two ghost fields record what left the store: the
  leases handed out by \<open>claim\<close> and the identifiers of the operations \<open>dispatch\<close> has released to the cluster.
\<close>

section \<open>Runs of the system\<close>

record sys =
  s_db :: db
  s_now :: int
  s_leases :: "lease list"
  s_sent :: "string list"

definition start_sys :: sys where
  "start_sys = \<lparr>s_db = empty_db, s_now = 0, s_leases = [], s_sent = []\<rparr>"

datatype event =
    Accepting api_settings accept_args db db
  | Announcing string int int
  | Withdrawing string int
  | Claiming "string list" string int int int
  | Beating int int int lease
  | Marking int int lease
  | Finishing int int lease outcome
  | Deciding string json string int
  | Preparing int int lease op_request
  | Sending int int lease string
  | Recording int int lease op_state op_report
  | Controlling string string string control_body "string option" json int
  | Answering "json \<Rightarrow> string" "int \<Rightarrow> string" string string string string answer_body int
  | Noting string string message_draft int
  | Rounding round_context_fn api_settings round_ids string string string "string option" dict
  | Asking string round_ids string interaction_body "string option" "dict list"
  | Progressing int int lease json
  | Rechecked int int lease string json
  | Completing round_context_fn api_settings round_ids string int int lease dict "(string \<times> string list) option" bool
  | Activating round_context_fn api_settings round_ids string
  | Opening window_store int int json
  | Saving window_store string int int dict
  | Waking round_ids string

text \<open>The readings of the database clock a call makes.\<close>

fun clock_reads :: "event \<Rightarrow> int \<times> int" where
  "clock_reads (Accepting c a d0 d2) = (ac_time a, ac_time a)"
| "clock_reads (Announcing w n t) = (t, t)"
| "clock_reads (Withdrawing w t) = (t, t)"
| "clock_reads (Claiming ls w n m t) = (t, t)"
| "clock_reads (Beating n t0 t1 l) = (t0, t1)"
| "clock_reads (Marking t0 t1 l) = (t0, t1)"
| "clock_reads (Finishing t0 t1 l out) = (t0, t1)"
| "clock_reads (Deciding i x b t) = (t, t)"
| "clock_reads (Preparing t0 t1 l q) = (t0, t1)"
| "clock_reads (Sending t0 t1 l i) = (t0, t1)"
| "clock_reads (Recording t0 t1 l st rp) = (t0, t1)"
| "clock_reads (Controlling m c i b p x t) = (t, t)"
| "clock_reads (Answering J f m c i r b t) = (t, t)"
| "clock_reads (Noting m i x t) = (t, t)"
| "clock_reads (Rounding cx c ids i m k p v) = (ro_time ids, ro_time ids)"
| "clock_reads (Asking m ids i b p refs) = (ro_time ids, ro_time ids)"
| "clock_reads (Progressing t0 t1 l p) = (t0, t1)"
| "clock_reads (Rechecked t0 t1 l h r) = (t0, t1)"
| "clock_reads (Completing cx c ids m t0 t1 l out a iv) = (t0, t1)"
| "clock_reads (Activating cx c ids k) = (ro_time ids, ro_time ids)"
| "clock_reads (Opening ws t0 t1 p) = (t0, t1)"
| "clock_reads (Saving ws i t0 t1 p) = (t0, t1)"
| "clock_reads (Waking ids i) = (ro_time ids, ro_time ids)"

definition commit :: "sys \<Rightarrow> ('a \<times> db) res \<Rightarrow> ('a \<Rightarrow> sys \<Rightarrow> sys) \<Rightarrow> sys res" where
  "commit s r f = bindE r (\<lambda>(x, d). Inr (f x (s\<lparr>s_db := d\<rparr>)))"

fun perform :: "(json \<Rightarrow> string) \<Rightarrow> event \<Rightarrow> sys \<Rightarrow> sys res" where
  "perform H (Accepting c a d0 d2) s = commit s (accept H c a d0 (s_db s) d2) (\<lambda>_ s. s)"
| "perform H (Announcing w n t) s = commit s (announce w n t (s_db s)) (\<lambda>_ s. s)"
| "perform H (Withdrawing w t) s = commit s (withdraw w (s_db s)) (\<lambda>_ s. s)"
| "perform H (Claiming ls w n m t) s = commit s (claim ls w n m t (s_db s))
     (\<lambda>l s. s\<lparr>s_leases := s_leases s @ (case l of None \<Rightarrow> [] | Some l \<Rightarrow> [l])\<rparr>)"
| "perform H (Beating n t0 t1 l) s = commit s (heartbeat n t0 t1 l (s_db s)) (\<lambda>_ s. s)"
| "perform H (Marking t0 t1 l) s = commit s (mark_checkpoint_started t0 t1 l (s_db s)) (\<lambda>_ s. s)"
| "perform H (Finishing t0 t1 l out) s = commit s (finish t0 t1 l out (s_db s)) (\<lambda>_ s. s)"
| "perform H (Deciding i x b t) s = commit s (queue_approval i x b t (s_db s)) (\<lambda>_ s. s)"
| "perform H (Preparing t0 t1 l q) s = commit s (prepare H t0 t1 l q (s_db s)) (\<lambda>_ s. s)"
| "perform H (Sending t0 t1 l i) s = commit s (dispatch t0 t1 l i (s_db s)) (\<lambda>_ s. s\<lparr>s_sent := s_sent s @ [i]\<rparr>)"
| "perform H (Recording t0 t1 l st rp) s = commit s (record_outcome t0 t1 l st rp (s_db s)) (\<lambda>_ s. s)"
| "perform H (Controlling m c i b p x t) s = commit s (control H m c i b p x t (s_db s)) (\<lambda>_ s. s)"
| "perform H (Answering J f m c i r b t) s = commit s (answer H J f m c i r b t (s_db s)) (\<lambda>_ s. s)"
| "perform H (Noting m i x t) s = commit s (append_message m i x t (s_db s)) (\<lambda>_ s. s)"
| "perform H (Rounding cx c ids i m k p v) s = commit s (accept_round H cx c ids i m k p v (s_db s)) (\<lambda>_ s. s)"
| "perform H (Asking m ids i b p refs) s = commit s (accept_interaction H m ids i b p refs (s_db s)) (\<lambda>_ s. s)"
| "perform H (Progressing t0 t1 l p) s = commit s (save_progress t0 t1 l p (s_db s)) (\<lambda>_ s. s)"
| "perform H (Rechecked t0 t1 l h r) s = commit s (save_recheck t0 t1 l h r (s_db s)) (\<lambda>_ s. s)"
| "perform H (Completing cx c ids m t0 t1 l out a iv) s = commit s (complete H cx c ids m t0 t1 l out a iv (s_db s)) (\<lambda>_ s. s)"
| "perform H (Activating cx c ids k) s = commit s (activate_one H cx c ids k (s_db s)) (\<lambda>_ s. s)"
| "perform H (Opening ws t0 t1 p) s = commit s (open_window ws t0 t1 p (s_db s)) (\<lambda>_ s. s)"
| "perform H (Saving ws i t0 t1 p) s = commit s (save_window ws i t0 t1 p (s_db s)) (\<lambda>_ s. s)"
| "perform H (Waking ids i) s = commit s (activate_due_one H ids i (s_db s)) (\<lambda>_ s. s)"

inductive steps :: "(json \<Rightarrow> string) \<Rightarrow> sys \<Rightarrow> sys \<Rightarrow> bool" for H where
  steps_refl: "steps H s s"
| steps_next: "steps H s t \<Longrightarrow> s_now t \<le> fst (clock_reads e) \<Longrightarrow> fst (clock_reads e) \<le> snd (clock_reads e)
    \<Longrightarrow> perform H e t = Inr u \<Longrightarrow> steps H s (u\<lparr>s_now := snd (clock_reads e)\<rparr>)"

definition reachable :: "(json \<Rightarrow> string) \<Rightarrow> sys \<Rightarrow> bool" where
  "reachable H s = steps H start_sys s"

text \<open>A run of given events, for concrete executions.\<close>

fun play :: "(json \<Rightarrow> string) \<Rightarrow> event list \<Rightarrow> sys \<Rightarrow> sys option" where
  "play H [] s = Some s"
| "play H (e # es) s = (if s_now s \<le> fst (clock_reads e) \<and> fst (clock_reads e) \<le> snd (clock_reads e)
     then (case perform H e s of Inl x \<Rightarrow> None
           | Inr t \<Rightarrow> play H es (t\<lparr>s_now := snd (clock_reads e)\<rparr>))
     else None)"

lemma steps_play: "steps H s t \<Longrightarrow> play H es t = Some u \<Longrightarrow> steps H s u"
  by (induction H es t rule: play.induct) (auto split: if_splits sum.splits intro: steps_next)

lemma reachable_play: "play H es start_sys = Some s \<Longrightarrow> reachable H s"
  unfolding reachable_def by (rule steps_play [OF steps_refl])

lemma steps_trans: "steps H t u \<Longrightarrow> steps H s t \<Longrightarrow> steps H s u"
  by (induction rule: steps.induct) (auto intro: steps_next)

lemma reachable_steps: "reachable H s \<Longrightarrow> steps H s t \<Longrightarrow> reachable H t"
  unfolding reachable_def by (rule steps_trans)

section \<open>Every event is safe for the store\<close>

lemma commit_Inr: "commit s r f = Inr t \<longleftrightarrow> (\<exists>x d. r = Inr (x, d) \<and> t = f x (s\<lparr>s_db := d\<rparr>))"
  by (auto simp: commit_def res_simps)

lemma safe_accept: "safe d (\<lambda>d. accept H c a d0 d d2)"
  unfolding safe_def
proof (intro allI impI)
  fix x e assume c: "consistent d" and "accept H c a d0 d d2 = Inr (x, e)"
  then have "e = d \<or> accept_insert H c a d = Inr (x, e)"
    by (auto simp: accept_def Let_def res_simps split: option.splits sum.splits if_splits)
  with c safeD [OF safe_accept_insert c] show "consistent e \<and> evolves d e"
    by (metis evolves_refl)
qed

lemma safe_announce: "safe d (announce w n t)"
  by (rule same_rows_safe) (auto simp: announce_def same_rows_def txn_simps)

lemma safe_withdraw: "safe d (withdraw w)"
  by (rule same_rows_safe) (auto simp: withdraw_def same_rows_def txn_simps)

lemma commit_safe:
  assumes "commit s (m (s_db s)) f = Inr t" and "consistent (s_db s)" and "safe (s_db s) m"
    and "\<And>x u. s_db (f x u) = s_db u"
  shows "consistent (s_db t) \<and> evolves (s_db s) (s_db t)"
proof -
  from assms(1) obtain x d where m: "m (s_db s) = Inr (x, d)" and t: "t = f x (s\<lparr>s_db := d\<rparr>)"
    by (auto simp: commit_Inr)
  have "s_db t = d"
    by (simp add: t assms(4))
  with safeD [OF assms(3,2) m] show ?thesis
    by simp
qed

lemma perform_safe:
  assumes p: "perform H e s = Inr t" and c: "consistent (s_db s)"
  shows "consistent (s_db t) \<and> evolves (s_db s) (s_db t)"
proof (cases e)
  case (Accepting ac a d0 d2)
  show ?thesis
    by (rule commit_safe [OF p [unfolded Accepting perform.simps] c safe_accept]) simp
next
  case (Announcing w n t0)
  show ?thesis
    by (rule commit_safe [OF p [unfolded Announcing perform.simps] c safe_announce]) simp
next
  case (Withdrawing w t0)
  show ?thesis
    by (rule commit_safe [OF p [unfolded Withdrawing perform.simps] c safe_withdraw]) simp
next
  case (Claiming ls w n m t0)
  show ?thesis
    by (rule commit_safe [OF p [unfolded Claiming perform.simps] c safe_claim]) simp
next
  case (Beating n t0 t1 l)
  show ?thesis
    by (rule commit_safe [OF p [unfolded Beating perform.simps] c safe_heartbeat]) simp
next
  case (Marking t0 t1 l)
  show ?thesis
    by (rule commit_safe [OF p [unfolded Marking perform.simps] c safe_mark_checkpoint_started]) simp
next
  case (Finishing t0 t1 l out)
  show ?thesis
    by (rule commit_safe [OF p [unfolded Finishing perform.simps] c safe_finish]) simp
next
  case (Deciding i x b t0)
  show ?thesis
    by (rule commit_safe [OF p [unfolded Deciding perform.simps] c safe_queue_approval]) simp
next
  case (Preparing t0 t1 l q)
  show ?thesis
    by (rule commit_safe [OF p [unfolded Preparing perform.simps] c safe_prepare]) simp
next
  case (Sending t0 t1 l i)
  show ?thesis
    by (rule commit_safe [OF p [unfolded Sending perform.simps] c safe_dispatch]) simp
next
  case (Recording t0 t1 l st rp)
  show ?thesis
    by (rule commit_safe [OF p [unfolded Recording perform.simps] c safe_record_outcome]) simp
next
  case (Controlling m k i b q x t0)
  show ?thesis
    by (rule commit_safe [OF p [unfolded Controlling perform.simps] c safe_control]) simp
next
  case (Answering J f m k i r b t0)
  show ?thesis
    by (rule commit_safe [OF p [unfolded Answering perform.simps] c safe_answer]) simp
next
  case (Noting m i x t0)
  show ?thesis
    by (rule commit_safe [OF p [unfolded Noting perform.simps] c safe_append_message]) simp
next
  case (Rounding cx ac ids i m k q v)
  show ?thesis
    by (rule commit_safe [OF p [unfolded Rounding perform.simps] c safe_accept_round]) simp
next
  case (Asking m ids i b q refs)
  show ?thesis
    by (rule commit_safe [OF p [unfolded Asking perform.simps] c safe_accept_interaction]) simp
next
  case (Progressing t0 t1 l q)
  show ?thesis
    by (rule commit_safe [OF p [unfolded Progressing perform.simps] c safe_save_progress]) simp
next
  case (Rechecked t0 t1 l h r)
  show ?thesis
    by (rule commit_safe [OF p [unfolded Rechecked perform.simps] c safe_save_recheck]) simp
next
  case (Completing cx ac ids m t0 t1 l out a iv)
  show ?thesis
    by (rule commit_safe [OF p [unfolded Completing perform.simps] c safe_complete]) simp
next
  case (Activating cx ac ids k)
  show ?thesis
    by (rule commit_safe [OF p [unfolded Activating perform.simps] c safe_activate_one]) simp
next
  case (Opening ws t0 t1 q)
  show ?thesis
    by (rule commit_safe [OF p [unfolded Opening perform.simps] c safe_open_window]) simp
next
  case (Saving ws i t0 t1 q)
  show ?thesis
    by (rule commit_safe [OF p [unfolded Saving perform.simps] c safe_save_window]) simp
next
  case (Waking ids i)
  show ?thesis
    by (rule commit_safe [OF p [unfolded Waking perform.simps] c safe_activate_due_one]) simp
qed

lemma empty_consistent: "consistent empty_db"
  by (simp add: consistent_def keys_unique_def one_active_def revisions_bounded_def empty_db_def)

lemma steps_safe:
  assumes "steps H s t" and "consistent (s_db s)"
  shows "consistent (s_db t) \<and> evolves (s_db s) (s_db t)"
  using assms
proof (induction rule: steps.induct)
  case (steps_next s t e u)
  then have t: "consistent (s_db t)" "evolves (s_db s) (s_db t)"
    by simp_all
  from perform_safe [OF steps_next.hyps(4) t(1)] t(2) show ?case
    by (auto intro: evolves_trans)
qed simp

lemma reachable_consistent: "reachable H s \<Longrightarrow> consistent (s_db s)"
  unfolding reachable_def using steps_safe [of H start_sys s] by (simp add: start_sys_def empty_consistent)

section \<open>Invariants of all runs\<close>

locale run_invariant =
  fixes I :: "sys \<Rightarrow> bool" and H :: "json \<Rightarrow> string"
  assumes start: "I start_sys"
    and preserved: "I s \<Longrightarrow> consistent (s_db s) \<Longrightarrow> perform H e s = Inr t \<Longrightarrow> I (t\<lparr>s_now := n\<rparr>)"
begin

lemma holds:
  assumes "reachable H s"
  shows "I s"
proof -
  have "steps H s0 s \<Longrightarrow> s0 = start_sys \<Longrightarrow> I s" for s0
  proof (induction rule: steps.induct)
    case (steps_next s0 t e u)
    then have "reachable H t"
      by (simp add: reachable_def)
    with steps_next show ?case
      by (intro preserved [of t e]) (simp_all add: reachable_consistent)
  qed (simp add: start)
  with assms show ?thesis
    by (simp add: reachable_def)
qed

end

end
