(* ===== verification/SystemFacts.thy ===== *)
theory SystemFacts
  imports System
begin

text \<open>
  Facts on runs of the system: the invariants of the leases handed out and of the operations
  released, and what a run keeps of a row, a revision and an idempotency key.
\<close>

section \<open>Leases handed out\<close>

definition lease_key :: "lease \<Rightarrow> string \<times> int" where
  "lease_key l = (r_run_id (le_run l), r_lease_epoch (le_run l))"

text \<open>Epochs of a run are handed out once, and the row has reached every epoch handed out.\<close>

definition leases_ok :: "sys \<Rightarrow> bool" where
  "leases_ok s = (distinct (map lease_key (s_leases s)) \<and> (\<forall>l\<in>set (s_leases s). \<exists>r\<in>set (db_runs (s_db s)).
     r_run_id r = r_run_id (le_run l) \<and> r_lease_epoch (le_run l) \<le> r_lease_epoch r))"

lemma leases_ok_evolves:
  assumes ok: "leases_ok s" and ev: "evolves (s_db s) (s_db t)" and "s_leases t = s_leases s"
  shows "leases_ok t"
  unfolding leases_ok_def assms(3)
proof (intro conjI ballI)
  show "distinct (map lease_key (s_leases s))"
    using ok by (simp add: leases_ok_def)
  fix l assume "l \<in> set (s_leases s)"
  with ok obtain r where r: "r \<in> set (db_runs (s_db s))" "r_run_id r = r_run_id (le_run l)"
      "r_lease_epoch (le_run l) \<le> r_lease_epoch r"
    by (auto simp: leases_ok_def)
  with evolves_run [OF ev r(1)] obtain q where "q \<in> set (db_runs (s_db t))" "run_follows r q"
    by blast
  with r show "\<exists>q\<in>set (db_runs (s_db t)). r_run_id q = r_run_id (le_run l) \<and> r_lease_epoch (le_run l) \<le> r_lease_epoch q"
    by (intro bexI [of _ q]) (auto dest: run_followsD(1,4))
qed

lemma claim_Some:
  assumes "claim locked w n m t d = Inr (Some l, e)"
  shows "\<exists>r. candidate locked t d = Some r \<and> le_run l = claimed w n m t r
    \<and> db_runs e = update_where (\<lambda>q. r_run_id q = r_run_id r) (claimed w n m t) (db_runs d)"
  using assms by (auto simp: claim_def set_run_def txn_simps split: option.splits)

lemma claimed_simps [simp]:
  "r_run_id (claimed w n m t r) = r_run_id r" "r_lease_epoch (claimed w n m t r) = r_lease_epoch r + 1"
  "r_lease_owner (claimed w n m t r) = Some w" "r_status (claimed w n m t r) = Running"
  by (simp_all add: claimed_def)

lemma leases_ok_claim:
  assumes ok: "leases_ok s" and c: "consistent (s_db s)" and p: "perform H (Claiming ls w n m t0) s = Inr t"
  shows "leases_ok t"
proof -
  obtain x d where cl: "claim ls w n m t0 (s_db s) = Inr (x, d)"
    and t: "t = s\<lparr>s_db := d, s_leases := s_leases s @ (case x of None \<Rightarrow> [] | Some l \<Rightarrow> [l])\<rparr>"
    using p by (auto simp: commit_Inr)
  have ev: "evolves (s_db s) d"
    using safeD [OF safe_claim c cl] by simp
  have old: "leases_ok (s\<lparr>s_db := d\<rparr>)"
    by (rule leases_ok_evolves [OF ok]) (simp_all add: ev)
  show ?thesis
  proof (cases x)
    case None
    with t old show ?thesis
      by (simp add: leases_ok_def)
  next
    case (Some l)
    from claim_Some [OF cl [unfolded Some]] obtain r where r: "candidate ls t0 (s_db s) = Some r"
      and l: "le_run l = claimed w n m t0 r"
      and runs: "db_runs d = update_where (\<lambda>q. r_run_id q = r_run_id r) (claimed w n m t0) (db_runs (s_db s))"
      by blast
    have rm: "r \<in> set (db_runs (s_db s))"
      by (rule candidateD(1) [OF r])
    have here: "claimed w n m t0 r \<in> set (db_runs d)"
      unfolding runs update_where_set using rm by (intro bexI [of _ r]) simp_all
    have fresh: "lease_key l \<noteq> lease_key k" if "k \<in> set (s_leases s)" for k
    proof
      assume eq: "lease_key l = lease_key k"
      from ok that obtain q where "q \<in> set (db_runs (s_db s))" "r_run_id q = r_run_id (le_run k)"
          "r_lease_epoch (le_run k) \<le> r_lease_epoch q"
        by (auto simp: leases_ok_def)
      moreover from eq l have "r_run_id (le_run k) = r_run_id r" "r_lease_epoch (le_run k) = r_lease_epoch r + 1"
        by (simp_all add: lease_key_def)
      ultimately have "q = r" "r_lease_epoch r + 1 \<le> r_lease_epoch q"
        by (simp_all add: run_id_inj [OF c _ rm])
      then show False by simp
    qed
    then have fresh: "lease_key l \<notin> lease_key ` set (s_leases s)"
      by blast
    have ls: "s_leases t = s_leases s @ [l]" "s_db t = d"
      by (simp_all add: t Some)
    show ?thesis
      unfolding leases_ok_def ls
    proof (intro conjI ballI)
      show "distinct (map lease_key (s_leases s @ [l]))"
        using old fresh by (simp add: leases_ok_def)
      fix k assume k: "k \<in> set (s_leases s @ [l])"
      show "\<exists>r\<in>set (db_runs d). r_run_id r = r_run_id (le_run k) \<and> r_lease_epoch (le_run k) \<le> r_lease_epoch r"
      proof (cases "k = l")
        case True
        then show ?thesis
          using here by (intro bexI [of _ "claimed w n m t0 r"]) (simp_all add: l)
      next
        case False
        with k old show ?thesis
          by (simp add: leases_ok_def)
      qed
    qed
  qed
qed

lemma perform_leases:
  "perform H e s = Inr t \<Longrightarrow> \<nexists>ls w n m x. e = Claiming ls w n m x \<Longrightarrow> s_leases t = s_leases s"
  by (cases e) (auto simp: commit_Inr)

lemma leases_ok_perform:
  assumes "leases_ok s" and "consistent (s_db s)" and "perform H e s = Inr t"
  shows "leases_ok t"
proof (cases "\<exists>ls w n m x. e = Claiming ls w n m x")
  case True
  with assms leases_ok_claim show ?thesis by blast
next
  case False
  then have "s_leases t = s_leases s"
    using perform_leases [OF assms(3)] by blast
  then show ?thesis
    using leases_ok_evolves [OF assms(1)] perform_safe [OF assms(3,2)] by blast
qed

interpretation leases: run_invariant leases_ok H for H
proof
  show "leases_ok start_sys"
    by (simp add: leases_ok_def start_sys_def)
  fix s e t n assume "leases_ok s" "consistent (s_db s)" "perform H e s = Inr t"
  then have "leases_ok t"
    by (rule leases_ok_perform)
  then show "leases_ok (t\<lparr>s_now := n\<rparr>)"
    by (simp add: leases_ok_def)
qed

section \<open>Operations released\<close>

definition sent_ok :: "sys \<Rightarrow> bool" where
  "sent_ok s = (distinct (s_sent s) \<and> (\<forall>i\<in>set (s_sent s). \<exists>p\<in>set (db_operations (s_db s)).
     o_operation_id p = i \<and> o_state p \<in> set (later Dispatching)))"

lemma sent_ok_evolves:
  assumes ok: "sent_ok s" and ev: "evolves (s_db s) (s_db t)" and "s_sent t = s_sent s"
  shows "sent_ok t"
  unfolding sent_ok_def assms(3)
proof (intro conjI ballI)
  show "distinct (s_sent s)"
    using ok by (simp add: sent_ok_def)
  fix i assume "i \<in> set (s_sent s)"
  with ok obtain p where p: "p \<in> set (db_operations (s_db s))" "o_operation_id p = i" "o_state p \<in> set (later Dispatching)"
    by (auto simp: sent_ok_def)
  from evolves_op [OF ev p(1)] obtain q where q: "q \<in> set (db_operations (s_db t))" "op_evolves p q"
    by blast
  then have "o_operation_id q = i" "o_state q \<in> set (later Dispatching)"
    using p(2) later_trans [OF p(3) op_evolvesD(4) [OF q(2)]] by (simp_all add: op_evolvesD)
  with q(1) show "\<exists>q\<in>set (db_operations (s_db t)). o_operation_id q = i \<and> o_state q \<in> set (later Dispatching)"
    by blast
qed

lemma dispatch_Inr:
  assumes "dispatch t0 t1 l i d = Inr (u, e)"
  shows "\<exists>p\<in>set (db_operations d). dispatchable l i p" and "current_revision (r_run_id (le_run l)) d"
    and "\<exists>q\<in>set (db_operations e). o_operation_id q = i \<and> o_state q = Dispatching"
proof -
  have ok: "list_ex (dispatchable l i) (db_operations d)" "current_revision (r_run_id (le_run l)) d"
    and e: "e = d\<lparr>db_operations := update_where (dispatchable l i)
        (\<lambda>p. p\<lparr>o_state := Dispatching, o_lease_epoch := r_lease_epoch (le_run l),
               o_dispatched_at := Some t1, o_updated_at := t1\<rparr>) (db_operations d)\<rparr>"
    using assms by (simp_all add: dispatch_def txn_simps)
  from ok(1) obtain p where p: "p \<in> set (db_operations d)" "dispatchable l i p"
    by (auto simp: list_ex_iff)
  then show "\<exists>p\<in>set (db_operations d). dispatchable l i p"
    by blast
  show "current_revision (r_run_id (le_run l)) d"
    by (rule ok(2))
  have "o_operation_id p = i"
    using p(2) by (simp add: dispatchable_def)
  with p show "\<exists>q\<in>set (db_operations e). o_operation_id q = i \<and> o_state q = Dispatching"
    unfolding e
    by (intro bexI [of _ "p\<lparr>o_state := Dispatching, o_lease_epoch := r_lease_epoch (le_run l),
               o_dispatched_at := Some t1, o_updated_at := t1\<rparr>"]) (simp_all add: update_where_def rev_image_eqI)
qed

lemma op_id_inj:
  "consistent d \<Longrightarrow> p \<in> set (db_operations d) \<Longrightarrow> q \<in> set (db_operations d) \<Longrightarrow> o_operation_id p = o_operation_id q \<Longrightarrow> p = q"
  by (simp add: consistent_def keys_unique_def distinct_map inj_on_def)

lemma sent_ok_dispatch:
  assumes ok: "sent_ok s" and c: "consistent (s_db s)" and p: "perform H (Sending t0 t1 l i) s = Inr t"
  shows "sent_ok t"
proof -
  obtain u d where di: "dispatch t0 t1 l i (s_db s) = Inr (u, d)" and t: "t = s\<lparr>s_db := d, s_sent := s_sent s @ [i]\<rparr>"
    using p by (auto simp: commit_Inr)
  have ev: "evolves (s_db s) d"
    using safeD [OF safe_dispatch c di] by simp
  have old: "sent_ok (s\<lparr>s_db := d\<rparr>)"
    by (rule sent_ok_evolves [OF ok]) (simp_all add: ev)
  from dispatch_Inr(1) [OF di] obtain p where p: "p \<in> set (db_operations (s_db s))" "o_operation_id p = i" "o_state p = Prepared"
    by (auto simp: dispatchable_def)
  have "i \<notin> set (s_sent s)"
  proof
    assume "i \<in> set (s_sent s)"
    with ok obtain q where q: "q \<in> set (db_operations (s_db s))" "o_operation_id q = i" "o_state q \<in> set (later Dispatching)"
      by (auto simp: sent_ok_def)
    with p have "q = p"
      by (intro op_id_inj [OF c]) simp_all
    with q(3) p(3) show False by simp
  qed
  moreover have "\<exists>q\<in>set (db_operations d). o_operation_id q = i \<and> o_state q \<in> set (later Dispatching)"
    using dispatch_Inr(3) [OF di] by (metis later_refl)
  ultimately show ?thesis
    using old by (simp add: t sent_ok_def)
qed

lemma perform_sent:
  "perform H e s = Inr t \<Longrightarrow> \<nexists>t0 t1 l i. e = Sending t0 t1 l i \<Longrightarrow> s_sent t = s_sent s"
  by (cases e) (auto simp: commit_Inr)

lemma sent_ok_perform:
  assumes "sent_ok s" and "consistent (s_db s)" and "perform H e s = Inr t"
  shows "sent_ok t"
proof (cases "\<exists>t0 t1 l i. e = Sending t0 t1 l i")
  case True
  with assms sent_ok_dispatch show ?thesis by blast
next
  case False
  then have "s_sent t = s_sent s"
    using perform_sent [OF assms(3)] by blast
  then show ?thesis
    using sent_ok_evolves [OF assms(1)] perform_safe [OF assms(3,2)] by blast
qed

interpretation sent: run_invariant sent_ok H for H
proof
  show "sent_ok start_sys"
    by (simp add: sent_ok_def start_sys_def)
  fix s e t n assume "sent_ok s" "consistent (s_db s)" "perform H e s = Inr t"
  then have "sent_ok t"
    by (rule sent_ok_perform)
  then show "sent_ok (t\<lparr>s_now := n\<rparr>)"
    by (simp add: sent_ok_def)
qed

section \<open>Revisions\<close>

text \<open>
  A run that was stopped, or that has ended at a revision the incident has left, can never be
  current again.
\<close>

definition revoked :: "string \<Rightarrow> db \<Rightarrow> bool" where
  "revoked rid d = (case find_run rid d of None \<Rightarrow> False
     | Some r \<Rightarrow> r_stop_requested r \<or> terminal (r_status r)
         \<and> (case find_incident (r_incident_id r) d of None \<Rightarrow> False
            | Some i \<Rightarrow> r_event_revision r < i_event_revision i))"

lemma find_incident_member:
  assumes "consistent d" and "i \<in> set (db_incidents d)"
  shows "find_incident (i_incident_id i) d = Some i"
  using assms find_unique [of i_incident_id "db_incidents d" i]
  by (simp add: consistent_def keys_unique_def find_incident_def)

lemma find_run_of_member:
  assumes "consistent d" and "r \<in> set (db_runs d)"
  shows "find_run (r_run_id r) d = Some r"
  using assms find_unique [of r_run_id "db_runs d" r]
  by (simp add: consistent_def keys_unique_def find_run_def)

lemma find_incident_mem: "find_incident i d = Some x \<Longrightarrow> x \<in> set (db_incidents d) \<and> i_incident_id x = i"
  unfolding find_incident_def by (rule find_mem)

lemma evolves_find_run:
  assumes "evolves d e" and "consistent e" and "find_run rid d = Some r"
  shows "\<exists>q. find_run rid e = Some q \<and> run_follows r q"
proof -
  from find_run_mem [OF assms(3)] have r: "r \<in> set (db_runs d)" "r_run_id r = rid"
    by simp_all
  from evolves_run [OF assms(1) r(1)] obtain q where q: "q \<in> set (db_runs e)" "run_follows r q"
    by blast
  then show ?thesis
    using find_run_of_member [OF assms(2) q(1)] run_followsD(1) [OF q(2)] r(2) by auto
qed

lemma evolves_find_incident:
  assumes "evolves d e" and "consistent e" and "find_incident iid d = Some i"
  shows "\<exists>j. find_incident iid e = Some j \<and> incident_evolves i j"
proof -
  from find_incident_mem [OF assms(3)] have i: "i \<in> set (db_incidents d)" "i_incident_id i = iid"
    by simp_all
  from evolves_incident [OF assms(1) i(1)] obtain j where j: "j \<in> set (db_incidents e)" "incident_evolves i j"
    by blast
  then show ?thesis
    using find_incident_member [OF assms(2) j(1)] i(2) by (auto simp: incident_evolves_def)
qed

lemma revoked_evolves:
  assumes "revoked rid d" and "evolves d e" and "consistent e"
  shows "revoked rid e"
proof -
  from assms(1) obtain r where r: "find_run rid d = Some r"
    by (auto simp: revoked_def split: option.splits)
  from evolves_find_run [OF assms(2,3) r] obtain q where q: "find_run rid e = Some q" "run_follows r q"
    by blast
  show ?thesis
  proof (cases "r_stop_requested r")
    case True
    with q(1) run_followsD(7) [OF q(2)] show ?thesis
      by (simp add: revoked_def)
  next
    case False
    with assms(1) r obtain i where t: "terminal (r_status r)" and i: "find_incident (r_incident_id r) d = Some i"
      and lt: "r_event_revision r < i_event_revision i"
      by (auto simp: revoked_def split: option.splits)
    from evolves_find_incident [OF assms(2,3) i] obtain j where j: "find_incident (r_incident_id r) e = Some j"
        "incident_evolves i j"
      by blast
    show ?thesis
      using q(1) j lt run_followsD(2) [OF q(2)] run_followsD(6,8) [OF q(2) t] t
      by (simp add: revoked_def incident_evolves_def)
  qed
qed

lemma revoked_not_current: "revoked rid d \<Longrightarrow> \<not> current_revision rid d"
  by (auto simp: revoked_def current_revision_def split: option.splits)

definition revs :: "db \<Rightarrow> (string \<times> int) list" where
  "revs d = map (\<lambda>i. (i_incident_id i, i_event_revision i)) (db_incidents d)"

lemma revs_find: "map_of (revs d) iid = map_option i_event_revision (find_incident iid d)"
proof -
  have "map_of (map (\<lambda>i. (i_incident_id i, i_event_revision i)) xs) iid
      = map_option i_event_revision (find (\<lambda>r. i_incident_id r = iid) xs)" for xs
    by (induction xs) auto
  then show ?thesis
    by (simp add: revs_def find_incident_def)
qed

lemma revs_update:
  "(\<And>i. i_incident_id (f i) = i_incident_id i) \<Longrightarrow> (\<And>i. i_event_revision (f i) = i_event_revision i)
    \<Longrightarrow> set_incident iid f d = Inr (u, e) \<Longrightarrow> revs e = revs d"
  by (auto simp: set_incident_def txn_simps revs_def update_where_def)

lemma same_rows_revs: "same_rows d e \<Longrightarrow> revs e = revs d"
  by (simp add: same_rows_def revs_def)

lemma stop_active_revs:
  assumes "stop_active snap t l op d = Inr (u, e)"
  shows "revs e = revs d"
proof -
  obtain d1 where d1: "set_run (r_run_id l) (stopped_run t) d = Inr ((), d1)"
    and rest: "(if dispatched op then returnT ()
     else bindT (set_op (r_run_id l) (superseded_op t)) (\<lambda>_.
          bindT (set_run (r_run_id l) (cancelled_run snap t)) (\<lambda>_.
          set_incident (r_incident_id l) (\<lambda>i. i\<lparr>i_phase := ''cancelled'', i_updated_at := t\<rparr>)))) d1 = Inr (u, e)"
    using assms by (auto simp: stop_active_def txn_simps)
  have r1: "revs d1 = revs d"
    using set_run_member(3) [OF d1] by (simp add: revs_def)
  show ?thesis
  proof (cases "dispatched op")
    case True
    with rest r1 show ?thesis by (simp add: txn_simps)
  next
    case False
    with rest obtain d2 d3 where d2: "set_op (r_run_id l) (superseded_op t) d1 = Inr ((), d2)"
      and d3: "set_run (r_run_id l) (cancelled_run snap t) d2 = Inr ((), d3)"
      and e: "set_incident (r_incident_id l) (\<lambda>i. i\<lparr>i_phase := ''cancelled'', i_updated_at := t\<rparr>) d3 = Inr (u, e)"
      by (auto simp: txn_simps)
    have "revs e = revs d3"
      by (rule revs_update [OF _ _ e]) simp_all
    then show ?thesis
      using set_op_runs [OF d2] set_run_member(3) [OF d3] r1 by (simp add: revs_def)
  qed
qed

definition bumped :: "string \<Rightarrow> (string \<times> int) list \<Rightarrow> (string \<times> int) list" where
  "bumped iid = map (\<lambda>(i, n). (i, if i = iid then n + 1 else n))"

lemma map_of_bumped: "map_of (bumped iid xs) iid = map_option (\<lambda>n. n + 1) (map_of xs iid)"
  unfolding bumped_def by (induction xs) auto

lemma apply_control_revs:
  assumes "apply_control H mid cid iid b snap t l d = Inr (k, e)"
  shows "revs e = bumped iid (revs d)"
proof -
  from assms obtain m d1 d2 d3 d4 d5 op where
      d1: "message_in_transaction mid iid (cb_key b) (cb_content b) t d = Inr (m, d1)"
    and d2: "set_incident iid (\<lambda>i. i\<lparr>i_event_revision := i_event_revision i + 1\<rparr>) d1 = Inr ((), d2)"
    and d3: "(if terminal (r_status l) then returnT () else stop_active snap t l op) d2 = Inr ((), d3)"
    and d4: "cancel_interactions iid t d3 = Inr ((), d4)"
    and d5: "(if cb_action b = SupplementAction then returnT () else supersede_pending iid) d4 = Inr ((), d5)"
    and e: "insert_control (new_control H cid iid b snap m l op t) d5 = Inr (k, e)"
    unfolding apply_control_def txn_simps by fastforce
  have "revs d2 = bumped iid (revs d1)"
    using d2 by (auto simp: set_incident_def txn_simps revs_def update_where_def bumped_def)
  moreover have "revs d1 = revs d"
    by (rule same_rows_revs [OF message_in_transaction_rows [OF d1]])
  moreover have "revs d3 = revs d2"
    using d3 stop_active_revs by (cases "terminal (r_status l)") (simp_all add: txn_simps)
  moreover have "revs d4 = revs d3"
    using d4 by (auto simp: cancel_interactions_def txn_simps revs_def)
  moreover have "revs d5 = revs d4"
    using d5 same_rows_revs [OF supersede_pending_rows] by (cases "cb_action b = SupplementAction") (simp_all add: txn_simps)
  moreover have "revs e = revs d5"
    by (rule same_rows_revs [OF insert_control_rows [OF e]])
  ultimately show ?thesis by simp
qed

lemma control_fresh:
  assumes "control H mid cid iid b expected snap t d = Inr (k, e)" and "find_control iid (cb_key b) d = None"
  shows "\<exists>l. latest_diagnosis iid d = Some l \<and> expected = Some (r_run_id l)
    \<and> apply_control H mid cid iid b snap t l d = Inr (k, e)"
  using assms by (auto simp: control_def txn_simps split: option.splits if_splits)

definition all_stopped :: "string \<Rightarrow> run_row list \<Rightarrow> bool" where
  "all_stopped i rs = (\<forall>r\<in>set rs. r_run_id r = i \<longrightarrow> r_stop_requested r)"

lemma all_stopped_update:
  assumes "all_stopped i rs" and "\<And>r. r_run_id (f r) = r_run_id r"
    and "\<And>r. r_stop_requested r \<Longrightarrow> r_stop_requested (f r)"
  shows "all_stopped i (update_where p f rs)"
  unfolding all_stopped_def
proof (intro ballI impI)
  fix q assume "q \<in> set (update_where p f rs)" and i: "r_run_id q = i"
  then obtain r where r: "r \<in> set rs" "q = (if p r then f r else r)"
    unfolding update_where_set by blast
  with i assms(1,2) have "r_stop_requested r"
    by (auto simp: all_stopped_def split: if_splits)
  with r(2) assms(3) show "r_stop_requested q"
    by simp
qed

lemma stop_active_stops:
  assumes "stop_active snap t l op d = Inr (u, e)"
  shows "all_stopped (r_run_id l) (db_runs e)"
proof -
  obtain d1 where d1: "set_run (r_run_id l) (stopped_run t) d = Inr ((), d1)"
    and rest: "(if dispatched op then returnT ()
     else bindT (set_op (r_run_id l) (superseded_op t)) (\<lambda>_.
          bindT (set_run (r_run_id l) (cancelled_run snap t)) (\<lambda>_.
          set_incident (r_incident_id l) (\<lambda>i. i\<lparr>i_phase := ''cancelled'', i_updated_at := t\<rparr>)))) d1 = Inr (u, e)"
    using assms by (auto simp: stop_active_def txn_simps)
  have s1: "all_stopped (r_run_id l) (db_runs d1)"
    unfolding set_run_member(1) [OF d1] all_stopped_def
    by (auto simp: update_where_set stopped_run_def)
  show ?thesis
  proof (cases "dispatched op")
    case True
    with rest s1 show ?thesis by (simp add: txn_simps)
  next
    case False
    with rest obtain d2 d3 where d2: "set_op (r_run_id l) (superseded_op t) d1 = Inr ((), d2)"
      and d3: "set_run (r_run_id l) (cancelled_run snap t) d2 = Inr ((), d3)"
      and e: "set_incident (r_incident_id l) (\<lambda>i. i\<lparr>i_phase := ''cancelled'', i_updated_at := t\<rparr>) d3 = Inr (u, e)"
      by (auto simp: txn_simps)
    have "all_stopped (r_run_id l) (db_runs d2)"
      using s1 set_op_runs [OF d2] by simp
    then have "all_stopped (r_run_id l) (db_runs d3)"
      unfolding set_run_member(1) [OF d3] by (rule all_stopped_update) (simp_all add: cancelled_run_def)
    then show ?thesis
      using set_incident_runs [OF e] by simp
  qed
qed

lemma apply_control_stops:
  assumes "apply_control H mid cid iid b snap t l d = Inr (k, e)" and "\<not> terminal (r_status l)"
  shows "all_stopped (r_run_id l) (db_runs e)"
proof -
  from assms obtain m d2 d3 d4 d5 op where
      d3: "stop_active snap t l op d2 = Inr ((), d3)"
    and d4: "cancel_interactions iid t d3 = Inr ((), d4)"
    and d5: "(if cb_action b = SupplementAction then returnT () else supersede_pending iid) d4 = Inr ((), d5)"
    and e: "insert_control (new_control H cid iid b snap m l op t) d5 = Inr (k, e)"
    unfolding apply_control_def txn_simps by fastforce
  have runs4: "db_runs d4 = update_where (\<lambda>r. r_incident_id r = iid \<and> r_run_kind r = InteractionRun \<and> \<not> terminal (r_status r))
     (cancelled_interaction t) (db_runs d3)"
    using d4 by (auto simp: cancel_interactions_def txn_simps)
  have "all_stopped (r_run_id l) (db_runs d4)"
    unfolding runs4 by (rule all_stopped_update [OF stop_active_stops [OF d3]]) (simp_all add: cancelled_interaction_def)
  moreover have "db_runs d5 = db_runs d4"
    using d5 supersede_pending_rows by (cases "cb_action b = SupplementAction") (auto simp: txn_simps same_rows_def)
  moreover have "db_runs e = db_runs d5"
    using insert_control_rows [OF e] by (simp add: same_rows_def)
  ultimately show ?thesis by simp
qed

lemma control_revokes_run:
  assumes c: "consistent d" and k: "control H mid cid iid b expected snap t d = Inr (k, e)"
    and new: "find_control iid (cb_key b) d = None" and r: "r \<in> set (db_runs d)" "r_incident_id r = iid"
    and which: "terminal (r_status r) \<or> expected = Some (r_run_id r)"
  shows "revoked (r_run_id r) e"
proof -
  from safeD [OF safe_control c k] have e: "consistent e" "evolves d e"
    by simp_all
  from control_fresh [OF k new] obtain l where l: "latest_diagnosis iid d = Some l" "expected = Some (r_run_id l)"
    and ap: "apply_control H mid cid iid b snap t l d = Inr (k, e)"
    by blast
  from evolves_run [OF e(2) r(1)] obtain q where q: "q \<in> set (db_runs e)" "run_follows r q"
    by blast
  have fq: "find_run (r_run_id r) e = Some q"
    using find_run_of_member [OF e(1) q(1)] by (simp add: run_followsD(1) [OF q(2)])
  show ?thesis
  proof (cases "terminal (r_status r)")
    case True
    from c r obtain i where i: "i \<in> set (db_incidents d)" "i_incident_id i = iid" "r_event_revision r \<le> i_event_revision i"
      by (auto simp: consistent_def revisions_bounded_def)
    have "map_of (revs e) iid = Some (i_event_revision i + 1)"
      using find_incident_member [OF c i(1)] i(2)
      by (simp add: apply_control_revs [OF ap] map_of_bumped revs_find)
    then obtain j where j: "find_incident iid e = Some j" "i_event_revision j = i_event_revision i + 1"
      by (auto simp: revs_find)
    then show ?thesis
      using fq i(3) r(2) True run_followsD(6,8) [OF q(2) True]
      by (simp add: revoked_def run_followsD(2) [OF q(2)])
  next
    case False
    with which l(2) have id: "r_run_id r = r_run_id l"
      by simp
    have "r = l"
      by (rule run_id_inj [OF c r(1) latest_diagnosis_mem(1) [OF l(1)] id])
    with False have "all_stopped (r_run_id l) (db_runs e)"
      by (intro apply_control_stops [OF ap]) simp
    then have "r_stop_requested q"
      using q(1) by (simp add: all_stopped_def run_followsD(1) [OF q(2)] id)
    with fq show ?thesis
      by (simp add: revoked_def)
  qed
qed

section \<open>Idempotency keys\<close>

lemma find_rows_evolve:
  assumes "rows_evolve R xs ys" and "\<And>x y. R x y \<Longrightarrow> p y = p x" and "find p xs = Some x"
  shows "\<exists>y. find p ys = Some y \<and> R x y"
proof -
  from assms(1) obtain zs n where ys: "ys = zs @ n" and l: "list_all2 R xs zs"
    by (auto simp: rows_evolve_def)
  from l assms(3) have "\<exists>y. find p zs = Some y \<and> R x y"
    by (induction rule: list_all2_induct) (auto simp: assms(2) split: if_splits)
  moreover have "find p zs = Some y \<Longrightarrow> find p (zs @ n) = Some y" for y
    by (induction zs) auto
  ultimately show ?thesis
    by (auto simp: ys)
qed

lemma by_key_evolves:
  assumes "evolves d e" and "by_key k d = Some r"
  shows "\<exists>q. by_key k e = Some q \<and> run_follows r q"
  unfolding by_key_def
proof (rule find_rows_evolve [OF _ _ assms(2) [unfolded by_key_def]])
  show "rows_evolve run_follows (db_runs d) (db_runs e)"
    using assms(1) by (simp add: evolves_def)
  show "(r_idempotency y = Some (scope, k)) = (r_idempotency x = Some (scope, k))" if "run_follows x y" for x y
    by (simp add: run_followsD(9) [OF that])
qed

lemma find_append_new: "find p xs = None \<Longrightarrow> p x \<Longrightarrow> find p (xs @ [x]) = Some x"
  by (induction xs) (auto split: if_splits)

lemma set_run_by_key:
  assumes "set_run i f d = Inr (u, e)" and "\<And>r. r_idempotency (f r) = r_idempotency r" and "by_key k d = Some n"
  shows "by_key k e = Some (if r_run_id n = i then f n else n)"
proof -
  have "find (\<lambda>r. r_idempotency r = Some (scope, k)) (update_where (\<lambda>r. r_run_id r = i) f rs)
    = map_option (\<lambda>r. if r_run_id r = i then f r else r) (find (\<lambda>r. r_idempotency r = Some (scope, k)) rs)" for rs
    using assms(2) by (induction rs) (auto simp: update_where_def)
  with assms(3) show ?thesis
    by (simp add: by_key_def set_run_member(1) [OF assms(1)])
qed

text \<open>A successful insertion under a key is what the key finds afterwards.\<close>

lemma insert_run_by_key:
  assumes "insert_run n d = Inr (x, e)" and "r_idempotency n = Some (scope, k)"
  shows "by_key k e = Some n" and "x = n"
proof -
  have ok: "run_insertable n d" and e: "e = d\<lparr>db_runs := db_runs d @ [n]\<rparr>" and "x = n"
    using assms(1) by (auto simp: insert_run_def txn_simps)
  then show "x = n" by simp
  have "find (\<lambda>r. r_idempotency r = Some (scope, k)) (db_runs d) = None"
    using ok assms(2) by (auto simp: run_insertable_def list_all_iff find_None_iff)
  then show "by_key k e = Some n"
    by (simp add: by_key_def e find_append_new assms(2))
qed

lemma accept_insert_by_key:
  assumes "accept_insert H c a d = Inr (row, e)" and k: "ac_key a = Some k"
  shows "by_key k e = Some row" and "r_request_sha256 row = request_digest H (request_payload (ac_request a))"
proof -
  let ?n = "accepted_run H a"
  have idem: "r_idempotency ?n = Some (scope, k)" and id: "r_run_id ?n = ac_run_id a"
    and sha: "r_request_sha256 ?n = request_digest H (request_payload (ac_request a))"
    by (simp_all add: accepted_run_def Let_def new_run_def k)
  from assms(1) obtain d1 x d2 where ins: "insert_run ?n d1 = Inr (x, d2)"
    and rest: "(if ac_dialogue a then
       (case selected_workflow c of Inl e \<Rightarrow> raiseT e
        | Inr w \<Rightarrow> (let f = (\<lambda>r. r\<lparr>r_workflow_version := w, r_context_snapshot := Some (JObj []),
                              r_context_sha256 := Some (request_digest H (JObj []))\<rparr>)
                    in bindT (set_run (ac_run_id a) f) (\<lambda>_. returnT (f x))))
     else returnT x) d2 = Inr (row, e)"
    by (auto simp: accept_insert_def bindT_Inr)
  note n = insert_run_by_key [OF ins idem]
  have "by_key k e = Some row \<and> r_request_sha256 row = r_request_sha256 ?n"
  proof (cases "ac_dialogue a")
    case False
    with rest n show ?thesis by (simp add: txn_simps)
  next
    case True
    with rest obtain w where w: "selected_workflow c = Inr w"
      by (auto simp: txn_simps split: sum.splits)
    let ?f = "\<lambda>r. r\<lparr>r_workflow_version := w, r_context_snapshot := Some (JObj []),
                   r_context_sha256 := Some (request_digest H (JObj []))\<rparr>"
    from rest True w obtain u where s: "set_run (ac_run_id a) ?f d2 = Inr (u, e)" and row: "row = ?f x"
      by (auto simp: txn_simps)
    have "by_key k e = Some (if r_run_id ?n = ac_run_id a then ?f ?n else ?n)"
      by (rule set_run_by_key [OF s _ n(1)]) simp
    then show ?thesis
      by (simp add: id row n(2))
  qed
  then show "by_key k e = Some row" and "r_request_sha256 row = request_digest H (request_payload (ac_request a))"
    by (simp_all add: sha)
qed

end
