(* ===== verification/WriteExclusion.thy ===== *)
theory WriteExclusion
  imports SystemFacts
begin

text \<open>
  At most one write of an incident is in flight: prepared, released, or released with an unknown
  outcome. New journal entries come from \<open>prepare\<close> alone, which refuses while another run of the
  incident has an unsettled entry, and no entry moves back into flight.
\<close>

definition in_flight :: "op_state \<Rightarrow> bool" where
  "in_flight s = (s \<in> {Prepared, Dispatching, UnknownOutcome})"

definition one_in_flight :: "op_row list \<Rightarrow> bool" where
  "one_in_flight ps = (\<forall>p\<in>set ps. \<forall>q\<in>set ps. o_incident_id p = o_incident_id q
     \<and> in_flight (o_state p) \<and> in_flight (o_state q) \<longrightarrow> o_run_id p = o_run_id q)"

lemma in_flight_earlier: "t \<in> set (later s) \<Longrightarrow> in_flight t \<Longrightarrow> in_flight s"
  by (cases s; cases t) (simp_all add: in_flight_def)

lemma in_flight_unsettled: "in_flight s \<Longrightarrow> unsettled s"
  by (cases s) (simp_all add: in_flight_def unsettled_def)

lemma one_in_flight_evolves:
  assumes one: "one_in_flight ps" and l: "list_all2 op_evolves ps qs"
  shows "one_in_flight qs"
proof -
  have pre: "\<exists>p\<in>set ps. op_evolves p q" if "q \<in> set qs" for q
    using l that by (metis list_all2_conv_all_nth in_set_conv_nth)
  show ?thesis
    unfolding one_in_flight_def
  proof (intro ballI impI, elim conjE)
    fix p q assume p: "p \<in> set qs" and q: "q \<in> set qs" and same: "o_incident_id p = o_incident_id q"
      and fl: "in_flight (o_state p)" "in_flight (o_state q)"
    from pre [OF p] obtain a where a: "a \<in> set ps" "op_evolves a p" by blast
    from pre [OF q] obtain b where b: "b \<in> set ps" "op_evolves b q" by blast
    have "o_incident_id a = o_incident_id b"
      using same by (simp add: op_evolvesD(3) [OF a(2)] op_evolvesD(3) [OF b(2)])
    then have "o_run_id a = o_run_id b"
      using one a(1) b(1) in_flight_earlier [OF op_evolvesD(4) [OF a(2)] fl(1)]
        in_flight_earlier [OF op_evolvesD(4) [OF b(2)] fl(2)] unfolding one_in_flight_def by blast
    then show "o_run_id p = o_run_id q"
      by (simp add: op_evolvesD(2) [OF a(2)] op_evolvesD(2) [OF b(2)])
  qed
qed

section \<open>Only \<open>prepare\<close> adds entries\<close>

definition keeps_ops :: "'a txn \<Rightarrow> bool" where
  "keeps_ops m = (\<forall>d x e. m d = Inr (x, e) \<longrightarrow> length (db_operations e) = length (db_operations d))"

lemma keeps_ops_bind: "keeps_ops m \<Longrightarrow> (\<And>x. keeps_ops (f x)) \<Longrightarrow> keeps_ops (bindT m f)"
  unfolding keeps_ops_def txn_simps by metis

lemma keeps_ops_pure: "keeps_ops (returnT x)" "keeps_ops (raiseT err)" "keeps_ops (askT g)" "keeps_ops (requireT c err)"
  by (auto simp: keeps_ops_def txn_simps)

lemma keeps_ops_set:
  "keeps_ops (set_run i f)" "keeps_ops (set_incident i g)" "keeps_ops (set_op i h)"
  by (auto simp: keeps_ops_def set_run_def set_incident_def set_op_def update_where_def txn_simps)

lemma keeps_ops_if: "keeps_ops a \<Longrightarrow> keeps_ops b \<Longrightarrow> keeps_ops (if c then a else b)"
  by simp

lemma keeps_ops_option: "keeps_ops a \<Longrightarrow> (\<And>y. keeps_ops (f y)) \<Longrightarrow> keeps_ops (case x of None \<Rightarrow> a | Some y \<Rightarrow> f y)"
  by (cases x) simp_all

lemma keeps_ops_sum:
  "(\<And>e. keeps_ops (g e)) \<Longrightarrow> (\<And>y. keeps_ops (f y)) \<Longrightarrow> keeps_ops (case x of Inl e \<Rightarrow> g e | Inr y \<Rightarrow> f y)"
  by (cases x) simp_all

lemma keeps_ops_fence: "keeps_ops b \<Longrightarrow> keeps_ops (fence t0 t1 l b)"
  by (auto simp: keeps_ops_def txn_simps)

lemma keeps_ops_storage: "keeps_ops m \<Longrightarrow> keeps_ops (storage_errors m)"
  by (auto simp: keeps_ops_def txn_simps)

lemma same_rows_keeps: "(\<And>d x e. m d = Inr (x, e) \<Longrightarrow> same_rows d e) \<Longrightarrow> keeps_ops m"
  by (metis keeps_ops_def same_rows_def)

lemma keeps_ops_modify: "(\<And>d. length (db_operations (f d)) = length (db_operations d)) \<Longrightarrow> keeps_ops (modifyT f)"
  by (auto simp: keeps_ops_def txn_simps)

lemmas keeps_intros = keeps_ops_bind keeps_ops_pure keeps_ops_set keeps_ops_if keeps_ops_option keeps_ops_sum
  keeps_ops_fence keeps_ops_storage

lemma keeps_simple:
  "keeps_ops (announce w n t)" "keeps_ops (withdraw w)" "keeps_ops (claim ls w n m t)" "keeps_ops (heartbeat n t0 t1 l)"
  "keeps_ops (mark_checkpoint_started t0 t1 l)" "keeps_ops (finish t0 t1 l out)"
  "keeps_ops (queue_approval i x b t)" "keeps_ops (record_outcome t0 t1 l st rp)"
  unfolding announce_def withdraw_def claim_def heartbeat_def mark_checkpoint_started_def finish_def publish_def
    queue_approval_def assert_revision_def record_outcome_def Let_def
  by (intro keeps_intros keeps_ops_modify; simp)+

lemma keeps_dispatch: "keeps_ops (dispatch t0 t1 l i)"
  unfolding dispatch_def assert_revision_def by (intro keeps_intros keeps_ops_modify) (simp add: update_where_def)

lemma keeps_control: "keeps_ops (control H m c i b p x t)"
  unfolding control_def apply_control_def stop_active_def cancel_interactions_def
  by (intro keeps_intros keeps_ops_modify same_rows_keeps [where m = "message_in_transaction _ _ _ _ _"]
      same_rows_keeps [where m = "supersede_pending _"] same_rows_keeps [where m = "insert_control _"])
    (simp_all add: message_in_transaction_rows supersede_pending_rows insert_control_rows)

lemma keeps_accept_insert: "keeps_ops (accept_insert H c a)"
  unfolding accept_insert_def insert_incident_def insert_run_def Let_def
  by (intro keeps_intros keeps_ops_modify) simp_all

lemma keeps_accept: "keeps_ops (\<lambda>d. accept H c a d0 d d2)"
  unfolding keeps_ops_def
proof (intro allI impI)
  fix d x e assume "accept H c a d0 d d2 = Inr (x, e)"
  then have "e = d \<or> accept_insert H c a d = Inr (x, e)"
    by (auto simp: accept_def Let_def res_simps split: option.splits sum.splits if_splits)
  then show "length (db_operations e) = length (db_operations d)"
    using keeps_accept_insert [of H c a] by (auto simp: keeps_ops_def)
qed

lemma keeps_ops_lift: "keeps_ops (liftT r)"
  by (cases r) (auto simp: keeps_ops_def liftT_def)

lemma keeps_ops_catch: "keeps_ops m \<Longrightarrow> (\<And>e. h e = Inl x) \<Longrightarrow> keeps_ops (\<lambda>d. catchE (m d) p h)"
  by (auto simp: keeps_ops_def catchE_def split: sum.splits if_splits)

lemma keeps_message: "keeps_ops (message_in_transaction mid iid k c t)" "keeps_ops (insert_message m)"
    "keeps_ops (insert_control k')" "keeps_ops (set_control cid f)"
  by (rule same_rows_keeps, erule message_in_transaction_rows, rule same_rows_keeps, erule insert_message_rows,
      rule same_rows_keeps, erule insert_control_rows)
    (auto simp: set_control_def intro: keeps_ops_modify)

lemma keeps_append_message: "keeps_ops (append_message mid iid m t)"
  unfolding append_message_def by (rule keeps_ops_catch) (intro keeps_intros keeps_message, simp)

lemma keeps_insert_run: "keeps_ops (insert_run n)"
  unfolding insert_run_def by (intro keeps_intros keeps_ops_modify) simp

lemma keeps_accept_round: "keeps_ops (accept_round H cx c ids iid mid key parent previous)"
  unfolding accept_round_def open_round_def Let_def
  by (intro keeps_intros keeps_ops_lift keeps_insert_run)

lemma keeps_dialogue:
  "keeps_ops (answer H J f mid cid iid rid ab t)" "keeps_ops (accept_interaction H mid ids iid b parent refs)"
  "keeps_ops (save_progress t0 t1 l p)" "keeps_ops (save_recheck t0 t1 l hid result)"
  "keeps_ops (activate_one H cx c ids cid)"
  unfolding answer_def give_answer_def accept_interaction_def interaction_open_def interaction_message_def
    save_progress_def save_recheck_def activate_one_def start_pending_def Let_def
  by (intro keeps_intros keeps_ops_lift keeps_message keeps_insert_run keeps_accept_round keeps_ops_sum keeps_ops_modify; simp)+

lemma keeps_complete: "keeps_ops (complete H cx c ids mid t0 t1 l output assistant investigate)"
  unfolding complete_def child_round_def assistant_reply_def Let_def
  by (intro keeps_intros keeps_ops_lift keeps_accept_round keeps_append_message)
    (cases assistant; auto intro!: keeps_intros keeps_append_message)

lemma keeps_windows:
  "keeps_ops (open_window ws t0 t1 initial)" "keeps_ops (save_window ws did t0 t1 payload)"
  "keeps_ops (activate_due_one H ids did)"
  unfolding open_window_def save_window_def window_txn_def schedule_def activate_due_one_def drop_delayed_def
    delayed_terminal_def watch_delayed_def launch_delayed_def set_delayed_def Let_def
  by (intro keeps_intros keeps_ops_lift keeps_insert_run keeps_ops_modify; simp)+

lemma commit_keeps:
  assumes "commit s (m (s_db s)) f = Inr t" and "keeps_ops m" and "\<And>x u. s_db (f x u) = s_db u"
  shows "length (db_operations (s_db t)) = length (db_operations (s_db s))"
  using assms by (auto simp: commit_Inr keeps_ops_def)

lemma perform_keeps_ops:
  assumes p: "perform H e s = Inr t" and "\<nexists>t0 t1 l q. e = Preparing t0 t1 l q"
  shows "length (db_operations (s_db t)) = length (db_operations (s_db s))"
proof (cases e)
  case (Accepting c a d0 d2)
  show ?thesis
    by (rule commit_keeps [OF p [unfolded Accepting perform.simps] keeps_accept]) simp
next
  case (Announcing w n t0)
  show ?thesis
    by (rule commit_keeps [OF p [unfolded Announcing perform.simps] keeps_simple(1)]) simp
next
  case (Withdrawing w t0)
  show ?thesis
    by (rule commit_keeps [OF p [unfolded Withdrawing perform.simps] keeps_simple(2)]) simp
next
  case (Claiming ls w n m t0)
  show ?thesis
    by (rule commit_keeps [OF p [unfolded Claiming perform.simps] keeps_simple(3)]) simp
next
  case (Beating n t0 t1 l)
  show ?thesis
    by (rule commit_keeps [OF p [unfolded Beating perform.simps] keeps_simple(4)]) simp
next
  case (Marking t0 t1 l)
  show ?thesis
    by (rule commit_keeps [OF p [unfolded Marking perform.simps] keeps_simple(5)]) simp
next
  case (Finishing t0 t1 l out)
  show ?thesis
    by (rule commit_keeps [OF p [unfolded Finishing perform.simps] keeps_simple(6)]) simp
next
  case (Deciding i x b t0)
  show ?thesis
    by (rule commit_keeps [OF p [unfolded Deciding perform.simps] keeps_simple(7)]) simp
next
  case (Recording t0 t1 l st rp)
  show ?thesis
    by (rule commit_keeps [OF p [unfolded Recording perform.simps] keeps_simple(8)]) simp
next
  case (Sending t0 t1 l i)
  show ?thesis
    by (rule commit_keeps [OF p [unfolded Sending perform.simps] keeps_dispatch]) simp
next
  case (Controlling m k i b q x t0)
  show ?thesis
    by (rule commit_keeps [OF p [unfolded Controlling perform.simps] keeps_control]) simp
next
  case (Answering J f m k i r b t0)
  show ?thesis
    by (rule commit_keeps [OF p [unfolded Answering perform.simps] keeps_dialogue(1)]) simp
next
  case (Noting m i x t0)
  show ?thesis
    by (rule commit_keeps [OF p [unfolded Noting perform.simps] keeps_append_message]) simp
next
  case (Rounding cx ac ids i m k q v)
  show ?thesis
    by (rule commit_keeps [OF p [unfolded Rounding perform.simps] keeps_accept_round]) simp
next
  case (Asking m ids i b q refs)
  show ?thesis
    by (rule commit_keeps [OF p [unfolded Asking perform.simps] keeps_dialogue(2)]) simp
next
  case (Progressing t0 t1 l q)
  show ?thesis
    by (rule commit_keeps [OF p [unfolded Progressing perform.simps] keeps_dialogue(3)]) simp
next
  case (Rechecked t0 t1 l h r)
  show ?thesis
    by (rule commit_keeps [OF p [unfolded Rechecked perform.simps] keeps_dialogue(4)]) simp
next
  case (Completing cx ac ids m t0 t1 l out a iv)
  show ?thesis
    by (rule commit_keeps [OF p [unfolded Completing perform.simps] keeps_complete]) simp
next
  case (Activating cx ac ids k)
  show ?thesis
    by (rule commit_keeps [OF p [unfolded Activating perform.simps] keeps_dialogue(5)]) simp
next
  case (Opening ws t0 t1 q)
  show ?thesis
    by (rule commit_keeps [OF p [unfolded Opening perform.simps] keeps_windows(1)]) simp
next
  case (Saving ws i t0 t1 q)
  show ?thesis
    by (rule commit_keeps [OF p [unfolded Saving perform.simps] keeps_windows(2)]) simp
next
  case (Waking ids i)
  show ?thesis
    by (rule commit_keeps [OF p [unfolded Waking perform.simps] keeps_windows(3)]) simp
qed (use assms(2) in blast)

section \<open>The invariant\<close>

lemma rows_evolve_length: "rows_evolve R xs ys \<Longrightarrow> length ys = length xs \<Longrightarrow> list_all2 R xs ys"
  unfolding rows_evolve_def using list_all2_lengthD [of R xs] by force

lemma prepare_cases:
  assumes "prepare H t0 t1 l q d = Inr (p, e)"
  obtains "e = d"
  | "e = d\<lparr>db_operations := db_operations d @ [new_op H l q t1]\<rparr>"
      and "\<forall>p\<in>set (db_operations d). o_incident_id p = r_incident_id (le_run l)
            \<and> o_run_id p \<noteq> r_run_id (le_run l) \<longrightarrow> \<not> unsettled (o_state p)"
  using assms by (auto simp: prepare_def insert_op_def txn_simps list_ex_iff assert_revision_Inr split: option.splits)

lemma one_in_flight_prepare:
  assumes one: "one_in_flight (db_operations d)" and p: "prepare H t0 t1 l q d = Inr (p, e)"
  shows "one_in_flight (db_operations e)"
  using p
proof (cases rule: prepare_cases)
  case 1
  with one show ?thesis by simp
next
  case 2
  let ?n = "new_op H l q t1"
  have n: "o_incident_id ?n = r_incident_id (le_run l)" "o_run_id ?n = r_run_id (le_run l)"
    by (simp_all add: new_op_def Let_def)
  have other: "o_run_id p = o_run_id ?n"
    if "p \<in> set (db_operations d)" "o_incident_id p = o_incident_id ?n" "in_flight (o_state p)" for p
    using 2(2) that n in_flight_unsettled by metis
  show ?thesis
    unfolding 2(1) one_in_flight_def
  proof (intro ballI impI, elim conjE)
    fix p r
    assume m: "p \<in> set (db_operations (d\<lparr>db_operations := db_operations d @ [?n]\<rparr>))"
        "r \<in> set (db_operations (d\<lparr>db_operations := db_operations d @ [?n]\<rparr>))"
      and i: "o_incident_id p = o_incident_id r" and f: "in_flight (o_state p)" "in_flight (o_state r)"
    consider "p = ?n" | "r = ?n" | "p \<in> set (db_operations d)" "r \<in> set (db_operations d)"
      using m by auto
    then show "o_run_id p = o_run_id r"
    proof cases
      case 1
      then show ?thesis
        using m(2) other [of r] i f(2) by auto
    next
      case 2
      then show ?thesis
        using m(1) other [of p] i f(1) by auto
    next
      case 3
      with one i f show ?thesis
        unfolding one_in_flight_def by blast
    qed
  qed
qed

lemma one_in_flight_perform:
  assumes one: "one_in_flight (db_operations (s_db s))" and c: "consistent (s_db s)" and p: "perform H e s = Inr t"
  shows "one_in_flight (db_operations (s_db t))"
proof (cases "\<exists>t0 t1 l q. e = Preparing t0 t1 l q")
  case True
  then obtain t0 t1 l q where e: "e = Preparing t0 t1 l q"
    by blast
  with p obtain x d where "prepare H t0 t1 l q (s_db s) = Inr (x, d)" and t: "s_db t = d"
    by (auto simp: commit_Inr)
  then show ?thesis
    unfolding t by (intro one_in_flight_prepare [OF one])
next
  case False
  have "rows_evolve op_evolves (db_operations (s_db s)) (db_operations (s_db t))"
    using perform_safe [OF p c] by (simp add: evolves_def)
  then have "list_all2 op_evolves (db_operations (s_db s)) (db_operations (s_db t))"
    by (rule rows_evolve_length) (rule perform_keeps_ops [OF p False])
  then show ?thesis
    by (rule one_in_flight_evolves [OF one])
qed

interpretation flights: run_invariant "\<lambda>s. one_in_flight (db_operations (s_db s))" H for H
proof
  show "one_in_flight (db_operations (s_db start_sys))"
    by (simp add: one_in_flight_def start_sys_def empty_db_def)
  fix s e t n
  assume "one_in_flight (db_operations (s_db s))" "consistent (s_db s)" "perform H e s = Inr t"
  then have "one_in_flight (db_operations (s_db t))"
    by (rule one_in_flight_perform)
  then show "one_in_flight (db_operations (s_db (t\<lparr>s_now := n\<rparr>)))"
    by simp
qed

end
