(* ===== verification/SystemProps.thy ===== *)
theory SystemProps
  imports WriteExclusion
begin

text \<open>
  The promises of the runtime over every run of the system: who may write, what is dispatched
  and how often, what survives a stop, a crash or a repeated request.
\<close>

section \<open>A concrete run\<close>

text \<open>
  One incident: accepted, diagnosed by worker w1 up to the approval, approved, taken over by
  worker w2, its write prepared and released, and then stopped by the user.
\<close>

definition run_hash :: "json \<Rightarrow> string" where
  "run_hash j = ''h''"

definition demo_args :: accept_args where
  "demo_args = \<lparr>ac_incident_id = ''inc-1'', ac_run_id = ''run-1'', ac_thread_id = ''th-1'',
     ac_request = \<lparr>cr_namespace = ''demo'', cr_service_name = ''web'', cr_description = ''down''\<rparr>,
     ac_key = Some ''key-1'', ac_dialogue = True, ac_time = 1\<rparr>"

definition demo_api :: api_settings where
  "demo_api = \<lparr>as_investigation_enabled = False, as_queued = True\<rparr>"

definition demo1 :: sys where
  "demo1 = the (play run_hash [Accepting demo_api demo_args empty_db empty_db,
     Claiming [] ''w1'' 10 3 2] start_sys)"

definition demo_lease1 :: lease where
  "demo_lease1 = hd (s_leases demo1)"

definition waiting_outcome :: outcome where
  "waiting_outcome = \<lparr>out_status = WaitingApproval, out_phase = Some ''waiting_approval'', out_error = None,
     out_retry = None, out_snapshot = None, out_question = None, out_adopted = None\<rparr>"

definition demo2 :: sys where
  "demo2 = the (play run_hash [Finishing 3 3 demo_lease1 waiting_outcome,
     Deciding ''run-1'' (JStr ''yes'') ''b'' 4, Claiming [] ''w2'' 10 3 5] demo1)"

definition demo_lease2 :: lease where
  "demo_lease2 = last (s_leases demo2)"

definition run_request :: op_request where
  "run_request = \<lparr>rq_approval_id = ''a'', rq_plan_revision = ''p'', rq_plan = JNull, rq_action = ''patch'',
     rq_before = JNull, rq_target = JNull, rq_patch = JNull\<rparr>"

definition demo3 :: sys where
  "demo3 = the (play run_hash [Preparing 6 6 demo_lease2 run_request, Sending 6 6 demo_lease2 ''op-h''] demo2)"

definition stop_body :: control_body where
  "stop_body = \<lparr>cb_action = StopAction, cb_key = ''stop-1'', cb_content = ''stop''\<rparr>"

definition demo4 :: sys where
  "demo4 = the (play run_hash [Controlling ''m-1'' ''c-1'' ''inc-1'' stop_body (Some ''run-1'') JNull 7] demo3)"

text \<open>A second incident while w2 works on the first.\<close>

definition demo_two :: sys where
  "demo_two = the (play run_hash [Accepting demo_api (demo_args\<lparr>ac_incident_id := ''inc-2'',
     ac_run_id := ''run-2'', ac_thread_id := ''th-2'', ac_key := None, ac_time := 6\<rparr>) empty_db empty_db] demo2)"

lemma play_the: "play H es s \<noteq> None \<Longrightarrow> steps H s (the (play H es s))"
  by (auto intro: steps_play [OF steps_refl])

lemma demo1_steps: "steps run_hash start_sys demo1"
  unfolding demo1_def by (rule play_the) code_simp

lemma demo2_steps: "steps run_hash demo1 demo2"
  unfolding demo2_def by (rule play_the) code_simp

lemma demo3_steps: "steps run_hash demo2 demo3"
  unfolding demo3_def by (rule play_the) code_simp

lemma demo4_steps: "steps run_hash demo3 demo4"
  unfolding demo4_def by (rule play_the) code_simp

lemma demo_two_steps: "steps run_hash demo2 demo_two"
  unfolding demo_two_def by (rule play_the) code_simp

lemma demo_reachable:
  "reachable run_hash demo1" "reachable run_hash demo2" "reachable run_hash demo3" "reachable run_hash demo4"
  "reachable run_hash demo_two"
  unfolding reachable_def using demo_two_steps demo1_steps demo2_steps demo3_steps demo4_steps steps_trans by blast+

section \<open>Ownership\<close>

lemma fence_owner:
  assumes "fence t0 t1 l body d = Inr (x, e)"
  shows "\<exists>r\<in>set (db_runs d). owns t1 l r"
  using assms by (auto simp: txn_simps list_ex_iff)

lemma lease_key_inj: "leases_ok s \<Longrightarrow> l \<in> set (s_leases s) \<Longrightarrow> k \<in> set (s_leases s) \<Longrightarrow> lease_key l = lease_key k \<Longrightarrow> l = k"
  by (simp add: leases_ok_def distinct_map inj_on_def)

text \<open>C5. Two leases of one run that both pass the fence of the same database are the same
  lease: at any time at most one worker can write for a run, whatever the workers' clocks, crashes
  and take-overs.\<close>

theorem lease_exclusive:
  assumes r: "reachable H s" and l: "l \<in> set (s_leases s)" and k: "k \<in> set (s_leases s)"
    and same: "r_run_id (le_run l) = r_run_id (le_run k)"
    and fl: "fence t0 t1 l body (s_db s) = Inr (x, d)" and fk: "fence u0 u1 k body' (s_db s) = Inr (y, e)"
  shows "l = k"
proof -
  note c = reachable_consistent [OF r]
  obtain q where q: "q \<in> set (db_runs (s_db s))" "owns t1 l q"
    using fence_owner [OF fl] by blast
  obtain p where p: "p \<in> set (db_runs (s_db s))" "owns u1 k p"
    using fence_owner [OF fk] by blast
  have "p = q"
    by (rule run_id_inj [OF c p(1) q(1)]) (use p(2) q(2) same in \<open>simp add: owns_def\<close>)
  then have "lease_key l = lease_key k"
    using p(2) q(2) same by (simp add: owns_def lease_key_def)
  then show ?thesis
    by (rule lease_key_inj [OF leases.holds [OF r] l k])
qed

lemma lease_exclusive_witness:
  "fence 6 6 demo_lease2 (returnT ()) (s_db demo2) = Inr ((), s_db demo2) \<and> last (s_leases demo2) = demo_lease2"
proof -
  have "let s = demo2; l = last (s_leases s) in fence 6 6 demo_lease2 (returnT ()) (s_db s) = Inr ((), s_db s)
      \<and> l \<in> set (s_leases s) \<and> demo_lease2 \<in> set (s_leases s) \<and> r_run_id (le_run l) = r_run_id (le_run demo_lease2)
      \<and> fence 6 6 l (returnT ()) (s_db s) = Inr ((), s_db s)"
    by code_simp
  then have f: "fence 6 6 demo_lease2 (returnT ()) (s_db demo2) = Inr ((), s_db demo2)"
    "last (s_leases demo2) \<in> set (s_leases demo2)" "demo_lease2 \<in> set (s_leases demo2)"
    "r_run_id (le_run (last (s_leases demo2))) = r_run_id (le_run demo_lease2)"
    "fence 6 6 (last (s_leases demo2)) (returnT ()) (s_db demo2) = Inr ((), s_db demo2)"
    by (simp_all only: Let_def)
  show ?thesis
    using f(1) lease_exclusive [OF demo_reachable(2) f(2,3,4,5,1)] by simp
qed

lemma superseded_no_owner:
  assumes r: "reachable H s" and l: "l \<in> set (s_leases s)" and k: "k \<in> set (s_leases s)"
    and same: "r_run_id (le_run l) = r_run_id (le_run k)" and lt: "r_lease_epoch (le_run l) < r_lease_epoch (le_run k)"
    and st: "steps H s t"
  shows "\<not> list_ex (owns n l) (db_runs (s_db t))"
proof
  assume "list_ex (owns n l) (db_runs (s_db t))"
  then obtain q where q: "q \<in> set (db_runs (s_db t))" "owns n l q"
    by (auto simp: list_ex_iff)
  from leases.holds [OF r] k obtain p where p: "p \<in> set (db_runs (s_db s))" "r_run_id p = r_run_id (le_run k)"
      "r_lease_epoch (le_run k) \<le> r_lease_epoch p"
    by (auto simp: leases_ok_def)
  note t = steps_safe [OF st reachable_consistent [OF r]]
  from evolves_run [OF conjunct2 [OF t] p(1)] obtain p' where p': "p' \<in> set (db_runs (s_db t))" "run_follows p p'"
    by blast
  have "r_run_id p' = r_run_id q"
    using q(2) p(2) same by (simp add: owns_def run_followsD(1) [OF p'(2)])
  then have "p' = q"
    by (rule run_id_inj [OF conjunct1 [OF t] p'(1) q(1)])
  with run_followsD(4) [OF p'(2)] p(3) lt q(2) show False
    by (simp add: owns_def)
qed

text \<open>Once a run has been claimed again, the older lease is lost for good: in every later state
  its heartbeat, its checkpoint mark, its preparation, its release of a write, its outcome record and
  its result are all refused.\<close>

theorem superseded_lease_lost:
  assumes "reachable H s" and "l \<in> set (s_leases s)" and "k \<in> set (s_leases s)"
    and "r_run_id (le_run l) = r_run_id (le_run k)" and "r_lease_epoch (le_run l) < r_lease_epoch (le_run k)"
    and "steps H s t"
  shows "let lost = LeaseLost ''run lease is no longer owned'' in
     heartbeat n t0 t1 l (s_db t) = Inl lost \<and> mark_checkpoint_started t0 t1 l (s_db t) = Inl lost
     \<and> prepare H t0 t1 l q (s_db t) = Inl lost \<and> dispatch t0 t1 l i (s_db t) = Inl lost
     \<and> finish t0 t1 l out (s_db t) \<noteq> Inr x \<and> record_outcome t0 t1 l st rp (s_db t) \<noteq> Inr y"
proof -
  have u: "fence t0 t1 l body (s_db t) = Inl (LeaseLost ''run lease is no longer owned'')" for body :: "unit txn"
    by (rule fence_lost [OF superseded_no_owner [OF assms]])
  have o: "fence t0 t1 l body (s_db t) = Inl (LeaseLost ''run lease is no longer owned'')" for body :: "op_row txn"
    by (rule fence_lost [OF superseded_no_owner [OF assms]])
  have r: "fence t0 t1 l body (s_db t) = Inl (LeaseLost ''run lease is no longer owned'')" for body :: "run_status txn"
    by (rule fence_lost [OF superseded_no_owner [OF assms]])
  show ?thesis
    by (simp add: Let_def heartbeat_def mark_checkpoint_started_def prepare_def dispatch_def finish_def
        record_outcome_def u o r raiseT_def)
qed

lemma superseded_lease_lost_witness:
  "dispatch 7 7 demo_lease1 ''op-h'' (s_db demo3) = Inl (LeaseLost ''run lease is no longer owned'')"
proof -
  have f: "demo_lease1 \<in> set (s_leases demo2)" "demo_lease2 \<in> set (s_leases demo2)"
    "r_run_id (le_run demo_lease1) = r_run_id (le_run demo_lease2)"
    "r_lease_epoch (le_run demo_lease1) < r_lease_epoch (le_run demo_lease2)"
    by code_simp+
  show ?thesis
    using superseded_lease_lost [OF demo_reachable(2) f demo3_steps, of 0 7 7 run_request "''op-h''"]
    by (simp add: Let_def)
qed

text \<open>A lease that has not expired cannot be taken over: a claim at a time at which the fence
  would let the owner pass never returns the owner's run.\<close>

theorem valid_lease_not_stolen:
  assumes c: "reachable H s" and own: "list_ex (owns t l) (db_runs (s_db s))"
    and cl: "claim locked w n m t (s_db s) = Inr (Some k, d)"
  shows "r_run_id (le_run k) \<noteq> r_run_id (le_run l)"
proof
  assume eq: "r_run_id (le_run k) = r_run_id (le_run l)"
  from claim_Some [OF cl] obtain r where r: "candidate locked t (s_db s) = Some r" "le_run k = claimed w n m t r"
    by blast
  note cand = candidateD [OF r(1)]
  have "owns t l r"
    by (rule owned_running [OF reachable_consistent [OF c] own cand(1)]) (use eq r(2) in simp)
  with cand(2) show False
    by (auto simp: owns_def claimable_def due_def split: option.splits)
qed

lemma valid_lease_not_stolen_witness:
  "\<exists>k d. claim [] ''w3'' 10 3 6 (s_db demo_two) = Inr (Some k, d) \<and> r_run_id (le_run k) \<noteq> r_run_id (le_run demo_lease2)"
proof -
  have "case claim [] ''w3'' 10 3 6 (s_db demo_two) of Inr (Some k, d) \<Rightarrow> True | _ \<Rightarrow> False"
    by code_simp
  then obtain k d where k: "claim [] ''w3'' 10 3 6 (s_db demo_two) = Inr (Some k, d)"
    by (auto split: sum.splits option.splits prod.splits)
  have "list_ex (owns 6 demo_lease2) (db_runs (s_db demo_two))"
    by code_simp
  from valid_lease_not_stolen [OF demo_reachable(5) this k] k show ?thesis
    by blast
qed

end
