(* ===== verification/JournalProps.thy ===== *)
theory JournalProps
  imports SystemProps
begin

text \<open>
  What runs of the system promise of the journal, of stops, of repeated requests and of results.
\<close>

section \<open>Writes\<close>

text \<open>C6. An operation is released to the cluster at most once in any run of the system, and every
  released operation has a journal entry that has left the prepared state.\<close>

theorem dispatched_at_most_once:
  assumes "reachable H s"
  shows "distinct (s_sent s) \<and> set (s_sent s) \<subseteq>
    o_operation_id ` {p \<in> set (db_operations (s_db s)). o_state p \<in> set (later Dispatching)}"
  using sent.holds [OF assms] by (auto simp: sent_ok_def image_iff)

lemma dispatched_at_most_once_witness: "distinct (s_sent demo3) \<and> s_sent demo3 = [''op-h'']"
proof -
  have "s_sent demo3 = [''op-h'']"
    by code_simp
  with dispatched_at_most_once [OF demo_reachable(3)] show ?thesis
    by simp
qed

text \<open>C7. Two journal entries of one incident that are prepared, released or of unknown outcome belong
  to the same run: an incident never has two writes in flight.\<close>

theorem one_write_in_flight:
  assumes "reachable H s" and "p \<in> set (db_operations (s_db s))" and "q \<in> set (db_operations (s_db s))"
    and "o_incident_id p = o_incident_id q" and "in_flight (o_state p)" and "in_flight (o_state q)"
  shows "p = q"
proof -
  have "o_run_id p = o_run_id q"
    using flights.holds [OF assms(1)] assms(2-6) unfolding one_in_flight_def by blast
  moreover have "inj_on o_run_id (set (db_operations (s_db s)))"
    using reachable_consistent [OF assms(1)] by (simp add: consistent_def keys_unique_def distinct_map)
  ultimately show ?thesis
    using assms(2,3) by (simp add: inj_on_def)
qed

lemma one_write_in_flight_witness:
  "hd (db_operations (s_db demo3)) = last (db_operations (s_db demo3)) \<and> o_state (hd (db_operations (s_db demo3))) = Dispatching"
proof -
  have "let d = s_db demo3; p = hd (db_operations d); q = last (db_operations d) in
      p \<in> set (db_operations d) \<and> q \<in> set (db_operations d) \<and> o_incident_id p = o_incident_id q
      \<and> in_flight (o_state p) \<and> in_flight (o_state q) \<and> o_state p = Dispatching"
    by code_simp
  then have f: "hd (db_operations (s_db demo3)) \<in> set (db_operations (s_db demo3))"
    "last (db_operations (s_db demo3)) \<in> set (db_operations (s_db demo3))"
    "o_incident_id (hd (db_operations (s_db demo3))) = o_incident_id (last (db_operations (s_db demo3)))"
    "in_flight (o_state (hd (db_operations (s_db demo3))))" "in_flight (o_state (last (db_operations (s_db demo3))))"
    "o_state (hd (db_operations (s_db demo3))) = Dispatching"
    unfolding Let_def by blast+
  show ?thesis
    using one_write_in_flight [OF demo_reachable(3) f(1-5)] f(6) by simp
qed

text \<open>C33. A journal entry is never lost or rewritten: in every later state its run still has an entry
  with the same approved plan, approval, target and patch, its state has only moved forward, and a
  response or a result once recorded is unchanged.\<close>

theorem journal_only_advances:
  assumes r: "reachable H s" and st: "steps H s t" and p: "find_op i (s_db s) = Some p"
  shows "\<exists>q. find_op i (s_db t) = Some q \<and> op_identity q = op_identity p \<and> o_state q \<in> set (later (o_state p))
    \<and> (o_response p \<noteq> None \<longrightarrow> o_response q = o_response p)
    \<and> (o_result p \<noteq> None \<longrightarrow> o_result q = o_result p)"
proof -
  note t = steps_safe [OF st reachable_consistent [OF r]]
  from find_op_mem [OF p] have pm: "p \<in> set (db_operations (s_db s))" "o_run_id p = i"
    by simp_all
  from evolves_op [OF conjunct2 [OF t] pm(1)] obtain q where q: "q \<in> set (db_operations (s_db t))" "op_evolves p q"
    by blast
  have "find_op i (s_db t) = Some q"
    using conjunct1 [OF t] find_unique [of o_run_id "db_operations (s_db t)" q] q(1) pm(2)
    by (simp add: find_op_def consistent_def keys_unique_def op_evolvesD(2) [OF q(2)])
  with q(2) show ?thesis
    by (intro exI [of _ q]) (auto simp: op_evolves_def)
qed

lemma journal_only_advances_witness:
  "find_op ''run-1'' (s_db demo4) \<noteq> None \<and> map_option o_state (find_op ''run-1'' (s_db demo3)) = Some Dispatching"
proof -
  have st: "map_option o_state (find_op ''run-1'' (s_db demo3)) = Some Dispatching"
    by code_simp
  then obtain p where "find_op ''run-1'' (s_db demo3) = Some p"
    by auto
  from journal_only_advances [OF demo_reachable(3) demo4_steps this] st show ?thesis
    by auto
qed

section \<open>Stops\<close>

lemma prepare_current:
  assumes "prepare H t0 t1 l q d = Inr x"
  shows "current_revision (r_run_id (le_run l)) d"
proof -
  have "prepare H t0 t1 l q d = Inr (fst x, snd x)"
    using assms by simp
  then show ?thesis
    by (simp add: prepare_def assert_revision_Inr txn_simps del: prod.collapse)
qed

lemma dispatch_current:
  assumes "dispatch t0 t1 l i d = Inr x"
  shows "current_revision (r_run_id (le_run l)) d"
proof -
  obtain u e where "x = (u, e)"
    by (cases x)
  with assms dispatch_Inr(2) show ?thesis
    by blast
qed

text \<open>C32. A new control request of the user revokes the run it was made against, and every run of the
  incident that had ended: in no later state, whatever answers, rounds or retries follow, can a decision
  be queued for it, a write of it be prepared, or a prepared write of it be released, by whatever lease.\<close>

theorem control_revokes_writes:
  assumes r: "reachable H s" and k: "control H mid cid iid b expected snap t (s_db s) = Inr (c, d)"
    and new: "find_control iid (cb_key b) (s_db s) = None"
    and run: "find_run rid (s_db s) = Some row" "r_incident_id row = iid"
    and which: "terminal (r_status row) \<or> expected = Some rid"
    and st: "steps H (s\<lparr>s_db := d\<rparr>) u" and l: "r_run_id (le_run l) = rid"
  shows "queue_approval rid dec bind n (s_db u) = Inl ApprovalConflict
    \<and> prepare H t0 t1 l q (s_db u) \<noteq> Inr x \<and> dispatch t0 t1 l i (s_db u) \<noteq> Inr y"
proof -
  have d: "consistent d"
    by (rule conjunct1 [OF safeD [OF safe_control reachable_consistent [OF r] k]])
  note row = find_run_mem [OF run(1)]
  have "revoked (r_run_id row) d"
    by (rule control_revokes_run [OF reachable_consistent [OF r] k new conjunct1 [OF row] run(2)])
      (use which conjunct2 [OF row] in simp)
  then have "revoked rid d"
    by (simp only: conjunct2 [OF row])
  moreover have u: "evolves d (s_db u)" "consistent (s_db u)"
    using steps_safe [OF st] d by simp_all
  ultimately have rv: "revoked rid (s_db u)"
    by (rule revoked_evolves)
  then have no: "\<not> current_revision rid (s_db u)"
    by (rule revoked_not_current)
  obtain w where w: "find_run rid (s_db u) = Some w"
    using rv by (cases "find_run rid (s_db u)") (simp_all add: revoked_def)
  have "queue_approval rid dec bind n (s_db u) = Inl ApprovalConflict"
    using no w by (simp add: queue_approval_def assert_revision_def bindT_def askT_def requireT_def Let_def)
  moreover have "prepare H t0 t1 l q (s_db u) \<noteq> Inr x"
    using no prepare_current [of H t0 t1 l q "s_db u" x] by (auto simp: l)
  moreover have "dispatch t0 t1 l i (s_db u) \<noteq> Inr y"
    using no dispatch_current [of t0 t1 l i "s_db u" y] by (auto simp: l)
  ultimately show ?thesis
    by blast
qed

lemma control_revokes_writes_witness:
  "queue_approval ''run-1'' (JStr ''yes'') ''b'' 8 (s_db demo4) = Inl ApprovalConflict"
proof -
  let ?c = "control run_hash ''m-1'' ''c-1'' ''inc-1'' stop_body (Some ''run-1'') JNull 7 (s_db demo3)"
  have "let d = s_db demo3; c = control run_hash ''m-1'' ''c-1'' ''inc-1'' stop_body (Some ''run-1'') JNull 7 d in
      isOK c \<and> find_control ''inc-1'' (cb_key stop_body) d = None
      \<and> map_option r_incident_id (find_run ''run-1'' d) = Some ''inc-1''
      \<and> r_run_id (le_run demo_lease2) = ''run-1'' \<and> (case c of Inr (x, d) \<Rightarrow> d = s_db demo4 | _ \<Rightarrow> False)"
    by code_simp
  then have c: "isOK ?c" "find_control ''inc-1'' (cb_key stop_body) (s_db demo3) = None"
    "map_option r_incident_id (find_run ''run-1'' (s_db demo3)) = Some ''inc-1''"
    "r_run_id (le_run demo_lease2) = ''run-1''"
    "case ?c of Inr (x, d) \<Rightarrow> d = s_db demo4 | _ \<Rightarrow> False"
    by (simp_all only: Let_def)
  from c(1) obtain x d where k: "?c = Inr (x, d)"
    by (auto simp: isOK_iff)
  from c(3) obtain row where row: "find_run ''run-1'' (s_db demo3) = Some row" "r_incident_id row = ''inc-1''"
    by auto
  have "d = s_db demo4"
    using c(5) by (simp add: k)
  with control_revokes_writes [OF demo_reachable(3) k c(2) row _ steps_refl c(4), of "JStr ''yes''" "''b''" 8]
  show ?thesis
    by simp
qed

end
