(* ===== verification/RunProps.thy ===== *)
theory RunProps
  imports SystemProps
begin

text \<open>
  What runs of the system promise of the rows of \<open>runs\<close>: one active run per incident, final
  statuses, one run per idempotency key, one decision per run, and results that respect a stop and
  an uncertain write.
\<close>

section \<open>Statuses\<close>

text \<open>An incident never has two active runs of one kind, and a run that has ended keeps its
  status in every later state: no worker, user or request brings it back.\<close>

theorem ended_runs_stay_ended:
  assumes r: "reachable H s" and st: "steps H s t" and row: "find_run i (s_db s) = Some row"
    and fin: "terminal (r_status row)"
  shows "\<exists>q. find_run i (s_db t) = Some q \<and> r_status q = r_status row \<and> r_incident_id q = r_incident_id row
    \<and> one_active (db_runs (s_db t)) \<and> \<not> claimable n q"
proof -
  note t = steps_safe [OF st reachable_consistent [OF r]]
  from evolves_find_run [OF conjunct2 [OF t] conjunct1 [OF t] row] obtain q
    where q: "find_run i (s_db t) = Some q" "run_follows row q"
    by blast
  have "r_status q = r_status row"
    by (rule run_followsD(6) [OF q(2) fin])
  moreover have "\<not> claimable n q"
    using claimable_active fin calculation by metis
  moreover have "one_active (db_runs (s_db t))"
    using t by (simp add: consistent_def)
  ultimately show ?thesis
    using q(1) run_followsD(2) [OF q(2)] by blast
qed

text \<open>The first incident stopped before any write.\<close>

definition demo_stopped :: sys where
  "demo_stopped = the (play run_hash [Controlling ''m-1'' ''c-1'' ''inc-1'' stop_body (Some ''run-1'') JNull 3] demo1)"

lemma demo_stopped_steps: "steps run_hash demo1 demo_stopped"
  unfolding demo_stopped_def by (rule play_the) code_simp

lemma demo_stopped_reachable: "reachable run_hash demo_stopped"
  by (rule reachable_steps [OF demo_reachable(1) demo_stopped_steps])

lemma ended_runs_stay_ended_witness:
  "map_option r_status (find_run ''run-1'' (s_db demo_stopped)) = Some RunCancelled \<and> one_active (db_runs (s_db demo_stopped))"
proof -
  have s: "map_option r_status (find_run ''run-1'' (s_db demo_stopped)) = Some RunCancelled"
    by code_simp
  then obtain row where row: "find_run ''run-1'' (s_db demo_stopped) = Some row" "r_status row = RunCancelled"
    by auto
  have "terminal (r_status row)"
    by (simp add: row terminal_def)
  from ended_runs_stay_ended [OF demo_stopped_reachable steps_refl row(1) this, of 0] s show ?thesis
    by blast
qed

section \<open>Acceptance\<close>

text \<open>C36. Creating an incident is idempotent under its key: after a request was accepted, the same
  request under the same key returns the run created first and changes nothing, in every later
  state; another request under the key, one whose digest differs, is refused as a conflict.\<close>

theorem accept_idempotent:
  assumes r: "reachable H s" and acc: "accept_insert H c a (s_db s) = Inr (row, d)" and key: "ac_key a = Some k"
    and st: "steps H (s\<lparr>s_db := d\<rparr>) t"
    and again: "ac_key b = Some k" and vk: "validate_key (Some k) = Inr ()"
  shows "(request_digest H (request_payload (ac_request b)) = request_digest H (request_payload (ac_request a))
        \<longrightarrow> (\<exists>q. accept H c b (s_db t) (s_db t) (s_db t) = Inr (q, s_db t) \<and> run_follows row q))
     \<and> (request_digest H (request_payload (ac_request b)) \<noteq> request_digest H (request_payload (ac_request a))
        \<longrightarrow> accept H c b (s_db t) (s_db t) (s_db t) = Inl IdempotencyConflict)"
proof -
  have d: "consistent d"
    by (rule conjunct1 [OF safeD [OF safe_accept_insert reachable_consistent [OF r] acc]])
  have ev: "evolves d (s_db t)"
    using steps_safe [OF st] d by simp
  note ins = accept_insert_by_key [OF acc key]
  from by_key_evolves [OF ev ins(1)] obtain q where q: "by_key k (s_db t) = Some q" "run_follows row q"
    by blast
  have sha: "r_request_sha256 q = request_digest H (request_payload (ac_request a))"
    by (simp add: run_followsD(10) [OF q(2)] ins(2))
  have acc': "accept H c b (s_db t) (s_db t) (s_db t)
    = bindE (replay q (request_digest H (request_payload (ac_request b)))) (\<lambda>r. Inr (r, s_db t))"
    by (simp add: accept_def Let_def again vk q(1))
  show ?thesis
  proof (cases "request_digest H (request_payload (ac_request b)) = request_digest H (request_payload (ac_request a))")
    case True
    then have "accept H c b (s_db t) (s_db t) (s_db t) = Inr (q, s_db t)"
      by (simp add: acc' replay_def sha)
    with True q(2) show ?thesis by blast
  next
    case False
    then have "accept H c b (s_db t) (s_db t) (s_db t) = Inl IdempotencyConflict"
      by (simp add: acc' replay_def sha)
    with False show ?thesis by blast
  qed
qed

lemma accept_idempotent_witness:
  "\<exists>q. accept run_hash demo_api (demo_args\<lparr>ac_run_id := ''run-9'', ac_time := 9\<rparr>) (s_db demo1) (s_db demo1) (s_db demo1)
      = Inr (q, s_db demo1) \<and> r_run_id q = ''run-1''"
proof -
  let ?s = "start_sys"
  let ?b = "demo_args\<lparr>ac_run_id := ''run-9'', ac_time := 9\<rparr>"
  have ok: "isOK (accept_insert run_hash demo_api demo_args (s_db ?s))"
    by code_simp
  then obtain row d where acc: "accept_insert run_hash demo_api demo_args (s_db ?s) = Inr (row, d)"
    by (auto simp: isOK_iff)
  have "case accept_insert run_hash demo_api demo_args (s_db ?s) of Inl e \<Rightarrow> False
    | Inr (row, d) \<Rightarrow> r_run_id row = ''run-1'' \<and> play run_hash [Claiming [] ''w1'' 10 3 2] (?s\<lparr>s_db := d\<rparr>) = Some demo1"
    by code_simp
  then have rid: "r_run_id row = ''run-1''" and pl: "play run_hash [Claiming [] ''w1'' 10 3 2] (?s\<lparr>s_db := d\<rparr>) = Some demo1"
    by (simp_all add: acc)
  have k: "ac_key demo_args = Some ''key-1''" "ac_key ?b = Some ''key-1''" "validate_key (Some ''key-1'') = Inr ()"
    "ac_request ?b = ac_request demo_args"
    by code_simp+
  have "reachable run_hash ?s"
    by (simp add: reachable_def steps_refl)
  from accept_idempotent [OF this acc k(1) steps_play [OF steps_refl pl] k(2,3)] k(4)
  obtain q where "accept run_hash demo_api ?b (s_db demo1) (s_db demo1) (s_db demo1) = Inr (q, s_db demo1)" "run_follows row q"
    by auto
  then show ?thesis
    using run_followsD(1) rid by metis
qed

section \<open>Decisions\<close>

lemma queue_approval_saved:
  assumes "queue_approval i dec bind n d = Inr (u, e)"
  shows "\<exists>row p. find_run i e = Some row \<and> r_approval_payload row = Some p
    \<and> (p = decision_payload dec bind \<or> py_eq p (decision_payload dec bind))"
proof -
  let ?p = "decision_payload dec bind"
  from assms obtain row where row: "find_run i d = Some row"
    by (cases "find_run i d") (auto simp: queue_approval_def Let_def txn_simps)
  show ?thesis
  proof (cases "r_approval_payload row")
    case (Some p)
    with assms row have "py_eq p ?p" "e = d"
      by (auto simp: queue_approval_def Let_def assert_revision_Inr txn_simps)
    with row Some show ?thesis by blast
  next
    case None
    let ?f = "\<lambda>r. r\<lparr>r_approval_payload := Some ?p, r_status := Queued, r_attempt_base := r_attempt r, r_updated_at := n\<rparr>"
    from assms row None have "set_run i ?f d = Inr (u, e)"
      by (auto simp: queue_approval_def Let_def assert_revision_Inr txn_simps)
    then have "find_run i e = Some (?f row)"
      using row find_mem [of r_run_id i "db_runs d" row]
      by (simp add: find_run_def set_run_member(1) find_update_where)
    then show ?thesis by simp
  qed
qed

text \<open>A run receives at most one decision: once one is queued, every later attempt either repeats
  it, which changes nothing, or is refused.\<close>

theorem decision_recorded_once:
  assumes r: "reachable H s" and qd: "queue_approval i dec bind n (s_db s) = Inr ((), d)"
    and st: "steps H (s\<lparr>s_db := d\<rparr>) t"
  shows "queue_approval i dec' bind' m (s_db t) = Inl ApprovalConflict
    \<or> queue_approval i dec' bind' m (s_db t) = Inr ((), s_db t)
      \<and> (\<exists>q p. find_run i (s_db t) = Some q \<and> r_approval_payload q = Some p
            \<and> py_eq p (decision_payload dec' bind')
            \<and> (p = decision_payload dec bind \<or> py_eq p (decision_payload dec bind)))"
proof -
  have c: "consistent d"
    by (rule conjunct1 [OF safeD [OF safe_queue_approval reachable_consistent [OF r] qd]])
  from queue_approval_saved [OF qd] obtain row p where row: "find_run i d = Some row" "r_approval_payload row = Some p"
      "p = decision_payload dec bind \<or> py_eq p (decision_payload dec bind)"
    by blast
  have ev: "consistent (s_db t)" "evolves d (s_db t)"
    using steps_safe [OF st] c by simp_all
  from evolves_find_run [OF ev(2,1) row(1)] obtain q where q: "find_run i (s_db t) = Some q" "run_follows row q"
    by blast
  have pay: "r_approval_payload q = Some p"
    using run_followsD(11) [OF q(2)] row(2) by simp
  show ?thesis
  proof (cases "current_revision i (s_db t) \<and> py_eq p (decision_payload dec' bind')")
    case True
    then show ?thesis
      using q(1) pay row(3)
      by (simp add: queue_approval_def assert_revision_def bindT_def askT_def requireT_def Let_def)
  next
    case False
    then have "queue_approval i dec' bind' m (s_db t) = Inl ApprovalConflict"
      using q(1) pay
      by (auto simp: queue_approval_def assert_revision_def bindT_def askT_def requireT_def Let_def)
    then show ?thesis by blast
  qed
qed

lemma decision_recorded_once_witness:
  "queue_approval ''run-1'' (JStr ''no'') ''b'' 6 (s_db demo2) = Inl ApprovalConflict"
proof -
  have d: "queue_approval ''run-1'' (JStr ''yes'') ''b'' 6 (s_db demo2) = Inr ((), s_db demo2)"
    "queue_approval ''run-1'' (JStr ''no'') ''b'' 6 (s_db demo2) \<noteq> Inr ((), s_db demo2)"
    by code_simp+
  have "steps run_hash (demo2\<lparr>s_db := s_db demo2\<rparr>) demo2"
    by (simp add: steps_refl)
  from decision_recorded_once [OF demo_reachable(2) d(1) this, of "JStr ''no''" "''b''" 6] d(2) show ?thesis
    by blast
qed

section \<open>Results\<close>

lemma finish_Inr:
  assumes "finish t0 t1 l out d = Inr (st, e)"
  shows "publish t1 l (effective (case find_run (r_run_id (le_run l)) d of None \<Rightarrow> False | Some r \<Rightarrow> r_stop_requested r)
      (find_op (r_run_id (le_run l)) d) out) d = Inr (st, e)"
    and "list_ex (owns t1 l) (db_runs d)" and "worker_result (out_status out)"
  using assms by (auto simp: finish_def txn_simps split: if_splits)

lemma publish_Inr:
  assumes "publish t l out d = Inr (st, e)"
  shows "st = out_status out" and "\<not> unsafe_retry (find_op (r_run_id (le_run l)) d) out"
proof -
  let ?i = "r_run_id (le_run l)"
  from assms obtain u d1 v d2 where d1: "set_run ?i (question_update out) d = Inr (u, d1)"
    and d2: "set_run ?i (adopted_update out) d1 = Inr (v, d2)"
    and ok: "\<not> unsafe_retry (find_op ?i d2) out" and st: "st = out_status out"
    unfolding publish_def txn_simps by blast
  show "st = out_status out"
    by (rule st)
  have "db_operations d2 = db_operations d"
    using set_run_member(2) [OF d1] set_run_member(2) [OF d2] by simp
  with ok show "\<not> unsafe_retry (find_op ?i d) out"
    by (simp add: find_op_def)
qed

lemma effective_status:
  "out_status (effective stop p out) = (if stop \<and> out_status out \<in> {RunSucceeded, RunFailed, WaitingUser, WaitingApproval}
     then if (case p of None \<Rightarrow> False | Some q \<Rightarrow> uncertain (o_state q)) then Reconciling else RunCancelled
     else out_status out)"
  by (auto simp: effective_def Let_def)

text \<open>A result is published only as far as it is safe: a run whose stop was requested ends cancelled
  or goes to reconciliation, never succeeded, failed or waiting; and a run is scheduled for another
  attempt only when its write, if it has one, never left the journal or was rejected.\<close>

theorem finished_result_safe:
  assumes fin: "finish t0 t1 l out d = Inr (st, e)"
    and row: "find_run (r_run_id (le_run l)) d = Some row" and p: "find_op (r_run_id (le_run l)) d = p"
  shows "(r_stop_requested row \<longrightarrow> st \<in> {RunCancelled, Reconciling, RetryScheduled})
    \<and> (r_stop_requested row \<and> (\<exists>q. p = Some q \<and> uncertain (o_state q)) \<and> out_status out \<noteq> RunCancelled
         \<longrightarrow> st = Reconciling)
    \<and> (st = RetryScheduled \<longrightarrow> (case p of None \<Rightarrow> True | Some q \<Rightarrow> o_state q \<in> {Prepared, Rejected}))"
proof -
  let ?out = "effective (r_stop_requested row) p out"
  have pub: "publish t1 l ?out d = Inr (st, e)"
    using finish_Inr(1) [OF fin] by (simp add: row p)
  note st = publish_Inr(1) [OF pub] and safe = publish_Inr(2) [OF pub, unfolded p]
  have w: "worker_result (out_status out)"
    by (rule finish_Inr(3) [OF fin])
  have a: "r_stop_requested row \<longrightarrow> st \<in> {RunCancelled, Reconciling, RetryScheduled}"
    using w by (auto simp: st effective_status worker_result_def)
  have c: "st = RetryScheduled \<longrightarrow> (case p of None \<Rightarrow> True | Some q \<Rightarrow> o_state q \<in> {Prepared, Rejected})"
    using safe by (auto simp: st unsafe_retry_def split: option.splits)
  have b: "r_stop_requested row \<and> (\<exists>q. p = Some q \<and> uncertain (o_state q)) \<and> out_status out \<noteq> RunCancelled \<longrightarrow> st = Reconciling"
  proof (intro impI, elim conjE exE)
    fix q assume s: "r_stop_requested row" and q: "p = Some q" "uncertain (o_state q)" and nc: "out_status out \<noteq> RunCancelled"
    have "st \<noteq> RetryScheduled"
      using c q by (auto simp: uncertain_def)
    with w s q nc show "st = Reconciling"
      by (auto simp: st effective_status worker_result_def)
  qed
  from a b c show ?thesis by blast
qed

text \<open>A worker that finishes after the user's stop, its write released.\<close>

definition success_outcome :: outcome where
  "success_outcome = waiting_outcome\<lparr>out_status := RunSucceeded, out_phase := Some ''resolved''\<rparr>"

definition stopped_row :: run_row where
  "stopped_row = (claimed ''w1'' 10 3 2 (accepted_run run_hash demo_args))\<lparr>r_stop_requested := True\<rparr>"

definition stopped_lease :: lease where
  "stopped_lease = \<lparr>le_run = stopped_row, le_recovery_only = False\<rparr>"

definition stopped_db :: db where
  "stopped_db = empty_db\<lparr>db_incidents := [accepted_incident demo_args], db_runs := [stopped_row],
     db_operations := [(new_op run_hash stopped_lease run_request 3)\<lparr>o_state := Dispatching\<rparr>]\<rparr>"

lemma finished_result_safe_witness:
  "case finish 8 8 stopped_lease success_outcome stopped_db of Inl e \<Rightarrow> False | Inr (st, e) \<Rightarrow> st = Reconciling"
proof -
  let ?d = stopped_db
  have f: "isOK (finish 8 8 stopped_lease success_outcome ?d)"
    "map_option r_stop_requested (find_run (r_run_id (le_run stopped_lease)) ?d) = Some True"
    "map_option (\<lambda>q. uncertain (o_state q)) (find_op (r_run_id (le_run stopped_lease)) ?d) = Some True"
    "out_status success_outcome \<noteq> RunCancelled"
    by code_simp+
  from f(1) obtain st e where fin: "finish 8 8 stopped_lease success_outcome ?d = Inr (st, e)"
    by (auto simp: isOK_iff)
  from f(2) obtain row where row: "find_run (r_run_id (le_run stopped_lease)) ?d = Some row" "r_stop_requested row"
    by auto
  from f(3) obtain q where q: "find_op (r_run_id (le_run stopped_lease)) ?d = Some q" "uncertain (o_state q)"
    by auto
  have "st = Reconciling"
    using finished_result_safe [OF fin row(1) q(1)] row(2) q(2) f(4) by blast
  then show ?thesis
    by (simp add: fin)
qed

end
