(* ===== verification/ToolsFacts.thy ===== *)
theory ToolsFacts
  imports RemediationTools
begin

text \<open>
  Facts about the two writes: the merge patch of RFC 7386 as the reference for what the API server
  does with a body, what the selector bodies come to under it, and the calls each tool makes.
\<close>

section \<open>Merge patches\<close>

fun members :: "json \<Rightarrow> dict" where
  "members (JObj d) = d"
| "members _ = []"

definition without :: "string \<Rightarrow> (string \<times> 'a) list \<Rightarrow> (string \<times> 'a) list" where
  "without k d = filter (\<lambda>kv. fst kv \<noteq> k) d"

function (sequential) merge_patch :: "json \<Rightarrow> json \<Rightarrow> json"
  and merge_members :: "dict \<Rightarrow> dict \<Rightarrow> dict" where
  "merge_patch t (JObj p) = JObj (merge_members (members t) p)"
| "merge_patch t p = p"
| "merge_members d [] = d"
| "merge_members d ((k, v) # p) =
     merge_members (if v = JNull then without k d else put d k (merge_patch (dget d k) v)) p"
  by pat_completeness auto
termination
  by (relation "measure (case_sum (\<lambda>(a, b). size b) (\<lambda>(xs, ys). size_list (size_prod (\<lambda>_. 0) size) ys))") auto

lemma map_of_without: "map_of (without k d) j = (if j = k then None else map_of d j)"
  by (induction d) (auto simp: without_def)

lemma map_of_str_dict: "map_of (str_dict d) k = map_option JStr (map_of d k)"
  by (induction d) (auto simp: str_dict_def)

lemma fst_str_dict [simp]: "map fst (str_dict d) = map fst d"
  by (induction d) (auto simp: str_dict_def)

definition flat :: "json \<Rightarrow> bool" where
  "flat v = (v = JNull \<or> is_str v)"

lemma merge_flat:
  assumes "distinct (map fst ps)" and "list_all (\<lambda>kv. flat (snd kv)) ps"
  shows "map_of (merge_members d ps) k
    = (case map_of ps k of None \<Rightarrow> map_of d k | Some v \<Rightarrow> if v = JNull then None else Some v)"
  using assms
proof (induction ps arbitrary: d)
  case (Cons kv ps)
  obtain j v where kv: "kv = (j, v)"
    by (cases kv)
  have fresh: "map_of ps j = None"
    using Cons.prems(1) by (simp add: kv map_of_eq_None_iff)
  have v: "v = JNull \<or> (\<exists>s. v = JStr s)"
    using Cons.prems(2) by (cases v) (auto simp: kv flat_def)
  have "map_of (merge_members d ((j, v) # ps)) k
      = (case map_of ps k of None \<Rightarrow> map_of (if v = JNull then without j d else put d j (merge_patch (dget d j) v)) k
           | Some v \<Rightarrow> if v = JNull then None else Some v)"
    using Cons.prems by (simp add: Cons.IH kv del: map_of_put)
  then show ?case
    using fresh v by (auto simp: kv map_of_without split: option.splits)
qed simp

lemma map_of_removals:
  "map_of (map (\<lambda>kv. (fst kv, JNull)) (filter (\<lambda>kv. map_of new (fst kv) = None) old)) k
     = (if map_of new k = None \<and> map_of old k \<noteq> None then Some JNull else None)"
  by (induction old) auto

lemma map_of_selector_change:
  "map_of (selector_change old new) k = (case map_of new k of Some v \<Rightarrow> Some (JStr v)
     | None \<Rightarrow> if map_of old k = None then None else Some JNull)"
  by (auto simp: selector_change_def map_add_def map_of_str_dict map_of_removals split: option.splits)

lemma selector_change_distinct:
  assumes "distinct (map fst old)" and "distinct (map fst new)"
  shows "distinct (map fst (selector_change old new))"
  using assms
  by (auto simp: selector_change_def o_def distinct_map_filter map_of_eq_None_iff)

lemma selector_change_flat: "list_all (\<lambda>kv. flat (snd kv)) (selector_change old new)"
  by (auto simp: selector_change_def list_all_iff flat_def str_dict_def)

text \<open>Whatever held the old selector holds the new one afterwards.\<close>

lemma selector_change_merge:
  assumes "distinct (map fst old)" and "distinct (map fst new)" and "map_of d = map_of (str_dict old)"
  shows "map_of (merge_members d (selector_change old new)) = map_of (str_dict new)"
proof
  fix k
  show "map_of (merge_members d (selector_change old new)) k = map_of (str_dict new) k"
    unfolding merge_flat [OF selector_change_distinct [OF assms(1,2)] selector_change_flat]
    by (simp add: map_of_selector_change assms(3) map_of_str_dict split: option.splits)
qed

section \<open>Normalised selectors\<close>

lemma normalize_pairs_distinct:
  "normalize_pairs f acc kvs = Inr d \<Longrightarrow> distinct (map fst acc) \<Longrightarrow> distinct (map fst d)"
  by (induction f acc kvs rule: normalize_pairs.induct) (auto simp: unsafe_def put_distinct split: if_splits)

lemma validate_selector_distinct: "validate_selector f b sel = Inr d \<Longrightarrow> distinct (map fst d)"
  by (auto simp: validate_selector_def res_simps unsafe_def dest: normalize_pairs_distinct split: if_splits)

section \<open>The arguments raise before any call\<close>

definition unsafe_target :: "exn \<Rightarrow> bool" where
  "unsafe_target e = (\<exists>m. e = UnsafeRemediationTarget m)"

lemma unsafe_Inl [simp]: "unsafe f m = Inl e \<longleftrightarrow> e = UnsafeRemediationTarget (f @ '' '' @ m)"
  by (auto simp: unsafe_def)

lemma unsafe_Inr [simp]: "unsafe f m \<noteq> Inr x"
  by (simp add: unsafe_def)

lemma normalize_pairs_Inl: "normalize_pairs f acc kvs = Inl e \<Longrightarrow> unsafe_target e"
  by (induction f acc kvs rule: normalize_pairs.induct) (auto simp: unsafe_target_def split: if_splits)

lemma arguments_Inl:
  "validate_namespace ns = Inl e \<Longrightarrow> unsafe_target e"
  "validate_resource_name f n = Inl e \<Longrightarrow> unsafe_target e"
  "validate_selector f b sel = Inl e \<Longrightarrow> unsafe_target e"
  "validate_probe_path f p = Inl e \<Longrightarrow> unsafe_target e"
  "validate_probe_port f q = Inl e \<Longrightarrow> unsafe_target e"
  by (auto simp: validate_namespace_def validate_resource_name_def validate_selector_def
      validate_probe_path_def unsafe_target_def res_simps dest!: normalize_pairs_Inl split: if_splits)
    (cases q; auto split: if_splits)

lemma validate_namespace_Inr: "validate_namespace ns = Inr x \<longleftrightarrow> strip ns = safe_namespace \<and> x = safe_namespace"
  by (auto simp: validate_namespace_def)

lemma validate_resource_name_Inr:
  "validate_resource_name f n = Inr x \<longleftrightarrow> kubernetes_name (strip n) \<and> x = strip n"
  by (auto simp: validate_resource_name_def unsafe_def)

section \<open>The calls of the two tools\<close>

lemma selector_gate_Inr:
  assumes "selector_gate ns n service expected proposed uid = Inr before"
  shows "resource_version (so_metadata service) = Inr (rs_resource_version before)"
    and "uid = None \<or> meta_uid (so_metadata service) = uid"
    and "str_dict_eq (service_selector service) expected"
    and "\<not> str_dict_eq (service_selector service) proposed"
  using assms by (auto simp: selector_gate_def service_snapshot_Inr split: sum.splits if_splits)

lemma selector_gate_Inl:
  "selector_gate ns n service expected proposed uid = Inl r \<Longrightarrow> mr_applied r = [] \<and> mr_status r \<noteq> Succeeded"
  by (auto simp: selector_gate_def invalid_response_def failed_result_def conflict_result_def
      already_applied_result_def split: sum.splits if_splits)

lemma client_error_applied [simp]: "mr_applied (client_error_result e before body) = body"
  by (auto simp: client_error_result_def api_error_result_def unexpected_error_result_def
      failed_result_def conflict_result_def split: exn.splits)

lemma client_error_status: "mr_status (client_error_result e before body) \<in> {ExecFailed, Conflict}"
  by (auto simp: client_error_result_def api_error_result_def unexpected_error_result_def
      failed_result_def conflict_result_def split: exn.splits)

lemma selector_outcome_applied [simp]:
  "mr_applied (selector_outcome ns n cur pro before body response) = body"
  by (auto simp: selector_outcome_def invalid_response_def failed_result_def split: sum.splits)

lemma probe_outcome_applied [simp]:
  "mr_applied (probe_outcome ns n c path p before body response) = body"
  by (auto simp: probe_outcome_def invalid_response_def failed_result_def split: sum.splits)

lemma logged_simps [simp]:
  "cl_read_service (logged cl) ns n = noting (ReadCall KService ns n) (cl_read_service cl ns n)"
  "cl_read_deployment (logged cl) ns n = noting (ReadCall KDeployment ns n) (cl_read_deployment cl ns n)"
  "cl_patch_service (logged cl) ns n b = noting (PatchCall KService ns n b) (cl_patch_service cl ns n b)"
  "cl_patch_deployment (logged cl) ns n b = noting (PatchCall KDeployment ns n b) (cl_patch_deployment cl ns n b)"
  by (simp_all add: logged_def)

text \<open>
  What the run of the selector tool was, from the calls it made: nothing, one read, or one read of a
  Service in the approved state and one patch bound to that Service.
\<close>

definition approved_service :: "service_object \<Rightarrow> (string \<times> string) list \<Rightarrow> (string \<times> string) list \<Rightarrow> string option \<Rightarrow> bool" where
  "approved_service service expected proposed uid =
     ((uid = None \<or> meta_uid (so_metadata service) = uid) \<and> str_dict_eq (service_selector service) expected
      \<and> \<not> str_dict_eq (service_selector service) proposed)"

lemma apply_selector_runs:
  assumes "apply_selector (logged cl) ns n ex pr uid (w, []) = (r, (w', calls))"
  obtains (looked) x where "r = Inr x" "calls = [ReadCall KService ns n]" "mr_applied x = []"
      "mr_status x \<noteq> Succeeded"
  | (sent) x service rv w1 body where "r = Inr x" "cl_read_service cl ns n w = (Inr service, w1)"
      "resource_version (so_metadata service) = Inr rv" "approved_service service ex pr uid"
      "body = selector_patch uid rv (service_selector service) pr"
      "calls = [ReadCall KService ns n, PatchCall KService ns n (MergePatch body)]" "mr_applied x = body"
proof -
  obtain found w1 where f: "cl_read_service cl ns n w = (found, w1)"
    by (cases "cl_read_service cl ns n w")
  show ?thesis
  proof (cases found)
    case (Inl e)
    with assms f show ?thesis
      using client_error_status [of e None "[]"] by (intro looked) (auto simp: apply_selector_def io_simps)
  next
    case (Inr service)
    show ?thesis
    proof (cases "selector_gate ns n service ex pr uid")
      case (Inl x)
      with assms f \<open>found = Inr service\<close> show ?thesis
        using selector_gate_Inl [OF Inl] by (intro looked) (auto simp: apply_selector_def io_simps)
    next
      case (Inr before)
      with assms f \<open>found = Inr service\<close> show ?thesis
        using selector_gate_Inr [OF Inr]
        by (auto simp: apply_selector_def io_simps Let_def approved_service_def intro: sent)
    qed
  qed
qed

lemma selector_arguments:
  obtains e where "unsafe_target e" "patch_service_selector cl ns n expected proposed uid = raiseW e"
  | ex pr where "strip ns = safe_namespace" "kubernetes_name (strip n)"
      "validate_selector ''expected_selector'' True expected = Inr ex"
      "validate_selector ''proposed_selector'' False proposed = Inr pr"
      "patch_service_selector cl ns n expected proposed uid = apply_selector cl safe_namespace (strip n) ex pr uid"
  by (cases "validate_namespace ns"; cases "validate_resource_name ''service_name'' n";
      cases "validate_selector ''expected_selector'' True expected";
      cases "validate_selector ''proposed_selector'' False proposed")
    (auto simp: patch_service_selector_def validate_namespace_Inr validate_resource_name_Inr dest: arguments_Inl)

lemma selector_runs:
  assumes "patch_service_selector (logged cl) ns n expected proposed uid (w, []) = (r, (w', calls))"
  obtains (refused) e where "r = Inl e" "unsafe_target e" "calls = []"
  | (looked) x where "r = Inr x" "calls = [ReadCall KService safe_namespace (strip n)]" "mr_applied x = []"
      "mr_status x \<noteq> Succeeded"
  | (sent) x ex pr service rv w1 body where "r = Inr x"
      "strip ns = safe_namespace" "kubernetes_name (strip n)"
      "validate_selector ''expected_selector'' True expected = Inr ex"
      "validate_selector ''proposed_selector'' False proposed = Inr pr"
      "cl_read_service cl safe_namespace (strip n) w = (Inr service, w1)"
      "resource_version (so_metadata service) = Inr rv" "approved_service service ex pr uid"
      "body = selector_patch uid rv (service_selector service) pr"
      "calls = [ReadCall KService safe_namespace (strip n), PatchCall KService safe_namespace (strip n) (MergePatch body)]"
      "mr_applied x = body"
proof (cases rule: selector_arguments [of "logged cl" ns n expected proposed uid])
  case (1 e)
  with assms show ?thesis
    by (intro refused) (auto simp: io_simps)
next
  case args: (2 ex pr)
  from assms [unfolded args(5)] show ?thesis
  proof (cases rule: apply_selector_runs)
    case (looked x)
    then show ?thesis by (rule that(2))
  next
    case (sent x service rv w1 body)
    then show ?thesis
      using args(1-4) by (intro that(3))
  qed
qed

text \<open>The same for the readiness probe.\<close>

definition approved_probe :: "deployment_object \<Rightarrow> string \<Rightarrow> string \<Rightarrow> port \<Rightarrow> string option \<Rightarrow> string option \<Rightarrow> bool" where
  "approved_probe d c path p rv uid = (
     (rv = None \<or> resource_version (do_metadata d) = (case rv of Some v \<Rightarrow> Inr v | None \<Rightarrow> Inr []))
     \<and> (uid = None \<or> meta_uid (do_metadata d) = uid)
     \<and> map_option readiness_probe_values (container_named d c) = Some (Some path, Some p))"

lemma validate_probe_port_Inr: "validate_probe_port f q = Inr x \<Longrightarrow> (case x of PortNum n \<Rightarrow> 0 < n \<and> n \<le> 65535 | PortName s \<Rightarrow> s \<noteq> [])"
  by (cases q) (auto split: if_splits)

lemma probe_identity_Inr_None:
  "probe_identity d rv uid = Inr None \<longleftrightarrow>
     (rv = None \<or> resource_version (do_metadata d) = (case rv of Some v \<Rightarrow> Inr v | None \<Rightarrow> Inr []))
     \<and> (uid = None \<or> meta_uid (do_metadata d) = uid)"
  by (auto simp: probe_identity_def res_simps split: option.splits)

lemma probe_identity_Some:
  "probe_identity d rv uid = Inr (Some x) \<Longrightarrow> mr_applied x = [] \<and> mr_status x \<noteq> Succeeded"
  by (auto simp: probe_identity_def res_simps conflict_result_def split: option.splits if_splits)

lemma probe_identity_Inl:
  "probe_identity d rv uid = Inl e \<Longrightarrow> rv \<noteq> None \<and> resource_version (do_metadata d) = Inl e"
  by (auto simp: probe_identity_def res_simps split: option.splits)

lemma probe_gate_Inl:
  "probe_gate ns n d c op np oq nq = Inl x \<Longrightarrow> mr_applied x = [] \<and> mr_status x \<noteq> Succeeded"
  by (auto simp: probe_gate_def invalid_response_def failed_result_def conflict_result_def
      already_applied_result_def split: option.splits prod.splits sum.splits if_splits)

lemma probe_gate_Inr:
  assumes "probe_gate ns n d c old_path new_path old_port new_port = Inr (before, path, p)"
  shows "resource_version (do_metadata d) = Inr (rs_resource_version before)"
    and "map_option readiness_probe_values (container_named d c) = Some (Some old_path, Some old_port)"
    and "path = old_path" and "p = old_port" and "(path, p) \<noteq> (new_path, new_port)"
  using assms
  by (auto simp: probe_gate_def deployment_snapshot_Inr split: option.splits prod.splits sum.splits if_splits)

lemma apply_probe_runs:
  assumes "apply_probe (logged cl) ns n c op np oq nq rv uid (w, []) = (r, (w', calls))"
  obtains (raised) d w1 e where "r = Inl e" "cl_read_deployment cl ns n w = (Inr d, w1)"
      "resource_version (do_metadata d) = Inl e" "calls = [ReadCall KDeployment ns n]" "rv \<noteq> None"
  | (looked) x where "r = Inr x" "calls = [ReadCall KDeployment ns n]" "mr_applied x = []"
      "mr_status x \<noteq> Succeeded"
  | (sent) x d v w1 body where "r = Inr x" "cl_read_deployment cl ns n w = (Inr d, w1)"
      "resource_version (do_metadata d) = Inr v" "approved_probe d c op oq rv uid" "(op, oq) \<noteq> (np, nq)"
      "body = probe_patch uid v c np nq"
      "calls = [ReadCall KDeployment ns n, PatchCall KDeployment ns n (StrategicMergePatch body)]"
      "mr_applied x = body"
proof -
  obtain found w1 where f: "cl_read_deployment cl ns n w = (found, w1)"
    by (cases "cl_read_deployment cl ns n w")
  show ?thesis
  proof (cases found)
    case (Inl e)
    with assms f show ?thesis
      using client_error_status [of e None "[]"] by (intro looked) (auto simp: apply_probe_def io_simps)
  next
    case d: (Inr d)
    show ?thesis
    proof (cases "probe_identity d rv uid")
      case (Inl e)
      with assms f d show ?thesis
        using probe_identity_Inl [OF Inl] by (intro raised) (auto simp: apply_probe_def io_simps)
    next
      case idn: (Inr refused)
      show ?thesis
      proof (cases refused)
        case (Some x)
        with assms f d idn show ?thesis
          using probe_identity_Some [of d rv uid x] by (intro looked) (auto simp: apply_probe_def io_simps)
      next
        case None
        show ?thesis
        proof (cases "probe_gate ns n d c op np oq nq")
          case (Inl x)
          with assms f d idn None show ?thesis
            using probe_gate_Inl [OF Inl] by (intro looked) (auto simp: apply_probe_def io_simps)
        next
          case (Inr b)
          then obtain before path q where b: "probe_gate ns n d c op np oq nq = Inr (before, path, q)"
            by (cases b) auto
          from assms f d idn None b obtain response where
              "r = Inr (probe_outcome ns n c path q before (probe_patch uid (rs_resource_version before) c np nq) response)"
              "calls = [ReadCall KDeployment ns n, PatchCall KDeployment ns n
                 (StrategicMergePatch (probe_patch uid (rs_resource_version before) c np nq))]"
            by (auto simp: apply_probe_def io_simps Let_def)
          moreover have "approved_probe d c op oq rv uid"
            using idn probe_gate_Inr(2) [OF b]
            unfolding approved_probe_def None probe_identity_Inr_None by blast
          ultimately show ?thesis
            using f probe_gate_Inr [OF b] unfolding d by (intro sent [OF _ _ _ _ _ refl _ probe_outcome_applied]) simp_all
        qed
      qed
    qed
  qed
qed

lemma probe_arguments:
  obtains e where "unsafe_target e" "patch_readiness_probe cl ns n c op np oq nq rv uid = raiseW e"
  | op' np' oq' nq' where "strip ns = safe_namespace" "kubernetes_name (strip n)" "kubernetes_name (strip c)"
      "validate_probe_path ''expected_path'' op = Inr op'" "validate_probe_path ''proposed_path'' np = Inr np'"
      "validate_probe_port ''expected_port'' oq = Inr oq'" "validate_probe_port ''proposed_port'' nq = Inr nq'"
      "patch_readiness_probe cl ns n c op np oq nq rv uid
         = apply_probe cl safe_namespace (strip n) (strip c) op' np' oq' nq' rv uid"
  by (cases "validate_namespace ns"; cases "validate_resource_name ''deployment_name'' n";
      cases "validate_resource_name ''container_name'' c";
      cases "validate_probe_path ''expected_path'' op"; cases "validate_probe_path ''proposed_path'' np";
      cases "validate_probe_port ''expected_port'' oq"; cases "validate_probe_port ''proposed_port'' nq")
    (auto simp: patch_readiness_probe_def validate_namespace_Inr validate_resource_name_Inr dest: arguments_Inl)

lemma probe_runs:
  assumes "patch_readiness_probe (logged cl) ns n c op np oq nq rv uid (w, []) = (r, (w', calls))"
  obtains (refused) e where "r = Inl e" "unsafe_target e" "calls = []"
  | (raised) d w1 e where "r = Inl e" "cl_read_deployment cl safe_namespace (strip n) w = (Inr d, w1)"
      "resource_version (do_metadata d) = Inl e" "calls = [ReadCall KDeployment safe_namespace (strip n)]" "rv \<noteq> None"
  | (looked) x where "r = Inr x" "calls = [ReadCall KDeployment safe_namespace (strip n)]" "mr_applied x = []"
      "mr_status x \<noteq> Succeeded"
  | (sent) x op' np' oq' nq' d v w1 body where "r = Inr x" "strip ns = safe_namespace" "kubernetes_name (strip n)"
      "validate_probe_path ''expected_path'' op = Inr op'" "validate_probe_path ''proposed_path'' np = Inr np'"
      "validate_probe_port ''expected_port'' oq = Inr oq'" "validate_probe_port ''proposed_port'' nq = Inr nq'"
      "cl_read_deployment cl safe_namespace (strip n) w = (Inr d, w1)"
      "resource_version (do_metadata d) = Inr v" "approved_probe d (strip c) op' oq' rv uid"
      "(op', oq') \<noteq> (np', nq')" "body = probe_patch uid v (strip c) np' nq'"
      "calls = [ReadCall KDeployment safe_namespace (strip n),
                PatchCall KDeployment safe_namespace (strip n) (StrategicMergePatch body)]"
      "mr_applied x = body"
proof (cases rule: probe_arguments [of "logged cl" ns n c op np oq nq rv uid])
  case (1 e)
  with assms show ?thesis
    by (intro refused) (auto simp: io_simps)
next
  case args: (2 op' np' oq' nq')
  from assms [unfolded args(8)] show ?thesis
  proof (cases rule: apply_probe_runs)
    case (raised d w1 e)
    then show ?thesis by (rule that(2))
  next
    case (looked x)
    then show ?thesis by (rule that(3))
  next
    case (sent x d v w1 body)
    then show ?thesis
      using args by (intro that(4))
  qed
qed

end
