(* ===== verification/ToolsProps.thy ===== *)
theory ToolsProps
  imports ToolsFacts
begin

text \<open>
  Properties of the two writes of \<open>backend/app/tools/remediation_tools.py\<close>, for every client: the
  client is a parameter, and the calls it receives are logged.
\<close>

section \<open>A concrete cluster\<close>

text \<open>One Service; a read returns it, a patch stores the selector \<open>app=web\<close> under a new version.\<close>

definition web_service :: service_object where
  "web_service = \<lparr>so_metadata = Some \<lparr>om_uid = Some ''svc-1'', om_resource_version = Some ''7'', om_generation = None\<rparr>,
     so_spec = Some (Some [(''app'', ''old''), (''tier'', ''web'')])\<rparr>"

definition web_deployment :: deployment_object where
  "web_deployment = \<lparr>do_metadata = Some \<lparr>om_uid = Some ''dep-1'', om_resource_version = Some ''7'', om_generation = Some 1\<rparr>,
     do_spec = Some (Some (Some (Some [\<lparr>cn_name = ''web'',
       cn_readiness_probe = Some (Some \<lparr>hg_path = Some ''/old'', hg_port = Some (PortNum 80)\<rparr>)\<rparr>])))\<rparr>"

definition web_clients :: "(service_object \<times> deployment_object) clients" where
  "web_clients = \<lparr>cl_read_service = (\<lambda>ns n w. (Inr (fst w), w)),
     cl_read_deployment = (\<lambda>ns n w. (Inr (snd w), w)),
     cl_patch_service = (\<lambda>ns n b w. (let s = (fst w)\<lparr>so_spec := Some (Some [(''app'', ''web'')]),
        so_metadata := Some \<lparr>om_uid = Some ''svc-1'', om_resource_version = Some ''8'', om_generation = None\<rparr>\<rparr>
        in (Inr s, (s, snd w)))),
     cl_patch_deployment = (\<lambda>ns n b w. (Inl (ApiException 409 None), w))\<rparr>"

definition demo_selector_run :: "mutation_result res \<times> (service_object \<times> deployment_object) \<times> cluster_call list" where
  "demo_selector_run = patch_service_selector (logged web_clients) ''agent-demo'' ''web''
     [(''tier'', ''web''), (''app'', ''old'')] [(''app'', ''web'')] (Some ''svc-1'') ((web_service, web_deployment), [])"

definition demo_probe_run :: "mutation_result res \<times> (service_object \<times> deployment_object) \<times> cluster_call list" where
  "demo_probe_run = patch_readiness_probe (logged web_clients) ''agent-demo'' ''web'' ''web''
     ''/old'' ''/ready'' (PortNum 80) (PortNum 8080) (Some ''7'') (Some ''dep-1'') ((web_service, web_deployment), [])"

definition web_change :: dict where
  "web_change = selector_patch (Some ''svc-1'') ''7'' [(''app'', ''old''), (''tier'', ''web'')] [(''app'', ''web'')]"

lemma demo_selector_calls: "snd (snd demo_selector_run) = [ReadCall KService safe_namespace ''web'',
     PatchCall KService safe_namespace ''web'' (MergePatch web_change)]"
  by code_simp

lemma demo_probe_calls: "snd (snd demo_probe_run) = [ReadCall KDeployment safe_namespace ''web'',
     PatchCall KDeployment safe_namespace ''web''
       (StrategicMergePatch (probe_patch (Some ''dep-1'') ''7'' ''web'' ''/ready'' (PortNum 8080)))]"
  by code_simp

section \<open>Properties\<close>

text \<open>A selector write is bound to the approved state. Whatever the client answers, a patch is the
  second and last call of a run, goes to the stripped name in the one writable namespace, and
  answers a read of a Service that has the approved UID (when there is one) and exactly the approved
  previous selector; its body is the change from that Service's selector to the proposed one under that Service's resource version.\<close>

theorem selector_write_guarded:
  assumes "patch_service_selector (logged cl) ns n expected proposed uid (w, []) = (r, (w', calls))"
    and "c \<in> set calls" and "is_patch c"
  shows "strip ns = safe_namespace \<and> (\<exists>ex pr service w1 rv.
      validate_selector ''expected_selector'' True expected = Inr ex
    \<and> validate_selector ''proposed_selector'' False proposed = Inr pr
    \<and> cl_read_service cl safe_namespace (strip n) w = (Inr service, w1)
    \<and> (uid = None \<or> meta_uid (so_metadata service) = uid)
    \<and> str_dict_eq (service_selector service) ex \<and> \<not> str_dict_eq (service_selector service) pr
    \<and> resource_version (so_metadata service) = Inr rv
    \<and> calls = [ReadCall KService safe_namespace (strip n), c]
    \<and> c = PatchCall KService safe_namespace (strip n)
            (MergePatch (selector_patch uid rv (service_selector service) pr)))"
  using assms(1)
proof (cases rule: selector_runs)
  case (sent x ex pr service rv w1 body)
  then have c: "c = PatchCall KService safe_namespace (strip n) (MergePatch body)"
    using assms(2,3) by auto
  show ?thesis
    using sent unfolding c approved_service_def
    by (intro conjI exI [of _ ex] exI [of _ pr] exI [of _ service] exI [of _ w1] exI [of _ rv]) simp_all
qed (use assms(2,3) in auto)

lemma selector_write_guarded_witness:
  "\<exists>ex. validate_selector ''expected_selector'' True [(''tier'', ''web''), (''app'', ''old'')] = Inr ex
     \<and> str_dict_eq (service_selector web_service) ex"
proof -
  obtain r w' where run: "patch_service_selector (logged web_clients) ''agent-demo'' ''web''
     [(''tier'', ''web''), (''app'', ''old'')] [(''app'', ''web'')] (Some ''svc-1'') ((web_service, web_deployment), [])
     = (r, w', [ReadCall KService safe_namespace ''web'', PatchCall KService safe_namespace ''web'' (MergePatch web_change)])"
    using demo_selector_calls unfolding demo_selector_run_def by (metis prod.collapse)
  from selector_write_guarded [OF run, of "PatchCall KService safe_namespace ''web'' (MergePatch web_change)"]
  show ?thesis
    by (auto simp: web_clients_def)
qed

text \<open>A readiness write is bound to the approved state in the same way: the Deployment it answers
  has the approved UID and the resource version of the profile check (when given), its container has
  exactly the approved previous path and port, which differ from the new ones, and
  the body sets only the new path and port of that container under the version that was read.\<close>

theorem probe_write_guarded:
  assumes "patch_readiness_probe (logged cl) ns n c op np oq nq rv uid (w, []) = (r, (w', calls))"
    and "call \<in> set calls" and "is_patch call"
  shows "strip ns = safe_namespace \<and> (\<exists>op' np' oq' nq' d w1 v x.
      validate_probe_path ''expected_path'' op = Inr op' \<and> validate_probe_path ''proposed_path'' np = Inr np'
    \<and> validate_probe_port ''expected_port'' oq = Inr oq' \<and> validate_probe_port ''proposed_port'' nq = Inr nq'
    \<and> cl_read_deployment cl safe_namespace (strip n) w = (Inr d, w1)
    \<and> resource_version (do_metadata d) = Inr v \<and> (rv = None \<or> rv = Some v)
    \<and> (uid = None \<or> meta_uid (do_metadata d) = uid)
    \<and> container_named d (strip c) = Some x \<and> readiness_probe_values x = (Some op', Some oq')
    \<and> (op', oq') \<noteq> (np', nq')
    \<and> calls = [ReadCall KDeployment safe_namespace (strip n), call]
    \<and> call = PatchCall KDeployment safe_namespace (strip n)
               (StrategicMergePatch (probe_patch uid v (strip c) np' nq')))"
  using assms(1)
proof (cases rule: probe_runs)
  case (sent x op' np' oq' nq' d v w1 body)
  then have call: "call = PatchCall KDeployment safe_namespace (strip n) (StrategicMergePatch body)"
    using assms(2,3) by auto
  obtain y where y: "container_named d (strip c) = Some y" "readiness_probe_values y = (Some op', Some oq')"
    "rv = None \<or> rv = Some v" "uid = None \<or> meta_uid (do_metadata d) = uid"
    using sent(10) unfolding approved_probe_def sent(9) by (auto split: option.splits)
  show ?thesis
    using sent y unfolding call
    by (intro conjI exI [of _ op'] exI [of _ np'] exI [of _ oq'] exI [of _ nq'] exI [of _ d] exI [of _ w1]
        exI [of _ v] exI [of _ y]) simp_all
qed (use assms(2,3) in auto)

lemma probe_write_guarded_witness:
  "\<exists>x. container_named web_deployment (strip ''web'') = Some x
     \<and> fst (readiness_probe_values x) = Some ''/old''"
proof -
  let ?call = "PatchCall KDeployment safe_namespace ''web''
       (StrategicMergePatch (probe_patch (Some ''dep-1'') ''7'' ''web'' ''/ready'' (PortNum 8080)))"
  obtain r w' where run: "patch_readiness_probe (logged web_clients) ''agent-demo'' ''web'' ''web''
     ''/old'' ''/ready'' (PortNum 80) (PortNum 8080) (Some ''7'') (Some ''dep-1'') ((web_service, web_deployment), [])
     = (r, w', [ReadCall KDeployment safe_namespace ''web'', ?call])"
    using demo_probe_calls unfolding demo_probe_run_def by (metis prod.collapse)
  have old: "validate_probe_path ''expected_path'' ''/old'' = Inr ''/old''"
    by code_simp
  from probe_write_guarded [OF run, of ?call] old show ?thesis
    by (auto simp: web_clients_def)
qed

text \<open>C37. The bodies of a selector write under the merge patch of RFC 7386. On a Service document whose
  selector is the one the body was computed from, the patch leaves exactly the proposed labels (the
  old keys are removed, not merged) and every other field of the spec; the rollback body, applied
  after it, brings back exactly the old labels. Fields outside metadata and spec do not change.\<close>

theorem selector_patch_roundtrip:
  assumes "distinct (map fst current)"
    and "validate_selector ''proposed_selector'' False given = Inr proposed"
    and "dget d ''spec'' = JObj spec"
    and "members (dget spec ''selector'') = str_dict current"
  shows "\<exists>d1 spec1 sel1 d2 spec2 sel2.
      merge_patch (JObj d) (JObj (selector_patch uid rv current proposed)) = JObj d1
    \<and> dget d1 ''spec'' = JObj spec1 \<and> dget spec1 ''selector'' = JObj sel1
    \<and> map_of sel1 = map_of (str_dict proposed)
    \<and> merge_patch (JObj d1) (JObj (selector_rollback rv' current proposed)) = JObj d2
    \<and> dget d2 ''spec'' = JObj spec2 \<and> dget spec2 ''selector'' = JObj sel2
    \<and> map_of sel2 = map_of (str_dict current)
    \<and> (\<forall>k. k \<noteq> ''selector'' \<longrightarrow> dget spec1 k = dget spec k \<and> dget spec2 k = dget spec k)
    \<and> (\<forall>k. k \<noteq> ''spec'' \<and> k \<noteq> ''metadata'' \<longrightarrow> dget d1 k = dget d k \<and> dget d2 k = dget d k)"
proof -
  have pro: "distinct (map fst proposed)"
    using assms(2) by (rule validate_selector_distinct)
  define sel1 where "sel1 = merge_members (str_dict current) (selector_change current proposed)"
  have s1: "map_of sel1 = map_of (str_dict proposed)"
    unfolding sel1_def by (rule selector_change_merge [OF assms(1) pro refl])
  have s2: "map_of (merge_members sel1 (selector_change proposed current)) = map_of (str_dict current)"
    by (rule selector_change_merge [OF pro assms(1) s1])
  show ?thesis
    unfolding selector_patch_def selector_rollback_def
    by (simp add: dget_put assms(3,4) s1 s2 flip: sel1_def)
qed

definition web_spec :: dict where
  "web_spec = [(''selector'', JObj (str_dict [(''app'', ''old''), (''tier'', ''web'')])), (''type'', JStr ''ClusterIP'')]"

lemma selector_patch_roundtrip_witness:
  "\<exists>d1 spec1 sel1. merge_patch (JObj [(''spec'', JObj web_spec)]) (JObj web_change) = JObj d1
     \<and> dget d1 ''spec'' = JObj spec1 \<and> dget spec1 ''selector'' = JObj sel1
     \<and> map_of sel1 = map_of (str_dict [(''app'', ''web'')]) \<and> dget spec1 ''type'' = JStr ''ClusterIP''"
proof -
  have v: "validate_selector ''proposed_selector'' False [(''app'', ''web'')] = Inr [(''app'', ''web'')]"
    by code_simp
  have sel: "members (dget web_spec ''selector'') = str_dict [(''app'', ''old''), (''tier'', ''web'')]"
    and ty: "dget web_spec ''type'' = JStr ''ClusterIP''"
    by (simp_all add: web_spec_def)
  have "distinct (map fst [(''app'', ''old''), (''tier'', ''web'')])" and "dget [(''spec'', JObj web_spec)] ''spec'' = JObj web_spec"
    by simp_all
  from selector_patch_roundtrip [OF this(1) v this(2) sel, of "Some ''svc-1''" "''7''" "''8''"]
  show ?thesis
    unfolding web_change_def using ty by (elim exE conjE) (intro exI conjI, assumption+, simp)
qed

text \<open>C38. Errors of the two tools. A tool raises only before it has sent anything: refused arguments
  raise before any call, and the only later exception is the missing resource version of a Deployment
  whose version was to be compared. In every other case a result is returned, its applied patch is
  the body that was sent (empty when none was), and success is reported only for a patch that was sent.\<close>

theorem tool_errors_contained:
  "(patch_service_selector (logged cl) ns n expected proposed uid (w, []) = (r, (w', calls)) \<longrightarrow>
      (case r of Inl e \<Rightarrow> unsafe_target e \<and> calls = []
       | Inr x \<Rightarrow> filter is_patch calls = (if mr_applied x = [] then []
             else [PatchCall KService safe_namespace (strip n) (MergePatch (mr_applied x))])
           \<and> (mr_status x = Succeeded \<longrightarrow> mr_applied x \<noteq> [])))
   \<and> (patch_readiness_probe (logged cl) ns n c op np oq nq rv uid (w, []) = (r, (w', calls)) \<longrightarrow>
      (case r of Inl e \<Rightarrow> unsafe_target e \<and> calls = []
           \<or> rv \<noteq> None \<and> calls = [ReadCall KDeployment safe_namespace (strip n)]
       | Inr x \<Rightarrow> filter is_patch calls = (if mr_applied x = [] then []
             else [PatchCall KDeployment safe_namespace (strip n) (StrategicMergePatch (mr_applied x))])
           \<and> (mr_status x = Succeeded \<longrightarrow> mr_applied x \<noteq> [])))"
proof (intro conjI impI, goal_cases)
  case 1
  then show ?case
    by (cases rule: selector_runs) (simp_all add: selector_patch_def)
next
  case 2
  then show ?case
    by (cases rule: probe_runs) (simp_all add: probe_patch_def)
qed

lemma tool_errors_contained_witness:
  "\<exists>r w'. patch_service_selector (logged web_clients) ''other'' ''web'' [] [(''app'', ''web'')] None
       ((web_service, web_deployment), []) = (r, w', []) \<and> (case r of Inl e \<Rightarrow> unsafe_target e | Inr _ \<Rightarrow> False)"
proof -
  have run: "patch_service_selector (logged web_clients) ''other'' ''web'' [] [(''app'', ''web'')] None
       ((web_service, web_deployment), [])
     = (Inl (UnsafeRemediationTarget ''write operations are restricted to namespace''), (web_service, web_deployment), [])"
    by code_simp
  with tool_errors_contained [THEN conjunct1, THEN mp, OF run] show ?thesis
    by auto
qed

end
