(* ===== verification/Executor.thy ===== *)
theory Executor
  imports RemediationTools ExecutionPolicy
begin

text \<open>
  \<open>backend/app/agent/executor.py\<close>: the executor of an approved plan. It checks the authorization,
  checks the registered profile against the live cluster again, calls one of the two tools, and
  turns every failure but a withdrawn authorization into a result.
\<close>

section \<open>Arguments of the tools\<close>

fun label_dict :: "(string \<times> string) list \<Rightarrow> label_pair list \<Rightarrow> (string \<times> string) list res" where
  "label_dict acc [] = Inr acc"
| "label_dict acc (p # ps) =
     (if lp_key p \<in> fst ` set acc then Inl (PyValueError ''selector contains duplicate keys'')
      else label_dict (acc @ [(lp_key p, lp_value p)]) ps)"

definition execute_service_selector :: "'w clients \<Rightarrow> plan \<Rightarrow> string \<Rightarrow> ('w, mutation_result) io" where
  "execute_service_selector cl pl uid = (let p = pl_parameters pl in
     bindW (liftW (label_dict [] (pa_current_selector p))) (\<lambda>current.
     bindW (liftW (label_dict [] (pa_proposed_selector p))) (\<lambda>proposed.
       patch_service_selector cl (pa_namespace p) (pa_resource_name p) current proposed (Some uid))))"

text \<open>\<open>if x is None: raise ValueError(...)\<close>\<close>

definition needed :: "string \<Rightarrow> 'a option \<Rightarrow> 'a res" where
  "needed field x = (case x of
       None \<Rightarrow> Inl (PyValueError (''approved readiness action is missing '' @ field)) | Some v \<Rightarrow> Inr v)"

definition execute_readiness_probe :: "'w clients \<Rightarrow> plan \<Rightarrow> string \<Rightarrow> string \<Rightarrow> ('w, mutation_result) io" where
  "execute_readiness_probe cl pl rv uid = (let p = pl_parameters pl in
     bindW (liftW (needed ''container_name'' (pa_container_name p))) (\<lambda>c.
     bindW (liftW (needed ''current_probe_path'' (pa_current_probe_path p))) (\<lambda>old_path.
     bindW (liftW (needed ''proposed_probe_path'' (pa_proposed_probe_path p))) (\<lambda>new_path.
     bindW (liftW (needed ''current_probe_port'' (pa_current_probe_port p))) (\<lambda>old_port.
     bindW (liftW (needed ''proposed_probe_port'' (pa_proposed_probe_port p))) (\<lambda>new_port.
       patch_readiness_probe cl (pa_namespace p) (pa_resource_name p) c old_path new_path old_port new_port
         (Some rv) (Some uid)))))))"

definition execute_authorized_action :: "'w clients \<Rightarrow> plan \<Rightarrow> string \<Rightarrow> string \<Rightarrow> ('w, mutation_result) io" where
  "execute_authorized_action cl pl rv uid = (case pl_action pl of
       PatchServiceSelector \<Rightarrow> execute_service_selector cl pl uid
     | PatchReadinessProbe \<Rightarrow> execute_readiness_probe cl pl rv uid
     | ManualInvestigation \<Rightarrow> raiseW (InvalidExecutionAuthorization ''action is not executable''))"

section \<open>Execution\<close>

text \<open>
  What the executor uses of its surroundings: the client, the clock, the profile directory and the
  reads of the profile check, each at the moment of its use.
\<close>

record 'w surroundings =
  su_clients :: "'w clients"
  su_now :: "('w, string) io"
  su_files :: "'w \<Rightarrow> profile_file list"
  su_reads :: "'w \<Rightarrow> cluster_reads"

definition live_profile :: "(json \<Rightarrow> string) \<Rightarrow> 'w surroundings \<Rightarrow> incident_state \<Rightarrow> plan \<Rightarrow> ('w, dict) io" where
  "live_profile H su s pl w = (revalidate_live_profile H (su_files su w) (su_reads su w) s pl, w)"

text \<open>\<open>plan.target_uid or observed_target_uid(state, plan)\<close>, a \<open>ValueError\<close> of which asks for new evidence.\<close>

definition execution_uid :: "incident_state \<Rightarrow> plan \<Rightarrow> string res" where
  "execution_uid s pl = (case pl_target_uid pl of
       Some u \<Rightarrow> if u \<noteq> [] then Inr u else catchE (observed_target_uid s pl) is_value_error
          (\<lambda>_. Inl (ProfileUnavailable ''TARGET_IDENTITY_MISSING: collect evidence and approve again''))
     | None \<Rightarrow> catchE (observed_target_uid s pl) is_value_error
          (\<lambda>_. Inl (ProfileUnavailable ''TARGET_IDENTITY_MISSING: collect evidence and approve again'')))"

text \<open>\<open>live["resource_version"]\<close>: a nonempty text by \<open>revalidate_live_profile\<close>; no other value equals one.\<close>

definition text_of :: "json \<Rightarrow> string" where
  "text_of v = (case v of JStr s \<Rightarrow> s | _ \<Rightarrow> [])"

definition attempt_write :: "(json \<Rightarrow> string) \<Rightarrow> 'w surroundings \<Rightarrow> incident_state \<Rightarrow> plan \<Rightarrow> ('w, mutation_result) io" where
  "attempt_write H su s pl =
     bindW (live_profile H su s pl) (\<lambda>live.
     bindW (liftW (execution_uid s pl)) (\<lambda>uid.
       execute_authorized_action (su_clients su) pl (text_of (dget live ''resource_version'')) uid))"

definition precondition_result :: "string \<Rightarrow> mutation_result" where
  "precondition_result msg = \<lparr>mr_status = Conflict, mr_before = None, mr_after = None, mr_applied = [],
     mr_rollback = [],
     mr_message = ''Service contract or application changed; collect evidence and approve again.'',
     mr_error_code = Some ''SERVICE_PROFILE_PRECONDITION_FAILED'', mr_error_message = Some msg\<rparr>"

definition tool_error_result :: "exn \<Rightarrow> mutation_result" where
  "tool_error_result e = \<lparr>mr_status = ExecFailed, mr_before = None, mr_after = None, mr_applied = [],
     mr_rollback = [], mr_message = ''Remediation tool raised an unexpected exception.'',
     mr_error_code = Some ''REMEDIATION_TOOL_ERROR'', mr_error_message = Some (exn_text e)\<rparr>"

text \<open>The three \<open>except\<close> clauses.\<close>

definition handled :: "mutation_result res \<Rightarrow> mutation_result res" where
  "handled r = (case r of
       Inr x \<Rightarrow> Inr x
     | Inl e \<Rightarrow> (case e of
           ProfileUnavailable m \<Rightarrow> Inr (precondition_result m)
         | InvalidExecutionAuthorization m \<Rightarrow> Inl e
         | _ \<Rightarrow> Inr (tool_error_result e)))"

definition execution_result :: "authorization \<Rightarrow> string \<Rightarrow> string \<Rightarrow> mutation_result \<Rightarrow> action_result res" where
  "execution_result au started finished m = (let p = pl_parameters (au_plan au);
       x = \<lparr>x_execution_id = au_execution_id au, x_approval_id = au_approval_id au,
            x_action = pl_action (au_plan au), x_status = mr_status m, x_namespace = pa_namespace p,
            x_resource_kind = pa_resource_kind p, x_resource_name = pa_resource_name p,
            x_started_at = started, x_finished_at = finished, x_before = mr_before m, x_after = mr_after m,
            x_applied_patch = mr_applied m, x_rollback_patch = mr_rollback m, x_message = mr_message m,
            x_error_code = mr_error_code m, x_error_message = mr_error_message m\<rparr>
     in if action_result_schema x then Inr x else Inl ValidationError)"

definition execute :: "(json \<Rightarrow> string) \<Rightarrow> (string \<Rightarrow> string) \<Rightarrow> 'w surroundings \<Rightarrow> incident_state \<Rightarrow> ('w, action_result) io" where
  "execute H T su s =
     bindW (liftW (validate_execution_authorization H T s)) (\<lambda>au.
       if au_already_executed au
       then (case au_previous_result au of
               None \<Rightarrow> raiseW (RuntimeErr ''authorization marked execution as completed without a result'')
             | Some x \<Rightarrow> returnW x)
       else bindW (su_now su) (\<lambda>started.
            bindW (tryW (attempt_write H su s (au_plan au))) (\<lambda>tried.
            bindW (liftW (handled tried)) (\<lambda>m.
            bindW (su_now su) (\<lambda>finished.
            liftW (execution_result au started finished m))))))"

end
