(* ===== verification/ExecutorProps.thy ===== *)
theory ExecutorProps
  imports ToolsFacts Executor ApprovalProps
begin

text \<open>
  What an execution of \<open>KubernetesRemediationExecutor\<close> sends to the cluster, for every client and clock.
\<close>

definition logged_surroundings :: "'w surroundings \<Rightarrow> ('w \<times> cluster_call list) surroundings" where
  "logged_surroundings su = \<lparr>su_clients = logged (su_clients su),
     su_now = (\<lambda>(w, calls). case su_now su w of (t, w') \<Rightarrow> (t, (w', calls))),
     su_files = su_files su \<circ> fst, su_reads = su_reads su \<circ> fst\<rparr>"

lemma su_now_logged:
  "su_now (logged_surroundings su) (w, calls) = (t, (w', calls')) \<longleftrightarrow> su_now su w = (t, w') \<and> calls' = calls"
  by (auto simp: logged_surroundings_def split: prod.splits)

lemma live_profile_logged:
  "live_profile H (logged_surroundings su) s pl (w, calls)
     = (revalidate_live_profile H (su_files su w) (su_reads su w) s pl, (w, calls))"
  by (simp add: live_profile_def logged_surroundings_def)

text \<open>The write an approved plan stands for, on the identity the evidence bound.\<close>

definition planned_patch :: "plan \<Rightarrow> string \<Rightarrow> cluster_call \<Rightarrow> bool" where
  "planned_patch pl uid c = (let p = pl_parameters pl; n = strip (pa_resource_name p) in
     strip (pa_namespace p) = safe_namespace \<and>
     (case pl_action pl of
        PatchServiceSelector \<Rightarrow> (\<exists>current proposed pr rv old.
            label_dict [] (pa_current_selector p) = Inr current
          \<and> label_dict [] (pa_proposed_selector p) = Inr proposed
          \<and> validate_selector ''proposed_selector'' False proposed = Inr pr
          \<and> c = PatchCall KService safe_namespace n (MergePatch (selector_patch (Some uid) rv old pr)))
      | PatchReadinessProbe \<Rightarrow> (\<exists>ct path port path' port' rv.
            pa_container_name p = Some ct \<and> pa_proposed_probe_path p = Some path \<and> pa_proposed_probe_port p = Some port
          \<and> validate_probe_path ''proposed_path'' path = Inr path' \<and> validate_probe_port ''proposed_port'' port = Inr port'
          \<and> c = PatchCall KDeployment safe_namespace n
                  (StrategicMergePatch (probe_patch (Some uid) rv (strip ct) path' port')))
      | ManualInvestigation \<Rightarrow> False))"

lemma needed_Inr: "needed f x = Inr v \<longleftrightarrow> x = Some v"
  by (auto simp: needed_def split: option.splits)

lemma selector_execution:
  assumes "execute_service_selector (logged cl) pl uid (w, []) = (r, (w', calls))"
    and "pl_action pl = PatchServiceSelector" and "c \<in> set calls" and "is_patch c"
  shows "filter is_patch calls = [c] \<and> planned_patch pl uid c"
proof -
  let ?p = "pl_parameters pl"
  from assms(1,3) obtain cur pr where d: "label_dict [] (pa_current_selector ?p) = Inr cur"
      "label_dict [] (pa_proposed_selector ?p) = Inr pr"
      "patch_service_selector (logged cl) (pa_namespace ?p) (pa_resource_name ?p) cur pr (Some uid) (w, []) = (r, (w', calls))"
    by (auto simp: execute_service_selector_def Let_def io_simps)
  from d(3) show ?thesis
  proof (cases rule: selector_runs)
    case (sent x ex pr' service rv w1 body)
    then have c: "c = PatchCall KService safe_namespace (strip (pa_resource_name ?p)) (MergePatch body)"
      using assms(3,4) by auto
    then show ?thesis
      using sent(2,5,9,10) d assms(2) by (auto simp: planned_patch_def Let_def)
  qed (use assms(3,4) in auto)
qed

lemma probe_execution:
  assumes "execute_readiness_probe (logged cl) pl v uid (w, []) = (r, (w', calls))"
    and "pl_action pl = PatchReadinessProbe" and "c \<in> set calls" and "is_patch c"
  shows "filter is_patch calls = [c] \<and> planned_patch pl uid c"
proof -
  let ?p = "pl_parameters pl"
  from assms(1,3) obtain ct op np oq nq where d: "pa_container_name ?p = Some ct"
      "pa_proposed_probe_path ?p = Some np" "pa_proposed_probe_port ?p = Some nq"
      "patch_readiness_probe (logged cl) (pa_namespace ?p) (pa_resource_name ?p) ct op np oq nq (Some v) (Some uid) (w, [])
        = (r, (w', calls))"
    by (auto simp: execute_readiness_probe_def Let_def io_simps needed_Inr)
  from d(4) show ?thesis
  proof (cases rule: probe_runs)
    case (sent x op' np' oq' nq' dep rv w1 body)
    then have c: "c = PatchCall KDeployment safe_namespace (strip (pa_resource_name ?p)) (StrategicMergePatch body)"
      using assms(3,4) by auto
    then show ?thesis
      using sent(2,5,7,12,13) d(1-3) assms(2) by (auto simp: planned_patch_def Let_def)
  qed (use assms(3,4) in auto)
qed

lemma attempt_execution:
  assumes "attempt_write H (logged_surroundings su) s pl (w, []) = (r, (w', calls))"
    and "c \<in> set calls" and "is_patch c"
  shows "\<exists>live uid. revalidate_live_profile H (su_files su w) (su_reads su w) s pl = Inr live
    \<and> execution_uid s pl = Inr uid \<and> filter is_patch calls = [c] \<and> planned_patch pl uid c"
proof -
  from assms(1,2) obtain live uid where d: "revalidate_live_profile H (su_files su w) (su_reads su w) s pl = Inr live"
      "execution_uid s pl = Inr uid"
      "execute_authorized_action (logged (su_clients su)) pl (text_of (dget live ''resource_version'')) uid (w, [])
        = (r, (w', calls))"
    by (auto simp: attempt_write_def io_simps live_profile_logged) (auto simp: logged_surroundings_def)
  have "filter is_patch calls = [c] \<and> planned_patch pl uid c"
  proof (cases "pl_action pl")
    case ManualInvestigation
    with d(3) assms(2) show ?thesis
      by (simp add: execute_authorized_action_def io_simps)
  next
    case PatchReadinessProbe
    show ?thesis
      by (rule probe_execution [OF _ PatchReadinessProbe assms(2,3)])
        (use d(3) PatchReadinessProbe in \<open>simp add: execute_authorized_action_def\<close>)
  next
    case PatchServiceSelector
    show ?thesis
      by (rule selector_execution [OF _ PatchServiceSelector assms(2,3)])
        (use d(3) PatchServiceSelector in \<open>simp add: execute_authorized_action_def\<close>)
  qed
  with d(1,2) show ?thesis
    by blast
qed

section \<open>A concrete execution\<close>

definition demo_surroundings :: "unit surroundings" where
  "demo_surroundings = \<lparr>su_clients =
      \<lparr>cl_read_service = (\<lambda>ns n w. (Inr \<lparr>so_metadata = Some \<lparr>om_uid = Some ''svc-1'', om_resource_version = Some ''5'', om_generation = None\<rparr>,
          so_spec = Some (Some [(''app'', ''wrong'')])\<rparr>, w)),
       cl_read_deployment = (\<lambda>ns n w. (Inl (ApiException 404 None), w)),
       cl_patch_service = (\<lambda>ns n b w. (Inr \<lparr>so_metadata = Some \<lparr>om_uid = Some ''svc-1'', om_resource_version = Some ''6'', om_generation = None\<rparr>,
          so_spec = Some (Some [(''app'', ''order'')])\<rparr>, w)),
       cl_patch_deployment = (\<lambda>ns n b w. (Inl (ApiException 404 None), w))\<rparr>,
     su_now = (\<lambda>w. (Inr ''t2'', w)), su_files = (\<lambda>w. [\<lparr>pf_size = 900, pf_profile = Some demo_profile\<rparr>]),
     su_reads = (\<lambda>w. \<lparr>rd_deployment = (\<lambda>ns n. Inr (ev_data (demo_deployment ''/ready'' 1))),
                     rd_service = (\<lambda>ns n. Inr (ev_data (demo_service ''wrong'')))\<rparr>)\<rparr>"

definition demo_selector_patch :: cluster_call where
  "demo_selector_patch = PatchCall KService safe_namespace ''order-service''
     (MergePatch (selector_patch (Some ''svc-1'') ''5'' [(''app'', ''wrong'')] [(''app'', ''order'')]))"

definition demo_execution :: "action_result res \<times> unit \<times> cluster_call list" where
  "demo_execution = execute demo_hash demo_text_hash (logged_surroundings demo_surroundings) approved_state ((), [])"

definition demo_attempt :: "mutation_result res \<times> unit \<times> cluster_call list" where
  "demo_attempt = attempt_write demo_hash (logged_surroundings demo_surroundings) approved_state bound_selector_plan ((), [])"

lemma demo_attempt_calls: "snd (snd demo_attempt) = [ReadCall KService safe_namespace ''order-service'', demo_selector_patch]"
  by code_simp

lemma demo_attempt_ok: "\<exists>m. fst demo_attempt = Inr m"
  unfolding isOK_iff [symmetric] by code_simp

lemma demo_now: "su_now (logged_surroundings demo_surroundings) (u, calls) = (Inr ''t2'', (u, calls))"
  by (simp add: su_now_logged) (simp add: demo_surroundings_def)

lemma demo_execution_calls:
  "snd (snd demo_execution) = [ReadCall KService safe_namespace ''order-service'', demo_selector_patch]"
proof -
  obtain m where m: "attempt_write demo_hash (logged_surroundings demo_surroundings) approved_state bound_selector_plan ((), [])
     = (Inr m, ((), [ReadCall KService safe_namespace ''order-service'', demo_selector_patch]))"
    using demo_attempt_ok demo_attempt_calls unfolding demo_attempt_def by (metis prod.collapse unit.exhaust)
  show ?thesis
    by (simp add: demo_execution_def execute_def demo_authorized demo_authorization_def bindW_def tryW_def
        demo_now m handled_def liftW_def split: sum.splits)
qed

section \<open>Properties\<close>

text \<open>C11. The executor writes only what was approved, at most once. When an execution sends a patch, the
  state authorizes the plan (phase, decision, request, record and plan agree), no earlier result
  exists, the registered profile was confirmed against the live cluster in this execution, the patch is the only
  one, and it is the plan's own change on the plan's resource in the one writable namespace, bound
  to the UID the evidence identified.\<close>

theorem executor_writes_approved_plan:
  assumes "execute H T (logged_surroundings su) s (w, []) = (r, (w', calls))"
    and "c \<in> set calls" and "is_patch c"
  shows "\<exists>au w1 started live uid. validate_execution_authorization H T s = Inr au \<and> \<not> au_already_executed au
    \<and> su_now su w = (Inr started, w1)
    \<and> revalidate_live_profile H (su_files su w1) (su_reads su w1) s (au_plan au) = Inr live
    \<and> execution_uid s (au_plan au) = Inr uid
    \<and> filter is_patch calls = [c] \<and> planned_patch (au_plan au) uid c"
proof -
  from assms(1,2) obtain au started w1 tried w2 where d: "validate_execution_authorization H T s = Inr au"
      "\<not> au_already_executed au" "su_now su w = (Inr started, w1)"
      "attempt_write H (logged_surroundings su) s (au_plan au) (w1, []) = (tried, (w2, calls))"
    by (auto simp: execute_def io_simps su_now_logged split: if_splits option.splits)
  from attempt_execution [OF d(4) assms(2,3)] d(1-3) show ?thesis
    by blast
qed

lemma executor_writes_approved_plan_witness:
  "\<exists>au. validate_execution_authorization demo_hash demo_text_hash approved_state = Inr au
     \<and> planned_patch (au_plan au) ''svc-1'' demo_selector_patch"
proof -
  obtain r w' where run: "execute demo_hash demo_text_hash (logged_surroundings demo_surroundings) approved_state ((), [])
      = (r, (w', [ReadCall KService safe_namespace ''order-service'', demo_selector_patch]))"
    using demo_execution_calls unfolding demo_execution_def by (metis prod.collapse)
  from executor_writes_approved_plan [OF run, of demo_selector_patch] obtain au uid where
      "validate_execution_authorization demo_hash demo_text_hash approved_state = Inr au"
      "planned_patch (au_plan au) uid demo_selector_patch"
    by (auto simp: demo_selector_patch_def)
  moreover from this(2) have "uid = ''svc-1''"
    by (auto simp: planned_patch_def demo_selector_patch_def selector_patch_def opt_entry_def Let_def
        split: action_name.splits)
  ultimately show ?thesis
    by blast
qed

end
