(* ===== verification/Ledger.thy ===== *)
theory Ledger
  imports Executor Operations Runs Decimals
begin

text \<open>
  \<open>backend/app/runtime/operations.py\<close>: the executor of the durable runtime. The decision must be the
  one queued on the run, the write is a JSON patch journalled before it is dispatched, it is sent at
  most once, and a response that cannot be attributed leaves the operation to a reconciliation
  that only reads. Test failpoints and telemetry change nothing and are left out.
\<close>

section \<open>The target\<close>

text \<open>The fields of \<open>parameters\<close> a read needs; reconciliation fills them from the journal.\<close>

record target =
  tg_namespace :: string
  tg_kind :: resource_kind
  tg_name :: string
  tg_container :: "string option"

definition plan_target :: "parameters \<Rightarrow> target" where
  "plan_target p = \<lparr>tg_namespace = pa_namespace p, tg_kind = pa_resource_kind p,
     tg_name = pa_resource_name p, tg_container = pa_container_name p\<rparr>"

datatype resource = ServiceRes service_object | DeploymentRes deployment_object

fun resource_meta :: "resource \<Rightarrow> object_meta option" where
  "resource_meta (ServiceRes s) = so_metadata s"
| "resource_meta (DeploymentRes d) = do_metadata d"

definition snapshot_of :: "target \<Rightarrow> resource \<Rightarrow> resource_snapshot res" where
  "snapshot_of tg r = (case r of
       ServiceRes s \<Rightarrow> service_snapshot (tg_namespace tg) (tg_name tg) s
     | DeploymentRes d \<Rightarrow> (case tg_container tg of
           None \<Rightarrow> Inl (PyValueError ''container does not exist in Deployment'')
         | Some c \<Rightarrow> deployment_snapshot (tg_namespace tg) (tg_name tg) d c))"

definition stamped :: "resource \<Rightarrow> resource_snapshot \<Rightarrow> resource_snapshot" where
  "stamped r n = n\<lparr>rs_uid := meta_uid (resource_meta r), rs_generation := meta_generation (resource_meta r)\<rparr>"

definition fetch :: "'w clients \<Rightarrow> target \<Rightarrow> ('w, resource) io" where
  "fetch cl tg = (if tg_kind tg = KService
     then bindW (cl_read_service cl (tg_namespace tg) (tg_name tg)) (\<lambda>s. returnW (ServiceRes s))
     else bindW (cl_read_deployment cl (tg_namespace tg) (tg_name tg)) (\<lambda>d. returnW (DeploymentRes d)))"

definition read_target :: "'w clients \<Rightarrow> target \<Rightarrow> ('w, resource \<times> dict) io" where
  "read_target cl tg =
     bindW (fetch cl tg) (\<lambda>r.
     bindW (liftW (snapshot_of tg r)) (\<lambda>n.
     if blank (rs_uid (stamped r n)) then raiseW (PyValueError ''target UID is missing'')
     else returnW (r, snapshot_dump (stamped r n))))"

section \<open>Configurations\<close>

text \<open>\<open>{item.key: item.value for item in pairs}\<close>: a later pair replaces an earlier one.\<close>

fun dict_of :: "(string \<times> string) list \<Rightarrow> label_pair list \<Rightarrow> (string \<times> string) list" where
  "dict_of d [] = d"
| "dict_of d (p # ps) = dict_of (put d (lp_key p) (lp_value p)) ps"

definition probe_settings :: "string option \<Rightarrow> string option \<Rightarrow> port option \<Rightarrow> dict" where
  "probe_settings c path p = [(''container_name'', opt_json JStr c),
     (''readiness_probe'', JObj [(''path'', opt_json JStr path), (''port'', opt_json port_json p)])]"

definition desired_configuration :: "plan \<Rightarrow> dict" where
  "desired_configuration pl = (let p = pl_parameters pl in
     if pl_action pl = PatchServiceSelector then selector_configuration (dict_of [] (pa_proposed_selector p))
     else probe_settings (pa_container_name p) (pa_proposed_probe_path p) (pa_proposed_probe_port p))"

definition prior_configuration :: "plan \<Rightarrow> dict" where
  "prior_configuration pl = (let p = pl_parameters pl in
     if pl_action pl = PatchServiceSelector then selector_configuration (dict_of [] (pa_current_selector p))
     else probe_settings (pa_container_name p) (pa_current_probe_path p) (pa_current_probe_port p))"

definition approved_uid :: "incident_state \<Rightarrow> parameters \<Rightarrow> json" where
  "approved_uid s p =
     (if pa_resource_kind p = KDeployment
      then opt_get (Option.bind (st_service_profile s) sn_deployment_uid)
      else (case filter (\<lambda>e. ev_type e = ''Service'' \<and> ev_name e = pa_resource_name p
                \<and> dget (ev_data e) ''namespace'' = JStr (pa_namespace p)) (st_evidence s) of
          [e] \<Rightarrow> dget (ev_data e) ''uid'' | _ \<Rightarrow> JNull))"

section \<open>The patch\<close>

definition test_op :: "string \<Rightarrow> json \<Rightarrow> json" where
  "test_op path v = JObj [(''op'', JStr ''test''), (''path'', JStr path), (''value'', v)]"

definition replace_op :: "string \<Rightarrow> json \<Rightarrow> json" where
  "replace_op path v = JObj [(''op'', JStr ''replace''), (''path'', JStr path), (''value'', v)]"

definition container_base :: "nat \<Rightarrow> string" where
  "container_base i = ''/spec/template/spec/containers/'' @ decimal i"

definition container_index :: "deployment_object \<Rightarrow> string option \<Rightarrow> nat res" where
  "container_index d c = (let cs = deployment_containers d;
       i = length (takeWhile (\<lambda>x. Some (cn_name x) \<noteq> c) cs)
     in if i < length cs then Inr i else Inl StopIteration)"

definition probe_field_ops :: "string \<Rightarrow> dict \<Rightarrow> dict \<Rightarrow> string \<Rightarrow> json list res" where
  "probe_field_ops base conf desired key =
     bindE (jindex (JObj conf) ''readiness_probe'') (\<lambda>old.
     bindE (jindex old key) (\<lambda>v.
     bindE (jindex (JObj desired) ''readiness_probe'') (\<lambda>new.
     bindE (jindex new key) (\<lambda>v'.
       Inr [test_op (base @ ''/readinessProbe/httpGet/'' @ key) v,
            replace_op (base @ ''/readinessProbe/httpGet/'' @ key) v']))))"

definition identity_ops :: "dict \<Rightarrow> json list" where
  "identity_ops before = [test_op ''/metadata/uid'' (dget before ''uid''),
     test_op ''/metadata/resourceVersion'' (dget before ''resource_version'')]"

definition configuration_of :: "dict \<Rightarrow> dict" where
  "configuration_of before = (case dget before ''configuration'' of JObj c \<Rightarrow> c | _ \<Rightarrow> [])"

definition build_patch :: "plan \<Rightarrow> resource \<Rightarrow> dict \<Rightarrow> json list res" where
  "build_patch pl r before =
     (if pl_action pl = PatchServiceSelector
      then bindE (jindex (JObj (configuration_of before)) ''selector'') (\<lambda>old.
           bindE (jindex (JObj (desired_configuration pl)) ''selector'') (\<lambda>new.
           Inr (identity_ops before @ [test_op ''/spec/selector'' old, replace_op ''/spec/selector'' new])))
      else (case r of
          ServiceRes s \<Rightarrow> Inl AttributeError
        | DeploymentRes d \<Rightarrow>
            bindE (container_index d (pa_container_name (pl_parameters pl))) (\<lambda>i.
            bindE (probe_field_ops (container_base i) (configuration_of before) (desired_configuration pl) ''path'') (\<lambda>path_ops.
            bindE (probe_field_ops (container_base i) (configuration_of before) (desired_configuration pl) ''port'') (\<lambda>port_ops.
            Inr (identity_ops before
                 @ [test_op (container_base i @ ''/name'') (opt_json JStr (pa_container_name (pl_parameters pl)))]
                 @ path_ops @ port_ops))))))"

section \<open>The surroundings of an execution\<close>

text \<open>
  The repository methods with the lease of the run, the heartbeat's \<open>lost\<close> event, the run's
  budget, and pydantic's decoding of the stored JSON are parameters here.
\<close>

record 'w ledger = "'w surroundings" +
  lg_lost :: "'w \<Rightarrow> bool"
  lg_assert_owned :: "('w, unit) io"
  lg_operation :: "('w, op_row option) io"
  lg_prepare :: "op_request \<Rightarrow> ('w, op_row) io"
  lg_dispatch :: "string \<Rightarrow> ('w, unit) io"
  lg_record :: "op_state \<Rightarrow> op_report \<Rightarrow> ('w, unit) io"
  lg_budget :: "('w, unit) io option"
  lg_isoformat :: "int \<Rightarrow> string"
  lg_decode_result :: "json \<Rightarrow> action_result res"
  lg_decode_snapshot :: "json \<Rightarrow> resource_snapshot res"

definition owned :: "'w ledger \<Rightarrow> ('w, unit) io" where
  "owned lg w = (if lg_lost lg w then (Inl (LeaseLost ''heartbeat failed before dispatch''), w)
                 else lg_assert_owned lg w)"

definition action_result_dump :: "action_result \<Rightarrow> json" where
  "action_result_dump x = JObj
     [(''execution_id'', JStr (x_execution_id x)), (''approval_id'', JStr (x_approval_id x)),
      (''action'', JStr (action_text (x_action x))), (''status'', JStr (execution_status_name (x_status x))),
      (''namespace'', JStr (x_namespace x)), (''resource_kind'', JStr (kind_name (x_resource_kind x))),
      (''resource_name'', JStr (x_resource_name x)), (''started_at'', JStr (x_started_at x)),
      (''finished_at'', JStr (x_finished_at x)),
      (''before_snapshot'', opt_json (\<lambda>n. JObj (snapshot_dump n)) (x_before x)),
      (''after_snapshot'', opt_json (\<lambda>n. JObj (snapshot_dump n)) (x_after x)),
      (''applied_patch'', JObj (x_applied_patch x)), (''rollback_patch'', JObj (x_rollback_patch x)),
      (''message'', JStr (x_message x)), (''error_code'', opt_json JStr (x_error_code x)),
      (''error_message'', opt_json JStr (x_error_message x))]"

section \<open>The queued decision\<close>

text \<open>The checks of \<open>self.lease["approval_payload"]\<close> against the state and its authorization.\<close>

definition decision_matches :: "json \<Rightarrow> approval_record \<Rightarrow> bool" where
  "decision_matches d r = (case d of JObj kvs \<Rightarrow>
       dget kvs ''approved'' = JBool (rc_approved r) \<and> dget kvs ''approver'' = JStr (rc_approver r)
       \<and> dget kvs ''comment'' = JStr (rc_comment r) | _ \<Rightarrow> False)"

definition durable_decision :: "(json \<Rightarrow> string) \<Rightarrow> json option \<Rightarrow> incident_state \<Rightarrow> authorization \<Rightarrow> unit res" where
  "durable_decision H saved s au = (case saved of
       None \<Rightarrow> Inl (PyValueError ''durable approval binding does not match'')
     | Some v \<Rightarrow>
        if \<not> truthy v then Inl (PyValueError ''durable approval binding does not match'')
        else bindE (jindex v ''decision'') (\<lambda>d.
             bindE (jindex d ''approved'') (\<lambda>ok.
             bindE (require (truthy ok) (PyValueError ''durable approval binding does not match'')) (\<lambda>_.
             bindE (jindex v ''binding'') (\<lambda>b.
             bindE (require (b = JStr (approval_binding H s)) (PyValueError ''durable approval binding does not match'')) (\<lambda>_.
             bindE (jindex d ''approval_id'') (\<lambda>i.
             bindE (require (i = JStr (au_approval_id au)) (PyValueError ''durable approval ID does not match'')) (\<lambda>_.
             require (decision_matches d (au_approval_record au))
               (PyValueError ''durable approval record does not match'')))))))))"

section \<open>Recording a result\<close>

definition ledger_result :: "'w ledger \<Rightarrow> authorization \<Rightarrow> op_row \<Rightarrow> execution_status \<Rightarrow> dict option
    \<Rightarrow> string option \<Rightarrow> string \<Rightarrow> action_result res" where
  "ledger_result lg au p st after code now =
     bindE (lg_decode_snapshot lg (o_before p)) (\<lambda>b.
     bindE (case after of None \<Rightarrow> Inr None | Some a \<Rightarrow> bindE (lg_decode_snapshot lg (JObj a)) (\<lambda>n. Inr (Some n))) (\<lambda>an.
     let q = pl_parameters (au_plan au);
         x = \<lparr>x_execution_id = au_execution_id au, x_approval_id = au_approval_id au,
              x_action = pl_action (au_plan au), x_status = st, x_namespace = pa_namespace q,
              x_resource_kind = pa_resource_kind q, x_resource_name = pa_resource_name q,
              x_started_at = lg_isoformat lg (o_created_at p), x_finished_at = now,
              x_before = Some b, x_after = an,
              x_applied_patch = (if st = Succeeded then [(''json_patch'', o_patch p)] else []),
              x_rollback_patch = [],
              x_message = (if after = None then ''Write rejected before application.''
                           else ''Recorded Kubernetes patch response.''),
              x_error_code = code, x_error_message = None\<rparr>
     in if action_result_schema x then Inr x else Inl ValidationError))"

definition result_report :: "action_result \<Rightarrow> dict option \<Rightarrow> string option \<Rightarrow> execution_status \<Rightarrow> op_report" where
  "result_report x after code st = \<lparr>rp_response = map_option JObj after, rp_observed = None,
     rp_result = Some (action_result_dump x), rp_code = code,
     rp_attribution = (if st = Succeeded then Confirmed else NotEstablished)\<rparr>"

definition conclude :: "'w ledger \<Rightarrow> authorization \<Rightarrow> op_row \<Rightarrow> execution_status \<Rightarrow> dict option \<Rightarrow> string option
    \<Rightarrow> ('w, action_result) io" where
  "conclude lg au p st after code =
     bindW (su_now lg) (\<lambda>now.
     bindW (liftW (ledger_result lg au p st after code now)) (\<lambda>x.
     bindW (lg_record lg (if st = Succeeded then OpSucceeded else Rejected) (result_report x after code st)) (\<lambda>_.
     returnW x)))"

definition unknown_report :: "string \<Rightarrow> dict option \<Rightarrow> op_report" where
  "unknown_report code response = no_report\<lparr>rp_code := Some code, rp_response := map_option JObj response\<rparr>"

definition unattributed :: "'w ledger \<Rightarrow> string \<Rightarrow> dict option \<Rightarrow> string \<Rightarrow> ('w, 'a) io" where
  "unattributed lg code response msg =
     bindW (lg_record lg UnknownOutcome (unknown_report code response)) (\<lambda>_. raiseW (OutcomeUnknown msg))"

section \<open>Execution\<close>

definition send_patch :: "'w clients \<Rightarrow> target \<Rightarrow> json \<Rightarrow> ('w, resource) io" where
  "send_patch cl tg body = (let b = JsonPatch (case body of JArr ops \<Rightarrow> ops | _ \<Rightarrow> []) in
     if tg_kind tg = KService
     then bindW (cl_patch_service cl (tg_namespace tg) (tg_name tg) b) (\<lambda>s. returnW (ServiceRes s))
     else bindW (cl_patch_deployment cl (tg_namespace tg) (tg_name tg) b) (\<lambda>d. returnW (DeploymentRes d)))"

text \<open>The statuses that mean the API server refused the patch before applying it.\<close>

definition rejected_status :: "exn \<Rightarrow> bool" where
  "rejected_status e = (case e of
       ApiException status _ \<Rightarrow> status \<in> {400, 401, 403, 404, 409, 422} | _ \<Rightarrow> False)"

definition attributable :: "target \<Rightarrow> dict \<Rightarrow> dict \<Rightarrow> dict \<Rightarrow> bool" where
  "attributable tg before desired after =
     (dget after ''uid'' = dget before ''uid''
      \<and> py_eq (dget after ''configuration'') (JObj desired)
      \<and> (tg_kind tg = KDeployment \<longrightarrow> is_int (dget after ''generation''))
      \<and> truthy (dget after ''resource_version'')
      \<and> dget after ''resource_version'' \<noteq> dget before ''resource_version'')"

text \<open>From the dispatched operation to the recorded response.\<close>

definition issue :: "'w ledger \<Rightarrow> authorization \<Rightarrow> op_row \<Rightarrow> dict \<Rightarrow> ('w, action_result) io" where
  "issue lg au p before = (let tg = plan_target (pl_parameters (au_plan au)) in
     bindW (tryW (send_patch (su_clients lg) tg (o_patch p))) (\<lambda>response. case response of
       Inl e \<Rightarrow>
         if rejected_status e then conclude lg au p Conflict None (Some ''KUBERNETES_REJECTED'')
         else unattributed lg ''WRITE_OUTCOME_UNKNOWN'' None ''patch response is unknown''
     | Inr r \<Rightarrow> (case snapshot_of tg r of
         Inl e \<Rightarrow> unattributed lg ''INVALID_WRITE_RESPONSE'' None ''patch response cannot be attributed''
       | Inr n \<Rightarrow> (let after = snapshot_dump (stamped r n) in
           if attributable tg before (desired_configuration (au_plan au)) after
           then conclude lg au p Succeeded (Some after) None
           else unattributed lg ''WRITE_RESPONSE_MISMATCH'' (Some after) ''patch response cannot be attributed''))))"

text \<open>A prepared operation is resumed only against its exact original target.\<close>

definition unchanged_target :: "incident_state \<Rightarrow> plan \<Rightarrow> dict \<Rightarrow> op_row \<Rightarrow> dict \<Rightarrow> bool" where
  "unchanged_target s pl before p live =
     (py_eq (JObj before) (o_before p)
      \<and> py_eq (dget before ''uid'') (approved_uid s (pl_parameters pl))
      \<and> (pa_resource_kind (pl_parameters pl) = KDeployment
           \<longrightarrow> py_eq (dget before ''resource_version'') (dget live ''resource_version''))
      \<and> py_eq (dget before ''configuration'') (JObj (prior_configuration pl)))"

definition write_request :: "(json \<Rightarrow> string) \<Rightarrow> authorization \<Rightarrow> dict \<Rightarrow> json list \<Rightarrow> op_request" where
  "write_request H au before patch = \<lparr>rq_approval_id = au_approval_id au,
     rq_plan_revision = request_digest H (plan_payload (au_plan au)),
     rq_plan = JObj (plan_dump (au_plan au)), rq_action = action_text (pl_action (au_plan au)),
     rq_before = JObj before,
     rq_target = JObj (put before ''configuration'' (JObj (desired_configuration (au_plan au)))),
     rq_patch = JArr patch\<rparr>"

definition confirm_profile :: "(json \<Rightarrow> string) \<Rightarrow> 'w ledger \<Rightarrow> incident_state \<Rightarrow> plan \<Rightarrow> ('w, dict) io" where
  "confirm_profile H lg s pl w = (revalidate_live_profile H (su_files lg w) (su_reads lg w) s pl, w)"

text \<open>\<open>budget.before_write(required=120)\<close>, when a budget is bound to the run.\<close>

definition charge :: "'w ledger \<Rightarrow> ('w, unit) io" where
  "charge lg = (case lg_budget lg of None \<Rightarrow> returnW () | Some m \<Rightarrow> m)"

text \<open>From the prepared operation on: the run's budget, the dispatch, the owner once more, the patch.\<close>

definition release :: "'w ledger \<Rightarrow> authorization \<Rightarrow> op_row \<Rightarrow> dict \<Rightarrow> ('w, action_result) io" where
  "release lg au p before =
     bindW (charge lg) (\<lambda>_.
     bindW (lg_dispatch lg (o_operation_id p)) (\<lambda>_.
     bindW (owned lg) (\<lambda>_.
     issue lg au p before)))"

definition advance :: "'w ledger \<Rightarrow> incident_state \<Rightarrow> authorization \<Rightarrow> dict \<Rightarrow> dict \<Rightarrow> op_row \<Rightarrow> ('w, action_result) io" where
  "advance lg s au live before p =
     (if unchanged_target s (au_plan au) before p live then release lg au p before
      else conclude lg au p Conflict None (Some ''OPERATION_PRECONDITION_FAILED''))"

definition prepare_write :: "(json \<Rightarrow> string) \<Rightarrow> 'w ledger \<Rightarrow> incident_state \<Rightarrow> authorization \<Rightarrow> dict
    \<Rightarrow> resource \<Rightarrow> dict \<Rightarrow> ('w, action_result) io" where
  "prepare_write H lg s au live r before =
     bindW (liftW (build_patch (au_plan au) r before)) (\<lambda>patch.
     bindW (lg_prepare lg (write_request H au before patch)) (\<lambda>p.
     advance lg s au live before p))"

definition write_once :: "(json \<Rightarrow> string) \<Rightarrow> 'w ledger \<Rightarrow> incident_state \<Rightarrow> authorization \<Rightarrow> ('w, action_result) io" where
  "write_once H lg s au =
     bindW (confirm_profile H lg s (au_plan au)) (\<lambda>live.
     bindW (read_target (su_clients lg) (plan_target (pl_parameters (au_plan au)))) (\<lambda>found.
     prepare_write H lg s au live (fst found) (snd found)))"

text \<open>What an operation already in the journal decides.\<close>

definition settled :: "op_row \<Rightarrow> bool" where
  "settled p = (o_state p \<in> {OpSucceeded, Reconciled, Rejected} \<and> o_result p \<noteq> None)"

definition ledger_execute :: "(json \<Rightarrow> string) \<Rightarrow> (string \<Rightarrow> string) \<Rightarrow> json option \<Rightarrow> 'w ledger
    \<Rightarrow> incident_state \<Rightarrow> ('w, action_result) io" where
  "ledger_execute H T saved lg s =
     bindW (owned lg) (\<lambda>_.
     bindW (liftW (validate_execution_authorization H T s)) (\<lambda>au.
     bindW (liftW (durable_decision H saved s au)) (\<lambda>_.
     bindW (lg_operation lg) (\<lambda>found. case found of
       None \<Rightarrow> write_once H lg s au
     | Some p \<Rightarrow>
        if o_approval_id p \<noteq> au_approval_id au
           \<or> o_plan_revision p \<noteq> request_digest H (plan_payload (au_plan au))
        then raiseW (PyValueError ''operation authorization changed'')
        else if settled p then liftW (lg_decode_result lg (opt_get (o_result p)))
        else if o_state p \<noteq> Prepared
        then raiseW (OutcomeUnknown ''operation requires read-only reconciliation'')
        else write_once H lg s au))))"

section \<open>Reconciliation\<close>

text \<open>\<open>SimpleNamespace(...)\<close> of the stored snapshots; a kind other than \<open>Service\<close> is read as a Deployment.\<close>

definition stored_target :: "op_row \<Rightarrow> target res" where
  "stored_target p =
     bindE (jindex (o_before p) ''namespace'') (\<lambda>ns.
     bindE (jindex (o_before p) ''resource_kind'') (\<lambda>k.
     bindE (jindex (o_before p) ''resource_name'') (\<lambda>n.
     bindE (jindex (o_target p) ''configuration'') (\<lambda>c.
     bindE (jget c ''container_name'') (\<lambda>ct.
     Inr \<lparr>tg_namespace = text_of ns, tg_kind = (if k = JStr ''Service'' then KService else KDeployment),
          tg_name = text_of n, tg_container = (case ct of JStr x \<Rightarrow> Some x | _ \<Rightarrow> None)\<rparr>)))))"

definition confirmed :: "op_row \<Rightarrow> dict \<Rightarrow> bool res" where
  "confirmed p observed =
     (if o_attribution p = Confirmed \<and> o_response p \<noteq> None \<and> py_eq (JObj observed) (opt_get (o_response p))
      then bindE (jindex (o_target p) ''configuration'') (\<lambda>c.
           bindE (jindex (o_before p) ''uid'') (\<lambda>u.
           Inr (py_eq (dget observed ''configuration'') c \<and> py_eq (dget observed ''uid'') u \<and> o_result p \<noteq> None)))
      else Inr False)"

definition reconcile :: "'w ledger \<Rightarrow> op_row \<Rightarrow> ('w, bool) io" where
  "reconcile lg p =
     bindW (liftW (stored_target p)) (\<lambda>tg.
     bindW (tryW (read_target (su_clients lg) tg)) (\<lambda>found. case found of
       Inl e \<Rightarrow> bindW (lg_record lg ManualRequired (no_report\<lparr>rp_code := Some ''RECONCILIATION_READ_FAILED''\<rparr>))
                  (\<lambda>_. returnW False)
     | Inr (r, observed) \<Rightarrow>
         bindW (liftW (confirmed p observed)) (\<lambda>ok.
         bindW (lg_record lg (if ok then Reconciled else ManualRequired)
            (no_report\<lparr>rp_observed := Some (JObj observed),
               rp_attribution := (if ok then Confirmed else NotEstablished),
               rp_code := (if ok then None else Some ''OPERATION_MANUAL_REQUIRED'')\<rparr>))
           (\<lambda>_. returnW ok))))"

end
