(* ===== verification/JsonPatch.thy ===== *)
theory JsonPatch
  imports Ledger
begin

text \<open>
  The reference for what the API server does with a JSON patch: pointers of RFC 6901 and the
  operations \<open>test\<close> and \<open>replace\<close> of RFC 6902, applied all or nothing; and what the patches of
  \<open>build_patch\<close> come to under it.
\<close>

section \<open>Pointers\<close>

fun unescape :: "string \<Rightarrow> string" where
  "unescape (a # b # s) = (if a = CHR ''~'' \<and> b = CHR ''1'' then CHR ''/'' # unescape s
     else if a = CHR ''~'' \<and> b = CHR ''0'' then CHR ''~'' # unescape s else a # unescape (b # s))"
| "unescape s = s"

definition pointer :: "string \<Rightarrow> string list" where
  "pointer p = (if p = [] then [] else map unescape (split_on (CHR ''/'') (drop 1 p)))"

text \<open>The element of an array a token names: its index in decimal without leading zeros.\<close>

definition element_at :: "string \<Rightarrow> json list \<Rightarrow> nat option" where
  "element_at t xs = find (\<lambda>i. decimal i = t) [0..<length xs]"

fun ptr_get :: "string list \<Rightarrow> json \<Rightarrow> json option" where
  "ptr_get [] v = Some v"
| "ptr_get (t # ts) (JObj d) = Option.bind (map_of d t) (ptr_get ts)"
| "ptr_get (t # ts) (JArr xs) = Option.bind (element_at t xs) (\<lambda>i. ptr_get ts (xs ! i))"
| "ptr_get (t # ts) v = None"

fun ptr_set :: "string list \<Rightarrow> json \<Rightarrow> json \<Rightarrow> json option" where
  "ptr_set [] v _ = Some v"
| "ptr_set (t # ts) v (JObj d) = Option.bind (map_of d t) (\<lambda>x. map_option (\<lambda>y. JObj (put d t y)) (ptr_set ts v x))"
| "ptr_set (t # ts) v (JArr xs) = Option.bind (element_at t xs) (\<lambda>i. map_option (\<lambda>y. JArr (xs[i := y])) (ptr_set ts v (xs ! i)))"
| "ptr_set (t # ts) v x = None"

section \<open>Operations\<close>

definition apply_op :: "json \<Rightarrow> json \<Rightarrow> json option" where
  "apply_op j doc = (case j of JObj d \<Rightarrow>
       (case dget d ''path'' of JStr p \<Rightarrow>
          if dget d ''op'' = JStr ''test''
          then Option.bind (ptr_get (pointer p) doc) (\<lambda>v. if same_text v (dget d ''value'') then Some doc else None)
          else if dget d ''op'' = JStr ''replace'' then ptr_set (pointer p) (dget d ''value'') doc
          else None
        | _ \<Rightarrow> None)
     | _ \<Rightarrow> None)"

fun apply_patch :: "json list \<Rightarrow> json \<Rightarrow> json option" where
  "apply_patch [] doc = Some doc"
| "apply_patch (j # js) doc = Option.bind (apply_op j doc) (apply_patch js)"

definition holds_at :: "json \<Rightarrow> string list \<Rightarrow> json \<Rightarrow> bool" where
  "holds_at doc ts v = (\<exists>x. ptr_get ts doc = Some x \<and> same_text x v)"

lemma apply_test: "apply_op (test_op p v) doc = Some doc' \<longleftrightarrow> doc' = doc \<and> holds_at doc (pointer p) v"
  by (auto simp: apply_op_def test_op_def holds_at_def split: Option.bind_splits if_splits)

lemma apply_replace: "apply_op (replace_op p v) doc = ptr_set (pointer p) v doc"
  by (simp add: apply_op_def replace_op_def)

lemma apply_patch_append: "apply_patch (xs @ ys) doc = Option.bind (apply_patch xs doc) (apply_patch ys)"
  by (induction xs arbitrary: doc) (auto split: Option.bind_splits)

lemma bind_Some: "Option.bind m f = Some y \<longleftrightarrow> (\<exists>x. m = Some x \<and> f x = Some y)"
  by (cases m) auto

section \<open>Pointers of the patches\<close>

lemma split_on_token: "c \<notin> set t \<Longrightarrow> split_on c (t @ c # s) = t # split_on c s"
  by (induction t) auto

lemma split_on_last: "c \<notin> set t \<Longrightarrow> split_on c t = [t]"
  by (induction t) auto

lemma unescape_plain: "CHR ''~'' \<notin> set s \<Longrightarrow> unescape s = s"
  by (induction s rule: unescape.induct) auto

lemma decimal_plain: "CHR ''~'' \<notin> set (decimal n)" "CHR ''/'' \<notin> set (decimal n)"
  using decimal_chars [of "CHR ''~''" n] decimal_chars [of "CHR ''/''" n] by (auto simp: digit_of_def)

definition container_path :: "nat \<Rightarrow> string list" where
  "container_path i = [''spec'', ''template'', ''spec'', ''containers'', decimal i]"

lemma pointers:
  "pointer ''/metadata/uid'' = [''metadata'', ''uid'']"
  "pointer ''/metadata/resourceVersion'' = [''metadata'', ''resourceVersion'']"
  "pointer ''/spec/selector'' = [''spec'', ''selector'']"
  by code_simp+

lemma pointer_under_container:
  assumes "CHR ''~'' \<notin> set s"
  shows "pointer (container_base i @ CHR ''/'' # s) = container_path i @ map unescape (split_on (CHR ''/'') s)"
  by (simp add: pointer_def container_base_def container_path_def split_on_token decimal_plain unescape_plain)

lemma pointer_container:
  "pointer (container_base i @ ''/name'') = container_path i @ [''name'']"
  "pointer (container_base i @ ''/readinessProbe/httpGet/path'') = container_path i @ [''readinessProbe'', ''httpGet'', ''path'']"
  "pointer (container_base i @ ''/readinessProbe/httpGet/port'') = container_path i @ [''readinessProbe'', ''httpGet'', ''port'']"
  by (simp_all add: pointer_under_container)

section \<open>Reading after writing\<close>

lemma element_at_length: "length ys = length xs \<Longrightarrow> element_at t ys = element_at t xs"
  by (simp add: element_at_def)

lemma element_at_Some: "element_at t xs = Some i \<Longrightarrow> i < length xs \<and> decimal i = t"
  by (auto simp: element_at_def find_Some_iff)

text \<open>Two pointers diverge when they differ at a token both have.\<close>

fun diverge :: "string list \<Rightarrow> string list \<Rightarrow> bool" where
  "diverge (a # as) (b # bs) = (a \<noteq> b \<or> diverge as bs)"
| "diverge _ _ = False"

lemma ptr_set_get: "ptr_set ts v doc = Some doc' \<Longrightarrow> ptr_get ts doc' = Some v"
proof (induction ts v doc arbitrary: doc' rule: ptr_set.induct)
  case (3 t ts v xs)
  then obtain i y where i: "element_at t xs = Some i" "ptr_set ts v (xs ! i) = Some y" "doc' = JArr (xs[i := y])"
    by (auto simp: bind_Some)
  with 3(1) element_at_Some [OF i(1)] show ?case
    by (simp add: element_at_length [of "xs[i := y]" xs])
qed (auto simp: bind_Some)

lemma ptr_set_frame: "ptr_set ts v doc = Some doc' \<Longrightarrow> diverge ts qs \<Longrightarrow> ptr_get qs doc' = ptr_get qs doc"
proof (induction ts v doc arbitrary: doc' qs rule: ptr_set.induct)
  case (2 t ts v d)
  then show ?case
    by (cases qs) (auto simp: bind_Some)
next
  case (3 t ts v xs)
  then obtain i y where i: "element_at t xs = Some i" "ptr_set ts v (xs ! i) = Some y" "doc' = JArr (xs[i := y])"
    by (auto simp: bind_Some)
  obtain q qs' where q: "qs = q # qs'"
    using 3(3) by (cases qs) auto
  have len: "element_at u (xs[i := y]) = element_at u xs" for u
    by (rule element_at_length) simp
  show ?case
  proof (cases "element_at q xs")
    case None
    with i(3) q len show ?thesis
      by simp
  next
    case (Some j)
    show ?thesis
    proof (cases "j = i")
      case True
      with element_at_Some [OF i(1)] element_at_Some [OF Some] have "q = t"
        by simp
      with 3 i q Some True element_at_Some [OF i(1)] show ?thesis
        by (simp add: len)
    next
      case False
      with i(3) q Some show ?thesis
        by (simp add: len)
    qed
  qed
qed auto

text \<open>
  The abstract contract of a write: a comparison of given values and of the old values, and if all hold, new
  values at their places and nothing else changed.
\<close>

definition compare_and_set ::
  "(string list \<times> json) list \<Rightarrow> (string list \<times> json \<times> json) list \<Rightarrow> json \<Rightarrow> json \<Rightarrow> bool" where
  "compare_and_set tests changes doc doc' =
     (list_all (\<lambda>(ts, v). holds_at doc ts v) tests
      \<and> list_all (\<lambda>(ts, old, new). holds_at doc ts old \<and> ptr_get ts doc' = Some new) changes
      \<and> (\<forall>q. list_all (\<lambda>c. diverge (fst c) q) changes \<longrightarrow> ptr_get q doc' = ptr_get q doc))"

definition identity_tests :: "dict \<Rightarrow> (string list \<times> json) list" where
  "identity_tests before = [([''metadata'', ''uid''], dget before ''uid''),
     ([''metadata'', ''resourceVersion''], dget before ''resource_version'')]"

lemma diverge_append: "diverge (ts @ us) (ts @ vs) \<longleftrightarrow> diverge us vs"
  by (induction ts) auto

lemma jindex_Inr: "jindex (JObj d) k = Inr v \<longleftrightarrow> map_of d k = Some v"
  by (auto simp: jindex_def split: option.splits)

lemma selector_patch_sets:
  assumes "build_patch pl r before = Inr ops" and "apply_patch ops doc = Some doc'"
    and "pl_action pl = PatchServiceSelector"
  shows "\<exists>old. map_of (configuration_of before) ''selector'' = Some old
    \<and> compare_and_set (identity_tests before)
        [([''spec'', ''selector''], old, JObj (str_dict (dict_of [] (pa_proposed_selector (pl_parameters pl)))))] doc doc'"
proof -
  let ?new = "JObj (str_dict (dict_of [] (pa_proposed_selector (pl_parameters pl))))"
  from assms(1,3) obtain old where old: "map_of (configuration_of before) ''selector'' = Some old"
    and ops: "ops = identity_ops before @ [test_op ''/spec/selector'' old, replace_op ''/spec/selector'' ?new]"
    by (auto simp: build_patch_def res_simps jindex_Inr desired_configuration_def selector_configuration_def Let_def)
  from assms(2) have t: "holds_at doc [''metadata'', ''uid''] (dget before ''uid'')"
      "holds_at doc [''metadata'', ''resourceVersion''] (dget before ''resource_version'')"
      "holds_at doc [''spec'', ''selector''] old" "ptr_set [''spec'', ''selector''] ?new doc = Some doc'"
    by (auto simp: ops identity_ops_def bind_Some apply_test apply_replace pointers)
  have "compare_and_set (identity_tests before) [([''spec'', ''selector''], old, ?new)] doc doc'"
    using t ptr_set_get [OF t(4)] ptr_set_frame [OF t(4)]
    by (simp add: compare_and_set_def identity_tests_def del: ptr_set.simps ptr_get.simps)
  with old show ?thesis
    by blast
qed

lemma probe_field_ops_Inr:
  assumes "probe_field_ops base conf desired key = Inr ops"
  shows "\<exists>old v new v'. map_of conf ''readiness_probe'' = Some (JObj old) \<and> map_of old key = Some v
    \<and> map_of desired ''readiness_probe'' = Some (JObj new) \<and> map_of new key = Some v'
    \<and> ops = [test_op (base @ ''/readinessProbe/httpGet/'' @ key) v, replace_op (base @ ''/readinessProbe/httpGet/'' @ key) v']"
proof -
  from assms obtain o1 v n1 v' where d: "jindex (JObj conf) ''readiness_probe'' = Inr o1" "jindex o1 key = Inr v"
      "jindex (JObj desired) ''readiness_probe'' = Inr n1" "jindex n1 key = Inr v'"
      "ops = [test_op (base @ ''/readinessProbe/httpGet/'' @ key) v, replace_op (base @ ''/readinessProbe/httpGet/'' @ key) v']"
    by (auto simp: probe_field_ops_def res_simps)
  from d(2,4) obtain old new where "o1 = JObj old" "n1 = JObj new"
    by (cases o1; cases n1) (auto simp: jindex_def)
  with d show ?thesis
    by (auto simp: jindex_Inr)
qed

definition probe_path :: "nat \<Rightarrow> string \<Rightarrow> string list" where
  "probe_path i key = container_path i @ [''readinessProbe'', ''httpGet'', key]"

lemma probe_patch_sets:
  assumes b: "build_patch pl r before = Inr ops" and a: "apply_patch ops doc = Some doc'"
    and "pl_action pl \<noteq> PatchServiceSelector"
  shows "\<exists>d i old path q. r = DeploymentRes d \<and> container_index d (pa_container_name (pl_parameters pl)) = Inr i
    \<and> map_of (configuration_of before) ''readiness_probe'' = Some (JObj old)
    \<and> map_of old ''path'' = Some path \<and> map_of old ''port'' = Some q
    \<and> compare_and_set
        (identity_tests before @ [(container_path i @ [''name''], opt_json JStr (pa_container_name (pl_parameters pl)))])
        [(probe_path i ''path'', path, opt_json JStr (pa_proposed_probe_path (pl_parameters pl))),
         (probe_path i ''port'', q, opt_json port_json (pa_proposed_probe_port (pl_parameters pl)))] doc doc'"
proof -
  let ?p = "pl_parameters pl"
  let ?path = "opt_json JStr (pa_proposed_probe_path ?p)" and ?port = "opt_json port_json (pa_proposed_probe_port ?p)"
  from b assms(3) obtain d i ops1 ops2 where r: "r = DeploymentRes d" "container_index d (pa_container_name ?p) = Inr i"
    and f: "probe_field_ops (container_base i) (configuration_of before) (desired_configuration pl) ''path'' = Inr ops1"
      "probe_field_ops (container_base i) (configuration_of before) (desired_configuration pl) ''port'' = Inr ops2"
    and ops: "ops = identity_ops before @ [test_op (container_base i @ ''/name'') (opt_json JStr (pa_container_name ?p))] @ ops1 @ ops2"
    by (auto simp: build_patch_def res_simps split: resource.splits)
  have des: "map_of (desired_configuration pl) ''readiness_probe'' = Some (JObj [(''path'', ?path), (''port'', ?port)])"
    using assms(3) by (simp add: desired_configuration_def probe_settings_def Let_def)
  from probe_field_ops_Inr [OF f(1)] probe_field_ops_Inr [OF f(2)] obtain old v w where
      old: "map_of (configuration_of before) ''readiness_probe'' = Some (JObj old)" "map_of old ''path'' = Some v" "map_of old ''port'' = Some w"
    and o1: "ops1 = [test_op (container_base i @ ''/readinessProbe/httpGet/path'') v, replace_op (container_base i @ ''/readinessProbe/httpGet/path'') ?path]"
    and o2: "ops2 = [test_op (container_base i @ ''/readinessProbe/httpGet/port'') w, replace_op (container_base i @ ''/readinessProbe/httpGet/port'') ?port]"
    by (auto simp: des)
  from a obtain doc1 where t: "list_all (\<lambda>(ts, v). holds_at doc ts v)
        (identity_tests before @ [(container_path i @ [''name''], opt_json JStr (pa_container_name ?p))])"
      "holds_at doc (probe_path i ''path'') v" "ptr_set (probe_path i ''path'') ?path doc = Some doc1"
      "holds_at doc1 (probe_path i ''port'') w" "ptr_set (probe_path i ''port'') ?port doc1 = Some doc'"
    unfolding ops o1 o2 identity_ops_def
    by (auto simp: bind_Some apply_test apply_replace pointers pointer_container probe_path_def identity_tests_def
        simp del: ptr_set.simps ptr_get.simps)
  have away: "diverge (probe_path i ''path'') (probe_path i ''port'')" "diverge (probe_path i ''port'') (probe_path i ''path'')"
    by (simp_all add: probe_path_def diverge_append)
  have "ptr_get (probe_path i ''port'') doc1 = ptr_get (probe_path i ''port'') doc"
    by (rule ptr_set_frame [OF t(3) away(1)])
  moreover have "ptr_get (probe_path i ''path'') doc' = Some ?path"
    using ptr_set_frame [OF t(5) away(2)] ptr_set_get [OF t(3)] by simp
  ultimately have "compare_and_set
        (identity_tests before @ [(container_path i @ [''name''], opt_json JStr (pa_container_name ?p))])
        [(probe_path i ''path'', v, ?path), (probe_path i ''port'', w, ?port)] doc doc'"
    using t(1,2,4) ptr_set_get [OF t(5)] ptr_set_frame [OF t(3)] ptr_set_frame [OF t(5)]
    by (simp add: compare_and_set_def holds_at_def)
  with r old show ?thesis
    by blast
qed

end
