(* ===== verification/LedgerFacts.thy ===== *)
theory LedgerFacts
  imports JsonPatch Traces
begin

text \<open>
  The calls a ledger execution makes, with whether each returned, for every answer of the journal and
  the cluster; and the contract under which a returned result is in the journal.
\<close>

section \<open>A ledger that logs\<close>

datatype ledger_call =
    Owned
  | Looked
  | PreparedCall op_request
  | DispatchedCall string
  | ReadResource resource_kind string string
  | Sent resource_kind string string patch_body
  | RecordedCall op_state op_report

fun is_sent :: "ledger_call \<times> bool \<Rightarrow> bool" where
  "is_sent (Sent _ _ _ _, _) = True"
| "is_sent _ = False"

type_synonym 'w logged_world = "'w \<times> (ledger_call \<times> bool) list"

definition witnessed :: "ledger_call \<Rightarrow> ('w, 'a) io \<Rightarrow> ('w logged_world, 'a) io" where
  "witnessed c m = (\<lambda>(w, tr). case m w of (r, w') \<Rightarrow> (r, (w', tr @ [(c, isOK r)])))"

definition logged_clients :: "'w clients \<Rightarrow> 'w logged_world clients" where
  "logged_clients cl = \<lparr>cl_read_service = (\<lambda>ns n. witnessed (ReadResource KService ns n) (cl_read_service cl ns n)),
     cl_read_deployment = (\<lambda>ns n. witnessed (ReadResource KDeployment ns n) (cl_read_deployment cl ns n)),
     cl_patch_service = (\<lambda>ns n b. witnessed (Sent KService ns n b) (cl_patch_service cl ns n b)),
     cl_patch_deployment = (\<lambda>ns n b. witnessed (Sent KDeployment ns n b) (cl_patch_deployment cl ns n b))\<rparr>"

definition logged_ledger :: "'w ledger \<Rightarrow> 'w logged_world ledger" where
  "logged_ledger lg = \<lparr>su_clients = logged_clients (su_clients lg), su_now = silent (su_now lg),
     su_files = su_files lg \<circ> fst, su_reads = su_reads lg \<circ> fst, lg_lost = lg_lost lg \<circ> fst,
     lg_assert_owned = witnessed Owned (lg_assert_owned lg), lg_operation = witnessed Looked (lg_operation lg),
     lg_prepare = (\<lambda>q. witnessed (PreparedCall q) (lg_prepare lg q)),
     lg_dispatch = (\<lambda>i. witnessed (DispatchedCall i) (lg_dispatch lg i)),
     lg_record = (\<lambda>st rp. witnessed (RecordedCall st rp) (lg_record lg st rp)),
     lg_budget = map_option silent (lg_budget lg), lg_isoformat = lg_isoformat lg,
     lg_decode_result = lg_decode_result lg, lg_decode_snapshot = lg_decode_snapshot lg\<rparr>"

lemma witnessed_eq [io_simps]:
  "witnessed c m w = (r, w') \<longleftrightarrow> (\<exists>v. m (fst w) = (r, v) \<and> w' = (v, snd w @ [(c, isOK r)]))"
  by (auto simp: witnessed_def split: prod.splits)

lemma logged_ledger_simps [simp]:
  "su_clients (logged_ledger lg) = logged_clients (su_clients lg)"
  "su_now (logged_ledger lg) = silent (su_now lg)"
  "su_files (logged_ledger lg) w = su_files lg (fst w)"
  "su_reads (logged_ledger lg) w = su_reads lg (fst w)"
  "lg_operation (logged_ledger lg) = witnessed Looked (lg_operation lg)"
  "lg_prepare (logged_ledger lg) q = witnessed (PreparedCall q) (lg_prepare lg q)"
  "lg_dispatch (logged_ledger lg) i = witnessed (DispatchedCall i) (lg_dispatch lg i)"
  "lg_record (logged_ledger lg) st rp = witnessed (RecordedCall st rp) (lg_record lg st rp)"
  "lg_budget (logged_ledger lg) = map_option silent (lg_budget lg)"
  "lg_decode_result (logged_ledger lg) = lg_decode_result lg"
  "lg_decode_snapshot (logged_ledger lg) = lg_decode_snapshot lg"
  "lg_isoformat (logged_ledger lg) = lg_isoformat lg"
  by (simp_all add: logged_ledger_def)

lemma ledger_result_logged [simp]: "ledger_result (logged_ledger lg) = ledger_result lg"
  by (simp add: ledger_result_def fun_eq_iff cong: option.case_cong)

section \<open>Parts that send nothing\<close>

definition quiet :: "('w logged_world, 'a) io \<Rightarrow> bool" where
  "quiet m = (\<forall>w tr r w' tr'. m (w, tr) = (r, (w', tr')) \<longrightarrow>
     (\<exists>rest. tr' = tr @ rest \<and> \<not> list_ex is_sent rest))"

lemma quietD:
  assumes "quiet m" and "m (w, tr) = (r, (w', tr'))"
  obtains rest where "tr' = tr @ rest" "\<not> list_ex is_sent rest"
  using assms unfolding quiet_def by blast

lemma quiet_bind: "quiet m \<Longrightarrow> (\<And>x. quiet (f x)) \<Longrightarrow> quiet (bindW m f)"
  by (fastforce simp: quiet_def io_simps)

lemma quiet_pure: "quiet (returnW x)" "quiet (raiseW e)" "quiet (liftW r)"
  by (auto simp: quiet_def io_simps)

lemma quiet_silent: "quiet (silent m)"
  by (auto simp: quiet_def io_simps)

lemma quiet_witnessed: "\<not> is_sent (c, True) \<Longrightarrow> quiet (witnessed c m)"
  by (cases c) (auto simp: quiet_def io_simps)

lemma quiet_try: "quiet m \<Longrightarrow> quiet (tryW m)"
  by (fastforce simp: quiet_def io_simps)

lemma quiet_owned: "quiet (owned (logged_ledger lg))"
  by (auto simp: quiet_def owned_def logged_ledger_def io_simps split: if_splits)

lemma quiet_read: "quiet (read_target (logged_clients cl) tg)"
  by (auto simp: read_target_def fetch_def logged_clients_def intro!: quiet_bind quiet_pure quiet_witnessed)

lemma quiet_conclude: "quiet (conclude (logged_ledger lg) au p st after code)"
  by (auto simp: conclude_def intro!: quiet_bind quiet_pure quiet_silent quiet_witnessed)

lemma quiet_profile: "quiet (\<lambda>w. (f w, w))"
  by (auto simp: quiet_def)

lemma quiet_charge: "quiet (charge (logged_ledger lg))"
  by (cases "lg_budget lg") (auto simp: charge_def intro: quiet_pure quiet_silent)

section \<open>After the patch\<close>

lemma conclude_runs:
  assumes "conclude (logged_ledger lg) au p st after code (w, tr) = (r, (w', tr'))"
  obtains (unbuilt) e where "r = Inl e" "tr' = tr"
  | (recorded) x where "tr' = tr @ [(RecordedCall (if st = Succeeded then OpSucceeded else Rejected)
        (result_report x after code st), isOK r)]" "r = Inr x \<or> (\<exists>e. r = Inl e)" "x_status x = st"
  using assms by (auto simp: conclude_def io_simps ledger_result_def res_simps Let_def split: if_splits)

lemma unattributed_runs:
  assumes "unattributed (logged_ledger lg) code resp msg (w, tr) = (r, (w', tr'))"
  shows "\<exists>e b. r = Inl e \<and> tr' = tr @ [(RecordedCall UnknownOutcome (unknown_report code resp), b)]"
  using assms by (auto simp: unattributed_def io_simps)

text \<open>The JSON patch call of a target and a stored patch.\<close>

definition patch_call :: "target \<Rightarrow> json \<Rightarrow> ledger_call" where
  "patch_call tg body = Sent (if tg_kind tg = KService then KService else KDeployment)
     (tg_namespace tg) (tg_name tg) (JsonPatch (case body of JArr ops \<Rightarrow> ops | _ \<Rightarrow> []))"

lemma send_patch_logged:
  assumes "send_patch (logged_clients cl) tg body (w, tr) = (r, (w', tr'))"
  shows "send_patch cl tg body w = (r, w') \<and> tr' = tr @ [(patch_call tg body, isOK r)]"
  using assms
  by (auto simp: send_patch_def patch_call_def logged_clients_def io_simps Let_def split: if_splits)

text \<open>How the response of the API server may be recorded.\<close>

definition classified :: "target \<Rightarrow> dict \<Rightarrow> dict \<Rightarrow> resource res \<Rightarrow> op_state \<Rightarrow> bool" where
  "classified tg before desired response st = (case response of
       Inl e \<Rightarrow> st = (if rejected_status e then Rejected else UnknownOutcome)
     | Inr x \<Rightarrow> st = (if (case snapshot_of tg x of Inl e \<Rightarrow> False
                       | Inr n \<Rightarrow> attributable tg before desired (snapshot_dump (stamped x n)))
                     then OpSucceeded else UnknownOutcome))"

text \<open>What a run has logged once its patch was sent: the call, and at most one record of its outcome.\<close>

definition concluded :: "(op_state \<Rightarrow> bool) \<Rightarrow> action_result res \<Rightarrow> (ledger_call \<times> bool) list \<Rightarrow> bool" where
  "concluded ok r rest = (rest = [] \<and> (\<exists>e. r = Inl e) \<or> (\<exists>st rp b. rest = [(RecordedCall st rp, b)] \<and> ok st
     \<and> (\<forall>x. r = Inr x \<longrightarrow> b \<and> st \<noteq> UnknownOutcome \<and> rp_result rp = Some (action_result_dump x)
          \<and> (x_status x = Succeeded \<longleftrightarrow> st = OpSucceeded))))"

lemma concluded_conclude:
  assumes "conclude (logged_ledger lg) au p st after code (w, tr) = (r, (w', tr'))"
    and "ok (if st = Succeeded then OpSucceeded else Rejected)"
  shows "\<exists>rest. tr' = tr @ rest \<and> concluded ok r rest"
  using assms(1)
proof (cases rule: conclude_runs)
  case (unbuilt e)
  then show ?thesis
    by (simp add: concluded_def)
next
  case (recorded x)
  then show ?thesis
    using assms(2) by (auto simp: concluded_def result_report_def)
qed

lemma concluded_unattributed:
  assumes "unattributed (logged_ledger lg) code resp msg (w, tr) = (r, (w', tr'))" and "ok UnknownOutcome"
  shows "\<exists>rest. tr' = tr @ rest \<and> concluded ok r rest"
  using unattributed_runs [OF assms(1)] assms(2) by (auto simp: concluded_def)

lemma issue_runs:
  assumes "issue (logged_ledger lg) au p before (w, tr) = (r, (w', tr'))"
    and tg: "tg = plan_target (pl_parameters (au_plan au))"
  shows "\<exists>response w1 rest. send_patch (su_clients lg) tg (o_patch p) w = (response, w1)
    \<and> tr' = tr @ (patch_call tg (o_patch p), isOK response) # rest
    \<and> concluded (classified tg before (desired_configuration (au_plan au)) response) r rest"
proof -
  obtain response w1 where s: "send_patch (su_clients lg) tg (o_patch p) w = (response, w1)"
    by (cases "send_patch (su_clients lg) tg (o_patch p) w")
  define tr1 where "tr1 = tr @ [(patch_call tg (o_patch p), isOK response)]"
  have s': "send_patch (logged_clients (su_clients lg)) tg (o_patch p) (w, tr) = (response, (w1, tr1))"
  proof -
    obtain q v tr0 where e: "send_patch (logged_clients (su_clients lg)) tg (o_patch p) (w, tr) = (q, (v, tr0))"
      by (rule prod_cases3)
    from send_patch_logged [OF e] s e show ?thesis
      by (simp add: tr1_def)
  qed
  let ?ok = "classified tg before (desired_configuration (au_plan au)) response"
  have "\<exists>rest. tr' = tr1 @ rest \<and> concluded ?ok r rest"
  proof (cases response)
    case (Inl e)
    then show ?thesis
      using assms(1) s'
      by (cases "rejected_status e")
        (auto simp: issue_def io_simps Let_def classified_def simp flip: tg
           intro: concluded_conclude concluded_unattributed)
  next
    case (Inr x)
    show ?thesis
    proof (cases "snapshot_of tg x")
      case (Inl e)
      then show ?thesis
        using assms(1) s' \<open>response = Inr x\<close>
        by (auto simp: issue_def io_simps Let_def classified_def simp flip: tg intro: concluded_unattributed)
    next
      case (Inr n)
      then show ?thesis
        using assms(1) s' \<open>response = Inr x\<close>
        by (auto simp: issue_def io_simps Let_def classified_def simp flip: tg
            intro: concluded_conclude concluded_unattributed split: if_splits)
    qed
  qed
  with s show ?thesis
    by (auto simp: tr1_def)
qed

section \<open>Up to the patch\<close>

definition unsent :: "(ledger_call \<times> bool) list \<Rightarrow> bool" where
  "unsent tr = (\<not> list_ex is_sent tr)"

lemma quiet_unsent: "quiet m \<Longrightarrow> m (w, tr) = (r, (w', tr')) \<Longrightarrow> unsent tr' = unsent tr"
  by (auto simp: unsent_def elim!: quietD)

text \<open>A run that has sent a patch went through every quiet step before it.\<close>

lemma quiet_step:
  assumes "bindW m f (w, tr) = (r, (w', tr'))" and "quiet m" and "unsent tr" and "\<not> unsent tr'"
  obtains x w1 tr1 where "m (w, tr) = (Inr x, (w1, tr1))" "f x (w1, tr1) = (r, (w', tr'))" "unsent tr1"
  using assms quiet_unsent [OF assms(2)] by (fastforce simp: bindW_eq)

lemma step_pure: "liftW x w = (Inr y, w') \<longleftrightarrow> x = Inr y \<and> w' = w"
  by (auto simp: liftW_def)

lemma confirm_logged:
  "confirm_profile H (logged_ledger lg) s pl (w, tr)
     = (revalidate_live_profile H (su_files lg w) (su_reads lg w) s pl, (w, tr))"
  by (simp add: confirm_profile_def)

lemma quiet_confirm: "quiet (confirm_profile H (logged_ledger lg) s pl)"
  by (simp add: quiet_def confirm_logged)

lemma quiet_ledger:
  "quiet (lg_operation (logged_ledger lg))"
  "quiet (lg_prepare (logged_ledger lg) q)"
  "quiet (lg_dispatch (logged_ledger lg) i)"
  by (simp_all add: quiet_witnessed)

text \<open>The last calls of a run that sent a patch.\<close>

definition released_write :: "'w ledger \<Rightarrow> authorization \<Rightarrow> op_row \<Rightarrow> dict \<Rightarrow> action_result res
    \<Rightarrow> (ledger_call \<times> bool) list \<Rightarrow> (ledger_call \<times> bool) list \<Rightarrow> bool" where
  "released_write lg au p before r pre tr = (\<exists>w1 response w2 rest. let tg = plan_target (pl_parameters (au_plan au)) in
     send_patch (su_clients lg) tg (o_patch p) w1 = (response, w2)
     \<and> tr = pre @ [(DispatchedCall (o_operation_id p), True), (Owned, True),
                   (patch_call tg (o_patch p), isOK response)] @ rest
     \<and> concluded (classified tg before (desired_configuration (au_plan au)) response) r rest)"

lemma release_runs:
  assumes "release (logged_ledger lg) au p before (w, tr) = (r, (w', tr'))" and "unsent tr" and "\<not> unsent tr'"
  shows "\<exists>added. unsent (tr @ added) \<and> released_write lg au p before r (tr @ added) tr'"
proof -
  from assms(1) [unfolded release_def] quiet_charge assms(2,3) obtain y w1 tr1 where
      bud: "charge (logged_ledger lg) (w, tr) = (Inr y, (w1, tr1))"
    and u1: "unsent tr1"
    and 1: "bindW (lg_dispatch (logged_ledger lg) (o_operation_id p)) (\<lambda>_.
         bindW (owned (logged_ledger lg)) (\<lambda>_. issue (logged_ledger lg) au p before)) (w1, tr1) = (r, (w', tr'))"
    by (rule quiet_step)
  from 1 quiet_ledger(3) u1 assms(3) obtain z w2 tr2 where
      di: "lg_dispatch (logged_ledger lg) (o_operation_id p) (w1, tr1) = (Inr z, (w2, tr2))" and u2: "unsent tr2"
    and 2: "bindW (owned (logged_ledger lg)) (\<lambda>_. issue (logged_ledger lg) au p before) (w2, tr2) = (r, (w', tr'))"
    by (rule quiet_step)
  from 2 quiet_owned u2 assms(3) obtain v w3 tr3 where
      ow: "owned (logged_ledger lg) (w2, tr2) = (Inr v, (w3, tr3))"
    and 3: "issue (logged_ledger lg) au p before (w3, tr3) = (r, (w', tr'))"
    by (rule quiet_step)
  have tr3: "tr3 = tr1 @ [(DispatchedCall (o_operation_id p), True), (Owned, True)]"
    using di ow by (auto simp: owned_def logged_ledger_def io_simps split: if_splits)
  from issue_runs [OF 3 refl] have "released_write lg au p before r tr1 tr'"
    unfolding released_write_def Let_def tr3 by fastforce
  moreover obtain added where "tr1 = tr @ added"
    using quietD [OF quiet_charge bud] by auto
  ultimately show ?thesis
    using u1 by blast
qed

text \<open>What held of the prepared operation when its patch was sent.\<close>

definition approved_write :: "(json \<Rightarrow> string) \<Rightarrow> 'w ledger \<Rightarrow> incident_state \<Rightarrow> authorization \<Rightarrow> dict \<Rightarrow> op_row
    \<Rightarrow> (ledger_call \<times> bool) list \<Rightarrow> bool" where
  "approved_write H lg s au before p pre = (\<exists>live resource patch w1.
     revalidate_live_profile H (su_files lg w1) (su_reads lg w1) s (au_plan au) = Inr live
     \<and> build_patch (au_plan au) resource before = Inr patch
     \<and> (PreparedCall (write_request H au before patch), True) \<in> set pre
     \<and> unchanged_target s (au_plan au) before p live)"

lemma prepare_write_runs:
  assumes "prepare_write H (logged_ledger lg) s au live x before (w, tr) = (r, (w', tr'))"
    and "unsent tr" and "\<not> unsent tr'"
    and "revalidate_live_profile H (su_files lg w0) (su_reads lg w0) s (au_plan au) = Inr live"
  shows "\<exists>p pre. unsent pre \<and> approved_write H lg s au before p pre \<and> released_write lg au p before r pre tr'"
proof -
  from assms(1-3) obtain patch where bp: "build_patch (au_plan au) x before = Inr patch"
    and 1: "bindW (lg_prepare (logged_ledger lg) (write_request H au before patch))
        (advance (logged_ledger lg) s au live before) (w, tr) = (r, (w', tr'))"
    unfolding prepare_write_def by (auto simp: step_pure elim!: quiet_step [OF _ quiet_pure(3)])
  let ?q = "write_request H au before patch"
  from 1 quiet_ledger(2) assms(2,3) obtain p w1 tr1 where
      pr: "lg_prepare (logged_ledger lg) ?q (w, tr) = (Inr p, (w1, tr1))" and u1: "unsent tr1"
    and 2: "advance (logged_ledger lg) s au live before p (w1, tr1) = (r, (w', tr'))"
    by (rule quiet_step)
  have same: "unchanged_target s (au_plan au) before p live"
  proof (rule ccontr)
    assume "\<not> ?thesis"
    with 2 have "conclude (logged_ledger lg) au p Conflict None (Some ''OPERATION_PRECONDITION_FAILED'') (w1, tr1) = (r, (w', tr'))"
      by (simp add: advance_def)
    from quiet_unsent [OF quiet_conclude this] u1 assms(3) show False
      by simp
  qed
  with 2 have "release (logged_ledger lg) au p before (w1, tr1) = (r, (w', tr'))"
    by (simp add: advance_def)
  from release_runs [OF this u1 assms(3)] obtain added where
      a: "unsent (tr1 @ added)" "released_write lg au p before r (tr1 @ added) tr'"
    by blast
  have "(PreparedCall ?q, True) \<in> set (tr1 @ added)"
    using pr by (auto simp: io_simps)
  with a bp same assms(4) show ?thesis
    unfolding approved_write_def by blast
qed

lemma write_once_runs:
  assumes "write_once H (logged_ledger lg) s au (w, tr) = (r, (w', tr'))"
    and "unsent tr" and "\<not> unsent tr'"
  shows "\<exists>before p pre. unsent pre \<and> approved_write H lg s au before p pre \<and> released_write lg au p before r pre tr'"
proof -
  from assms obtain live where live: "revalidate_live_profile H (su_files lg w) (su_reads lg w) s (au_plan au) = Inr live"
    and 1: "bindW (read_target (logged_clients (su_clients lg)) (plan_target (pl_parameters (au_plan au))))
       (\<lambda>found. prepare_write H (logged_ledger lg) s au live (fst found) (snd found)) (w, tr) = (r, (w', tr'))"
    unfolding write_once_def by (auto simp: confirm_logged elim!: quiet_step [OF _ quiet_confirm])
  from 1 quiet_read assms(2,3) obtain found w1 tr1 where
      "prepare_write H (logged_ledger lg) s au live (fst found) (snd found) (w1, tr1) = (r, (w', tr'))" "unsent tr1"
    by (rule quiet_step)
  from prepare_write_runs [OF this assms(3) live] show ?thesis
    by blast
qed

lemma execute_runs:
  assumes "ledger_execute H T saved (logged_ledger lg) s (w, []) = (r, (w', tr))" and "\<not> unsent tr"
  shows "\<exists>au before p pre. validate_execution_authorization H T s = Inr au \<and> durable_decision H saved s au = Inr ()
    \<and> unsent pre \<and> approved_write H lg s au before p pre \<and> released_write lg au p before r pre tr"
proof -
  have u0: "unsent []"
    by (simp add: unsent_def)
  from assms(1) [unfolded ledger_execute_def] quiet_owned u0 assms(2) obtain w1 tr1 where u1: "unsent tr1"
    and 1: "bindW (liftW (validate_execution_authorization H T s)) (\<lambda>au.
         bindW (liftW (durable_decision H saved s au)) (\<lambda>_.
         bindW (lg_operation (logged_ledger lg)) (\<lambda>found. case found of
           None \<Rightarrow> write_once H (logged_ledger lg) s au
         | Some p \<Rightarrow>
            if o_approval_id p \<noteq> au_approval_id au \<or> o_plan_revision p \<noteq> request_digest H (plan_payload (au_plan au))
            then raiseW (PyValueError ''operation authorization changed'')
            else if settled p then liftW (lg_decode_result (logged_ledger lg) (opt_get (o_result p)))
            else if o_state p \<noteq> Prepared
            then raiseW (OutcomeUnknown ''operation requires read-only reconciliation'')
            else write_once H (logged_ledger lg) s au))) (w1, tr1) = (r, (w', tr))"
    by (rule quiet_step)
  obtain au where au: "validate_execution_authorization H T s = Inr au"
    using 1 u1 assms(2) by (cases "validate_execution_authorization H T s") (auto simp: io_simps)
  obtain u where dd: "durable_decision H saved s au = Inr u"
    using 1 u1 assms(2) by (cases "durable_decision H saved s au") (auto simp: io_simps au)
  from 1 [unfolded au dd bindW_lift] quiet_ledger(1) u1 assms(2) obtain found w2 tr2 where u2: "unsent tr2"
    and 2: "(case found of None \<Rightarrow> write_once H (logged_ledger lg) s au
         | Some p \<Rightarrow>
            if o_approval_id p \<noteq> au_approval_id au \<or> o_plan_revision p \<noteq> request_digest H (plan_payload (au_plan au))
            then raiseW (PyValueError ''operation authorization changed'')
            else if settled p then liftW (lg_decode_result (logged_ledger lg) (opt_get (o_result p)))
            else if o_state p \<noteq> Prepared
            then raiseW (OutcomeUnknown ''operation requires read-only reconciliation'')
            else write_once H (logged_ledger lg) s au) (w2, tr2) = (r, (w', tr))"
    by (rule quiet_step)
  from 2 u2 assms(2) have "write_once H (logged_ledger lg) s au (w2, tr2) = (r, (w', tr))"
    by (auto simp: io_simps split: option.splits if_splits)
  from write_once_runs [OF this u2 assms(2)] au dd show ?thesis
    by (metis unit.exhaust)
qed

section \<open>Reconciliation\<close>

lemma quiet_reconcile: "quiet (reconcile (logged_ledger lg) p)"
  unfolding reconcile_def
  by (auto intro!: quiet_bind quiet_pure quiet_try quiet_read quiet_witnessed split: sum.splits)

lemma confirmed_Inr_True:
  assumes "confirmed p observed = Inr True"
  shows "o_attribution p = Confirmed \<and> o_result p \<noteq> None
    \<and> (\<exists>resp. o_response p = Some resp \<and> py_eq (JObj observed) resp)
    \<and> (\<exists>c. jindex (o_target p) ''configuration'' = Inr c \<and> py_eq (dget observed ''configuration'') c)
    \<and> (\<exists>u. jindex (o_before p) ''uid'' = Inr u \<and> py_eq (dget observed ''uid'') u)"
  using assms by (auto simp: confirmed_def res_simps opt_get_def split: if_splits)

lemma reconcile_records:
  assumes "reconcile (logged_ledger lg) p (w, tr) = (Inr x, (w', tr'))"
  shows "\<exists>pre rp. tr' = pre @ [(RecordedCall (if x then Reconciled else ManualRequired) rp, True)]
    \<and> (x \<longrightarrow> (\<exists>observed. confirmed p observed = Inr True \<and> rp_observed rp = Some (JObj observed)))"
proof -
  from assms obtain tg found w1 tr1 where
      "stored_target p = Inr tg" "read_target (logged_clients (su_clients lg)) tg (w, tr) = (found, (w1, tr1))"
    and step: "(case found of
       Inl e \<Rightarrow> bindW (lg_record (logged_ledger lg) ManualRequired (no_report\<lparr>rp_code := Some ''RECONCILIATION_READ_FAILED''\<rparr>))
                  (\<lambda>_. returnW False)
     | Inr (r, observed) \<Rightarrow>
         bindW (liftW (confirmed p observed)) (\<lambda>ok.
         bindW (lg_record (logged_ledger lg) (if ok then Reconciled else ManualRequired)
            (no_report\<lparr>rp_observed := Some (JObj observed),
               rp_attribution := (if ok then Confirmed else NotEstablished),
               rp_code := (if ok then None else Some ''OPERATION_MANUAL_REQUIRED'')\<rparr>))
           (\<lambda>_. returnW ok))) (w1, tr1) = (Inr x, (w', tr'))"
    unfolding reconcile_def bindW_eq liftW_eq tryW_eq by auto
  from step show ?thesis
    by (cases found) (auto simp: io_simps)
qed

end
