(* ===== verification/LedgerSite.thy ===== *)
theory LedgerSite
  imports Ledger
begin

text \<open>
  The durable executor on the journal of the store: the contract the executor needs of a journal (a
  lookup shows the entry, a successful record leaves it in the recorded state with the recorded result),
  what follows for the results it returns, and the proof that the repository methods on the database keep it.
\<close>

section \<open>The contract\<close>

locale result_journal =
  fixes lg :: "'w ledger" and entry :: "'w \<Rightarrow> op_row option"
  assumes lookup: "lg_operation lg w = (Inr found, w') \<Longrightarrow> entry w' = found"
    and recorded: "lg_record lg st rp w = (Inr u, w') \<Longrightarrow>
      \<exists>p. entry w' = Some p \<and> o_state p = st \<and> (\<forall>v. rp_result rp = Some v \<longrightarrow> o_result p = Some v)"
begin

definition durable :: "action_result \<Rightarrow> 'w \<Rightarrow> bool" where
  "durable x w = (\<exists>p. entry w = Some p \<and> settled p
     \<and> (o_result p = Some (action_result_dump x) \<or> lg_decode_result lg (opt_get (o_result p)) = Inr x))"

lemma conclude_durable:
  assumes "conclude lg au p st after code w = (Inr x, w')"
  shows "durable x w'"
proof -
  from assms obtain w1 st' rp where "lg_record lg st' rp w1 = (Inr (), w')" "st' \<in> {OpSucceeded, Rejected}"
      "rp_result rp = Some (action_result_dump x)"
    by (auto simp: conclude_def io_simps result_report_def split: if_splits)
  with recorded [of st' rp w1 "()" w'] show ?thesis
    by (auto simp: durable_def settled_def)
qed

lemma unattributed_raises: "unattributed lg code resp msg w \<noteq> (Inr x, w')"
  by (auto simp: unattributed_def io_simps)

lemma issue_durable:
  assumes "issue lg au p before w = (Inr x, w')"
  shows "durable x w'"
proof -
  let ?tg = "plan_target (pl_parameters (au_plan au))"
  obtain response w1 where s: "send_patch (su_clients lg) ?tg (o_patch p) w = (response, w1)"
    by (cases "send_patch (su_clients lg) ?tg (o_patch p) w")
  have "\<exists>st after code. conclude lg au p st after code w1 = (Inr x, w')"
  proof (cases response)
    case (Inl e)
    with assms s show ?thesis
      by (cases "rejected_status e") (auto simp: issue_def io_simps Let_def unattributed_raises)
  next
    case (Inr v)
    with assms s show ?thesis
      by (cases "snapshot_of ?tg v") (auto simp: issue_def io_simps Let_def unattributed_raises split: if_splits)
  qed
  then show ?thesis
    by (auto intro: conclude_durable)
qed

lemma write_once_durable:
  assumes "write_once H lg s au w = (Inr x, w')"
  shows "durable x w'"
  using assms
  by (auto simp: write_once_def prepare_write_def advance_def release_def io_simps
      intro: conclude_durable issue_durable split: if_splits)

lemma execute_durable:
  assumes "ledger_execute H T saved lg s w = (Inr x, w')"
  shows "durable x w'"
proof -
  from assms obtain au found w1 w2 where f: "lg_operation lg w1 = (Inr found, w2)"
    and step: "(case found of
       None \<Rightarrow> write_once H lg s au
     | Some p \<Rightarrow>
        if o_approval_id p \<noteq> au_approval_id au
           \<or> o_plan_revision p \<noteq> request_digest H (plan_payload (au_plan au))
        then raiseW (PyValueError ''operation authorization changed'')
        else if settled p then liftW (lg_decode_result lg (opt_get (o_result p)))
        else if o_state p \<noteq> Prepared
        then raiseW (OutcomeUnknown ''operation requires read-only reconciliation'')
        else write_once H lg s au) w2 = (Inr x, w')"
    unfolding ledger_execute_def bindW_eq liftW_eq by auto
  show ?thesis
  proof (cases found)
    case None
    with step show ?thesis
      by (auto intro: write_once_durable)
  next
    case (Some p)
    show ?thesis
    proof (cases "settled p")
      case True
      with step lookup [OF f] Some show ?thesis
        by (auto simp: io_simps durable_def split: if_splits)
    next
      case False
      with step Some have "write_once H lg s au w2 = (Inr x, w')"
        by (auto simp: io_simps split: if_splits)
      then show ?thesis
        by (rule write_once_durable)
    qed
  qed
qed

end

section \<open>The store as a journal\<close>

text \<open>
  The world is the database and the rest of the surroundings. The rest gives the two readings of the
  clock of a transaction, and tells what the other workers and users have done to the database since
  the last call; both are arbitrary functions.
\<close>

record 'c site =
  si_tick :: "'c \<Rightarrow> 'c"
  si_clock :: "'c \<Rightarrow> int \<times> int"
  si_others :: "'c \<Rightarrow> db \<Rightarrow> db"

definition at_site :: "'c site \<Rightarrow> (int \<Rightarrow> int \<Rightarrow> 'a txn) \<Rightarrow> (db \<times> 'c, 'a) io" where
  "at_site si m = (\<lambda>(d, c). let c' = si_tick si c; d' = si_others si c' d in
     case m (fst (si_clock si c')) (snd (si_clock si c')) d' of
       Inl e \<Rightarrow> (Inl e, (d', c')) | Inr (x, d'') \<Rightarrow> (Inr x, (d'', c')))"

definition outside :: "('c, 'a) io \<Rightarrow> (db \<times> 'c, 'a) io" where
  "outside m = (\<lambda>(d, c). case m c of (r, c') \<Rightarrow> (r, (d, c')))"

definition outside_clients :: "'c clients \<Rightarrow> (db \<times> 'c) clients" where
  "outside_clients cl = \<lparr>cl_read_service = (\<lambda>ns n. outside (cl_read_service cl ns n)),
     cl_read_deployment = (\<lambda>ns n. outside (cl_read_deployment cl ns n)),
     cl_patch_service = (\<lambda>ns n b. outside (cl_patch_service cl ns n b)),
     cl_patch_deployment = (\<lambda>ns n b. outside (cl_patch_deployment cl ns n b))\<rparr>"

definition site_ledger :: "(json \<Rightarrow> string) \<Rightarrow> lease \<Rightarrow> 'c site \<Rightarrow> 'c ledger \<Rightarrow> (db \<times> 'c) ledger" where
  "site_ledger H l si base = \<lparr>su_clients = outside_clients (su_clients base), su_now = outside (su_now base),
     su_files = su_files base \<circ> snd, su_reads = su_reads base \<circ> snd, lg_lost = lg_lost base \<circ> snd,
     lg_assert_owned = at_site si (\<lambda>t0 t1. assert_owned t0 t1 l),
     lg_operation = at_site si (\<lambda>t0 t1. askT (find_op (r_run_id (le_run l)))),
     lg_prepare = (\<lambda>q. at_site si (\<lambda>t0 t1. prepare H t0 t1 l q)),
     lg_dispatch = (\<lambda>i. at_site si (\<lambda>t0 t1. dispatch t0 t1 l i)),
     lg_record = (\<lambda>st rp. at_site si (\<lambda>t0 t1. record_outcome t0 t1 l st rp)),
     lg_budget = map_option outside (lg_budget base), lg_isoformat = lg_isoformat base,
     lg_decode_result = lg_decode_result base, lg_decode_snapshot = lg_decode_snapshot base\<rparr>"

lemma record_outcome_entry:
  assumes "record_outcome t0 t1 l st rp d = Inr (u, d')"
  shows "\<exists>p. find_op (r_run_id (le_run l)) d' = Some p \<and> o_state p = st
    \<and> (\<forall>v. rp_result rp = Some v \<longrightarrow> o_result p = Some v)"
proof -
  let ?i = "r_run_id (le_run l)"
  from assms obtain q where "find_op ?i d = Some q" "d' = d\<lparr>db_operations := update_where (\<lambda>p. o_run_id p = ?i) (recorded st rp t1) (db_operations d)\<rparr>"
    by (auto simp: record_outcome_def txn_simps set_op_def split: if_splits option.splits)
  moreover have "o_run_id (recorded st rp t1 p) = o_run_id p" for p
    by (simp add: recorded_def)
  ultimately show ?thesis
    using find_mem [of o_run_id ?i "db_operations d" q]
    by (simp add: find_op_def find_update_where) (auto simp: recorded_def coalesce_def)
qed

definition site_entry :: "lease \<Rightarrow> db \<times> 'c \<Rightarrow> op_row option" where
  "site_entry l w = find_op (r_run_id (le_run l)) (fst w)"

interpretation site: result_journal "site_ledger H l si base" "site_entry l" for H l si base
proof unfold_locales
  show "lg_operation (site_ledger H l si base) w = (Inr found, w') \<Longrightarrow> site_entry l w' = found" for w w' found
    by (auto simp: site_ledger_def site_entry_def at_site_def txn_simps Let_def split: prod.splits sum.splits)
next
  show "lg_record (site_ledger H l si base) st rp w = (Inr u, w') \<Longrightarrow>
      \<exists>p. site_entry l w' = Some p \<and> o_state p = st \<and> (\<forall>v. rp_result rp = Some v \<longrightarrow> o_result p = Some v)" for st rp w u w'
    using record_outcome_entry
    by (fastforce simp: site_ledger_def site_entry_def at_site_def Let_def split: prod.splits sum.splits)
qed

end
