(* ===== verification/LedgerProps.thy ===== *)
theory LedgerProps
  imports LedgerFacts LedgerSite ApprovalProps
begin

text \<open>
  Properties of the durable executor (\<open>backend/app/runtime/operations.py\<close>), for every journal, cluster,
  clock and budget: each is a parameter whose calls are logged.
\<close>

section \<open>A concrete execution\<close>

definition demo_saved :: json where
  "demo_saved = JObj [(''decision'', JObj [(''approval_id'', JStr ''apr-aaaaaaaaaaaaaaaa''), (''approved'', JBool True),
     (''approver'', JStr ''alice''), (''comment'', JStr (rc_comment demo_record))]), (''binding'', JStr (demo_hash JNull))]"

definition live_service :: "string \<Rightarrow> string \<Rightarrow> service_object" where
  "live_service app rv = \<lparr>so_metadata = Some \<lparr>om_uid = Some ''svc-1'', om_resource_version = Some rv, om_generation = None\<rparr>,
     so_spec = Some (Some [(''app'', app)])\<rparr>"

definition demo_op :: "op_request \<Rightarrow> op_row" where
  "demo_op q = \<lparr>o_operation_id = ''op-1'', o_run_id = ''run-1'', o_incident_id = ''inc-1'', o_approval_id = rq_approval_id q,
     o_plan_revision = rq_plan_revision q, o_plan = rq_plan q, o_approval = demo_saved, o_action = rq_action q,
     o_state = Prepared, o_lease_epoch = 1, o_before = rq_before q, o_target = rq_target q, o_patch = rq_patch q,
     o_response = None, o_observed = None, o_result = None, o_attribution = NotEstablished, o_error_code = None,
     o_created_at = 1, o_dispatched_at = None, o_responded_at = None, o_reconciled_at = None, o_updated_at = 1\<rparr>"

definition before_snapshot :: resource_snapshot where
  "before_snapshot = \<lparr>rs_uid = Some ''svc-1'', rs_generation = None, rs_namespace = ''agent-demo'', rs_resource_kind = KService,
     rs_resource_name = ''order-service'', rs_resource_version = ''5'', rs_configuration = selector_configuration [(''app'', ''wrong'')]\<rparr>"

text \<open>A cluster that answers the patch with \<open>response\<close>.\<close>

definition demo_ledger :: "service_object res \<Rightarrow> unit ledger" where
  "demo_ledger response = \<lparr>su_clients =
      \<lparr>cl_read_service = (\<lambda>ns n w. (Inr (live_service ''wrong'' ''5''), w)),
       cl_read_deployment = (\<lambda>ns n w. (Inl (ApiException 404 None), w)),
       cl_patch_service = (\<lambda>ns n b w. (response, w)),
       cl_patch_deployment = (\<lambda>ns n b w. (Inl (ApiException 404 None), w))\<rparr>,
     su_now = (\<lambda>w. (Inr ''t2'', w)), su_files = (\<lambda>w. [\<lparr>pf_size = 900, pf_profile = Some demo_profile\<rparr>]),
     su_reads = (\<lambda>w. \<lparr>rd_deployment = (\<lambda>ns n. Inr (ev_data (demo_deployment ''/ready'' 1))),
                     rd_service = (\<lambda>ns n. Inr (ev_data (demo_service ''wrong'')))\<rparr>),
     lg_lost = (\<lambda>w. False), lg_assert_owned = returnW (), lg_operation = returnW None,
     lg_prepare = (\<lambda>q. returnW (demo_op q)), lg_dispatch = (\<lambda>i. returnW ()), lg_record = (\<lambda>st rp. returnW ()),
     lg_budget = None, lg_isoformat = (\<lambda>t. ''t1''), lg_decode_result = (\<lambda>j. Inl ValidationError),
     lg_decode_snapshot = (\<lambda>j. Inr before_snapshot)\<rparr>"

lemma demo_decided: "durable_decision demo_hash (Some demo_saved) approved_state demo_authorization = Inr ()"
  by code_simp

definition demo_write :: "service_object res \<Rightarrow> action_result res \<times> unit logged_world" where
  "demo_write response = write_once demo_hash (logged_ledger (demo_ledger response)) approved_state demo_authorization
     ((), [(Owned, True), (Looked, True)])"

lemma demo_ledger_execution:
  "ledger_execute demo_hash demo_text_hash (Some demo_saved) (logged_ledger (demo_ledger response)) approved_state ((), [])
     = demo_write response"
proof -
  have o: "owned (logged_ledger (demo_ledger response)) ((), []) = (Inr (), ((), [(Owned, True)]))"
    by (simp add: owned_def logged_ledger_def demo_ledger_def witnessed_def returnW_def)
  have l: "lg_operation (logged_ledger (demo_ledger response)) ((), [(Owned, True)]) = (Inr None, ((), [(Owned, True), (Looked, True)]))"
    by (simp add: demo_ledger_def witnessed_def returnW_def)
  show ?thesis
    unfolding ledger_execute_def bindW_def [of "owned _"] o prod.case sum.case demo_authorized demo_decided bindW_lift
      bindW_def [of "lg_operation _"] l demo_write_def option.case ..
qed

lemma demo_sent:
  "list_ex is_sent (snd (snd (demo_write (Inl (TimeoutErr ''read timed out'')))))"
  by code_simp

section \<open>Properties\<close>





text \<open>C8. A journalled patch is a compare-and-set. If the server accepts the patch of a plan for a document
  (RFC 6902, all operations or none), the document had the UID, the resource version and the
  previous values of the snapshot, and the container at the addressed index had the plan's name; afterwards the new values of
  the plan are in place, and every part of the document at another place is unchanged.\<close>

theorem journalled_patch_compares_and_sets:
  assumes "build_patch pl r before = Inr ops" and "apply_patch ops doc = Some doc'"
  shows "(pl_action pl = PatchServiceSelector \<longrightarrow>
      (\<exists>old. map_of (configuration_of before) ''selector'' = Some old
        \<and> compare_and_set (identity_tests before)
            [([''spec'', ''selector''], old, JObj (str_dict (dict_of [] (pa_proposed_selector (pl_parameters pl)))))] doc doc'))
    \<and> (pl_action pl \<noteq> PatchServiceSelector \<longrightarrow>
      (\<exists>d i old path q. r = DeploymentRes d \<and> container_index d (pa_container_name (pl_parameters pl)) = Inr i
        \<and> map_of (configuration_of before) ''readiness_probe'' = Some (JObj old)
        \<and> map_of old ''path'' = Some path \<and> map_of old ''port'' = Some q
        \<and> compare_and_set
            (identity_tests before @ [(container_path i @ [''name''], opt_json JStr (pa_container_name (pl_parameters pl)))])
            [(probe_path i ''path'', path, opt_json JStr (pa_proposed_probe_path (pl_parameters pl))),
             (probe_path i ''port'', q, opt_json port_json (pa_proposed_probe_port (pl_parameters pl)))] doc doc'))"
  using selector_patch_sets [OF assms] probe_patch_sets [OF assms] by blast

definition live_document :: json where
  "live_document = JObj
     [(''metadata'', JObj [(''uid'', JStr ''svc-1''), (''resourceVersion'', JStr ''5'')]),
      (''spec'', JObj [(''type'', JStr ''ClusterIP''), (''selector'', JObj [(''app'', JStr ''wrong'')])])]"

lemma journalled_patch_compares_and_sets_witness:
  "\<exists>doc'. ptr_get [''spec'', ''selector''] doc' = Some (JObj [(''app'', JStr ''order'')])
     \<and> ptr_get [''spec'', ''type''] doc' = ptr_get [''spec'', ''type''] live_document"
proof -
  obtain ops where b: "build_patch bound_selector_plan (ServiceRes (live_service ''wrong'' ''5'')) (snapshot_dump before_snapshot) = Inr ops"
    and "\<exists>doc'. apply_patch ops live_document = Some doc'"
  proof -
    have "\<exists>ops doc'. build_patch bound_selector_plan (ServiceRes (live_service ''wrong'' ''5'')) (snapshot_dump before_snapshot) = Inr ops
        \<and> apply_patch ops live_document = Some doc'"
      by (rule exI [of _ "identity_ops (snapshot_dump before_snapshot)
            @ [test_op ''/spec/selector'' (JObj [(''app'', JStr ''wrong'')]), replace_op ''/spec/selector'' (JObj [(''app'', JStr ''order'')])]"],
          rule exI [of _ "JObj [(''metadata'', JObj [(''uid'', JStr ''svc-1''), (''resourceVersion'', JStr ''5'')]),
            (''spec'', JObj [(''type'', JStr ''ClusterIP''), (''selector'', JObj [(''app'', JStr ''order'')])])]"]) code_simp
    then show ?thesis
      using that by blast
  qed
  then obtain doc' where "apply_patch ops live_document = Some doc'"
    by blast
  with b have "compare_and_set (identity_tests (snapshot_dump before_snapshot))
     [([''spec'', ''selector''], JObj [(''app'', JStr ''wrong'')], JObj [(''app'', JStr ''order'')])] live_document doc'"
    using journalled_patch_compares_and_sets [OF b, of live_document doc']
    by (simp add: bound_selector_plan_def selector_plan_def configuration_of_def snapshot_dump_def before_snapshot_def
        selector_configuration_def str_dict_def)
  then show ?thesis
    by (auto simp: compare_and_set_def)
qed


definition demo_response :: json where
  "demo_response = JObj (snapshot_dump (before_snapshot\<lparr>rs_resource_version := ''6'', rs_configuration := selector_configuration [(''app'', ''order'')]\<rparr>))"

definition done_op :: op_row where
  "done_op = (demo_op (write_request demo_hash demo_authorization (snapshot_dump before_snapshot) []))
     \<lparr>o_state := OpSucceeded, o_attribution := Confirmed, o_response := Some demo_response, o_result := Some JNull\<rparr>"


text \<open>C9. A result the durable executor returns is in the journal. On the store, with any other activity on the
  database between its calls, an execution that returns leaves the run's entry settled, with this
  result recorded, or returned what the entry already held.\<close>

theorem returned_result_journalled:
  assumes "ledger_execute H T saved (site_ledger H l si base) s (d, c) = (Inr x, (d', c'))"
  shows "\<exists>p. find_op (r_run_id (le_run l)) d' = Some p \<and> o_state p \<in> {OpSucceeded, Reconciled, Rejected}
    \<and> (o_result p = Some (action_result_dump x) \<or> lg_decode_result base (opt_get (o_result p)) = Inr x)"
proof -
  have "lg_decode_result (site_ledger H l si base) = lg_decode_result base"
    by (simp add: site_ledger_def)
  then show ?thesis
    using site.execute_durable [OF assms] unfolding site.durable_def settled_def site_entry_def by auto
qed

definition demo_run :: run_row where
  "demo_run = (new_run ''run-1'' ''inc-1'' ''t1'' DiagnosisRun (JObj []) ''s'' 1)
     \<lparr>r_status := Running, r_lease_owner := Some ''w1'', r_lease_epoch := 1, r_lease_expires_at := Some 100\<rparr>"

definition demo_result :: action_result where
  "demo_result = \<lparr>x_execution_id = ''exec-bbbbbbbbbbbbbbbb'', x_approval_id = ''apr-aaaaaaaaaaaaaaaa'',
     x_action = PatchServiceSelector, x_status = Succeeded, x_namespace = ''agent-demo'', x_resource_kind = KService,
     x_resource_name = ''order-service'', x_started_at = ''t1'', x_finished_at = ''t2'', x_before = Some before_snapshot,
     x_after = None, x_applied_patch = [], x_rollback_patch = [], x_message = ''Recorded Kubernetes patch response.'',
     x_error_code = None, x_error_message = None\<rparr>"

definition demo_db :: db where
  "demo_db = empty_db\<lparr>db_runs := [demo_run], db_operations := [done_op\<lparr>o_result := Some (action_result_dump demo_result)\<rparr>]\<rparr>"

lemma returned_result_journalled_witness:
  "\<exists>p. find_op ''run-1'' demo_db = Some p \<and> o_state p \<in> {OpSucceeded, Reconciled, Rejected}"
proof -
  let ?l = "\<lparr>le_run = demo_run, le_recovery_only = False\<rparr>"
  let ?si = "\<lparr>si_tick = (\<lambda>c. c), si_clock = (\<lambda>c. (5, 5)), si_others = (\<lambda>c d. d)\<rparr>"
  let ?base = "(demo_ledger (Inl (OtherError [])))\<lparr>lg_decode_result := (\<lambda>j. Inr demo_result)\<rparr>"
  let ?lg = "site_ledger demo_hash ?l ?si ?base"
  have o: "owned ?lg (demo_db, ()) = (Inr (), (demo_db, ()))"
    by code_simp
  have l: "lg_operation ?lg (demo_db, ()) = (Inr (Some (done_op\<lparr>o_result := Some (action_result_dump demo_result)\<rparr>)), (demo_db, ()))"
    by code_simp
  have ok: "o_approval_id done_op = au_approval_id demo_authorization"
      "o_plan_revision done_op = request_digest demo_hash (plan_payload (au_plan demo_authorization))"
      "settled (done_op\<lparr>o_result := Some (action_result_dump demo_result)\<rparr>)"
    by (simp_all add: done_op_def demo_op_def write_request_def settled_def)
  have "ledger_execute demo_hash demo_text_hash (Some demo_saved) ?lg approved_state (demo_db, ()) = (Inr demo_result, (demo_db, ()))"
    unfolding ledger_execute_def bindW_def [of "owned _"] o prod.case sum.case demo_authorized demo_decided bindW_lift
      bindW_def [of "lg_operation _"] l option.case
    by (simp add: ok liftW_def site_ledger_def)
  from returned_result_journalled [OF this] show ?thesis
    by (simp add: demo_run_def new_run_def)
qed

end
