(* ===== verification/Observation.thy ===== *)
theory Observation
  imports Effects State
begin

text \<open>
  \<open>backend/app/agent/observation.py\<close>: the observation window of one verification. Samples are taken
  until three in a row passed, the target changed or a deadline is over; every sample is saved
  before its reads start, and a restarted worker keeps the deadline but not the streak. The clocks,
  the store and the sample are calls on the surroundings; epochs and durations are exact numbers.
\<close>

section \<open>The window\<close>

record window_policy =
  wp_version :: string
  wp_resource_seconds :: rat
  wp_business_seconds :: rat
  wp_total_seconds :: rat
  wp_interval_seconds :: rat
  wp_required_consecutive :: nat
  wp_max_samples :: nat

definition window_default :: window_policy where
  "window_default = \<lparr>wp_version = ''recovery-window-v1'', wp_resource_seconds = 60,
     wp_business_seconds = 30, wp_total_seconds = 120, wp_interval_seconds = 5,
     wp_required_consecutive = 3, wp_max_samples = 25\<rparr>"

text \<open>
  What a sample answers; \<open>None\<close> and a missing key read the same. A target is \<open>JNull\<close> or an object.
\<close>

record 'r sampled =
  sa_status :: string
  sa_resource_status :: string
  sa_business_status :: string
  sa_target :: json
  sa_error_code :: json
  sa_invalidated :: bool
  sa_result :: 'r

record 'r window_item =
  wi_sequence :: nat
  wi_segment :: string
  wi_started_at :: string
  wi_started_epoch :: rat
  wi_finished_at :: "string option"
  wi_finished_epoch :: "rat option"
  wi_status :: string
  wi_sampled :: "'r sampled option"

datatype window_status = WindowRunning | WindowPassed | WindowInvalidated | WindowUnknown

record 'r window =
  wn_policy :: window_policy
  wn_started_at :: string
  wn_deadline :: rat
  wn_resource_deadline :: rat
  wn_business_deadline :: "rat option"
  wn_samples :: "'r window_item list"
  wn_consecutive :: nat
  wn_status :: window_status
  wn_reason :: "string option"
  wn_target :: json
  wn_last_result :: "'r option"
  wn_finished_at :: "string option"

text \<open>The surroundings: clocks, \<open>sleep\<close>, \<open>uuid4\<close>, the store, and the format of a timestamp.\<close>

record ('w, 'r) observer =
  ow_clock :: "('w, rat) io"
  ow_monotonic :: "('w, rat) io"
  ow_sleep :: "rat \<Rightarrow> ('w, unit) io"
  ow_uuid :: "('w, string) io"
  ow_open :: "'r window \<Rightarrow> ('w, 'r window) io"
  ow_save :: "'r window \<Rightarrow> ('w, unit) io"
  ow_timestamp :: "rat \<Rightarrow> string"

section \<open>Identity of the target\<close>

text \<open>
  \<open>identity\<close>: digest, UIDs, generation, selector and ports of the one observed Service; nothing
  when the profile does not match, another number of Services was read, or a value is missing.
\<close>

definition target_identity :: "snapshot option \<Rightarrow> evidence list \<Rightarrow> json" where
  "target_identity p es = (case p of None \<Rightarrow> JNull | Some n \<Rightarrow>
     (case map ev_data (filter (\<lambda>e. ev_type e = ''Service'' \<and> ev_ok e) es) of
        [service] \<Rightarrow> (let d = [(''digest'', opt_json JStr (sn_digest n)),
             (''deployment_uid'', opt_get (sn_deployment_uid n)),
             (''deployment_generation'', opt_get (sn_deployment_generation n)),
             (''service_uid'', dget service ''uid''), (''selector'', dget service ''selector''),
             (''ports'', dget service ''ports'')]
           in if sn_status n = ''matched'' \<and> list_all (\<lambda>kv. snd kv \<noteq> JNull) d
                 \<and> truthy (dget d ''service_uid'') \<and> truthy (dget d ''deployment_uid'')
              then JObj d else JNull)
      | _ \<Rightarrow> JNull))"

section \<open>Time left\<close>

text \<open>\<open>window["business_deadline"] or window["resource_deadline"]\<close>: zero counts as absent.\<close>

definition phase_deadline :: "'r window \<Rightarrow> rat" where
  "phase_deadline n = (case wn_business_deadline n of
       None \<Rightarrow> wn_resource_deadline n | Some b \<Rightarrow> if b = 0 then wn_resource_deadline n else b)"

definition time_left :: "('w, 'r) observer \<Rightarrow> rat \<Rightarrow> 'r window \<Rightarrow> ('w, rat) io" where
  "time_left ob md n =
     bindW (ow_clock ob) (\<lambda>a. bindW (ow_clock ob) (\<lambda>b. bindW (ow_monotonic ob) (\<lambda>m.
       returnW (min (wn_deadline n - a) (min (phase_deadline n - b) (md - m))))))"

section \<open>One sample\<close>

definition pause :: "('w, 'r) observer \<Rightarrow> rat \<Rightarrow> 'r window \<Rightarrow> ('w, unit) io" where
  "pause ob md n = (if wn_samples n = [] then returnW () else
     bindW (ow_clock ob) (\<lambda>default.
     bindW (ow_clock ob) (\<lambda>now.
     let delay = max 0 ((case wi_finished_epoch (last (wn_samples n)) of None \<Rightarrow> default | Some e \<Rightarrow> e)
                        + wp_interval_seconds (wn_policy n) - now)
     in bindW (time_left ob md n) (\<lambda>left. ow_sleep ob (min delay (max 0 left))))))"

definition new_item :: "('w, 'r) observer \<Rightarrow> string \<Rightarrow> 'r window \<Rightarrow> ('w, 'r window_item) io" where
  "new_item ob seg n = bindW (ow_clock ob) (\<lambda>t0. bindW (ow_clock ob) (\<lambda>t1. returnW
     \<lparr>wi_sequence = length (wn_samples n) + 1, wi_segment = seg, wi_started_at = ow_timestamp ob t0,
      wi_started_epoch = t1, wi_finished_at = None, wi_finished_epoch = None, wi_status = ''sampling'',
      wi_sampled = None\<rparr>))"

definition finish_item :: "('w, 'r) observer \<Rightarrow> rat \<Rightarrow> 'r sampled \<Rightarrow> 'r window_item \<Rightarrow> 'r window_item" where
  "finish_item ob finished x i = i\<lparr>wi_finished_at := Some (ow_timestamp ob finished),
     wi_finished_epoch := Some finished, wi_status := sa_status x, wi_sampled := Some x\<rparr>"

definition append_item :: "'r window_item \<Rightarrow> 'r window \<Rightarrow> 'r window" where
  "append_item i n = n\<lparr>wn_samples := wn_samples n @ [i]\<rparr>"

definition replace_last :: "'r window_item \<Rightarrow> 'r window \<Rightarrow> 'r window" where
  "replace_last i n = n\<lparr>wn_samples := butlast (wn_samples n) @ [i]\<rparr>"

text \<open>The first ready sample starts the business deadline, counted from its own start.\<close>

definition starts_business :: "'r sampled \<Rightarrow> 'r window \<Rightarrow> bool" where
  "starts_business x n = (sa_resource_status x = ''ready'' \<and> wn_business_deadline n = None)"

definition with_business :: "'r window_item \<Rightarrow> 'r window \<Rightarrow> 'r window" where
  "with_business i n = n\<lparr>wn_business_deadline :=
     Some (min (wn_deadline n) (wi_started_epoch i + wp_business_seconds (wn_policy n)))\<rparr>"

definition sample_passed :: "'r sampled \<Rightarrow> bool" where
  "sample_passed x = (sa_status x = ''passed'' \<and> sa_resource_status x = ''ready''
     \<and> sa_business_status x = ''passed'' \<and> sa_target x \<noteq> JNull)"

definition target_changed :: "'r sampled \<Rightarrow> 'r window \<Rightarrow> bool" where
  "target_changed x n = (sa_invalidated x \<or> (truthy (sa_target x) \<and> truthy (wn_target n)
     \<and> \<not> py_eq (sa_target x) (wn_target n)))"

definition counted :: "'r sampled \<Rightarrow> 'r window \<Rightarrow> 'r window" where
  "counted x n = (let k = (if sample_passed x then wn_consecutive n + 1 else 0);
       m = n\<lparr>wn_target := (if truthy (sa_target x) then sa_target x else wn_target n), wn_consecutive := k\<rparr>
     in if wp_required_consecutive (wn_policy n) \<le> k
        then m\<lparr>wn_status := WindowPassed, wn_reason := Some ''CONSECUTIVE_SAMPLES_PASSED''\<rparr> else m)"

definition judged :: "'r sampled \<Rightarrow> bool \<Rightarrow> 'r window \<Rightarrow> 'r window" where
  "judged x late n =
     (if target_changed x n
      then n\<lparr>wn_status := WindowInvalidated, wn_reason := Some ''TARGET_CHANGED'', wn_consecutive := 0\<rparr>
      else if late
      then n\<lparr>wn_status := WindowUnknown, wn_reason := Some ''DEADLINE_EXCEEDED'', wn_consecutive := 0\<rparr>
      else counted x n)"

text \<open>What the loop does after the sample has answered.\<close>

definition conclude_sample ::
  "('w, 'r) observer \<Rightarrow> rat \<Rightarrow> 'r window_item \<Rightarrow> 'r sampled \<Rightarrow> 'r window \<Rightarrow> ('w, 'r window) io" where
  "conclude_sample ob md i x n =
     bindW (ow_clock ob) (\<lambda>finished.
     let n1 = (replace_last (finish_item ob finished x i) n)\<lparr>wn_last_result := Some (sa_result x)\<rparr> in
     bindW (time_left ob md n1) (\<lambda>left.
     let n2 = (if starts_business x n1 then with_business i n1 else n1) in
     bindW (if starts_business x n1 \<and> \<not> left \<le> 0
            then bindW (time_left ob md n2) (\<lambda>l. returnW (l \<le> 0)) else returnW (left \<le> 0)) (\<lambda>late.
     let n3 = judged x late n2;
         n4 = (if wn_status n3 = WindowRunning then n3
               else n3\<lparr>wn_finished_at := Some (ow_timestamp ob finished)\<rparr>)
     in bindW (ow_save ob n4) (\<lambda>_. returnW n4))))"

definition take_sample ::
  "('w, 'r) observer \<Rightarrow> (rat \<Rightarrow> ('w, 'r sampled) io) \<Rightarrow> rat \<Rightarrow> string \<Rightarrow> 'r window \<Rightarrow> ('w, 'r window) io" where
  "take_sample ob sample md seg n =
     bindW (new_item ob seg n) (\<lambda>i. let n1 = append_item i n in
     bindW (ow_save ob n1) (\<lambda>_.
     bindW (time_left ob md n1) (\<lambda>left.
     bindW (sample (max 0 (min left (wp_business_seconds (wn_policy n1))))) (\<lambda>x.
       conclude_sample ob md i x n1))))"

text \<open>One round of the loop: \<open>None\<close> when the time was over before the sample could start.\<close>

definition observe_once ::
  "('w, 'r) observer \<Rightarrow> (rat \<Rightarrow> ('w, 'r sampled) io) \<Rightarrow> rat \<Rightarrow> string \<Rightarrow> 'r window \<Rightarrow> ('w, 'r window option) io" where
  "observe_once ob sample md seg n =
     bindW (pause ob md n) (\<lambda>_.
     bindW (time_left ob md n) (\<lambda>left.
       if left \<le> 0 then returnW None
       else bindW (take_sample ob sample md seg n) (\<lambda>m. returnW (Some m))))"

section \<open>The loop\<close>

text \<open>The loop condition: the number of samples is only compared while time is left.\<close>

definition may_sample :: "('w, 'r) observer \<Rightarrow> rat \<Rightarrow> 'r window \<Rightarrow> ('w, bool) io" where
  "may_sample ob md n = bindW (time_left ob md n) (\<lambda>left.
     returnW (left > 0 \<and> length (wn_samples n) < wp_max_samples (wn_policy n)))"

lemma bindW_cong [fundef_cong]:
  assumes "m w = m' w'" and "\<And>x v. m' w' = (Inr x, v) \<Longrightarrow> f x v = g x v"
  shows "bindW m f w = bindW m' g w'"
  using assms by (auto simp: bindW_def split: prod.splits sum.splits)

lemma judged_kept [simp]:
  "wn_policy (judged x late n) = wn_policy n" "wn_samples (judged x late n) = wn_samples n"
  by (simp_all add: judged_def counted_def Let_def)

lemma with_business_kept [simp]:
  "wn_policy (with_business i n) = wn_policy n" "wn_samples (with_business i n) = wn_samples n"
  by (simp_all add: with_business_def)

lemma replace_last_kept [simp]:
  "wn_policy (replace_last i n) = wn_policy n" "wn_samples (replace_last i n) = butlast (wn_samples n) @ [i]"
  by (simp_all add: replace_last_def)

lemma append_item_kept [simp]:
  "wn_policy (append_item i n) = wn_policy n" "wn_samples (append_item i n) = wn_samples n @ [i]"
  by (simp_all add: append_item_def)

definition answered :: "('w, 'r) observer \<Rightarrow> rat \<Rightarrow> 'r window_item \<Rightarrow> 'r sampled \<Rightarrow> 'r window \<Rightarrow> 'r window" where
  "answered ob finished i x n = (let n1 = (replace_last (finish_item ob finished x i) n)\<lparr>wn_last_result := Some (sa_result x)\<rparr>
     in if starts_business x n1 then with_business i n1 else n1)"

lemma answered_kept [simp]:
  "wn_policy (answered ob finished i x n) = wn_policy n"
  "wn_samples (answered ob finished i x n) = butlast (wn_samples n) @ [finish_item ob finished x i]"
  by (simp_all add: answered_def Let_def)

lemma conclude_sampleE:
  assumes "conclude_sample ob md i x n w = (Inr m, w')"
  obtains finished late stamp where
    "m = (judged x late (answered ob finished i x n))\<lparr>wn_finished_at := stamp\<rparr>"
proof -
  obtain finished late where
    "m = (let n3 = judged x late (answered ob finished i x n) in
      if wn_status n3 = WindowRunning then n3 else n3\<lparr>wn_finished_at := Some (ow_timestamp ob finished)\<rparr>)"
    using assms unfolding conclude_sample_def Let_def answered_def bindW_eq by (auto simp: returnW_eq)
  then have "m = (judged x late (answered ob finished i x n))\<lparr>wn_finished_at := wn_finished_at m\<rparr>"
    by (auto simp: Let_def)
  then show thesis
    by (rule that)
qed

lemma conclude_sample_policy:
  assumes "conclude_sample ob md i x n w = (Inr m, w')" and "wn_samples n \<noteq> []"
  shows "wn_policy m = wn_policy n" and "length (wn_samples m) = length (wn_samples n)"
  using assms by (auto elim!: conclude_sampleE)

lemma may_sampleD:
  "may_sample ob md n w = (Inr True, w') \<Longrightarrow> length (wn_samples n) < wp_max_samples (wn_policy n)"
  by (auto simp: may_sample_def io_simps)

lemma observe_once_grows:
  assumes "observe_once ob sample md seg n w = (Inr (Some m), w')"
  shows "wn_policy m = wn_policy n" and "length (wn_samples m) = length (wn_samples n) + 1"
proof -
  obtain i x v where "conclude_sample ob md i x (append_item i n) v = (Inr m, w')"
    using assms by (auto simp: observe_once_def take_sample_def io_simps Let_def split: if_splits)
  from conclude_sample_policy [OF this]
  show "wn_policy m = wn_policy n" and "length (wn_samples m) = length (wn_samples n) + 1"
    by (simp_all add: append_item_def)
qed

function window_loop ::
  "('w, 'r) observer \<Rightarrow> (rat \<Rightarrow> ('w, 'r sampled) io) \<Rightarrow> rat \<Rightarrow> string \<Rightarrow> 'r window \<Rightarrow> 'w \<Rightarrow> 'r window res \<times> 'w" where
  "window_loop ob sample md seg n w =
     bindW (may_sample ob md n) (\<lambda>go v.
       if go
       then bindW (observe_once ob sample md seg n) (\<lambda>r u. case r of
              None \<Rightarrow> (Inr n, u)
            | Some m \<Rightarrow> if wn_status m = WindowRunning then window_loop ob sample md seg m u else (Inr m, u)) v
       else (Inr n, v)) w"
  by pat_completeness auto

termination
  by (relation "measure (\<lambda>(_, _, _, _, n, _). wp_max_samples (wn_policy n) - length (wn_samples n))")
     (auto simp: observe_once_grows dest!: may_sampleD)

declare window_loop.simps [simp del]

text \<open>The three ways a round of the loop goes on.\<close>

lemma window_loopE:
  assumes "window_loop ob sample md seg n w = (r, w')"
  obtains (stop) g where "may_sample ob md n w = (g, w')" and "\<And>m. r = Inr m \<Longrightarrow> m = n"
  | (ended) v g where "may_sample ob md n w = (Inr True, v)" and "observe_once ob sample md seg n v = (g, w')"
      and "\<And>m. r = Inr m \<Longrightarrow> \<exists>y. g = Inr y \<and> (case y of None \<Rightarrow> m = n | Some m' \<Rightarrow> m = m')"
  | (again) v m u where "may_sample ob md n w = (Inr True, v)" and "observe_once ob sample md seg n v = (Inr (Some m), u)"
      and "wn_status m = WindowRunning" and "window_loop ob sample md seg m u = (r, w')"
proof -
  let ?next = "\<lambda>r u. case r of None \<Rightarrow> (Inr n, u)
      | Some m \<Rightarrow> if wn_status m = WindowRunning then window_loop ob sample md seg m u else (Inr m, u)"
  have "bindW (may_sample ob md n) (\<lambda>go v.
      if go then bindW (observe_once ob sample md seg n) ?next v else (Inr n, v)) w = (r, w')"
    using assms by (subst (asm) window_loop.simps)
  then consider (1) e where "may_sample ob md n w = (Inl e, w')" "r = Inl e"
    | (2) go v where "may_sample ob md n w = (Inr go, v)"
        "(if go then bindW (observe_once ob sample md seg n) ?next v else (Inr n, v)) = (r, w')"
    unfolding bindW_eq by blast
  then show thesis
  proof cases
    case 1
    then show thesis
      using stop by simp
  next
    case 2
    show thesis
    proof (cases go)
      case False
      then show thesis
        using stop [of "Inr False"] 2 by auto
    next
      case True
      then have may: "may_sample ob md n w = (Inr True, v)"
        and "bindW (observe_once ob sample md seg n) ?next v = (r, w')"
        using 2 by simp_all
      then consider (3) e where "observe_once ob sample md seg n v = (Inl e, w')" "r = Inl e"
        | (4) y u where "observe_once ob sample md seg n v = (Inr y, u)" "?next y u = (r, w')"
        unfolding bindW_eq by blast
      then show thesis
      proof cases
        case 3
        then show thesis
          using ended [OF may] by simp
      next
        case 4
        then show thesis
          by (cases y; cases "wn_status (the y) = WindowRunning")
            (use ended [OF may] again [OF may] in auto)
      qed
    qed
  qed
qed

section \<open>The whole run\<close>

definition initial_window :: "('w, 'r) observer \<Rightarrow> window_policy \<Rightarrow> rat \<Rightarrow> 'r window" where
  "initial_window ob p started = \<lparr>wn_policy = p, wn_started_at = ow_timestamp ob started,
     wn_deadline = started + wp_total_seconds p, wn_resource_deadline = started + wp_resource_seconds p,
     wn_business_deadline = None, wn_samples = [], wn_consecutive = 0, wn_status = WindowRunning,
     wn_reason = None, wn_target = JNull, wn_last_result = None, wn_finished_at = None\<rparr>"

text \<open>A new uninterrupted segment: the streak starts again, samples in flight were interrupted.\<close>

definition interrupted :: "'r window_item \<Rightarrow> 'r window_item" where
  "interrupted i = (if wi_status i = ''sampling''
     then i\<lparr>wi_status := ''interrupted'', wi_finished_at := None\<rparr> else i)"

definition resumed :: "'r window \<Rightarrow> 'r window" where
  "resumed n = n\<lparr>wn_consecutive := 0, wn_samples := map interrupted (wn_samples n)\<rparr>"

definition close_window :: "('w, 'r) observer \<Rightarrow> 'r window \<Rightarrow> ('w, 'r window) io" where
  "close_window ob n =
     (let n1 = (if wn_status n = WindowRunning
        then n\<lparr>wn_status := WindowUnknown, wn_reason := Some ''INSUFFICIENT_STABLE_SAMPLES''\<rparr> else n)
      in bindW (ow_clock ob) (\<lambda>t. let n2 = n1\<lparr>wn_finished_at := Some (ow_timestamp ob t)\<rparr>
      in bindW (ow_save ob n2) (\<lambda>_. returnW n2)))"

definition observe ::
  "('w, 'r) observer \<Rightarrow> window_policy \<Rightarrow> (rat \<Rightarrow> ('w, 'r sampled) io) \<Rightarrow> ('w, 'r window) io" where
  "observe ob p sample =
     bindW (ow_clock ob) (\<lambda>started.
     bindW (ow_open ob (initial_window ob p started)) (\<lambda>n.
       if wn_status n \<noteq> WindowRunning then returnW n
       else if wp_version (wn_policy n) \<noteq> wp_version window_default
       then raiseW (PyValueError ''UNSUPPORTED_VERIFICATION_POLICY'')
       else bindW (ow_uuid ob) (\<lambda>seg. let n1 = resumed n in
            bindW (ow_save ob n1) (\<lambda>_.
            bindW (ow_monotonic ob) (\<lambda>m.
            bindW (ow_clock ob) (\<lambda>c.
            bindW (window_loop ob sample (m + max 0 (wn_deadline n1 - c)) seg n1) (close_window ob)))))))"

end
