(* ===== verification/ObservationFacts.thy ===== *)
theory ObservationFacts
  imports Observation Traces
begin

text \<open>
  Facts about the observation window: its calls in order, and the streak of passed samples that
  every round keeps or resets.
\<close>

section \<open>Equal values\<close>

lemma num_of_cases: "num_of v \<noteq> None \<longleftrightarrow> (\<exists>b. v = JBool b) \<or> (\<exists>i. v = JInt i) \<or> (\<exists>q. v = JFloat q)"
  by (cases v) auto

lemma py_eq_number: "num_of a \<noteq> None \<Longrightarrow> py_eq a b \<longleftrightarrow> num_of b \<noteq> None \<and> num_of a = num_of b"
  by (cases a) auto

lemma py_eq_trans:
  "py_eq a b \<Longrightarrow> py_eq b c \<Longrightarrow> py_eq a c"
  "py_eqs xs ys \<Longrightarrow> py_eqs ys zs \<Longrightarrow> py_eqs xs zs"
  "py_eqd ds es \<Longrightarrow> py_eqd es fs \<Longrightarrow> py_eqd ds fs"
proof (induction a b and xs ys and ds es arbitrary: c and zs and fs rule: py_eq_py_eqs_py_eqd.induct)
  case (3 xs b)
  then show ?case
    by (auto split: json.splits)
next
  case (4 xs b)
  then show ?case
    by (auto split: json.splits)
next
  case (7 x xs ys)
  then show ?case
    by (cases ys; cases zs) auto
next
  case (9 k v xs ys)
  from "9.prems"(1) obtain u where u: "map_of ys k = Some u" "py_eq v u" "py_eqd xs ys"
    by (auto split: option.splits)
  from py_eqd_lookup [OF "9.prems"(2) map_of_SomeD [OF u(1)]]
  obtain t where t: "map_of fs k = Some t" "py_eq u t"
    by blast
  have "py_eq v t"
    using "9.IH"(1) [OF u(1) u(2) t(2)] .
  moreover have "py_eqd xs fs"
    using "9.IH"(2) [OF u(3) "9.prems"(2)] .
  ultimately show ?case
    by (simp add: t(1))
qed (auto simp: py_eq_number)

lemma py_eq_truthy: "py_eq a b \<Longrightarrow> truthy a = truthy b"
  by (cases a; cases b) (auto split: if_splits elim: py_eqs.elims)

section \<open>The calls of a run\<close>

datatype 'r observation_call = OpenedCall "'r window" | SavedCall "'r window" | SampledCall rat

definition noted_observer :: "('w, 'r) observer \<Rightarrow> ('w \<times> 'r observation_call list, 'r) observer" where
  "noted_observer ob = \<lparr>ow_clock = silent (ow_clock ob), ow_monotonic = silent (ow_monotonic ob),
     ow_sleep = (\<lambda>s. silent (ow_sleep ob s)), ow_uuid = silent (ow_uuid ob),
     ow_open = (\<lambda>n (w, tr). case ow_open ob n w of
        (Inl e, w') \<Rightarrow> (Inl e, (w', tr)) | (Inr m, w') \<Rightarrow> (Inr m, (w', tr @ [OpenedCall m]))),
     ow_save = (\<lambda>n. noting (SavedCall n) (ow_save ob n)), ow_timestamp = ow_timestamp ob\<rparr>"

definition noted_sample :: "(rat \<Rightarrow> ('w, 'r sampled) io) \<Rightarrow> rat \<Rightarrow> ('w \<times> 'r observation_call list, 'r sampled) io" where
  "noted_sample sample s = noting (SampledCall s) (sample s)"

fun is_sampled :: "'r observation_call \<Rightarrow> bool" where
  "is_sampled (SampledCall _) = True"
| "is_sampled _ = False"

lemma noted_simps [simp]:
  "ow_clock (noted_observer ob) = silent (ow_clock ob)"
  "ow_monotonic (noted_observer ob) = silent (ow_monotonic ob)"
  "ow_sleep (noted_observer ob) s = silent (ow_sleep ob s)"
  "ow_uuid (noted_observer ob) = silent (ow_uuid ob)"
  "ow_save (noted_observer ob) n = noting (SavedCall n) (ow_save ob n)"
  "ow_timestamp (noted_observer ob) = ow_timestamp ob"
  by (simp_all add: noted_observer_def)

text \<open>
  A sample is announced: the call right before it saved a window whose last item is in flight; and
  it is given at most the time of the policy.
\<close>

definition in_flight :: "'r observation_call option \<Rightarrow> bool" where
  "in_flight c = (case c of Some (SavedCall m) \<Rightarrow>
     wn_samples m \<noteq> [] \<and> wi_status (last (wn_samples m)) = ''sampling'' | _ \<Rightarrow> False)"

fun announced :: "'r observation_call option \<Rightarrow> rat \<Rightarrow> 'r observation_call list \<Rightarrow> bool" where
  "announced c b [] = True"
| "announced c b (SampledCall t # cs) =
     (in_flight c \<and> 0 \<le> t \<and> t \<le> max 0 b \<and> announced (Some (SampledCall t)) b cs)"
| "announced c b (d # cs) = announced (Some d) b cs"

lemma announced_any: "announced None b cs \<Longrightarrow> announced c b cs"
  by (cases "(c, b, cs)" rule: announced.cases) (auto simp: in_flight_def)

lemma announced_append: "announced c b xs \<Longrightarrow> announced None b ys \<Longrightarrow> announced c b (xs @ ys)"
  by (induction c b xs rule: announced.induct) (auto intro: announced_any)

definition sampling_trace :: "nat \<Rightarrow> rat \<Rightarrow> 'r observation_call list \<Rightarrow> bool" where
  "sampling_trace k b cs = (announced None b cs \<and> length (filter is_sampled cs) \<le> k
     \<and> list_all (\<lambda>c. case c of OpenedCall _ \<Rightarrow> False | _ \<Rightarrow> True) cs)"

lemma sampling_trace_append:
  "sampling_trace j b xs \<Longrightarrow> sampling_trace k b ys \<Longrightarrow> sampling_trace (j + k) b (xs @ ys)"
  by (auto simp: sampling_trace_def announced_append)

lemma sampling_trace_mono: "sampling_trace j b xs \<Longrightarrow> j \<le> k \<Longrightarrow> sampling_trace k b xs"
  by (auto simp: sampling_trace_def)

lemma sampling_trace_simps [simp]:
  "sampling_trace k b []" "sampling_trace k b [SavedCall m]"
  by (simp_all add: sampling_trace_def)

section \<open>What the steps add\<close>

lemma time_left_quiet [adds_intros]: "quiet_call (time_left (noted_observer ob) md n)"
  unfolding time_left_def noted_simps by (intro adds_quiet adds_intros adds_return) simp_all

lemma may_sample_quiet [adds_intros]: "quiet_call (may_sample (noted_observer ob) md n)"
  unfolding may_sample_def by (intro adds_quiet adds_intros adds_return) simp_all

lemma pause_quiet [adds_intros]: "quiet_call (pause (noted_observer ob) md n)"
  unfolding pause_def noted_simps Let_def by (intro adds_if adds_quiet adds_intros adds_return) simp_all

lemma new_item_quiet:
  "adds (\<lambda>r tr. tr = [] \<and> (\<forall>i. r = Inr i \<longrightarrow> wi_status i = ''sampling'')) (new_item (noted_observer ob) seg n)"
  unfolding new_item_def noted_simps by (intro adds_quiet adds_intros adds_return) simp_all

lemma conclude_sample_adds:
  "adds (\<lambda>_ tr. tr = [] \<or> (\<exists>m. tr = [SavedCall m])) (conclude_sample (noted_observer ob) md i x n)"
  unfolding conclude_sample_def noted_simps Let_def
  by (intro adds_quiet adds_noting_bind adds_if adds_intros adds_return) simp_all

lemma take_sample_adds:
  "adds (\<lambda>_. sampling_trace 1 (wp_business_seconds (wn_policy n)))
     (take_sample (noted_observer ob) (noted_sample sample) md seg n)"
proof -
  have "adds (\<lambda>_ tr. sampling_trace 1 (wp_business_seconds (wn_policy n)) (SavedCall (append_item i n) # tr))
      (bindW (time_left (noted_observer ob) md (append_item i n)) (\<lambda>left.
       bindW (noted_sample sample (max 0 (min left (wp_business_seconds (wn_policy (append_item i n)))))) (\<lambda>x.
       conclude_sample (noted_observer ob) md i x (append_item i n))))"
    if "wi_status i = ''sampling''" for i
    unfolding noted_sample_def
    by (intro adds_quiet adds_intros adds_noting_bind adds_weaken [OF conclude_sample_adds])
      (use that in \<open>auto simp: sampling_trace_def in_flight_def append_item_def\<close>)
  then show ?thesis
    unfolding take_sample_def noted_simps Let_def
    by (intro adds_bind_quiet [OF new_item_quiet] adds_noting_bind) auto
qed

lemma observe_once_adds:
  "adds (\<lambda>_. sampling_trace 1 (wp_business_seconds (wn_policy n)))
     (observe_once (noted_observer ob) (noted_sample sample) md seg n)"
  unfolding observe_once_def
  by (intro adds_quiet adds_if adds_intros adds_return
      adds_bind [OF take_sample_adds, where B = "\<lambda>_ _ tr. tr = []"]) simp_all

lemma window_loop_adds:
  assumes "window_loop (noted_observer ob) (noted_sample sample) md seg n w = (r, w')"
  shows "\<exists>tr. snd w' = snd w @ tr
    \<and> sampling_trace (wp_max_samples (wn_policy n) - length (wn_samples n)) (wp_business_seconds (wn_policy n)) tr"
  using assms
proof (induction "noted_observer ob" "noted_sample sample" md seg n w arbitrary: r w' rule: window_loop.induct)
  case (1 md seg n w)
  let ?k = "wp_max_samples (wn_policy n) - length (wn_samples n)" and ?b = "wp_business_seconds (wn_policy n)"
  from 1(2) show ?case
  proof (cases rule: window_loopE)
    case (stop g)
    then show ?thesis
      using addsD [OF may_sample_quiet stop(1)] by auto
  next
    case (ended v g)
    have "1 \<le> ?k"
      using may_sampleD [OF ended(1)] by simp
    moreover have "snd v = snd w"
      using addsD [OF may_sample_quiet ended(1)] by simp
    ultimately show ?thesis
      using addsD [OF observe_once_adds ended(2)] sampling_trace_mono by metis
  next
    case (again v m u)
    have v: "snd v = snd w"
      using addsD [OF may_sample_quiet again(1)] by simp
    obtain tr1 where tr1: "snd u = snd w @ tr1" "sampling_trace 1 ?b tr1"
      using addsD [OF observe_once_adds again(2)] v by auto
    obtain tr2 where tr2: "snd w' = snd u @ tr2"
      "sampling_trace (wp_max_samples (wn_policy m) - length (wn_samples m)) (wp_business_seconds (wn_policy m)) tr2"
      using 1(1) [OF again(1) TrueI again(2) refl again(3,4)] by blast
    have "1 + (wp_max_samples (wn_policy m) - length (wn_samples m)) = ?k"
      using may_sampleD [OF again(1)] observe_once_grows [OF again(2)] by simp
    then have "sampling_trace ?k ?b (tr1 @ tr2)"
      using sampling_trace_append [OF tr1(2)] tr2(2) observe_once_grows(1) [OF again(2)] by metis
    then show ?thesis
      using tr1(1) tr2(1) by auto
  qed
qed

section \<open>The streak\<close>

text \<open>An invariant that every round keeps holds of the window the loop returns.\<close>

lemma window_loop_invariant:
  assumes "window_loop ob sample md seg n w = (Inr m, w')" and "wn_status n = WindowRunning" and "I n"
    and step: "\<And>n v m u. I n \<Longrightarrow> wn_status n = WindowRunning \<Longrightarrow> observe_once ob sample md seg n v = (Inr (Some m), u) \<Longrightarrow> I m"
  shows "I m"
  using assms
proof (induction ob sample md seg n w arbitrary: w' rule: window_loop.induct)
  case (1 ob sample md seg n w)
  from 1(2) show ?case
  proof (cases rule: window_loopE)
    case (stop g)
    then show ?thesis
      using 1(4) by simp
  next
    case (ended v g)
    then obtain y where y: "g = Inr y" "case y of None \<Rightarrow> m = n | Some m' \<Rightarrow> m = m'"
      by blast
    show ?thesis
    proof (cases y)
      case None
      then show ?thesis
        using 1(4) y(2) by simp
    next
      case (Some m')
      then have "I m'"
        using 1(5) [OF 1(4,3)] ended(2) y(1) by blast
      then show ?thesis
        using y(2) Some by simp
    qed
  next
    case (again v m' u)
    have "I m'"
      by (rule 1(5) [OF 1(4,3) again(2)])
    then show ?thesis
      using 1(1) [OF again(1) TrueI again(2) refl again(3,4,3)] 1(5) by blast
  qed
qed

definition streak_item :: "(rat \<Rightarrow> ('w, 'r sampled) io) \<Rightarrow> string \<Rightarrow> json \<Rightarrow> 'r window_item \<Rightarrow> bool" where
  "streak_item sample seg tgt i = (wi_segment i = seg \<and> wi_status i = ''passed'' \<and> (case wi_sampled i of
       None \<Rightarrow> False
     | Some x \<Rightarrow> (\<exists>secs v u. sample secs v = (Inr x, u)) \<and> sample_passed x
         \<and> (truthy (sa_target x) \<longrightarrow> sa_target x = tgt \<or> py_eq tgt (sa_target x))))"

text \<open>The last items, as many as the streak counts, passed in this segment on one target.\<close>

definition streak :: "(rat \<Rightarrow> ('w, 'r sampled) io) \<Rightarrow> nat \<Rightarrow> string \<Rightarrow> 'r window \<Rightarrow> bool" where
  "streak sample base seg n = (wn_consecutive n + base \<le> length (wn_samples n)
     \<and> list_all (streak_item sample seg (wn_target n)) (drop (length (wn_samples n) - wn_consecutive n) (wn_samples n))
     \<and> (wn_status n = WindowPassed \<longrightarrow> wp_required_consecutive (wn_policy n) \<le> wn_consecutive n))"

lemma streak_target:
  assumes "list_all (streak_item sample seg tgt) xs" and "py_eq t tgt \<or> \<not> truthy tgt"
  shows "list_all (streak_item sample seg t) xs"
  using assms
proof (induction xs)
  case (Cons i xs)
  obtain x where x: "wi_sampled i = Some x"
    using Cons.prems(1) by (auto simp: streak_item_def split: option.splits)
  have "truthy (sa_target x) \<Longrightarrow> sa_target x = t \<or> py_eq t (sa_target x)"
    using Cons.prems py_eq_truthy py_eq_trans(1) by (fastforce simp: streak_item_def x)
  then show ?case
    using Cons by (auto simp: streak_item_def x)
qed simp

lemma streak_judged:
  assumes inv: "streak sample base seg n" and run: "wn_status n = WindowRunning"
    and i: "wi_segment i = seg" "wi_status i = ''sampling''" and x: "sample secs v = (Inr x, u)"
  shows "streak sample base seg ((judged x late (answered ob finished i x (append_item i n)))\<lparr>wn_finished_at := stamp\<rparr>)"
proof -
  let ?a = "answered ob finished i x (append_item i n)" and ?f = "finish_item ob finished x i"
  have a: "wn_samples ?a = wn_samples n @ [?f]" "wn_consecutive ?a = wn_consecutive n"
     "wn_target ?a = wn_target n" "wn_policy ?a = wn_policy n" "wn_status ?a = WindowRunning"
    using run by (auto simp: answered_def append_item_def replace_last_def with_business_def Let_def)
  have old: "list_all (streak_item sample seg (wn_target n)) (drop (length (wn_samples n) - wn_consecutive n) (wn_samples n))"
    and len: "wn_consecutive n + base \<le> length (wn_samples n)"
    using inv by (auto simp: streak_def)
  show ?thesis
  proof (cases "target_changed x ?a \<or> late \<or> \<not> sample_passed x")
    case True
    then show ?thesis
      using len by (auto simp: judged_def counted_def streak_def a Let_def)
  next
    case False
    let ?t = "if truthy (sa_target x) then sa_target x else wn_target n"
    have "py_eq ?t (wn_target n) \<or> \<not> truthy (wn_target n) \<or> ?t = wn_target n"
      using False by (auto simp: target_changed_def a)
    then have "list_all (streak_item sample seg ?t) (drop (length (wn_samples n) - wn_consecutive n) (wn_samples n))"
      using streak_target [OF old] old by auto
    moreover have "streak_item sample seg ?t ?f"
      using False i(1) x by (auto simp: streak_item_def finish_item_def sample_passed_def)
    ultimately show ?thesis
      using False len by (auto simp: judged_def counted_def streak_def a Let_def Suc_diff_le)
  qed
qed

lemma streak_observe_once:
  assumes "streak sample base seg n" and "wn_status n = WindowRunning"
    and "observe_once ob sample md seg n v = (Inr (Some m), u)"
  shows "streak sample base seg m"
proof -
  obtain i x w1 w2 secs v' u' where i: "new_item ob seg n w1 = (Inr i, w2)"
    and x: "sample secs v' = (Inr x, u')" and "\<exists>w3. conclude_sample ob md i x (append_item i n) w3 = (Inr m, u)"
    using assms(3) by (simp add: observe_once_def take_sample_def io_simps Let_def split: if_splits) blast
  then obtain finished late stamp where
    m: "m = (judged x late (answered ob finished i x (append_item i n)))\<lparr>wn_finished_at := stamp\<rparr>"
    by (auto elim: conclude_sampleE)
  have "wi_segment i = seg" and "wi_status i = ''sampling''"
    using i by (auto simp: new_item_def io_simps)
  then show ?thesis
    unfolding m by (rule streak_judged [OF assms(1,2) _ _ x])
qed

text \<open>The window a run returns: the opened one if it was closed, otherwise one with a streak.\<close>

lemma close_window_kept:
  assumes "close_window ob n w = (Inr m, w')"
  shows "wn_policy m = wn_policy n" and "wn_samples m = wn_samples n" and "wn_target m = wn_target n"
    and "wn_consecutive m = wn_consecutive n" and "wn_last_result m = wn_last_result n"
    and "wn_status m = (if wn_status n = WindowRunning then WindowUnknown else wn_status n)"
  using assms by (auto simp: close_window_def io_simps Let_def split: if_splits)

lemma window_loop_streak:
  assumes "window_loop ob sample md seg (resumed n) w = (Inr l, w')" and "wn_status n = WindowRunning"
  shows "streak sample (length (wn_samples n)) seg l \<and> wn_policy l = wn_policy n"
proof (rule window_loop_invariant [OF assms(1), where I = "\<lambda>l. streak sample (length (wn_samples n)) seg l \<and> wn_policy l = wn_policy n"])
  show "wn_status (resumed n) = WindowRunning"
    and "streak sample (length (wn_samples n)) seg (resumed n) \<and> wn_policy (resumed n) = wn_policy n"
    using assms(2) by (auto simp: resumed_def streak_def)
  show "streak sample (length (wn_samples n)) seg y \<and> wn_policy y = wn_policy n"
    if "streak sample (length (wn_samples n)) seg x \<and> wn_policy x = wn_policy n" and "wn_status x = WindowRunning"
      and "observe_once ob sample md seg x v1 = (Inr (Some y), v2)" for x y v1 v2
    using that streak_observe_once observe_once_grows(1) by metis
qed

definition streak_end :: "(rat \<Rightarrow> ('w, 'r sampled) io) \<Rightarrow> string \<Rightarrow> 'r window \<Rightarrow> 'r window \<Rightarrow> bool" where
  "streak_end sample seg n m = (let k = wp_required_consecutive (wn_policy n) in
     length (wn_samples n) + k \<le> length (wn_samples m)
     \<and> list_all (streak_item sample seg (wn_target m)) (drop (length (wn_samples m) - k) (wn_samples m)))"

lemma streak_closed:
  assumes "window_loop ob sample md seg (resumed n) w = (Inr l, w1)" and "wn_status n = WindowRunning"
    and "close_window ob l w1 = (Inr m, w')" and "wn_status m = WindowPassed"
  shows "streak_end sample seg n m"
proof -
  let ?k = "wp_required_consecutive (wn_policy n)"
  note st = window_loop_streak [OF assms(1,2)] and kept = close_window_kept [OF assms(3)]
  have "wn_status l = WindowPassed"
    using kept(6) assms(4) by (auto split: if_splits)
  then have k: "?k \<le> wn_consecutive l" and base: "wn_consecutive l + length (wn_samples n) \<le> length (wn_samples m)"
    and all: "list_all (streak_item sample seg (wn_target m)) (drop (length (wn_samples m) - wn_consecutive l) (wn_samples m))"
    using st kept by (auto simp: streak_def)
  have "set (drop (length (wn_samples m) - ?k) (wn_samples m))
      \<subseteq> set (drop (length (wn_samples m) - wn_consecutive l) (wn_samples m))"
    by (rule set_drop_subset_set_drop) (use k in simp)
  then show ?thesis
    using k base all by (auto simp: streak_end_def Let_def list_all_iff)
qed

lemma observe_passed:
  assumes "observe ob p sample w = (Inr m, w')" and "wn_status m = WindowPassed"
  shows "\<exists>n w1 w2 i. ow_open ob i w1 = (Inr n, w2)
    \<and> (if wn_status n = WindowRunning then \<exists>seg. streak_end sample seg n m else m = n)"
proof -
  obtain n w1 w2 i where open_: "ow_open ob i w1 = (Inr n, w2)"
    and rest: "(if wn_status n \<noteq> WindowRunning then returnW n
       else if wp_version (wn_policy n) \<noteq> wp_version window_default
       then raiseW (PyValueError ''UNSUPPORTED_VERIFICATION_POLICY'')
       else bindW (ow_uuid ob) (\<lambda>seg. let n1 = resumed n in
            bindW (ow_save ob n1) (\<lambda>_.
            bindW (ow_monotonic ob) (\<lambda>m.
            bindW (ow_clock ob) (\<lambda>c.
            bindW (window_loop ob sample (m + max 0 (wn_deadline n1 - c)) seg n1) (close_window ob)))))) w2 = (Inr m, w')"
    using assms(1) unfolding observe_def bindW_eq by blast
  show ?thesis
  proof (cases "wn_status n = WindowRunning")
    case False
    then show ?thesis
      using rest open_ by (auto simp: returnW_eq)
  next
    case True
    with rest obtain seg md u l u' where "window_loop ob sample md seg (resumed n) u = (Inr l, u')"
      and "close_window ob l u' = (Inr m, w')"
      by (simp add: io_simps Let_def split: if_splits) blast
    from streak_closed [OF this(1) True this(2) assms(2)] show ?thesis
      using True open_ by auto
  qed
qed

end
