(* ===== verification/ObservationProps.thy ===== *)
theory ObservationProps
  imports ObservationFacts
begin

text \<open>
  The properties of the observation window: it takes a bounded number of announced samples, and it
  passes only on an unbroken streak of passed samples of one target.
\<close>

section \<open>A concrete observation\<close>

text \<open>The world is the time; a sample takes one second and passes.\<close>

definition bench_observer :: "(rat, unit) observer" where
  "bench_observer = \<lparr>ow_clock = (\<lambda>t. (Inr t, t)), ow_monotonic = (\<lambda>t. (Inr t, t)),
     ow_sleep = (\<lambda>s t. (Inr (), t + s)), ow_uuid = (\<lambda>t. (Inr ''segment'', t)),
     ow_open = (\<lambda>n t. (Inr n, t)), ow_save = (\<lambda>n t. (Inr (), t)), ow_timestamp = (\<lambda>t. ''now'')\<rparr>"

definition bench_sample :: "rat \<Rightarrow> (rat, unit sampled) io" where
  "bench_sample s t = (Inr \<lparr>sa_status = ''passed'', sa_resource_status = ''ready'',
     sa_business_status = ''passed'', sa_target = JObj [(''digest'', JStr ''d'')], sa_error_code = JNull,
     sa_invalidated = False, sa_result = ()\<rparr>, t + 1)"

definition bench_run :: "unit window res \<times> rat \<times> unit observation_call list" where
  "bench_run = observe (noted_observer bench_observer) window_default (noted_sample bench_sample) (0, [])"

lemma bench_passes:
  "case bench_run of (Inr m, (t, OpenedCall n # cs)) \<Rightarrow> wn_status m = WindowPassed \<and> wn_status n = WindowRunning
     \<and> wp_required_consecutive (wn_policy n) = 3 \<and> length (wn_samples n) = 0 \<and> wp_max_samples (wn_policy n) = 25
     \<and> length (filter is_sampled cs) = 3 | _ \<Rightarrow> False"
  by code_simp

lemma bench_shape:
  obtains m t n cs where "bench_run = (Inr m, (t, OpenedCall n # cs))" and "wn_status m = WindowPassed"
    and "wn_status n = WindowRunning" and "wp_required_consecutive (wn_policy n) = 3"
    and "length (wn_samples n) = 0" and "wp_max_samples (wn_policy n) = 25" and "length (filter is_sampled cs) = 3"
proof -
  obtain r t calls where run: "bench_run = (r, (t, calls))"
    by (cases bench_run) auto
  note ok = bench_passes [unfolded run]
  obtain m where r: "r = Inr m"
    using ok by (cases r) auto
  obtain c cs where calls: "calls = c # cs"
    using ok by (cases calls) (auto simp: r)
  obtain n where c: "c = OpenedCall n"
    using ok by (cases c) (auto simp: r calls)
  show thesis
    using that [of m t n cs] ok by (simp add: run r calls c)
qed

section \<open>Opening and closing\<close>

lemma close_window_adds:
  "adds (\<lambda>_ tr. \<exists>m. tr = [] \<or> tr = [SavedCall m]) (close_window (noted_observer ob) n)"
  unfolding close_window_def noted_simps Let_def
  by (intro adds_quiet adds_noting_bind adds_intros adds_return) auto

lemma close_windowD: "close_window (noted_observer ob) n w = (Inr m, w') \<Longrightarrow> SavedCall m \<in> set (snd w')"
  by (auto simp: close_window_def io_simps Let_def split: if_splits)

lemma open_call:
  "ow_open (noted_observer ob) n w = (r, w') \<longleftrightarrow> (\<exists>v. ow_open ob n (fst w) = (r, v)
     \<and> w' = (v, snd w @ (case r of Inl e \<Rightarrow> [] | Inr m \<Rightarrow> [OpenedCall m])))"
  by (auto simp: noted_observer_def split: prod.splits sum.splits)

text \<open>What runs once the window is open and running.\<close>

definition observe_open :: "('w, 'r) observer \<Rightarrow> (rat \<Rightarrow> ('w, 'r sampled) io) \<Rightarrow> 'r window \<Rightarrow> ('w, 'r window) io" where
  "observe_open ob sample n = bindW (ow_uuid ob) (\<lambda>seg. let n1 = resumed n in
            bindW (ow_save ob n1) (\<lambda>_.
            bindW (ow_monotonic ob) (\<lambda>m.
            bindW (ow_clock ob) (\<lambda>c.
            bindW (window_loop ob sample (m + max 0 (wn_deadline n1 - c)) seg n1) (close_window ob)))))"

lemma observe_cases:
  assumes "observe (noted_observer ob) p sample (w, []) = (r, w')"
  obtains (failed) "snd w' = []" and "\<And>m. r \<noteq> Inr m"
  | (closed) n where "snd w' = [OpenedCall n]" and "wn_status n \<noteq> WindowRunning \<or> (\<forall>m. r \<noteq> Inr m)"
  | (opened) n v where "wn_status n = WindowRunning"
     "observe_open (noted_observer ob) sample n (v, [OpenedCall n]) = (r, w')"
proof -
  from assms consider (1) e where "r = Inl e" "snd w' = []"
    | (2) n v where "(if wn_status n \<noteq> WindowRunning then returnW n
         else if wp_version (wn_policy n) \<noteq> wp_version window_default
         then raiseW (PyValueError ''UNSUPPORTED_VERIFICATION_POLICY'')
         else observe_open (noted_observer ob) sample n) (v, [OpenedCall n]) = (r, w')"
    unfolding observe_def observe_open_def bindW_eq open_call noted_simps silent_eq by auto
  then show thesis
  proof cases
    case 1
    then show thesis
      using failed by simp
  next
    case 2
    then show thesis
      using closed [of n] opened [of n v] by (auto simp: io_simps split: if_splits)
  qed
qed

lemma window_loop_trace:
  "adds (\<lambda>_. sampling_trace (wp_max_samples (wn_policy n) - length (wn_samples n)) (wp_business_seconds (wn_policy n)))
     (window_loop (noted_observer ob) (noted_sample sample) md seg n)"
  by (rule addsI) (rule window_loop_adds)

lemma observe_open_trace:
  fixes sample :: "rat \<Rightarrow> ('w, 'r sampled) io" and n :: "'r window"
  shows "adds (\<lambda>_. sampling_trace (wp_max_samples (wn_policy n) - length (wn_samples n)) (wp_business_seconds (wn_policy n)))
     (observe_open (noted_observer ob) (noted_sample sample) n)"
proof -
  let ?S = "sampling_trace (wp_max_samples (wn_policy n) - length (wn_samples n))
      (wp_business_seconds (wn_policy n)) :: 'r observation_call list \<Rightarrow> bool"
  have core: "adds (\<lambda>_. ?S) (bindW (window_loop (noted_observer ob) (noted_sample sample) md seg (resumed n))
      (close_window (noted_observer ob)))" for md seg
  proof (rule adds_bind [OF window_loop_trace close_window_adds])
    fix x :: "'r window" and tr1 tr2 :: "'r observation_call list"
    assume "sampling_trace (wp_max_samples (wn_policy (resumed n)) - length (wn_samples (resumed n)))
       (wp_business_seconds (wn_policy (resumed n))) tr1" and "\<exists>m. tr2 = [] \<or> tr2 = [SavedCall m]"
    then show "?S (tr1 @ tr2)"
      using sampling_trace_append [of _ _ tr1 0 tr2] by (auto simp: resumed_def)
  qed (simp add: resumed_def)
  have rest: "adds (\<lambda>_. ?S) (bindW (silent (ow_monotonic ob)) (\<lambda>m. bindW (silent (ow_clock ob)) (\<lambda>c.
      bindW (window_loop (noted_observer ob) (noted_sample sample) (md m c) seg (resumed n))
        (close_window (noted_observer ob)))))" for md seg
    by (rule adds_quiet [OF adds_silent], rule adds_quiet [OF adds_silent]) (simp_all add: core)
  have saved: "?S (SavedCall m # tr)" if "?S tr" for m tr
    using sampling_trace_append [where j = 0 and xs = "[SavedCall m]"] that by simp
  show ?thesis
    unfolding observe_open_def noted_simps Let_def
    by (rule adds_quiet [OF adds_silent], rule adds_noting_bind, rule adds_weaken [OF rest])
      (simp_all add: saved)
qed

section \<open>The properties\<close>

text \<open>C29. Bounded observation. A run of the window makes at most as many sample calls as the policy of
  the opened window leaves room for (at most 25 from a fresh window), right before each of them the store has
  saved the window with the sample in flight, and a sample is never given more than the time of the
  policy (30 seconds). The loop is total: a sample adds an item, and the items are limited.\<close>

theorem observation_bounded:
  assumes "observe (noted_observer ob) p (noted_sample sample) (w, []) = (r, w')"
  shows "snd w' = [] \<or> (\<exists>n rest. snd w' = OpenedCall n # rest
    \<and> sampling_trace (wp_max_samples (wn_policy n) - length (wn_samples n)) (wp_business_seconds (wn_policy n)) rest)"
  using assms
proof (cases rule: observe_cases)
  case (opened n v)
  from addsD [OF observe_open_trace opened(2)] show ?thesis
    by auto
qed auto

lemma observation_bounded_witness:
  "\<exists>n rest. snd (snd bench_run) = OpenedCall n # rest \<and> wp_max_samples (wn_policy n) = 25
     \<and> sampling_trace 25 (wp_business_seconds (wn_policy n)) rest \<and> length (filter is_sampled rest) = 3"
proof -
  obtain m t n cs where run: "bench_run = (Inr m, (t, OpenedCall n # cs))" and n: "length (wn_samples n) = 0"
    "wp_max_samples (wn_policy n) = 25" "length (filter is_sampled cs) = 3"
    by (rule bench_shape)
  have "snd (t, OpenedCall n # cs) = [] \<or> (\<exists>n' rest. snd (t, OpenedCall n # cs) = OpenedCall n' # rest
      \<and> sampling_trace (wp_max_samples (wn_policy n') - length (wn_samples n')) (wp_business_seconds (wn_policy n')) rest)"
    by (rule observation_bounded [OF run [unfolded bench_run_def]])
  then show ?thesis
    using n by (intro exI [of _ n] exI [of _ cs]) (simp add: run)
qed

text \<open>C14. Sound streak. When a run passes an open window, at least the required number of samples were taken in
  this run, and the last of them, as many as required, all passed with resources ready and business
  checks passed, in one uninterrupted segment, on a target equal to the one the window names; and
  this window was saved.\<close>

theorem passed_window_sound:
  assumes "observe (noted_observer ob) p (noted_sample sample) (w, []) = (Inr m, w')"
    and "OpenedCall n \<in> set (snd w')" and "wn_status n = WindowRunning" and "wn_status m = WindowPassed"
  shows "\<exists>seg. streak_end (noted_sample sample) seg n m \<and> SavedCall m \<in> set (snd w')"
  using assms(1)
proof (cases rule: observe_cases)
  case failed
  then show ?thesis
    by blast
next
  case (closed n')
  then show ?thesis
    using assms(2,3) by auto
next
  case (opened n' v)
  obtain tr where "snd w' = OpenedCall n' # tr" and "sampling_trace
      (wp_max_samples (wn_policy n') - length (wn_samples n')) (wp_business_seconds (wn_policy n')) tr"
    using addsD [OF observe_open_trace opened(2)] by auto
  then have n': "n' = n"
    using assms(2) by (auto simp: sampling_trace_def list_all_iff)
  obtain seg md u l u' where
    loop: "window_loop (noted_observer ob) (noted_sample sample) md seg (resumed n) u = (Inr l, u')"
    and close: "close_window (noted_observer ob) l u' = (Inr m, w')"
    using opened(2) unfolding n' observe_open_def Let_def bindW_eq by blast
  from streak_closed [OF loop assms(3) close assms(4)] show ?thesis
    using close_windowD [OF close] by blast
qed

lemma passed_window_sound_witness:
  "\<exists>m (n :: unit window) w' seg. bench_run = (Inr m, w') \<and> wn_status m = WindowPassed \<and> length (wn_samples n) + 3 \<le> length (wn_samples m)
     \<and> list_all (streak_item (noted_sample bench_sample) seg (wn_target m)) (drop (length (wn_samples m) - 3) (wn_samples m))"
proof -
  obtain m t n cs where run: "bench_run = (Inr m, (t, OpenedCall n # cs))"
    and st: "wn_status m = WindowPassed" "wn_status n = WindowRunning" "wp_required_consecutive (wn_policy n) = 3"
    by (rule bench_shape)
  have "\<exists>seg. streak_end (noted_sample bench_sample) seg n m \<and> SavedCall m \<in> set (snd (t, OpenedCall n # cs))"
    by (rule passed_window_sound [OF run [unfolded bench_run_def]]) (use st in simp_all)
  then obtain seg where "length (wn_samples n) + 3 \<le> length (wn_samples m)"
    and "list_all (streak_item (noted_sample bench_sample) seg (wn_target m)) (drop (length (wn_samples m) - 3) (wn_samples m))"
    by (auto simp: streak_end_def st Let_def)
  then show ?thesis
    using run st(1) by blast
qed

end
