(* ===== verification/Collection.thy ===== *)
theory Collection
  imports Decimals State BusinessTarget
begin

text \<open>
  \<open>backend/app/agent/collector_adapter.py\<close>: the collector's bundle of Kubernetes readings turned into
  numbered evidence items. The collector itself is a parameter; the bundle is the dictionary it
  returns, and the clock reading is an argument.
\<close>

section \<open>Numbering\<close>

text \<open>\<open>incident_id.split("-")[0]\<close>\<close>

definition short_id :: "string \<Rightarrow> string" where
  "short_id i = hd (split_on CHR ''-'' i)"

definition evidence_number :: "string \<Rightarrow> nat \<Rightarrow> string" where
  "evidence_number i n = ''ev-'' @ short_id i @ ''-'' @ padded 3 n"

text \<open>A piece of evidence before it is numbered: its type, name, data and source.\<close>

record reading =
  rd_type :: string
  rd_name :: string
  rd_data :: json
  rd_source :: string

definition api_reading :: "string \<Rightarrow> string \<Rightarrow> json \<Rightarrow> reading" where
  "api_reading k n v = \<lparr>rd_type = k, rd_name = n, rd_data = v, rd_source = ''kubernetes_api''\<rparr>"

text \<open>\<open>if not isinstance(data, dict): data = {"value": data}\<close>\<close>

definition as_data :: "json \<Rightarrow> dict" where
  "as_data v = (case v of JObj d \<Rightarrow> d | _ \<Rightarrow> [(''value'', v)])"

definition numbered :: "string \<Rightarrow> string \<Rightarrow> nat \<Rightarrow> reading \<Rightarrow> evidence" where
  "numbered i now n r = \<lparr>ev_id = evidence_number i n, ev_source = rd_source r, ev_type = rd_type r,
     ev_name = rd_name r, ev_collected_at = now, ev_data = as_data (rd_data r), ev_error = None\<rparr>"

section \<open>The parts of a bundle\<close>

text \<open>
  \<open>str(v)\<close> and interpolation of a name. The bundle's model declares its names as texts or \<open>None\<close>;
  the text of a float or a container is not modelled and counts as an exception.
\<close>

definition text_name :: "json \<Rightarrow> string res" where
  "text_name v = (case v of
       JStr s \<Rightarrow> Inr s
     | JNull \<Rightarrow> Inr ''None''
     | JBool b \<Rightarrow> Inr (if b then ''True'' else ''False'')
     | JInt n \<Rightarrow> Inr (int_text n)
     | _ \<Rightarrow> Inl (OtherError ''name is not a text''))"

definition service_readings :: "dict \<Rightarrow> string \<Rightarrow> reading list" where
  "service_readings b svc = (if truthy (dget b ''service'') then [api_reading ''Service'' svc (dget b ''service'')] else [])"

definition selection_readings :: "dict \<Rightarrow> string \<Rightarrow> string \<Rightarrow> reading list" where
  "selection_readings b ns svc =
     (let chosen = dget_or b ''service_pod_names'' (JArr []); present = dget_or b ''namespace_pod_names'' (JArr [])
      in if truthy (dget b ''service'') \<or> truthy chosen \<or> truthy present
         then [api_reading ''PodSelection'' svc (JObj [(''namespace'', JStr ns), (''service_pod_names'', chosen),
                 (''namespace_pod_names'', present)])]
         else [])"

definition slice_name :: "string \<Rightarrow> nat \<Rightarrow> json \<Rightarrow> string res" where
  "slice_name svc n v = (let fallback = svc @ ''-endpointslice-'' @ decimal n in case v of
       JObj d \<Rightarrow> text_name (dget_or d ''name'' (JStr fallback))
     | _ \<Rightarrow> Inr fallback)"

definition log_name :: "nat \<Rightarrow> json \<Rightarrow> string res" where
  "log_name n v = (let fallback = ''unknown-pod-'' @ decimal n in case v of
       JObj d \<Rightarrow> text_name (or_else (dget d ''pod_name'') (or_else (dget d ''name'') (JStr fallback)))
     | _ \<Rightarrow> Inr fallback)"

text \<open>\<open>enumerate(xs, start=1)\<close>\<close>

fun enumerated :: "(nat \<Rightarrow> json \<Rightarrow> string res) \<Rightarrow> string \<Rightarrow> nat \<Rightarrow> json list \<Rightarrow> reading list res" where
  "enumerated f k n [] = Inr []"
| "enumerated f k n (v # vs) = bindE (f n v) (\<lambda>name. bindE (enumerated f k (n + 1) vs) (\<lambda>rs.
     Inr (api_reading k name v # rs)))"

text \<open>\<open>bundle.get(key, {}).items()\<close>\<close>

definition keyed :: "dict \<Rightarrow> string \<Rightarrow> string \<Rightarrow> (json \<Rightarrow> json) \<Rightarrow> reading list res" where
  "keyed b key k wrap = (case dget_or b key (JObj []) of
       JObj d \<Rightarrow> Inr (map (\<lambda>(n, v). api_reading k n (wrap v)) d) | _ \<Rightarrow> Inl AttributeError)"

definition check_reading :: "string \<Rightarrow> json \<Rightarrow> reading res" where
  "check_reading svc v =
     bindE (jget v ''check_id'') (\<lambda>c. bindE (jget v ''request_id'') (\<lambda>r.
     bindE (text_name (or_else c (JStr ''not-run''))) (\<lambda>n. Inr
       \<lparr>rd_type = ''BusinessCheck'', rd_name = svc @ ''/'' @ n, rd_data = v,
        rd_source = (if truthy r then ''cluster_http_probe'' else ''business_check_policy'')\<rparr>)))"

definition bundle_readings :: "dict \<Rightarrow> string \<Rightarrow> string \<Rightarrow> reading list res" where
  "bundle_readings b ns svc =
     bindE (jiter (dget_or b ''endpoint_slices'' (JArr []))) (\<lambda>slices.
     bindE (enumerated (slice_name svc) ''EndpointSlice'' 1 slices) (\<lambda>rs3.
     bindE (keyed b ''pod_statuses'' ''PodStatus'' id) (\<lambda>rs4.
     bindE (keyed b ''pod_events'' ''PodEvents'' (\<lambda>v. JObj [(''events'', v)])) (\<lambda>rs5.
     bindE (jiter (dget_or b ''pod_logs'' (JArr []))) (\<lambda>logs.
     bindE (enumerated log_name ''PodLogs'' 1 logs) (\<lambda>rs6.
     bindE (keyed b ''owner_chains'' ''OwnerChain'' (\<lambda>v. JObj [(''owner_chain'', v)])) (\<lambda>rs7.
     bindE (keyed b ''deployments'' ''Deployment'' id) (\<lambda>rs8.
     bindE (keyed b ''nodes'' ''Node'' id) (\<lambda>rs9.
     bindE (jiter (dget_or b ''business_checks'' (JArr []))) (\<lambda>checks.
     bindE (mapE (check_reading svc) checks) (\<lambda>rs10.
       Inr (service_readings b svc @ selection_readings b ns svc @ rs3 @ rs4 @ rs5 @ rs6 @ rs7 @ rs8 @ rs9 @ rs10))))))))))))"

definition normalize_evidence :: "string \<Rightarrow> string \<Rightarrow> dict \<Rightarrow> evidence list res" where
  "normalize_evidence i now b =
     bindE (jindex (JObj b) ''namespace'') (\<lambda>ns0. bindE (text_name ns0) (\<lambda>ns.
     bindE (jindex (JObj b) ''service_name'') (\<lambda>svc0. bindE (text_name svc0) (\<lambda>svc.
     bindE (bundle_readings b ns svc) (\<lambda>rs.
       Inr (map (\<lambda>(n, r). numbered i now n r) (enumerate 1 rs)))))))"

section \<open>The numbers identify the items\<close>

lemma evidence_number_inject: "evidence_number i m = evidence_number i n \<longleftrightarrow> m = n"
  by (simp add: evidence_number_def padded_inject)

lemma numbered_distinct: "distinct (map ev_id (map (\<lambda>(n, r). numbered i now n r) (enumerate k rs)))"
  by (induction rs arbitrary: k)
    (auto simp: numbered_def evidence_number_inject in_set_enumerate_eq image_iff split: prod.splits)

lemma normalized_evidence:
  assumes "normalize_evidence i now b = Inr es"
  shows "distinct (map ev_id es)" and "list_all ev_ok es"
    and "e \<in> set es \<Longrightarrow> \<exists>n. ev_id e = evidence_number i n \<and> 1 \<le> n \<and> n \<le> length es"
proof -
  obtain rs where es: "es = map (\<lambda>(n, r). numbered i now n r) (enumerate 1 rs)"
    using assms by (auto simp: normalize_evidence_def res_simps)
  show "distinct (map ev_id es)"
    unfolding es by (rule numbered_distinct)
  show "list_all ev_ok es"
    by (auto simp: es list_all_iff numbered_def ev_ok_def)
  show "\<exists>n. ev_id e = evidence_number i n \<and> 1 \<le> n \<and> n \<le> length es" if "e \<in> set es"
    using that by (auto simp: es numbered_def in_set_enumerate_eq)
qed

end
