(* ===== verification/Recovered.thy ===== *)
theory Recovered
  imports Verification Collection Observation DiagnosisFacts
begin

text \<open>
  \<open>backend/app/agent/business_recovery.py\<close> and \<open>stability.py\<close>: after the resources are in place, one
  fresh collection is judged against the registered profile and the remediation it belongs to; and
  this single judgement is repeated in an observation window. The port that checks the resources, the
  collector and the clocks are calls on the surroundings.
\<close>

section \<open>Texts\<close>

text \<open>\<open>type(error).__name__\<close>\<close>

fun exn_class :: "exn \<Rightarrow> string" where
  "exn_class KeyError = ''KeyError''"
| "exn_class TypeError = ''TypeError''"
| "exn_class AttributeError = ''AttributeError''"
| "exn_class IndexError = ''IndexError''"
| "exn_class (PyValueError _) = ''ValueError''"
| "exn_class ValidationError = ''ValidationError''"
| "exn_class (ProfileUnavailable _) = ''ProfileUnavailable''"
| "exn_class (ApiException _ _) = ''ApiException''"
| "exn_class (TimeoutErr _) = ''TimeoutError''"
| "exn_class _ = ''Exception''"

text \<open>\<open>p in s\<close> on texts\<close>

fun occurs_in :: "string \<Rightarrow> string \<Rightarrow> bool" where
  "occurs_in p [] = (p = [])"
| "occurs_in p (c # s) = (starts_with p (c # s) \<or> occurs_in p s)"

definition target_error :: exn where
  "target_error = PyValueError ''RECOVERY_TARGET_CHANGED_OR_UNBOUND''"

section \<open>Leaving Pods\<close>

text \<open>
  \<open>recovery_resource_view\<close>: a Pod that is not ready is left out of the judgement when it belongs to
  the registered Deployment and every endpoint record of its name is its own, terminating, and
  neither ready nor serving.
\<close>

definition owner_matches :: "string \<Rightarrow> string \<Rightarrow> evidence \<Rightarrow> bool res" where
  "owner_matches ns dep e =
     andE (bindE (jget (dget_or (ev_data e) ''owner_chain'' (JObj [])) ''namespace'') (\<lambda>v. Inr (v = JStr ns)))
          (bindE (jindex (JObj (ev_data e)) ''owner_chain'') (\<lambda>c.
           bindE (jget c ''deployment_name'') (\<lambda>v. Inr (v = JStr dep))))"

definition owned_names :: "string \<Rightarrow> string \<Rightarrow> evidence list \<Rightarrow> string list res" where
  "owned_names ns dep es = bindE (filterE (owner_matches ns dep)
     (filter (\<lambda>e. ev_type e = ''OwnerChain'' \<and> ev_ok e) es)) (\<lambda>xs. Inr (map ev_name xs))"

definition slices_of :: "string \<Rightarrow> string \<Rightarrow> evidence list \<Rightarrow> evidence list" where
  "slices_of ns svc es = filter (\<lambda>e. ev_type e = ''EndpointSlice'' \<and> ev_ok e
     \<and> dget (ev_data e) ''namespace'' = JStr ns \<and> dget (ev_data e) ''service_name'' = JStr svc) es"

definition endpoint_record :: "json \<Rightarrow> (json \<times> json) list res" where
  "endpoint_record ep = bindE (jget ep ''target_name'') (\<lambda>n.
     if \<not> truthy n then Inr [] else if hashable n then Inr [(n, ep)] else Inl TypeError)"

definition endpoint_records :: "string \<Rightarrow> string \<Rightarrow> evidence list \<Rightarrow> (json \<times> json) list res" where
  "endpoint_records ns svc es =
     bindE (mapE (\<lambda>e. bindE (jiter (dget_or (ev_data e) ''endpoints'' (JArr []))) (mapE endpoint_record))
       (slices_of ns svc es)) (\<lambda>xs. Inr (concat (concat xs)))"

text \<open>\<open>x in v\<close>\<close>

definition member_of :: "json \<Rightarrow> json \<Rightarrow> bool res" where
  "member_of x v = (case v of
       JArr xs \<Rightarrow> Inr (list_ex (\<lambda>y. py_eq y x) xs)
     | JObj d \<Rightarrow> Inr (list_ex (\<lambda>kv. JStr (fst kv) = x) d)
     | JStr s \<Rightarrow> (case x of JStr p \<Rightarrow> Inr (occurs_in p s) | _ \<Rightarrow> Inl TypeError)
     | _ \<Rightarrow> Inl TypeError)"

definition leaving_endpoint :: "json \<Rightarrow> json \<Rightarrow> bool res" where
  "leaving_endpoint ip ep =
     andE (bindE (jget ep ''target_kind'') (\<lambda>v. Inr (v = JStr ''Pod'')))
     (andE (bindE (jget_or ep ''addresses'' (JArr [])) (member_of ip))
     (andE (bindE (jget ep ''terminating'') (\<lambda>v. Inr (v = JBool True)))
     (andE (bindE (jget ep ''ready'') (\<lambda>v. Inr (v = JBool False)))
           (bindE (jget ep ''serving'') (\<lambda>v. Inr (v = JBool False))))))"

definition leaving_candidate :: "string \<Rightarrow> string list \<Rightarrow> evidence list \<Rightarrow> evidence \<Rightarrow> bool" where
  "leaving_candidate ns owned es e = (ev_type e = ''PodStatus'' \<and> ev_ok e
     \<and> dget (ev_data e) ''namespace'' = JStr ns \<and> ev_name e \<in> set owned \<and> dget (ev_data e) ''ready'' = JBool False
     \<and> length (filter (\<lambda>x. ev_type x = ''PodStatus'' \<and> ev_name x = ev_name e
         \<and> dget (ev_data x) ''namespace'' = JStr ns) es) = 1)"

definition leaving_pod :: "(json \<times> json) list \<Rightarrow> evidence \<Rightarrow> bool res" where
  "leaving_pod records e =
     (let rs = map snd (filter (\<lambda>r. fst r = JStr (ev_name e)) records); ip = dget (ev_data e) ''pod_ip''
      in if truthy ip \<and> rs \<noteq> [] then allE (leaving_endpoint ip) rs else Inr False)"

definition excluded_pods :: "string \<Rightarrow> string list \<Rightarrow> (json \<times> json) list \<Rightarrow> evidence list \<Rightarrow> string list res" where
  "excluded_pods ns owned records es =
     bindE (filterE (leaving_pod records) (filter (leaving_candidate ns owned es) es)) (\<lambda>xs.
       Inr (sort (remdups (map ev_name xs))))"

definition request_value :: "incident_state \<Rightarrow> string \<Rightarrow> string res" where
  "request_value s k = (case req_get s k of None \<Rightarrow> Inl KeyError | Some v \<Rightarrow> Inr v)"

definition without_pods :: "string \<Rightarrow> string list \<Rightarrow> incident_state \<Rightarrow> incident_state" where
  "without_pods ns gone s = s\<lparr>st_evidence := filter (\<lambda>e. \<not> (ev_type e = ''PodStatus'' \<and> ev_name e \<in> set gone
     \<and> dget (ev_data e) ''namespace'' = JStr ns \<and> ev_ok e)) (st_evidence s)\<rparr>"

definition recovery_resource_view ::
  "(json \<Rightarrow> string) \<Rightarrow> incident_state \<Rightarrow> (incident_state \<times> string list) res" where
  "recovery_resource_view H s =
     bindE (request_value s ''namespace'') (\<lambda>ns.
     bindE (request_value s ''service_name'') (\<lambda>svc.
     case matched_profile H s of
       Inl e \<Rightarrow> if is_profile_unavailable e then Inr (s, []) else Inl e
     | Inr p \<Rightarrow>
         bindE (owned_names ns (pr_deployment_name p) (st_evidence s)) (\<lambda>owned.
         bindE (endpoint_records ns svc (st_evidence s)) (\<lambda>records.
         bindE (excluded_pods ns owned records (st_evidence s)) (\<lambda>gone.
           Inr (without_pods ns gone s, gone))))))"

section \<open>The target of the remediation\<close>

text \<open>\<open>(state.get("service_profile") or {})\<close> and the fields read of it\<close>

definition snap_uid :: "snapshot option \<Rightarrow> json" where
  "snap_uid p = (case p of None \<Rightarrow> JNull | Some n \<Rightarrow> opt_get (sn_deployment_uid n))"

definition snap_generation :: "snapshot option \<Rightarrow> json" where
  "snap_generation p = (case p of None \<Rightarrow> JNull | Some n \<Rightarrow> opt_get (sn_deployment_generation n))"

definition snap_digest :: "snapshot option \<Rightarrow> json" where
  "snap_digest p = (case p of None \<Rightarrow> JNull | Some n \<Rightarrow> opt_json JStr (sn_digest n))"

definition inferred_generation :: "action_result \<Rightarrow> json \<Rightarrow> json" where
  "inferred_generation x g = (if x_action x = PatchReadinessProbe \<and> x_applied_patch x \<noteq> []
     then (case g of JInt n \<Rightarrow> JInt (n + 1) | _ \<Rightarrow> JNull) else g)"

text \<open>
  The generation the Deployment must have: the response of the API server decides where it carries
  an identity, and that identity must be the observed one.
\<close>

definition expected_generation :: "action_result \<Rightarrow> snapshot option \<Rightarrow> snapshot option \<Rightarrow> dict \<Rightarrow> json res" where
  "expected_generation x original current bundle =
     (let inferred = inferred_generation x (snap_generation original) in
      case Option.bind (x_after x) rs_uid of
        None \<Rightarrow> Inr inferred
      | Some u \<Rightarrow> if u = [] then Inr inferred
          else if x_action x = PatchReadinessProbe
          then bindE (require (snap_uid current = JStr u) target_error) (\<lambda>_.
                 Inr (opt_json JInt (Option.bind (x_after x) rs_generation)))
          else bindE (jget (or_else (dget bundle ''service'') (JObj [])) ''uid'') (\<lambda>v.
               bindE (require (v = JStr u) target_error) (\<lambda>_. Inr inferred)))"

definition same_target :: "json \<Rightarrow> snapshot option \<Rightarrow> snapshot option \<Rightarrow> bool" where
  "same_target generation original current =
     ((case current of None \<Rightarrow> False | Some n \<Rightarrow> sn_status n = ''matched'')
      \<and> truthy (snap_digest original) \<and> truthy (snap_uid original)
      \<and> py_eq (snap_digest current) (snap_digest original) \<and> py_eq (snap_uid current) (snap_uid original)
      \<and> is_int generation \<and> py_eq (snap_generation current) generation)"

section \<open>One judgement\<close>

record 'w recovery_ports =
  rp_resources :: "incident_state \<Rightarrow> ('w, recovery_result) io"
  rp_collect :: "string \<Rightarrow> string \<Rightarrow> ('w, dict \<times> snapshot option) io"
  rp_uuid :: "('w, string) io"
  rp_now :: "('w, string) io"

text \<open>\<open>data = resource.model_dump(); data.update(...)\<close>\<close>

definition scoped_result :: "recovery_result \<Rightarrow> recovery_result" where
  "scoped_result r = r\<lparr>rr_scope := ResourcesAndBusiness, rr_resource_verification := Some (rr_status r),
     rr_resource_status := ResourceUnknown, rr_business_status := BusinessSkipped,
     rr_unverified := [''traffic from outside the cluster'', ''unregistered business interfaces'',
       ''each replica on its own'', ''availability after this sample''],
     rr_evidence := [], rr_profile := None, rr_collection_errors := []\<rparr>"

definition not_checked :: "recovery_result \<Rightarrow> recovery_result" where
  "not_checked r = r\<lparr>rr_unverified := rr_unverified r @ [''registered business checks (resources not verified)'']\<rparr>"

definition plain_check :: "string \<Rightarrow> bool \<Rightarrow> json \<Rightarrow> json \<Rightarrow> string \<Rightarrow> verification_check" where
  "plain_check n passed observed expected msg =
     \<lparr>vc_name = n, vc_passed = passed, vc_observed = observed, vc_expected = expected, vc_message = msg\<rparr>"

definition terminating_check :: "string list \<Rightarrow> verification_check" where
  "terminating_check gone = plain_check ''terminating_pods_classified'' True (strs_json gone)
     (JStr ''matching endpoints: terminating=true, ready=false, serving=false'')
     ''Pods that leave and do not serve were recognised; their cleanup is not verified.''"

definition replica_count_check :: "facts \<Rightarrow> int \<Rightarrow> verification_check" where
  "replica_count_check f n = plain_check ''registered_replica_count'' (fc_replica_count_matches f = Some True)
     (fc_observed_desired_replicas f) (JInt n) ''The desired replica count must be the registered one.''"

definition readiness_name :: "readiness_status \<Rightarrow> string" where
  "readiness_name r = (case r of ReadinessUnknown \<Rightarrow> ''unknown'' | ReadinessMatched \<Rightarrow> ''matched'' | ReadinessDrift \<Rightarrow> ''drift'')"

definition resources_recovered :: "facts \<Rightarrow> bool" where
  "resources_recovered f = (fc_resource_status f = Ready \<and> rf_status (fc_readiness f) = ReadinessMatched
     \<and> \<not> fc_selector_drift f \<and> \<not> readiness_drift f \<and> fc_current_runtime_faults f = [])"

definition business_recovered :: "facts \<Rightarrow> bool" where
  "business_recovered f = (fc_business_status f = Passed)"

definition fact_checks :: "string list \<Rightarrow> facts \<Rightarrow> verification_check list" where
  "fact_checks gone f =
     (if gone = [] then [] else [terminating_check gone])
     @ (case fc_expected_replicas f of None \<Rightarrow> [] | Some n \<Rightarrow> [replica_count_check f n])
     @ [plain_check ''registered_readiness_configuration'' (rf_status (fc_readiness f) = ReadinessMatched)
          (JStr (readiness_name (rf_status (fc_readiness f)))) (JStr ''matched'')
          ''Path, port and scheme of the registered probe; insufficient evidence does not count as equal.'',
        plain_check ''post_repair_resources'' (resources_recovered f)
          (JStr (resource_status_name (fc_resource_status f))) (JStr ''ready without current drift/fault'')
          ''The registered resources as collected after the remediation.'',
        plain_check ''registered_business_checks'' (business_recovered f)
          (JStr (business_status_name (fc_business_status f))) (JStr ''passed'')
          ''Only the registered checks of this sample.'']"

definition recovery_code :: "facts \<Rightarrow> string option" where
  "recovery_code f = (if resources_recovered f \<and> business_recovered f then None
     else Some (if \<not> resources_recovered f then ''POST_REPAIR_RESOURCES_NOT_READY''
       else if fc_business_status f = Failed then ''POST_REPAIR_BUSINESS_FAILED'' else ''POST_REPAIR_BUSINESS_UNKNOWN''))"

definition judged_result :: "string list \<Rightarrow> facts \<Rightarrow> recovery_result \<Rightarrow> recovery_result" where
  "judged_result gone f r =
     (let ok = resources_recovered f \<and> business_recovered f;
          msg = (if ok then ''Resources and registered business checks passed in this sample.''
                 else ''Recovery is not confirmed: see the resource and the business checks.'')
      in r\<lparr>rr_unverified := rr_unverified r @ (if gone = [] then [] else [''cleanup of leaving Pods'']),
        rr_checks := rr_checks r @ fact_checks gone f, rr_resource_status := fc_resource_status f,
        rr_business_status := BusinessChecked (fc_business_status f),
        rr_status := (if ok then VerifySucceeded else VerifyFailed), rr_error_code := recovery_code f,
        rr_message := msg, rr_error_message := (if ok then None else Some msg)\<rparr>)"

definition fresh_state :: "incident_state \<Rightarrow> snapshot option \<Rightarrow> evidence list \<Rightarrow> incident_state" where
  "fresh_state s p es = empty_state\<lparr>st_request := st_request s, st_service_profile := p, st_evidence := es\<rparr>"

definition result_bundle :: "dict \<Rightarrow> json list" where
  "result_bundle b = (case dget_or b ''errors'' (JArr []) of JArr xs \<Rightarrow> xs | _ \<Rightarrow> [])"

text \<open>The judgement of what was collected; every exception comes before the result is changed.\<close>

definition judge_recovery ::
  "(json \<Rightarrow> string) \<Rightarrow> incident_state \<Rightarrow> dict \<Rightarrow> snapshot option \<Rightarrow> evidence list \<Rightarrow> recovery_result \<Rightarrow> recovery_result res" where
  "judge_recovery H s bundle current es r =
     (case st_action_result s of None \<Rightarrow> Inl KeyError | Some x \<Rightarrow>
       bindE (expected_generation x (st_service_profile s) current bundle) (\<lambda>g.
       bindE (require (same_target g (st_service_profile s) current) target_error) (\<lambda>_.
       bindE (recovery_resource_view H (fresh_state s current es)) (\<lambda>(view, gone).
       bindE (diagnostic_facts H view) (\<lambda>f.
         Inr (judged_result gone f r))))))"

definition observation_invalid :: "exn \<Rightarrow> recovery_result \<Rightarrow> recovery_result" where
  "observation_invalid e r = r\<lparr>rr_status := VerifyFailed, rr_resource_status := ResourceUnknown,
     rr_business_status := BusinessChecked BusinessUnknown,
     rr_error_code := Some ''POST_REPAIR_OBSERVATION_INVALID'',
     rr_error_message := Some (exn_class e @ '': '' @ take 300 (exn_text e)),
     rr_message := ''No valid observation of the remediated target; business recovery is not confirmed.''\<rparr>"

text \<open>The fresh collection, and what of it the result keeps.\<close>

definition collect_fresh ::
  "'w recovery_ports \<Rightarrow> incident_state \<Rightarrow> ('w, (dict \<times> snapshot option) \<times> evidence list) io" where
  "collect_fresh rp s =
     bindW (liftW (request_value s ''namespace'')) (\<lambda>ns.
     bindW (liftW (request_value s ''service_name'')) (\<lambda>svc.
     bindW (rp_collect rp ns svc) (\<lambda>b.
     bindW (rp_uuid rp) (\<lambda>i.
     bindW (rp_now rp) (\<lambda>now.
     bindW (liftW (normalize_evidence i now (fst b))) (\<lambda>es. returnW (b, es)))))))"

definition kept_collection :: "dict \<Rightarrow> snapshot option \<Rightarrow> evidence list \<Rightarrow> recovery_result \<Rightarrow> recovery_result" where
  "kept_collection bundle current es r =
     r\<lparr>rr_evidence := es, rr_profile := current, rr_collection_errors := result_bundle bundle\<rparr>"

definition judged_or_invalid ::
  "(json \<Rightarrow> string) \<Rightarrow> incident_state \<Rightarrow> ((dict \<times> snapshot option) \<times> evidence list) res \<Rightarrow> recovery_result \<Rightarrow> recovery_result" where
  "judged_or_invalid H s c r = (case c of
       Inl e \<Rightarrow> observation_invalid e r
     | Inr ((bundle, current), es) \<Rightarrow>
         (let kept = kept_collection bundle current es r in
          case judge_recovery H s bundle current es kept of Inl e \<Rightarrow> observation_invalid e kept | Inr x \<Rightarrow> x))"

definition verify_business ::
  "(json \<Rightarrow> string) \<Rightarrow> 'w recovery_ports \<Rightarrow> incident_state \<Rightarrow> ('w, recovery_result) io" where
  "verify_business H rp s =
     bindW (rp_resources rp s) (\<lambda>resource. let r = scoped_result resource in
       if rr_status resource \<noteq> VerifySucceeded then liftW (recovery_validate (not_checked r))
       else bindW (tryW (collect_fresh rp s)) (\<lambda>c.
            bindW (rp_now rp) (\<lambda>finished.
            liftW (recovery_validate ((judged_or_invalid H s c r)\<lparr>rr_finished_at := finished\<rparr>)))))"

section \<open>The window of one remediation\<close>

definition sample_of :: "recovery_result \<Rightarrow> recovery_result sampled" where
  "sample_of r = \<lparr>
     sa_status = (if rr_status r = VerifySucceeded then ''passed''
       else if rr_business_status r \<in> {BusinessChecked BusinessUnknown, BusinessSkipped} then ''unknown'' else ''failed''),
     sa_resource_status = resource_status_name (rr_resource_status r),
     sa_business_status = (case rr_business_status r of BusinessSkipped \<Rightarrow> ''skipped'' | BusinessChecked b \<Rightarrow> business_status_name b),
     sa_target = target_identity (rr_profile r) (rr_evidence r),
     sa_error_code = opt_json JStr (rr_error_code r),
     sa_invalidated = occurs_in ''RECOVERY_TARGET_CHANGED_OR_UNBOUND'' (case rr_error_message r of None \<Rightarrow> [] | Some m \<Rightarrow> m),
     sa_result = r\<rparr>"

definition sample_recovery ::
  "(json \<Rightarrow> string) \<Rightarrow> 'w recovery_ports \<Rightarrow> incident_state \<Rightarrow> rat \<Rightarrow> ('w, recovery_result sampled) io" where
  "sample_recovery H rp s secs = bindW (verify_business H rp s) (\<lambda>r. returnW (sample_of r))"

definition window_status_text :: "window_status \<Rightarrow> string" where
  "window_status_text st = (case st of WindowRunning \<Rightarrow> ''running'' | WindowPassed \<Rightarrow> ''passed''
     | WindowInvalidated \<Rightarrow> ''invalidated'' | WindowUnknown \<Rightarrow> ''unknown'')"

definition window_status_name :: "window_status \<Rightarrow> string" where
  "window_status_name st = (case st of WindowRunning \<Rightarrow> ''RUNNING'' | WindowPassed \<Rightarrow> ''PASSED''
     | WindowInvalidated \<Rightarrow> ''INVALIDATED'' | WindowUnknown \<Rightarrow> ''UNKNOWN'')"

definition exhausted_result :: "action_result \<Rightarrow> 'r window \<Rightarrow> recovery_result" where
  "exhausted_result x n = (base_result (x_execution_id x) (x_action x) VerifyTimeout (wn_started_at n)
     (case wn_finished_at n of Some t \<Rightarrow> t | None \<Rightarrow> wn_started_at n) 0)
     \<lparr>rr_message := ''Observation deadline exhausted.''\<rparr>"

text \<open>\<open>window.get("finished_at") or window["samples"][-1]["finished_at"]\<close>\<close>

definition window_end :: "'r window \<Rightarrow> string res" where
  "window_end n = (case wn_finished_at n of Some t \<Rightarrow> Inr t | None \<Rightarrow>
     if wn_samples n = [] then Inl IndexError
     else (case wi_finished_at (last (wn_samples n)) of Some t \<Rightarrow> Inr t | None \<Rightarrow> Inl ValidationError))"

text \<open>\<open>summary\<close>: every field but the last result\<close>

definition policy_json :: "window_policy \<Rightarrow> json" where
  "policy_json p = JObj [(''version'', JStr (wp_version p)), (''resource_seconds'', JFloat (wp_resource_seconds p)),
     (''business_seconds'', JFloat (wp_business_seconds p)), (''total_seconds'', JFloat (wp_total_seconds p)),
     (''interval_seconds'', JFloat (wp_interval_seconds p)),
     (''required_consecutive'', JInt (int (wp_required_consecutive p))), (''max_samples'', JInt (int (wp_max_samples p)))]"

definition item_json :: "'r window_item \<Rightarrow> json" where
  "item_json i = JObj ([(''sequence'', JInt (int (wi_sequence i))), (''segment'', JStr (wi_segment i)),
     (''started_at'', JStr (wi_started_at i)), (''started_epoch'', JFloat (wi_started_epoch i)),
     (''finished_at'', opt_json JStr (wi_finished_at i)), (''status'', JStr (wi_status i))]
     @ opt_entry ''finished_epoch'' JFloat (wi_finished_epoch i)
     @ (case wi_sampled i of None \<Rightarrow> [] | Some x \<Rightarrow> [(''resource_status'', JStr (sa_resource_status x)),
          (''business_status'', JStr (sa_business_status x)), (''target'', sa_target x), (''error_code'', sa_error_code x)]))"

definition window_summary :: "'r window \<Rightarrow> json" where
  "window_summary n = JObj ([(''policy'', policy_json (wn_policy n)), (''started_at'', JStr (wn_started_at n)),
     (''deadline'', JFloat (wn_deadline n)), (''resource_deadline'', JFloat (wn_resource_deadline n)),
     (''business_deadline'', opt_json JFloat (wn_business_deadline n)), (''samples'', JArr (map item_json (wn_samples n))),
     (''consecutive'', JInt (int (wn_consecutive n))), (''status'', JStr (window_status_text (wn_status n))),
     (''target'', wn_target n)] @ opt_entry ''reason'' JStr (wn_reason n) @ opt_entry ''finished_at'' JStr (wn_finished_at n))"

definition stable_result :: "action_result \<Rightarrow> recovery_result window \<Rightarrow> recovery_result res" where
  "stable_result x n =
     (let r = (case wn_last_result n of Some r \<Rightarrow> r | None \<Rightarrow> exhausted_result x n); ok = (wn_status n = WindowPassed)
      in bindE (window_end n) (\<lambda>finished. recovery_validate (r\<lparr>
           rr_observation := window_summary n, rr_status := (if ok then VerifySucceeded else VerifyFailed), rr_started_at := wn_started_at n,
           rr_finished_at := finished, rr_attempts := length (wn_samples n),
           rr_error_code := (if ok then None else Some (''STABILITY_'' @ window_status_name (wn_status n))),
           rr_error_message := (if ok then None else wn_reason n),
           rr_message := (if ok then ''Continuous observation passed for the registered resources and checks.''
             else ''Stable recovery is not confirmed; see the samples.'')\<rparr>)))"

definition verify_stable ::
  "(json \<Rightarrow> string) \<Rightarrow> 'w recovery_ports \<Rightarrow> ('w, recovery_result) observer \<Rightarrow> incident_state \<Rightarrow> ('w, recovery_result) io" where
  "verify_stable H rp ob s = (case st_action_result s of
       Some x \<Rightarrow> if x_status x \<noteq> Succeeded then verify_business H rp s
         else bindW (observe ob window_default (sample_recovery H rp s)) (\<lambda>n. liftW (stable_result x n))
     | None \<Rightarrow> verify_business H rp s)"

end
