(* ===== verification/RecoveryProps.thy ===== *)
theory RecoveryProps
  imports Recovered ObservationFacts Scenario
begin

text \<open>
  The properties of the checks after a remediation: the resource check ends and its success means
  that the approved change is in place and served; success of the business check and of the
  observation window rest on fresh evidence of the remediated target.
\<close>

section \<open>What the checks of a result say\<close>

definition change_served :: "'w verifier \<Rightarrow> incident_state \<Rightarrow> plan \<Rightarrow> bool" where
  "change_served ve s pl = (let p = pl_parameters pl in case pl_action pl of
       PatchServiceSelector \<Rightarrow> (\<exists>service n w1 w2 w3 w4.
         ve_read_service ve (pa_namespace p) (pa_resource_name p) w1 = (Inr service, w2)
         \<and> str_dict_eq (service_selector service) (label_pairs_dict (pa_proposed_selector p))
         \<and> count_endpoints ve s (pa_namespace p) w3 = (Inr n, w4) \<and> n > 0)
     | PatchReadinessProbe \<Rightarrow> (\<exists>d c n w1 w2 w3 w4 w5 w6 pods.
         ve_read_deployment ve (pa_namespace p) (pa_resource_name p) w1 = (Inr d, w2)
         \<and> pa_container_name p = Some c
         \<and> deployment_probe d c = (pa_proposed_probe_path p, pa_proposed_probe_port p)
         \<and> pa_proposed_probe_path p \<noteq> None \<and> pa_proposed_probe_port p \<noteq> None
         \<and> or_zero (meta_generation (do_metadata d)) \<le> or_zero (dv_observed_generation d)
         \<and> 0 < or_zero (dv_replicas d) \<and> or_zero (dv_replicas d) \<le> or_zero (dv_updated_replicas d)
         \<and> or_zero (dv_replicas d) \<le> or_zero (dv_available_replicas d)
         \<and> count_pods ve (pa_namespace p) (or_nil (dv_match_labels d)) w5 = (Inr pods, w6)
         \<and> or_zero (dv_replicas d) \<le> pods
         \<and> count_endpoints ve s (pa_namespace p) w3 = (Inr n, w4) \<and> n > 0)
     | ManualInvestigation \<Rightarrow> False)"

lemma observed_change_served:
  assumes "observe_target ve s pl w = (Inr v, w')" and "observation_succeeded v"
  shows "change_served ve s pl"
proof (cases "pl_action pl")
  case ManualInvestigation
  then show ?thesis
    using assms by (simp add: observe_target_def io_simps)
next
  case PatchReadinessProbe
  let ?p = "pl_parameters pl"
  obtain c d pods n w1 w2 w3 w4 where c: "pa_container_name ?p = Some c"
    and d: "ve_read_deployment ve (pa_namespace ?p) (pa_resource_name ?p) w1 = (Inr d, w2)"
    and pods: "count_pods ve (pa_namespace ?p) (or_nil (dv_match_labels d)) w2 = (Inr pods, w3)"
    and n: "count_endpoints ve s (pa_namespace ?p) w3 = (Inr n, w4)"
    and some: "pa_proposed_probe_path ?p \<noteq> None" "pa_proposed_probe_port ?p \<noteq> None"
    and v: "vo_checks v = readiness_checks (deployment_probe d c) ?p d pods n"
    using assms(1) PatchReadinessProbe
    by (auto simp: observe_target_def observe_readiness_def io_simps Let_def demanded_def split: option.splits)
  have "list_all vc_passed (readiness_checks (deployment_probe d c) ?p d pods n)"
    using assms(2) v by (simp add: observation_succeeded_def)
  then have facts: "deployment_probe d c = (pa_proposed_probe_path ?p, pa_proposed_probe_port ?p)"
     "or_zero (meta_generation (do_metadata d)) \<le> or_zero (dv_observed_generation d)"
     "0 < or_zero (dv_replicas d)" "or_zero (dv_replicas d) \<le> or_zero (dv_updated_replicas d)"
     "or_zero (dv_replicas d) \<le> or_zero (dv_available_replicas d)" "or_zero (dv_replicas d) \<le> pods" "n > 0"
    by (simp_all add: readiness_checks_def replica_check_def endpoints_check_def make_check_def Let_def)
  show ?thesis
    unfolding change_served_def Let_def PatchReadinessProbe action_name.case
    using c d pods n some facts by blast
next
  case PatchServiceSelector
  let ?p = "pl_parameters pl"
  obtain service n w1 w2 where service: "ve_read_service ve (pa_namespace ?p) (pa_resource_name ?p) w = (Inr service, w1)"
    and n: "count_endpoints ve s (pa_namespace ?p) w1 = (Inr n, w2)"
    and v: "vo_checks v = selector_checks (service_selector service) (label_pairs_dict (pa_proposed_selector ?p)) n"
    using assms(1) PatchServiceSelector
    by (auto simp: observe_target_def observe_selector_def io_simps Let_def)
  have "list_all vc_passed (selector_checks (service_selector service) (label_pairs_dict (pa_proposed_selector ?p)) n)"
    using assms(2) v by (simp add: observation_succeeded_def)
  then have facts: "str_dict_eq (service_selector service) (label_pairs_dict (pa_proposed_selector ?p))" "n > 0"
    by (simp_all add: selector_checks_def endpoints_check_def make_check_def)
  show ?thesis
    unfolding change_served_def Let_def PatchServiceSelector action_name.case
    using service n facts by blast
qed

lemma poll_end_sound:
  assumes "poll ve s pl deadline n previous w = Some (st, w')" and "ps_end st = Reached"
  shows "\<exists>v u u'. ps_last st = Some v \<and> observe_target ve s pl u = (Inr v, u') \<and> observation_succeeded v"
  using assms
proof (induction ve s pl deadline n previous w "(st, w')" arbitrary: st w'
    rule: poll.raw_induct [rotated, consumes 1, case_names body])
  case (body poll ve s pl deadline n previous w st w')
  obtain r w1 where r: "observe_target ve s pl w = (r, w1)"
    by fastforce
  obtain m w2 where m: "ve_monotonic ve w1 = (m, w2)"
    by fastforce
  obtain z w3 where z: "ve_sleep ve (ve_interval ve) w2 = (z, w3)"
    by fastforce
  show ?case
  proof (cases r)
    case (Inl e)
    then show ?thesis
      using body(2,3) r by auto
  next
    case (Inr v)
    show ?thesis
    proof (cases "observation_succeeded v")
      case True
      then have "ps_last st = Some v"
        using body(2,3) r Inr by auto
      then show ?thesis
        using r Inr True by blast
    next
      case False
      then obtain t where "m = Inr t" "t < deadline" "z = Inr ()"
        using body(2,3) r Inr m z by (auto simp: Let_def not_le split: sum.splits if_splits)
      then have "poll ve s pl deadline (n + 1) (Some v) w3 = Some (st, w')"
        using body(2) r Inr m z False by (simp add: Let_def)
      then show ?thesis
        using body(1,3) by blast
    qed
  qed
qed

section \<open>The resource check\<close>

lemma recovery_validate_Inr: "recovery_validate r = Inr r' \<longleftrightarrow> r' = r \<and> recovery_schema r"
  by (auto simp: recovery_validate_def)

lemma raised_kept [simp]:
  "rr_status (raised_result e r) = rr_status r" "rr_attempts (raised_result e r) = rr_attempts r"
  by (simp_all add: raised_result_def split: exn.split)

lemma base_kept [simp]:
  "rr_status (base_result i a st started finished n) = st" "rr_attempts (base_result i a st started finished n) = n"
  "rr_checks (base_result i a st started finished n) = []"
  by (simp_all add: base_result_def)

lemma poll_base_kept [simp]:
  "rr_status (poll_base x started st finished) = VerifyFailed"
  "rr_attempts (poll_base x started st finished) = ps_attempts st"
  "rr_checks (poll_base x started st finished) = last_checks (ps_last st)"
  by (simp_all add: poll_base_def observed_result_def last_checks_def Let_def split: option.split)

lemma failure_status:
  assumes "failure_result ve x started st e w = (Inr r, w')"
  shows "rr_status r = VerifyFailed \<and> rr_attempts r = ps_attempts st"
proof -
  obtain finished where "r = raised_result e ((base_result (x_execution_id x) (x_action x) VerifyFailed started finished
      (ps_attempts st))\<lparr>rr_checks := last_checks (ps_last st)\<rparr>)"
    using assms unfolding failure_result_def bindW_eq liftW_eq recovery_validate_Inr by blast
  then show ?thesis
    by simp
qed

lemma concluded_resultD:
  assumes "concluded_result ve x started st f w = (Inr r, w')"
  shows "(\<exists>finished. r = f (poll_base x started st finished)) \<or> rr_status r = VerifyFailed \<and> rr_attempts r = ps_attempts st"
proof -
  obtain y w1 where y: "(case y of Inr y \<Rightarrow> returnW y | Inl e \<Rightarrow> failure_result ve x started st e) w1 = (Inr r, w')"
    and t: "bindW (ve_now ve) (\<lambda>finished. liftW (recovery_validate (f (poll_base x started st finished)))) w = (y, w1)"
    using assms unfolding concluded_result_def bindW_eq [of "tryW _"] tryW_eq by auto
  show ?thesis
  proof (cases y)
    case (Inl e)
    then show ?thesis
      using failure_status [of ve x started st e w1 r w'] y by simp
  next
    case (Inr z)
    then show ?thesis
      using y t unfolding bindW_eq liftW_eq recovery_validate_Inr by (auto simp: returnW_eq recovery_validate_Inr)
  qed
qed

lemma polled_resultD:
  assumes "polled_result ve x started st w = (Inr r, w')"
  shows "rr_attempts r = ps_attempts st"
    and "rr_status r = VerifySucceeded \<Longrightarrow> ps_end st = Reached \<and> rr_checks r = last_checks (ps_last st)"
  using assms
  by (cases "ps_end st";
      auto simp: polled_result_def reached_result_def timeout_result_def dest!: concluded_resultD failure_status)+

lemma verify_resourcesE:
  assumes "verify_resources ve s w = Some (Inr r, w')"
  obtains (early) "rr_attempts r = 0" and "rr_status r \<noteq> VerifySucceeded"
  | (polled) x pl started t v u st u' where "ve_monotonic ve v = (Inr t, u)" and "verification_input s = Inr (x, pl)" and "x_action x = pl_action pl"
      and "completed_status (x_status x)" and "poll ve s pl (t + ve_timeout ve) 0 None u = Some (st, u')"
      and "polled_result ve x started st u' = (Inr r, w')"
proof -
  obtain started w1 where now: "ve_now ve w = (Inr started, w1)"
    using assms by (auto simp: verify_resources_def split: prod.splits sum.splits)
  show thesis
  proof (cases "admitted started s")
    case (Inl f)
    have shape: "rr_attempts (f t) = 0 \<and> rr_status (f t) \<noteq> VerifySucceeded" for t
      using Inl by (auto simp: admitted_def invalid_state_def base_result_def split: sum.splits if_splits)
    obtain finished where "r = f finished"
      using assms Inl by (auto simp: verify_resources_def now io_simps recovery_validate_Inr)
    then show thesis
      using early shape by simp
  next
    case (Inr p)
    obtain x pl where p: "p = (x, pl)"
      by (cases p)
    have adm: "verification_input s = Inr (x, pl)" "x_action x = pl_action pl" "completed_status (x_status x)"
      using Inr by (auto simp: p admitted_def split: sum.splits if_splits)
    obtain t u v st u' where mono: "ve_monotonic ve v = (Inr t, u)"
      and run: "poll ve s pl (t + ve_timeout ve) 0 None u = Some (st, u')"
      and res: "polled_result ve x started st u' = (Inr r, w')"
      using assms Inr by (auto simp: verify_resources_def now p verify_polling_def split: prod.splits sum.splits)
    show thesis
      by (rule polled [OF mono adm run res])
  qed
qed

text \<open>C31. The resource check returns. On a monotonic clock that does not go back and that \<open>sleep\<close> advances by at
  least the interval, the check returns, and it has polled at most once more than the timeout holds
  intervals: once for the timeout 0 that the worker uses.\<close>

theorem resource_check_returns:
  assumes "steady_clock ve now" and "verifier_valid ve = Inr ()"
  shows "\<exists>r w'. verify_resources ve s w = Some (r, w')
    \<and> (\<forall>x. r = Inr x \<longrightarrow> rr_attempts x \<le> 1 + nat \<lceil>ve_timeout ve / ve_interval ve\<rceil>)"
proof -
  have pos: "0 \<le> ve_timeout ve" "0 < ve_interval ve"
    using assms(2) by (auto simp: verifier_valid_def split: if_splits)
  have poll: "\<exists>st w'. poll ve s pl (t + ve_timeout ve) 0 None u = Some (st, w')
      \<and> ps_attempts st \<le> 1 + nat \<lceil>ve_timeout ve / ve_interval ve\<rceil>" if "t \<le> now u" for pl t u
  proof -
    have "polls_left (t + ve_timeout ve - now u) (ve_interval ve) \<le> polls_left (ve_timeout ve) (ve_interval ve)"
      by (rule polls_left_mono) (use that pos in simp_all)
    then show ?thesis
      using poll_returns [OF assms(1) pos(2), of s pl "t + ve_timeout ve" 0 None u]
      by (auto simp: polls_left_def)
  qed
  have "\<exists>r w'. verify_resources ve s w = Some (r, w')"
  proof (cases "ve_now ve w")
    case (Pair r w1)
    show ?thesis
    proof (cases r)
      case (Inr started)
      show ?thesis
      proof (cases "\<exists>x pl t w2. admitted started s = Inr (x, pl) \<and> ve_monotonic ve w1 = (Inr t, w2)")
        case True
        then obtain x pl t w2 where a: "admitted started s = Inr (x, pl)" "ve_monotonic ve w1 = (Inr t, w2)"
          by blast
        then have "t \<le> now w2"
          using assms(1) by (auto simp: steady_clock_def)
        from poll [OF this, of pl] show ?thesis
          using a Pair Inr by (auto simp: verify_resources_def verify_polling_def split: prod.splits)
      next
        case False
        then show ?thesis
          using Pair Inr
          by (cases "admitted started s"; cases "ve_monotonic ve w1"; cases "fst (ve_monotonic ve w1)")
            (auto simp: verify_resources_def verify_polling_def split: prod.splits)
      qed
    qed (use Pair in \<open>simp add: verify_resources_def\<close>)
  qed
  moreover have "rr_attempts x \<le> 1 + nat \<lceil>ve_timeout ve / ve_interval ve\<rceil>"
    if run: "verify_resources ve s w = Some (Inr x, w')" for x w'
    using run
  proof (cases rule: verify_resourcesE)
    case (polled y pl started t v u st u')
    have "t \<le> now u"
      using assms(1) polled(1) by (auto simp: steady_clock_def)
    from poll [OF this, of pl] show ?thesis
      using polled(5) polled_resultD(1) [OF polled(6)] by auto
  qed simp
  ultimately show ?thesis
    by blast
qed

section \<open>A concrete check\<close>

text \<open>The world is the time; the Service already selects the approved Pods.\<close>

definition bench_verifier :: "rat verifier" where
  "bench_verifier = \<lparr>ve_read_service = (\<lambda>ns n t. (Inr \<lparr>so_metadata = None, so_spec = Some (Some [(''app'', ''order'')])\<rparr>, t)),
     ve_read_deployment = (\<lambda>ns n t. (Inl (OtherError ''unused''), t)), ve_list_pods = (\<lambda>ns l t. (Inr None, t)),
     ve_list_slices = (\<lambda>ns l t. (Inr (Some [Some [Some (Some True)]]), t)),
     ve_monotonic = (\<lambda>t. (Inr t, t)), ve_sleep = (\<lambda>s t. (Inr (), t + \<bar>s\<bar>)), ve_now = (\<lambda>t. (Inr ''now'', t)),
     ve_timeout = 0, ve_interval = 2\<rparr>"

lemma bench_steady: "steady_clock bench_verifier id"
  by (auto simp: steady_clock_def bench_verifier_def keeps_time_def abs_ge_self)

lemma resource_check_returns_witness:
  "\<exists>r w'. verify_resources bench_verifier empty_state 0 = Some (r, w') \<and> ve_timeout bench_verifier = 0"
proof -
  have "verifier_valid bench_verifier = Inr ()"
    by (simp add: verifier_valid_def bench_verifier_def)
  from resource_check_returns [OF bench_steady this, of empty_state 0] show ?thesis
    by (auto simp: bench_verifier_def)
qed

section \<open>Success of the resource check\<close>

text \<open>C30. Verified means served. When the resource check succeeds, the recorded execution completed the action
  of the plan, and readings made during the check show the approved change in place and served: for
  the selector, the Service has exactly the proposed labels and a ready endpoint; for the probe, the
  container has exactly the proposed path and port, the controller has seen the current generation,
  all desired replicas (at least one) are updated, available and ready, and an endpoint is ready.
  The result carries the checks of that observation, all passed.\<close>

theorem verified_means_served:
  assumes "verify_resources ve s w = Some (Inr r, w')" and "rr_status r = VerifySucceeded"
  shows "\<exists>x pl. st_action_result s = Some x \<and> st_remediation_plan s = Some pl \<and> x_action x = pl_action pl
     \<and> x_status x \<in> {Succeeded, AlreadyApplied} \<and> change_served ve s pl
     \<and> rr_checks r \<noteq> [] \<and> list_all vc_passed (rr_checks r)"
  using assms(1)
proof (cases rule: verify_resourcesE)
  case early
  then show ?thesis
    using assms(2) by simp
next
  case (polled x pl started t v u st u')
  note reached = polled_resultD(2) [OF polled(6) assms(2)]
  then obtain v u1 u2 where v: "ps_last st = Some v" "observe_target ve s pl u1 = (Inr v, u2)" "observation_succeeded v"
    using poll_end_sound [OF polled(5)] by blast
  have "st_action_result s = Some x" and "st_remediation_plan s = Some pl"
    using polled(2) by (auto simp: verification_input_def split: option.splits if_splits)
  moreover have "change_served ve s pl"
    by (rule observed_change_served [OF v(2,3)])
  ultimately show ?thesis
    using polled(3,4) reached v by (auto simp: last_checks_def observation_succeeded_def completed_status_def)
qed

definition bench_plan :: plan where
  "bench_plan = \<lparr>pl_target_uid = Some ''svc-1'', pl_action = PatchServiceSelector, pl_parameters =
     \<lparr>pa_namespace = ''agent-demo'', pa_resource_kind = KService, pa_resource_name = ''order-service'',
      pa_container_name = None, pa_current_probe_path = None, pa_proposed_probe_path = None,
      pa_current_probe_port = None, pa_proposed_probe_port = None,
      pa_current_selector = [\<lparr>lp_key = ''app'', lp_value = ''wrong''\<rparr>],
      pa_proposed_selector = [\<lparr>lp_key = ''app'', lp_value = ''order''\<rparr>], pa_investigation_steps = []\<rparr>,
     pl_risk_level = MediumRisk, pl_summary = ''fix'', pl_expected_result = ''ok'', pl_rollback_plan = ''back'',
     pl_evidence_ids = [''ev-1''], pl_runbook_ids = [], pl_requires_approval = True\<rparr>"

definition bench_action :: action_result where
  "bench_action = \<lparr>x_execution_id = ''exec-bbbbbbbbbbbbbbbb'', x_approval_id = ''apr-aaaaaaaaaaaaaaaa'',
     x_action = PatchServiceSelector, x_status = Succeeded, x_namespace = ''agent-demo'',
     x_resource_kind = KService, x_resource_name = ''order-service'', x_started_at = ''t0'',
     x_finished_at = ''t1'', x_before = None, x_after = None,
     x_applied_patch = [(''spec'', JNull)], x_rollback_patch = [], x_message = ''ok'', x_error_code = None,
     x_error_message = None\<rparr>"

definition repaired_state :: incident_state where
  "repaired_state = healthy_state\<lparr>st_remediation_plan := Some bench_plan, st_action_result := Some bench_action\<rparr>"

lemma bench_verified:
  "map_option (map_sum id rr_status \<circ> fst) (verify_resources bench_verifier repaired_state 0) = Some (Inr VerifySucceeded)"
  by code_simp

lemma verified_means_served_witness:
  "\<exists>r w'. verify_resources bench_verifier repaired_state 0 = Some (Inr r, w') \<and> rr_status r = VerifySucceeded
     \<and> change_served bench_verifier repaired_state bench_plan"
proof -
  obtain y w' where run: "verify_resources bench_verifier repaired_state 0 = Some (y, w')"
    and "map_sum id rr_status y = Inr VerifySucceeded"
    using bench_verified by auto
  then obtain r where y: "y = Inr r" "rr_status r = VerifySucceeded"
    by (cases y) auto
  from verified_means_served [OF run [unfolded y(1)] y(2)] show ?thesis
    using run y by (auto simp: repaired_state_def)
qed

end
