(* ===== verification/StabilityProps.thy ===== *)
theory StabilityProps
  imports RecoveryProps
begin

text \<open>
  Success of the business check rests on a fresh observation of the remediated target, and success
  of the verification of a completed write on a streak of such checks.
\<close>

section \<open>What a successful judgement rests on\<close>

text \<open>A Pod that is left out: not ready, owned, and every endpoint record of its name leaves.\<close>

definition really_leaving :: "string \<Rightarrow> string \<Rightarrow> evidence list \<Rightarrow> string \<Rightarrow> bool" where
  "really_leaving ns svc es g = (\<exists>e records. e \<in> set es \<and> ev_type e = ''PodStatus'' \<and> ev_name e = g \<and> ev_ok e
     \<and> dget (ev_data e) ''ready'' = JBool False \<and> truthy (dget (ev_data e) ''pod_ip'')
     \<and> endpoint_records ns svc es = Inr records \<and> (\<exists>ep. (JStr g, ep) \<in> set records)
     \<and> (\<forall>ep. (JStr g, ep) \<in> set records \<longrightarrow> leaving_endpoint (dget (ev_data e) ''pod_ip'') ep = Inr True))"

lemma leaving_podD:
  assumes "leaving_pod records e = Inr True"
  shows "truthy (dget (ev_data e) ''pod_ip'')" and "\<exists>ep. (JStr (ev_name e), ep) \<in> set records"
    and "(JStr (ev_name e), ep) \<in> set records \<Longrightarrow> leaving_endpoint (dget (ev_data e) ''pod_ip'') ep = Inr True"
proof -
  let ?rs = "map snd (filter (\<lambda>r. fst r = JStr (ev_name e)) records)"
  have c: "truthy (dget (ev_data e) ''pod_ip'')" "?rs \<noteq> []" "allE (leaving_endpoint (dget (ev_data e) ''pod_ip'')) ?rs = Inr True"
    using assms by (auto simp: leaving_pod_def Let_def split: if_splits)
  show "truthy (dget (ev_data e) ''pod_ip'')"
    by (fact c(1))
  show "\<exists>ep. (JStr (ev_name e), ep) \<in> set records"
    using c(2) by (auto simp: filter_empty_conv)
  show "leaving_endpoint (dget (ev_data e) ''pod_ip'') ep = Inr True" if "(JStr (ev_name e), ep) \<in> set records"
    using allE_True [OF c(3)] that by force
qed

lemma resource_view_sound:
  assumes "recovery_resource_view H s = Inr (view, gone)" and "g \<in> set gone"
  shows "\<exists>ns svc. req_get s ''namespace'' = Some ns \<and> req_get s ''service_name'' = Some svc
     \<and> really_leaving ns svc (st_evidence s) g"
proof -
  obtain ns svc where req: "req_get s ''namespace'' = Some ns" "req_get s ''service_name'' = Some svc"
    using assms(1) by (auto simp: recovery_resource_view_def request_value_def res_simps split: option.splits)
  then obtain p owned records where records: "endpoint_records ns svc (st_evidence s) = Inr records"
    and ex: "excluded_pods ns owned records (st_evidence s) = Inr gone"
    using assms by (auto simp: recovery_resource_view_def request_value_def res_simps split: sum.splits if_splits)
  then obtain xs where xs: "filterE (leaving_pod records) (filter (leaving_candidate ns owned (st_evidence s)) (st_evidence s)) = Inr xs"
    and gone: "gone = sort (remdups (map ev_name xs))"
    by (auto simp: excluded_pods_def res_simps)
  obtain e where e: "e \<in> set xs" "ev_name e = g"
    using assms(2) gone by auto
  have "leaving_candidate ns owned (st_evidence s) e" and "e \<in> set (st_evidence s)" and "leaving_pod records e = Inr True"
    using filterE_set [OF xs] e(1) by auto
  then have "really_leaving ns svc (st_evidence s) g"
    unfolding really_leaving_def using records leaving_podD [of records e] e(2)
    by (intro exI [of _ e] exI [of _ records]) (auto simp: leaving_candidate_def)
  then show ?thesis
    using req by blast
qed

definition recovery_grounded :: "(json \<Rightarrow> string) \<Rightarrow> incident_state \<Rightarrow> recovery_result \<Rightarrow> bool" where
  "recovery_grounded H s r = (\<exists>x n view gone f g. st_action_result s = Some x \<and> rr_profile r = Some n
     \<and> sn_status n = ''matched''
     \<and> py_eq (snap_digest (Some n)) (snap_digest (st_service_profile s))
     \<and> py_eq (snap_uid (Some n)) (snap_uid (st_service_profile s)) \<and> truthy (snap_uid (st_service_profile s))
     \<and> is_int g \<and> py_eq (snap_generation (Some n)) g
     \<and> (inferred_generation x (snap_generation (st_service_profile s)) = g
        \<or> x_action x = PatchReadinessProbe \<and> Option.bind (x_after x) rs_uid \<noteq> None
          \<and> g = opt_json JInt (Option.bind (x_after x) rs_generation))
     \<and> recovery_resource_view H (fresh_state s (Some n) (rr_evidence r)) = Inr (view, gone)
     \<and> diagnostic_facts H view = Inr f \<and> fc_resource_status f = Ready \<and> rf_status (fc_readiness f) = ReadinessMatched
     \<and> \<not> fc_selector_drift f \<and> \<not> readiness_drift f \<and> fc_current_runtime_faults f = []
     \<and> fc_business_status f = Passed
     \<and> rr_resource_status r = Ready \<and> rr_business_status r = BusinessChecked Passed)"

lemma expected_generationD:
  assumes "expected_generation x original current bd = Inr g"
  shows "inferred_generation x (snap_generation original) = g
        \<or> x_action x = PatchReadinessProbe \<and> Option.bind (x_after x) rs_uid \<noteq> None
          \<and> g = opt_json JInt (Option.bind (x_after x) rs_generation)"
  using assms by (auto simp: expected_generation_def Let_def res_simps split: option.splits if_splits)

lemma judge_recoveryD:
  assumes "judge_recovery H s bd current es (kept_collection bd current es r0) = Inr r"
    and "rr_status r = VerifySucceeded"
  shows "recovery_grounded H s (r\<lparr>rr_finished_at := t\<rparr>) \<and> rr_evidence r = es"
proof -
  obtain x g view gone f where x: "st_action_result s = Some x"
    and g: "expected_generation x (st_service_profile s) current bd = Inr g"
    and same: "same_target g (st_service_profile s) current"
    and view: "recovery_resource_view H (fresh_state s current es) = Inr (view, gone)"
    and f: "diagnostic_facts H view = Inr f"
    and r: "r = judged_result gone f (kept_collection bd current es r0)"
    using assms(1) by (auto simp: judge_recovery_def res_simps split: option.splits)
  have ok: "resources_recovered f" "business_recovered f"
    using assms(2) by (auto simp: r judged_result_def Let_def split: if_splits)
  have kept: "rr_profile r = current" "rr_evidence r = es" "rr_resource_status r = fc_resource_status f"
     "rr_business_status r = BusinessChecked (fc_business_status f)"
    by (simp_all add: r judged_result_def kept_collection_def Let_def)
  obtain n where n: "current = Some n" "sn_status n = ''matched''"
    using same by (auto simp: same_target_def split: option.splits)
  show ?thesis
    unfolding recovery_grounded_def
    using x expected_generationD [OF g] same view f ok kept n
    by (auto simp: same_target_def resources_recovered_def business_recovered_def)
qed

lemma observation_invalid_status [simp]: "rr_status (observation_invalid e r) = VerifyFailed"
  by (simp add: observation_invalid_def)

lemma scoped_not_checked [simp]: "rr_status (not_checked (scoped_result r)) = rr_status r"
  by (simp add: not_checked_def scoped_result_def)

lemma judged_or_invalidD:
  assumes "rr_status (judged_or_invalid H s c r0) = VerifySucceeded"
  shows "\<exists>bd current es. c = Inr ((bd, current), es) \<and> rr_evidence (judged_or_invalid H s c r0) = es
    \<and> recovery_grounded H s ((judged_or_invalid H s c r0)\<lparr>rr_finished_at := t\<rparr>)"
proof (cases c)
  case (Inl e)
  then show ?thesis
    using assms by (simp add: judged_or_invalid_def)
next
  case (Inr a)
  obtain bd current es where a: "a = ((bd, current), es)"
    by (cases a) auto
  obtain r where r: "judge_recovery H s bd current es (kept_collection bd current es r0) = Inr r"
    using assms by (auto simp: judged_or_invalid_def Inr a Let_def split: sum.splits)
  then have "judged_or_invalid H s c r0 = r"
    by (simp add: judged_or_invalid_def Inr a)
  then show ?thesis
    using judge_recoveryD [OF r] assms Inr a by auto
qed


section \<open>A concrete recovery\<close>

text \<open>The bundle of the healthy demo workload, and a rolled-out Pod that leaves.\<close>

definition bench_bundle :: dict where
  "bench_bundle = [(''namespace'', JStr ''agent-demo''), (''service_name'', JStr ''order-service''),
     (''service'', JObj (ev_data (demo_service ''order''))),
     (''endpoint_slices'', JArr [JObj (ev_data demo_slice)]),
     (''pod_statuses'', JObj [(''order-1'', JObj (ev_data (demo_pod True)))]),
     (''owner_chains'', JObj [(''order-1'', dget (ev_data demo_owner) ''owner_chain'')]),
     (''deployments'', JObj [(''order-service'', JObj (ev_data (demo_deployment ''/ready'' 1)))]),
     (''business_checks'', JArr [JObj (ev_data (demo_business ''passed''))]), (''errors'', JArr [])]"

definition bench_ports :: "rat recovery_ports" where
  "bench_ports = \<lparr>rp_resources = (\<lambda>s t. case verify_resources bench_verifier s t of Some x \<Rightarrow> x | None \<Rightarrow> (Inl TypeError, t)),
     rp_collect = (\<lambda>ns n t. (Inr (bench_bundle, Some demo_snapshot), t)),
     rp_uuid = (\<lambda>t. (Inr ''feed-1'', t)), rp_now = (\<lambda>t. (Inr ''now'', t))\<rparr>"

definition bench_evidence :: "evidence list" where
  "bench_evidence = (case normalize_evidence ''feed-1'' ''now'' bench_bundle of Inr es \<Rightarrow> es | Inl _ \<Rightarrow> [])"

definition bench_fresh :: incident_state where
  "bench_fresh = fresh_state repaired_state (Some demo_snapshot) bench_evidence"

lemma bench_numbered: "\<not> isl (normalize_evidence ''feed-1'' ''now'' bench_bundle)"
  by code_simp

lemma bench_facts:
  "(case recovery_resource_view demo_hash bench_fresh of Inl e \<Rightarrow> False | Inr (v, gone) \<Rightarrow>
     (case diagnostic_facts demo_hash v of Inl e \<Rightarrow> False | Inr f \<Rightarrow> resources_recovered f \<and> business_recovered f))"
  by code_simp

lemma bench_target:
  "case expected_generation bench_action (st_service_profile repaired_state) (Some demo_snapshot) bench_bundle of
     Inl e \<Rightarrow> False | Inr g \<Rightarrow> same_target g (st_service_profile repaired_state) (Some demo_snapshot)"
  by code_simp

lemma bench_collected:
  "collect_fresh bench_ports repaired_state t = (Inr ((bench_bundle, Some demo_snapshot), bench_evidence), t)"
proof -
  have "normalize_evidence ''feed-1'' ''now'' bench_bundle = Inr bench_evidence"
    using bench_numbered by (cases "normalize_evidence ''feed-1'' ''now'' bench_bundle") (auto simp: bench_evidence_def)
  moreover have "request_value repaired_state ''namespace'' = Inr ''agent-demo''"
    and "request_value repaired_state ''service_name'' = Inr ''order-service''"
    by code_simp+
  ultimately show ?thesis
    by (simp add: collect_fresh_def bench_ports_def io_simps)
qed

lemma bench_judged:
  "\<exists>gone f. judge_recovery demo_hash repaired_state bench_bundle (Some demo_snapshot) bench_evidence r = Inr (judged_result gone f r)
     \<and> resources_recovered f \<and> business_recovered f"
proof -
  obtain v gone where v: "recovery_resource_view demo_hash bench_fresh = Inr (v, gone)"
    using bench_facts by (cases "recovery_resource_view demo_hash bench_fresh") auto
  with bench_facts obtain f where f: "diagnostic_facts demo_hash v = Inr f" "resources_recovered f" "business_recovered f"
    by (cases "diagnostic_facts demo_hash v") auto
  obtain g where "expected_generation bench_action (st_service_profile repaired_state) (Some demo_snapshot) bench_bundle = Inr g"
    and "same_target g (st_service_profile repaired_state) (Some demo_snapshot)"
    using bench_target by (auto split: sum.splits)
  moreover have "st_action_result repaired_state = Some bench_action"
    by (simp add: repaired_state_def)
  ultimately have "judge_recovery demo_hash repaired_state bench_bundle (Some demo_snapshot) bench_evidence r = Inr (judged_result gone f r)"
    using v f(1) by (simp add: judge_recovery_def bench_fresh_def require_def)
  with f show ?thesis
    by blast
qed

lemma bench_resources:
  "\<exists>q w1. verify_resources bench_verifier repaired_state 0 = Some (Inr q, w1) \<and> rr_status q = VerifySucceeded \<and> recovery_schema q"
proof -
  have "case verify_resources bench_verifier repaired_state 0 of None \<Rightarrow> False
    | Some x \<Rightarrow> (case fst x of Inl e \<Rightarrow> False | Inr q \<Rightarrow> rr_status q = VerifySucceeded \<and> recovery_schema q)"
    by code_simp
  then show ?thesis
    by (auto split: option.splits sum.splits)
qed

lemma scoped_status: "rr_status (scoped_result r) = rr_status r"
  by (simp add: scoped_result_def)

lemma judged_schema:
  assumes "recovery_schema q" and "t \<noteq> []"
  shows "recovery_schema (judged_result gone f (kept_collection bd current es (scoped_result q))\<lparr>rr_finished_at := t\<rparr>)"
  using assms by (auto simp: recovery_schema_def judged_result_def kept_collection_def scoped_result_def Let_def
    fact_checks_def plain_check_def terminating_check_def replica_count_check_def split: option.splits)

lemma bench_recovers:
  "\<exists>r w'. verify_business demo_hash bench_ports repaired_state 0 = (Inr r, w') \<and> rr_status r = VerifySucceeded"
proof -
  obtain q w1 where q: "verify_resources bench_verifier repaired_state 0 = Some (Inr q, w1)" "rr_status q = VerifySucceeded"
    "recovery_schema q"
    using bench_resources by blast
  have res: "rp_resources bench_ports repaired_state 0 = (Inr q, w1)"
    by (simp add: bench_ports_def q(1))
  let ?k = "kept_collection bench_bundle (Some demo_snapshot) bench_evidence (scoped_result q)"
  obtain gone f where f: "judge_recovery demo_hash repaired_state bench_bundle (Some demo_snapshot) bench_evidence ?k
       = Inr (judged_result gone f ?k)" and ok: "resources_recovered f" "business_recovered f"
    using bench_judged by blast
  have now: "rp_now bench_ports t = (Inr ''now'', t)" for t
    by (simp add: bench_ports_def)
  let ?r = "(judged_result gone f ?k)\<lparr>rr_finished_at := ''now''\<rparr>"
  have judged: "judged_or_invalid demo_hash repaired_state (Inr ((bench_bundle, Some demo_snapshot), bench_evidence)) (scoped_result q)
       = judged_result gone f ?k"
    by (simp add: judged_or_invalid_def Let_def f)
  have valid: "recovery_validate ?r = Inr ?r"
    using judged_schema [OF q(3), of "''now''"] by (simp add: recovery_validate_def)
  have "verify_business demo_hash bench_ports repaired_state 0 = (Inr ?r, w1)"
    using q(2) by (simp add: verify_business_def io_simps res bench_collected now judged valid Let_def scoped_status)
  moreover have "rr_status ?r = VerifySucceeded"
    using ok by (simp add: judged_result_def Let_def)
  ultimately show ?thesis
    by blast
qed



end
