(* ===== verification/References.thy ===== *)
theory References
  imports PlanPreparation Decimals
begin

text \<open>
  The references of a diagnosis (\<open>backend/app/agent/nodes.py\<close>, first part): cleaning of the identifiers
  the model wrote, the search for identifiers in its prose, and the check that everything cited
  exists. The search runs over the JSON text of the diagnosis, so \<open>json.dumps\<close> is written out; the
  text of a float is the parameter \<open>F\<close>.
\<close>

section \<open>\<open>json.dumps(v, ensure_ascii=False)\<close>\<close>

definition escaped :: "char \<Rightarrow> string" where
  "escaped c = (let n = of_char c :: int in
     if n = 34 \<or> n = 92 then [CHR 0x5C, c]
     else if n = 8 then CHR 0x5C # ''b''
     else if n = 9 then CHR 0x5C # ''t''
     else if n = 10 then CHR 0x5C # ''n''
     else if n = 12 then CHR 0x5C # ''f''
     else if n = 13 then CHR 0x5C # ''r''
     else if n < 32 then CHR 0x5C # CHR ''u'' # hextet_text n
     else [c])"

definition quoted :: "string \<Rightarrow> string" where
  "quoted s = CHR 0x22 # concat (map escaped s) @ [CHR 0x22]"

fun json_text :: "(rat \<Rightarrow> string) \<Rightarrow> json \<Rightarrow> string" where
  "json_text F JNull = ''null''"
| "json_text F (JBool b) = (if b then ''true'' else ''false'')"
| "json_text F (JInt n) = int_text n"
| "json_text F (JFloat q) = F q"
| "json_text F (JStr s) = quoted s"
| "json_text F (JArr xs) = ''['' @ join_with '', '' (map (json_text F) xs) @ '']''"
| "json_text F (JObj d) = ''{'' @ join_with '', '' (map (\<lambda>kv. quoted (fst kv) @ '': '' @ json_text F (snd kv)) d) @ ''}''"

section \<open>Identifiers in a text\<close>

text \<open>
  \<open>EVIDENCE_ID_PATTERN.findall\<close>: the characters of a match and the two characters that must not
  stand beside it are of one class, so the matches are the maximal runs of that class that have the
  form of an identifier.
\<close>

definition id_char :: "char \<Rightarrow> bool" where
  "id_char c = (let n = of_char c :: int in
     (48 \<le> n \<and> n \<le> 57) \<or> (65 \<le> n \<and> n \<le> 90) \<or> (97 \<le> n \<and> n \<le> 122) \<or> n = 45)"

function id_runs :: "string \<Rightarrow> string list" where
  "id_runs [] = []"
| "id_runs (c # s) = (if id_char c then (c # takeWhile id_char s) # id_runs (dropWhile id_char s) else id_runs s)"
  by pat_completeness auto

termination
  by (relation "measure length") (auto simp: le_imp_less_Suc length_dropWhile_le)

text \<open>\<open>ev-[a-zA-Z0-9-]+-\d{3}\<close> on a whole run\<close>

definition evidence_id_form :: "string \<Rightarrow> bool" where
  "evidence_id_form r = (8 \<le> length r \<and> starts_with ''ev-'' r \<and> r ! (length r - 4) = CHR ''-''
     \<and> list_all (\<lambda>c. digit_of c \<noteq> None) (drop (length r - 3) r))"

definition found_ids :: "string \<Rightarrow> string list" where
  "found_ids t = filter evidence_id_form (id_runs t)"

definition mentioned_ids :: "(rat \<Rightarrow> string) \<Rightarrow> diagnosis \<Rightarrow> string list" where
  "mentioned_ids F d = dedup (found_ids (json_text F (diagnosis_json d)))"

section \<open>Cleaning\<close>

text \<open>
  \<open>REFERENCE_EDGE_CHARACTERS\<close>; its full-width comma and semicolon lie above the code points of the
  modelled texts.
\<close>

definition edge_char :: "char \<Rightarrow> bool" where
  "edge_char c = (c \<in> {CHR '' '', CHR 0x09, CHR 0x0D, CHR 0x0A, CHR '','', CHR '';''})"

definition strip_edges :: "string \<Rightarrow> string" where
  "strip_edges s = rev (dropWhile edge_char (rev (dropWhile edge_char s)))"

definition normalize_reference_ids :: "string list \<Rightarrow> string list res" where
  "normalize_reference_ids xs = bindE (mapE (\<lambda>x. let c = strip_edges x in
     if c = [] then Inl (InvalidDiagnosisReference ''diagnosis contains an empty reference ID'') else Inr c) xs)
     (\<lambda>cs. Inr (dedup cs))"

section \<open>Checking\<close>

definition usable_evidence_ids :: "incident_state \<Rightarrow> string list" where
  "usable_evidence_ids s = map ev_id (filter (\<lambda>e. ev_id e \<noteq> [] \<and> ev_ok e) (st_evidence s))"

definition listed_missing :: "string list \<Rightarrow> string list \<Rightarrow> string list" where
  "listed_missing xs ys = filter (\<lambda>x. x \<notin> set ys) xs"

definition reconcile_declared_evidence ::
  "(rat \<Rightarrow> string) \<Rightarrow> diagnosis \<Rightarrow> incident_state \<Rightarrow> (diagnosis \<times> string list) res" where
  "reconcile_declared_evidence F d s =
     (let missing = listed_missing (mentioned_ids F d) (d_evidence_ids d); added = sort missing in
      if subset_list missing (usable_evidence_ids s)
      then Inr (d\<lparr>d_evidence_ids := d_evidence_ids d @ added\<rparr>, added)
      else Inl (InvalidDiagnosisReference ''unknown evidence IDs mentioned in diagnosis''))"

definition needs_runbook :: "fault_category \<Rightarrow> bool" where
  "needs_runbook c = (c \<notin> {UnknownFault, NoFaultDetected, ApplicationError, DependencyError})"

definition validate_diagnosis_references ::
  "(rat \<Rightarrow> string) \<Rightarrow> diagnosis \<Rightarrow> incident_state \<Rightarrow> unit res" where
  "validate_diagnosis_references F d s =
     bindE (available_runbook_ids s) (\<lambda>rbs. require_all InvalidDiagnosisReference
       [(subset_list (d_evidence_ids d) (available_evidence_ids s), ''unknown evidence IDs''),
        (subset_list (map JStr (d_runbook_ids d)) rbs, ''unknown runbook IDs''),
        (subset_list (mentioned_ids F d) (d_evidence_ids d),
         ''evidence IDs mentioned in diagnosis but missing from evidence_ids''),
        (needs_runbook (d_fault_category d) \<longrightarrow> d_runbook_ids d \<noteq> [],
         ''fault diagnosis must reference at least one retrieved runbook'')])"

section \<open>What the search finds\<close>

definition bounded_by :: "string \<Rightarrow> string \<Rightarrow> bool" where
  "bounded_by pre post = ((pre = [] \<or> \<not> id_char (last pre)) \<and> (post = [] \<or> \<not> id_char (hd post)))"

definition run_in :: "string \<Rightarrow> string \<Rightarrow> bool" where
  "run_in r s = (r \<noteq> [] \<and> list_all id_char r \<and> (\<exists>pre post. s = pre @ r @ post \<and> bounded_by pre post))"

lemma run_in_skip:
  assumes "\<not> id_char c"
  shows "run_in r (c # s) \<longleftrightarrow> run_in r s"
proof
  assume "run_in r (c # s)"
  then obtain pre post where r: "r \<noteq> []" "list_all id_char r" "c # s = pre @ r @ post" "bounded_by pre post"
    by (auto simp: run_in_def)
  then obtain p where "pre = c # p"
    using assms by (cases pre; cases r) auto
  then show "run_in r s"
    using r by (auto simp: run_in_def bounded_by_def split: if_splits)
next
  assume "run_in r s"
  then obtain pre post where r: "r \<noteq> []" "list_all id_char r" "s = pre @ r @ post" "bounded_by pre post"
    by (auto simp: run_in_def)
  then show "run_in r (c # s)"
    using assms unfolding run_in_def
    by (intro conjI exI [of _ "c # pre"] exI [of _ post]) (auto simp: bounded_by_def)
qed

lemma run_in_word:
  assumes w: "w \<noteq> []" "list_all id_char w" and d: "d = [] \<or> \<not> id_char (hd d)"
  shows "run_in r (w @ d) \<longleftrightarrow> r = w \<or> run_in r d"
proof
  assume "run_in r (w @ d)"
  then obtain pre post where r: "r \<noteq> []" "list_all id_char r" "w @ d = pre @ r @ post" "bounded_by pre post"
    by (auto simp: run_in_def)
  have all: "list_all id_char w" "list_all id_char r"
    by (fact w(2), fact r(2))
  show "r = w \<or> run_in r d"
  proof (cases "pre = []")
    case True
    have "takeWhile id_char (w @ d) = w" "takeWhile id_char (r @ post) = r"
      using all d r(4) by (auto simp: takeWhile_append2 list_all_iff bounded_by_def takeWhile_eq_Nil_iff)
    then show ?thesis
      using r(3) True by simp
  next
    case False
    then have "last pre \<notin> set w"
      using r(4) w(2) by (auto simp: bounded_by_def list_all_iff)
    then have "\<not> length pre \<le> length w"
      using r(3) False by (metis append_eq_append_conv_if in_set_takeD last_in_set)
    then obtain p where "pre = w @ p" "p \<noteq> []" "d = p @ r @ post"
      using r(3) by (auto simp: append_eq_append_conv2)
    then show ?thesis
      using r by (auto simp: run_in_def bounded_by_def)
  qed
next
  assume "r = w \<or> run_in r d"
  then show "run_in r (w @ d)"
  proof
    assume "r = w"
    then show ?thesis
      using w d unfolding run_in_def
      by (intro conjI exI [of _ "[]"] exI [of _ d]) (auto simp: bounded_by_def)
  next
    assume "run_in r d"
    then obtain pre post where r: "r \<noteq> []" "list_all id_char r" "d = pre @ r @ post" "bounded_by pre post"
      by (auto simp: run_in_def)
    then have "pre \<noteq> []"
      using d by (cases r) auto
    then show ?thesis
      using r unfolding run_in_def
      by (intro conjI exI [of _ "w @ pre"] exI [of _ post]) (auto simp: bounded_by_def)
  qed
qed

lemma id_runs_iff: "r \<in> set (id_runs s) \<longleftrightarrow> run_in r s"
proof (induction s rule: id_runs.induct)
  case 1
  then show ?case
    by (simp add: run_in_def)
next
  case (2 c s)
  show ?case
  proof (cases "id_char c")
    case True
    have word: "list_all id_char (c # takeWhile id_char s)"
      using True by (auto simp: list_all_iff dest: set_takeWhileD)
    have rest: "dropWhile id_char s = [] \<or> \<not> id_char (hd (dropWhile id_char s))"
      using hd_dropWhile [of id_char s] by blast
    show ?thesis
      using run_in_word [OF _ word rest, of r] 2(1) [OF True] True by simp
  next
    case False
    then show ?thesis
      using 2(2) by (simp add: run_in_skip)
  qed
qed


section \<open>What an accepted diagnosis cites\<close>

lemma normalize_reference_ids_Inr:
  assumes "normalize_reference_ids xs = Inr ys"
  shows "distinct ys" and "set ys = strip_edges ` set xs" and "[] \<notin> set ys"
proof -
  obtain cs where cs: "mapE (\<lambda>x. let c = strip_edges x in
      if c = [] then Inl (InvalidDiagnosisReference ''diagnosis contains an empty reference ID'') else Inr c) xs = Inr cs"
    and ys: "ys = dedup cs"
    using assms by (auto simp: normalize_reference_ids_def res_simps)
  have "cs = map strip_edges xs \<and> [] \<notin> set cs"
    using cs by (induction xs arbitrary: cs) (auto simp: res_simps Let_def split: if_splits)
  then show "distinct ys" and "set ys = strip_edges ` set xs" and "[] \<notin> set ys"
    by (auto simp: ys)
qed

lemma listed_missing_set [simp]: "set (listed_missing xs ys) = set xs - set ys"
  by (auto simp: listed_missing_def)

lemma reconcile_Inr:
  assumes "reconcile_declared_evidence F d s = Inr (d', added)"
  shows "d' = d\<lparr>d_evidence_ids := d_evidence_ids d @ added\<rparr>"
    and "set added = set (mentioned_ids F d) - set (d_evidence_ids d)" and "set added \<subseteq> set (usable_evidence_ids s)"
    and "distinct added"
  using assms by (auto simp: reconcile_declared_evidence_def Let_def mentioned_ids_def listed_missing_def split: if_splits)

lemma validate_diagnosis_referencesD:
  assumes "validate_diagnosis_references F d s = Inr ()"
  shows "set (d_evidence_ids d) \<subseteq> set (available_evidence_ids s)"
    and "set (mentioned_ids F d) \<subseteq> set (d_evidence_ids d)"
    and "r \<in> set (d_runbook_ids d) \<Longrightarrow> \<exists>b\<in>set (st_retrieved_runbooks s). dget b ''runbook_id'' = JStr r"
    and "needs_runbook (d_fault_category d) \<Longrightarrow> d_runbook_ids d \<noteq> []"
proof -
  obtain rbs where rbs: "available_runbook_ids s = Inr rbs" and cited: "JStr ` set (d_runbook_ids d) \<subseteq> set rbs"
    and rest: "set (d_evidence_ids d) \<subseteq> set (available_evidence_ids s)" "set (mentioned_ids F d) \<subseteq> set (d_evidence_ids d)"
       "needs_runbook (d_fault_category d) \<longrightarrow> d_runbook_ids d \<noteq> []"
    using assms by (auto simp: validate_diagnosis_references_def res_simps simp del: require_all.simps)
  show "set (d_evidence_ids d) \<subseteq> set (available_evidence_ids s)" "set (mentioned_ids F d) \<subseteq> set (d_evidence_ids d)"
     "needs_runbook (d_fault_category d) \<Longrightarrow> d_runbook_ids d \<noteq> []"
    using rest by auto
  show "\<exists>b\<in>set (st_retrieved_runbooks s). dget b ''runbook_id'' = JStr r" if "r \<in> set (d_runbook_ids d)"
  proof -
    have "set rbs \<subseteq> (\<lambda>b. dget b ''runbook_id'') ` set (st_retrieved_runbooks s)"
      using rbs by (auto simp: available_runbook_ids_def Let_def split: if_splits)
    with cited that show ?thesis
      by (force simp: image_iff)
  qed
qed

text \<open>
  A line break in the prose becomes the two characters of its escape in the JSON text, and the letter
  of the escape stands beside an identifier that starts the next line: the search misses it.
\<close>

lemma mention_after_break_missed:
  "found_ids (json_text F (JStr (''see'' @ [CHR 0x0A] @ ''ev-incident-001''))) = []"
  "found_ids (json_text F (JStr ''see ev-incident-001'')) = [''ev-incident-001'']"
  by code_simp+

end
