(* ===== verification/DiagnosisReport.thy ===== *)
theory DiagnosisReport
  imports References
begin

text \<open>
  \<open>backend/app/agent/diagnosis_report.py\<close>: the report that replaces the model's prose when a registered
  business assertion failed. It is written from the facts; of the model's diagnosis it keeps the
  category, the confidence and the citations. Its Chinese prose is replaced by short ASCII texts of
  the same meaning.
\<close>

section \<open>The report\<close>

definition report_applies :: "facts \<Rightarrow> diagnosis \<Rightarrow> bool" where
  "report_applies f d = (d_fault_category d = ApplicationError \<and> fc_business_status f = Failed)"

definition failed_checks :: "facts \<Rightarrow> incident_state \<Rightarrow> evidence list" where
  "failed_checks f s = filter (\<lambda>e. ev_id e \<in> set (fc_business_evidence_ids f)
     \<and> dget (ev_data e) ''status'' = JStr ''failed'') (st_evidence s)"

definition http_text :: "json \<Rightarrow> string" where
  "http_text v = (case v of
       JInt n \<Rightarrow> if 100 \<le> n \<and> n \<le> 599 then ''HTTP '' @ int_text n else ''HTTP status not confirmed''
     | _ \<Rightarrow> ''HTTP status not confirmed'')"

text \<open>\<open>{...}.get(code, default)\<close>: a code that cannot be hashed raises.\<close>

definition failure_explanation :: "json \<Rightarrow> string res" where
  "failure_explanation c =
     (if \<not> hashable c then Inl TypeError
      else Inr (if c = JStr ''JSON_CONTENT_MISMATCH'' then ''the JSON content does not satisfy the registered assertion''
        else if c = JStr ''HTTP_STATUS_MISMATCH'' then ''the status code is not the registered one''
        else if c = JStr ''INVALID_JSON'' then ''the response is not valid JSON''
        else ''the response does not satisfy the registered assertion''))"

definition report_symptom :: "evidence \<Rightarrow> finding res" where
  "report_symptom e = bindE (failure_explanation (dget (ev_data e) ''error_code'')) (\<lambda>x. Inr
     \<lparr>f_summary = ''the registered business check returned '' @ http_text (dget (ev_data e) ''http_status'') @ ''; '' @ x,
      f_evidence_ids = [ev_id e]\<rparr>)"

definition report_hypothesis :: "facts \<Rightarrow> hypothesis" where
  "report_hypothesis f = \<lparr>f_summary = ''possibly request handling or runtime configuration; to be confirmed'',
     f_evidence_ids = fc_business_evidence_ids f, h_status = Suspected\<rparr>"

definition report_assessment :: "facts \<Rightarrow> finding list \<Rightarrow> assessment" where
  "report_assessment f symptoms = \<lparr>a_problem_domain = ApplicationRuntime, a_symptoms = symptoms,
     a_hypotheses = [report_hypothesis f],
     a_missing_evidence = [''application log or trace of this request'', ''how the response is produced and its dependencies''],
     a_next_investigation = [''the owner compares the interface with the current response logic'',
       ''confirm data sources and dependencies read-only'', ''recheck resources and business assertions after manual work''],
     a_resource_status = fc_resource_status f, a_business_status = Failed,
     a_unverified_scope = [''code, runtime configuration or dependency as root cause'',
       ''configuration and network beyond the registered selector and readiness'',
       ''external entry, unregistered interfaces and single replicas'']\<rparr>"

definition resource_sentence :: "resource_status \<Rightarrow> string" where
  "resource_sentence r = (case r of Ready \<Rightarrow> ''the sampled resources satisfy the readiness checks''
     | NotReady \<Rightarrow> ''the sampled resources do not satisfy the readiness checks''
     | ResourceUnknown \<Rightarrow> ''the resource evidence does not decide readiness'')"

definition configuration_sentence :: "facts \<Rightarrow> string" where
  "configuration_sentence f =
     (if fc_configuration_evidence_complete f \<and> \<not> fc_selector_drift f \<and> \<not> readiness_drift f
      then ''no drift of the registered selector and readiness''
      else ''registered configuration differs or was not checked completely'')"

definition controlled_diagnosis :: "facts \<Rightarrow> diagnosis \<Rightarrow> finding list \<Rightarrow> diagnosis" where
  "controlled_diagnosis f d symptoms = \<lparr>d_assessment = Some (report_assessment f symptoms),
     d_fault_category = ApplicationError,
     d_root_cause = ''registered business assertions failed; the root cause is not determined. ''
       @ join_with '' '' (map f_summary symptoms),
     d_evidence_ids = dedup (d_evidence_ids d @ fc_business_evidence_ids f @ fc_resource_evidence_ids f
       @ fc_configuration_evidence_ids f),
     d_runbook_ids = [], d_confidence = d_confidence d,
     d_reasoning_summary = resource_sentence (fc_resource_status f) @ ''; '' @ configuration_sentence f
       @ ''. Other factors are not excluded.''\<rparr>"

text \<open>\<open>None\<close>: the diagnosis itself is returned.\<close>

definition build_controlled_report ::
  "(json \<Rightarrow> string) \<Rightarrow> diagnosis \<Rightarrow> incident_state \<Rightarrow> diagnosis option res" where
  "build_controlled_report H d s = bindE (diagnostic_facts H s) (\<lambda>f.
     if \<not> report_applies f d then Inr None
     else bindE (mapE report_symptom (failed_checks f s)) (\<lambda>symptoms.
          if diagnosis_schema (controlled_diagnosis f d symptoms)
          then Inr (Some (controlled_diagnosis f d symptoms)) else Inl ValidationError))"

section \<open>The report passes the gate\<close>

lemma report_symptoms_cite:
  assumes "mapE report_symptom (failed_checks f s) = Inr symptoms" and "g \<in> set symptoms"
  shows "set (f_evidence_ids g) \<subseteq> set (fc_business_evidence_ids f)"
  using mapE_set [OF assms] by (auto simp: report_symptom_def failed_checks_def res_simps)

text \<open>The controlled report is accepted. Whenever a report replaces an accepted diagnosis it passes the
  same gate as the diagnosis it replaces; it cites at least what that one cites, keeps its confidence,
  proposes no runbook and takes its statuses from the facts.\<close>

theorem controlled_report_passes_gate:
  assumes "build_controlled_report H d s = Inr (Some r)"
  shows "validate_diagnosis_assessment H r s = Inr () \<and> set (d_evidence_ids d) \<subseteq> set (d_evidence_ids r)
     \<and> d_confidence r = d_confidence d \<and> d_runbook_ids r = [] \<and> d_fault_category r = d_fault_category d"
proof -
  obtain f symptoms where f: "diagnostic_facts H s = Inr f" "report_applies f d"
    and symptoms: "mapE report_symptom (failed_checks f s) = Inr symptoms" and r: "r = controlled_diagnosis f d symptoms"
    using assms by (auto simp: build_controlled_report_def res_simps split: if_splits)
  have "list_all (\<lambda>g. subset_list (f_evidence_ids g) (d_evidence_ids r)) symptoms"
    using report_symptoms_cite [OF symptoms] by (auto simp: list_all_iff r controlled_diagnosis_def)
  then have "list_all fst (assessment_checks f r (report_assessment f symptoms))"
    using f(2) by (simp add: assessment_checks_def common_checks_def configuration_checks_def conclusion_checks_def
      category_checks_def report_applies_def r controlled_diagnosis_def report_assessment_def report_hypothesis_def
      configuration_categories_def subset_iff)
  then have "validate_diagnosis_assessment H r s = Inr ()"
    by (simp add: validate_diagnosis_assessment_def r controlled_diagnosis_def f(1) res_simps)
  then show ?thesis
    using f(2) by (auto simp: r controlled_diagnosis_def report_applies_def)
qed

definition failing_state :: incident_state where
  "failing_state = demo_state [demo_service ''order'', demo_deployment ''/ready'' 1, demo_owner, demo_pod True, demo_slice,
     demo_business ''failed'']"

definition failing_diagnosis :: diagnosis where
  "failing_diagnosis = \<lparr>d_assessment = None, d_fault_category = ApplicationError, d_root_cause = ''bug'',
     d_evidence_ids = [''ev-1''], d_runbook_ids = [''rb-1''], d_confidence = 4 / 5, d_reasoning_summary = ''prose''\<rparr>"

lemma controlled_report_passes_gate_witness:
  "\<exists>r. build_controlled_report demo_hash failing_diagnosis failing_state = Inr (Some r)
     \<and> validate_diagnosis_assessment demo_hash r failing_state = Inr () \<and> d_confidence r = 4 / 5"
proof -
  have "map_sum id (\<lambda>r. r \<noteq> None) (build_controlled_report demo_hash failing_diagnosis failing_state) = Inr True"
    by code_simp
  then obtain r where r: "build_controlled_report demo_hash failing_diagnosis failing_state = Inr (Some r)"
    by (cases "build_controlled_report demo_hash failing_diagnosis failing_state") auto
  have "d_confidence failing_diagnosis = 4 / 5"
    by (simp add: failing_diagnosis_def)
  with controlled_report_passes_gate [OF r] r show ?thesis
    by auto
qed

end
