(* ===== verification/Workflow.thy ===== *)
theory Workflow
  imports Recovered DiagnosisReport Approval
begin

text \<open>
  The workflow state and the nodes that collect, retrieve, diagnose and plan
  (\<open>backend/app/agent/state.py\<close>, \<open>nodes.py\<close>, \<open>rag/query_builder.py\<close>). A node of the source returns the changed
  keys, which the graph library writes over the state, except that it appends \<open>errors\<close> and \<open>trace\<close>; a
  node of the model returns the state after that. Models, collector, retriever, executor, verifier and
  the clock are calls on the surroundings. The debugging record of the model calls is left out.
\<close>

section \<open>State and surroundings\<close>

record question =
  qu_id :: string
  qu_version :: nat
  qu_questions :: "(string \<times> string) list"
  qu_reason :: string
  qu_evidence_revision :: string
  qu_evidence_ids :: "string list"

record workflow = incident_state +
  wf_valid :: "bool option"
  wf_error_count :: int
  wf_errors :: "json list"
  wf_trace :: "json list"
  wf_collection_plan :: "string list"
  wf_retrieval_query :: "string option"
  wf_model_output :: "diagnosis option"
  wf_llm_model :: "string option"
  wf_llm_usage :: "(string \<times> int) list"
  wf_retry_count :: nat
  wf_risk_level :: "risk_level option"
  wf_remediation_model :: "string option"
  wf_remediation_usage :: "(string \<times> json) list"
  wf_verification :: "recovery_result option"
  wf_question :: "question option"
  wf_round :: nat
  wf_asked :: "string list"
  wf_answers :: "json list"
  wf_exhausted :: "bool option"

text \<open>The part of the state that the policies, the executor and the verifier read.\<close>

definition core :: "workflow \<Rightarrow> incident_state" where
  "core s = incident_state.truncate s"

lemma core_simps [simp]:
  "st_incident_id (core s) = st_incident_id s" "st_run_id (core s) = st_run_id s" "st_request (core s) = st_request s"
  "st_phase (core s) = st_phase s" "st_evidence (core s) = st_evidence s" "st_service_profile (core s) = st_service_profile s"
  "st_retrieved_runbooks (core s) = st_retrieved_runbooks s" "st_diagnosis (core s) = st_diagnosis s"
  "st_remediation_plan (core s) = st_remediation_plan s" "st_requires_approval (core s) = st_requires_approval s"
  "st_approved (core s) = st_approved s" "st_approval_status (core s) = st_approval_status s"
  "st_approval_request (core s) = st_approval_request s" "st_approval_record (core s) = st_approval_record s"
  "st_action_result (core s) = st_action_result s"
  by (simp_all add: core_def incident_state.defs)

text \<open>What the two model services return.\<close>

record diagnosis_reply =
  dr_diagnosis :: diagnosis
  dr_model :: string
  dr_usage :: "(string \<times> json) list"

record plan_reply =
  pr_plan :: plan
  pr_model :: string
  pr_usage :: "(string \<times> json) list"

record 'w workflow_ports =
  wp_hash :: "json \<Rightarrow> string"
  wp_sha :: "string \<Rightarrow> string"
  wp_float :: "rat \<Rightarrow> string"
  wp_repr :: "json \<Rightarrow> string"
  wp_decision :: "json \<Rightarrow> approval_decision option"
  wp_uuid :: "('w, string) io"
  wp_now :: "('w, string) io"
  wp_collect :: "string \<Rightarrow> string \<Rightarrow> ('w, dict \<times> snapshot option) io"
  wp_retrieve :: "string \<Rightarrow> nat \<Rightarrow> ('w, dict list) io"
  wp_diagnose :: "workflow \<Rightarrow> string option \<Rightarrow> ('w, diagnosis_reply) io"
  wp_plan :: "workflow \<Rightarrow> ('w, plan_reply) io"
  wp_execute :: "incident_state \<Rightarrow> ('w, action_result) io"
  wp_verify :: "incident_state \<Rightarrow> ('w, recovery_result) io"
  wp_budget :: "(string \<Rightarrow> ('w, unit) io) option"

section \<open>Traces and errors\<close>

definition trace_event :: "string \<Rightarrow> string \<Rightarrow> string \<Rightarrow> string \<Rightarrow> json" where
  "trace_event step status msg t = JObj [(''step'', JStr step), (''status'', JStr status),
     (''message'', JStr msg), (''timestamp'', JStr t)]"

text \<open>The end of a node: the event is stamped and appended.\<close>

definition traced :: "'w workflow_ports \<Rightarrow> string \<Rightarrow> string \<Rightarrow> string \<Rightarrow> workflow \<Rightarrow> ('w, workflow) io" where
  "traced p step status msg s = bindW (wp_now p) (\<lambda>t. returnW (s\<lparr>wf_trace := wf_trace s @ [trace_event step status msg t]\<rparr>))"

definition stage_error :: "string \<Rightarrow> string \<Rightarrow> string \<Rightarrow> json" where
  "stage_error stage code msg = JObj [(''stage'', JStr stage), (''code'', JStr code), (''message'', JStr msg)]"

definition with_error :: "string \<Rightarrow> string \<Rightarrow> string \<Rightarrow> workflow \<Rightarrow> workflow" where
  "with_error stage code msg s = s\<lparr>wf_errors := wf_errors s @ [stage_error stage code msg]\<rparr>"

definition counted_error :: "string \<Rightarrow> string \<Rightarrow> string \<Rightarrow> workflow \<Rightarrow> workflow" where
  "counted_error stage code msg s = (with_error stage code msg s)\<lparr>wf_error_count := wf_error_count s + 1\<rparr>"

definition at_phase :: "string \<Rightarrow> workflow \<Rightarrow> workflow" where
  "at_phase ph s = s\<lparr>st_phase := Some ph\<rparr>"

definition failed_node :: "'w workflow_ports \<Rightarrow> string \<Rightarrow> string \<Rightarrow> string \<Rightarrow> string \<Rightarrow> string \<Rightarrow> workflow \<Rightarrow> ('w, workflow) io" where
  "failed_node p stage ph code msg event s = traced p stage ''failed'' event (at_phase ph (counted_error stage code msg s))"

section \<open>Request\<close>

text \<open>\<open>IncidentRequest.model_validate\<close>; the patterns are checked before the validator strips.\<close>

definition request_fields :: "(string \<times> string) list \<Rightarrow> (string \<times> string) list res" where
  "request_fields d = (case (map_of d ''namespace'', map_of d ''service_name'', map_of d ''description'') of
       (Some ns, Some svc, Some text) \<Rightarrow>
         if len_between 1 63 ns \<and> kubernetes_name ns \<and> len_between 1 63 svc \<and> kubernetes_name svc \<and> len_between 1 1000 text
         then Inr [(''namespace'', strip ns), (''service_name'', strip svc), (''description'', text)]
         else Inl ValidationError
     | _ \<Rightarrow> Inl ValidationError)"

definition identified :: "'w workflow_ports \<Rightarrow> workflow \<Rightarrow> ('w, workflow) io" where
  "identified p s = (if blank (st_incident_id s)
     then bindW (wp_uuid p) (\<lambda>i. returnW (s\<lparr>st_incident_id := Some i\<rparr>)) else returnW s)"

definition validate_request :: "'w workflow_ports \<Rightarrow> workflow \<Rightarrow> ('w, workflow) io" where
  "validate_request p s0 = bindW (identified p s0) (\<lambda>s.
     case request_fields (case st_request s of None \<Rightarrow> [] | Some d \<Rightarrow> d) of
       Inl e \<Rightarrow> failed_node p ''validate_request'' ''validation_failed'' ''INVALID_REQUEST'' (exn_text e)
         ''request schema validation failed'' (s\<lparr>wf_valid := Some False\<rparr>)
     | Inr d \<Rightarrow>
         if map_of d ''namespace'' \<noteq> Some safe_namespace
         then failed_node p ''validate_request'' ''validation_failed'' ''NAMESPACE_NOT_ALLOWED'' ''namespace is not allowed''
           ''namespace rejected by safety policy'' (s\<lparr>st_request := Some d, wf_valid := Some False\<rparr>)
         else traced p ''validate_request'' ''completed'' ''request validated''
           (at_phase ''validated'' (s\<lparr>st_request := Some d, wf_valid := Some True\<rparr>)))"

definition collection_steps :: "string list" where
  "collection_steps = [''get_service'', ''list_namespace_pod_names'', ''list_service_pod_names'',
     ''get_service_endpoint_slices'', ''get_pod_status'', ''get_pod_events'', ''get_pod_logs'', ''resolve_pod_owner'',
     ''get_deployment_config'', ''get_node_status'']"

definition plan_collection :: "'w workflow_ports \<Rightarrow> workflow \<Rightarrow> ('w, workflow) io" where
  "plan_collection p s = traced p ''plan_collection'' ''completed''
     (''planned '' @ decimal (length collection_steps) @ '' read-only operations'')
     (at_phase ''collection_planned'' (s\<lparr>wf_collection_plan := collection_steps\<rparr>))"

definition finish_failure :: "'w workflow_ports \<Rightarrow> workflow \<Rightarrow> ('w, workflow) io" where
  "finish_failure p s = traced p ''finish_failure'' ''completed'' ''workflow stopped because request was rejected''
     (at_phase ''failed'' s)"

section \<open>Collection\<close>

definition collector_error :: "(json \<Rightarrow> string) \<Rightarrow> json \<Rightarrow> json" where
  "collector_error repr v = (let head = [(''stage'', JStr ''collect_evidence''), (''code'', JStr ''KUBERNETES_COLLECTION_PARTIAL_ERROR'')]
     in case v of
       JObj d \<Rightarrow> JObj (head @ [(''operation'', dget d ''operation''), (''resource_kind'', dget d ''resource_kind''),
         (''resource_name'', dget d ''resource_name''), (''status_code'', dget d ''status_code''),
         (''message'', dget_or d ''message'' (JStr (repr v)))])
     | _ \<Rightarrow> JObj (head @ [(''message'', JStr (repr v))]))"

text \<open>What the \<open>try\<close> block reads: the evidence, the profile snapshot and the errors of the collector.\<close>

definition collected :: "'w workflow_ports \<Rightarrow> string \<Rightarrow> workflow \<Rightarrow> ('w, evidence list \<times> snapshot option \<times> json list) io" where
  "collected p i s =
     bindW (liftW (case st_request s of None \<Rightarrow> Inl KeyError | Some d \<Rightarrow> request_fields d)) (\<lambda>d.
     bindW (wp_collect p (the (map_of d ''namespace'')) (the (map_of d ''service_name''))) (\<lambda>b.
     bindW (wp_now p) (\<lambda>now.
     bindW (liftW (normalize_evidence i now (fst b))) (\<lambda>es.
       if es = [] then returnW ([], snd b, [])
       else bindW (liftW (jiter (dget_or (fst b) ''errors'' (JArr [])))) (\<lambda>errs.
         returnW (es, snd b, map (collector_error (wp_repr p)) errs))))))"

definition collected_state :: "evidence list \<Rightarrow> snapshot option \<Rightarrow> json list \<Rightarrow> workflow \<Rightarrow> workflow" where
  "collected_state es n errs s = s\<lparr>st_phase := Some (if errs \<noteq> [] then ''evidence_collected_with_errors'' else ''evidence_collected''),
     st_evidence := es, st_service_profile := n, wf_error_count := wf_error_count s + int (length errs),
     wf_errors := wf_errors s @ errs\<rparr>"

definition collect_evidence :: "'w workflow_ports \<Rightarrow> workflow \<Rightarrow> ('w, workflow) io" where
  "collect_evidence p s = bindW (liftW (case st_incident_id s of None \<Rightarrow> Inl KeyError | Some i \<Rightarrow> Inr i)) (\<lambda>i.
     bindW (tryW (collected p i s)) (\<lambda>r. case r of
       Inl e \<Rightarrow> failed_node p ''collect_evidence'' ''evidence_collection_failed'' ''COLLECTION_ERROR'' (exn_text e)
         ''evidence collection raised an exception'' s
     | Inr (es, n, errs) \<Rightarrow>
         if es = [] then failed_node p ''collect_evidence'' ''evidence_collection_failed'' ''EMPTY_EVIDENCE''
           ''collector returned no evidence'' ''no evidence was collected'' s
         else traced p ''collect_evidence'' ''completed'' (''collected '' @ decimal (length es) @ '' evidence items; collector errors: ''
           @ decimal (length errs)) (collected_state es n errs s)))"

section \<open>Retrieval\<close>

definition retrieval_types :: "string list" where
  "retrieval_types = [''BusinessCheck'', ''Service'', ''PodSelection'', ''EndpointSlice'', ''PodStatus'', ''PodEvents'',
     ''PodLogs'', ''Deployment'', ''Node'']"

definition query_line :: "(rat \<Rightarrow> string) \<Rightarrow> bool \<Rightarrow> evidence \<Rightarrow> string" where
  "query_line F unbounded e = (let t = json_text F (canon (JObj (ev_data e)));
       short = (if \<not> unbounded \<and> length t > 1200 then take 1200 t @ ''...[truncated]'' else t)
     in ev_type e @ '' '' @ ev_name e @ '':'' @ short)"

text \<open>
  \<open>build_retrieval_query\<close> without \<open>compact\<close>, as the node calls it. The two Chinese labels and the
  full-width colon stand here as ASCII texts of the same lengths.
\<close>

definition build_retrieval_query :: "(rat \<Rightarrow> string) \<Rightarrow> bool \<Rightarrow> incident_state \<Rightarrow> string" where
  "build_retrieval_query F unbounded s = (let get = (\<lambda>k. case req_get s k of None \<Rightarrow> [] | Some v \<Rightarrow> v);
       es = filter (\<lambda>e. ev_type e \<in> set retrieval_types) (sort_key (\<lambda>e. ev_type e \<noteq> ''BusinessCheck'') (st_evidence s));
       q = join_with [CHR 0x0A] ([''User:'' @ get ''description'', ''Goal:'' @ get ''namespace'' @ ''/'' @ get ''service_name'']
         @ map (query_line F unbounded) es)
     in if unbounded then q else take 8000 q)"

definition retrieve_runbooks :: "'w workflow_ports \<Rightarrow> workflow \<Rightarrow> ('w, workflow) io" where
  "retrieve_runbooks p s = (let q = build_retrieval_query (wp_float p) False (core s) in
     bindW (tryW (wp_retrieve p q 3)) (\<lambda>r. case r of
       Inl e \<Rightarrow> failed_node p ''retrieve_runbooks'' ''runbook_retrieval_failed'' ''RETRIEVAL_ERROR'' (exn_text e)
         ''runbook retrieval raised an exception'' s
     | Inr bs \<Rightarrow> traced p ''retrieve_runbooks'' ''completed'' (''retrieved '' @ decimal (length bs) @ '' runbook chunks'')
         (at_phase ''runbooks_retrieved'' (s\<lparr>wf_retrieval_query := Some q, st_retrieved_runbooks := bs\<rparr>))))"

end
