(* ===== verification/WorkflowNodes.thy ===== *)
theory WorkflowNodes
  imports Workflow ExecutionPolicy
begin

text \<open>
  The nodes that diagnose, plan, ask the human, execute and verify (\<open>nodes.py\<close>) and the two nodes of the
  clarification (\<open>agent/clarification.py\<close>). A node that interrupts is run again from its start with the
  value it was resumed with; without one it waits. Of the event of a completed plan the constant part
  is kept, without the two lists of identifiers it prints; error messages likewise keep their constant part.
\<close>

section \<open>Diagnosis\<close>

text \<open>What the node has learned of the model calls so far.\<close>

record progress =
  pg_usage :: "(string \<times> int) list"
  pg_retry :: nat
  pg_model :: "string option"
  pg_output :: "diagnosis option"

definition no_progress :: progress where
  "no_progress = \<lparr>pg_usage = [], pg_retry = 0, pg_model = None, pg_output = None\<rparr>"

text \<open>\<open>isinstance(value, int)\<close>\<close>

definition int_value :: "json \<Rightarrow> int option" where
  "int_value v = (case v of JInt n \<Rightarrow> Some n | JBool b \<Rightarrow> Some (if b then 1 else 0) | _ \<Rightarrow> None)"

fun add_usage :: "(string \<times> int) list \<Rightarrow> string \<times> json \<Rightarrow> (string \<times> int) list" where
  "add_usage u (k, v) = (case int_value v of None \<Rightarrow> u
     | Some n \<Rightarrow> put u k ((case map_of u k of None \<Rightarrow> 0 | Some m \<Rightarrow> m) + n))"

definition answered_by :: "diagnosis_reply \<Rightarrow> progress \<Rightarrow> progress" where
  "answered_by r g = g\<lparr>pg_model := Some (dr_model r), pg_output := Some (dr_diagnosis r),
     pg_usage := foldl add_usage (pg_usage g) (dr_usage r)\<rparr>"

record checked =
  ck_diagnosis :: diagnosis
  ck_indexed :: "string list"
  ck_controlled :: bool

definition gate :: "'w workflow_ports \<Rightarrow> diagnosis \<Rightarrow> incident_state \<Rightarrow> unit res" where
  "gate p d s = bindE (validate_diagnosis_references (wp_float p) d s) (\<lambda>_. validate_diagnosis_assessment (wp_hash p) d s)"

definition check_diagnosis :: "'w workflow_ports \<Rightarrow> diagnosis \<Rightarrow> incident_state \<Rightarrow> checked res" where
  "check_diagnosis p d0 s =
     bindE (normalize_reference_ids (d_evidence_ids d0)) (\<lambda>es.
     bindE (normalize_reference_ids (d_runbook_ids d0)) (\<lambda>rs.
     bindE (reconcile_declared_evidence (wp_float p) (d0\<lparr>d_evidence_ids := es, d_runbook_ids := rs\<rparr>) s) (\<lambda>(d, indexed).
     bindE (gate p d s) (\<lambda>_.
     bindE (build_controlled_report (wp_hash p) d s) (\<lambda>report.
     let final = (case report of None \<Rightarrow> d | Some r \<Rightarrow> r) in
     bindE (gate p final s) (\<lambda>_. Inr
       \<lparr>ck_diagnosis = final, ck_indexed = indexed, ck_controlled = (report \<noteq> None)\<rparr>))))))"

fun is_diagnosis_error :: "exn \<Rightarrow> bool" where
  "is_diagnosis_error (InvalidDiagnosisReference _) = True"
| "is_diagnosis_error (InvalidDiagnosisAssessment _) = True"
| "is_diagnosis_error _ = False"

definition rule_diagnosis :: "'w workflow_ports \<Rightarrow> incident_state \<Rightarrow> diagnosis option res" where
  "rule_diagnosis p s = bindE (diagnostic_facts (wp_hash p) s) (\<lambda>f.
     if \<not> can_report_insufficient_evidence f then Inr None
     else bindE (insufficient_evidence_diagnosis (wp_hash p) s) (\<lambda>d. bindE (gate p d s) (\<lambda>_. Inr (Some d))))"

text \<open>
  The calls of the model, \<open>n\<close> of them left: a rejected answer is fed back once, another exception
  ends the loop. The result is the accepted answer or the exception, with what was learned.
\<close>

fun diagnosis_loop :: "'w workflow_ports \<Rightarrow> workflow \<Rightarrow> nat \<Rightarrow> string option \<Rightarrow> progress \<Rightarrow> ('w, checked res \<times> progress) io" where
  "diagnosis_loop p s 0 feedback g = returnW (Inl (RuntimeErr ''diagnosis retry loop ended without a result''), g)"
| "diagnosis_loop p s (Suc n) feedback g0 = (let g = (if feedback = None then g0 else g0\<lparr>pg_retry := 1\<rparr>) in
     bindW (tryW (wp_diagnose p s feedback)) (\<lambda>r. case r of
       Inl e \<Rightarrow> returnW (Inl e, g)
     | Inr reply \<Rightarrow> (let g1 = answered_by reply g in
         case check_diagnosis p (dr_diagnosis reply) (core s) of
           Inr c \<Rightarrow> returnW (Inr c, g1)
         | Inl e \<Rightarrow> if is_diagnosis_error e \<and> n \<noteq> 0 then diagnosis_loop p s n (Some (exn_text e)) g1
                    else returnW (Inl e, g1))))"

definition with_progress :: "progress \<Rightarrow> workflow \<Rightarrow> workflow" where
  "with_progress g s = s\<lparr>wf_model_output := pg_output g, wf_llm_model := pg_model g, wf_llm_usage := pg_usage g,
     wf_retry_count := pg_retry g\<rparr>"

definition diagnosis_message :: "checked \<Rightarrow> progress \<Rightarrow> string" where
  "diagnosis_message c g = (if pg_retry g = 0 then ''structured diagnosis completed''
       else ''structured diagnosis completed after one validation retry'')
     @ (if ck_indexed c = [] then [] else ''; indexed existing Evidence references omitted from evidence_ids: ''
         @ join_with '', '' (ck_indexed c))"

definition diagnosed :: "'w workflow_ports \<Rightarrow> checked \<Rightarrow> progress \<Rightarrow> workflow \<Rightarrow> ('w, workflow) io" where
  "diagnosed p c g s =
     bindW (traced p ''diagnose_incident'' ''completed'' (diagnosis_message c g)
       (at_phase ''diagnosis_completed'' ((with_progress g s)\<lparr>st_diagnosis := Some (ck_diagnosis c)\<rparr>))) (\<lambda>s1.
     if ck_controlled c
     then traced p ''diagnosis_controlled_report'' ''completed''
       ''model classification validated; narrative generated from current evidence; original model output retained for audit'' s1
     else returnW s1)"

fun is_assessment_error :: "exn \<Rightarrow> bool" where
  "is_assessment_error (InvalidDiagnosisAssessment _) = True"
| "is_assessment_error _ = False"

definition failure_code :: "exn \<Rightarrow> string \<times> string" where
  "failure_code e =
     (if is_assessment_error e then (''INVALID_DIAGNOSIS_ASSESSMENT'', ''diagnosis assessment validation failed'')
      else if is_diagnosis_error e then (''INVALID_DIAGNOSIS_REFERENCE'', ''diagnosis reference validation failed'')
      else (''LLM_DIAGNOSIS_ERROR'', ''LLM diagnosis failed''))"

definition undiagnosed :: "'w workflow_ports \<Rightarrow> exn \<Rightarrow> progress \<Rightarrow> workflow \<Rightarrow> ('w, workflow) io" where
  "undiagnosed p e g s = failed_node p ''diagnose_incident'' ''diagnosis_failed'' (fst (failure_code e)) (exn_text e)
     (snd (failure_code e)) ((with_progress g s)\<lparr>st_diagnosis := None\<rparr>)"

definition diagnose_incident :: "'w workflow_ports \<Rightarrow> workflow \<Rightarrow> ('w, workflow) io" where
  "diagnose_incident p s = (case rule_diagnosis p (core s) of
       Inl e \<Rightarrow> undiagnosed p e no_progress s
     | Inr (Some d) \<Rightarrow> traced p ''diagnosis_policy_precheck'' ''completed''
         (''rule_precheck: insufficient evidence; diagnosis model not called; ''
          @ ''resource_status=not_ready; business_status=unknown; no write actions'')
         (at_phase ''diagnosis_completed'' ((with_progress no_progress s)\<lparr>st_diagnosis := Some d\<rparr>))
     | Inr None \<Rightarrow> bindW (diagnosis_loop p s 2 None no_progress) (\<lambda>(r, g). case r of
         Inl e \<Rightarrow> undiagnosed p e g s | Inr c \<Rightarrow> diagnosed p c g s))"

section \<open>Plan\<close>

definition skip_remediation :: "'w workflow_ports \<Rightarrow> workflow \<Rightarrow> ('w, workflow) io" where
  "skip_remediation p s = traced p ''skip_remediation'' ''completed''
     (''remediation skipped for fault category '' @ (case st_diagnosis s of None \<Rightarrow> ''unknown'' | Some d \<Rightarrow> fault_name (d_fault_category d)))
     (at_phase ''remediation_skipped'' (s\<lparr>st_remediation_plan := None, wf_risk_level := None,
       st_requires_approval := Some False, st_approved := None\<rparr>))"

definition planned_state :: "plan_reply \<Rightarrow> plan \<Rightarrow> workflow \<Rightarrow> workflow" where
  "planned_state r pl s = at_phase ''remediation_planned'' (s\<lparr>st_remediation_plan := Some pl, wf_risk_level := Some (pl_risk_level pl),
     st_requires_approval := Some (pl_requires_approval pl), st_approved := None,
     wf_remediation_model := Some (pr_model r), wf_remediation_usage := pr_usage r\<rparr>)"

definition plan_remediation :: "'w workflow_ports \<Rightarrow> workflow \<Rightarrow> ('w, workflow) io" where
  "plan_remediation p s = bindW (tryW (bindW (wp_plan p s) (\<lambda>r.
       bindW (liftW (prepare_remediation_plan (wp_hash p) (pr_plan r) (core s))) (\<lambda>(pl, added). returnW (r, pl))))) (\<lambda>x.
     case x of
       Inr (r, pl) \<Rightarrow> traced p ''plan_remediation'' ''completed'' ''structured remediation plan completed'' (planned_state r pl s)
     | Inl e \<Rightarrow> if is_invalid_plan e
         then failed_node p ''plan_remediation'' ''remediation_failed'' ''INVALID_REMEDIATION_PLAN'' (exn_text e)
           ''remediation plan validation failed'' s
         else failed_node p ''plan_remediation'' ''remediation_failed'' ''LLM_REMEDIATION_ERROR'' (exn_text e)
           ''LLM remediation planning failed'' s)"

section \<open>Approval\<close>

definition decided_text :: "bool \<Rightarrow> string" where
  "decided_text b = (if b then ''approved'' else ''rejected'')"

definition decided_state :: "bool \<Rightarrow> workflow \<Rightarrow> workflow" where
  "decided_state b s = at_phase (''approval_'' @ decided_text b)
     (s\<lparr>st_approval_status := Some (decided_text b), st_approved := Some b\<rparr>)"

definition approval_failed :: "'w workflow_ports \<Rightarrow> string \<Rightarrow> string \<Rightarrow> exn \<Rightarrow> string \<Rightarrow> workflow \<Rightarrow> ('w, workflow) io" where
  "approval_failed p stage code e event s = traced p stage ''failed'' event (at_phase ''approval_failed''
     ((with_error stage code (exn_text e) s)\<lparr>st_approval_status := Some ''failed''\<rparr>))"

fun is_approval_error :: "exn \<Rightarrow> bool" where
  "is_approval_error (InvalidApprovalRequest _) = True"
| "is_approval_error (InvalidApprovalDecision _) = True"
| "is_approval_error _ = False"

definition prepare_approval :: "'w workflow_ports \<Rightarrow> workflow \<Rightarrow> ('w, workflow) io" where
  "prepare_approval p s =
     (if st_requires_approval s \<noteq> Some True
      then traced p ''prepare_approval'' ''completed'' ''remediation plan does not require approval''
        (at_phase ''remediation_planned'' (s\<lparr>st_approval_status := Some ''not_required'', st_approved := None\<rparr>))
      else case bindE (load_existing_approval_record (core s)) (\<lambda>r. case r of
            Some rec \<Rightarrow> Inr (Inl rec) | None \<Rightarrow> bindE (build_approval_request (wp_hash p) (core s)) (\<lambda>q. Inr (Inr q))) of
        Inl e \<Rightarrow> if is_approval_error e
          then approval_failed p ''prepare_approval'' ''INVALID_APPROVAL_REQUEST'' e ''approval request validation failed''
            (s\<lparr>st_approved := None\<rparr>)
          else raiseW e
      | Inr (Inl rec) \<Rightarrow> traced p ''prepare_approval'' ''completed'' ''existing approval record preserved'' (decided_state (rc_approved rec) s)
      | Inr (Inr q) \<Rightarrow> traced p ''prepare_approval'' ''completed'' ''approval request prepared''
          (at_phase ''awaiting_approval'' (s\<lparr>st_approval_status := Some ''pending'', st_approval_request := Some q, st_approved := None\<rparr>)))"

text \<open>What a node leaves: a new state, or what it waits for.\<close>

datatype interrupt = ApprovalRequired approval_request | QuestionAsked question

datatype node_result = Update workflow | Interrupted interrupt

definition updated :: "('w, workflow) io \<Rightarrow> ('w, node_result) io" where
  "updated m = bindW m (\<lambda>s. returnW (Update s))"

text \<open>\<open>ApprovalRequest.model_validate(state.get("approval_request"))\<close> and the comparison\<close>

definition pending_approval :: "'w workflow_ports \<Rightarrow> incident_state \<Rightarrow> approval_request res" where
  "pending_approval p s = bindE (build_approval_request (wp_hash p) s) (\<lambda>expected. case st_approval_request s of
       None \<Rightarrow> Inl ValidationError
     | Some stored \<Rightarrow> if \<not> approval_request_schema stored then Inl ValidationError
         else if stored \<noteq> expected
         then Inl (InvalidApprovalRequest ''stored approval request does not match remediation plan'') else Inr expected)"

definition decode_decision :: "'w workflow_ports \<Rightarrow> json \<Rightarrow> approval_request \<Rightarrow> approval_decision res" where
  "decode_decision p v expected = (case wp_decision p v of
       None \<Rightarrow> Inl (InvalidApprovalDecision ''approval decision is invalid'')
     | Some d \<Rightarrow> validate_approval_decision d expected)"

definition decide :: "'w workflow_ports \<Rightarrow> approval_request \<Rightarrow> json \<Rightarrow> workflow \<Rightarrow> ('w, workflow) io" where
  "decide p expected v s = (case decode_decision p v expected of
       Inl e \<Rightarrow> approval_failed p ''request_human_approval'' ''INVALID_APPROVAL_DECISION'' e ''approval decision validation failed''
         (s\<lparr>st_approved := None\<rparr>)
     | Inr d \<Rightarrow> bindW (wp_now p) (\<lambda>now. bindW (liftW (create_approval_record now expected d)) (\<lambda>rec.
         traced p ''request_human_approval'' ''completed'' (''remediation plan '' @ decided_text (ad_approved d) @ '' by human'')
           ((decided_state (ad_approved d) s)\<lparr>st_approval_request := Some expected, st_approval_record := Some rec\<rparr>))))"

definition request_human_approval :: "'w workflow_ports \<Rightarrow> json option \<Rightarrow> workflow \<Rightarrow> ('w, node_result) io" where
  "request_human_approval p resume s = (case load_existing_approval_record (core s) of
       Inl e \<Rightarrow> updated (approval_failed p ''request_human_approval'' ''INVALID_APPROVAL_RECORD'' e ''existing approval record is invalid'' s)
     | Inr (Some rec) \<Rightarrow> updated (traced p ''request_human_approval'' ''completed'' ''duplicate approval request ignored''
         (decided_state (rc_approved rec) s))
     | Inr None \<Rightarrow> (case pending_approval p (core s) of
         Inl e \<Rightarrow> updated (approval_failed p ''request_human_approval'' ''INVALID_APPROVAL_REQUEST'' e
           ''approval request validation failed'' (s\<lparr>st_approved := None\<rparr>))
       | Inr expected \<Rightarrow> (case resume of
           None \<Rightarrow> returnW (Interrupted (ApprovalRequired expected))
         | Some v \<Rightarrow> updated (decide p expected v s))))"

section \<open>Execution and verification\<close>

definition error_code_or :: "string option \<Rightarrow> string \<Rightarrow> string" where
  "error_code_or c d = (case c of Some x \<Rightarrow> if x = [] then d else x | None \<Rightarrow> d)"

fun is_unauthorized :: "exn \<Rightarrow> bool" where
  "is_unauthorized (InvalidExecutionAuthorization _) = True"
| "is_unauthorized _ = False"

definition execute_remediation :: "'w workflow_ports \<Rightarrow> workflow \<Rightarrow> ('w, workflow) io" where
  "execute_remediation p s = (let failed = failed_node p ''execute_remediation'' in
     bindW (tryW (wp_execute p (core s))) (\<lambda>r. case r of
       Inl e \<Rightarrow> if is_unauthorized e
         then failed ''remediation_execution_failed'' ''INVALID_EXECUTION_AUTHORIZATION'' (exn_text e) ''execution authorization validation failed'' s
         else failed ''remediation_execution_failed'' ''REMEDIATION_EXECUTION_ERROR'' (exn_text e) ''remediation executor raised an exception'' s
     | Inr x \<Rightarrow> let s1 = s\<lparr>st_action_result := Some x\<rparr>; msg = error_code_or (x_error_message x) (x_message x) in
         if completed_status (x_status x)
         then traced p ''execute_remediation'' ''completed'' (''approved remediation finished with status '' @ execution_status_name (x_status x))
           (at_phase ''remediation_executed'' s1)
         else if x_status x = Conflict
         then failed ''remediation_execution_conflict'' (error_code_or (x_error_code x) ''REMEDIATION_CONFLICT'') msg
           ''approved remediation was blocked by a configuration conflict'' s1
         else failed ''remediation_execution_failed'' (error_code_or (x_error_code x) ''REMEDIATION_EXECUTION_ERROR'') msg
           ''approved remediation failed'' s1))"

definition verify_recovery :: "'w workflow_ports \<Rightarrow> workflow \<Rightarrow> ('w, workflow) io" where
  "verify_recovery p s = (let failed = failed_node p ''verify_recovery'' ''verification_failed'' in
     bindW (tryW (wp_verify p (core s))) (\<lambda>r. case r of
       Inl e \<Rightarrow> failed ''RECOVERY_VERIFICATION_ERROR'' (exn_text e) ''recovery verifier raised an exception'' s
     | Inr x \<Rightarrow> let s1 = s\<lparr>wf_verification := Some x\<rparr> in
         if rr_status x = VerifySucceeded
         then traced p ''verify_recovery'' ''completed'' ''Recovery verification succeeded'' (at_phase ''verification_succeeded'' s1)
         else if rr_status x = VerifySkipped
         then traced p ''verify_recovery'' ''completed'' ''recovery verification was skipped'' (at_phase ''verification_skipped'' s1)
         else failed (error_code_or (rr_error_code x) ''RECOVERY_VERIFICATION_ERROR'') (error_code_or (rr_error_message x) (rr_message x))
           (''Recovery verification finished with status '' @ verification_status_name (rr_status x)) s1))"

section \<open>Clarification\<close>

text \<open>
  \<open>QUESTION_SLOTS\<close>: of the alternatives of a pattern the ones that can occur in a modelled text, and the
  question in ASCII. \<open>re.search(..., re.I)\<close> on literal alternatives is a search without regard to case.
\<close>

definition question_slots :: "(string \<times> string list \<times> string) list" where
  "question_slots =
     [(''onset'', [''onset'', ''start time'', ''when''], ''when did it start''),
      (''changes'', [''recent change'', ''release'', ''manual action''], ''what was released or changed''),
      (''symptom'', [''user symptom'', ''error example''], ''what does the user see''),
      (''impact'', [''impact'', ''reproduction''], ''who is affected and how to reproduce'')]"

definition found_in :: "string \<Rightarrow> string list \<Rightarrow> bool" where
  "found_in t ps = list_ex (\<lambda>q. occurs_in q (map ascii_lower t)) ps"

definition missing_text :: "workflow \<Rightarrow> string" where
  "missing_text s = join_with [CHR 0x0A] (case Option.bind (st_diagnosis s) d_assessment of
     None \<Rightarrow> [] | Some a \<Rightarrow> a_missing_evidence a)"

definition open_slots :: "workflow \<Rightarrow> (string \<times> string) list" where
  "open_slots s = map (\<lambda>(k, ps, q). (k, q)) (filter (\<lambda>(k, ps, q). k \<notin> set (wf_asked s) \<and> found_in (missing_text s) ps) question_slots)"

definition diagnosed_unknown :: "workflow \<Rightarrow> bool" where
  "diagnosed_unknown s = (case st_diagnosis s of None \<Rightarrow> False | Some d \<Rightarrow> d_fault_category d = UnknownFault)"

definition may_ask :: "workflow \<Rightarrow> bool" where
  "may_ask s = (st_phase s = Some ''diagnosis_completed'' \<and> diagnosed_unknown s \<and> open_slots s \<noteq> [] \<and> wf_round s < 2)"

definition new_question :: "'w workflow_ports \<Rightarrow> string \<Rightarrow> workflow \<Rightarrow> question" where
  "new_question p run s = (let version = wf_round s + 1 in
     \<lparr>qu_id = ''q-'' @ take 24 (wp_sha p (run @ '':'' @ decimal version)), qu_version = version,
      qu_questions = take 2 (open_slots s), qu_reason = ''the diagnosis lacks information only a human can add'',
      qu_evidence_revision = wp_sha p (json_text (wp_float p) (canon (evidence_list_json (core s)))),
      qu_evidence_ids = map ev_id (filter (\<lambda>e. ev_id e \<noteq> []) (st_evidence s))\<rparr>)"

definition asked_state :: "question \<Rightarrow> workflow \<Rightarrow> workflow" where
  "asked_state q s = at_phase ''waiting_user'' (s\<lparr>wf_question := Some q, wf_round := qu_version q,
     wf_asked := wf_asked s @ map fst (qu_questions q)\<rparr>)"

fun is_budget_exceeded :: "exn \<Rightarrow> bool" where
  "is_budget_exceeded (BudgetExceeded _) = True"
| "is_budget_exceeded _ = False"

definition charge_question :: "'w workflow_ports \<Rightarrow> nat \<Rightarrow> ('w, unit) io" where
  "charge_question p version = (case wp_budget p of None \<Rightarrow> returnW () | Some f \<Rightarrow> f (''question:'' @ decimal version))"

definition prepare_clarification :: "'w workflow_ports \<Rightarrow> workflow \<Rightarrow> ('w, workflow) io" where
  "prepare_clarification p s =
     (if \<not> may_ask s
      then returnW (s\<lparr>wf_question := None, wf_exhausted := Some (wf_round s \<ge> 2 \<and> diagnosed_unknown s)\<rparr>)
      else bindW (tryW (charge_question p (wf_round s + 1))) (\<lambda>r. case r of
        Inl e \<Rightarrow> if is_budget_exceeded e
          then traced p ''budget'' ''failed'' ''question budget used up; unknown is kept and handed over''
            (s\<lparr>wf_question := None, wf_exhausted := Some True\<rparr>)
          else raiseW e
      | Inr _ \<Rightarrow> bindW (liftW (case st_run_id s of None \<Rightarrow> Inl KeyError | Some run \<Rightarrow> Inr run)) (\<lambda>run.
          returnW (asked_state (new_question p run s) s))))"

definition answered_state :: "json \<Rightarrow> bool \<Rightarrow> workflow \<Rightarrow> workflow" where
  "answered_state v skip s = at_phase (if skip then ''clarification_skipped'' else ''clarification_received'')
     (s\<lparr>wf_question := None, wf_answers := wf_answers s @ [v]\<rparr>)"

text \<open>The node is reached only with a question. An answer to another question, or to another version of it, is refused.\<close>

definition fitting_answer :: "question \<Rightarrow> json \<Rightarrow> bool res" where
  "fitting_answer q v =
     bindE (jget v ''question_id'') (\<lambda>i.
     bindE (if i \<noteq> JStr (qu_id q) then Inr False
            else bindE (jget v ''version'') (\<lambda>n. Inr (py_eq n (JInt (int (qu_version q)))))) (\<lambda>fits.
     bindE (require fits (PyValueError ''STALE_QUESTION_ANSWER'')) (\<lambda>_.
     bindE (jindex v ''skip'') (\<lambda>b. Inr (truthy b)))))"

definition await_user_input :: "'w workflow_ports \<Rightarrow> json option \<Rightarrow> workflow \<Rightarrow> ('w, node_result) io" where
  "await_user_input p resume s = (case wf_question s of
       None \<Rightarrow> raiseW TypeError
     | Some q \<Rightarrow> (case resume of
         None \<Rightarrow> returnW (Interrupted (QuestionAsked q))
       | Some v \<Rightarrow> bindW (liftW (fitting_answer q v)) (\<lambda>skip. returnW (Update (answered_state v skip s)))))"

end
