(* ===== verification/WorkflowGraph.thy ===== *)
theory WorkflowGraph
  imports WorkflowNodes
begin

text \<open>
  \<open>backend/app/agent/graph.py\<close>: the routing functions, the edges of the graph and its run. A run starts
  at a node, follows the edges and ends, or stops at a node that waits for a human; the next run
  resumes there. The graph library's part, running the node an edge names on the stored state, is
  written out as \<open>run_from\<close>; the checkpoints are the states handed from run to run.
\<close>

section \<open>Routes\<close>

definition route_after_validation :: "workflow \<Rightarrow> string" where
  "route_after_validation s = (if wf_valid s = Some True then ''continue'' else ''reject'')"

definition route_after_collection :: "workflow \<Rightarrow> string" where
  "route_after_collection s =
     (if st_phase s \<in> {Some ''evidence_collected'', Some ''evidence_collected_with_errors''} then ''retrieve'' else ''stop'')"

definition route_after_retrieval :: "workflow \<Rightarrow> string" where
  "route_after_retrieval s = (if st_phase s = Some ''runbooks_retrieved'' then ''diagnose'' else ''stop'')"

definition route_after_diagnosis :: "workflow \<Rightarrow> string" where
  "route_after_diagnosis s =
     (if st_phase s \<noteq> Some ''diagnosis_completed'' then ''stop''
      else case st_diagnosis s of
        None \<Rightarrow> ''plan''
      | Some d \<Rightarrow> if d_fault_category d \<in> {UnknownFault, NoFaultDetected} then ''skip'' else ''plan'')"

definition route_after_remediation :: "workflow \<Rightarrow> string" where
  "route_after_remediation s =
     (if st_phase s \<noteq> Some ''remediation_planned'' then ''stop''
      else if st_requires_approval s = Some True then ''approval'' else ''finish'')"

definition route_after_prepare_approval :: "workflow \<Rightarrow> string" where
  "route_after_prepare_approval s =
     (if st_phase s = Some ''awaiting_approval'' \<and> st_approval_status s = Some ''pending'' then ''request'' else ''stop'')"

definition route_after_approval :: "workflow \<Rightarrow> string" where
  "route_after_approval s =
     (if st_phase s = Some ''approval_approved'' \<and> st_approval_status s = Some ''approved'' \<and> st_approved s = Some True
      then ''execute'' else ''stop'')"

definition route_after_execution :: "workflow \<Rightarrow> string" where
  "route_after_execution s =
     (if st_phase s \<noteq> Some ''remediation_executed'' then ''stop''
      else case st_action_result s of
        Some x \<Rightarrow> if completed_status (x_status x) then ''verify'' else ''stop'' | None \<Rightarrow> ''stop'')"

section \<open>The graph\<close>

text \<open>Which services the graph is built with; each needs the one before it.\<close>

record graph_shape =
  gs_retriever :: bool
  gs_diagnoser :: bool
  gs_planner :: bool
  gs_executor :: bool
  gs_verifier :: bool
  gs_dialogue :: bool

definition graph_valid :: "graph_shape \<Rightarrow> unit res" where
  "graph_valid g = require_all PyValueError
     [(gs_diagnoser g \<longrightarrow> gs_retriever g, ''diagnoser requires a runbook retriever''),
      (gs_planner g \<longrightarrow> gs_diagnoser g, ''planner requires a diagnoser''),
      (gs_executor g \<longrightarrow> gs_planner g, ''executor requires a planner''),
      (gs_verifier g \<longrightarrow> gs_executor g, ''verifier requires an executor'')]"

datatype node = ValidateRequest | PlanCollection | CollectEvidence | FinishFailure | RetrieveRunbooks
  | DiagnoseIncident | PrepareClarification | AwaitUserInput | PlanRemediation | SkipRemediation
  | PrepareApproval | RequestApproval | ExecuteRemediation | VerifyRecovery

definition after_diagnosis :: "workflow \<Rightarrow> node option" where
  "after_diagnosis s = (let r = route_after_diagnosis s in
     if r = ''plan'' then Some PlanRemediation else if r = ''skip'' then Some SkipRemediation else None)"

text \<open>The edges; \<open>None\<close> is the end. A service that is missing ends the graph before its node.\<close>

fun next_node :: "graph_shape \<Rightarrow> node \<Rightarrow> workflow \<Rightarrow> node option" where
  "next_node g ValidateRequest s = Some (if route_after_validation s = ''continue'' then PlanCollection else FinishFailure)"
| "next_node g PlanCollection s = Some CollectEvidence"
| "next_node g FinishFailure s = None"
| "next_node g CollectEvidence s =
     (if gs_retriever g \<and> route_after_collection s = ''retrieve'' then Some RetrieveRunbooks else None)"
| "next_node g RetrieveRunbooks s =
     (if gs_diagnoser g \<and> route_after_retrieval s = ''diagnose'' then Some DiagnoseIncident else None)"
| "next_node g DiagnoseIncident s =
     (if \<not> gs_planner g then None else if gs_dialogue g then Some PrepareClarification else after_diagnosis s)"
| "next_node g PrepareClarification s = (if wf_question s \<noteq> None then Some AwaitUserInput else after_diagnosis s)"
| "next_node g AwaitUserInput s =
     Some (if st_phase s = Some ''clarification_skipped'' then SkipRemediation else CollectEvidence)"
| "next_node g SkipRemediation s = None"
| "next_node g PlanRemediation s = (if route_after_remediation s = ''approval'' then Some PrepareApproval else None)"
| "next_node g PrepareApproval s = (if route_after_prepare_approval s = ''request'' then Some RequestApproval else None)"
| "next_node g RequestApproval s =
     (if gs_executor g \<and> route_after_approval s = ''execute'' then Some ExecuteRemediation else None)"
| "next_node g ExecuteRemediation s =
     (if gs_verifier g \<and> route_after_execution s = ''verify'' then Some VerifyRecovery else None)"
| "next_node g VerifyRecovery s = None"

fun run_node :: "'w workflow_ports \<Rightarrow> node \<Rightarrow> json option \<Rightarrow> workflow \<Rightarrow> ('w, node_result) io" where
  "run_node p ValidateRequest r s = updated (validate_request p s)"
| "run_node p PlanCollection r s = updated (plan_collection p s)"
| "run_node p CollectEvidence r s = updated (collect_evidence p s)"
| "run_node p FinishFailure r s = updated (finish_failure p s)"
| "run_node p RetrieveRunbooks r s = updated (retrieve_runbooks p s)"
| "run_node p DiagnoseIncident r s = updated (diagnose_incident p s)"
| "run_node p PrepareClarification r s = updated (prepare_clarification p s)"
| "run_node p AwaitUserInput r s = await_user_input p r s"
| "run_node p PlanRemediation r s = updated (plan_remediation p s)"
| "run_node p SkipRemediation r s = updated (skip_remediation p s)"
| "run_node p PrepareApproval r s = updated (prepare_approval p s)"
| "run_node p RequestApproval r s = request_human_approval p r s"
| "run_node p ExecuteRemediation r s = updated (execute_remediation p s)"
| "run_node p VerifyRecovery r s = updated (verify_recovery p s)"

section \<open>Runs\<close>

datatype run_end = Ended workflow | Paused node workflow interrupt

text \<open>The position of a node on the way to the end; waiting without an answer is at the end of it.\<close>

fun node_rank :: "node \<Rightarrow> nat" where
  "node_rank ValidateRequest = 12"
| "node_rank PlanCollection = 11"
| "node_rank CollectEvidence = 10"
| "node_rank RetrieveRunbooks = 9"
| "node_rank DiagnoseIncident = 8"
| "node_rank PrepareClarification = 7"
| "node_rank PlanRemediation = 6"
| "node_rank PrepareApproval = 5"
| "node_rank RequestApproval = 4"
| "node_rank ExecuteRemediation = 3"
| "node_rank VerifyRecovery = 2"
| "node_rank SkipRemediation = 1"
| "node_rank FinishFailure = 1"
| "node_rank AwaitUserInput = 0"

definition steps_left :: "node \<Rightarrow> json option \<Rightarrow> nat" where
  "steps_left n r = (if n = AwaitUserInput \<and> r \<noteq> None then 11 else node_rank n)"

lemma next_node_rank:
  assumes "next_node g n s = Some n'" and "n \<noteq> AwaitUserInput"
  shows "node_rank n' < node_rank n"
  using assms by (cases n) (auto simp: after_diagnosis_def Let_def split: if_splits)

lemma await_without_answer: "await_user_input p None s w \<noteq> (Inr (Update s'), w')"
  by (auto simp: await_user_input_def io_simps split: option.splits)

lemma steps_left_less:
  assumes "run_node p n r s w = (Inr (Update s'), w')" and "next_node g n s' = Some n'"
  shows "steps_left n' None < steps_left n r"
proof (cases "n = AwaitUserInput")
  case True
  then have "r \<noteq> None"
    using assms(1) await_without_answer [of p s w s' w'] by (cases r) auto
  then show ?thesis
    using assms(2) True by (auto simp: steps_left_def split: if_splits)
next
  case False
  then show ?thesis
    using next_node_rank [OF assms(2) False] by (simp add: steps_left_def)
qed

function run_from ::
  "'w workflow_ports \<Rightarrow> graph_shape \<Rightarrow> node \<Rightarrow> json option \<Rightarrow> workflow \<Rightarrow> 'w \<Rightarrow> run_end res \<times> 'w" where
  "run_from p g n r s w = (case run_node p n r s w of
       (Inl e, w') \<Rightarrow> (Inl e, w')
     | (Inr (Interrupted i), w') \<Rightarrow> (Inr (Paused n s i), w')
     | (Inr (Update s'), w') \<Rightarrow> (case next_node g n s' of
         None \<Rightarrow> (Inr (Ended s'), w') | Some n' \<Rightarrow> run_from p g n' None s' w'))"
  by pat_completeness auto

termination
  by (relation "measure (\<lambda>(_, _, n, r, _, _). steps_left n r)") (auto simp: steps_left_less [OF sym])

declare run_from.simps [simp del]

text \<open>The life of an incident: runs, each resumed with the next human input, until one does not pause.\<close>

fun lifetime ::
  "'w workflow_ports \<Rightarrow> graph_shape \<Rightarrow> json list \<Rightarrow> node \<Rightarrow> json option \<Rightarrow> workflow \<Rightarrow> 'w \<Rightarrow> run_end res \<times> 'w" where
  "lifetime p g [] n r s w = run_from p g n r s w"
| "lifetime p g (v # vs) n r s w = (case run_from p g n r s w of
       (Inr (Paused n' s' i), w') \<Rightarrow> lifetime p g vs n' (Some v) s' w'
     | (x, w') \<Rightarrow> (x, w'))"

text \<open>The ways a run goes.\<close>

lemma run_fromE:
  assumes "run_from p g n r s w = (x, w')"
  obtains (raised) e where "run_node p n r s w = (Inl e, w')" and "x = Inl e"
  | (waits) i where "run_node p n r s w = (Inr (Interrupted i), w')" and "x = Inr (Paused n s i)"
  | (ends) s' where "run_node p n r s w = (Inr (Update s'), w')" and "next_node g n s' = None" and "x = Inr (Ended s')"
  | (goes_on) s' w1 n' where "run_node p n r s w = (Inr (Update s'), w1)" and "next_node g n s' = Some n'"
      and "run_from p g n' None s' w1 = (x, w')"
  using assms by (subst (asm) run_from.simps) (auto split: prod.splits sum.splits node_result.splits option.splits)

end
