(* ===== verification/WorkflowFacts.thy ===== *)
theory WorkflowFacts
  imports WorkflowGraph
begin

text \<open>
  What the nodes keep of the state, the calls they make, and what a human approval fixes.
\<close>

section \<open>What the nodes keep\<close>

named_theorems node_simps "the definitions of the nodes"

lemmas [node_simps] = failed_node_def counted_error_def with_error_def at_phase_def with_progress_def decided_state_def

text \<open>What every value a computation returns satisfies, whatever its calls answer.\<close>

definition yields :: "('a \<Rightarrow> bool) \<Rightarrow> ('w, 'a) io \<Rightarrow> bool" where
  "yields P m = (\<forall>w x w'. m w = (Inr x, w') \<longrightarrow> P x)"

named_theorems yields_intros "what computations return"

lemma yieldsD: "yields P m \<Longrightarrow> m w = (Inr x, w') \<Longrightarrow> P x"
  by (auto simp: yields_def)

lemma yields_weaken: "yields P m \<Longrightarrow> (\<And>x. P x \<Longrightarrow> Q x) \<Longrightarrow> yields Q m"
  by (auto simp: yields_def)

lemma yields_bind [yields_intros]: "(\<And>x. yields P (f x)) \<Longrightarrow> yields P (bindW m f)"
  by (auto simp: yields_def bindW_eq)

lemma yields_bind_value: "yields Q m \<Longrightarrow> (\<And>x. Q x \<Longrightarrow> yields P (f x)) \<Longrightarrow> yields P (bindW m f)"
  unfolding yields_def bindW_eq by blast

lemma yields_pure [yields_intros]: "P x \<Longrightarrow> yields P (returnW x)" "yields P (raiseW e)"
  by (auto simp: yields_def returnW_eq raiseW_eq)

lemma yields_split [yields_intros]:
  "(b \<Longrightarrow> yields P m) \<Longrightarrow> (\<not> b \<Longrightarrow> yields P m') \<Longrightarrow> yields P (if b then m else m')"
  "(\<And>e. q = Inl e \<Longrightarrow> yields P (f e)) \<Longrightarrow> (\<And>x. q = Inr x \<Longrightarrow> yields P (g x)) \<Longrightarrow> yields P (case_sum f g q)"
  "(o' = None \<Longrightarrow> yields P m) \<Longrightarrow> (\<And>x. o' = Some x \<Longrightarrow> yields P (h x)) \<Longrightarrow> yields P (case_option m h o')"
  "(\<And>a b. c = (a, b) \<Longrightarrow> yields P (k a b)) \<Longrightarrow> yields P (case_prod k c)"
  by (auto split: sum.split option.split prod.split)

lemma yields_traced [yields_intros]:
  "(\<And>t. P (s\<lparr>wf_trace := wf_trace s @ [trace_event step status msg t]\<rparr>)) \<Longrightarrow> yields P (traced p step status msg s)"
  by (auto simp: yields_def traced_def io_simps)

lemma yields_updated [yields_intros]: "yields (\<lambda>s. P (Update s)) m \<Longrightarrow> yields P (updated m)"
  by (auto simp: yields_def updated_def io_simps)

text \<open>The record of the decision, the number of questions and the identity of the incident.\<close>

definition keeps_record :: "workflow \<Rightarrow> workflow \<Rightarrow> bool" where
  "keeps_record s s' = (st_approval_record s' = st_approval_record s)"

definition keeps_round :: "workflow \<Rightarrow> workflow \<Rightarrow> bool" where
  "keeps_round s s' = (wf_round s' = wf_round s)"

abbreviation keeps_both :: "workflow \<Rightarrow> workflow \<Rightarrow> bool" where
  "keeps_both s s' \<equiv> keeps_record s s' \<and> keeps_round s s'"

lemmas keeps_defs = keeps_record_def keeps_round_def

lemma early_nodes_keep:
  "yields (keeps_both s) (validate_request p s)" "yields (keeps_both s) (plan_collection p s)"
  "yields (keeps_both s) (finish_failure p s)" "yields (keeps_both s) (collect_evidence p s)"
  "yields (keeps_both s) (retrieve_runbooks p s)"
proof -
  have i: "yields (keeps_both s) (identified p s)"
    unfolding identified_def by (intro yields_intros) (simp_all add: keeps_defs)
  show "yields (keeps_both s) (validate_request p s)"
    unfolding validate_request_def failed_node_def
    by (rule yields_bind_value [OF i], intro yields_intros) (simp_all add: keeps_defs node_simps)
  show "yields (keeps_both s) (plan_collection p s)" "yields (keeps_both s) (finish_failure p s)"
    unfolding plan_collection_def finish_failure_def by (intro yields_intros; simp add: keeps_defs node_simps)+
  show "yields (keeps_both s) (collect_evidence p s)"
    unfolding collect_evidence_def failed_node_def
    by (intro yields_intros) (simp_all add: keeps_defs node_simps collected_state_def)
  show "yields (keeps_both s) (retrieve_runbooks p s)"
    unfolding retrieve_runbooks_def failed_node_def Let_def
    by (intro yields_intros) (simp_all add: keeps_defs node_simps)
qed

lemma yields_failed_node:
  "yields (\<lambda>s'. st_approval_record s' = st_approval_record s \<and> wf_round s' = wf_round s \<and> st_diagnosis s' = st_diagnosis s
     \<and> st_phase s' = Some ph) (failed_node p stage ph code msg event s)"
  unfolding failed_node_def by (rule yields_traced) (simp add: node_simps)

lemma diagnosed_keeps:
  "yields (keeps_both s) (diagnosed p c g s)" "yields (keeps_both s) (undiagnosed p e g s)"
proof -
  have "yields (keeps_both s) (traced p a b m (at_phase ph ((with_progress g s)\<lparr>st_diagnosis := d\<rparr>)))" for a b m ph d
    by (rule yields_traced) (simp add: keeps_defs node_simps)
  moreover have "yields (keeps_both s) (traced p a b m s1)" if "keeps_both s s1" for a b m s1
    by (rule yields_traced) (use that in \<open>simp add: keeps_defs\<close>)
  ultimately show "yields (keeps_both s) (diagnosed p c g s)"
    unfolding diagnosed_def by (blast intro: yields_bind_value yields_split yields_pure)
  show "yields (keeps_both s) (undiagnosed p e g s)"
    unfolding undiagnosed_def by (rule yields_weaken [OF yields_failed_node]) (simp add: keeps_defs with_progress_def)
qed

lemma diagnosis_nodes_keep:
  "yields (keeps_both s) (diagnose_incident p s)" "yields (keeps_both s) (skip_remediation p s)"
  "yields (keeps_both s) (plan_remediation p s)" "yields (keeps_both s) (prepare_approval p s)"
  subgoal unfolding diagnose_incident_def
    by (intro yields_intros diagnosed_keeps) (simp_all add: keeps_defs node_simps)
  subgoal unfolding skip_remediation_def
    by (intro yields_intros) (simp_all add: keeps_defs node_simps)
  subgoal unfolding plan_remediation_def failed_node_def
    by (intro yields_intros) (simp_all add: keeps_defs node_simps planned_state_def)
  subgoal unfolding prepare_approval_def approval_failed_def
    by (intro yields_intros) (simp_all add: keeps_defs node_simps)
  done

lemma final_nodes_keep:
  "yields (keeps_both s) (execute_remediation p s)" "yields (keeps_both s) (verify_recovery p s)"
  subgoal unfolding execute_remediation_def failed_node_def Let_def
    by (intro yields_intros) (simp_all add: keeps_defs node_simps)
  subgoal unfolding verify_recovery_def failed_node_def Let_def
    by (intro yields_intros) (simp_all add: keeps_defs node_simps)
  done

lemma await_keeps: "yields (\<lambda>x. \<forall>s'. x = Update s' \<longrightarrow> keeps_both s s') (await_user_input p r s)"
  unfolding await_user_input_def
  by (intro yields_intros) (auto simp: keeps_defs node_simps answered_state_def)

definition asks_once :: "workflow \<Rightarrow> workflow \<Rightarrow> bool" where
  "asks_once s s' = (if wf_question s' = None then wf_round s' = wf_round s else wf_round s < 2 \<and> wf_round s' = Suc (wf_round s))"

lemma clarification_keeps: "yields (\<lambda>s'. keeps_record s s' \<and> asks_once s s') (prepare_clarification p s)"
  unfolding prepare_clarification_def
  by (intro yields_intros)
    (auto simp: keeps_defs asks_once_def node_simps may_ask_def asked_state_def new_question_def Let_def)

lemma request_keeps_round: "yields (\<lambda>x. \<forall>s'. x = Update s' \<longrightarrow> keeps_round s s') (request_human_approval p r s)"
  unfolding request_human_approval_def decide_def approval_failed_def
  by (intro yields_intros) (auto simp: keeps_defs node_simps)

lemmas nodes_keep = early_nodes_keep diagnosis_nodes_keep final_nodes_keep

lemma run_node_keeps_record:
  assumes "run_node p n r s w = (Inr (Update s'), w')" and "n \<noteq> RequestApproval"
  shows "keeps_record s s'"
  using assms by (cases n)
    (auto simp: updated_def io_simps dest: nodes_keep [THEN yieldsD] await_keeps [THEN yieldsD] clarification_keeps [THEN yieldsD])

lemma run_node_round:
  assumes "run_node p n r s w = (Inr (Update s'), w')"
  shows "if n = PrepareClarification then asks_once s s' else keeps_round s s'"
  using assms by (cases n)
    (auto simp: updated_def io_simps dest: nodes_keep [THEN yieldsD] await_keeps [THEN yieldsD]
      clarification_keeps [THEN yieldsD] request_keeps_round [THEN yieldsD])

section \<open>The calls of a run\<close>

datatype workflow_call =
    CollectCall
  | DiagnoseCall
  | PlanCall
  | ExecuteCall incident_state
  | VerifyCall incident_state

definition noted_ports :: "'w workflow_ports \<Rightarrow> ('w \<times> workflow_call list) workflow_ports" where
  "noted_ports p = \<lparr>wp_hash = wp_hash p, wp_sha = wp_sha p, wp_float = wp_float p, wp_repr = wp_repr p,
     wp_decision = wp_decision p, wp_uuid = silent (wp_uuid p), wp_now = silent (wp_now p),
     wp_collect = (\<lambda>ns svc. noting CollectCall (wp_collect p ns svc)), wp_retrieve = (\<lambda>q k. silent (wp_retrieve p q k)),
     wp_diagnose = (\<lambda>s fb. noting DiagnoseCall (wp_diagnose p s fb)), wp_plan = (\<lambda>s. noting PlanCall (wp_plan p s)),
     wp_execute = (\<lambda>x. noting (ExecuteCall x) (wp_execute p x)), wp_verify = (\<lambda>x. noting (VerifyCall x) (wp_verify p x)),
     wp_budget = map_option (\<lambda>f k. silent (f k)) (wp_budget p)\<rparr>"

lemma noted_ports_simps [simp]:
  "wp_hash (noted_ports p) = wp_hash p" "wp_decision (noted_ports p) = wp_decision p" "wp_float (noted_ports p) = wp_float p"
  "wp_uuid (noted_ports p) = silent (wp_uuid p)" "wp_now (noted_ports p) = silent (wp_now p)"
  "wp_collect (noted_ports p) ns svc = noting CollectCall (wp_collect p ns svc)"
  "wp_retrieve (noted_ports p) q k = silent (wp_retrieve p q k)"
  "wp_diagnose (noted_ports p) s fb = noting DiagnoseCall (wp_diagnose p s fb)"
  "wp_plan (noted_ports p) s = noting PlanCall (wp_plan p s)"
  "wp_execute (noted_ports p) x = noting (ExecuteCall x) (wp_execute p x)"
  "wp_verify (noted_ports p) x = noting (VerifyCall x) (wp_verify p x)"
  "wp_budget (noted_ports p) = map_option (\<lambda>f k. silent (f k)) (wp_budget p)"
  by (simp_all add: noted_ports_def)

text \<open>At most \<open>k\<close> calls, all of one kind.\<close>

abbreviation calling :: "('c \<Rightarrow> bool) \<Rightarrow> nat \<Rightarrow> ('w \<times> 'c list, 'a) io \<Rightarrow> bool" where
  "calling Q k m \<equiv> adds (\<lambda>_ tr. length tr \<le> k \<and> list_all Q tr) m"

named_theorems within_intros "the calls of the nodes"

lemma within_bind_both:
  assumes "calling Q j m" and "\<And>x. calling Q k (f x)"
  shows "calling Q (j + k) (bindW m f)"
  by (rule adds_bind [where A = "\<lambda>_ tr. length tr \<le> j \<and> list_all Q tr"
      and B = "\<lambda>_ _ tr. length tr \<le> k \<and> list_all Q tr"]) (use assms in auto)

lemma within_bind [within_intros]: "calling Q 0 m \<Longrightarrow> (\<And>x. calling Q k (f x)) \<Longrightarrow> calling Q k (bindW m f)"
  by (drule within_bind_both [where j = 0 and k = k]) (assumption, simp only: add_0)

lemma within_bind_first: "calling Q k m \<Longrightarrow> (\<And>x. calling Q 0 (f x)) \<Longrightarrow> calling Q k (bindW m f)"
  by (drule within_bind_both [where j = k and k = 0]) (assumption, simp only: add_0_right)

lemma within_pure [within_intros]:
  "calling Q k (returnW x)" "calling Q k (raiseW e)" "calling Q k (liftW r)" "calling Q k (silent m)"
  by (auto simp: adds_def io_simps)

lemma within_split [within_intros]:
  "(b \<Longrightarrow> calling Q k m) \<Longrightarrow> (\<not> b \<Longrightarrow> calling Q k m') \<Longrightarrow> calling Q k (if b then m else m')"
  "(\<And>e. q = Inl e \<Longrightarrow> calling Q k (f e)) \<Longrightarrow> (\<And>x. q = Inr x \<Longrightarrow> calling Q k (g x)) \<Longrightarrow> calling Q k (case_sum f g q)"
  "(o' = None \<Longrightarrow> calling Q k m) \<Longrightarrow> (\<And>x. o' = Some x \<Longrightarrow> calling Q k (h x)) \<Longrightarrow> calling Q k (case_option m h o')"
  "(\<And>a b. c = (a, b) \<Longrightarrow> calling Q k (l a b)) \<Longrightarrow> calling Q k (case_prod l c)"
  by (auto split: sum.split option.split prod.split)

lemma within_try [within_intros]: "calling Q k m \<Longrightarrow> calling Q k (tryW m)"
  by (rule adds_try)

lemma within_noting: "Q c \<Longrightarrow> calling Q 1 (noting c m)"
  by (rule adds_noting) simp

lemma within_traced [within_intros]: "calling Q k (traced (noted_ports p) step status msg s)"
  unfolding traced_def noted_ports_simps by (intro within_intros)

lemma within_updated [within_intros]: "calling Q k m \<Longrightarrow> calling Q k (updated m)"
  unfolding updated_def by (rule within_bind_first, assumption, rule within_pure)

lemma within_failed_node [within_intros]: "calling Q k (failed_node (noted_ports p) stage ph code msg event s)"
  unfolding failed_node_def by (rule within_traced)

lemma within_diagnosed [within_intros]:
  "calling Q k (diagnosed (noted_ports p) c g s)" "calling Q k (undiagnosed (noted_ports p) e g s)"
  unfolding diagnosed_def undiagnosed_def by (intro within_intros)+

lemma quiet_nodes:
  "calling Q 0 (validate_request (noted_ports p) s)" "calling Q 0 (plan_collection (noted_ports p) s)"
  "calling Q 0 (finish_failure (noted_ports p) s)" "calling Q 0 (retrieve_runbooks (noted_ports p) s)"
  "calling Q 0 (skip_remediation (noted_ports p) s)" "calling Q 0 (prepare_approval (noted_ports p) s)"
  subgoal unfolding validate_request_def identified_def noted_ports_simps by (intro within_intros)
  subgoal unfolding plan_collection_def by (intro within_intros)
  subgoal unfolding finish_failure_def by (intro within_intros)
  subgoal unfolding retrieve_runbooks_def Let_def noted_ports_simps by (intro within_intros)
  subgoal unfolding skip_remediation_def by (intro within_intros)
  subgoal unfolding prepare_approval_def approval_failed_def by (intro within_intros)
  done

lemma quiet_dialogue:
  "calling Q 0 (prepare_clarification (noted_ports p) s)" "calling Q 0 (await_user_input (noted_ports p) r s)"
  "calling Q 0 (request_human_approval (noted_ports p) r s)"
  subgoal unfolding prepare_clarification_def charge_question_def noted_ports_simps
    by (cases "wp_budget p") (simp_all only: option.map option.case, (intro within_intros)+)
  subgoal unfolding await_user_input_def by (intro within_intros)
  subgoal unfolding request_human_approval_def decide_def approval_failed_def noted_ports_simps by (intro within_intros)
  done

lemma collect_within: "calling (\<lambda>c. c = CollectCall) 1 (collect_evidence (noted_ports p) s)"
proof -
  have "calling (\<lambda>c. c = CollectCall) 1 (collected (noted_ports p) i s)" for i
    unfolding collected_def noted_ports_simps
    by (rule within_bind, rule within_pure, rule within_bind_first, rule within_noting, simp, intro within_intros)
  then show ?thesis
    unfolding collect_evidence_def
    by (intro within_bind within_pure within_bind_first within_intros)
qed

lemma diagnosis_loop_within: "calling (\<lambda>c. c = DiagnoseCall) n (diagnosis_loop (noted_ports p) s n fb g)"
proof (induction n arbitrary: fb g)
  case 0
  then show ?case
    unfolding diagnosis_loop.simps by (rule within_pure)
next
  case (Suc n)
  show ?case
    unfolding diagnosis_loop.simps Let_def noted_ports_simps
    unfolding Suc_eq_plus1_left
    by (rule within_bind_both, rule within_try, rule within_noting) (simp, intro within_intros Suc.IH)
qed

lemma diagnose_within: "calling (\<lambda>c. c = DiagnoseCall) 2 (diagnose_incident (noted_ports p) s)"
  unfolding diagnose_incident_def
  by (intro within_split within_traced within_diagnosed within_bind_first diagnosis_loop_within)

lemma port_nodes:
  "calling (\<lambda>c. c = PlanCall) 1 (plan_remediation (noted_ports p) s)"
  "calling (\<lambda>c. c = ExecuteCall (core s)) 1 (execute_remediation (noted_ports p) s)"
  "calling (\<lambda>c. c = VerifyCall (core s)) 1 (verify_recovery (noted_ports p) s)"
  subgoal unfolding plan_remediation_def noted_ports_simps
    by (intro within_bind_first within_try within_noting within_intros) simp_all
  subgoal unfolding execute_remediation_def noted_ports_simps Let_def
    by (intro within_bind_first within_try within_noting within_intros) simp_all
  subgoal unfolding verify_recovery_def noted_ports_simps Let_def
    by (intro within_bind_first within_try within_noting within_intros) simp_all
  done

section \<open>What a human approval fixes\<close>

definition human_approved :: "'w workflow_ports \<Rightarrow> json \<Rightarrow> incident_state \<Rightarrow> bool" where
  "human_approved p v x = (\<exists>d0 q d rec now. wp_decision p v = Some d0 \<and> build_approval_request (wp_hash p) x = Inr q
     \<and> validate_approval_decision d0 q = Inr d \<and> ad_approved d \<and> create_approval_record now q d = Inr rec
     \<and> st_approval_request x = Some q \<and> st_approval_record x = Some rec)"

lemma build_request_cong:
  assumes "st_incident_id s' = st_incident_id s" "st_run_id s' = st_run_id s" "st_request s' = st_request s"
    "st_evidence s' = st_evidence s" "st_service_profile s' = st_service_profile s" "st_diagnosis s' = st_diagnosis s"
    "st_remediation_plan s' = st_remediation_plan s" "st_requires_approval s' = st_requires_approval s"
  shows "build_approval_request H s' = build_approval_request H s"
proof -
  have i: "incident_of s' = incident_of s"
    by (simp add: incident_of_def assms)
  have e: "evidence_list_json s' = evidence_list_json s"
    by (simp add: evidence_list_json_def assms)
  then have d: "diagnosis_entries s' = diagnosis_entries s"
    by (cases "st_diagnosis s") (simp_all add: diagnosis_entries_def assms)
  have "approvable s' pl = approvable s pl" for pl
    by (simp add: approvable_def assms)
  moreover have "fingerprint_payload s' pl = fingerprint_payload s pl" for pl
    by (simp add: fingerprint_payload_def has_assessment_def request_json_def d i assms)
  ultimately show ?thesis
    unfolding build_approval_request_def i assms by presburger
qed

lemma decide_approves:
  assumes "decide p q v s w = (Inr s', w')" and "build_approval_request (wp_hash p) (core s) = Inr q"
    and "st_phase s' = Some ''approval_approved''"
  shows "human_approved p v (core s')"
proof (cases "decode_decision p v q")
  case (Inl e)
  then show ?thesis
    using assms(1,3) by (auto simp: decide_def approval_failed_def traced_def io_simps node_simps)
next
  case (Inr d)
  then obtain now rec t where rec: "create_approval_record now q d = Inr rec"
    and s': "s' = ((decided_state (ad_approved d) s)\<lparr>st_approval_request := Some q, st_approval_record := Some rec\<rparr>)\<lparr>wf_trace := t\<rparr>"
    using assms(1) by (auto simp: decide_def traced_def io_simps decided_state_def at_phase_def)
  have "ad_approved d"
    using assms(3) by (simp add: s' decided_state_def at_phase_def decided_text_def split: if_splits)
  moreover have "build_approval_request (wp_hash p) (core s') = Inr q"
    using assms(2) by (subst build_request_cong [where s = "core s"]) (simp_all add: s' decided_state_def at_phase_def)
  moreover obtain d0 where "wp_decision p v = Some d0" "validate_approval_decision d0 q = Inr d"
    using Inr by (auto simp: decode_decision_def split: option.splits)
  ultimately show ?thesis
    unfolding human_approved_def using rec by (auto simp: s')
qed

lemma request_approves:
  assumes "request_human_approval p r s w = (Inr (Update s'), w')" and "st_approval_record s = None"
    and "st_phase s' = Some ''approval_approved''"
  shows "\<exists>v. r = Some v \<and> human_approved p v (core s')"
proof -
  have none: "load_existing_approval_record (core s) = Inr None"
    by (simp add: load_existing_approval_record_def assms(2))
  show ?thesis
  proof (cases "pending_approval p (core s)")
    case (Inl e)
    then show ?thesis
      using assms(1,3) by (auto simp: request_human_approval_def none updated_def approval_failed_def traced_def io_simps node_simps)
  next
    case (Inr q)
    then have q: "build_approval_request (wp_hash p) (core s) = Inr q"
      by (auto simp: pending_approval_def res_simps split: option.splits if_splits)
    obtain v where v: "r = Some v"
      using assms(1) by (cases r) (auto simp: request_human_approval_def none Inr io_simps)
    then have "decide p q v s w = (Inr s', w')"
      using assms(1) by (auto simp: request_human_approval_def none Inr updated_def io_simps)
    from decide_approves [OF this q assms(3)] show ?thesis
      using v by blast
  qed
qed

section \<open>Budgets of a life\<close>

datatype call_kind = Collects | Diagnoses | Plans | Executes | Verifies

fun kind_of :: "workflow_call \<Rightarrow> call_kind" where
  "kind_of CollectCall = Collects"
| "kind_of DiagnoseCall = Diagnoses"
| "kind_of PlanCall = Plans"
| "kind_of (ExecuteCall _) = Executes"
| "kind_of (VerifyCall _) = Verifies"

definition calls_of :: "call_kind \<Rightarrow> workflow_call list \<Rightarrow> nat" where
  "calls_of k tr = length (filter (\<lambda>c. kind_of c = k) tr)"

lemma calls_of_simps [simp]: "calls_of k [] = 0" "calls_of k (xs @ ys) = calls_of k xs + calls_of k ys"
  by (simp_all add: calls_of_def)

definition node_calls :: "node \<Rightarrow> call_kind \<Rightarrow> nat" where
  "node_calls n k = (case n of
       CollectEvidence \<Rightarrow> if k = Collects then 1 else 0 | DiagnoseIncident \<Rightarrow> if k = Diagnoses then 2 else 0
     | PlanRemediation \<Rightarrow> if k = Plans then 1 else 0 | ExecuteRemediation \<Rightarrow> if k = Executes then 1 else 0
     | VerifyRecovery \<Rightarrow> if k = Verifies then 1 else 0 | _ \<Rightarrow> 0)"

lemma calls_of_kind:
  assumes "length tr \<le> j \<and> list_all (\<lambda>c. kind_of c = k') tr"
  shows "calls_of k tr \<le> (if k = k' then j else 0)"
proof -
  have "filter (\<lambda>c. kind_of c = k) tr = (if k = k' then tr else [])"
    using assms by (induction tr) auto
  then show ?thesis
    using assms by (simp add: calls_of_def)
qed

lemma run_node_calls: "adds (\<lambda>_ tr. calls_of k tr \<le> node_calls n k) (run_node (noted_ports p) n r s)"
proof -
  have kind: "adds (\<lambda>_ tr. calls_of k tr \<le> (if k = k' then j else 0)) m"
    if "calling Q j m" and "\<And>c. Q c \<Longrightarrow> kind_of c = k'" for Q j k' and m :: "('w \<times> workflow_call list, node_result) io"
  proof (rule adds_weaken [OF that(1)])
    fix tr assume "length tr \<le> j \<and> list_all Q tr"
    then show "calls_of k tr \<le> (if k = k' then j else 0)"
      using calls_of_kind that(2) by (metis (mono_tags, lifting) list_all_iff)
  qed
  have none: "adds (\<lambda>_ tr. calls_of k tr \<le> 0) m" if "calling (\<lambda>_. False) 0 m" for m :: "('w \<times> workflow_call list, node_result) io"
    using kind [OF that, of undefined] by (simp only: if_cancel)
  show ?thesis
    by (cases n; simp only: run_node.simps node_calls_def node.case)
      (rule none kind; (rule within_updated)?; (rule quiet_nodes quiet_dialogue collect_within diagnose_within port_nodes)?; simp)+
qed

end
