(* ===== verification/WorkflowProps.thy ===== *)
theory WorkflowProps
  imports WorkflowFacts ApprovalProps StabilityProps
begin

text \<open>
  The properties of the whole workflow: no execution without a human approval of exactly this plan,
  bounded pauses and calls in the life of an incident, and no published diagnosis that the gates
  did not accept.
\<close>

section \<open>Waiting\<close>

lemma interrupted_node:
  assumes "run_node p n r s w = (Inr (Interrupted i), w')"
  shows "n \<in> {AwaitUserInput, RequestApproval} \<and> r = None"
proof (cases n)
  case AwaitUserInput
  then show ?thesis
    using assms by (cases "wf_question s"; cases r) (auto simp: await_user_input_def io_simps)
next
  case RequestApproval
  have "r = None"
  proof (rule ccontr)
    assume "r \<noteq> None"
    then obtain v where v: "r = Some v"
      by blast
    have "yields (\<lambda>x. \<exists>s'. x = Update s') (request_human_approval p r s)"
      unfolding request_human_approval_def v option.case by (intro yields_intros) (auto simp: yields_def)
    from yieldsD [OF this] show False
      using assms RequestApproval by fastforce
  qed
  then show ?thesis
    using RequestApproval by simp
qed (use assms in \<open>auto simp: updated_def io_simps\<close>)

section \<open>Execution\<close>

definition decision_invariant :: "'w workflow_ports \<Rightarrow> json set \<Rightarrow> node \<Rightarrow> json option \<Rightarrow> workflow \<Rightarrow> bool" where
  "decision_invariant p V n r s = ((\<forall>v. r = Some v \<longrightarrow> v \<in> V)
     \<and> (if n = ExecuteRemediation then \<exists>v\<in>V. human_approved p v (core s)
        else n = VerifyRecovery \<or> st_approval_record s = None))"

lemma next_execute: "next_node g n s = Some ExecuteRemediation \<Longrightarrow> n = RequestApproval \<and> st_phase s = Some ''approval_approved''"
  by (cases n) (auto simp: after_diagnosis_def route_after_approval_def Let_def split: if_splits)

lemma next_verify: "next_node g n s = Some VerifyRecovery \<Longrightarrow> n = ExecuteRemediation"
  by (cases n) (auto simp: after_diagnosis_def Let_def split: if_splits)

lemma next_of_request: "next_node g RequestApproval s = Some n' \<Longrightarrow> n' = ExecuteRemediation"
  by (auto split: if_splits)

lemma human_approved_noted [simp]: "human_approved (noted_ports p) v x = human_approved p v x"
  by (simp add: human_approved_def)

lemma decision_invariant_step:
  assumes inv: "decision_invariant p V n r s" and step: "run_node (noted_ports p) n r s w = (Inr (Update s'), w1)"
    and next': "next_node g n s' = Some n'"
  shows "decision_invariant p V n' None s'"
proof (cases "n = RequestApproval")
  case True
  then have n': "n' = ExecuteRemediation"
    using next' next_of_request by blast
  have "st_phase s' = Some ''approval_approved''"
    using next' next_execute n' by blast
  then obtain v where "r = Some v" "human_approved p v (core s')"
    using request_approves [of "noted_ports p" r s w s' w1] step True inv by (auto simp: decision_invariant_def)
  then show ?thesis
    using inv n' by (auto simp: decision_invariant_def)
next
  case False
  have "n' \<noteq> ExecuteRemediation"
    using False next' next_execute by blast
  moreover have "n' = VerifyRecovery \<or> st_approval_record s' = None"
  proof (cases "n' = VerifyRecovery \<or> n = ExecuteRemediation \<or> n = VerifyRecovery")
    case True
    then show ?thesis
      using next' by (auto split: if_splits)
  next
    case other: False
    then show ?thesis
      using run_node_keeps_record [OF step False] inv by (auto simp: decision_invariant_def keeps_defs split: if_splits)
  qed
  ultimately show ?thesis
    by (simp add: decision_invariant_def)
qed

definition approved_calls :: "'w workflow_ports \<Rightarrow> json set \<Rightarrow> workflow_call list \<Rightarrow> bool" where
  "approved_calls p V tr = (\<forall>x. ExecuteCall x \<in> set tr \<longrightarrow> (\<exists>v\<in>V. human_approved p v x))"

lemma node_execute_calls:
  "adds (\<lambda>_ tr. \<forall>x. ExecuteCall x \<in> set tr \<longrightarrow> n = ExecuteRemediation \<and> x = core s) (run_node (noted_ports p) n r s)"
proof (cases "n = ExecuteRemediation")
  case True
  show ?thesis
    unfolding True run_node.simps
    by (rule adds_weaken [OF within_updated [OF port_nodes(2)]]) (auto simp: list_all_iff)
next
  case False
  show ?thesis
  proof (rule adds_weaken [OF run_node_calls [of Executes n]])
    fix tr assume "calls_of Executes tr \<le> node_calls n Executes"
    then have "calls_of Executes tr = 0"
      using False by (cases n) (auto simp: node_calls_def)
    then show "\<forall>x. ExecuteCall x \<in> set tr \<longrightarrow> n = ExecuteRemediation \<and> x = core s"
      by (auto simp: calls_of_def filter_empty_conv)
  qed
qed

lemma run_from_approved:
  assumes "run_from (noted_ports p) g n r s w = (x, w')" and "decision_invariant p V n r s"
  shows "\<exists>tr. snd w' = snd w @ tr \<and> approved_calls p V tr
    \<and> (\<forall>n' s' i. x = Inr (Paused n' s' i) \<longrightarrow> decision_invariant p V n' None s' \<and> n' \<in> {AwaitUserInput, RequestApproval})"
  using assms
proof (induction "noted_ports p" g n r s w rule: run_from.induct)
  case (1 g n r s w)
  have node: "\<exists>tr. snd w1 = snd w @ tr \<and> approved_calls p V tr" if "run_node (noted_ports p) n r s w = (y, w1)" for y w1
    using addsD [OF node_execute_calls that] "1.prems"(2) unfolding approved_calls_def decision_invariant_def by fastforce
  from "1.prems"(1) show ?case
  proof (cases rule: run_fromE)
    case (goes_on s' w1 n')
    from "1.hyps" [OF goes_on(1) [symmetric] refl refl goes_on(2,3) decision_invariant_step [OF "1.prems"(2) goes_on(1,2)]]
    show ?thesis
      using node [OF goes_on(1)] unfolding approved_calls_def by fastforce
  next
    case (waits i)
    then show ?thesis
      using node [OF waits(1)] interrupted_node [OF waits(1)] "1.prems"(2) by auto
  qed (use node in auto)
qed

lemma lifetime_approved:
  assumes "lifetime (noted_ports p) g vs n r s w = (x, w')" and "decision_invariant p V n r s" and "set vs \<subseteq> V"
  shows "\<exists>tr. snd w' = snd w @ tr \<and> approved_calls p V tr"
  using assms
proof (induction vs arbitrary: n r s w)
  case Nil
  then show ?case
    using run_from_approved by fastforce
next
  case (Cons v vs)
  obtain y w1 where run: "run_from (noted_ports p) g n r s w = (y, w1)"
    by (metis surj_pair)
  from run_from_approved [OF run Cons.prems(2)] obtain tr where tr: "snd w1 = snd w @ tr" "approved_calls p V tr"
    and paused: "\<And>n' s' i. y = Inr (Paused n' s' i) \<Longrightarrow> decision_invariant p V n' None s' \<and> n' \<in> {AwaitUserInput, RequestApproval}"
    by blast
  show ?case
  proof (cases "\<exists>n' s' i. y = Inr (Paused n' s' i)")
    case True
    then obtain n' s' i where y: "y = Inr (Paused n' s' i)"
      by blast
    have "decision_invariant p V n' (Some v) s'"
      using paused [OF y] Cons.prems(3) by (auto simp: decision_invariant_def split: if_splits)
    moreover have "lifetime (noted_ports p) g vs n' (Some v) s' w1 = (x, w')"
      using Cons.prems(1) by (simp add: run y)
    ultimately show ?thesis
      using Cons.IH [of n' "Some v" s' w1] Cons.prems(3) tr unfolding approved_calls_def by fastforce
  next
    case False
    then have "w' = w1"
      using Cons.prems(1) by (auto simp: run split: sum.splits run_end.splits)
    then show ?thesis
      using tr by blast
  qed
qed

text \<open>C12. No execution without approval. In the life of an incident, from any node before the decision and
  with no decision recorded, the executor is called only with a state for which one of the human
  inputs was a valid approving decision: for the approval request rebuilt from this very state, plan,
  evidence and profile included, and with the record made from that decision.\<close>

theorem execution_needs_approval:
  assumes "lifetime (noted_ports p) g vs n None s (w, []) = (x, w')" and "n \<notin> {ExecuteRemediation, VerifyRecovery}"
    and "st_approval_record s = None" and "ExecuteCall y \<in> set (snd w')"
  shows "\<exists>v\<in>set vs. human_approved p v y"
proof -
  have "decision_invariant p (set vs) n None s"
    using assms(2,3) by (auto simp: decision_invariant_def)
  from lifetime_approved [OF assms(1) this] show ?thesis
    using assms(4) by (auto simp: approved_calls_def)
qed

section \<open>Bounds\<close>

text \<open>How often each service can still be called, and how often the run can still wait.\<close>

definition questions_left :: "workflow \<Rightarrow> nat" where
  "questions_left s = 2 - wf_round s"

definition visits_left :: "node \<Rightarrow> workflow \<Rightarrow> nat" where
  "visits_left n s = (case n of
       ValidateRequest \<Rightarrow> questions_left s + 1 | PlanCollection \<Rightarrow> questions_left s + 1
     | CollectEvidence \<Rightarrow> questions_left s + 1 | AwaitUserInput \<Rightarrow> questions_left s + 1
     | RetrieveRunbooks \<Rightarrow> questions_left s | DiagnoseIncident \<Rightarrow> questions_left s
     | PrepareClarification \<Rightarrow> questions_left s | _ \<Rightarrow> 0)"

definition calls_left :: "call_kind \<Rightarrow> node \<Rightarrow> workflow \<Rightarrow> nat" where
  "calls_left k n s = (case k of
       Collects \<Rightarrow> visits_left n s
     | Diagnoses \<Rightarrow> 2 * (visits_left n s + (if n \<in> {RetrieveRunbooks, DiagnoseIncident} then 1 else 0))
     | Plans \<Rightarrow> (if n \<in> {PrepareApproval, RequestApproval, ExecuteRemediation, VerifyRecovery, SkipRemediation, FinishFailure} then 0 else 1)
     | Executes \<Rightarrow> (if n \<in> {VerifyRecovery, SkipRemediation, FinishFailure} then 0 else 1)
     | Verifies \<Rightarrow> (if n \<in> {SkipRemediation, FinishFailure} then 0 else 1))"

definition pauses_left :: "node \<Rightarrow> workflow \<Rightarrow> nat" where
  "pauses_left n s = (if n = AwaitUserInput then questions_left s + 2
     else if n \<in> {ValidateRequest, PlanCollection, CollectEvidence, RetrieveRunbooks, DiagnoseIncident, PrepareClarification}
     then questions_left s + 1
     else if n \<in> {PlanRemediation, PrepareApproval, RequestApproval} then 1 else 0)"

lemma node_calls_left: "node_calls n k \<le> calls_left k n s"
  by (cases n; cases k) (simp_all add: node_calls_def calls_left_def visits_left_def)

lemma round_step:
  assumes "run_node p n r s w = (Inr (Update s'), w1)" and "next_node g n s' = Some n'"
  shows "if n = PrepareClarification \<and> n' = AwaitUserInput then questions_left s = Suc (questions_left s')
     else questions_left s' = questions_left s"
  using run_node_round [OF assms(1)] assms(2)
  by (auto simp: questions_left_def keeps_defs asks_once_def after_diagnosis_def Let_def split: if_splits)

lemma after_diagnosis_Some: "after_diagnosis s = Some n \<Longrightarrow> n = PlanRemediation \<or> n = SkipRemediation"
  by (auto simp: after_diagnosis_def Let_def split: if_splits)

definition successors :: "node \<Rightarrow> node list" where
  "successors n = (case n of
       ValidateRequest \<Rightarrow> [PlanCollection, FinishFailure] | PlanCollection \<Rightarrow> [CollectEvidence]
     | CollectEvidence \<Rightarrow> [RetrieveRunbooks] | RetrieveRunbooks \<Rightarrow> [DiagnoseIncident]
     | DiagnoseIncident \<Rightarrow> [PrepareClarification, PlanRemediation, SkipRemediation]
     | PrepareClarification \<Rightarrow> [AwaitUserInput, PlanRemediation, SkipRemediation]
     | AwaitUserInput \<Rightarrow> [SkipRemediation, CollectEvidence] | PlanRemediation \<Rightarrow> [PrepareApproval]
     | PrepareApproval \<Rightarrow> [RequestApproval] | RequestApproval \<Rightarrow> [ExecuteRemediation]
     | ExecuteRemediation \<Rightarrow> [VerifyRecovery] | _ \<Rightarrow> [])"

lemma next_successor: "next_node g n s = Some n' \<Longrightarrow> n' \<in> set (successors n)"
  by (cases n) (auto simp: successors_def split: if_splits dest: after_diagnosis_Some)

lemma edge_budget:
  assumes "n' \<in> set (successors n)" and "if n = PrepareClarification \<and> n' = AwaitUserInput then questions_left s = Suc (questions_left s')
     else questions_left s' = questions_left s"
  shows "node_calls n k + calls_left k n' s' \<le> calls_left k n s"
proof (cases k)
  case Collects
  then show ?thesis
    using assms by (cases n) (auto simp: successors_def node_calls_def calls_left_def visits_left_def)
next
  case Diagnoses
  then show ?thesis
    using assms by (cases n) (auto simp: successors_def node_calls_def calls_left_def visits_left_def)
qed (use assms(1) in \<open>cases n; auto simp: successors_def node_calls_def calls_left_def\<close>)+

lemma edge_pauses:
  assumes "n' \<in> set (successors n)" and "if n = PrepareClarification \<and> n' = AwaitUserInput then questions_left s = Suc (questions_left s')
     else questions_left s' = questions_left s"
  shows "pauses_left n' s' \<le> pauses_left n s - (if n \<in> {AwaitUserInput, RequestApproval} then 1 else 0)"
  using assms by (cases n) (auto simp: successors_def pauses_left_def)

lemma budget_step:
  assumes "run_node p n r s w = (Inr (Update s'), w1)" and "next_node g n s' = Some n'"
  shows "node_calls n k + calls_left k n' s' \<le> calls_left k n s"
    and "pauses_left n' s' \<le> pauses_left n s - (if n \<in> {AwaitUserInput, RequestApproval} then 1 else 0)"
  by (fact edge_budget [OF next_successor [OF assms(2)] round_step [OF assms]],
      fact edge_pauses [OF next_successor [OF assms(2)] round_step [OF assms]])

lemma adds_all:
  assumes "\<And>k. adds (\<lambda>_ tr. Q k tr) m"
  shows "adds (\<lambda>_ tr. \<forall>k. Q k tr) m"
proof (rule addsI)
  fix w r w' assume m: "m w = (r, w')"
  obtain tr where tr: "snd w' = snd w @ tr"
    using addsD [OF assms m] by blast
  have "Q k tr" for k
    using addsD [OF assms m, of k] tr by auto
  then show "\<exists>tr. snd w' = snd w @ tr \<and> (\<forall>k. Q k tr)"
    using tr by blast
qed

text \<open>What a run leaves of the budget, when it stops at a node that waits.\<close>

definition left_over :: "call_kind \<Rightarrow> run_end res \<Rightarrow> nat" where
  "left_over k x = (case x of Inr (Paused n s i) \<Rightarrow> calls_left k n s | _ \<Rightarrow> 0)"

definition pauses_within :: "nat \<Rightarrow> run_end res \<Rightarrow> bool" where
  "pauses_within j x = (\<forall>n s i. x = Inr (Paused n s i) \<longrightarrow> n \<in> {AwaitUserInput, RequestApproval} \<and> pauses_left n s \<le> j)"

lemma left_over_simps [simp]:
  "left_over k (Inl e) = 0" "left_over k (Inr (Ended s)) = 0" "left_over k (Inr (Paused n s i)) = calls_left k n s"
  by (simp_all add: left_over_def)

lemma pauses_within_simps [simp]:
  "pauses_within j (Inl e)" "pauses_within j (Inr (Ended s))"
  "pauses_within j (Inr (Paused n s i)) \<longleftrightarrow> n \<in> {AwaitUserInput, RequestApproval} \<and> pauses_left n s \<le> j"
  by (auto simp: pauses_within_def)

definition resumed_discount :: "json option \<Rightarrow> nat" where
  "resumed_discount r = (if r = None then 0 else 1)"

lemma run_from_budget:
  assumes "run_from (noted_ports p) g n r s w = (x, w')" and "r = None \<or> n \<in> {AwaitUserInput, RequestApproval}"
  shows "\<exists>tr. snd w' = snd w @ tr \<and> (\<forall>k. calls_of k tr + left_over k x \<le> calls_left k n s)
     \<and> pauses_within (pauses_left n s - resumed_discount r) x"
  using assms
proof (induction "noted_ports p" g n r s w rule: run_from.induct)
  case (1 g n r s w)
  have node: "\<exists>tr. snd w1 = snd w @ tr \<and> (\<forall>k. calls_of k tr \<le> node_calls n k)"
    if "run_node (noted_ports p) n r s w = (y, w1)" for y w1
    using addsD [OF adds_all [where Q = "\<lambda>k tr. calls_of k tr \<le> node_calls n k", OF run_node_calls] that] by blast
  have small: "\<forall>k. calls_of k tr \<le> calls_left k n s" if "\<forall>k. calls_of k tr \<le> node_calls n k" for tr
    using that node_calls_left le_trans by blast
  from "1.prems"(1) show ?case
  proof (cases rule: run_fromE)
    case (raised e)
    obtain tr where tr: "snd w' = snd w @ tr" "\<forall>k. calls_of k tr \<le> node_calls n k"
      using node [OF raised(1)] by blast
    show ?thesis
      using tr(1) small [OF tr(2)] by (simp add: raised(2))
  next
    case (ends s')
    obtain tr where tr: "snd w' = snd w @ tr" "\<forall>k. calls_of k tr \<le> node_calls n k"
      using node [OF ends(1)] by blast
    show ?thesis
      using tr(1) small [OF tr(2)] by (simp add: ends(3))
  next
    case (goes_on s' w1 n')
    obtain tr where tr: "snd w1 = snd w @ tr" "\<forall>k. calls_of k tr \<le> node_calls n k"
      using node [OF goes_on(1)] by blast
    from "1.hyps" [OF goes_on(1) [symmetric] refl refl goes_on(2,3)] obtain tr2 where
      tr2: "snd w' = snd w1 @ tr2" "\<forall>k. calls_of k tr2 + left_over k x \<le> calls_left k n' s'"
      and pauses: "pauses_within (pauses_left n' s' - resumed_discount None) x"
      by blast
    have "calls_of k (tr @ tr2) + left_over k x \<le> calls_left k n s" for k
      using spec [OF tr(2), of k] spec [OF tr2(2), of k] budget_step(1) [OF goes_on(1,2), of k] by simp
    moreover have "pauses_left n' s' \<le> pauses_left n s - resumed_discount r"
      using budget_step(2) [OF goes_on(1,2)] "1.prems"(2) by (auto simp: resumed_discount_def split: if_splits)
    then have "pauses_within (pauses_left n s - resumed_discount r) x"
      using pauses by (auto simp: pauses_within_def resumed_discount_def)
    ultimately show ?thesis
      using tr(1) tr2(1) by (intro exI [of _ "tr @ tr2"]) simp
  next
    case (waits i)
    obtain tr where tr: "snd w' = snd w @ tr" "\<forall>k. calls_of k tr \<le> node_calls n k"
      using node [OF waits(1)] by blast
    have n: "n \<in> {AwaitUserInput, RequestApproval}" "r = None"
      using interrupted_node [OF waits(1)] by auto
    then have "node_calls n k = 0" for k
      by (auto simp: node_calls_def)
    then have "calls_of k tr = 0" for k
      using tr(2) by (metis le_zero_eq)
    then show ?thesis
      using tr(1) n by (simp add: waits(2) resumed_discount_def)
  qed
qed

lemma lifetime_budget:
  assumes "lifetime (noted_ports p) g vs n r s w = (x, w')" and "r = None \<or> n \<in> {AwaitUserInput, RequestApproval}"
  shows "\<exists>tr. snd w' = snd w @ tr \<and> (\<forall>k. calls_of k tr \<le> calls_left k n s)
     \<and> (\<forall>n' s' i. x = Inr (Paused n' s' i) \<longrightarrow> length vs < pauses_left n s - resumed_discount r)"
  using assms
proof (induction vs arbitrary: n r s w)
  case Nil
  then have "run_from (noted_ports p) g n r s w = (x, w')"
    by simp
  from run_from_budget [OF this Nil.prems(2)] obtain tr where tr: "snd w' = snd w @ tr"
    "\<forall>k. calls_of k tr + left_over k x \<le> calls_left k n s" "pauses_within (pauses_left n s - resumed_discount r) x"
    by blast
  have "0 < pauses_left n' s'" if "n' \<in> {AwaitUserInput, RequestApproval}" for n' s'
    using that by (auto simp: pauses_left_def)
  then have "\<forall>n' s' i. x = Inr (Paused n' s' i) \<longrightarrow> 0 < pauses_left n s - resumed_discount r"
    using tr(3) unfolding pauses_within_def by (metis le_zero_eq neq0_conv)
  moreover have "\<forall>k. calls_of k tr \<le> calls_left k n s"
    using tr(2) add_leD1 by blast
  ultimately show ?case
    using tr(1) by auto
next
  case (Cons v vs)
  obtain y w1 where run: "run_from (noted_ports p) g n r s w = (y, w1)"
    by (metis surj_pair)
  from run_from_budget [OF run Cons.prems(2)] obtain tr where tr: "snd w1 = snd w @ tr"
    "\<forall>k. calls_of k tr + left_over k y \<le> calls_left k n s" "pauses_within (pauses_left n s - resumed_discount r) y"
    by blast
  show ?case
  proof (cases "\<exists>n' s' i. y = Inr (Paused n' s' i)")
    case True
    then obtain n' s' i where y: "y = Inr (Paused n' s' i)"
      by blast
    have "lifetime (noted_ports p) g vs n' (Some v) s' w1 = (x, w')"
      using Cons.prems(1) by (simp add: run y)
    moreover have n': "n' \<in> {AwaitUserInput, RequestApproval}" "pauses_left n' s' \<le> pauses_left n s - resumed_discount r"
      using tr(3) by (simp_all add: y)
    ultimately obtain tr2 where tr2: "snd w' = snd w1 @ tr2" "\<forall>k. calls_of k tr2 \<le> calls_left k n' s'"
      and more: "\<forall>n'' s'' i. x = Inr (Paused n'' s'' i) \<longrightarrow> length vs < pauses_left n' s' - resumed_discount (Some v)"
      using Cons.IH [of n' "Some v" s' w1] by blast
    have "calls_of k (tr @ tr2) \<le> calls_left k n s" for k
      using spec [OF tr(2), of k] spec [OF tr2(2), of k] by (simp add: y)
    moreover have "length (v # vs) < pauses_left n s - resumed_discount r" if "x = Inr (Paused n'' s'' i)" for n'' s'' i
      using more that n'(2) by (auto simp: resumed_discount_def [of "Some v"])
    moreover have "snd w' = snd w @ (tr @ tr2)"
      using tr(1) tr2(1) by simp
    ultimately show ?thesis
      by blast
  next
    case False
    then have same: "w' = w1" "x = y"
      using Cons.prems(1) by (auto simp: run split: sum.splits run_end.splits)
    have "\<forall>k. calls_of k tr \<le> calls_left k n s"
      using tr(2) add_leD1 by blast
    then show ?thesis
      using tr(1) False same by auto
  qed
qed


section \<open>Published diagnoses\<close>

definition gated :: "'w workflow_ports \<Rightarrow> workflow \<Rightarrow> diagnosis \<Rightarrow> bool" where
  "gated p s d = (validate_diagnosis_references (wp_float p) d (core s) = Inr ()
     \<and> validate_diagnosis_assessment (wp_hash p) d (core s) = Inr ())"

lemma gate_Inr: "gate p d (core s) = Inr u \<Longrightarrow> gated p s d"
  by (auto simp: gate_def gated_def res_simps)

lemma check_diagnosis_gated: "check_diagnosis p d (core s) = Inr c \<Longrightarrow> gated p s (ck_diagnosis c)"
  by (auto simp: check_diagnosis_def res_simps Let_def dest: gate_Inr)

lemma diagnosis_loop_gated: "yields (\<lambda>(r, g). \<forall>c. r = Inr c \<longrightarrow> gated p s (ck_diagnosis c)) (diagnosis_loop p s n fb g)"
proof (induction n arbitrary: fb g)
  case (Suc n)
  show ?case
    unfolding diagnosis_loop.simps Let_def
    by (intro yields_intros Suc.IH) (auto dest: check_diagnosis_gated)
qed (simp add: yields_def returnW_eq)

definition diagnosis_outcome :: "'w workflow_ports \<Rightarrow> workflow \<Rightarrow> workflow \<Rightarrow> bool" where
  "diagnosis_outcome p s s' = ((st_phase s' = Some ''diagnosis_completed'' \<and> (\<exists>d. st_diagnosis s' = Some d \<and> gated p s d))
     \<or> (st_phase s' = Some ''diagnosis_failed'' \<and> st_diagnosis s' = None \<and> wf_error_count s' = wf_error_count s + 1))"

lemma undiagnosed_outcome: "yields (diagnosis_outcome p s) (undiagnosed p e g s)"
  unfolding undiagnosed_def failed_node_def
  by (rule yields_traced) (simp add: diagnosis_outcome_def node_simps)

lemma diagnosed_outcome:
  assumes "gated p s (ck_diagnosis c)"
  shows "yields (diagnosis_outcome p s) (diagnosed p c g s)"
proof -
  let ?P = "\<lambda>s'. st_phase s' = Some ''diagnosis_completed'' \<and> st_diagnosis s' = Some (ck_diagnosis c)"
  have first: "yields ?P (traced p a b m (at_phase ''diagnosis_completed'' ((with_progress g s)\<lparr>st_diagnosis := Some (ck_diagnosis c)\<rparr>)))" for a b m
    by (rule yields_traced) (simp add: node_simps)
  have second: "yields ?P (traced p a b m s1)" if "?P s1" for a b m s1
    by (rule yields_traced) (use that in simp)
  have "yields ?P (diagnosed p c g s)"
    unfolding diagnosed_def by (rule yields_bind_value [OF first]) (blast intro: second yields_split yields_pure)
  then show ?thesis
    by (rule yields_weaken) (use assms in \<open>simp add: diagnosis_outcome_def\<close>)
qed

text \<open>C27. Published diagnoses are validated. When the diagnosis node ends, either the state carries a
  diagnosis that both gates accept on the evidence of this state: every citation and mention known, the
  assessment consistent with the recomputed facts; or it carries none, the phase says that the diagnosis
  failed and the error is counted.\<close>

theorem published_diagnosis_validated:
  assumes "diagnose_incident p s w = (Inr s', w')"
  shows "(st_phase s' = Some ''diagnosis_completed'' \<and> (\<exists>d. st_diagnosis s' = Some d
       \<and> validate_diagnosis_references (wp_float p) d (core s) = Inr () \<and> validate_diagnosis_assessment (wp_hash p) d (core s) = Inr ()))
     \<or> (st_phase s' = Some ''diagnosis_failed'' \<and> st_diagnosis s' = None \<and> wf_error_count s' = wf_error_count s + 1)"
proof -
  have "yields (diagnosis_outcome p s) (diagnose_incident p s)"
  proof (cases "rule_diagnosis p (core s)")
    case (Inl e)
    then show ?thesis
      by (simp add: diagnose_incident_def undiagnosed_outcome)
  next
    case (Inr o')
    show ?thesis
    proof (cases o')
      case None
      show ?thesis
        unfolding diagnose_incident_def Inr None sum.case option.case
        by (rule yields_bind_value [OF diagnosis_loop_gated])
          (auto simp: undiagnosed_outcome diagnosed_outcome split: sum.split)
    next
      case (Some d)
      then have "gated p s d"
        using Inr by (auto simp: rule_diagnosis_def res_simps dest: gate_Inr split: if_splits)
      then show ?thesis
        unfolding diagnose_incident_def Inr Some sum.case option.case
        by (intro yields_traced) (simp add: diagnosis_outcome_def node_simps)
    qed
  qed
  from yieldsD [OF this assms] show ?thesis
    by (simp add: diagnosis_outcome_def gated_def)
qed

section \<open>A concrete life\<close>

definition workflow_of :: "incident_state \<Rightarrow> workflow" where
  "workflow_of s = incident_state.extend s (workflow.fields None 0 [] [] [] None None None [] 0 None None [] None None 0 [] [] None)"

definition bench_workflow_ports :: "unit workflow_ports" where
  "bench_workflow_ports = \<lparr>wp_hash = demo_hash, wp_sha = demo_text_hash, wp_float = (\<lambda>q. ''0.5''), wp_repr = (\<lambda>v. ''?''),
     wp_decision = (\<lambda>v. if v = JStr ''approve'' then Some demo_decision else None),
     wp_uuid = returnW ''incident-1'', wp_now = returnW ''t1'',
     wp_collect = (\<lambda>ns svc. returnW (bench_bundle, Some demo_snapshot)), wp_retrieve = (\<lambda>q k. returnW []),
     wp_diagnose = (\<lambda>s fb. raiseW (TimeoutErr ''model'')), wp_plan = (\<lambda>s. raiseW (TimeoutErr ''model'')),
     wp_execute = (\<lambda>x. returnW bench_action), wp_verify = (\<lambda>x. raiseW (TimeoutErr ''cluster'')), wp_budget = None\<rparr>"

definition full_graph :: graph_shape where
  "full_graph = \<lparr>gs_retriever = True, gs_diagnoser = True, gs_planner = True, gs_executor = True, gs_verifier = True, gs_dialogue = False\<rparr>"

definition executed_states :: "workflow_call list \<Rightarrow> incident_state list" where
  "executed_states tr = concat (map (\<lambda>c. case c of ExecuteCall x \<Rightarrow> [x] | _ \<Rightarrow> []) tr)"

definition approval_life :: "run_end res \<times> unit \<times> workflow_call list" where
  "approval_life = lifetime (noted_ports bench_workflow_ports) full_graph [JStr ''approve''] PrepareApproval None
     (workflow_of pending_state) ((), [])"

lemma approval_life_executes: "map st_approved (executed_states (snd (snd approval_life))) = [Some True]"
  by code_simp

lemma executed_states_call: "y \<in> set (executed_states tr) \<Longrightarrow> ExecuteCall y \<in> set tr"
  by (auto simp: executed_states_def split: workflow_call.splits)

lemma execution_needs_approval_witness:
  "\<exists>y. human_approved bench_workflow_ports (JStr ''approve'') y \<and> st_approved y = Some True"
proof -
  obtain y where y: "y \<in> set (executed_states (snd (snd approval_life)))" "st_approved y = Some True"
    using approval_life_executes by (cases "executed_states (snd (snd approval_life))") auto
  obtain x w' where run: "approval_life = (x, w')"
    by (metis surj_pair)
  have "ExecuteCall y \<in> set (snd w')"
    using executed_states_call [OF y(1)] by (simp add: run)
  moreover have "st_approval_record (workflow_of pending_state) = None"
    by code_simp
  ultimately have "\<exists>v\<in>set [JStr ''approve'']. human_approved bench_workflow_ports v y"
    by (intro execution_needs_approval [OF run [unfolded approval_life_def]]) simp_all
  then show ?thesis
    using y(2) by auto
qed

definition collection_graph :: graph_shape where
  "collection_graph = \<lparr>gs_retriever = False, gs_diagnoser = False, gs_planner = False, gs_executor = False,
     gs_verifier = False, gs_dialogue = False\<rparr>"

definition first_life :: "run_end res \<times> unit \<times> workflow_call list" where
  "first_life = lifetime (noted_ports bench_workflow_ports) collection_graph [] ValidateRequest None
     (workflow_of (empty_state\<lparr>st_request := Some demo_request\<rparr>)) ((), [])"

lemma first_life_calls: "snd (snd first_life) = [CollectCall]"
  by code_simp


lemma rule_diagnosis_published:
  "map_sum id (\<lambda>s. st_phase s) (fst (diagnose_incident bench_workflow_ports (workflow_of unready_state) ())) = Inr (Some ''diagnosis_completed'')"
  by code_simp

lemma published_diagnosis_validated_witness:
  "\<exists>s' d. st_phase s' = Some ''diagnosis_completed'' \<and> st_diagnosis s' = Some d
     \<and> diagnose_incident bench_workflow_ports (workflow_of unready_state) () = (Inr s', ())
     \<and> validate_diagnosis_assessment demo_hash d (core (workflow_of unready_state)) = Inr ()"
proof -
  obtain y where run: "diagnose_incident bench_workflow_ports (workflow_of unready_state) () = (y, ())"
    by (metis (full_types) old.unit.exhaust surj_pair)
  with rule_diagnosis_published obtain s' where y: "y = Inr s'" "st_phase s' = Some ''diagnosis_completed''"
    by (cases y) auto
  from published_diagnosis_validated [OF run [unfolded y(1)]] y run show ?thesis
    by (auto simp: bench_workflow_ports_def)
qed

end
