(* ===== verification/Resumption.thy ===== *)
theory Resumption
  imports Operations Scenario
begin

text \<open>
  \<open>backend/app/runtime/recovery.py\<close>: what a worker may do with a run it has just claimed. The saved
  checkpoint, the journal entry and the lease are classified before anything is started: start from
  the request, continue, resume with a human input, or stop and publish a status. The checkpoint is
  the graph library's; its values are JSON.
\<close>

section \<open>Errors that may pass\<close>

text \<open>The exception classes of the database driver and the HTTP and model clients that are told apart.\<close>

datatype error_kind = DatabaseError "string option" | Unreachable | StatusError int | OtherKind

definition transient :: "error_kind \<Rightarrow> bool" where
  "transient k = (case k of
       DatabaseError state \<Rightarrow> (case state of None \<Rightarrow> True
         | Some s \<Rightarrow> starts_with ''08'' s \<or> s \<in> {''53300'', ''57P01'', ''57P02'', ''57P03''})
     | Unreachable \<Rightarrow> True
     | StatusError n \<Rightarrow> n \<in> {408, 429} \<or> n \<ge> 500
     | OtherKind \<Rightarrow> False)"

section \<open>What is classified\<close>

record pending_task =
  tk_name :: "string option"
  tk_interrupts :: bool
  tk_error :: bool

record checkpoint =
  cp_values :: dict
  cp_next :: "string list"
  cp_tasks :: "pending_task list"
  cp_id :: "string option"

datatype recovery_action = Start | Continue | Resume | ResumeUser | Stop

record recovery_decision =
  rd_action :: recovery_action
  rd_status :: "run_status option"
  rd_code :: "string option"

definition proceed :: "recovery_action \<Rightarrow> recovery_decision" where
  "proceed a = \<lparr>rd_action = a, rd_status = None, rd_code = None\<rparr>"

definition stop_with :: "run_status \<Rightarrow> string option \<Rightarrow> recovery_decision" where
  "stop_with st code = \<lparr>rd_action = Stop, rd_status = Some st, rd_code = code\<rparr>"

definition round_workflows :: "string list" where
  "round_workflows = [''incident-round-v1'', ''incident-dialogue-v1'', ''incident-investigation-v1'']"

definition is_round :: "run_row \<Rightarrow> bool" where
  "is_round r = (r_workflow_version r \<in> set round_workflows)"

definition is_investigation :: "run_row \<Rightarrow> bool" where
  "is_investigation r = (r_workflow_version r = ''incident-investigation-v1'')"

section \<open>The saved input\<close>

definition context_intact :: "(json \<Rightarrow> string) \<Rightarrow> run_row \<Rightarrow> bool" where
  "context_intact H r = (case r_context_snapshot r of
       Some (JObj c) \<Rightarrow> r_context_sha256 r = Some (digest H (JObj c)) | _ \<Rightarrow> False)"

definition input_intact :: "(json \<Rightarrow> string) \<Rightarrow> run_row \<Rightarrow> bool" where
  "input_intact H r = ((r_workflow_version r = ''incident-v1'' \<or> is_round r)
     \<and> digest H (r_input_payload r) = r_input_sha256 r \<and> (is_round r \<longrightarrow> context_intact H r))"

definition nothing_saved :: "checkpoint \<Rightarrow> bool" where
  "nothing_saved c = (cp_values c = [] \<and> cp_next c = [] \<and> blank (cp_id c) \<and> cp_tasks c = [])"

text \<open>\<open>v or {}\<close>\<close>

definition or_empty :: "json \<Rightarrow> json" where
  "or_empty v = (if truthy v then v else JObj [])"

text \<open>\<open>approval_binding(state)\<close> on the values of the checkpoint\<close>

definition state_binding :: "(json \<Rightarrow> string) \<Rightarrow> dict \<Rightarrow> string" where
  "state_binding H st = digest H (JObj (map (\<lambda>k. (k, dget st k))
     ([''request'', ''remediation_plan'', ''service_profile'', ''diagnosis'', ''evidence'']
      @ (if truthy (dget st ''run_id'') then [''run_id''] else []))))"

definition input_checks :: "run_row \<Rightarrow> dict \<Rightarrow> (bool \<times> string) list" where
  "input_checks r st =
     [(dget st ''incident_id'' = JStr (r_incident_id r), ''CHECKPOINT_IDENTITY_MISMATCH''),
      (py_eq (dget st ''request'') (r_input_payload r), ''CHECKPOINT_INPUT_MISMATCH''),
      (is_round r \<longrightarrow> py_eq (dget st ''round_context'') (opt_get (r_context_snapshot r))
         \<and> dget st ''run_id'' = JStr (r_run_id r), ''CHECKPOINT_INPUT_MISMATCH'')]"

section \<open>The saved decision\<close>

definition saved_payload :: "run_row \<Rightarrow> json option" where
  "saved_payload r = (case r_approval_payload r of None \<Rightarrow> None | Some v \<Rightarrow> if truthy v then Some v else None)"

text \<open>\<open>saved["decision"].get("approved")\<close>, false without a saved decision\<close>

definition saved_approves :: "run_row \<Rightarrow> bool res" where
  "saved_approves r = (case saved_payload r of None \<Rightarrow> Inr False
     | Some v \<Rightarrow> bindE (jindex v ''decision'') (\<lambda>d. bindE (jget d ''approved'') (\<lambda>a. Inr (truthy a))))"

definition decision_bound :: "(json \<Rightarrow> string) \<Rightarrow> run_row \<Rightarrow> dict \<Rightarrow> bool res" where
  "decision_bound H r st = (case saved_payload r of None \<Rightarrow> Inr True
     | Some v \<Rightarrow> andE (bindE (jget v ''binding'') (\<lambda>b. Inr (b = JStr (state_binding H st))))
         (bindE (jget_or v ''decision'' (JObj [])) (\<lambda>d. bindE (jget d ''approval_id'') (\<lambda>i.
          bindE (jget (or_empty (dget st ''approval_request'')) ''approval_id'') (\<lambda>j. Inr (py_eq i j))))))"

section \<open>Stages\<close>

text \<open>The stages of the function in its order; the first one that decides ends it.\<close>

fun firstE :: "'a option res list \<Rightarrow> 'a res \<Rightarrow> 'a res" where
  "firstE [] d = d"
| "firstE (m # ms) d = bindE m (\<lambda>x. case x of Some y \<Rightarrow> Inr y | None \<Rightarrow> firstE ms d)"

lemma firstE_Cons_Inr:
  "firstE (m # ms) d = Inr y \<longleftrightarrow> m = Inr (Some y) \<or> (m = Inr None \<and> firstE ms d = Inr y)"
  by (cases m) (auto split: option.splits)

declare firstE.simps(2) [simp del]

definition stop_if :: "bool \<Rightarrow> run_status \<Rightarrow> string \<Rightarrow> recovery_decision option" where
  "stop_if b st code = (if b then Some (stop_with st (Some code)) else None)"

fun failed_check :: "(bool \<times> string) list \<Rightarrow> recovery_decision option" where
  "failed_check [] = None"
| "failed_check ((ok, code) # cs) = (if ok then failed_check cs else Some (stop_with RunFailed (Some code)))"

definition empty_stage :: "run_row \<Rightarrow> checkpoint \<Rightarrow> recovery_decision option" where
  "empty_stage r c = (if \<not> nothing_saved c then None
     else if r_checkpoint_started r then Some (stop_with RunFailed (Some ''CHECKPOINT_MISSING'')) else Some (proceed Start))"

definition workflow_stage :: "run_row \<Rightarrow> checkpoint \<Rightarrow> recovery_decision option" where
  "workflow_stage r c = (let v = dget (cp_values c) ''workflow_version'' in
     stop_if (is_investigation r \<and> v \<noteq> JStr ''incident-investigation-v1'' \<and> (cp_next c \<noteq> [''initialize''] \<or> v \<noteq> JNull))
       RunFailed ''CHECKPOINT_WORKFLOW_MISMATCH'')"

definition binding_stage :: "(json \<Rightarrow> string) \<Rightarrow> run_row \<Rightarrow> checkpoint \<Rightarrow> recovery_decision option res" where
  "binding_stage H r c = bindE (decision_bound H r (cp_values c)) (\<lambda>ok. Inr (stop_if (\<not> ok) RunFailed ''APPROVAL_BINDING_MISMATCH''))"

definition uncertain_op :: "op_row option \<Rightarrow> bool" where
  "uncertain_op op = (case op of None \<Rightarrow> False | Some p \<Rightarrow> uncertain (o_state p))"

definition execution_nodes :: "string list" where
  "execution_nodes = [''execute_remediation'', ''verify_recovery'']"

definition write_traces :: "checkpoint \<Rightarrow> bool" where
  "write_traces c = (let st = cp_values c in dget st ''action_result'' \<noteq> JNull \<or> dget st ''approved'' = JBool True
     \<or> dget st ''approval_status'' = JStr ''approved'' \<or> (\<exists>n\<in>set (cp_next c). n \<in> set execution_nodes))"

definition write_finished :: "checkpoint \<Rightarrow> bool" where
  "write_finished c = (dget (cp_values c) ''action_result'' \<noteq> JNull \<or> ''verify_recovery'' \<in> set (cp_next c))"

definition result_journalled :: "checkpoint \<Rightarrow> op_row option \<Rightarrow> bool" where
  "result_journalled c op = (case op of None \<Rightarrow> False
     | Some p \<Rightarrow> o_state p \<in> {OpSucceeded, Reconciled, Rejected} \<and> py_eq (dget (cp_values c) ''action_result'') (opt_get (o_result p)))"

definition write_stage :: "run_row \<Rightarrow> checkpoint \<Rightarrow> op_row option \<Rightarrow> recovery_decision option res" where
  "write_stage r c op = (if \<not> write_traces c then Inr None
     else bindE (saved_approves r) (\<lambda>ok. Inr
       (if \<not> ok then Some (stop_with Reconciling (Some ''WRITE_REQUIRES_RECONCILIATION''))
        else stop_if (write_finished c \<and> \<not> result_journalled c op) Reconciling ''OPERATION_RESULT_MISMATCH'')))"

section \<open>Waiting\<close>

text \<open>\<open>str(state.get("phase") or "unknown")\<close>; \<open>T\<close> is the text of a value that is no string.\<close>

definition saved_phase :: "(json \<Rightarrow> string) \<Rightarrow> dict \<Rightarrow> string" where
  "saved_phase T st = (let v = dget st ''phase'' in
     if \<not> truthy v then ''unknown'' else case v of JStr s \<Rightarrow> s | _ \<Rightarrow> T v)"

definition human_node :: "run_row \<Rightarrow> string" where
  "human_node r = (if is_investigation r then ''await_investigation_input'' else ''await_user_input'')"

definition element_of :: "json \<Rightarrow> json \<Rightarrow> bool res" where
  "element_of v xs = (case xs of JArr ys \<Rightarrow> Inr (\<exists>y\<in>set ys. py_eq v y) | _ \<Rightarrow> Inl TypeError)"

text \<open>The answer of the lease, unless the checkpoint already contains it.\<close>

definition open_answer :: "run_row \<Rightarrow> dict \<Rightarrow> json option res" where
  "open_answer r st = (case r_answer_payload r of None \<Rightarrow> Inr None
     | Some v \<Rightarrow> if \<not> truthy v then Inr None
         else bindE (element_of v (dget_or st ''clarification_answers'' (JArr []))) (\<lambda>known.
              if known then Inr None
              else if \<not> is_investigation r then Inr (Some v)
              else bindE (bindE (jiter (dget_or st ''answers'' (JArr []))) (anyE (\<lambda>a.
                     bindE (jget a ''message_id'') (\<lambda>i. bindE (jget v ''message_id'') (\<lambda>j. Inr (py_eq i j))))))
                   (\<lambda>old. Inr (if old then None else Some v))))"

definition answers_question :: "json \<Rightarrow> json \<Rightarrow> bool res" where
  "answers_question v q = andE
     (bindE (jget v ''question_id'') (\<lambda>a. bindE (jget q ''question_id'') (\<lambda>b. Inr (py_eq a b))))
     (bindE (jget v ''version'') (\<lambda>a. bindE (jget q ''version'') (\<lambda>b. Inr (py_eq a b))))"

definition user_stage :: "run_row \<Rightarrow> dict \<Rightarrow> recovery_decision res" where
  "user_stage r st = bindE (open_answer r st) (\<lambda>a. case a of
       None \<Rightarrow> Inr (stop_with WaitingUser None)
     | Some v \<Rightarrow> bindE (answers_question v (or_empty (dget st ''question''))) (\<lambda>ok. Inr
         (if ok then proceed ResumeUser else stop_with RunFailed (Some ''QUESTION_VERSION_MISMATCH''))))"

definition waits_for_user :: "(json \<Rightarrow> string) \<Rightarrow> run_row \<Rightarrow> checkpoint \<Rightarrow> bool" where
  "waits_for_user T r c = (r_workflow_version r \<in> {''incident-dialogue-v1'', ''incident-investigation-v1''}
     \<and> saved_phase T (cp_values c) = ''waiting_user'' \<and> cp_next c = [human_node r])"

definition interrupt_stage :: "(json \<Rightarrow> string) \<Rightarrow> run_row \<Rightarrow> checkpoint \<Rightarrow> recovery_decision option res" where
  "interrupt_stage T r c = (if \<not> list_ex tk_interrupts (cp_tasks c) then Inr None
     else if waits_for_user T r c then bindE (user_stage r (cp_values c)) (\<lambda>x. Inr (Some x))
     else Inr (Some
       (if saved_phase T (cp_values c) = ''awaiting_approval'' \<and> dget (cp_values c) ''approval_status'' = JStr ''pending''
        then if saved_payload r \<noteq> None \<and> cp_next c = [''request_human_approval''] then proceed Resume
             else stop_with WaitingApproval None
        else stop_with WaitingUser (Some ''NEEDS_INPUT''))))"

section \<open>Ended and continuing\<close>

definition has_suffix :: "string \<Rightarrow> string \<Rightarrow> bool" where
  "has_suffix p s = starts_with (rev p) (rev s)"

definition failed_stage :: "(json \<Rightarrow> string) \<Rightarrow> checkpoint \<Rightarrow> recovery_decision option" where
  "failed_stage T c = (let ph = saved_phase T (cp_values c) in
     stop_if (ph = ''failed'' \<or> has_suffix ''_failed'' ph) RunFailed ''WORKFLOW_FAILED'')"

definition ended_well :: "(json \<Rightarrow> string) \<Rightarrow> run_row \<Rightarrow> checkpoint \<Rightarrow> op_row option \<Rightarrow> bool res" where
  "ended_well T r c op = (let ph = saved_phase T (cp_values c) in
     orE (if saved_payload r = None then Inr False else bindE (saved_approves r) (\<lambda>ok. Inr (\<not> ok \<and> ph = ''approval_rejected'')))
       (Inr ((case op of None \<Rightarrow> False | Some p \<Rightarrow> o_state p \<in> {OpSucceeded, Reconciled} \<and> ph = ''verification_succeeded'')
          \<or> ph = ''remediation_skipped'' \<or> ph = ''remediation_planned'' \<and> \<not> truthy (dget (cp_values c) ''requires_approval''))))"

definition end_stage :: "(json \<Rightarrow> string) \<Rightarrow> run_row \<Rightarrow> checkpoint \<Rightarrow> op_row option \<Rightarrow> recovery_decision option res" where
  "end_stage T r c op = (if cp_next c \<noteq> [] then Inr None
     else bindE (ended_well T r c op) (\<lambda>ok. Inr (Some
       (if ok then stop_with RunSucceeded None else stop_with RunFailed (Some ''WORKFLOW_FAILED'')))))"

definition read_only_nodes :: "string list" where
  "read_only_nodes = [''validate_request'', ''plan_collection'', ''collect_evidence'', ''retrieve_runbooks'',
     ''diagnose_incident'', ''plan_remediation'', ''skip_remediation'', ''prepare_approval'', ''request_human_approval'',
     ''finish_failure'', ''prepare_clarification'', ''await_user_input'']"

definition investigation_nodes :: "string list" where
  "investigation_nodes = [''initialize'', ''decide'', ''collect'', ''await_investigation_input'', ''project_investigation'',
     ''prepare_approval'', ''request_human_approval'']"

definition allowed_nodes :: "run_row \<Rightarrow> bool \<Rightarrow> string list" where
  "allowed_nodes r approved = (if is_investigation r then investigation_nodes else read_only_nodes)
     @ (if approved then execution_nodes else [])"

definition task_allowed :: "string list \<Rightarrow> pending_task \<Rightarrow> bool" where
  "task_allowed ns t = (case tk_name t of None \<Rightarrow> False | Some n \<Rightarrow> n \<in> set ns)"

definition continue_stage :: "run_row \<Rightarrow> checkpoint \<Rightarrow> recovery_decision res" where
  "continue_stage r c = bindE (saved_approves r) (\<lambda>approved. let ns = allowed_nodes r approved in Inr
     (if blank (cp_id c) \<or> \<not> subset_list (cp_next c) ns \<or> \<not> list_all (task_allowed ns) (cp_tasks c)
      then stop_with RunFailed (Some ''UNSUPPORTED_PENDING_TASK'')
      else if list_ex tk_error (cp_tasks c) \<and> r_last_error r \<noteq> Some ''DEPENDENCY_TEMPORARY''
      then stop_with RunFailed (Some ''PENDING_TASK_FAILED'')
      else proceed Continue))"

definition classify ::
  "(json \<Rightarrow> string) \<Rightarrow> (json \<Rightarrow> string) \<Rightarrow> run_row \<Rightarrow> checkpoint \<Rightarrow> op_row option \<Rightarrow> recovery_decision res" where
  "classify T H r c op = firstE
     [Inr (stop_if (\<not> input_intact H r) RunFailed ''UNSUPPORTED_OR_CORRUPT_INPUT''),
      Inr (empty_stage r c),
      Inr (failed_check (input_checks r (cp_values c))),
      Inr (workflow_stage r c),
      binding_stage H r c,
      Inr (stop_if (uncertain_op op) Reconciling ''OPERATION_MANUAL_REQUIRED''),
      write_stage r c op,
      interrupt_stage T r c,
      Inr (failed_stage T c),
      end_stage T r c op]
     (continue_stage r c)"

text \<open>
  The binding of the values is the binding of the typed state they are the dump of, so a decision
  queued on the one is recognised on the other.
\<close>

lemma state_binding_typed:
  assumes "dget st ''request'' = request_json s" and "dget st ''evidence'' = evidence_list_json s"
    and "dget st ''remediation_plan'' = opt_json (\<lambda>p. JObj (plan_dump p)) (st_remediation_plan s)"
    and "dget st ''service_profile'' = opt_json snapshot_json (st_service_profile s)"
    and "dget st ''diagnosis'' = opt_json diagnosis_json (st_diagnosis s)" and "dget st ''run_id'' = opt_str (st_run_id s)"
  shows "state_binding H st = approval_binding H s"
proof -
  have "truthy (dget st ''run_id'') \<longleftrightarrow> \<not> blank (st_run_id s)"
    by (cases "st_run_id s") (auto simp: assms(6) blank_def opt_str_def opt_json_def)
  then show ?thesis
    using assms by (simp add: state_binding_def approval_binding_def)
qed

section \<open>What a run may be given\<close>

lemma stop_if_None [simp]: "stop_if b st code = None \<longleftrightarrow> \<not> b"
  by (simp add: stop_if_def)

lemma stop_if_action: "stop_if b st code = Some d \<Longrightarrow> rd_action d = Stop"
  by (auto simp: stop_if_def stop_with_def split: if_splits)

lemma failed_check_action: "failed_check cs = Some d \<Longrightarrow> rd_action d = Stop"
  by (induction cs rule: failed_check.induct) (auto simp: stop_with_def split: if_splits)

lemma failed_check_None: "failed_check cs = None \<longleftrightarrow> list_all fst cs"
  by (induction cs rule: failed_check.induct) auto

lemma stop_with_action [simp]: "rd_action (stop_with st code) = Stop" "rd_action (proceed a) = a"
  by (simp_all add: stop_with_def proceed_def)

lemma write_stage_None:
  assumes "write_stage r c op = Inr None" and "write_traces c"
  shows "saved_approves r = Inr True" and "write_finished c \<Longrightarrow> result_journalled c op"
  using assms by (auto simp: write_stage_def res_simps stop_if_def split: if_splits)

text \<open>The stages that let a run go on.\<close>

lemma interrupt_stage_proceeds:
  assumes "interrupt_stage T r c = Inr (Some d)" and "rd_action d \<noteq> Stop"
  shows "(rd_action d = Resume \<and> cp_next c = [''request_human_approval''] \<and> saved_payload r \<noteq> None)
    \<or> (rd_action d = ResumeUser \<and> cp_next c = [human_node r])"
  using assms
  by (auto simp: interrupt_stage_def user_stage_def waits_for_user_def res_simps split: if_splits option.splits)

lemma continue_stage_proceeds:
  assumes "continue_stage r c = Inr d" and "rd_action d \<noteq> Stop"
  shows "rd_action d = Continue \<and> (\<exists>b. saved_approves r = Inr b \<and> set (cp_next c) \<subseteq> set (allowed_nodes r b))"
  using assms by (auto simp: continue_stage_def res_simps Let_def split: if_splits)

lemma classify_proceeds:
  assumes "classify T H r c op = Inr d" and "rd_action d \<noteq> Stop"
  shows "input_intact H r"
    and "(rd_action d = Start \<and> nothing_saved c \<and> \<not> r_checkpoint_started r)
      \<or> (\<not> uncertain_op op \<and> list_all fst (input_checks r (cp_values c)) \<and> decision_bound H r (cp_values c) = Inr True
         \<and> write_stage r c op = Inr None
         \<and> (interrupt_stage T r c = Inr (Some d) \<or> continue_stage r c = Inr d))"
proof -
  show "input_intact H r"
    using assms by (auto simp: classify_def firstE_Cons_Inr stop_if_def split: if_splits)
  have stops: "binding_stage H r c \<noteq> Inr (Some d)" "write_stage r c op \<noteq> Inr (Some d)" "end_stage T r c op \<noteq> Inr (Some d)"
    "stop_if b st code \<noteq> Some d" "failed_check cs \<noteq> Some d" "workflow_stage r c \<noteq> Some d" "failed_stage T c \<noteq> Some d" for b st code cs
    using assms(2) by (auto simp: binding_stage_def write_stage_def end_stage_def workflow_stage_def failed_stage_def Let_def
      res_simps dest: stop_if_action failed_check_action split: if_splits)
  have bound: "decision_bound H r (cp_values c) = Inr True" if "binding_stage H r c = Inr None"
    using that by (auto simp: binding_stage_def res_simps stop_if_def split: if_splits)
  show "(rd_action d = Start \<and> nothing_saved c \<and> \<not> r_checkpoint_started r)
      \<or> (\<not> uncertain_op op \<and> list_all fst (input_checks r (cp_values c)) \<and> decision_bound H r (cp_values c) = Inr True
         \<and> write_stage r c op = Inr None
         \<and> (interrupt_stage T r c = Inr (Some d) \<or> continue_stage r c = Inr d))"
  proof (cases "empty_stage r c")
    case (Some y)
    then show ?thesis
      using assms stops by (auto simp: classify_def firstE_Cons_Inr empty_stage_def split: if_splits)
  next
    case None
    have "failed_check (input_checks r (cp_values c)) = None \<and> binding_stage H r c = Inr None
      \<and> stop_if (uncertain_op op) Reconciling ''OPERATION_MANUAL_REQUIRED'' = None \<and> write_stage r c op = Inr None
      \<and> (interrupt_stage T r c = Inr (Some d) \<or> continue_stage r c = Inr d)"
      using assms(1) stops None unfolding classify_def firstE_Cons_Inr by simp blast
    then show ?thesis
      using bound by (auto simp: failed_check_None stop_if_def split: if_splits)
  qed
qed

text \<open>C18. Safe resumption. A run is started, continued or resumed only with the input it was accepted with.
  It is started only if nothing was saved and no checkpoint was ever begun. Otherwise the checkpoint is
  the one of this run and request, the saved decision is bound to the very state of the checkpoint, no
  write of the run is of unknown outcome, and whatever has executed or is to be executed is backed by an
  approving decision and, once finished, by a settled journal entry with the same result.\<close>

theorem resumption_safe:
  assumes "classify T H r c op = Inr d" and "rd_action d \<noteq> Stop"
  shows "input_intact H r \<and>
    (if rd_action d = Start then nothing_saved c \<and> \<not> r_checkpoint_started r
     else dget (cp_values c) ''incident_id'' = JStr (r_incident_id r) \<and> py_eq (dget (cp_values c) ''request'') (r_input_payload r)
       \<and> \<not> uncertain_op op \<and> decision_bound H r (cp_values c) = Inr True
       \<and> (write_traces c \<longrightarrow> saved_approves r = Inr True \<and> (write_finished c \<longrightarrow> result_journalled c op))
       \<and> (rd_action d = Resume \<longrightarrow> cp_next c = [''request_human_approval''] \<and> saved_payload r \<noteq> None)
       \<and> (rd_action d = ResumeUser \<longrightarrow> cp_next c = [human_node r])
       \<and> (rd_action d = Continue \<longrightarrow> (\<exists>b. saved_approves r = Inr b \<and> set (cp_next c) \<subseteq> set (allowed_nodes r b))))"
proof (cases "rd_action d = Start")
  case True
  then have "\<not> (interrupt_stage T r c = Inr (Some d) \<or> continue_stage r c = Inr d)"
    using interrupt_stage_proceeds [of T r c d] continue_stage_proceeds [of r c d] by auto
  then show ?thesis
    using classify_proceeds [OF assms] True by auto
next
  case False
  then have go: "interrupt_stage T r c = Inr (Some d) \<or> continue_stage r c = Inr d"
    and rest: "\<not> uncertain_op op" "list_all fst (input_checks r (cp_values c))" "decision_bound H r (cp_values c) = Inr True"
      "write_stage r c op = Inr None"
    using classify_proceeds(2) [OF assms] by auto
  have waits: "(rd_action d = Resume \<longrightarrow> cp_next c = [''request_human_approval''] \<and> saved_payload r \<noteq> None)
      \<and> (rd_action d = ResumeUser \<longrightarrow> cp_next c = [human_node r])
      \<and> (rd_action d = Continue \<longrightarrow> (\<exists>b. saved_approves r = Inr b \<and> set (cp_next c) \<subseteq> set (allowed_nodes r b)))"
    using go interrupt_stage_proceeds [of T r c d] continue_stage_proceeds [of r c d] assms(2) by auto
  show ?thesis
    using classify_proceeds(1) [OF assms] False rest(1,3) waits write_stage_None [OF rest(4)] rest(2) by (simp add: input_checks_def)
qed

text \<open>A run at the node of an approved execution.\<close>

definition bench_row :: run_row where
  "bench_row = (new_run ''run-1'' ''inc-1'' ''t1'' DiagnosisRun (JObj []) (demo_hash JNull) 1)
     \<lparr>r_status := Running, r_workflow_version := ''incident-v1'', r_input_sha256 := demo_hash JNull, r_attempt := 1\<rparr>"

definition approved_row :: run_row where
  "approved_row = bench_row\<lparr>r_approval_payload := Some (JObj [(''decision'', JObj [(''approval_id'', JStr ''apr-1''), (''approved'', JBool True)]),
     (''binding'', JStr (demo_hash JNull))])\<rparr>"

definition approved_checkpoint :: checkpoint where
  "approved_checkpoint = \<lparr>cp_values = [(''incident_id'', JStr ''inc-1''), (''request'', JObj []), (''phase'', JStr ''approval_approved''),
       (''approved'', JBool True), (''approval_request'', JObj [(''approval_id'', JStr ''apr-1'')])],
     cp_next = [''execute_remediation''], cp_tasks = [\<lparr>tk_name = Some ''execute_remediation'', tk_interrupts = False, tk_error = False\<rparr>],
     cp_id = Some ''c-1''\<rparr>"

lemma resumption_safe_witness:
  "saved_approves approved_row = Inr True \<and> decision_bound demo_hash approved_row (cp_values approved_checkpoint) = Inr True"
proof -
  have c: "classify (\<lambda>_. []) demo_hash approved_row approved_checkpoint None = Inr (proceed Continue)"
    by code_simp
  have "write_traces approved_checkpoint"
    by (simp add: write_traces_def approved_checkpoint_def dget_def Let_def)
  then show ?thesis
    using resumption_safe [OF c] by simp
qed

end
