(* ===== verification/Worker.thy ===== *)
theory Worker
  imports Resumption Effects
begin

text \<open>
  \<open>backend/app/runtime/worker.py\<close>: one execution of a claimed run. The repository's methods, the graph, the
  reconciler and the handlers of interactions are calls on the surroundings; the telemetry reports and
  failpoints are left out. An execution is split as the source's \<open>try\<close> splits it: the attempt, which
  ends with an exception or without, and the handling of the exception. The flag \<open>reading_checkpoint\<close>
  is returned with it.
\<close>

section \<open>Surroundings\<close>

datatype graph_input = FromRequest dict | GoOn | ResumeWith json

datatype interaction_handler = DelayedRecheckHandler | InteractionHandler

text \<open>What a handler of an interaction hands over for publication is opaque here.\<close>

record ('w, 'p) worker_ports =
  wk_hash :: "json \<Rightarrow> string"
  wk_text :: "json \<Rightarrow> string"
  wk_kind :: "exn \<Rightarrow> error_kind"
  wk_max_attempts :: int
  wk_lost :: "('w, bool) io"
  wk_operation :: "lease \<Rightarrow> ('w, op_row option) io"
  wk_owned :: "lease \<Rightarrow> ('w, unit) io"
  wk_manual :: "lease \<Rightarrow> ('w, unit) io"
  wk_reconcile :: "lease \<Rightarrow> op_row \<Rightarrow> ('w, bool) io"
  wk_finish :: "lease \<Rightarrow> outcome \<Rightarrow> ('w, run_status) io"
  wk_open :: "lease \<Rightarrow> ('w, unit) io"
  wk_close :: "lease \<Rightarrow> ('w, unit) io"
  wk_state :: "lease \<Rightarrow> ('w, checkpoint) io"
  wk_begin :: "lease \<Rightarrow> ('w, unit) io"
  wk_invoke :: "lease \<Rightarrow> graph_input \<Rightarrow> ('w, unit) io"
  wk_end :: "lease \<Rightarrow> ('w, unit) io"
  wk_answer :: "lease \<Rightarrow> json \<Rightarrow> json \<Rightarrow> ('w, json) io"
  wk_interact :: "interaction_handler \<Rightarrow> lease \<Rightarrow> ('w, 'p list) io"
  wk_complete :: "lease \<Rightarrow> 'p \<Rightarrow> ('w, unit) io"

text \<open>\<open>with a: body\<close>: the exit runs in every case, and its exception replaces the body's.\<close>

definition withW :: "('w, unit) io \<Rightarrow> ('w, unit) io \<Rightarrow> ('w, 'a) io \<Rightarrow> ('w, 'a) io" where
  "withW enter leave body = bindW enter (\<lambda>_. bindW (tryW body) (\<lambda>r. bindW leave (\<lambda>_. liftW r)))"

section \<open>Publishing\<close>

definition unless_lost :: "('w, 'p) worker_ports \<Rightarrow> ('w, 'a) io \<Rightarrow> ('w, 'a) io" where
  "unless_lost p m = bindW (wk_lost p) (\<lambda>lost. if lost then raiseW (LeaseLost ''heartbeat failed'') else m)"

definition finish_run :: "('w, 'p) worker_ports \<Rightarrow> lease \<Rightarrow> outcome \<Rightarrow> ('w, unit) io" where
  "finish_run p l out = unless_lost p (bindW (wk_finish p l out) (\<lambda>_. returnW ()))"

definition ending :: "run_status \<Rightarrow> string option \<Rightarrow> outcome" where
  "ending st code = \<lparr>out_status = st, out_phase = None, out_error = code, out_retry = None, out_snapshot = None,
     out_question = None, out_adopted = None\<rparr>"

definition complete_interaction :: "('w, 'p) worker_ports \<Rightarrow> lease \<Rightarrow> 'p \<Rightarrow> ('w, unit) io" where
  "complete_interaction p l x = unless_lost p (wk_complete p l x)"

section \<open>Open operations\<close>

fun is_lease_lost :: "exn \<Rightarrow> bool" where
  "is_lease_lost (LeaseLost _) = True"
| "is_lease_lost _ = False"

fun is_unsafe_retry :: "exn \<Rightarrow> bool" where
  "is_unsafe_retry (UnsafeRetry _) = True"
| "is_unsafe_retry _ = False"

definition saved_response :: "bool \<Rightarrow> lease \<Rightarrow> op_row \<Rightarrow> bool" where
  "saved_response recovering l op = (recovering \<and> o_state op \<in> {OpSucceeded, Reconciled}
     \<and> o_lease_epoch op \<noteq> r_lease_epoch (le_run l))"

definition confirm_operation :: "('w, 'p) worker_ports \<Rightarrow> lease \<Rightarrow> op_row \<Rightarrow> ('w, bool) io" where
  "confirm_operation p l op = bindW (wk_owned p l) (\<lambda>_. bindW (tryW (wk_reconcile p l op)) (\<lambda>r. case r of
       Inr ok \<Rightarrow> returnW ok
     | Inl e \<Rightarrow> if is_lease_lost e then raiseW e else bindW (wk_manual p l) (\<lambda>_. returnW False)))"

definition reconcile_pending :: "('w, 'p) worker_ports \<Rightarrow> lease \<Rightarrow> bool \<Rightarrow> ('w, bool) io" where
  "reconcile_pending p l recovering = bindW (wk_operation p l) (\<lambda>found. case found of
       None \<Rightarrow> returnW False
     | Some op \<Rightarrow>
         if \<not> uncertain (o_state op) \<and> \<not> saved_response recovering l op then returnW False
         else bindW (confirm_operation p l op) (\<lambda>ok.
           if \<not> ok \<or> uncertain (o_state op)
           then bindW (finish_run p l (ending Reconciling (Some ''OPERATION_MANUAL_REQUIRED''))) (\<lambda>_. returnW True)
           else returnW False))"

section \<open>Projecting a checkpoint\<close>

definition ids_of :: "string \<Rightarrow> json \<Rightarrow> json list res" where
  "ids_of k v = bindE (jiter v) (mapE (\<lambda>x. jindex x k))"

definition adopted_ids :: "dict \<Rightarrow> json list res" where
  "adopted_ids st =
     bindE (jget_or (dget_or st ''round_context'' (JObj [])) ''messages'' (JArr [])) (\<lambda>ms.
     bindE (ids_of ''message_id'' ms) (\<lambda>xs.
     bindE (ids_of ''message_id'' (dget_or st ''clarification_answers'' (JArr []))) (\<lambda>ys. Inr (xs @ ys))))"

definition projected :: "(json \<Rightarrow> string) \<Rightarrow> recovery_decision \<Rightarrow> dict \<Rightarrow> outcome res" where
  "projected T d st = (case rd_status d of
       None \<Rightarrow> Inl (PyValueError ''invalid worker result status'')
     | Some status \<Rightarrow> bindE (adopted_ids st) (\<lambda>ids. Inr
         \<lparr>out_status = status,
          out_phase = Some (if truthy (dget st ''phase'') then saved_phase T st else ''failed''),
          out_error = (if blank (rd_code d) then None else rd_code d), out_retry = None,
          out_snapshot = (if st = [] then None else Some (JObj st)),
          out_question = Some (dget st ''question''), out_adopted = Some (JArr ids)\<rparr>))"

definition project :: "('w, 'p) worker_ports \<Rightarrow> lease \<Rightarrow> checkpoint \<Rightarrow> ('w, unit) io" where
  "project p l c = bindW (reconcile_pending p l False) (\<lambda>stopped. if stopped then returnW ()
     else bindW (wk_operation p l) (\<lambda>op.
          bindW (liftW (classify (wk_text p) (wk_hash p) (le_run l) c op)) (\<lambda>d.
          if rd_action d \<noteq> Stop then finish_run p l (ending RunFailed (Some ''INCOMPLETE_WORKFLOW''))
          else bindW (liftW (projected (wk_text p) d (cp_values c))) (finish_run p l))))"

section \<open>The input of the graph\<close>

definition request_input :: "run_row \<Rightarrow> dict" where
  "request_input r = [(''incident_id'', JStr (r_incident_id r)), (''request'', r_input_payload r)]
     @ (if is_round r then [(''round_context'', opt_get (r_context_snapshot r)), (''run_id'', JStr (r_run_id r))] else [])"

definition graph_input_of :: "('w, 'p) worker_ports \<Rightarrow> lease \<Rightarrow> checkpoint \<Rightarrow> recovery_action \<Rightarrow> ('w, graph_input) io" where
  "graph_input_of p l c a = (let r = le_run l in case a of
       ResumeUser \<Rightarrow>
         if is_investigation r
         then bindW (liftW (jindex (JObj (cp_values c)) ''question'')) (\<lambda>q.
              bindW (wk_answer p l (opt_get (r_answer_payload r)) q) (\<lambda>v. returnW (ResumeWith v)))
         else returnW (ResumeWith (opt_get (r_answer_payload r)))
     | Resume \<Rightarrow> bindW (liftW (jindex (opt_get (r_approval_payload r)) ''decision'')) (\<lambda>v. returnW (ResumeWith v))
     | Continue \<Rightarrow> returnW GoOn
     | _ \<Rightarrow> returnW (FromRequest (request_input r)))"

section \<open>An attempt\<close>

text \<open>How it ended: whether the checkpoint was being read, and the exception.\<close>

type_synonym attempt_end = "bool \<times> exn option"

definition during :: "bool \<Rightarrow> ('w, 'a) io \<Rightarrow> ('a \<Rightarrow> ('w, attempt_end) io) \<Rightarrow> ('w, attempt_end) io" where
  "during reading m k = bindW (tryW m) (\<lambda>r. case r of Inl e \<Rightarrow> returnW (reading, Some e) | Inr x \<Rightarrow> k x)"

definition finally_done :: "bool \<Rightarrow> ('w, unit) io \<Rightarrow> ('w, attempt_end) io" where
  "finally_done reading m = during reading m (\<lambda>_. returnW (reading, None))"

definition run_graph :: "('w, 'p) worker_ports \<Rightarrow> lease \<Rightarrow> checkpoint \<Rightarrow> recovery_decision \<Rightarrow> ('w, attempt_end) io" where
  "run_graph p l c d =
     during False (bindW (wk_owned p l) (\<lambda>_. bindW (graph_input_of p l c (rd_action d)) (\<lambda>i.
       withW (wk_begin p l) (wk_end p l) (wk_invoke p l i)))) (\<lambda>_.
     during True (wk_state p l) (\<lambda>c'. finally_done True (project p l c')))"

definition graph_session :: "('w, 'p) worker_ports \<Rightarrow> lease \<Rightarrow> ('w, attempt_end) io" where
  "graph_session p l =
     during False (wk_owned p l) (\<lambda>_.
     during True (wk_state p l) (\<lambda>c.
     during False (bindW (wk_operation p l) (\<lambda>op. liftW (classify (wk_text p) (wk_hash p) (le_run l) c op))) (\<lambda>d.
       if rd_action d = Stop then finally_done False (project p l c)
       else if le_recovery_only l then finally_done False (finish_run p l (ending RunFailed (Some ''ATTEMPTS_EXHAUSTED'')))
       else run_graph p l c d)))"

definition with_graph :: "('w, 'p) worker_ports \<Rightarrow> lease \<Rightarrow> ('w, attempt_end) io" where
  "with_graph p l = during False (wk_open p l) (\<lambda>_. bindW (graph_session p l) (\<lambda>(reading, e).
     bindW (tryW (wk_close p l)) (\<lambda>r. returnW (reading, case r of Inl e' \<Rightarrow> Some e' | Inr _ \<Rightarrow> e))))"

definition execute_workflow :: "('w, 'p) worker_ports \<Rightarrow> lease \<Rightarrow> ('w, attempt_end) io" where
  "execute_workflow p l = during False (reconcile_pending p l True) (\<lambda>stopped.
     if stopped then returnW (False, None)
     else if \<not> input_intact (wk_hash p) (le_run l)
     then finally_done False (finish_run p l (ending RunFailed (Some ''UNSUPPORTED_OR_CORRUPT_INPUT'')))
     else with_graph p l)"

definition execute_interaction :: "('w, 'p) worker_ports \<Rightarrow> lease \<Rightarrow> ('w, unit) io" where
  "execute_interaction p l =
     bindW (withW (wk_begin p l) (wk_end p l) (wk_interact p
       (if r_workflow_version (le_run l) = ''delayed-recheck-v1'' then DelayedRecheckHandler else InteractionHandler) l)) (\<lambda>xs.
     case xs of [x] \<Rightarrow> complete_interaction p l x | _ \<Rightarrow> raiseW (PyValueError ''INTERACTION_PUBLICATION_MISSING''))"

definition attempt_run :: "('w, 'p) worker_ports \<Rightarrow> lease \<Rightarrow> ('w, attempt_end) io" where
  "attempt_run p l = (if r_run_kind (le_run l) = InteractionRun then finally_done False (execute_interaction p l)
     else execute_workflow p l)"

section \<open>After an exception\<close>

definition may_retry :: "('w, 'p) worker_ports \<Rightarrow> run_row \<Rightarrow> exn \<Rightarrow> bool" where
  "may_retry p r e = (transient (wk_kind p e) \<and> r_attempt r - r_attempt_base r < wk_max_attempts p)"

definition retry_outcome :: "run_row \<Rightarrow> outcome" where
  "retry_outcome r = (ending RetryScheduled (Some ''DEPENDENCY_TEMPORARY''))
     \<lparr>out_retry := Some (if r_attempt r = 1 then 5000000 else 15000000)\<rparr>"

definition failure_outcome :: "('w, 'p) worker_ports \<Rightarrow> bool \<Rightarrow> exn \<Rightarrow> outcome" where
  "failure_outcome p reading e = ending RunFailed (Some
     (if transient (wk_kind p e) then ''ATTEMPTS_EXHAUSTED'' else if reading then ''CHECKPOINT_UNREADABLE'' else ''WORKER_FAILED''))"

definition publish_failure :: "('w, 'p) worker_ports \<Rightarrow> lease \<Rightarrow> bool \<Rightarrow> exn \<Rightarrow> ('w, unit) io" where
  "publish_failure p l reading e = bindW (reconcile_pending p l False) (\<lambda>stopped. if stopped then returnW ()
     else finish_run p l (if may_retry p (le_run l) e then retry_outcome (le_run l) else failure_outcome p reading e))"

text \<open>\<open>Worker.execute\<close>\<close>

definition execute_run :: "('w, 'p) worker_ports \<Rightarrow> lease \<Rightarrow> ('w, unit) io" where
  "execute_run p l = bindW (attempt_run p l) (\<lambda>(reading, failed). case failed of
       None \<Rightarrow> returnW ()
     | Some e \<Rightarrow> if is_lease_lost e then returnW ()
         else bindW (tryW (publish_failure p l reading e)) (\<lambda>r. case r of
           Inr _ \<Rightarrow> returnW ()
         | Inl e' \<Rightarrow> if is_unsafe_retry e'
             then bindW (tryW (finish_run p l (ending Reconciling (Some ''WRITE_REQUIRES_RECONCILIATION'')))) (\<lambda>_. returnW ())
             else returnW ()))"

section \<open>Owned dependencies\<close>

text \<open>
  \<open>OwnedDependency\<close>: what surrounds every call of a collector, model, executor or verifier. The budget,
  when there is one, is the pair of its check before a first write and its stage around the call.
\<close>

record 'w owned_ports =
  od_lost :: "('w, bool) io"
  od_owned :: "('w, unit) io"
  od_operation :: "('w, op_row option) io"
  od_budget :: "(('w, unit) io \<times> ('w, unit) io \<times> ('w, unit) io) option"

definition cached_write :: "op_row option \<Rightarrow> bool" where
  "cached_write op = (case op of None \<Rightarrow> False | Some p \<Rightarrow> o_state p \<noteq> Prepared)"

definition owned_call :: "'w owned_ports \<Rightarrow> string \<Rightarrow> ('w, 'a) io \<Rightarrow> ('w, 'a) io" where
  "owned_call p name m =
     bindW (od_lost p) (\<lambda>lost. if lost then raiseW (LeaseLost ''worker lost its lease'')
     else bindW (od_owned p) (\<lambda>_. case od_budget p of
         None \<Rightarrow> m
       | Some (before_write, enter_stage, leave_stage) \<Rightarrow>
           bindW (if name = ''execute'' then od_operation p else returnW None) (\<lambda>saved.
           bindW (if name = ''execute'' \<and> saved = None then before_write else returnW ()) (\<lambda>_.
           if cached_write saved then m else withW enter_stage leave_stage m))))"

end
