(* ===== verification/WorkerProps.thy ===== *)
theory WorkerProps
  imports Worker Traces Scenario
begin

text \<open>
  What an execution of the worker guarantees, whatever the repository, the graph and the clock answer:
  the graph is given an input only once and only after a classification of the checkpoint just read,
  a result is published only as the projection of such a classification, and no exception escapes.
\<close>

section \<open>The calls\<close>

datatype worker_call = ReadCheckpoint checkpoint | ReadOperation "op_row option" | InvokeGraph graph_input | Publish outcome

text \<open>A reading call that is noted with what it returned.\<close>

definition reporting :: "('a \<Rightarrow> 'c) \<Rightarrow> ('w, 'a) io \<Rightarrow> ('w \<times> 'c list, 'a) io" where
  "reporting f m = (\<lambda>(w, tr). case m w of (Inl e, w') \<Rightarrow> (Inl e, (w', tr)) | (Inr x, w') \<Rightarrow> (Inr x, (w', tr @ [f x])))"

definition noted_worker :: "('w, 'p) worker_ports \<Rightarrow> ('w \<times> worker_call list, 'p) worker_ports" where
  "noted_worker p = \<lparr>wk_hash = wk_hash p, wk_text = wk_text p, wk_kind = wk_kind p, wk_max_attempts = wk_max_attempts p,
     wk_lost = silent (wk_lost p), wk_operation = (\<lambda>l. reporting ReadOperation (wk_operation p l)),
     wk_owned = (\<lambda>l. silent (wk_owned p l)), wk_manual = (\<lambda>l. silent (wk_manual p l)),
     wk_reconcile = (\<lambda>l x. silent (wk_reconcile p l x)), wk_finish = (\<lambda>l out. noting (Publish out) (wk_finish p l out)),
     wk_open = (\<lambda>l. silent (wk_open p l)), wk_close = (\<lambda>l. silent (wk_close p l)),
     wk_state = (\<lambda>l. reporting ReadCheckpoint (wk_state p l)), wk_begin = (\<lambda>l. silent (wk_begin p l)),
     wk_invoke = (\<lambda>l i. noting (InvokeGraph i) (wk_invoke p l i)), wk_end = (\<lambda>l. silent (wk_end p l)),
     wk_answer = (\<lambda>l a q. silent (wk_answer p l a q)), wk_interact = (\<lambda>h l. silent (wk_interact p h l)),
     wk_complete = (\<lambda>l x. silent (wk_complete p l x))\<rparr>"

lemma noted_worker_simps [simp]:
  "wk_hash (noted_worker p) = wk_hash p" "wk_text (noted_worker p) = wk_text p" "wk_kind (noted_worker p) = wk_kind p"
  "wk_max_attempts (noted_worker p) = wk_max_attempts p"
  "wk_operation (noted_worker p) l = reporting ReadOperation (wk_operation p l)"
  by (simp_all add: noted_worker_def)

section \<open>Justified calls\<close>

text \<open>The input that fits a decision; the answer of an investigation is completed by its dialogue.\<close>

definition input_fits :: "run_row \<Rightarrow> recovery_action \<Rightarrow> graph_input \<Rightarrow> bool" where
  "input_fits r a i = (case a of
       Start \<Rightarrow> i = FromRequest (request_input r)
     | Continue \<Rightarrow> i = GoOn
     | Resume \<Rightarrow> \<exists>v. jindex (opt_get (r_approval_payload r)) ''decision'' = Inr v \<and> i = ResumeWith v
     | ResumeUser \<Rightarrow> if is_investigation r then \<exists>v. i = ResumeWith v else i = ResumeWith (opt_get (r_answer_payload r))
     | Stop \<Rightarrow> False)"

definition classified_from :: "('w, 'p) worker_ports \<Rightarrow> lease \<Rightarrow> worker_call set \<Rightarrow> checkpoint \<Rightarrow> recovery_decision \<Rightarrow> bool" where
  "classified_from p l K c d = (\<exists>op. ReadCheckpoint c \<in> K \<and> ReadOperation op \<in> K
     \<and> classify (wk_text p) (wk_hash p) (le_run l) c op = Inr d)"

definition is_invoke :: "worker_call \<Rightarrow> bool" where
  "is_invoke x = (case x of InvokeGraph i \<Rightarrow> True | _ \<Rightarrow> False)"

lemma is_invoke_iff: "is_invoke x \<longleftrightarrow> (\<exists>i. x = InvokeGraph i)"
  by (cases x) (auto simp: is_invoke_def)

definition attempts_left :: "('w, 'p) worker_ports \<Rightarrow> run_row \<Rightarrow> bool" where
  "attempts_left p r = (r_attempt r - r_attempt_base r < wk_max_attempts p)"

definition justified :: "('w, 'p) worker_ports \<Rightarrow> lease \<Rightarrow> worker_call set \<Rightarrow> worker_call \<Rightarrow> bool" where
  "justified p l K x = (case x of
       InvokeGraph i \<Rightarrow> \<not> le_recovery_only l \<and> \<not> (\<exists>y\<in>K. is_invoke y)
         \<and> (\<exists>c d. classified_from p l K c d \<and> rd_action d \<noteq> Stop \<and> input_fits (le_run l) (rd_action d) i)
     | Publish out \<Rightarrow> (out_status out \<in> {RunSucceeded, WaitingUser, WaitingApproval}
         \<longrightarrow> (\<exists>c d. classified_from p l K c d \<and> rd_action d = Stop \<and> projected (wk_text p) d (cp_values c) = Inr out))
       \<and> (out_status out = RetryScheduled \<longrightarrow> attempts_left p (le_run l) \<and> out = retry_outcome (le_run l))
     | _ \<Rightarrow> True)"

fun sound :: "('w, 'p) worker_ports \<Rightarrow> lease \<Rightarrow> worker_call set \<Rightarrow> worker_call list \<Rightarrow> bool" where
  "sound p l K [] = True"
| "sound p l K (x # xs) = (justified p l K x \<and> sound p l (insert x K) xs)"

lemma sound_append: "sound p l K (xs @ ys) \<longleftrightarrow> sound p l K xs \<and> sound p l (K \<union> set xs) ys"
  by (induction xs arbitrary: K) (auto simp: insert_commute)

lemma sound_at: "sound p l K (xs @ x # ys) \<Longrightarrow> justified p l (K \<union> set xs) x"
  by (simp add: sound_append)

text \<open>What holds of the trace between the steps: it is sound, contains what was read, and may contain an invocation.\<close>

definition kept :: "('w, 'p) worker_ports \<Rightarrow> lease \<Rightarrow> worker_call set \<Rightarrow> bool \<Rightarrow> 'w \<times> worker_call list \<Rightarrow> bool" where
  "kept p l K b w = (sound p l {} (snd w) \<and> K \<subseteq> set (snd w) \<and> (\<exists>x\<in>set (snd w). is_invoke x) \<le> b)"

lemma kept_weaken: "kept p l K b w \<Longrightarrow> K' \<subseteq> K \<Longrightarrow> b \<le> b' \<Longrightarrow> kept p l K' b' w"
  by (auto simp: kept_def)

abbreviation keeping :: "('w, 'p) worker_ports \<Rightarrow> lease \<Rightarrow> worker_call set \<Rightarrow> bool \<Rightarrow> ('w \<times> worker_call list, 'a) io \<Rightarrow> bool" where
  "keeping p l K b m \<equiv> triple (kept p l K b) m (\<lambda>_. kept p l K b) (\<lambda>_. kept p l K b)"

text \<open>The same for a computation that may invoke the graph.\<close>

abbreviation invoking :: "('w, 'p) worker_ports \<Rightarrow> lease \<Rightarrow> worker_call set \<Rightarrow> bool \<Rightarrow> ('w \<times> worker_call list, 'a) io \<Rightarrow> bool" where
  "invoking p l K b m \<equiv> triple (kept p l K b) m (\<lambda>_. kept p l {} True) (\<lambda>_. kept p l {} True)"

lemma keeping_invoking: "keeping p l K b m \<Longrightarrow> invoking p l K b m"
  by (erule triple_weaken) (auto intro: kept_weaken)

lemma invoking_bind:
  assumes "keeping p l K b m" and "\<And>x. invoking p l K b (f x)"
  shows "invoking p l K b (bindW m f)"
proof (rule triple_bind)
  show "triple (kept p l K b) m (\<lambda>_. kept p l K b) (\<lambda>_. kept p l {} True)"
    by (rule triple_weaken [OF assms(1)]) (auto intro: kept_weaken)
qed (rule assms(2))

named_theorems keeping_intros "calls that keep the trace sound"

lemmas [keeping_intros] = triple_return triple_raise triple_if triple_sum triple_option

lemma keeping_silent [keeping_intros]: "keeping p l K b (silent m)"
  by (rule tripleI) (auto simp: silent_eq kept_def)

lemma keeping_lift [keeping_intros]: "keeping p l K b (liftW r)"
  by (rule triple_lift) auto

lemma keeping_bind [keeping_intros]:
  "keeping p l K b m \<Longrightarrow> (\<And>x. keeping p l K b (f x)) \<Longrightarrow> keeping p l K b (bindW m f)"
  by (rule triple_bind)

lemma keeping_try [keeping_intros]: "keeping p l K b m \<Longrightarrow> keeping p l K b (tryW m)"
  by (rule triple_try)

lemma reporting_known:
  assumes "\<And>x. \<not> is_invoke (f x)" and "\<And>x K. justified p l K (f x)"
  shows "triple (kept p l K b) (reporting f m) (\<lambda>x. kept p l (insert (f x) K) b) (\<lambda>_. kept p l K b)"
  by (rule tripleI) (use assms in \<open>auto simp: reporting_def kept_def sound_append split: prod.splits sum.splits\<close>)

lemmas read_checkpoint = reporting_known [of ReadCheckpoint, simplified is_invoke_def justified_def worker_call.case, simplified]
lemmas read_operation = reporting_known [of ReadOperation, simplified is_invoke_def justified_def worker_call.case, simplified]

lemma keeping_read_operation [keeping_intros]: "keeping p l K b (reporting ReadOperation m)"
  by (rule triple_weaken [OF read_operation]) (auto intro: kept_weaken)

lemma keeping_publish:
  assumes "\<And>K'. K \<subseteq> K' \<Longrightarrow> justified p l K' (Publish out)"
  shows "keeping p l K b (noting (Publish out) m)"
  by (rule tripleI) (use assms in \<open>auto simp: noting_eq kept_def sound_append is_invoke_def\<close>)

lemma classified_from_mono: "classified_from p l K c d \<Longrightarrow> K \<subseteq> K' \<Longrightarrow> classified_from p l K' c d"
  unfolding classified_from_def by blast

text \<open>Every publication of an execution goes through this.\<close>

lemma keeping_finish:
  assumes "out_status out \<in> {RunSucceeded, WaitingUser, WaitingApproval}
    \<Longrightarrow> \<exists>c d. classified_from p l K c d \<and> rd_action d = Stop \<and> projected (wk_text p) d (cp_values c) = Inr out"
    and "out_status out = RetryScheduled \<Longrightarrow> attempts_left p (le_run l) \<and> out = retry_outcome (le_run l)"
  shows "keeping p l K b (finish_run (noted_worker p) l out)"
proof -
  have "justified p l K' (Publish out)" if "K \<subseteq> K'" for K'
    using assms classified_from_mono [OF _ that] unfolding justified_def by (simp, blast)
  then show ?thesis
    unfolding finish_run_def unless_lost_def noted_worker_def worker_ports.simps
    by (intro keeping_intros keeping_publish) (auto intro: triple_return)
qed

lemma keeping_ending [keeping_intros]:
  "st \<notin> {RunSucceeded, WaitingUser, WaitingApproval, RetryScheduled} \<Longrightarrow> keeping p l K b (finish_run (noted_worker p) l (ending st code))"
  by (rule keeping_finish) (simp_all add: ending_def)

lemma keeping_reconcile [keeping_intros]: "keeping p l K b (reconcile_pending (noted_worker p) l recovering)"
  unfolding reconcile_pending_def confirm_operation_def
  by (intro keeping_intros; (simp add: noted_worker_def)?; intro keeping_intros; simp)


section \<open>Projection\<close>

text \<open>No classification asks for a retry.\<close>

abbreviation settles :: "recovery_decision \<Rightarrow> bool" where
  "settles d \<equiv> rd_status d \<noteq> Some RetryScheduled"

lemma settles_simps [simp]: "rd_status (proceed a) = None" "rd_status (stop_with st code) = Some st"
  by (simp_all add: proceed_def stop_with_def)

lemma stage_settles:
  "stop_if b st code = Some d \<Longrightarrow> st \<noteq> RetryScheduled \<Longrightarrow> settles d" "failed_check cs = Some d \<Longrightarrow> settles d"
  "empty_stage r c = Some d \<Longrightarrow> settles d" "write_stage r c op = Inr (Some d) \<Longrightarrow> settles d"
  "interrupt_stage T r c = Inr (Some d) \<Longrightarrow> settles d" "end_stage T r c op = Inr (Some d) \<Longrightarrow> settles d"
  "continue_stage r c = Inr d \<Longrightarrow> settles d"
  subgoal by (auto simp: stop_if_def split: if_splits)
  subgoal by (induction cs rule: failed_check.induct) (auto split: if_splits)
  subgoal by (auto simp: empty_stage_def split: if_splits)
  subgoal by (auto simp: write_stage_def res_simps stop_if_def split: if_splits)
  subgoal by (auto simp: interrupt_stage_def user_stage_def res_simps split: if_splits option.splits)
  subgoal by (auto simp: end_stage_def res_simps split: if_splits)
  subgoal by (auto simp: continue_stage_def Let_def res_simps split: if_splits)
  done

lemma stop_statuses:
  assumes "classify T H r c op = Inr d" and "rd_status d = Some st"
  shows "st \<noteq> RetryScheduled"
proof -
  have binding: "binding_stage H r c = Inr (Some d) \<Longrightarrow> settles d" and rest: "workflow_stage r c = Some d \<Longrightarrow> settles d"
    "failed_stage T c = Some d \<Longrightarrow> settles d"
    by (auto simp: binding_stage_def workflow_stage_def failed_stage_def Let_def res_simps dest: stage_settles(1))
  have "settles d"
    using assms(1) unfolding classify_def firstE_Cons_Inr firstE.simps(1)
    by (elim disjE conjE) (auto dest: stage_settles binding rest)
  then show ?thesis
    using assms(2) by auto
qed

lemma projected_status: "projected T d st = Inr out \<Longrightarrow> rd_status d = Some (out_status out)"
  by (auto simp: projected_def res_simps split: option.splits)

lemma keeping_read_bind:
  assumes "\<And>op. keeping p l (insert (ReadOperation op) K) b (f op)"
  shows "keeping p l K b (bindW (reporting ReadOperation m) f)"
proof (rule triple_bind [OF read_operation])
  fix op
  show "triple (kept p l (insert (ReadOperation op) K) b) (f op) (\<lambda>_. kept p l K b) (\<lambda>_. kept p l K b)"
    by (rule triple_weaken [OF assms]) (auto intro: kept_weaken)
qed

lemma keeping_project:
  assumes "ReadCheckpoint c \<in> K"
  shows "keeping p l K b (project (noted_worker p) l c)"
proof -
  have publish: "keeping p l (insert (ReadOperation op) K) b (finish_run (noted_worker p) l out)"
    if d: "classify (wk_text p) (wk_hash p) (le_run l) c op = Inr d" "rd_action d = Stop"
      "projected (wk_text p) d (cp_values c) = Inr out" for op d out
  proof (rule keeping_finish)
    show "\<exists>c d. classified_from p l (insert (ReadOperation op) K) c d \<and> rd_action d = Stop
        \<and> projected (wk_text p) d (cp_values c) = Inr out"
      using assms d unfolding classified_from_def by blast
    show "attempts_left p (le_run l) \<and> out = retry_outcome (le_run l)" if "out_status out = RetryScheduled"
      using stop_statuses [OF d(1) projected_status [OF d(3)]] that by simp
  qed
  have "keeping p l K b (bindW (reporting ReadOperation (wk_operation p l)) (\<lambda>op.
      bindW (liftW (classify (wk_text p) (wk_hash p) (le_run l) c op)) (\<lambda>d.
        if rd_action d \<noteq> Stop then finish_run (noted_worker p) l (ending RunFailed (Some ''INCOMPLETE_WORKFLOW''))
        else bindW (liftW (projected (wk_text p) d (cp_values c))) (finish_run (noted_worker p) l))))"
  proof (rule keeping_read_bind)
    fix op
    show "keeping p l (insert (ReadOperation op) K) b (bindW (liftW (classify (wk_text p) (wk_hash p) (le_run l) c op)) (\<lambda>d.
        if rd_action d \<noteq> Stop then finish_run (noted_worker p) l (ending RunFailed (Some ''INCOMPLETE_WORKFLOW''))
        else bindW (liftW (projected (wk_text p) d (cp_values c))) (finish_run (noted_worker p) l)))"
    proof (cases "classify (wk_text p) (wk_hash p) (le_run l) c op")
      case (Inr d)
      show ?thesis
        using publish [OF Inr] by (cases "projected (wk_text p) d (cp_values c)") (auto simp: Inr intro: keeping_intros)
    qed (auto intro: triple_raise)
  qed
  then show ?thesis
    unfolding project_def noted_worker_simps
    by (intro keeping_bind [OF keeping_reconcile] triple_if) (auto intro: triple_return)
qed

section \<open>The graph\<close>

lemma triple_during:
  assumes "triple P m Q E" and "\<And>x. triple (Q x) (k x) R F" and "\<And>e w. E e w \<Longrightarrow> R (reading, Some e) w"
  shows "triple P (during reading m k) R F"
  unfolding during_def
proof (rule triple_bind)
  show "triple P (tryW m) (\<lambda>r w. case r of Inl e \<Rightarrow> E e w | Inr x \<Rightarrow> Q x w) F"
    by (rule triple_try) (use assms(1) in simp)
  show "triple (\<lambda>w. case r of Inl e \<Rightarrow> E e w | Inr x \<Rightarrow> Q x w) (case r of Inl e \<Rightarrow> returnW (reading, Some e) | Inr x \<Rightarrow> k x) R F" for r
    by (cases r) (use assms(2,3) in \<open>auto intro: triple_return\<close>)
qed

lemma kept_any: "kept p l K b w \<Longrightarrow> kept p l {} True w"
  by (auto simp: kept_def)

lemma invoking_during:
  assumes "keeping p l K b m" and "\<And>x. invoking p l K b (k x)"
  shows "invoking p l K b (during reading m k)"
  by (rule triple_during [OF assms]) (rule kept_any)

lemma finally_keeping: "keeping p l K b m \<Longrightarrow> keeping p l K b (finally_done reading m)"
  unfolding finally_done_def by (rule triple_during) (auto intro: triple_return)

lemma graph_input_fits:
  assumes "a \<noteq> Stop"
  shows "triple (kept p l K b) (graph_input_of (noted_worker p) l c a)
    (\<lambda>i w. input_fits (le_run l) a i \<and> kept p l K b w) (\<lambda>_. kept p l K b)"
  by (rule tripleI; cases a)
    (use assms in \<open>auto simp: graph_input_of_def input_fits_def Let_def io_simps noted_worker_def kept_def split: if_splits\<close>)

lemma invoke_justified:
  assumes "classified_from p l K c d" and "rd_action d \<noteq> Stop" and "input_fits (le_run l) (rd_action d) i" and "\<not> le_recovery_only l"
  shows "triple (kept p l K False) (noting (InvokeGraph i) m) (\<lambda>_. kept p l K True) (\<lambda>_. kept p l K True)"
proof -
  have "justified p l K' (InvokeGraph i)" if "K \<subseteq> K'" "\<not> (\<exists>y\<in>K'. is_invoke y)" for K'
    using assms classified_from_mono [OF assms(1) that(1)] that(2) by (auto simp: justified_def)
  then show ?thesis
    by (intro tripleI) (auto simp: noting_eq kept_def sound_append)
qed

lemma keeping_in_session:
  "keeping p l K b (wk_owned (noted_worker p) l)" "keeping p l K b (wk_begin (noted_worker p) l)"
  "keeping p l K b (wk_end (noted_worker p) l)" "keeping p l K b (wk_open (noted_worker p) l)"
  "keeping p l K b (wk_close (noted_worker p) l)" "keeping p l K b (wk_operation (noted_worker p) l)"
  "keeping p l K b (wk_interact (noted_worker p) h l)" "keeping p l K b (wk_lost (noted_worker p))"
  "keeping p l K b (wk_complete (noted_worker p) l x)"
  by (simp_all add: noted_worker_def keeping_silent keeping_read_operation)

lemma state_read:
  "triple (kept p l K b) (wk_state (noted_worker p) l) (\<lambda>c. kept p l (insert (ReadCheckpoint c) K) b) (\<lambda>_. kept p l K b)"
  by (simp add: noted_worker_def read_checkpoint)

lemma keeping_or_more: "triple P m Q (\<lambda>_. kept p l K False) \<Longrightarrow> triple P m Q (\<lambda>_. kept p l K True)"
  by (erule triple_weaken) (auto intro: kept_weaken)

lemma invoking_run_graph:
  assumes d: "classified_from p l K c d" "rd_action d \<noteq> Stop" "\<not> le_recovery_only l"
  shows "invoking p l K False (run_graph (noted_worker p) l c d)"
proof -
  let ?after = "\<lambda>_. kept p l K True"
  have body: "triple (kept p l K False) (withW (wk_begin (noted_worker p) l) (wk_end (noted_worker p) l) (wk_invoke (noted_worker p) l i)) ?after ?after"
    if "input_fits (le_run l) (rd_action d) i" for i
    unfolding withW_def
  proof (rule triple_bind [where Q = "\<lambda>_. kept p l K False"])
    show "triple (kept p l K False) (wk_begin (noted_worker p) l) (\<lambda>_. kept p l K False) ?after"
      by (rule keeping_or_more [OF keeping_in_session(2)])
    show "triple (kept p l K False) (bindW (tryW (wk_invoke (noted_worker p) l i)) (\<lambda>r. bindW (wk_end (noted_worker p) l) (\<lambda>_. liftW r))) ?after ?after"
      by (rule triple_bind [OF triple_try keeping_bind [OF keeping_in_session(3) keeping_lift]])
        (use invoke_justified [OF d(1,2) that d(3)] in \<open>simp add: noted_worker_def\<close>)
  qed
  have first: "triple (kept p l K False) (bindW (wk_owned (noted_worker p) l) (\<lambda>_.
      bindW (graph_input_of (noted_worker p) l c (rd_action d)) (\<lambda>i.
        withW (wk_begin (noted_worker p) l) (wk_end (noted_worker p) l) (wk_invoke (noted_worker p) l i)))) ?after ?after"
  proof (rule triple_bind [where Q = "\<lambda>_. kept p l K False"])
    show "triple (kept p l K False) (wk_owned (noted_worker p) l) (\<lambda>_. kept p l K False) ?after"
      by (rule keeping_or_more [OF keeping_in_session(1)])
    show "triple (kept p l K False) (bindW (graph_input_of (noted_worker p) l c (rd_action d)) (\<lambda>i.
        withW (wk_begin (noted_worker p) l) (wk_end (noted_worker p) l) (wk_invoke (noted_worker p) l i))) ?after ?after"
    proof (rule triple_bind)
      show "triple (kept p l K False) (graph_input_of (noted_worker p) l c (rd_action d))
          (\<lambda>i w. input_fits (le_run l) (rd_action d) i \<and> kept p l K False w) ?after"
        by (rule keeping_or_more [OF graph_input_fits [OF d(2)]])
    qed (rule triple_fact [OF body])
  qed
  show ?thesis
    unfolding run_graph_def
  proof (rule triple_during [OF first])
    show "triple (kept p l K True) (during True (wk_state (noted_worker p) l) (\<lambda>c'. finally_done True (project (noted_worker p) l c')))
        (\<lambda>_. kept p l {} True) (\<lambda>_. kept p l {} True)"
      by (rule triple_during [OF state_read keeping_invoking [OF finally_keeping [OF keeping_project]]]) (auto intro: kept_any)
  qed (rule kept_any)
qed

lemma triple_some: "(\<And>x. A x \<Longrightarrow> triple (P x) m Q E) \<Longrightarrow> triple (\<lambda>w. \<exists>x. A x \<and> P x w) m Q E"
  unfolding triple_def by (intro allI impI, elim exE conjE) simp

lemma invoking_session: "invoking p l K False (graph_session (noted_worker p) l)"
proof -
  have decided: "invoking p l K' False (if rd_action d = Stop then finally_done False (project (noted_worker p) l c)
      else if le_recovery_only l then finally_done False (finish_run (noted_worker p) l (ending RunFailed (Some ''ATTEMPTS_EXHAUSTED'')))
      else run_graph (noted_worker p) l c d)"
    if "classified_from p l K' c d" for K' c d
  proof -
    have "ReadCheckpoint c \<in> K'"
      using that by (auto simp: classified_from_def)
    then show ?thesis
      using invoking_run_graph [OF that] by (auto intro: keeping_invoking [OF finally_keeping] keeping_ending keeping_project)
  qed
  have classified: "invoking p l (insert (ReadCheckpoint c) K) False (during False
      (bindW (wk_operation (noted_worker p) l) (\<lambda>op. liftW (classify (wk_text p) (wk_hash p) (le_run l) c op))) (\<lambda>d.
        if rd_action d = Stop then finally_done False (project (noted_worker p) l c)
        else if le_recovery_only l then finally_done False (finish_run (noted_worker p) l (ending RunFailed (Some ''ATTEMPTS_EXHAUSTED'')))
        else run_graph (noted_worker p) l c d))" for c
  proof (rule triple_during)
    let ?K = "insert (ReadCheckpoint c) K"
    show "triple (kept p l ?K False) (bindW (wk_operation (noted_worker p) l) (\<lambda>op. liftW (classify (wk_text p) (wk_hash p) (le_run l) c op)))
        (\<lambda>d w. \<exists>op. classified_from p l (insert (ReadOperation op) ?K) c d \<and> kept p l (insert (ReadOperation op) ?K) False w)
        (\<lambda>_. kept p l ?K False)"
    proof (rule triple_bind)
      show "triple (kept p l ?K False) (wk_operation (noted_worker p) l) (\<lambda>op. kept p l (insert (ReadOperation op) ?K) False) (\<lambda>_. kept p l ?K False)"
        by (simp add: noted_worker_def read_operation)
      show "triple (kept p l (insert (ReadOperation op) ?K) False) (liftW (classify (wk_text p) (wk_hash p) (le_run l) c op))
          (\<lambda>d w. \<exists>op. classified_from p l (insert (ReadOperation op) ?K) c d \<and> kept p l (insert (ReadOperation op) ?K) False w)
          (\<lambda>_. kept p l ?K False)" for op
        by (rule triple_lift) (auto simp: classified_from_def kept_def)
    qed
    show "triple (\<lambda>w. \<exists>op. classified_from p l (insert (ReadOperation op) ?K) c d \<and> kept p l (insert (ReadOperation op) ?K) False w)
        (if rd_action d = Stop then finally_done False (project (noted_worker p) l c)
         else if le_recovery_only l then finally_done False (finish_run (noted_worker p) l (ending RunFailed (Some ''ATTEMPTS_EXHAUSTED'')))
         else run_graph (noted_worker p) l c d) (\<lambda>_. kept p l {} True) (\<lambda>_. kept p l {} True)" for d
      by (rule triple_some) (rule decided)
  qed (auto intro: kept_any)
  show ?thesis
    unfolding graph_session_def noted_worker_simps(1,2)
    by (rule invoking_during [OF keeping_in_session(1)], rule triple_during [OF state_read classified]) (auto intro: kept_any)
qed


section \<open>The execution\<close>

lemma invoking_attempt: "invoking p l {} False (attempt_run (noted_worker p) l)"
proof -
  have graph: "invoking p l {} False (with_graph (noted_worker p) l)"
    unfolding with_graph_def
  proof (rule invoking_during [OF keeping_in_session(4)], rule triple_bind [OF invoking_session])
    fix u :: unit and x :: attempt_end
    show "triple (kept p l {} True) (case x of (reading, e) \<Rightarrow> bindW (tryW (wk_close (noted_worker p) l))
        (\<lambda>r. returnW (reading, case r of Inl e' \<Rightarrow> Some e' | Inr _ \<Rightarrow> e))) (\<lambda>_. kept p l {} True) (\<lambda>_. kept p l {} True)"
      by (cases x) (auto intro!: keeping_bind keeping_try keeping_in_session triple_return)
  qed
  have interaction: "keeping p l {} False (execute_interaction (noted_worker p) l)"
    unfolding execute_interaction_def withW_def complete_interaction_def unless_lost_def
    by (intro keeping_bind keeping_in_session keeping_try keeping_lift)
      (auto split: list.split intro: triple_raise keeping_bind [OF keeping_in_session(8)] triple_if keeping_in_session)
  show ?thesis
    unfolding attempt_run_def execute_workflow_def noted_worker_simps
    by (intro triple_if keeping_invoking [OF finally_keeping [OF interaction]] invoking_during [OF keeping_reconcile] graph
        keeping_invoking [OF triple_return] keeping_invoking [OF finally_keeping [OF keeping_ending]]) auto
qed

lemma keeping_failure: "keeping p l K b (publish_failure (noted_worker p) l reading e)"
proof -
  have "keeping p l K b (finish_run (noted_worker p) l
      (if may_retry p (le_run l) e then retry_outcome (le_run l) else failure_outcome p reading e))"
    by (rule keeping_finish) (auto simp: retry_outcome_def failure_outcome_def ending_def may_retry_def attempts_left_def split: if_splits)
  moreover have "may_retry (noted_worker p) r e = may_retry p r e" "failure_outcome (noted_worker p) reading e = failure_outcome p reading e" for r
    by (simp_all add: may_retry_def failure_outcome_def)
  ultimately show ?thesis
    unfolding publish_failure_def by (auto intro!: keeping_bind keeping_reconcile triple_if triple_return)
qed

lemma invoking_execute: "invoking p l {} False (execute_run (noted_worker p) l)"
  unfolding execute_run_def
proof (rule triple_bind [OF invoking_attempt])
  fix x :: attempt_end
  show "keeping p l {} True (case x of (reading, failed) \<Rightarrow> (case failed of
       None \<Rightarrow> returnW ()
     | Some e \<Rightarrow> if is_lease_lost e then returnW ()
         else bindW (tryW (publish_failure (noted_worker p) l reading e)) (\<lambda>r. case r of
           Inr _ \<Rightarrow> returnW ()
         | Inl e' \<Rightarrow> if is_unsafe_retry e'
             then bindW (tryW (finish_run (noted_worker p) l (ending Reconciling (Some ''WRITE_REQUIRES_RECONCILIATION'')))) (\<lambda>_. returnW ())
             else returnW ())))"
    by (cases x) (auto intro!: triple_option triple_if triple_sum keeping_bind keeping_try keeping_failure keeping_ending triple_return)
qed

lemma execution_sound:
  assumes "execute_run (noted_worker p) l (w, []) = (r, w')"
  shows "sound p l {} (snd w')"
proof -
  have "kept p l {} False (w, [])"
    by (simp add: kept_def)
  then show ?thesis
    using tripleD [OF invoking_execute, of p l "(w, [])"] assms by (cases r) (auto simp: kept_def)
qed

text \<open>Nothing raises outside \<open>try\<close>.\<close>

abbreviation contained :: "('w, 'a) io \<Rightarrow> bool" where
  "contained m \<equiv> triple (\<lambda>_. True) m (\<lambda>_ _. True) (\<lambda>_ _. False)"

lemma contained_try: "contained (tryW m)"
  by (rule tripleI) (auto simp: tryW_eq)

lemma contained_during: "(\<And>x. contained (k x)) \<Longrightarrow> contained (during reading m k)"
  unfolding during_def
  by (rule triple_bind [OF contained_try]) (auto intro: triple_sum triple_return)

lemma contained_done: "contained (finally_done reading m)"
  unfolding finally_done_def by (rule contained_during) (rule triple_return, simp)

lemma contained_attempt: "contained (attempt_run p l)"
proof -
  have "contained (run_graph p l c d)" for c d
    unfolding run_graph_def by (intro contained_during contained_done)
  then have session: "contained (graph_session p l)"
    unfolding graph_session_def by (intro contained_during) (auto intro: contained_done)
  have "contained (with_graph p l)"
    unfolding with_graph_def
    by (intro contained_during triple_bind [OF session]) (auto intro!: triple_bind [OF contained_try] triple_return)
  then show ?thesis
    unfolding attempt_run_def execute_workflow_def
    by (auto intro!: triple_if contained_during contained_done triple_return)
qed

lemma contained_execute: "contained (execute_run p l)"
  unfolding execute_run_def
  by (rule triple_bind [OF contained_attempt])
    (auto intro!: triple_option triple_if triple_bind [OF contained_try] triple_sum triple_return)

text \<open>C19. The graph runs only on a classified checkpoint. An execution gives the graph an input at most once, and
  only after it has read a checkpoint and the journal and their classification said so: the input is the
  one that decision asks for. A lease whose attempts are used up never does.\<close>

theorem worker_invokes_classified:
  assumes "execute_run (noted_worker p) l (w, []) = (r, w')" and "snd w' = pre @ InvokeGraph i # post"
  shows "\<not> le_recovery_only l \<and> (\<nexists>j. InvokeGraph j \<in> set pre) \<and> (\<exists>c d op. ReadCheckpoint c \<in> set pre \<and> ReadOperation op \<in> set pre
    \<and> classify (wk_text p) (wk_hash p) (le_run l) c op = Inr d \<and> rd_action d \<noteq> Stop \<and> input_fits (le_run l) (rd_action d) i)"
proof -
  have "justified p l (set pre) (InvokeGraph i)"
    using sound_at [of p l "{}" pre "InvokeGraph i" post] execution_sound [OF assms(1)] assms(2) by simp
  then show ?thesis
    unfolding justified_def classified_from_def is_invoke_def by fastforce
qed

text \<open>C20. Errors of an execution. Whatever the repository, the graph or the reconciler raises, the execution
  returns. It publishes a success or a wait only as the projection of a checkpoint it has read, and a
  retry only while attempts are left.\<close>

theorem worker_contains_errors:
  assumes "execute_run (noted_worker p) l (w, []) = (r, w')"
  shows "r = Inr () \<and> (\<forall>out. Publish out \<in> set (snd w') \<longrightarrow>
      (out_status out = RetryScheduled \<longrightarrow> attempts_left p (le_run l) \<and> out = retry_outcome (le_run l))
    \<and> (out_status out \<in> {RunSucceeded, WaitingUser, WaitingApproval} \<longrightarrow> (\<exists>c d op. ReadCheckpoint c \<in> set (snd w')
         \<and> ReadOperation op \<in> set (snd w') \<and> classify (wk_text p) (wk_hash p) (le_run l) c op = Inr d
         \<and> rd_action d = Stop \<and> projected (wk_text p) d (cp_values c) = Inr out)))"
proof -
  have "r = Inr ()"
    using tripleD(2) [OF contained_execute] assms by (cases r) auto
  moreover have "justified p l (set (snd w')) (Publish out)" if published: "Publish out \<in> set (snd w')" for out
  proof -
    obtain pre post where split: "snd w' = pre @ Publish out # post"
      using split_list [OF published] by blast
    then have "justified p l (set pre) (Publish out)"
      using sound_at [of p l "{}" pre "Publish out" post] execution_sound [OF assms] by simp
    moreover have "set pre \<subseteq> set (snd w')"
      using split by auto
    ultimately show ?thesis
      unfolding justified_def by (auto dest: classified_from_mono)
  qed
  ultimately show ?thesis
    unfolding justified_def classified_from_def by (auto; blast)
qed


section \<open>A run\<close>

text \<open>A new run whose workflow is skipped after the diagnosis; the world counts the readings of the checkpoint.\<close>

definition skipped_checkpoint :: checkpoint where
  "skipped_checkpoint = \<lparr>cp_values = [(''incident_id'', JStr ''inc-1''), (''request'', JObj []), (''phase'', JStr ''remediation_skipped'')],
     cp_next = [], cp_tasks = [], cp_id = Some ''c-1''\<rparr>"

definition bench_worker :: "(nat, unit) worker_ports" where
  "bench_worker = \<lparr>wk_hash = demo_hash, wk_text = (\<lambda>_. []), wk_kind = (\<lambda>_. OtherKind), wk_max_attempts = 3,
     wk_lost = returnW False, wk_operation = (\<lambda>_. returnW None), wk_owned = (\<lambda>_. returnW ()), wk_manual = (\<lambda>_. returnW ()),
     wk_reconcile = (\<lambda>_ _. returnW True), wk_finish = (\<lambda>_ out. returnW (out_status out)), wk_open = (\<lambda>_. returnW ()),
     wk_close = (\<lambda>_. returnW ()),
     wk_state = (\<lambda>_ n. (Inr (if n = 0 then \<lparr>cp_values = [], cp_next = [], cp_tasks = [], cp_id = None\<rparr> else skipped_checkpoint), n + 1)),
     wk_begin = (\<lambda>_. returnW ()), wk_invoke = (\<lambda>_ _. returnW ()), wk_end = (\<lambda>_. returnW ()),
     wk_answer = (\<lambda>_ a _. returnW a), wk_interact = (\<lambda>_ _. returnW []), wk_complete = (\<lambda>_ _. returnW ())\<rparr>"

definition bench_owned :: lease where
  "bench_owned = \<lparr>le_run = bench_row, le_recovery_only = False\<rparr>"

lemma bench_execution:
  "map is_invoke (snd (snd (execute_run (noted_worker bench_worker) bench_owned (0, [])))) = [False, False, False, True, False, False, False, False]"
  by code_simp

lemma worker_invokes_classified_witness:
  "\<exists>c d op. classify (\<lambda>_. []) demo_hash bench_row c op = Inr d \<and> rd_action d \<noteq> Stop"
proof -
  obtain r w' where run: "execute_run (noted_worker bench_worker) bench_owned (0, []) = (r, w')"
    by (metis surj_pair)
  have "True \<in> set (map is_invoke (snd w'))"
    using bench_execution by (simp add: run)
  then obtain i where "InvokeGraph i \<in> set (snd w')"
    by (auto simp: is_invoke_iff)
  then obtain pre post where split: "snd w' = pre @ InvokeGraph i # post"
    by (auto dest: split_list)
  show ?thesis
    using worker_invokes_classified [OF run split] by (auto simp: bench_worker_def bench_owned_def)
qed

lemma bench_published:
  "(let out = last (snd (snd (execute_run (noted_worker bench_worker) bench_owned (0, [])))) in
     case out of Publish q \<Rightarrow> out_status q = RunSucceeded | _ \<Rightarrow> False)"
  by code_simp


lemma worker_contains_errors_witness:
  "\<exists>c d op out. classify (\<lambda>_. []) demo_hash bench_row c op = Inr d \<and> projected (\<lambda>_. []) d (cp_values c) = Inr out
     \<and> out_status out = RunSucceeded"
proof -
  obtain r w' where run: "execute_run (noted_worker bench_worker) bench_owned (0, []) = (r, w')"
    by (metis surj_pair)
  have "snd w' \<noteq> []"
    using bench_execution by (auto simp: run)
  then have "last (snd w') \<in> set (snd w')"
    by simp
  moreover obtain out where "last (snd w') = Publish out" "out_status out = RunSucceeded"
    using bench_published by (auto simp: run Let_def split: worker_call.splits)
  ultimately have "Publish out \<in> set (snd w')" "out_status out = RunSucceeded"
    by simp_all
  then show ?thesis
    using worker_contains_errors [OF run] by (simp add: bench_worker_def bench_owned_def) blast
qed

end
