(* ===== verification/Budget.thy ===== *)
theory Budget
  imports RemediationTools
begin

text \<open>
  \<open>backend/app/runtime/budget.py\<close>: the budget of a run, one stored record. Every operation edits it in one
  transaction under the fence of the run's lease; \<open>owned\<close> says whether the lease passes it. An exception
  inside the transaction leaves the record unchanged; a refusal is stored first and raised after.
  Seconds are exact rationals. The provider's token estimate and the public view are not modelled.
\<close>

section \<open>The record\<close>

text \<open>\<open>POLICY\<close>; \<open>None\<close> is no limit.\<close>

record budget_policy =
  po_model_attempts :: "nat option"
  po_active_seconds :: "rat option"
  po_extra_seconds :: "rat option"
  po_decisions :: "nat option"
  po_tools :: "nat option"
  po_total_tokens :: "int option"
  po_write_reserve :: rat

definition default_policy :: budget_policy where
  "default_policy = \<lparr>po_model_attempts = Some 6, po_active_seconds = None, po_extra_seconds = None, po_decisions = Some 5,
     po_tools = None, po_total_tokens = None, po_write_reserve = 0\<rparr>"

definition exceeds :: "'a::linorder \<Rightarrow> 'a option \<Rightarrow> bool" where
  "exceeds v limit = (case limit of None \<Rightarrow> False | Some m \<Rightarrow> v > m)"

text \<open>What \<open>settle\<close> adds to a call.\<close>

record settlement =
  sl_elapsed :: rat
  sl_usage :: "json option"
  sl_charged :: int
  sl_result :: "json option"

record budget_call =
  bc_kind :: string
  bc_reserved_seconds :: rat
  bc_extra :: bool
  bc_reserved_tokens :: int
  bc_status :: string
  bc_metadata :: dict
  bc_request :: "(string \<times> json) option"
  bc_settlement :: "settlement option"

record budget_data =
  bd_policy :: budget_policy
  bd_seconds :: rat
  bd_extra_seconds :: rat
  bd_tokens :: int
  bd_decisions :: "string list"
  bd_tools :: "string list"
  bd_calls :: "(string \<times> budget_call) list"
  bd_requests :: "(string \<times> string) list"
  bd_references :: dict
  bd_exhausted :: "string option"

definition initial_budget :: budget_data where
  "initial_budget = \<lparr>bd_policy = default_policy, bd_seconds = 0, bd_extra_seconds = 0, bd_tokens = 0, bd_decisions = [],
     bd_tools = [], bd_calls = [], bd_requests = [], bd_references = [], bd_exhausted = None\<rparr>"

text \<open>The stored record, and the seconds this process has measured.\<close>

record budget =
  bg_data :: budget_data
  bg_measured :: rat

definition edit :: "bool \<Rightarrow> (budget_data \<Rightarrow> ('a \<times> budget_data) res) \<Rightarrow> (budget, 'a) io" where
  "edit owned body b =
     (if \<not> owned then (Inl (LeaseLost ''run lease is no longer owned''), b)
      else case body (bg_data b) of Inl e \<Rightarrow> (Inl e, b) | Inr (x, d) \<Rightarrow> (Inr x, b\<lparr>bg_data := d\<rparr>))"

text \<open>\<open>if error: raise BudgetExceeded(error)\<close> after the transaction\<close>

definition raise_refusal :: "string option \<Rightarrow> (budget, unit) io" where
  "raise_refusal r = (case r of None \<Rightarrow> returnW () | Some code \<Rightarrow> raiseW (BudgetExceeded code))"

section \<open>Reservations\<close>

record reservation =
  rv_kind :: string
  rv_seconds :: rat
  rv_extra :: bool
  rv_tokens :: int
  rv_key :: "string option"
  rv_metadata :: dict
  rv_request_id :: "string option"
  rv_fingerprint :: json
  rv_decision_key :: "string option"
  rv_keep_tokens :: int
  rv_keep_seconds :: rat

definition empty_text :: "string option \<Rightarrow> bool" where
  "empty_text x = (x = None \<or> x = Some [])"

definition reservation_valid :: "reservation \<Rightarrow> bool" where
  "reservation_valid v = (0 \<le> rv_seconds v \<and> 0 \<le> rv_tokens v \<and> 0 \<le> rv_keep_tokens v \<and> 0 \<le> rv_keep_seconds v
     \<and> (rv_kind v = ''tool'' \<longrightarrow> \<not> empty_text (rv_key v)))"

definition new_decision :: "string option \<Rightarrow> budget_data \<Rightarrow> bool" where
  "new_decision k d = (\<not> empty_text k \<and> the k \<notin> set (bd_decisions d))"

definition model_calls :: "budget_data \<Rightarrow> nat" where
  "model_calls d = length (filter (\<lambda>c. bc_kind (snd c) = ''investigation_model'') (bd_calls d))"

definition attempt_limit :: "budget_policy \<Rightarrow> nat" where
  "attempt_limit p = (case po_model_attempts p of None \<Rightarrow> 5 | Some n \<Rightarrow> n)"

definition is_tool :: "reservation \<Rightarrow> bool" where
  "is_tool v = (rv_kind v = ''tool'')"

text \<open>The chain of refusals in its order.\<close>

definition refusal :: "reservation \<Rightarrow> budget_data \<Rightarrow> string option" where
  "refusal v d = (let p = bd_policy d in
     if new_decision (rv_decision_key v) d \<and> exceeds (length (bd_decisions d) + 1) (po_decisions p)
     then Some ''INVESTIGATION_DECISION_LIMIT''
     else if rv_kind v = ''investigation_model'' \<and> model_calls d \<ge> attempt_limit p then Some ''MODEL_ATTEMPT_LIMIT''
     else if is_tool v \<and> the (rv_key v) \<in> set (bd_tools d) then Some ''DUPLICATE_TOOL_EVIDENCE''
     else if is_tool v \<and> exceeds (length (bd_tools d) + 1) (po_tools p) then Some ''TOOL_REQUEST_LIMIT''
     else if exceeds (bd_seconds d + rv_seconds v + rv_keep_seconds v) (po_active_seconds p)
          \<or> rv_extra v \<and> exceeds (bd_extra_seconds d + rv_seconds v) (po_extra_seconds p) then Some ''ACTIVE_TIME_LIMIT''
     else if exceeds (bd_tokens d + rv_tokens v + rv_keep_tokens v) (po_total_tokens p) then Some ''MODEL_TOKEN_LIMIT''
     else None)"

definition reserved_call :: "reservation \<Rightarrow> budget_call" where
  "reserved_call v = \<lparr>bc_kind = rv_kind v, bc_reserved_seconds = rv_seconds v, bc_extra = rv_extra v,
     bc_reserved_tokens = rv_tokens v, bc_status = ''started_or_interrupted'', bc_metadata = rv_metadata v,
     bc_request = (if empty_text (rv_request_id v) then None else Some (the (rv_request_id v), rv_fingerprint v)),
     bc_settlement = None\<rparr>"

definition charged_for :: "reservation \<Rightarrow> string \<Rightarrow> budget_data \<Rightarrow> budget_data" where
  "charged_for v ticket d = d\<lparr>bd_seconds := bd_seconds d + rv_seconds v,
     bd_extra_seconds := bd_extra_seconds d + (if rv_extra v then rv_seconds v else 0),
     bd_tokens := bd_tokens d + rv_tokens v,
     bd_tools := (if is_tool v then bd_tools d @ [the (rv_key v)] else bd_tools d),
     bd_decisions := (if new_decision (rv_decision_key v) d then bd_decisions d @ [the (rv_decision_key v)] else bd_decisions d),
     bd_calls := put (bd_calls d) ticket (reserved_call v),
     bd_requests := (if empty_text (rv_request_id v) then bd_requests d
       else put (bd_requests d) (the (rv_request_id v)) ticket)\<rparr>"

text \<open>
  What the transaction ends with: the ticket of the same request, a refusal, or a new ticket. The flag
  says that the ticket is new; without a request the source returns the ticket alone.
\<close>

datatype reserve_result = Replayed string | Refused string | Granted

definition reserve_body :: "reservation \<Rightarrow> string \<Rightarrow> budget_data \<Rightarrow> (reserve_result \<times> budget_data) res" where
  "reserve_body v ticket d =
     (case (if empty_text (rv_request_id v) then None else map_of (bd_requests d) (the (rv_request_id v))) of
        Some existing \<Rightarrow> (case map_of (bd_calls d) existing of
            None \<Rightarrow> Inl KeyError
          | Some c \<Rightarrow> if \<not> py_eq (case bc_request c of None \<Rightarrow> JNull | Some (_, f) \<Rightarrow> f) (rv_fingerprint v)
              then Inl (PyValueError ''REQUEST_INPUT_CHANGED'') else Inr (Replayed existing, d))
      | None \<Rightarrow> (case refusal v d of
            Some code \<Rightarrow> Inr (Refused code, d\<lparr>bd_exhausted := Some code\<rparr>)
          | None \<Rightarrow> Inr (Granted, charged_for v ticket d)))"

definition reserve :: "bool \<Rightarrow> reservation \<Rightarrow> string \<Rightarrow> (budget, string \<times> bool) io" where
  "reserve owned v ticket =
     (if \<not> reservation_valid v then raiseW (PyValueError ''INVALID_BUDGET_RESERVATION'')
      else bindW (edit owned (reserve_body v ticket)) (\<lambda>r. case r of
        Replayed t \<Rightarrow> returnW (t, False) | Refused code \<Rightarrow> raiseW (BudgetExceeded code) | Granted \<Rightarrow> returnW (ticket, True)))"

section \<open>Settling\<close>

definition settled_call :: "rat \<Rightarrow> int option \<Rightarrow> json option \<Rightarrow> string \<Rightarrow> json option \<Rightarrow> budget_call \<Rightarrow> budget_call" where
  "settled_call elapsed tokens usage status result c = c\<lparr>bc_status := status, bc_settlement := Some
     \<lparr>sl_elapsed = elapsed, sl_usage = usage,
      sl_charged = (case tokens of None \<Rightarrow> bc_reserved_tokens c | Some n \<Rightarrow> n), sl_result = result\<rparr>\<rparr>"

definition settle_data :: "string \<Rightarrow> rat \<Rightarrow> int option \<Rightarrow> json option \<Rightarrow> string \<Rightarrow> json option \<Rightarrow> budget_call \<Rightarrow> budget_data \<Rightarrow> budget_data" where
  "settle_data ticket elapsed tokens usage status result c d =
     (let seconds = bd_seconds d + (elapsed - bc_reserved_seconds c) in
      d\<lparr>bd_seconds := seconds,
        bd_extra_seconds := bd_extra_seconds d + (if bc_extra c then elapsed - bc_reserved_seconds c else 0),
        bd_tokens := bd_tokens d + (case tokens of None \<Rightarrow> 0 | Some n \<Rightarrow> n - bc_reserved_tokens c),
        bd_calls := put (bd_calls d) ticket (settled_call elapsed tokens usage status result c),
        bd_exhausted := (if exceeds seconds (po_active_seconds (bd_policy d)) then Some ''ACTIVE_TIME_LIMIT'' else bd_exhausted d)\<rparr>)"

text \<open>The transaction returns the kind of a call it has settled, nothing for one that was settled before.\<close>

definition settle_body ::
  "string \<Rightarrow> rat \<Rightarrow> int option \<Rightarrow> json option \<Rightarrow> string \<Rightarrow> json option \<Rightarrow> budget_data \<Rightarrow> (string option \<times> budget_data) res" where
  "settle_body ticket elapsed tokens usage status result d = (case map_of (bd_calls d) ticket of
       None \<Rightarrow> Inl KeyError
     | Some c \<Rightarrow> if bc_status c \<noteq> ''started_or_interrupted'' then Inr (None, d)
         else Inr (Some (bc_kind c), settle_data ticket (max 0 elapsed) tokens usage status result c d))"

definition settle :: "bool \<Rightarrow> string \<Rightarrow> rat \<Rightarrow> int option \<Rightarrow> json option \<Rightarrow> string \<Rightarrow> json option \<Rightarrow> (budget, unit) io" where
  "settle owned ticket elapsed tokens usage status result =
     bindW (edit owned (settle_body ticket elapsed tokens usage status result)) (\<lambda>k b. case k of
       None \<Rightarrow> (Inr (), b)
     | Some kind \<Rightarrow> (Inr (), if kind = ''control_overhead'' then b else b\<lparr>bg_measured := bg_measured b + max 0 elapsed\<rparr>))"

section \<open>Decisions and writes\<close>

definition deny :: "bool \<Rightarrow> string \<Rightarrow> (budget, unit) io" where
  "deny owned reason = bindW (edit owned (\<lambda>d. Inr ((), d\<lparr>bd_exhausted := Some reason\<rparr>))) (\<lambda>_. raiseW (BudgetExceeded reason))"

definition decision_body :: "string \<Rightarrow> budget_data \<Rightarrow> (string option \<times> budget_data) res" where
  "decision_body key d =
     (if key \<in> set (bd_decisions d) then Inr (None, d)
      else if exceeds (length (bd_decisions d) + 1) (po_decisions (bd_policy d))
      then Inr (Some ''INVESTIGATION_DECISION_LIMIT'', d\<lparr>bd_exhausted := Some ''INVESTIGATION_DECISION_LIMIT''\<rparr>)
      else Inr (None, d\<lparr>bd_decisions := bd_decisions d @ [key]\<rparr>))"

definition decision :: "bool \<Rightarrow> string \<Rightarrow> (budget, unit) io" where
  "decision owned key = bindW (edit owned (decision_body key)) raise_refusal"

definition before_write_body :: "rat option \<Rightarrow> budget_data \<Rightarrow> (string option \<times> budget_data) res" where
  "before_write_body required d =
     (let p = bd_policy d; needed = (case required of None \<Rightarrow> po_write_reserve p | Some r \<Rightarrow> if r = 0 then po_write_reserve p else r)
      in if exceeds (bd_seconds d + needed) (po_active_seconds p) \<or> exceeds (bd_tokens d) (po_total_tokens p)
         then Inr (Some ''WRITE_VERIFICATION_BUDGET_NOT_RESERVED'', d\<lparr>bd_exhausted := Some ''WRITE_VERIFICATION_BUDGET_NOT_RESERVED''\<rparr>)
         else Inr (None, d))"

definition before_write :: "bool \<Rightarrow> rat option \<Rightarrow> (budget, unit) io" where
  "before_write owned required = bindW (edit owned (before_write_body required)) raise_refusal"

section \<open>Overhead and references\<close>

definition overhead_call :: budget_call where
  "overhead_call = \<lparr>bc_kind = ''control_overhead'', bc_reserved_seconds = 5, bc_extra = False, bc_reserved_tokens = 0,
     bc_status = ''started_or_interrupted'', bc_metadata = [], bc_request = None, bc_settlement = None\<rparr>"

definition begin_activity :: "bool \<Rightarrow> string \<Rightarrow> (budget, unit) io" where
  "begin_activity owned ticket = edit owned (\<lambda>d. Inr ((), d\<lparr>bd_seconds := bd_seconds d + 5,
     bd_calls := put (bd_calls d) ticket overhead_call\<rparr>))"

text \<open>The end of an activity that began at \<open>start\<close> when \<open>before\<close> seconds had been measured.\<close>

definition end_activity :: "bool \<Rightarrow> string \<Rightarrow> rat \<Rightarrow> rat \<Rightarrow> rat \<Rightarrow> (budget, unit) io" where
  "end_activity owned ticket start before now b =
     settle owned ticket (max 0 (now - start - (bg_measured b - before))) None None ''completed'' None b"

fun add_references :: "dict \<Rightarrow> dict \<Rightarrow> dict res" where
  "add_references refs [] = Inr refs"
| "add_references refs ((k, v) # kvs) = (case map_of refs k of
       Some w \<Rightarrow> if \<not> py_eq w v then Inl (PyValueError ''RESOURCE_REFERENCE_CHANGED'') else add_references (put refs k v) kvs
     | None \<Rightarrow> add_references (put refs k v) kvs)"

definition references :: "bool \<Rightarrow> dict option \<Rightarrow> (budget, dict) io" where
  "references owned values = edit owned (\<lambda>d.
     bindE (add_references (bd_references d) (case values of None \<Rightarrow> [] | Some kvs \<Rightarrow> kvs)) (\<lambda>refs.
       Inr (refs, d\<lparr>bd_references := refs\<rparr>)))"

text \<open>\<open>stage\<close>: a reservation around a dependency call; the call is settled whether it raised or not.\<close>

definition stage :: "bool \<Rightarrow> bool \<Rightarrow> string \<Rightarrow> rat \<Rightarrow> bool \<Rightarrow> string \<Rightarrow> rat \<Rightarrow> (budget, 'a) io \<Rightarrow> (budget, 'a) io" where
  "stage owned owned_after name secs extra ticket elapsed m =
     bindW (reserve owned \<lparr>rv_kind = name, rv_seconds = secs, rv_extra = extra, rv_tokens = 0, rv_key = None, rv_metadata = [],
       rv_request_id = None, rv_fingerprint = JNull, rv_decision_key = None, rv_keep_tokens = 0, rv_keep_seconds = 0\<rparr> ticket) (\<lambda>_.
     bindW (tryW m) (\<lambda>r.
     bindW (settle owned_after ticket elapsed None None (case r of Inl _ \<Rightarrow> ''failed_or_unknown'' | Inr _ \<Rightarrow> ''completed'') None) (\<lambda>_.
     liftW r)))"

end
