(* ===== verification/BudgetProps.thy ===== *)
theory BudgetProps
  imports Budget
begin

text \<open>
  The accounts of the budget: the stored totals are the sums over the recorded calls in every state the
  operations reach, the limits of the policy hold there, and a request is charged once.
\<close>

section \<open>Sums over a dictionary\<close>

lemma sum_put_new: "k \<notin> fst ` set xs \<Longrightarrow> sum_list (map (\<lambda>x. f (snd x)) (put xs k v)) = sum_list (map (\<lambda>x. f (snd x)) xs) + (f v :: 'a::ab_group_add)"
  by (induction xs k v rule: put.induct) (auto simp: algebra_simps)

lemma sum_put_old:
  "map_of xs k = Some w \<Longrightarrow> sum_list (map (\<lambda>x. f (snd x)) (put xs k v)) = sum_list (map (\<lambda>x. f (snd x)) xs) + (f v - f w :: 'a::ab_group_add)"
  by (induction xs k v rule: put.induct) (auto simp: algebra_simps split: if_splits)

lemma count_put_new: "k \<notin> fst ` set xs \<Longrightarrow> length (filter (\<lambda>x. P (snd x)) (put xs k v)) = length (filter (\<lambda>x. P (snd x)) xs) + (if P v then 1 else 0)"
  by (induction xs k v rule: put.induct) auto

lemma count_put_old: "map_of xs k = Some w \<Longrightarrow> P v = P w \<Longrightarrow> length (filter (\<lambda>x. P (snd x)) (put xs k v)) = length (filter (\<lambda>x. P (snd x)) xs)"
  by (induction xs k v rule: put.induct) (auto split: if_splits)

section \<open>The accounts\<close>

lemma model_calls_new:
  "bd_calls d' = put (bd_calls d) ticket c \<Longrightarrow> ticket \<notin> fst ` set (bd_calls d)
    \<Longrightarrow> model_calls d' = model_calls d + (if bc_kind c = ''investigation_model'' then 1 else 0)"
  unfolding model_calls_def by (simp only:) (rule count_put_new)

lemma model_calls_old:
  "bd_calls d' = put (bd_calls d) ticket c' \<Longrightarrow> map_of (bd_calls d) ticket = Some c \<Longrightarrow> bc_kind c' = bc_kind c
    \<Longrightarrow> model_calls d' = model_calls d"
  unfolding model_calls_def by (simp only:) (rule count_put_old, simp_all)

definition spent_seconds :: "budget_call \<Rightarrow> rat" where
  "spent_seconds c = (case bc_settlement c of None \<Rightarrow> bc_reserved_seconds c | Some s \<Rightarrow> sl_elapsed s)"

definition spent_extra :: "budget_call \<Rightarrow> rat" where
  "spent_extra c = (if bc_extra c then spent_seconds c else 0)"

definition charged_tokens :: "budget_call \<Rightarrow> int" where
  "charged_tokens c = (case bc_settlement c of None \<Rightarrow> bc_reserved_tokens c | Some s \<Rightarrow> sl_charged s)"

definition total :: "(budget_call \<Rightarrow> 'a::ab_group_add) \<Rightarrow> budget_data \<Rightarrow> 'a" where
  "total f d = sum_list (map (\<lambda>x. f (snd x)) (bd_calls d))"

definition unsettled_call :: "budget_call \<Rightarrow> bool" where
  "unsettled_call c = (bc_status c = ''started_or_interrupted'')"

definition opens_unsettled :: "budget_data \<Rightarrow> bool" where
  "opens_unsettled d = (\<forall>c\<in>snd ` set (bd_calls d). unsettled_call c \<longrightarrow> bc_settlement c = None)"

definition balanced :: "budget_data \<Rightarrow> bool" where
  "balanced d = (bd_seconds d = total spent_seconds d \<and> bd_extra_seconds d = total spent_extra d \<and> bd_tokens d = total charged_tokens d
     \<and> opens_unsettled d)"

definition within_limits :: "budget_data \<Rightarrow> bool" where
  "within_limits d = (bd_policy d = default_policy \<and> length (bd_decisions d) \<le> 5 \<and> distinct (bd_decisions d)
     \<and> model_calls d \<le> 6 \<and> distinct (bd_tools d))"

definition requests_known :: "budget_data \<Rightarrow> bool" where
  "requests_known d = (\<forall>q t. map_of (bd_requests d) q = Some t \<longrightarrow> t \<in> fst ` set (bd_calls d))"

lemma in_put: "x \<in> snd ` set (put xs k v) \<Longrightarrow> x = v \<or> x \<in> snd ` set xs"
  by (induction xs k v rule: put.induct) (auto split: if_splits)

lemmas spent_defs = spent_seconds_def spent_extra_def charged_tokens_def

lemma opens_put:
  assumes "bd_calls d' = put (bd_calls d) ticket c" and "opens_unsettled d" and "unsettled_call c \<Longrightarrow> bc_settlement c = None"
  shows "opens_unsettled d'"
  unfolding opens_unsettled_def assms(1)
proof (intro ballI impI)
  fix x assume "x \<in> snd ` set (put (bd_calls d) ticket c)" and open': "unsettled_call x"
  from in_put [OF this(1)] show "bc_settlement x = None"
    using assms(2,3) open' unfolding opens_unsettled_def by auto
qed

lemma total_new:
  "bd_calls d' = put (bd_calls d) ticket c \<Longrightarrow> ticket \<notin> fst ` set (bd_calls d) \<Longrightarrow> total f d' = total f d + f c"
  by (simp add: total_def sum_put_new)

lemma total_old:
  "bd_calls d' = put (bd_calls d) ticket c' \<Longrightarrow> map_of (bd_calls d) ticket = Some c \<Longrightarrow> total f d' = total f d + (f c' - f c)"
  by (simp add: total_def sum_put_old)

lemma reserved_spends [simp]:
  "spent_seconds (reserved_call v) = rv_seconds v" "spent_extra (reserved_call v) = (if rv_extra v then rv_seconds v else 0)"
  "charged_tokens (reserved_call v) = rv_tokens v" "bc_kind (reserved_call v) = rv_kind v" "bc_settlement (reserved_call v) = None"
  by (simp_all add: reserved_call_def spent_defs)

lemma overhead_spends [simp]:
  "spent_seconds overhead_call = 5" "spent_extra overhead_call = 0" "charged_tokens overhead_call = 0"
  by (simp_all add: overhead_call_def spent_defs)

text \<open>The operations on the record.\<close>

lemma exceeds_Some [simp]: "exceeds v (Some m) \<longleftrightarrow> v > m" "\<not> exceeds v None"
  by (simp_all add: exceeds_def)

lemma charged_for_simps [simp]:
  "bd_calls (charged_for v ticket d) = put (bd_calls d) ticket (reserved_call v)"
  "bd_policy (charged_for v ticket d) = bd_policy d" "bd_seconds (charged_for v ticket d) = bd_seconds d + rv_seconds v"
  "bd_extra_seconds (charged_for v ticket d) = bd_extra_seconds d + (if rv_extra v then rv_seconds v else 0)"
  "bd_tokens (charged_for v ticket d) = bd_tokens d + rv_tokens v"
  "bd_tools (charged_for v ticket d) = (if is_tool v then bd_tools d @ [the (rv_key v)] else bd_tools d)"
  "bd_decisions (charged_for v ticket d) = (if new_decision (rv_decision_key v) d then bd_decisions d @ [the (rv_decision_key v)] else bd_decisions d)"
  "bd_requests (charged_for v ticket d) = (if empty_text (rv_request_id v) then bd_requests d else put (bd_requests d) (the (rv_request_id v)) ticket)"
  by (simp_all add: charged_for_def)

lemma charged_for_keeps:
  assumes "balanced d" and "within_limits d" and "requests_known d" and "refusal v d = None" and "ticket \<notin> fst ` set (bd_calls d)"
  shows "balanced (charged_for v ticket d)" and "within_limits (charged_for v ticket d)" and "requests_known (charged_for v ticket d)"
proof -
  let ?d = "charged_for v ticket d"
  have sums: "total spent_seconds ?d = total spent_seconds d + rv_seconds v"
    "total spent_extra ?d = total spent_extra d + (if rv_extra v then rv_seconds v else 0)"
    "total charged_tokens ?d = total charged_tokens d + rv_tokens v"
    by (simp_all add: total_new [OF charged_for_simps(1) assms(5)])
  have settled: "opens_unsettled ?d"
    by (rule opens_put [OF charged_for_simps(1)]) (use assms(1) in \<open>simp_all add: balanced_def\<close>)
  show "balanced ?d"
    using assms(1) sums settled by (auto simp: balanced_def)
  have "model_calls ?d = model_calls d + (if rv_kind v = ''investigation_model'' then 1 else 0)"
    using model_calls_new [OF charged_for_simps(1) assms(5)] by simp
  then show "within_limits ?d"
    using assms(2,4) by (auto simp: within_limits_def refusal_def Let_def new_decision_def default_policy_def
      attempt_limit_def is_tool_def split: if_splits)
  show "requests_known ?d"
    using assms(3) by (auto simp: requests_known_def keys_put)
qed

lemma settle_data_keeps:
  fixes elapsed tokens usage result
  assumes "balanced d" and "within_limits d" and "requests_known d" and "map_of (bd_calls d) ticket = Some c" and "unsettled_call c"
    and "status \<noteq> ''started_or_interrupted''"
  defines "d' \<equiv> settle_data ticket elapsed tokens usage status result c d"
  shows "balanced d'" and "within_limits d'" and "requests_known d'"
proof -
  let ?c = "settled_call elapsed tokens usage status result c"
  have calls: "bd_calls d' = put (bd_calls d) ticket ?c"
    by (simp add: d'_def settle_data_def Let_def)
  have "c \<in> snd ` set (bd_calls d)"
    using map_of_SomeD [OF assms(4)] by force
  then have none: "bc_settlement c = None"
    using assms(5) assms(1) [unfolded balanced_def opens_unsettled_def] by (metis (no_types, lifting))
  have sums: "total spent_seconds d' = total spent_seconds d + (elapsed - bc_reserved_seconds c)"
    "total spent_extra d' = total spent_extra d + (if bc_extra c then elapsed - bc_reserved_seconds c else 0)"
    "total charged_tokens d' = total charged_tokens d + (case tokens of None \<Rightarrow> 0 | Some n \<Rightarrow> n - bc_reserved_tokens c)"
    using none by (auto simp: total_old [OF calls assms(4)] settled_call_def spent_defs split: option.split)
  have settled: "opens_unsettled d'"
    by (rule opens_put [OF calls]) (use assms(1,6) in \<open>simp_all add: balanced_def unsettled_call_def settled_call_def\<close>)
  show "balanced d'"
    using assms(1) sums settled by (auto simp: balanced_def d'_def settle_data_def Let_def)
  have "model_calls d' = model_calls d"
    by (rule model_calls_old [OF calls assms(4)]) (simp add: settled_call_def)
  then show "within_limits d'"
    using assms(2) by (simp add: within_limits_def d'_def settle_data_def Let_def)
  show "requests_known d'"
    using assms(3) by (auto simp: requests_known_def d'_def settle_data_def Let_def keys_put)
qed

lemma decision_body_keeps:
  assumes "balanced d" and "within_limits d" and "requests_known d" and "decision_body key d = Inr (x, d')"
  shows "balanced d'" and "within_limits d'" and "requests_known d'"
  using assms by (auto simp: decision_body_def balanced_def total_def opens_unsettled_def within_limits_def default_policy_def model_calls_def
    requests_known_def split: if_splits)

definition sound_budget :: "budget_data \<Rightarrow> bool" where
  "sound_budget d = (balanced d \<and> within_limits d \<and> requests_known d)"

lemma sound_unchanged:
  assumes "sound_budget d" and "bd_policy d' = bd_policy d" and "bd_seconds d' = bd_seconds d" and "bd_extra_seconds d' = bd_extra_seconds d"
    and "bd_tokens d' = bd_tokens d" and "bd_decisions d' = bd_decisions d" and "bd_tools d' = bd_tools d" and "bd_calls d' = bd_calls d"
    and "bd_requests d' = bd_requests d"
  shows "sound_budget d'"
  using assms by (simp add: sound_budget_def balanced_def total_def opens_unsettled_def within_limits_def model_calls_def requests_known_def)

section \<open>Steps\<close>

text \<open>A ticket is a new UUID; a settled call does not get the status of an open one.\<close>

inductive accounting_step :: "budget \<Rightarrow> budget \<Rightarrow> bool" where
  reserving: "reserve owned v ticket b = (r, b') \<Longrightarrow> ticket \<notin> fst ` set (bd_calls (bg_data b)) \<Longrightarrow> accounting_step b b'"
| settling: "settle owned ticket elapsed tokens usage status result b = (s, b') \<Longrightarrow> status \<noteq> ''started_or_interrupted'' \<Longrightarrow> accounting_step b b'"
| denying: "deny owned reason b = (s, b') \<Longrightarrow> accounting_step b b'"
| deciding: "decision owned key b = (s, b') \<Longrightarrow> accounting_step b b'"
| writing: "before_write owned required b = (s, b') \<Longrightarrow> accounting_step b b'"
| beginning: "begin_activity owned ticket b = (s, b') \<Longrightarrow> ticket \<notin> fst ` set (bd_calls (bg_data b)) \<Longrightarrow> accounting_step b b'"
| finishing: "end_activity owned ticket start before now b = (s, b') \<Longrightarrow> accounting_step b b'"
| referring: "references owned values b = (q, b') \<Longrightarrow> accounting_step b b'"

definition new_budget :: budget where
  "new_budget = \<lparr>bg_data = initial_budget, bg_measured = 0\<rparr>"

text \<open>What a step does to the record: nothing, or one of the edits.\<close>

inductive budget_edit :: "budget_data \<Rightarrow> budget_data \<Rightarrow> bool" where
  same: "budget_edit d d"
| noted: "budget_edit d (d\<lparr>bd_exhausted := code\<rparr>)"
| charged: "refusal v d = None \<Longrightarrow> ticket \<notin> fst ` set (bd_calls d) \<Longrightarrow>
    empty_text (rv_request_id v) \<or> map_of (bd_requests d) (the (rv_request_id v)) = None \<Longrightarrow> budget_edit d (charged_for v ticket d)"
| closed: "map_of (bd_calls d) ticket = Some c \<Longrightarrow> unsettled_call c \<Longrightarrow> status \<noteq> ''started_or_interrupted'' \<Longrightarrow>
    budget_edit d (settle_data ticket elapsed tokens usage status result c d)"
| decided: "decision_body key d = Inr (x, d') \<Longrightarrow> budget_edit d d'"
| opened: "ticket \<notin> fst ` set (bd_calls d) \<Longrightarrow>
    budget_edit d (d\<lparr>bd_seconds := bd_seconds d + 5, bd_calls := put (bd_calls d) ticket overhead_call\<rparr>)"
| referenced: "budget_edit d (d\<lparr>bd_references := refs\<rparr>)"

lemma edit_cases:
  assumes "edit owned body b = (r, b')" and "\<And>x d'. body (bg_data b) = Inr (x, d') \<Longrightarrow> budget_edit (bg_data b) d'"
  shows "budget_edit (bg_data b) (bg_data b')"
  using assms by (auto simp: edit_def split: if_splits sum.splits intro: budget_edit.same)

lemma reserve_edit:
  assumes "reserve owned v ticket b = (r, b')" and "ticket \<notin> fst ` set (bd_calls (bg_data b))"
  shows "budget_edit (bg_data b) (bg_data b')"
proof (cases "reservation_valid v")
  case False
  then show ?thesis
    using assms(1) by (simp add: reserve_def raiseW_eq budget_edit.same)
next
  case True
  obtain x b1 where e: "edit owned (reserve_body v ticket) b = (x, b1)"
    by (metis surj_pair)
  then have "b' = b1"
    using assms(1) True by (cases x) (auto simp: reserve_def bindW_def returnW_def raiseW_def split: reserve_result.splits)
  have "budget_edit (bg_data b) d'" if "reserve_body v ticket (bg_data b) = Inr (y, d')" for y d'
    using that assms(2)
    by (auto simp: reserve_body_def split: option.splits if_splits intro: budget_edit.intros)
  with edit_cases [OF e] show ?thesis
    by (simp add: \<open>b' = b1\<close>)
qed

lemma settle_edit:
  assumes "settle owned ticket elapsed tokens usage status result b = (r, b')" and "status \<noteq> ''started_or_interrupted''"
  shows "budget_edit (bg_data b) (bg_data b')"
proof -
  obtain x b1 where e: "edit owned (settle_body ticket elapsed tokens usage status result) b = (x, b1)"
    by (metis surj_pair)
  then have "bg_data b' = bg_data b1"
    using assms(1) by (cases x) (auto simp: settle_def bindW_def split: option.splits if_splits)
  have "budget_edit (bg_data b) d'" if "settle_body ticket elapsed tokens usage status result (bg_data b) = Inr (y, d')" for y d'
    using that assms(2) by (auto simp: settle_body_def unsettled_call_def split: option.splits if_splits intro: budget_edit.same budget_edit.closed)
  with edit_cases [OF e] show ?thesis
    by (simp add: \<open>bg_data b' = bg_data b1\<close>)
qed

lemma accounting_step_edit: "accounting_step b b' \<Longrightarrow> budget_edit (bg_data b) (bg_data b')"
proof (induction rule: accounting_step.induct)
  case (denying owned reason b s b')
  then have "bg_data b' = bg_data b \<or> bg_data b' = (bg_data b)\<lparr>bd_exhausted := Some reason\<rparr>"
    by (auto simp: deny_def bindW_def raiseW_def edit_def split: if_splits)
  then show ?case
    by (elim disjE) (simp_all add: budget_edit.same budget_edit.noted)
next
  case (deciding owned key b s b')
  obtain x b1 where e: "edit owned (decision_body key) b = (x, b1)"
    by (metis surj_pair)
  then have "b' = b1"
    using deciding by (cases x) (auto simp: decision_def raise_refusal_def bindW_def returnW_def raiseW_def split: option.splits)
  then show ?case
    using edit_cases [OF e budget_edit.decided] by simp
next
  case (writing owned required b s b')
  obtain x b1 where e: "edit owned (before_write_body required) b = (x, b1)"
    by (metis surj_pair)
  then have "b' = b1"
    using writing by (cases x) (auto simp: before_write_def raise_refusal_def bindW_def returnW_def raiseW_def split: option.splits)
  moreover have "budget_edit (bg_data b) d'" if "before_write_body required (bg_data b) = Inr (y, d')" for y d'
    using that by (auto simp: before_write_body_def Let_def split: if_splits intro: budget_edit.same budget_edit.noted)
  ultimately show ?case
    using edit_cases [OF e] by simp
next
  case (beginning owned ticket b s b')
  show ?case
    by (rule edit_cases [OF beginning(1) [unfolded begin_activity_def]]) (use budget_edit.opened [OF beginning(2)] in auto)
next
  case (referring owned "values" b q b')
  show ?case
    by (rule edit_cases [OF referring(1) [unfolded references_def]]) (auto simp: res_simps intro: budget_edit.referenced)
qed (auto intro: reserve_edit settle_edit simp: end_activity_def)

lemma budget_edit_sound: "budget_edit d d' \<Longrightarrow> sound_budget d \<Longrightarrow> sound_budget d'"
proof (induction rule: budget_edit.induct)
  case (charged v d ticket)
  then show ?case
    using charged_for_keeps [of d v ticket] by (simp only: sound_budget_def simp_thms)
next
  case (closed d ticket c status elapsed tokens usage result)
  then show ?case
    using settle_data_keeps [of d ticket c status elapsed tokens usage result] by (simp only: sound_budget_def simp_thms)
next
  case (decided key d x d')
  then show ?case
    using decision_body_keeps [of d key x d'] by (simp only: sound_budget_def simp_thms)
next
  case (opened ticket d)
  let ?d = "d\<lparr>bd_seconds := bd_seconds d + 5, bd_calls := put (bd_calls d) ticket overhead_call\<rparr>"
  have "total spent_seconds ?d = total spent_seconds d + 5" "total spent_extra ?d = total spent_extra d"
    "total charged_tokens ?d = total charged_tokens d"
    using opened(1) by (simp_all add: total_new [of ?d d ticket overhead_call])
  moreover have "model_calls ?d = model_calls d"
    using model_calls_new [of ?d d ticket overhead_call] opened(1) by (simp add: overhead_call_def)
  moreover have "opens_unsettled ?d"
    by (rule opens_put [of ?d d ticket overhead_call]) (use opened(2) in \<open>simp_all add: sound_budget_def balanced_def overhead_call_def\<close>)
  moreover have "requests_known ?d"
    using opened(2) by (simp add: sound_budget_def requests_known_def keys_put)
  ultimately show ?case
    using opened(2) by (simp add: sound_budget_def balanced_def within_limits_def)
next
  case (noted d code)
  then show ?case
    by (rule sound_unchanged) simp_all
next
  case (referenced d refs)
  then show ?case
    by (rule sound_unchanged) simp_all
qed simp

lemma sound_initial: "sound_budget initial_budget"
  by (simp add: sound_budget_def balanced_def within_limits_def requests_known_def initial_budget_def total_def opens_unsettled_def model_calls_def)

lemma reachable_sound:
  assumes "accounting_step\<^sup>*\<^sup>* new_budget b"
  shows "sound_budget (bg_data b)"
  using assms
proof (induction rule: rtranclp_induct)
  case base
  then show ?case
    by (simp add: new_budget_def sound_initial)
qed (blast intro: budget_edit_sound accounting_step_edit)

text \<open>C22. The budget is accounted. Whatever operations a run performs, with or without its lease, the stored seconds, extra
  seconds and tokens are the sums of what every recorded call reserved or, once settled, used; at most
  five decisions and six investigation model calls are recorded, and no decision and no tool request twice.\<close>

theorem budget_accounted:
  assumes "accounting_step\<^sup>*\<^sup>* new_budget b"
  shows "bd_seconds (bg_data b) = total spent_seconds (bg_data b) \<and> bd_extra_seconds (bg_data b) = total spent_extra (bg_data b)
    \<and> bd_tokens (bg_data b) = total charged_tokens (bg_data b)
    \<and> length (bd_decisions (bg_data b)) \<le> 5 \<and> distinct (bd_decisions (bg_data b))
    \<and> model_calls (bg_data b) \<le> 6 \<and> distinct (bd_tools (bg_data b))"
  using reachable_sound [OF assms] by (simp add: sound_budget_def balanced_def within_limits_def)

section \<open>Requests\<close>

definition request_held :: "string \<Rightarrow> string \<Rightarrow> json \<Rightarrow> budget_data \<Rightarrow> bool" where
  "request_held q t f d = (map_of (bd_requests d) q = Some t \<and> (\<exists>c. map_of (bd_calls d) t = Some c \<and> bc_request c = Some (q, f)))"

lemma budget_edit_holds: "budget_edit d d' \<Longrightarrow> request_held q t f d \<Longrightarrow> request_held q t f d'"
proof (induction rule: budget_edit.induct)
  case (charged v d ticket)
  then have "t \<noteq> ticket"
    by (auto simp: request_held_def dest!: map_of_SomeD) force+
  then show ?case
    using charged(3,4) by (auto simp: request_held_def charged_for_def)
next
  case (decided key d x d')
  then show ?case
    by (auto simp: request_held_def decision_body_def split: if_splits)
next
  case (opened ticket d)
  then have "t \<noteq> ticket"
    by (auto simp: request_held_def dest!: map_of_SomeD) force+
  then show ?case
    using opened(2) by (auto simp: request_held_def)
qed (auto simp: request_held_def settle_data_def settled_call_def Let_def)

lemma reserve_granted:
  assumes "reserve owned v ticket b = (Inr (t, True), b')" and "rv_request_id v = Some q" and "q \<noteq> []"
  shows "request_held q t (rv_fingerprint v) (bg_data b')"
proof -
  have "reservation_valid v"
    using assms(1) by (auto simp: reserve_def io_simps split: if_splits)
  moreover obtain x b1 where e: "edit owned (reserve_body v ticket) b = (x, b1)"
    by (metis surj_pair)
  ultimately have "edit owned (reserve_body v ticket) b = (Inr Granted, b') \<and> t = ticket"
    using assms(1) by (cases x) (auto simp: reserve_def bindW_def returnW_def raiseW_def split: reserve_result.splits)
  then have "reserve_body v ticket (bg_data b) = Inr (Granted, bg_data b')" and "t = ticket"
    by (auto simp: edit_def split: if_splits sum.splits)
  then have "bg_data b' = charged_for v ticket (bg_data b)"
    by (auto simp: reserve_body_def split: option.splits if_splits)
  then show ?thesis
    using \<open>t = ticket\<close> assms(2,3) by (simp add: request_held_def charged_for_def reserved_call_def empty_text_def)
qed

text \<open>A request is charged once. After a reservation under a request identifier was granted, every later
  reservation under it, in whatever state the budget is, returns the same ticket as not new and changes
  nothing when its input is the same, and is refused without a change when it is not.\<close>

theorem request_charged_once:
  assumes "reserve owned v ticket b = (Inr (t, True), b1)" and "rv_request_id v = Some q" and "q \<noteq> []"
    and "accounting_step\<^sup>*\<^sup>* b1 b2" and "rv_request_id v' = Some q" and "reservation_valid v'"
  shows "reserve True v' ticket' b2 =
    (if py_eq (rv_fingerprint v) (rv_fingerprint v') then Inr (t, False) else Inl (PyValueError ''REQUEST_INPUT_CHANGED''), b2)"
proof -
  have "request_held q t (rv_fingerprint v) (bg_data b2)"
    using assms(4) reserve_granted [OF assms(1-3)]
    by (induction rule: rtranclp_induct) (blast intro: budget_edit_holds accounting_step_edit)+
  then show ?thesis
    using assms(3,5,6)
    by (auto simp: request_held_def reserve_def reserve_body_def edit_def bindW_def returnW_def empty_text_def)
qed

section \<open>A run\<close>

definition bench_reservation :: reservation where
  "bench_reservation = \<lparr>rv_kind = ''investigation_model'', rv_seconds = 60, rv_extra = False, rv_tokens = 900, rv_key = None,
     rv_metadata = [], rv_request_id = Some ''q-1'', rv_fingerprint = JStr ''f'', rv_decision_key = Some ''model:1'',
     rv_keep_tokens = 0, rv_keep_seconds = 0\<rparr>"

definition bench_reserved :: budget where
  "bench_reserved = snd (reserve True bench_reservation ''t-1'' new_budget)"

definition bench_settled :: budget where
  "bench_settled = snd (settle True ''t-1'' 4 (Some 700) None ''completed'' None bench_reserved)"

lemma bench_reserves: "reserve True bench_reservation ''t-1'' new_budget = (Inr (''t-1'', True), bench_reserved)"
  by code_simp

lemma bench_settles: "accounting_step bench_reserved bench_settled"
proof (rule settling)
  show "settle True ''t-1'' 4 (Some 700) None ''completed'' None bench_reserved
      = (fst (settle True ''t-1'' 4 (Some 700) None ''completed'' None bench_reserved), bench_settled)"
    by (simp add: bench_settled_def)
  show "''completed'' \<noteq> ''started_or_interrupted''"
    by code_simp
qed

lemma budget_accounted_witness: "bd_tokens (bg_data bench_settled) = 700 \<and> total charged_tokens (bg_data bench_settled) = 700"
proof -
  have "accounting_step new_budget bench_reserved"
    by (rule reserving [OF bench_reserves]) (simp add: new_budget_def initial_budget_def)
  with bench_settles have "accounting_step\<^sup>*\<^sup>* new_budget bench_settled"
    by simp
  note acc = budget_accounted [OF this]
  have "bd_tokens (bg_data bench_settled) = 700"
    by code_simp
  with acc show ?thesis
    by simp
qed

lemma request_charged_once_witness:
  "reserve True bench_reservation ''t-2'' bench_settled = (Inr (''t-1'', False), bench_settled)"
proof -
  have "accounting_step\<^sup>*\<^sup>* bench_reserved bench_settled"
    using bench_settles by simp
  moreover have "rv_request_id bench_reservation = Some ''q-1''" "reservation_valid bench_reservation"
    by (simp_all add: bench_reservation_def reservation_valid_def)
  ultimately show ?thesis
    using request_charged_once [OF bench_reserves] by (simp add: bench_reservation_def)
qed

end
