(* ===== verification/Incidents.thy ===== *)
theory Incidents
  imports Runs Effects
begin

text \<open>
  \<open>backend/app/persistence/incidents.py\<close>: the metadata of the incidents, kept in memory or in PostgreSQL, and the
  contract both keep. The classes of this file and of the service are told apart by the name carried by \<open>OtherError\<close>.
\<close>

section \<open>Records\<close>

record new_incident =
  nr_incident_id :: string
  nr_thread_id :: string
  nr_namespace :: string
  nr_service_name :: string
  nr_description :: string
  nr_phase :: string

record incident_record =
  ir_incident_id :: string
  ir_thread_id :: string
  ir_namespace :: string
  ir_service_name :: string
  ir_description :: string
  ir_phase :: string
  ir_created_at :: int
  ir_updated_at :: int

definition stored_at :: "int \<Rightarrow> new_incident \<Rightarrow> incident_record" where
  "stored_at now n = \<lparr>ir_incident_id = nr_incident_id n, ir_thread_id = nr_thread_id n, ir_namespace = nr_namespace n,
     ir_service_name = nr_service_name n, ir_description = nr_description n, ir_phase = nr_phase n,
     ir_created_at = now, ir_updated_at = now\<rparr>"

definition IncidentRepositoryError :: exn where
  "IncidentRepositoryError = OtherError ''IncidentRepositoryError''"

definition IncidentAlreadyExistsError :: exn where
  "IncidentAlreadyExistsError = OtherError ''IncidentAlreadyExistsError''"

text \<open>\<open>except IncidentRepositoryError\<close>; the other class is a subclass of it.\<close>

definition is_repository_error :: "exn \<Rightarrow> bool" where
  "is_repository_error e = (e = IncidentRepositoryError \<or> e = IncidentAlreadyExistsError)"

definition same_identifiers :: "string \<Rightarrow> string \<Rightarrow> incident_record \<Rightarrow> bool" where
  "same_identifiers i t r = (ir_incident_id r = i \<or> ir_thread_id r = t)"

section \<open>In memory\<close>

text \<open>
  The dictionary of the records, keyed by their incident; \<open>tick\<close> reads the clock. The lock makes every method one step.
\<close>

type_synonym memory = "(string \<times> incident_record) list"

definition memory_create :: "('v \<Rightarrow> int \<times> 'v) \<Rightarrow> new_incident \<Rightarrow> (memory \<times> 'v, incident_record) io" where
  "memory_create tick n = (\<lambda>(m, v). case tick v of (now, v') \<Rightarrow>
     if nr_incident_id n \<in> fst ` set m then (Inl IncidentAlreadyExistsError, (m, v'))
     else if list_ex (\<lambda>x. ir_thread_id (snd x) = nr_thread_id n) m then (Inl IncidentAlreadyExistsError, (m, v'))
     else (Inr (stored_at now n), (m @ [(nr_incident_id n, stored_at now n)], v')))"

definition memory_get :: "string \<Rightarrow> (memory \<times> 'v, incident_record option) io" where
  "memory_get i = (\<lambda>(m, v). (Inr (map_of m i), (m, v)))"

definition in_phase :: "string \<Rightarrow> int \<Rightarrow> incident_record \<Rightarrow> incident_record" where
  "in_phase phase now r = r\<lparr>ir_phase := phase, ir_updated_at := now\<rparr>"

text \<open>\<open>d[k] = v\<close> for a present key\<close>

definition replace_entry :: "string \<Rightarrow> incident_record \<Rightarrow> memory \<Rightarrow> memory" where
  "replace_entry i r m = map (\<lambda>x. if fst x = i then (i, r) else x) m"

definition memory_update_phase :: "('v \<Rightarrow> int \<times> 'v) \<Rightarrow> string \<Rightarrow> string \<Rightarrow> (memory \<times> 'v, incident_record option) io" where
  "memory_update_phase tick i phase = (\<lambda>(m, v). case map_of m i of
       None \<Rightarrow> (Inr None, (m, v))
     | Some r \<Rightarrow> (case tick v of (now, v') \<Rightarrow>
         (Inr (Some (in_phase phase now r)), (replace_entry i (in_phase phase now r) m, v'))))"

definition memory_delete :: "string \<Rightarrow> (memory \<times> 'v, bool) io" where
  "memory_delete i = (\<lambda>(m, v). (Inr (i \<in> fst ` set m), (filter (\<lambda>x. fst x \<noteq> i) m, v)))"

section \<open>In PostgreSQL\<close>

text \<open>
  The rows of \<open>incidents\<close>. \<open>connect\<close> is everything that may fail on the way to the table (\<open>psycopg.Error\<close>); a
  statement reads the transaction's time.
\<close>

type_synonym incident_table = "incident_record list"

definition require_non_blank :: "string \<Rightarrow> string res" where
  "require_non_blank s = (if strip s = [] then Inl (PyValueError ''must not be blank'') else Inr (strip s))"

definition tidy_incident :: "new_incident \<Rightarrow> new_incident res" where
  "tidy_incident n =
     bindE (require_non_blank (nr_incident_id n)) (\<lambda>i. bindE (require_non_blank (nr_thread_id n)) (\<lambda>t.
     bindE (require_non_blank (nr_namespace n)) (\<lambda>ns. bindE (require_non_blank (nr_service_name n)) (\<lambda>svc.
     bindE (require_non_blank (nr_description n)) (\<lambda>de. bindE (require_non_blank (nr_phase n)) (\<lambda>ph. Inr
       \<lparr>nr_incident_id = i, nr_thread_id = t, nr_namespace = ns, nr_service_name = svc, nr_description = de, nr_phase = ph\<rparr>))))))"

definition table_accepts :: "new_incident \<Rightarrow> bool" where
  "table_accepts n = (length (nr_namespace n) \<le> 63 \<and> length (nr_service_name n) \<le> 63)"

definition statement :: "('v, int) io \<Rightarrow> (int \<Rightarrow> incident_table \<Rightarrow> 'a res \<times> incident_table) \<Rightarrow> (incident_table \<times> 'v, 'a) io" where
  "statement connect f = (\<lambda>(rows, v). case connect v of
       (Inl e, v') \<Rightarrow> (Inl IncidentRepositoryError, (rows, v'))
     | (Inr now, v') \<Rightarrow> (case f now rows of (r, rows') \<Rightarrow> (r, (rows', v'))))"

definition insert_statement :: "new_incident \<Rightarrow> int \<Rightarrow> incident_table \<Rightarrow> incident_record res \<times> incident_table" where
  "insert_statement n now rows =
     (if \<not> table_accepts n then (Inl IncidentRepositoryError, rows)
      else if list_ex (same_identifiers (nr_incident_id n) (nr_thread_id n)) rows then (Inl IncidentAlreadyExistsError, rows)
      else (Inr (stored_at now n), rows @ [stored_at now n]))"

definition postgres_create :: "('v, int) io \<Rightarrow> new_incident \<Rightarrow> (incident_table \<times> 'v, incident_record) io" where
  "postgres_create connect n = bindW (liftW (tidy_incident n)) (\<lambda>t. statement connect (insert_statement t))"

definition row_of :: "string \<Rightarrow> incident_table \<Rightarrow> incident_record option" where
  "row_of i rows = find (\<lambda>r. ir_incident_id r = i) rows"

definition postgres_get :: "('v, int) io \<Rightarrow> string \<Rightarrow> (incident_table \<times> 'v, incident_record option) io" where
  "postgres_get connect i = bindW (liftW (require_non_blank i)) (\<lambda>k.
     statement connect (\<lambda>now rows. (Inr (row_of k rows), rows)))"

definition update_rows :: "string \<Rightarrow> string \<Rightarrow> int \<Rightarrow> incident_table \<Rightarrow> incident_table" where
  "update_rows i phase now rows = map (\<lambda>r. if ir_incident_id r = i then in_phase phase now r else r) rows"

definition postgres_update_phase ::
  "('v, int) io \<Rightarrow> string \<Rightarrow> string \<Rightarrow> (incident_table \<times> 'v, incident_record option) io" where
  "postgres_update_phase connect i phase = bindW (liftW (require_non_blank i)) (\<lambda>k. bindW (liftW (require_non_blank phase)) (\<lambda>ph.
     statement connect (\<lambda>now rows. (Inr (row_of k (update_rows k ph now rows)), update_rows k ph now rows))))"

definition postgres_delete :: "('v, int) io \<Rightarrow> string \<Rightarrow> (incident_table \<times> 'v, bool) io" where
  "postgres_delete connect i = bindW (liftW (require_non_blank i)) (\<lambda>k.
     statement connect (\<lambda>now rows. (Inr (row_of k rows \<noteq> None), filter (\<lambda>r. ir_incident_id r \<noteq> k) rows)))"

section \<open>The contract\<close>

text \<open>
  \<open>IncidentRepositoryPort\<close>, for values without surrounding blanks: \<open>entries\<close> is what a lookup would show.
  A method that raises has changed nothing.
\<close>

definition tidy :: "string \<Rightarrow> bool" where
  "tidy s = (s \<noteq> [] \<and> strip s = s)"

definition tidy_record :: "new_incident \<Rightarrow> bool" where
  "tidy_record n = (tidy (nr_incident_id n) \<and> tidy (nr_thread_id n) \<and> tidy (nr_namespace n) \<and> tidy (nr_service_name n)
     \<and> tidy (nr_description n) \<and> tidy (nr_phase n))"

locale incident_metadata =
  fixes create :: "new_incident \<Rightarrow> ('w, incident_record) io"
    and lookup :: "string \<Rightarrow> ('w, incident_record option) io"
    and update_phase :: "string \<Rightarrow> string \<Rightarrow> ('w, incident_record option) io"
    and remove :: "string \<Rightarrow> ('w, bool) io"
    and entries :: "'w \<Rightarrow> string \<Rightarrow> incident_record option"
  assumes created: "tidy_record n \<Longrightarrow> create n w = (Inr r, w') \<Longrightarrow>
      entries w (nr_incident_id n) = None \<and> (\<exists>now. r = stored_at now n) \<and> entries w' = (entries w)(nr_incident_id n \<mapsto> r)"
    and not_created: "create n w = (Inl e, w') \<Longrightarrow> entries w' = entries w"
    and looked_up: "tidy i \<Longrightarrow> lookup i w = (Inr x, w') \<Longrightarrow> x = entries w i \<and> entries w' = entries w"
    and not_looked_up: "lookup i w = (Inl e, w') \<Longrightarrow> entries w' = entries w"
    and updated: "tidy i \<Longrightarrow> update_phase i phase w = (Inr x, w') \<Longrightarrow>
      (case entries w i of None \<Rightarrow> x = None \<and> entries w' = entries w
       | Some r \<Rightarrow> \<exists>now ph. (tidy phase \<longrightarrow> ph = phase) \<and> x = Some (in_phase ph now r)
           \<and> entries w' = (entries w)(i \<mapsto> in_phase ph now r))"
    and not_updated: "update_phase i phase w = (Inl e, w') \<Longrightarrow> entries w' = entries w"
    and removed: "tidy i \<Longrightarrow> remove i w = (Inr found, w') \<Longrightarrow> found = (entries w i \<noteq> None) \<and> entries w' = (entries w)(i := None)"
    and not_removed: "remove i w = (Inl e, w') \<Longrightarrow> entries w' = entries w"
begin

lemma created_then_removed:
  assumes "tidy_record n" and "create n w = (Inr r, w1)" and "entries w2 = entries w1" and "remove (nr_incident_id n) w2 = (Inr x, w3)"
  shows "entries w3 = entries w"
proof -
  have "tidy (nr_incident_id n)"
    using assms(1) by (simp add: tidy_record_def)
  from removed [OF this assms(4)] created [OF assms(1,2)] assms(3) show ?thesis
    by (simp add: fun_upd_idem)
qed

lemma update_finds: "tidy i \<Longrightarrow> update_phase i phase w = (Inr None, w') \<Longrightarrow> entries w i = None"
  using updated [of i phase w None w'] by (auto split: option.splits)

end

section \<open>Both repositories keep it\<close>

definition memory_entries :: "memory \<times> 'v \<Rightarrow> string \<Rightarrow> incident_record option" where
  "memory_entries w = map_of (fst w)"

definition table_entries :: "incident_table \<times> 'v \<Rightarrow> string \<Rightarrow> incident_record option" where
  "table_entries w i = row_of i (fst w)"

lemma map_of_replace: "map_of (replace_entry i r m) j = (if j = i \<and> map_of m i \<noteq> None then Some r else map_of m j)"
  by (induction m) (auto simp: replace_entry_def)

lemma map_of_append_one: "map_of (m @ [(i, r)]) j = (case map_of m j of None \<Rightarrow> if j = i then Some r else None | Some x \<Rightarrow> Some x)"
  by (induction m) auto

lemma key_absent: "map_of m i = None \<longleftrightarrow> i \<notin> fst ` set m"
  by (rule map_of_eq_None_iff)

lemma map_of_filter_key: "map_of (filter (\<lambda>x. fst x \<noteq> i) m) = (map_of m)(i := None)"
  by (induction m) auto

lemmas memory_defs = memory_create_def memory_get_def memory_update_phase_def memory_delete_def memory_entries_def

interpretation memory: incident_metadata "memory_create tick" memory_get "memory_update_phase tick" memory_delete memory_entries
  for tick :: "'v \<Rightarrow> int \<times> 'v"
proof unfold_locales
  fix n and w w' :: "memory \<times> 'v" and r
  assume "memory_create tick n w = (Inr r, w')"
  then obtain now where "r = stored_at now n" and "fst w' = fst w @ [(nr_incident_id n, r)]" and "map_of (fst w) (nr_incident_id n) = None"
    by (auto simp: memory_create_def key_absent split: prod.splits sum.splits if_splits)
  then show "memory_entries w (nr_incident_id n) = None \<and> (\<exists>now. r = stored_at now n)
      \<and> memory_entries w' = (memory_entries w)(nr_incident_id n \<mapsto> r)"
    by (auto simp: memory_entries_def fun_eq_iff map_of_append_one simp del: map_of_append split: option.split)
next
  fix i phase and w w' :: "memory \<times> 'v" and x
  assume update: "memory_update_phase tick i phase w = (Inr x, w')"
  obtain now v where now: "tick (snd w) = (now, v)"
    by (cases "tick (snd w)") auto
  show "case memory_entries w i of None \<Rightarrow> x = None \<and> memory_entries w' = memory_entries w
      | Some r \<Rightarrow> \<exists>now ph. (tidy phase \<longrightarrow> ph = phase) \<and> x = Some (in_phase ph now r)
          \<and> memory_entries w' = (memory_entries w)(i \<mapsto> in_phase ph now r)"
  proof (cases "map_of (fst w) i")
    case None
    with update show ?thesis
      by (auto simp: memory_update_phase_def memory_entries_def split: prod.splits)
  next
    case (Some r)
    with update now have "x = Some (in_phase phase now r)" and "fst w' = replace_entry i (in_phase phase now r) (fst w)"
      by (auto simp: memory_update_phase_def split: prod.splits)
    with Some show ?thesis
      by (auto simp: memory_entries_def fun_eq_iff map_of_replace intro!: exI [of _ now] exI [of _ phase])
  qed
qed (auto simp: memory_defs map_of_filter_key key_absent split: prod.splits sum.splits if_splits option.splits)

lemma require_tidy [simp]: "tidy s \<Longrightarrow> require_non_blank s = Inr s"
  by (simp add: require_non_blank_def tidy_def)

lemma tidy_incident_tidy [simp]: "tidy_record n \<Longrightarrow> tidy_incident n = Inr n"
  by (simp add: tidy_incident_def tidy_record_def)

lemma row_of_append: "row_of j (rows @ [r]) =
    (case row_of j rows of None \<Rightarrow> if ir_incident_id r = j then Some r else None | Some x \<Rightarrow> Some x)"
  by (induction rows) (auto simp: row_of_def)

lemma in_phase_id [simp]: "ir_incident_id (in_phase phase now r) = ir_incident_id r"
  by (simp add: in_phase_def)

lemma row_of_update: "row_of j (update_rows i phase now rows) =
    (if j = i then map_option (in_phase phase now) (row_of i rows) else row_of j rows)"
  by (induction rows) (auto simp: row_of_def update_rows_def)

lemma row_of_filter: "row_of j (filter (\<lambda>r. ir_incident_id r \<noteq> i) rows) = (if j = i then None else row_of j rows)"
  by (induction rows) (auto simp: row_of_def)

lemma row_of_fresh: "\<not> list_ex (same_identifiers i t) rows \<Longrightarrow> row_of i rows = None"
  by (induction rows) (auto simp: row_of_def same_identifiers_def)

lemma statement_eq [io_simps]: "statement connect f w = (r, w') \<longleftrightarrow>
    (\<exists>e v. connect (snd w) = (Inl e, v) \<and> r = Inl IncidentRepositoryError \<and> w' = (fst w, v))
    \<or> (\<exists>now v. connect (snd w) = (Inr now, v) \<and> f now (fst w) = (r, fst w') \<and> snd w' = v)"
  by (cases w; cases w') (auto simp: statement_def split: prod.splits sum.splits)

interpretation postgres: incident_metadata "postgres_create connect" "postgres_get connect" "postgres_update_phase connect"
    "postgres_delete connect" table_entries
  for connect :: "('v, int) io"
proof unfold_locales
  fix n w r w' assume "tidy_record n" and "postgres_create connect n w = (Inr r, w')"
  then obtain now where new: "\<not> list_ex (same_identifiers (nr_incident_id n) (nr_thread_id n)) (fst w)"
      and r: "r = stored_at now n" and w': "fst w' = fst w @ [stored_at now n]"
    by (auto simp: postgres_create_def io_simps insert_statement_def split: if_splits)
  from row_of_fresh [OF new] w' r show "table_entries w (nr_incident_id n) = None \<and> (\<exists>now. r = stored_at now n)
      \<and> table_entries w' = (table_entries w)(nr_incident_id n \<mapsto> r)"
    by (auto simp: table_entries_def row_of_append fun_eq_iff stored_at_def split: option.split)
next
  fix n w e w' assume "postgres_create connect n w = (Inl e, w')"
  then show "table_entries w' = table_entries w"
    by (auto simp: postgres_create_def io_simps insert_statement_def table_entries_def fun_eq_iff split: if_splits)
next
  fix i phase w x w' assume "tidy i" and update: "postgres_update_phase connect i phase w = (Inr x, w')"
  then obtain now ph where ph: "require_non_blank phase = Inr ph" and x: "x = row_of i (update_rows i ph now (fst w))"
      and w': "fst w' = update_rows i ph now (fst w)"
    by (fastforce simp: postgres_update_phase_def io_simps)
  have "tidy phase \<longrightarrow> ph = phase"
    using ph by auto
  with x w' show "case table_entries w i of None \<Rightarrow> x = None \<and> table_entries w' = table_entries w
     | Some r \<Rightarrow> \<exists>now ph. (tidy phase \<longrightarrow> ph = phase) \<and> x = Some (in_phase ph now r)
         \<and> table_entries w' = (table_entries w)(i \<mapsto> in_phase ph now r)"
    by (auto simp: table_entries_def row_of_update fun_eq_iff split: option.splits)
qed (auto simp: postgres_get_def postgres_update_phase_def postgres_delete_def io_simps table_entries_def fun_eq_iff row_of_filter)

end
