(* ===== verification/IncidentService.thy ===== *)
theory IncidentService
  imports Incidents Resumption
begin

text \<open>
  \<open>backend/app/services/incident_service.py\<close>: the application service. It creates incidents, shows them, and hands an
  approval to the graph or to the queue of the durable runtime. The graph, the repository, the runs, the identifiers
  and the decoding by pydantic are calls on the surroundings.
\<close>

section \<open>Errors\<close>

definition IncidentServiceError :: exn where
  "IncidentServiceError = OtherError ''IncidentServiceError''"

definition IncidentNotFoundError :: exn where
  "IncidentNotFoundError = OtherError ''IncidentNotFoundError''"

definition IncidentGraphError :: exn where
  "IncidentGraphError = OtherError ''IncidentGraphError''"

definition IncidentNotAwaitingApprovalError :: exn where
  "IncidentNotAwaitingApprovalError = OtherError ''IncidentNotAwaitingApprovalError''"

definition IncidentApprovalConflictError :: exn where
  "IncidentApprovalConflictError = OtherError ''IncidentApprovalConflictError''"

definition QueuedModeRequired :: exn where
  "QueuedModeRequired = OtherError ''QueuedModeRequired''"

definition QueuedExecutionUnavailable :: exn where
  "QueuedExecutionUnavailable = OtherError ''QueuedExecutionUnavailable''"

section \<open>The public view of a run\<close>

record run_summary =
  ru_run_id :: string
  ru_status :: run_status
  ru_kind :: run_kind
  ru_created_at :: int
  ru_updated_at :: int
  ru_finished_at :: "int option"
  ru_attempt :: int
  ru_last_error_code :: "string option"
  ru_stop_requested :: bool
  ru_invalidated_at :: "int option"
  ru_question :: "json option"
  ru_adopted :: json

text \<open>\<open>[A-Z][A-Z0-9_]{0,63}\<close>\<close>

definition is_upper :: "char \<Rightarrow> bool" where
  "is_upper c = (let n = of_char c :: int in 65 \<le> n \<and> n \<le> 90)"

definition code_char :: "char \<Rightarrow> bool" where
  "code_char c = (is_upper c \<or> c = CHR ''_'' \<or> (let n = of_char c :: int in 48 \<le> n \<and> n \<le> 57))"

definition public_code :: "string option \<Rightarrow> string option" where
  "public_code x = (case x of None \<Rightarrow> None | Some s \<Rightarrow>
     if s \<noteq> [] \<and> is_upper (hd s) \<and> length s \<le> 64 \<and> list_all code_char s then Some s else None)"

definition run_summary_of :: "run_row \<Rightarrow> run_summary" where
  "run_summary_of r = \<lparr>ru_run_id = r_run_id r, ru_status = r_status r, ru_kind = r_run_kind r,
     ru_created_at = r_created_at r, ru_updated_at = r_updated_at r, ru_finished_at = r_finished_at r,
     ru_attempt = r_attempt r, ru_last_error_code = public_code (r_last_error r),
     ru_stop_requested = r_stop_requested r, ru_invalidated_at = r_invalidated_at r,
     ru_question = r_question_payload r, ru_adopted = r_adopted_message_ids r\<rparr>"

section \<open>Snapshots\<close>

record incident_snapshot =
  zs_incident_id :: string
  zs_thread_id :: string
  zs_state :: dict
  zs_run :: "run_summary option"
  zs_queued :: bool
  zs_worker_available :: bool

definition snapshot_phase :: "incident_snapshot \<Rightarrow> string" where
  "snapshot_phase z = (case zs_run z of
       Some r \<Rightarrow> if ru_status r = RunCancelled then ''cancelled''
                 else (case dget (zs_state z) ''phase'' of JStr s \<Rightarrow> s | _ \<Rightarrow> ''unknown'')
     | None \<Rightarrow> (case dget (zs_state z) ''phase'' of JStr s \<Rightarrow> s | _ \<Rightarrow> ''unknown''))"

definition waiting_for_approval :: "incident_snapshot \<Rightarrow> bool" where
  "waiting_for_approval z = ((case zs_run z of None \<Rightarrow> True | Some r \<Rightarrow> ru_status r = WaitingApproval)
     \<and> snapshot_phase z = ''awaiting_approval'' \<and> dget (zs_state z) ''approval_status'' = JStr ''pending'')"

text \<open>The state is JSON here; what is no mapping has no \<open>items\<close>, which most callers report as a graph error.\<close>

definition normalize_state :: "string \<Rightarrow> json \<Rightarrow> dict res" where
  "normalize_state i raw = (case raw of
       JObj d \<Rightarrow> (let st = filter (\<lambda>kv. fst kv \<noteq> ''__interrupt__'') d in
         if dget st ''incident_id'' \<noteq> JStr i then Inl IncidentGraphError else Inr st)
     | _ \<Rightarrow> Inl AttributeError)"

section \<open>The surroundings\<close>

record 'w run_methods =
  xm_accept :: "string \<Rightarrow> string \<Rightarrow> string \<Rightarrow> create_request \<Rightarrow> string option \<Rightarrow> ('w, run_row) io"
  xm_latest :: "string \<Rightarrow> ('w, run_row option) io"
  xm_by_key :: "string \<Rightarrow> ('w, run_row option) io"
  xm_queue_approval :: "string \<Rightarrow> json \<Rightarrow> json \<Rightarrow> ('w, unit) io"
  xm_worker_available :: "('w, bool) io"
  xm_history :: "string \<Rightarrow> ('w, json list) io"

record 'w service_ports =
  xs_queued :: bool
  xs_id_factory :: "('w, string) io"
  xs_new_id :: "('w, string) io"
  xs_start :: "dict \<Rightarrow> string \<Rightarrow> ('w, json) io"
  xs_resume :: "json \<Rightarrow> string \<Rightarrow> ('w, json) io"
  xs_state :: "string \<Rightarrow> ('w, json) io"
  xs_create :: "new_incident \<Rightarrow> ('w, incident_record) io"
  xs_get :: "string \<Rightarrow> ('w, incident_record option) io"
  xs_update_phase :: "string \<Rightarrow> string \<Rightarrow> ('w, incident_record option) io"
  xs_delete :: "string \<Rightarrow> ('w, bool) io"
  xs_runs :: "'w run_methods option"
  xs_decode_record :: "json \<Rightarrow> approval_record res"
  xs_decode_request :: "json \<Rightarrow> approval_request res"
  xs_text :: "json \<Rightarrow> string"

text \<open>\<open>except C as error: raise D from error\<close>\<close>

definition rethrow :: "(exn \<Rightarrow> bool) \<Rightarrow> exn \<Rightarrow> ('w, 'a) io \<Rightarrow> ('w, 'a) io" where
  "rethrow P e m = bindW (tryW m) (\<lambda>r. case r of Inl x \<Rightarrow> raiseW (if P x then e else x) | Inr v \<Rightarrow> returnW v)"

text \<open>\<open>except IncidentGraphError: raise\<close>, \<open>except Exception as error: raise IncidentGraphError\<close>\<close>

definition as_graph_error :: "('w, 'a) io \<Rightarrow> ('w, 'a) io" where
  "as_graph_error = rethrow (\<lambda>_. True) IncidentGraphError"

definition repository_call :: "('w, 'a) io \<Rightarrow> ('w, 'a) io" where
  "repository_call = rethrow is_repository_error IncidentServiceError"

section \<open>Reading\<close>

definition unstarted_state :: "run_row \<Rightarrow> string \<Rightarrow> dict" where
  "unstarted_state row phase = [(''incident_id'', JStr (r_incident_id row)), (''request'', r_input_payload row), (''phase'', JStr phase)]"

definition never_started :: "run_row \<Rightarrow> bool" where
  "never_started row = (\<not> r_checkpoint_started row \<and> (r_status row = Running \<or> r_status row = RetryScheduled
     \<or> r_last_error row \<in> Some ` {''WORKER_FAILED'', ''ATTEMPTS_EXHAUSTED'', ''UNSUPPORTED_OR_CORRUPT_INPUT''}))"

definition checkpoint_state :: "'w service_ports \<Rightarrow> run_row \<Rightarrow> ('w, dict) io" where
  "checkpoint_state p row = as_graph_error (
     bindW (xs_state p (r_thread_id row)) (\<lambda>values.
     let v = (if \<not> truthy values \<and> never_started row
              then JObj (unstarted_state row (if r_status row = RunFailed then ''failed'' else ''created'')) else values)
     in if \<not> truthy v then raiseW IncidentGraphError else liftW (normalize_state (r_incident_id row) v)))"

definition run_state :: "'w service_ports \<Rightarrow> run_row \<Rightarrow> ('w, dict) io" where
  "run_state p row =
     (if r_output_snapshot row \<noteq> None \<and> terminal (r_status row)
      then liftW (normalize_state (r_incident_id row) (the (r_output_snapshot row)))
      else if r_status row = Queued \<and> r_attempt row = 0 then returnW (unstarted_state row ''created'')
      else checkpoint_state p row)"

text \<open>\<open>self._runs\<close> may be \<open>None\<close>, which has no methods.\<close>

definition with_runs :: "'w service_ports \<Rightarrow> ('w run_methods \<Rightarrow> ('w, 'a) io) \<Rightarrow> ('w, 'a) io" where
  "with_runs p f = (case xs_runs p of None \<Rightarrow> raiseW AttributeError | Some rm \<Rightarrow> f rm)"

definition snapshot_for_run :: "'w service_ports \<Rightarrow> run_row \<Rightarrow> ('w, incident_snapshot) io" where
  "snapshot_for_run p row = bindW (run_state p row) (\<lambda>st. bindW (with_runs p xm_worker_available) (\<lambda>worker. returnW
     \<lparr>zs_incident_id = r_incident_id row, zs_thread_id = r_thread_id row, zs_state = st,
      zs_run = Some (run_summary_of row), zs_queued = xs_queued p, zs_worker_available = worker\<rparr>))"

definition latest_run :: "'w service_ports \<Rightarrow> string \<Rightarrow> ('w, run_row option) io" where
  "latest_run p i = (case xs_runs p of None \<Rightarrow> returnW None | Some rm \<Rightarrow> xm_latest rm i)"

definition plain_snapshot :: "'w service_ports \<Rightarrow> string \<Rightarrow> string \<Rightarrow> dict \<Rightarrow> incident_snapshot" where
  "plain_snapshot p i t st = \<lparr>zs_incident_id = i, zs_thread_id = t, zs_state = st, zs_run = None,
     zs_queued = xs_queued p, zs_worker_available = False\<rparr>"

definition get_incident :: "'w service_ports \<Rightarrow> string \<Rightarrow> ('w, incident_snapshot) io" where
  "get_incident p incident_id = (let i = strip incident_id in
     bindW (repository_call (xs_get p i)) (\<lambda>found. case found of
       None \<Rightarrow> raiseW IncidentNotFoundError
     | Some r \<Rightarrow> bindW (latest_run p i) (\<lambda>run. case run of
         Some row \<Rightarrow> snapshot_for_run p row
       | None \<Rightarrow> bindW (as_graph_error (bindW (xs_state p (ir_thread_id r)) (\<lambda>v. liftW (normalize_state i v))))
           (\<lambda>st. returnW (plain_snapshot p i (ir_thread_id r) st)))))"

definition get_legacy_snapshot :: "'w service_ports \<Rightarrow> string \<Rightarrow> ('w, incident_snapshot) io" where
  "get_legacy_snapshot p i = bindW (xs_get p i) (\<lambda>found. case found of
       None \<Rightarrow> raiseW IncidentNotFoundError
     | Some r \<Rightarrow> bindW (as_graph_error (xs_state p (ir_thread_id r))) (\<lambda>values.
         if \<not> truthy values then raiseW IncidentNotFoundError
         else bindW (liftW (normalize_state i values)) (\<lambda>st. returnW (plain_snapshot p i (ir_thread_id r) st))))"

definition get_by_idempotency_key :: "'w service_ports \<Rightarrow> string \<Rightarrow> ('w, incident_snapshot) io" where
  "get_by_idempotency_key p key = (case xs_runs p of
       None \<Rightarrow> raiseW RunNotFound
     | Some rm \<Rightarrow> bindW (xm_by_key rm key) (\<lambda>row. case row of
         None \<Rightarrow> raiseW RunNotFound | Some r \<Rightarrow> snapshot_for_run p r))"

definition list_operations :: "'w service_ports \<Rightarrow> string \<Rightarrow> ('w, json list) io" where
  "list_operations p i = (case xs_runs p of
       None \<Rightarrow> raiseW RunNotFound
     | Some rm \<Rightarrow> bindW (xs_get p i) (\<lambda>found. if found = None then raiseW RunNotFound else xm_history rm i))"

section \<open>Creating\<close>

definition public_phase :: "'w service_ports \<Rightarrow> dict \<Rightarrow> string" where
  "public_phase p st = (let v = dget st ''phase'' in if truthy v then xs_text p v else ''unknown'')"

definition delete_failed_incident :: "'w service_ports \<Rightarrow> string \<Rightarrow> ('w, unit) io" where
  "delete_failed_incident p i = bindW (tryW (xs_delete p i)) (\<lambda>r. case r of
       Inl e \<Rightarrow> if is_repository_error e then returnW () else raiseW e | Inr _ \<Rightarrow> returnW ())"

definition metadata_of :: "string \<Rightarrow> create_request \<Rightarrow> new_incident" where
  "metadata_of i q = \<lparr>nr_incident_id = i, nr_thread_id = i, nr_namespace = cr_namespace q,
     nr_service_name = cr_service_name q, nr_description = cr_description q, nr_phase = ''created''\<rparr>"

definition run_new :: "'w service_ports \<Rightarrow> string \<Rightarrow> create_request \<Rightarrow> ('w, dict) io" where
  "run_new p i q = bindW (xs_start p [(''incident_id'', JStr i), (''request'', request_payload q)] i)
     (\<lambda>result. liftW (normalize_state i result))"

definition recorded_phase :: "'w service_ports \<Rightarrow> string \<Rightarrow> dict \<Rightarrow> ('w, unit) io" where
  "recorded_phase p i st = bindW (repository_call (xs_update_phase p i (public_phase p st))) (\<lambda>updated.
     if updated = None then raiseW IncidentServiceError else returnW ())"

definition create_sync :: "'w service_ports \<Rightarrow> create_request \<Rightarrow> ('w, incident_snapshot) io" where
  "create_sync p q = bindW (xs_id_factory p) (\<lambda>raw. let i = strip raw in
     if i = [] then raiseW IncidentServiceError
     else bindW (repository_call (xs_create p (metadata_of i q))) (\<lambda>_.
     bindW (tryW (run_new p i q)) (\<lambda>r. case r of
       Inl e \<Rightarrow> bindW (delete_failed_incident p i) (\<lambda>_. raiseW IncidentGraphError)
     | Inr st \<Rightarrow> bindW (recorded_phase p i st) (\<lambda>_. returnW \<lparr>zs_incident_id = i, zs_thread_id = i, zs_state = st,
         zs_run = None, zs_queued = False, zs_worker_available = False\<rparr>))))"

definition create_queued :: "'w service_ports \<Rightarrow> create_request \<Rightarrow> string option \<Rightarrow> ('w, incident_snapshot) io" where
  "create_queued p q key = bindW (with_runs p (\<lambda>rm.
       bindW (xs_id_factory p) (\<lambda>i. bindW (xs_new_id p) (\<lambda>rid. bindW (xs_new_id p) (\<lambda>t.
       xm_accept rm i rid t q key))))) (snapshot_for_run p)"

definition create_incident :: "'w service_ports \<Rightarrow> create_request \<Rightarrow> string option \<Rightarrow> ('w, incident_snapshot) io" where
  "create_incident p q key = bindW (liftW (validate_key key)) (\<lambda>_.
     if xs_queued p then create_queued p q key else if key \<noteq> None then raiseW QueuedModeRequired else create_sync p q)"

section \<open>Submitting an approval\<close>

definition decision_dump :: "approval_decision \<Rightarrow> json" where
  "decision_dump d = JObj [(''approval_id'', JStr (ad_approval_id d)), (''approved'', JBool (ad_approved d)),
     (''approver'', JStr (ad_approver d)), (''comment'', JStr (ad_comment d))]"

definition same_decision :: "approval_record \<Rightarrow> approval_decision \<Rightarrow> bool" where
  "same_decision r d = (rc_approved r = ad_approved d \<and> rc_approver r = ad_approver d \<and> rc_comment r = ad_comment d)"

text \<open>A decision that was queued before is queued again as it was; only the same decision may be.\<close>

definition queue_again :: "'w service_ports \<Rightarrow> run_row \<Rightarrow> json \<Rightarrow> approval_decision \<Rightarrow> incident_snapshot \<Rightarrow> ('w, incident_snapshot) io" where
  "queue_again p row saved d current =
     bindW (liftW (jindex saved ''decision'')) (\<lambda>v.
     if \<not> py_eq v (decision_dump d) then raiseW IncidentApprovalConflictError
     else bindW (liftW (jindex saved ''binding'')) (\<lambda>b.
          bindW (with_runs p (\<lambda>rm. xm_queue_approval rm (r_run_id row) v b)) (\<lambda>_. returnW current)))"

definition decided_before :: "'w service_ports \<Rightarrow> json \<Rightarrow> approval_decision \<Rightarrow> incident_snapshot \<Rightarrow> incident_snapshot res" where
  "decided_before p raw d current =
     bindE (catchE (xs_decode_record p raw) (\<lambda>e. e = ValidationError) (\<lambda>_. Inl IncidentGraphError)) (\<lambda>r.
     if rc_incident_id r \<noteq> zs_incident_id current then Inl IncidentGraphError
     else if rc_approval_id r \<noteq> ad_approval_id d then Inl IncidentApprovalConflictError
     else if same_decision r d then Inr current else Inl IncidentApprovalConflictError)"

definition request_pending :: "'w service_ports \<Rightarrow> approval_decision \<Rightarrow> incident_snapshot \<Rightarrow> unit res" where
  "request_pending p d current =
     (if \<not> waiting_for_approval current then Inl IncidentNotAwaitingApprovalError
      else bindE (catchE (xs_decode_request p (dget (zs_state current) ''approval_request'')) (\<lambda>e. e = ValidationError)
                   (\<lambda>_. Inl IncidentGraphError)) (\<lambda>q.
        if ar_incident_id q \<noteq> zs_incident_id current then Inl IncidentGraphError
        else if ar_approval_id q \<noteq> ad_approval_id d then Inl IncidentApprovalConflictError else Inr ()))"

definition confirm_record :: "'w service_ports \<Rightarrow> approval_decision \<Rightarrow> string \<Rightarrow> dict \<Rightarrow> unit res" where
  "confirm_record p d i st =
     bindE (catchE (xs_decode_record p (dget st ''approval_record'')) (\<lambda>e. e = ValidationError) (\<lambda>_. Inl IncidentGraphError)) (\<lambda>r.
     if rc_incident_id r \<noteq> i \<or> rc_approval_id r \<noteq> ad_approval_id d \<or> \<not> same_decision r d then Inl IncidentGraphError else Inr ())"

definition resumed_state :: "'w service_ports \<Rightarrow> approval_decision \<Rightarrow> incident_snapshot \<Rightarrow> ('w, dict) io" where
  "resumed_state p d current = as_graph_error (bindW (xs_resume p (decision_dump d) (zs_thread_id current)) (\<lambda>result.
     liftW (bindE (normalize_state (zs_incident_id current) result) (\<lambda>st.
       bindE (confirm_record p d (zs_incident_id current) st) (\<lambda>_. Inr st)))))"

definition resume_graph :: "'w service_ports \<Rightarrow> approval_decision \<Rightarrow> incident_snapshot \<Rightarrow> ('w, incident_snapshot) io" where
  "resume_graph p d current = bindW (resumed_state p d current) (\<lambda>st.
     bindW (recorded_phase p (zs_incident_id current) st) (\<lambda>_. returnW
       \<lparr>zs_incident_id = zs_incident_id current, zs_thread_id = zs_thread_id current, zs_state = st,
        zs_run = None, zs_queued = False, zs_worker_available = False\<rparr>))"

definition decide_pending :: "(json \<Rightarrow> string) \<Rightarrow> 'w service_ports \<Rightarrow> string \<Rightarrow> approval_decision \<Rightarrow> incident_snapshot \<Rightarrow> ('w, incident_snapshot) io" where
  "decide_pending H p incident_id d current =
     (let raw = dget (zs_state current) ''approval_record'' in
      if raw \<noteq> JNull then liftW (decided_before p raw d current)
      else bindW (liftW (request_pending p d current)) (\<lambda>_.
        case zs_run current of
          Some r \<Rightarrow> bindW (with_runs p (\<lambda>rm. xm_queue_approval rm (ru_run_id r) (decision_dump d)
                        (JStr (state_binding H (zs_state current))))) (\<lambda>_. get_incident p incident_id)
        | None \<Rightarrow> resume_graph p d current))"

definition saved_decision :: "'w service_ports \<Rightarrow> incident_snapshot \<Rightarrow> ('w, (run_row \<times> json) option) io" where
  "saved_decision p current =
     (if zs_run current = None then returnW None
      else bindW (with_runs p (\<lambda>rm. xm_latest rm (zs_incident_id current))) (\<lambda>latest. returnW (case latest of
        None \<Rightarrow> None
      | Some row \<Rightarrow> (case r_approval_payload row of None \<Rightarrow> None
          | Some saved \<Rightarrow> if truthy saved then Some (row, saved) else None))))"

definition submit_approval :: "(json \<Rightarrow> string) \<Rightarrow> 'w service_ports \<Rightarrow> string \<Rightarrow> approval_decision \<Rightarrow> ('w, incident_snapshot) io" where
  "submit_approval H p incident_id decision =
     bindW (rethrow (\<lambda>e. e = ValidationError) IncidentApprovalConflictError (liftW (approval_decision_validate decision))) (\<lambda>d.
     bindW (get_incident p incident_id) (\<lambda>current.
     if xs_queued p \<and> zs_run current = None then raiseW QueuedExecutionUnavailable
     else bindW (saved_decision p current) (\<lambda>saved. case saved of
       Some (row, v) \<Rightarrow> queue_again p row v d current
     | None \<Rightarrow> decide_pending H p incident_id d current)))"

end
