(* ===== verification/IncidentServiceProps.thy ===== *)
theory IncidentServiceProps
  imports IncidentService Traces ApprovalProps
begin

text \<open>
  What the application service hands over: a decision reaches the graph or the queue only for the request that waits for
  it, and an incident whose workflow could not be started leaves no metadata behind.
\<close>

section \<open>Watching the decisions\<close>

datatype handover = GraphResumed json string | ApprovalQueued string json json

definition heard_runs :: "'w run_methods \<Rightarrow> ('w \<times> handover list) run_methods" where
  "heard_runs rm = \<lparr>xm_accept = (\<lambda>i r t q k. silent (xm_accept rm i r t q k)), xm_latest = (\<lambda>i. silent (xm_latest rm i)),
     xm_by_key = (\<lambda>k. silent (xm_by_key rm k)),
     xm_queue_approval = (\<lambda>r v b. noting (ApprovalQueued r v b) (xm_queue_approval rm r v b)),
     xm_worker_available = silent (xm_worker_available rm), xm_history = (\<lambda>i. silent (xm_history rm i))\<rparr>"

definition heard :: "'w service_ports \<Rightarrow> ('w \<times> handover list) service_ports" where
  "heard p = \<lparr>xs_queued = xs_queued p, xs_id_factory = silent (xs_id_factory p), xs_new_id = silent (xs_new_id p),
     xs_start = (\<lambda>d t. silent (xs_start p d t)), xs_resume = (\<lambda>v t. noting (GraphResumed v t) (xs_resume p v t)),
     xs_state = (\<lambda>t. silent (xs_state p t)), xs_create = (\<lambda>n. silent (xs_create p n)), xs_get = (\<lambda>i. silent (xs_get p i)),
     xs_update_phase = (\<lambda>i ph. silent (xs_update_phase p i ph)), xs_delete = (\<lambda>i. silent (xs_delete p i)),
     xs_runs = map_option heard_runs (xs_runs p), xs_decode_record = xs_decode_record p,
     xs_decode_request = xs_decode_request p, xs_text = xs_text p\<rparr>"

text \<open>Computations that hand nothing over\<close>

definition unheard :: "('w \<times> handover list, 'a) io \<Rightarrow> bool" where
  "unheard m = (\<forall>w r w'. m w = (r, w') \<longrightarrow> snd w' = snd w)"

lemma unheardD: "unheard m \<Longrightarrow> m w = (r, w') \<Longrightarrow> snd w' = snd w"
  unfolding unheard_def by blast

named_theorems hush "computations that hand nothing over"

lemma unheard_basic [hush]: "unheard (returnW x)" "unheard (raiseW e)" "unheard (liftW r)" "unheard (silent m)"
  by (auto simp: unheard_def io_simps silent_eq)

lemma unheard_bind [hush]:
  assumes "unheard m" and "\<And>x. unheard (f x)"
  shows "unheard (bindW m f)"
  unfolding unheard_def
proof (intro allI impI)
  fix w r w' assume "bindW m f w = (r, w')"
  then consider e where "m w = (Inl e, w')" | x w1 where "m w = (Inr x, w1)" and "f x w1 = (r, w')"
    by (auto simp: bindW_eq)
  then show "snd w' = snd w"
    by cases (simp_all add: unheardD [OF assms(1)] unheardD [OF assms(2)])
qed

lemma unheard_try: "unheard m \<Longrightarrow> unheard (tryW m)"
  by (auto simp: unheard_def io_simps)

lemma unheard_rethrow [hush]: "unheard m \<Longrightarrow> unheard (rethrow P e m)"
  unfolding rethrow_def by (intro unheard_bind unheard_try) (auto intro: unheard_basic split: sum.split)

lemma bindW_known: "m w = (x, w1) \<Longrightarrow> bindW m f w = (case x of Inl e \<Rightarrow> (Inl e, w1) | Inr y \<Rightarrow> f y w1)"
  by (simp add: bindW_def)

lemma rethrow_inv:
  assumes "rethrow P e m w = (r, w')"
  shows "\<exists>r'. m w = (r', w') \<and> (\<forall>x. r = Inr x \<longrightarrow> r' = Inr x)"
  using assms by (cases "m w"; cases "fst (m w)") (auto simp: rethrow_def io_simps)

lemma unheard_if [hush]: "unheard a \<Longrightarrow> unheard b \<Longrightarrow> unheard (if c then a else b)"
  by simp

lemma unheard_option [hush]: "unheard a \<Longrightarrow> (\<And>x. unheard (f x)) \<Longrightarrow> unheard (case_option a f v)"
  by (cases v) auto

lemma unheard_let [hush]: "unheard (f v) \<Longrightarrow> unheard (Let v f)"
  by (simp add: Let_def)

lemma unheard_calls [hush]:
  "unheard (xs_get (heard p) i)" "unheard (xs_state (heard p) t)" "unheard (xs_update_phase (heard p) i ph)"
  "unheard (with_runs (heard p) xm_worker_available)" "unheard (with_runs (heard p) (\<lambda>rm. xm_latest rm i))"
  "unheard (latest_run (heard p) i)"
  by (auto simp: heard_def with_runs_def latest_run_def heard_runs_def intro!: hush split: option.splits)

lemma unheard_get [hush]: "unheard (get_incident (heard p) i)"
  unfolding get_incident_def repository_call_def as_graph_error_def snapshot_for_run_def run_state_def checkpoint_state_def
  by (intro hush)

lemma unheard_saved [hush]: "unheard (saved_decision (heard p) z)"
  unfolding saved_decision_def by (intro hush)

lemma unheard_recorded [hush]: "unheard (recorded_phase (heard p) i st)"
  unfolding recorded_phase_def repository_call_def by (intro hush)

section \<open>What a submission does\<close>

text \<open>The snapshot waits for this decision; the record in a state is that of this decision.\<close>

definition awaits :: "'w service_ports \<Rightarrow> approval_decision \<Rightarrow> incident_snapshot \<Rightarrow> bool" where
  "awaits p v z = (dget (zs_state z) ''approval_record'' = JNull \<and> waiting_for_approval z
     \<and> (\<exists>q. xs_decode_request p (dget (zs_state z) ''approval_request'') = Inr q
          \<and> ar_incident_id q = zs_incident_id z \<and> ar_approval_id q = ad_approval_id v))"

definition records :: "'w service_ports \<Rightarrow> approval_decision \<Rightarrow> string \<Rightarrow> dict \<Rightarrow> bool" where
  "records p v i st = (\<exists>r. xs_decode_record p (dget st ''approval_record'') = Inr r \<and> rc_incident_id r = i
     \<and> rc_approval_id r = ad_approval_id v \<and> rc_approved r = ad_approved v \<and> rc_approver r = ad_approver v
     \<and> rc_comment r = ad_comment v)"

text \<open>What may be handed over for the snapshot \<open>z\<close>, when the submission ends with \<open>result\<close>.\<close>

definition handover_fits :: "(json \<Rightarrow> string) \<Rightarrow> 'w service_ports \<Rightarrow> approval_decision \<Rightarrow> incident_snapshot
    \<Rightarrow> incident_snapshot res \<Rightarrow> handover \<Rightarrow> bool" where
  "handover_fits H p v z result x = (case x of
       GraphResumed j t \<Rightarrow> \<not> xs_queued p \<and> zs_run z = None \<and> awaits p v z \<and> j = decision_dump v \<and> t = zs_thread_id z
         \<and> (\<forall>z'. result = Inr z' \<longrightarrow> zs_incident_id z' = zs_incident_id z \<and> records p v (zs_incident_id z) (zs_state z'))
     | ApprovalQueued run j b \<Rightarrow>
         (\<exists>r. zs_run z = Some r \<and> run = ru_run_id r \<and> awaits p v z \<and> j = decision_dump v
              \<and> b = JStr (state_binding H (zs_state z)))
       \<or> (\<exists>(row :: run_row) saved. run = r_run_id row \<and> r_approval_payload row = Some saved \<and> jindex saved ''decision'' = Inr j
              \<and> py_eq j (decision_dump v) \<and> jindex saved ''binding'' = Inr b))"

definition submission_outcome :: "(json \<Rightarrow> string) \<Rightarrow> 'w service_ports \<Rightarrow> approval_decision \<Rightarrow> incident_snapshot
    \<Rightarrow> incident_snapshot res \<Rightarrow> handover list \<Rightarrow> bool" where
  "submission_outcome H p v z result h = (case h of
       [] \<Rightarrow> (case result of Inl e \<Rightarrow> True | Inr z' \<Rightarrow> z' = z \<and> records p v (zs_incident_id z) (zs_state z))
     | [x] \<Rightarrow> handover_fits H p v z result x
     | _ \<Rightarrow> False)"

lemma heard_simps [simp]:
  "xs_queued (heard p) = xs_queued p" "xs_runs (heard p) = map_option heard_runs (xs_runs p)"
  "xs_decode_record (heard p) = xs_decode_record p" "xs_decode_request (heard p) = xs_decode_request p"
  "xs_resume (heard p) v t = noting (GraphResumed v t) (xs_resume p v t)"
  by (simp_all add: heard_def)

lemma pending_awaits:
  assumes "request_pending (heard p) v z = Inr ()" and "dget (zs_state z) ''approval_record'' = JNull"
  shows "awaits p v z"
  using assms by (auto simp: request_pending_def awaits_def bindE_def catchE_def split: if_splits sum.splits)

lemma confirmed_records: "confirm_record (heard p) v i st = Inr () \<Longrightarrow> records p v i st"
  by (auto simp: confirm_record_def records_def same_decision_def bindE_def catchE_def split: if_splits sum.splits)

lemma decided_records:
  assumes "decided_before (heard p) (dget (zs_state z) ''approval_record'') v z = Inr z'"
  shows "z' = z \<and> records p v (zs_incident_id z) (zs_state z)"
  using assms by (auto simp: decided_before_def records_def same_decision_def bindE_def catchE_def split: if_splits sum.splits)

lemma queueing:
  assumes "with_runs (heard p) (\<lambda>rm. xm_queue_approval rm r v b) w = (x, w')"
  shows "snd w' = snd w @ [ApprovalQueued r v b] \<or> (\<exists>e. x = Inl e \<and> w' = w)"
  using assms by (auto simp: with_runs_def heard_runs_def io_simps split: option.splits)

lemma recording:
  assumes "bindW (recorded_phase (heard p) i st) (\<lambda>_. returnW z') w = (result, w')"
  shows "snd w' = snd w \<and> (\<forall>z. result = Inr z \<longrightarrow> z = z')"
proof -
  from assms consider e where "recorded_phase (heard p) i st w = (Inl e, w')" and "result = Inl e"
    | x where "recorded_phase (heard p) i st w = (Inr x, w')" and "result = Inr z'"
    by (auto simp: bindW_eq returnW_eq)
  then show ?thesis
    by cases (simp_all add: unheardD [OF unheard_recorded])
qed

lemma asked:
  assumes "resumed_state (heard p) v z (u, []) = (x, w1)"
  shows "snd w1 = [GraphResumed (decision_dump v) (zs_thread_id z)]"
    and "x = Inr st \<Longrightarrow> records p v (zs_incident_id z) st"
proof -
  from rethrow_inv [OF assms [unfolded resumed_state_def as_graph_error_def]] obtain y where
    y: "bindW (xs_resume (heard p) (decision_dump v) (zs_thread_id z)) (\<lambda>result.
          liftW (bindE (normalize_state (zs_incident_id z) result) (\<lambda>st.
            bindE (confirm_record (heard p) v (zs_incident_id z) st) (\<lambda>_. Inr st)))) (u, []) = (y, w1)"
    and xy: "\<And>st. x = Inr st \<Longrightarrow> y = Inr st"
    by blast
  from y show "snd w1 = [GraphResumed (decision_dump v) (zs_thread_id z)]"
    by (auto simp: bindW_eq noting_eq liftW_eq)
  assume "x = Inr st"
  with y xy have "\<exists>result. bindE (normalize_state (zs_incident_id z) result) (\<lambda>st.
      bindE (confirm_record (heard p) v (zs_incident_id z) st) (\<lambda>_. Inr st)) = Inr st"
    by (simp only: bindW_eq liftW_eq) blast
  then show "records p v (zs_incident_id z) st"
    by (auto simp: bindE_eq_Inr dest: confirmed_records)
qed

lemma resuming:
  assumes "resume_graph (heard p) v z (u, []) = (result, w')" and "zs_run z = None" and "\<not> xs_queued p" and "awaits p v z"
  shows "submission_outcome H p v z result (snd w')"
proof -
  let ?x = "GraphResumed (decision_dump v) (zs_thread_id z)"
  obtain x w1 where ask: "resumed_state (heard p) v z (u, []) = (x, w1)"
    by (rule prod.exhaust)
  note h = asked(1) [OF ask]
  note step = assms(1) [unfolded resume_graph_def bindW_known [where m = "resumed_state (heard p) v z", OF ask]]
  have "snd w' = [?x] \<and> (\<forall>z'. result = Inr z' \<longrightarrow> zs_incident_id z' = zs_incident_id z
      \<and> records p v (zs_incident_id z) (zs_state z'))"
  proof (cases x)
    case (Inl e)
    with step have "result = Inl e" and "w' = w1"
      by simp_all
    with h show ?thesis
      by simp
  next
    case (Inr st)
    with step have "bindW (recorded_phase (heard p) (zs_incident_id z) st) (\<lambda>_. returnW
        \<lparr>zs_incident_id = zs_incident_id z, zs_thread_id = zs_thread_id z, zs_state = st,
         zs_run = None, zs_queued = False, zs_worker_available = False\<rparr>) w1 = (result, w')"
      by simp
    from recording [OF this] h asked(2) [OF ask Inr] show ?thesis
      by auto
  qed
  with assms(2-4) have "snd w' = [?x]" and "handover_fits H p v z result ?x"
    unfolding handover_fits_def handover.case by blast+
  then show ?thesis
    by (simp add: submission_outcome_def)
qed

lemma queueing_again:
  assumes "queue_again (heard p) row saved v z (u, []) = (result, w')" and "r_approval_payload row = Some saved"
  shows "submission_outcome H p v z result (snd w') \<or> snd w' = [] \<and> (\<exists>e. result = Inl e)"
  using assms by (auto simp: queue_again_def io_simps submission_outcome_def handover_fits_def dest!: queueing split: if_splits)

lemma saved_is_payload:
  assumes "saved_decision p z w = (Inr (Some (row, saved)), w')"
  shows "r_approval_payload row = Some saved"
  using assms by (auto simp: saved_decision_def io_simps split: if_splits option.splits)

lemma deciding:
  assumes "decide_pending H (heard p) i v z (u, []) = (result, w')" and "xs_queued p \<longrightarrow> zs_run z \<noteq> None"
  shows "submission_outcome H p v z result (snd w') \<or> snd w' = [] \<and> (\<exists>e. result = Inl e)"
proof (cases "dget (zs_state z) ''approval_record'' = JNull")
  case False
  with assms(1) have "decided_before (heard p) (dget (zs_state z) ''approval_record'') v z = result" and "snd w' = []"
    by (auto simp: decide_pending_def io_simps)
  with decided_records [of p z v] show ?thesis
    by (cases result) (auto simp: submission_outcome_def)
next
  case True
  then show ?thesis
  proof (cases "request_pending (heard p) v z")
    case (Inl e)
    with True assms(1) show ?thesis
      by (auto simp: decide_pending_def io_simps)
  next
    case (Inr x)
    then have awaits: "awaits p v z"
      using True by (simp add: pending_awaits)
    show ?thesis
    proof (cases "zs_run z")
      case None
      with True Inr assms have "resume_graph (heard p) v z (u, []) = (result, w')" and "\<not> xs_queued p"
        by (auto simp: decide_pending_def io_simps)
      from resuming [OF this(1) None this(2) awaits] show ?thesis ..
    next
      case (Some r)
      let ?x = "ApprovalQueued (ru_run_id r) (decision_dump v) (JStr (state_binding H (zs_state z)))"
      from True Inr Some assms(1) have "snd w' = [?x] \<or> snd w' = [] \<and> (\<exists>e. result = Inl e)"
        by (auto simp: decide_pending_def bindW_eq liftW_eq dest!: queueing dest: unheardD [OF unheard_get])
      with Some awaits show ?thesis
        by (auto simp: submission_outcome_def handover_fits_def)
    qed
  qed
qed


section \<open>An example\<close>

text \<open>The surroundings hold one checkpoint; resuming it records the decision.\<close>

definition demo_waiting :: dict where
  "demo_waiting = [(''incident_id'', JStr ''inc-1''), (''phase'', JStr ''awaiting_approval''), (''approval_status'', JStr ''pending'')]"

definition demo_closed :: dict where
  "demo_closed = [(''incident_id'', JStr ''inc-1''), (''phase'', JStr ''completed''), (''approval_record'', JBool True)]"

definition demo_metadata :: incident_record where
  "demo_metadata = stored_at 5 \<lparr>nr_incident_id = ''inc-1'', nr_thread_id = ''thread-1'', nr_namespace = ''agent-demo'',
     nr_service_name = ''order-service'', nr_description = ''orders fail'', nr_phase = ''created''\<rparr>"

definition demo_ports :: "(string \<Rightarrow> (json, json) io) \<Rightarrow> json service_ports" where
  "demo_ports start = \<lparr>xs_queued = False, xs_id_factory = returnW ''inc-1 '', xs_new_id = returnW ''id-1'',
     xs_start = (\<lambda>d. start), xs_resume = (\<lambda>v t w. (Inr (JObj demo_closed), JObj demo_closed)),
     xs_state = (\<lambda>t w. (Inr w, w)), xs_create = (\<lambda>n. returnW (stored_at 5 n)),
     xs_get = (\<lambda>i. returnW (Some demo_metadata)), xs_update_phase = (\<lambda>i ph. returnW (Some demo_metadata)),
     xs_delete = (\<lambda>i. returnW True), xs_runs = None,
     xs_decode_record = (\<lambda>v. if v = JNull then Inl ValidationError else Inr demo_record),
     xs_decode_request = (\<lambda>v. Inr demo_approval), xs_text = (\<lambda>v. case v of JStr s \<Rightarrow> s | _ \<Rightarrow> ''unknown'')\<rparr>"

definition demo_graph :: "string \<Rightarrow> (json, json) io" where
  "demo_graph t w = (Inr (JObj demo_waiting), JObj demo_waiting)"

definition demo_broken :: "string \<Rightarrow> (json, json) io" where
  "demo_broken t = raiseW (OtherError ''GraphRecursionError'')"

definition demo_outcome :: "incident_snapshot res" where
  "demo_outcome = Inr \<lparr>zs_incident_id = ''inc-1'', zs_thread_id = ''thread-1'', zs_state = demo_closed,
     zs_run = None, zs_queued = False, zs_worker_available = False\<rparr>"

definition demo_handover :: handover where
  "demo_handover = GraphResumed (decision_dump (demo_decision\<lparr>ad_approver := ''alice''\<rparr>)) ''thread-1''"

lemma demo_submission: "submit_approval demo_hash (heard (demo_ports demo_graph)) ''inc-1'' demo_decision (JObj demo_waiting, [])
    = (demo_outcome, (JObj demo_closed, [demo_handover]))"
  by code_simp


section \<open>Creating leaves no debris\<close>

text \<open>
  The service over a repository whose contract holds: the graph, the clock and the identifiers do not touch the metadata.
\<close>

definition tidy_request :: "create_request \<Rightarrow> bool" where
  "tidy_request q = (tidy (cr_namespace q) \<and> tidy (cr_service_name q) \<and> tidy (cr_description q))"

lemma rethrow_eq [io_simps]: "rethrow P e m w = (r, w') \<longleftrightarrow>
    (\<exists>x. m w = (Inl x, w') \<and> r = Inl (if P x then e else x)) \<or> (\<exists>v. m w = (Inr v, w') \<and> r = Inr v)"
  by (cases "m w"; cases "fst (m w)") (auto simp: rethrow_def bindW_eq tryW_eq raiseW_eq returnW_eq)

locale metadata_service = incident_metadata create lookup update_phase remove entries
  for create :: "new_incident \<Rightarrow> ('w, incident_record) io" and lookup :: "string \<Rightarrow> ('w, incident_record option) io"
    and update_phase :: "string \<Rightarrow> string \<Rightarrow> ('w, incident_record option) io" and remove :: "string \<Rightarrow> ('w, bool) io"
    and entries :: "'w \<Rightarrow> string \<Rightarrow> incident_record option" +
  fixes p :: "'w service_ports"
  assumes repository: "xs_create p = create" "xs_get p = lookup" "xs_update_phase p = update_phase" "xs_delete p = remove"
    and identifiers: "xs_id_factory p w = (x, w') \<Longrightarrow> entries w' = entries w"
    and graph: "xs_start p d t w = (y, w') \<Longrightarrow> entries w' = entries w"
begin

lemma started: "run_new p i q w = (r, w') \<Longrightarrow> entries w' = entries w"
  unfolding run_new_def by (auto simp: bindW_eq liftW_eq dest: graph)

lemma inserted:
  assumes "repository_call (xs_create p n) w = (r, w')" and "tidy_record n"
  shows "case r of Inl e \<Rightarrow> entries w' = entries w
    | Inr x \<Rightarrow> entries w (nr_incident_id n) = None \<and> (\<exists>now. x = stored_at now n)
        \<and> entries w' = (entries w)(nr_incident_id n \<mapsto> x)"
  using assms by (auto simp: repository_call_def rethrow_eq repository dest: created not_created)

lemma update_recorded:
  assumes "recorded_phase p i st w = (r, w')" and "tidy i" and "entries w i = Some x"
  shows "case r of Inl e \<Rightarrow> entries w' = entries w \<and> (\<exists>e'. update_phase i (public_phase p st) w = (Inl e', w'))
    | Inr _ \<Rightarrow> \<exists>now ph. (tidy (public_phase p st) \<longrightarrow> ph = public_phase p st) \<and> entries w' = (entries w)(i \<mapsto> in_phase ph now x)"
proof -
  from assms(1) consider e where "update_phase i (public_phase p st) w = (Inl e, w')" and "\<exists>e. r = Inl e"
    | "update_phase i (public_phase p st) w = (Inr None, w')"
    | y where "update_phase i (public_phase p st) w = (Inr (Some y), w')" and "r = Inr ()"
    by (auto simp: recorded_phase_def repository_call_def bindW_eq rethrow_eq raiseW_eq returnW_eq repository split: if_splits)
  then show ?thesis
  proof cases
    case 1
    then show ?thesis
      using not_updated by auto
  next
    case 2
    with update_finds [OF assms(2)] assms(3) show ?thesis
      by auto
  next
    case 3
    with updated [OF assms(2) 3(1)] assms(3) show ?thesis
      by auto
  qed
qed

lemma deleted:
  assumes "delete_failed_incident p i w = (r, w')" and "tidy i" and "\<And>e w'. remove i w \<noteq> (Inl e, w')"
  shows "r = Inr () \<and> entries w' = (entries w)(i := None)"
proof -
  obtain found w1 where "remove i w = (Inr found, w1)"
    using assms(3) by (cases "remove i w"; cases "fst (remove i w)") auto
  with assms(1) removed [OF assms(2) this] show ?thesis
    by (auto simp: delete_failed_incident_def bindW_def tryW_def returnW_def repository)
qed

lemma completing:
  assumes run: "bindW (tryW (run_new p i q)) (\<lambda>r. case r of
       Inl e \<Rightarrow> bindW (delete_failed_incident p i) (\<lambda>_. raiseW IncidentGraphError)
     | Inr st \<Rightarrow> bindW (recorded_phase p i st) (\<lambda>_. returnW (z st))) w = (r, w')"
    and "tidy i" and x: "entries w i = Some x"
    and reliable: "\<And>e w'. \<And>w. remove i w \<noteq> (Inl e, w')" "\<And>ph w e w'. update_phase i ph w \<noteq> (Inl e, w')"
  shows "(\<exists>e. r = Inl e) \<and> entries w' = (entries w)(i := None)
    \<or> (\<exists>st now ph. r = Inr (z st) \<and> (tidy (public_phase p st) \<longrightarrow> ph = public_phase p st)
        \<and> entries w' = (entries w)(i \<mapsto> in_phase ph now x))"
proof -
  obtain y w1 where y: "run_new p i q w = (y, w1)"
    by (rule prod.exhaust)
  note same = started [OF y]
  show ?thesis
  proof (cases y)
    case (Inl e)
    with run y obtain d w2 where "delete_failed_incident p i w1 = (d, w2)" and "\<exists>e. r = Inl e" and "w' = w2"
      by (auto simp: bindW_eq tryW_eq raiseW_eq)
    with deleted [OF this(1) \<open>tidy i\<close> reliable(1)] same show ?thesis
      by simp
  next
    case (Inr st)
    obtain u w2 where u: "recorded_phase p i st w1 = (u, w2)"
      by (rule prod.exhaust)
    from update_recorded [OF u \<open>tidy i\<close>] same x reliable(2) obtain v where "u = Inr v"
      and "\<exists>now ph. (tidy (public_phase p st) \<longrightarrow> ph = public_phase p st) \<and> entries w2 = (entries w1)(i \<mapsto> in_phase ph now x)"
      by (cases u) auto
    moreover from run y Inr u \<open>u = Inr v\<close> have "r = Inr (z st)" and "w' = w2"
      by (auto simp: bindW_def tryW_def returnW_def)
    ultimately show ?thesis
      using same by auto
  qed
qed

lemma creation:
  assumes run: "create_sync p q w = (r, w')" and tidy: "tidy_request q"
    and reliable: "\<And>i w e w'. remove i w \<noteq> (Inl e, w')" "\<And>i ph w e w'. update_phase i ph w \<noteq> (Inl e, w')"
  shows "case r of Inl e \<Rightarrow> entries w' = entries w
    | Inr z \<Rightarrow> entries w (zs_incident_id z) = None \<and> (\<exists>now now' ph. (tidy (public_phase p (zs_state z)) \<longrightarrow> ph = public_phase p (zs_state z))
        \<and> entries w' = (entries w)(zs_incident_id z \<mapsto> in_phase ph now' (stored_at now (metadata_of (zs_incident_id z) q))))"
proof -
  obtain x w1 where x: "xs_id_factory p w = (x, w1)"
    by (rule prod.exhaust)
  note same = identifiers [OF x]
  note step = run [unfolded create_sync_def bindW_known [where m = "xs_id_factory p", OF x]]
  show ?thesis
  proof (cases "\<exists>raw. x = Inr raw \<and> strip raw \<noteq> []")
    case False
    with step same show ?thesis
      by (cases x) (auto simp: raiseW_eq)
  next
    case True
    then obtain raw where raw: "x = Inr raw" and "strip raw \<noteq> []"
      by blast
    define i where "i = strip raw"
    have i: "tidy i" "i \<noteq> []"
      using \<open>strip raw \<noteq> []\<close> by (simp_all add: i_def tidy_def strip_idem)
    then have "tidy_record (metadata_of i q)"
      using tidy by (simp add: tidy_record_def metadata_of_def tidy_request_def) (simp add: tidy_def strip_def is_space_def)
    obtain y w2 where y: "repository_call (xs_create p (metadata_of i q)) w1 = (y, w2)"
      by (rule prod.exhaust)
    from inserted [OF y \<open>tidy_record (metadata_of i q)\<close>] show ?thesis
    proof (cases y)
      case (Inl e)
      with step raw i(2) y inserted [OF y \<open>tidy_record (metadata_of i q)\<close>] same show ?thesis
        by (auto simp: i_def Let_def bindW_known)
    next
      case (Inr n)
      from inserted [OF y \<open>tidy_record (metadata_of i q)\<close>] Inr same obtain now where
        new: "entries w i = None" and n: "n = stored_at now (metadata_of i q)" and w2: "entries w2 = (entries w)(i \<mapsto> n)"
        by (auto simp: metadata_of_def)
      from step raw i(2) y Inr have rest: "bindW (tryW (run_new p i q)) (\<lambda>r. case r of
          Inl e \<Rightarrow> bindW (delete_failed_incident p i) (\<lambda>_. raiseW IncidentGraphError)
        | Inr st \<Rightarrow> bindW (recorded_phase p i st) (\<lambda>_. returnW \<lparr>zs_incident_id = i, zs_thread_id = i, zs_state = st,
            zs_run = None, zs_queued = False, zs_worker_available = False\<rparr>)) w2 = (r, w')"
        by (simp add: i_def [symmetric] Let_def bindW_known)
      from completing [OF rest i(1)] w2 reliable have "(\<exists>e. r = Inl e) \<and> entries w' = (entries w2)(i := None)
        \<or> (\<exists>st now' ph. r = Inr \<lparr>zs_incident_id = i, zs_thread_id = i, zs_state = st,
            zs_run = None, zs_queued = False, zs_worker_available = False\<rparr>
            \<and> (tidy (public_phase p st) \<longrightarrow> ph = public_phase p st) \<and> entries w' = (entries w2)(i \<mapsto> in_phase ph now' n))"
        by simp
      with new n w2 show ?thesis
        by (auto simp: fun_upd_idem) blast+
    qed
  qed
qed

end

section \<open>The two services\<close>

text \<open>A call that leaves the metadata alone\<close>

definition beside :: "('v, 'a) io \<Rightarrow> ('m \<times> 'v, 'a) io" where
  "beside f = (\<lambda>(m, v). case f v of (r, v') \<Rightarrow> (r, (m, v')))"

lemma beside_eq [io_simps]: "beside f w = (r, w') \<longleftrightarrow> (\<exists>v. f (snd w) = (r, v) \<and> w' = (fst w, v))"
  by (cases w) (auto simp: beside_def split: prod.splits)

definition runs_beside :: "'v run_methods \<Rightarrow> ('m \<times> 'v) run_methods" where
  "runs_beside rm = \<lparr>xm_accept = (\<lambda>i r t q k. beside (xm_accept rm i r t q k)), xm_latest = (\<lambda>i. beside (xm_latest rm i)),
     xm_by_key = (\<lambda>k. beside (xm_by_key rm k)), xm_queue_approval = (\<lambda>r v b. beside (xm_queue_approval rm r v b)),
     xm_worker_available = beside (xm_worker_available rm), xm_history = (\<lambda>i. beside (xm_history rm i))\<rparr>"

definition service_over :: "(new_incident \<Rightarrow> ('m \<times> 'v, incident_record) io) \<Rightarrow> (string \<Rightarrow> ('m \<times> 'v, incident_record option) io)
    \<Rightarrow> (string \<Rightarrow> string \<Rightarrow> ('m \<times> 'v, incident_record option) io) \<Rightarrow> (string \<Rightarrow> ('m \<times> 'v, bool) io)
    \<Rightarrow> 'v service_ports \<Rightarrow> ('m \<times> 'v) service_ports" where
  "service_over create lookup update remove p = \<lparr>xs_queued = xs_queued p, xs_id_factory = beside (xs_id_factory p),
     xs_new_id = beside (xs_new_id p), xs_start = (\<lambda>d t. beside (xs_start p d t)), xs_resume = (\<lambda>v t. beside (xs_resume p v t)),
     xs_state = (\<lambda>t. beside (xs_state p t)), xs_create = create, xs_get = lookup, xs_update_phase = update, xs_delete = remove,
     xs_runs = map_option runs_beside (xs_runs p), xs_decode_record = xs_decode_record p,
     xs_decode_request = xs_decode_request p, xs_text = xs_text p\<rparr>"

text \<open>The default of the constructor, and the service of the deployment\<close>

definition memory_service :: "('v \<Rightarrow> int \<times> 'v) \<Rightarrow> 'v service_ports \<Rightarrow> (memory \<times> 'v) service_ports" where
  "memory_service tick = service_over (memory_create tick) memory_get (memory_update_phase tick) memory_delete"

definition postgres_service :: "('v, int) io \<Rightarrow> 'v service_ports \<Rightarrow> (incident_table \<times> 'v) service_ports" where
  "postgres_service connect = service_over (postgres_create connect) (postgres_get connect) (postgres_update_phase connect)
     (postgres_delete connect)"

interpretation ms: metadata_service "memory_create tick" memory_get "memory_update_phase tick" memory_delete memory_entries
    "memory_service tick p" for tick :: "'v \<Rightarrow> int \<times> 'v" and p
  by unfold_locales (auto simp: memory_service_def service_over_def memory_entries_def beside_eq)

interpretation ps: metadata_service "postgres_create connect" "postgres_get connect" "postgres_update_phase connect"
    "postgres_delete connect" table_entries "postgres_service connect p" for connect :: "('v, int) io" and p
  by unfold_locales (auto simp: postgres_service_def service_over_def table_entries_def fun_eq_iff beside_eq)

lemma memory_delete_returns: "memory_delete i w \<noteq> (Inl e, w')"
  by (cases w) (simp add: memory_delete_def)

lemma memory_update_returns: "memory_update_phase tick i ph w \<noteq> (Inl e, w')"
  by (cases w) (auto simp: memory_update_phase_def split: option.splits prod.splits)

text \<open>C23. Creating an incident synchronously, over the in-memory repository, is all or nothing: when it raises, whether
  the identifier, the graph or the state it returned was at fault, the metadata are what they were; when it returns, they
  differ by one new incident, that of the snapshot, which holds the request's namespace, service and description
  and the phase the workflow ended in.\<close>

theorem failed_creation_cleaned:
  assumes "create_sync (memory_service tick p) q w = (r, w')" and "tidy_request q"
  shows "case r of Inl e \<Rightarrow> memory_entries w' = memory_entries w
    | Inr z \<Rightarrow> memory_entries w (zs_incident_id z) = None
        \<and> (\<exists>now now' ph. (tidy (public_phase p (zs_state z)) \<longrightarrow> ph = public_phase p (zs_state z))
            \<and> memory_entries w' = (memory_entries w)(zs_incident_id z \<mapsto>
                in_phase ph now' (stored_at now (metadata_of (zs_incident_id z) q))))"
proof -
  have phase: "public_phase (memory_service tick p) = public_phase p"
    by (simp add: fun_eq_iff public_phase_def memory_service_def service_over_def Let_def)
  show ?thesis
    using ms.creation [OF assms memory_delete_returns memory_update_returns] unfolding phase .
qed

definition demo_clock :: "json \<Rightarrow> int \<times> json" where
  "demo_clock v = (7, v)"

definition demo_incident :: create_request where
  "demo_incident = \<lparr>cr_namespace = ''agent-demo'', cr_service_name = ''order-service'', cr_description = ''orders fail''\<rparr>"

definition demo_created :: incident_snapshot where
  "demo_created = \<lparr>zs_incident_id = ''inc-1'', zs_thread_id = ''inc-1'', zs_state = demo_waiting,
     zs_run = None, zs_queued = False, zs_worker_available = False\<rparr>"

lemma demo_creation: "create_sync (memory_service demo_clock (demo_ports demo_graph)) demo_incident ([], JNull)
    = (Inr demo_created, ([(''inc-1'', in_phase ''awaiting_approval'' 7 (stored_at 7 (metadata_of ''inc-1'' demo_incident)))], JObj demo_waiting))"
  by code_simp

lemma demo_failure: "create_sync (memory_service demo_clock (demo_ports demo_broken)) demo_incident ([], JNull)
    = (Inl IncidentGraphError, ([], JNull))"
  by code_simp

lemma demo_incident_tidy: "tidy_request demo_incident"
  by code_simp

theorem failed_creation_cleaned_witness:
  "memory_entries ([] :: memory, JNull) (zs_incident_id demo_created) = None
   \<and> memory_entries (snd (create_sync (memory_service demo_clock (demo_ports demo_broken)) demo_incident ([], JNull)))
     = memory_entries ([] :: memory, JNull)"
  using failed_creation_cleaned [OF demo_creation demo_incident_tidy] failed_creation_cleaned [OF demo_failure demo_incident_tidy]
  by (simp add: demo_failure)

end
