(* ===== verification/Spec2Isabelle.thy ===== *)
theory Spec2Isabelle
  imports ApprovalProps RuleProps JournalProps RunProps ToolsProps ExecutorProps LedgerProps ObservationProps StabilityProps WorkflowProps WorkerProps BudgetProps IncidentServiceProps
begin

section \<open>The Kubernetes incident agent\<close>

text \<open>
  Verification library of the Kubernetes incident agent, the Python program under \<open>src/backend/app\<close>.

  \<^bold>\<open>The program.\<close> An incident is a report about a registered service of the namespace \<open>agent-demo\<close>. The
  program collects evidence about it from the cluster, asks a language model for a diagnosis and a
  plan, checks both against rules computed from the evidence, asks a human to approve a plan that
  writes, writes at most one patch (the selector of a Service or the readiness probe of a Deployment) and
  verifies that the service has recovered. The parts, from the inside out:

  \<^item> \<^emph>\<open>Reading\<close> (\<open>tools/*_tools.py\<close>, \<open>tools/log_text.py\<close>, \<open>tools/evidence_collector.py\<close>, \<open>diagnosis/\<close>): the reads of the
    cluster, their composition into one bundle of evidence, and the rules that diagnose a bundle without a model.
  \<^item> \<^emph>\<open>Policies\<close> (\<open>agent/*_policy.py\<close>, \<open>agent/approval.py\<close>, \<open>agent/target_identity.py\<close>, \<open>service_profiles/\<close>):
    pure functions of the collected state. They decide which diagnoses and plans are accepted and what an
    approval binds.
  \<^item> \<^emph>\<open>Writes\<close> (\<open>tools/remediation_tools.py\<close>, \<open>agent/executor.py\<close>, \<open>runtime/operations.py\<close>): the two
    patches, the direct executor, and the durable executor that records every step in a journal.
  \<^item> \<^emph>\<open>Verification\<close> (\<open>agent/verification.py\<close>, \<open>business_recovery.py\<close>, \<open>observation.py\<close>, \<open>stability.py\<close>,
    \<open>collector_adapter.py\<close>): polling the resources, then a window of repeated samples.
  \<^item> \<^emph>\<open>Workflow\<close> (\<open>agent/nodes.py\<close>, \<open>agent/graph.py\<close>, \<open>agent/clarification.py\<close>): the nodes of the graph that calls
    all of the above, its routing, and its interruptions for a human.
  \<^item> \<^emph>\<open>Store\<close> (\<open>persistence/\<close>): PostgreSQL tables and the repositories' methods on them, each one transaction:
    accepting runs, leases with a fencing epoch, the journal of operations, user control, rounds,
    interactions, delayed rechecks.
  \<^item> \<^emph>\<open>Runtime\<close> (\<open>runtime/\<close>): a worker claims a run, classifies what an earlier worker left behind, runs the graph
    and publishes the result; a budget limits what a run may spend.
  \<^item> \<^emph>\<open>Service\<close> (\<open>services/incident_service.py\<close>): creates and shows incidents and hands approvals to the graph or to
    the queue of the runtime.

  \<^bold>\<open>Theories and the code they model.\<close>

  \<^item> \<open>Prelude\<close>: Python exceptions as values of a sum type (the monad \<open>bindE\<close>, \<open>require\<close>, \<open>catchE\<close>), JSON
    values with Python's access and equality, canonical JSON text, string operations.
  \<^item> \<open>Schemas\<close>, \<open>ProfileModels\<close>, \<open>State\<close>: the models of \<open>agent/schemas.py\<close>, \<open>service_profiles/models.py\<close> and
    \<open>agent/state.py\<close> as records, Literals as datatypes, the validators as predicates or fallible functions.
  \<^item> \<open>Registry\<close>, \<open>BusinessTarget\<close>: \<open>service_profiles/registry.py\<close>; \<open>validate_target\<close> of
    \<open>business_checks/protocol.py\<close> with \<open>build_target\<close> of its collector.
  \<^item> \<open>DiagnosisPolicy\<close>, \<open>TargetIdentity\<close>, \<open>RemediationPolicy\<close>, \<open>Approval\<close>, \<open>ExecutionPolicy\<close>: the files of the
    same name, every check in the order of the code. \<open>References\<close> and \<open>DiagnosisReport\<close>: the reference search of
    \<open>nodes.py\<close> and \<open>diagnosis_report.py\<close>.
  \<^item> \<open>Store\<close>: the tables of \<open>migrations.py\<close> as lists of row records and the transaction monad \<open>bindT\<close>, in which an
    exception rolls the whole transaction back. \<open>Runs\<close>, \<open>Leases\<close>, \<open>Operations\<close>, \<open>Controls\<close>, \<open>Rounds\<close>
    (with \<open>messages.py\<close>), \<open>Dialogue\<close> (\<open>interactions.py\<close> and the answers of \<open>controls.py\<close>), \<open>DelayedRechecks\<close> (with
    \<open>observations.py\<close>): one definition per repository method.
  \<^item> \<open>System\<close>: the actions of the API, the workers and the users as an inductive step relation on the database and
    its clock; a crashed worker is one that takes no more steps.
  \<^item> \<open>Effects\<close>, \<open>Cluster\<close>: computations over an arbitrary world, the client calls as a record of operations, and
    the Kubernetes objects the writes read. \<open>RemediationTools\<close>, \<open>Executor\<close>, \<open>Ledger\<close>: the three files of
    the writes. \<open>JsonPatch\<close>: RFC 6902 as the reference for what the API server does.
  \<^item> \<open>LogText\<close>, \<open>Readings\<close>, \<open>EvidenceCollector\<close>, \<open>RuleDiagnosis\<close>: \<open>log_text.py\<close>; \<open>schemas/kubernetes.py\<close> with the reads of
    \<open>service_tools.py\<close>, \<open>pod_tools.py\<close>, \<open>workload_tools.py\<close> and \<open>node_tools.py\<close>; \<open>evidence_collector.py\<close>; \<open>diagnosis/rules.py\<close>
    and \<open>engine.py\<close>.
  \<^item> \<open>Incidents\<close>, \<open>IncidentService\<close>: \<open>persistence/incidents.py\<close>, whose two repositories keep the contract stated as the
    locale \<open>incident_metadata\<close>, and \<open>services/incident_service.py\<close>.
  \<^item> \<open>Verification\<close>, \<open>Collection\<close>, \<open>Recovered\<close>, \<open>Observation\<close>: the files of the verification.
  \<^item> \<open>Workflow\<close>, \<open>WorkflowNodes\<close>, \<open>WorkflowGraph\<close>: the state, the nodes, and the routing with runs from node to
    node. \<open>Resumption\<close>, \<open>Worker\<close>, \<open>Budget\<close>: \<open>runtime/recovery.py\<close>, \<open>worker.py\<close> and \<open>budget.py\<close>.
\<close>

subsection \<open>What the lemmas show\<close>

text \<open>
  Each claim \<open>C1\<close> to \<open>C40\<close> stands in a theory named \<open>...Props\<close> or beside the component, its witness right after it.

  \<^item> \<open>DiagnosisFacts\<close>, \<open>DiagnosisProps\<close>: what a computed fact means in terms of the evidence, and that an accepted
    diagnosis rests on such facts. \<open>PlanProps\<close>, \<open>PlanPreparation\<close>: an allowed write is grounded, a validated one
    writes registered values only, and preparation changes references only. \<open>ApprovalProps\<close>: what a revision
    binds and what an authorised execution has behind it.
  \<^item> \<open>StoreInvariants\<close> defines how a transaction may change the database (\<open>evolves\<close>: rows stay, epochs and
    revisions grow, terminal statuses and approved content stay) and the constraints of the schema (\<open>consistent\<close>);
    \<open>StoreSafety\<close>, \<open>DialogueSafety\<close> and \<open>DelayedRechecks\<close> prove \<open>safe\<close> for every method. \<open>SystemFacts\<close>,
    \<open>WriteExclusion\<close>, \<open>SystemProps\<close>, \<open>JournalProps\<close>, \<open>RunProps\<close> lift this to every reachable state: exclusive leases,
    one release per operation, one write in flight per incident, idempotent acceptance, effective stops.
  \<^item> \<open>Traces\<close>, \<open>ToolsFacts\<close>, \<open>ToolsProps\<close>, \<open>ExecutorProps\<close>, \<open>LedgerFacts\<close>, \<open>LedgerSite\<close>, \<open>LedgerProps\<close>: the calls a
    write makes, in order, for every answer of the cluster and the journal; what the body sent comes to
    under RFC 7386 and RFC 6902. \<open>LedgerSite\<close> states the contract the executor needs of a journal as a locale and
    interprets it on the repository's methods.
  \<^item> \<open>ObservationFacts\<close>, \<open>ObservationProps\<close>, \<open>RecoveryProps\<close>, \<open>StabilityProps\<close>: bounds and termination of the window
    and of the polling, and what a success rests on.
  \<^item> \<open>WorkflowFacts\<close>, \<open>WorkflowProps\<close>: what each node keeps of the state and which calls it makes; no execution
    without a human approval of this plan, bounded calls over all runs of an incident.
  \<^item> \<open>Resumption\<close>, \<open>WorkerProps\<close>, \<open>BudgetProps\<close>: a worker continues only what was classified as safe, contains every
    error, and the accounts of the budget are the sums over the recorded calls.
  \<^item> \<open>CollectorProps\<close>, \<open>RuleProps\<close>, \<open>LogText\<close>: collecting never raises and leaves a well-formed bundle, the rules give the
    first category whose cause the bundle shows, and a log sample is the longest end that fits.
  \<^item> \<open>IncidentServiceProps\<close>: which approvals are handed over, and that a failed creation leaves no metadata.
  \<^item> \<open>Scenario\<close> and the \<open>demo\<close> and \<open>bench\<close> definitions: a concrete incident on the demo service of
    \<open>config/service-profiles\<close>, on which the witnesses are evaluated.
\<close>

subsection \<open>Correspondence, parameters and assumptions\<close>

text \<open>
  \<^bold>\<open>Errors.\<close> Every \<open>raise\<close>, failed validation and early return is a branch with \<open>Inl\<close>; the exception carries its class
  and, where the code looks at it, its message. Messages for people are shortened or left out where no
  code reads them.

  \<^bold>\<open>Parameters.\<close> What is not under \<open>src/\<close> is an argument: the SHA-256 of a text, the text of a float and of
  \<open>repr\<close>, the clocks, the profile files, the decoding of untyped JSON by pydantic, the text of an exception, the Kubernetes client
  (\<open>clients\<close>), the journal seen by the durable executor (\<open>ledger\<close>), the surroundings of a window, of the verifier, of
  the workflow (\<open>workflow_ports\<close>), of a worker (\<open>worker_ports\<close>) and of the service (\<open>service_ports\<close>). Those records of calls work on an arbitrary world
  which every call may change, so the theorems hold for every answer and every interleaved change by others.
  Where a theorem needs documented behaviour of such a part it is a named hypothesis: the hash does
  not collide on the two texts at hand, a clock does not go back, a sleep takes its time.

  \<^bold>\<open>Transactions.\<close> A repository method is one atomic step: the code takes \<open>FOR UPDATE\<close> locks on the rows it decides
  on, and PostgreSQL rolls back on an exception. Waiting for locks, deadlocks and lost connections are not modelled
  beyond the exception the caller sees. Unique indexes are checks of the insert operations.

  \<^bold>\<open>The graph library.\<close> The runs of \<open>WorkflowGraph\<close> follow the documented behaviour of LangGraph: the update a node
  returns replaces the named fields, \<open>errors\<close> and the trace are appended, the state is checkpointed after each
  node, and a node that was interrupted starts again from its beginning when the run is resumed with an answer.

  \<^bold>\<open>Data.\<close> Integers are unbounded as in Python. Seconds, probabilities and scores are exact rationals. Strings hold
  code points below 256: Chinese prose is replaced by ASCII and the full-width characters of patterns are left out.
  Pydantic models are records; constraints that a constructor enforces are predicates checked where the code
  constructs the value. Dictionaries that end up in a digest are association lists in the order of their keys.

  \<^bold>\<open>Termination and bounds.\<close> All functions are total. The loop over samples (\<open>window_loop\<close>) and the run of the graph
  (\<open>run_from\<close>) have measures taken from the policy and from the counters the state carries, so no fuel is
  guessed. The polling of \<open>verification.py\<close> ends only if its clock moves, so it is a \<open>partial_function (option)\<close>, and
  \<open>resource_check_returns\<close> proves that it returns under \<open>steady_clock\<close>.
\<close>

subsection \<open>Not modelled\<close>

text \<open>
  The manifest lists every part with its status. Left out are: the HTTP layer (\<open>api/\<close>), the provider client
  and prompts (\<open>llm/\<close>), retrieval and indexing (\<open>rag/\<close> except the query text), telemetry, failpoints and debug capture,
  settings, scripts, the migration runner and the checkpointer adapter: input and output, glue to third-party
  libraries, or text for a model. Also left out is the read-only investigation loop (\<open>investigation/\<close> and
  \<open>tools/investigation.py\<close>), which works on prompts built from untyped JSON and on decoded model output; its budget,
  the policies it calls and every write it can lead to are modelled. Of the runtime, the
  threads of the worker (polling, heartbeat, signals) are left out; their transactions are steps of \<open>System\<close>.
  The deadline of a single cluster read (\<open>tools/deadline.py\<close>) is part of the client's behaviour: a read
  that takes too long raises like any other.
\<close>

end
